(* ===== verification/Prelude.thy ===== *)
theory Prelude
  imports Complex_Main "HOL-Library.Multiset" "HOL-Library.Sublist"
begin

text \<open>
  Shared vocabulary of the development: JavaScript numbers as exact rationals, the rounding
  that the code and the database columns perform, relational tables with generated keys, and
  results of operations that may throw after having written to the database.

  \<^item> \<open>js_round\<close> is \<open>Math.round\<close>: to the nearest integer, ties towards plus infinity.
  \<^item> \<open>dec2\<close> is what a \<open>Decimal(12, 2)\<close> column of \<open>schema.prisma\<close> keeps of a number: two
    decimals, ties away from zero.
  \<^item> a \<open>'r table\<close> is the list of its rows in insertion order, each under the key that was
    generated for it. The laws of the table operations are the locale \<open>row_store\<close>,
    interpreted on the operations below as \<open>tbl\<close>.
  \<^item> an \<open>('s, 'e, 'a) outcome\<close> is the value returned or the exception thrown, together with
    the state left behind: a service method that throws keeps the writes it made before,
    unless it runs inside \<open>$transaction\<close> (\<open>transactional\<close>).
\<close>

named_theorems op_defs \<open>definitions of the service operations\<close>
named_theorems frame_simps \<open>what an operation leaves unchanged\<close>

section \<open>Numbers\<close>

definition js_round :: "rat \<Rightarrow> rat" where
  "js_round x = of_int \<lfloor>x + 1 / 2\<rfloor>"

definition dec2 :: "rat \<Rightarrow> rat" where
  "dec2 x = (if 0 \<le> x then of_int \<lfloor>x * 100 + 1 / 2\<rfloor> / 100
             else - (of_int \<lfloor>1 / 2 - x * 100\<rfloor> / 100))"

text \<open>The columns of a currency rate are \<open>Decimal(12, 4)\<close>.\<close>

definition dec4 :: "rat \<Rightarrow> rat" where
  "dec4 x = dec2 (x * 100) / 100"

definition cents :: "rat \<Rightarrow> bool" where
  "cents x \<longleftrightarrow> x * 100 \<in> \<int>"

text \<open>
  A numeric environment variable, read as \<open>process.env.X ? Number(process.env.X) : NaN\<close> and
  used when finite and positive: \<open>None\<close> stands for an unset variable or one that is not a
  finite number.
\<close>

definition env_positive :: "rat option \<Rightarrow> rat \<Rightarrow> rat" where
  "env_positive configured fallback =
     (case configured of Some x \<Rightarrow> if 0 < x then x else fallback | None \<Rightarrow> fallback)"

lemma env_positive_pos: "0 < fallback \<Longrightarrow> 0 < env_positive configured fallback"
  by (simp add: env_positive_def split: option.split)

lemma js_round_of_int [simp]: "js_round (of_int i) = of_int i"
proof -
  have "\<lfloor>of_int i + 1 / 2 :: rat\<rfloor> = i"
    by (simp add: floor_eq_iff)
  then show ?thesis by (simp add: js_round_def)
qed

lemma js_round_Ints [simp]: "x \<in> \<int> \<Longrightarrow> js_round x = x"
  by (auto elim: Ints_cases)

lemma js_round_in_Ints [simp]: "js_round x \<in> \<int>"
  by (simp add: js_round_def)

lemma js_round_mono: "x \<le> y \<Longrightarrow> js_round x \<le> js_round y"
  by (simp add: js_round_def floor_mono)

lemma js_round_nonneg: "0 \<le> x \<Longrightarrow> 0 \<le> js_round x"
  using js_round_mono [of 0 x] js_round_of_int [of 0] by simp

lemma js_round_close: "\<bar>js_round x - x\<bar> \<le> 1 / 2"
proof -
  have "of_int \<lfloor>x + 1 / 2\<rfloor> \<le> x + 1 / 2" and "x + 1 / 2 < of_int \<lfloor>x + 1 / 2\<rfloor> + 1"
    by linarith+
  then show ?thesis unfolding js_round_def by (simp only: abs_le_iff) linarith
qed

lemma js_round_add_Ints: "a \<in> \<int> \<Longrightarrow> js_round (a + x) = a + js_round x"
proof (elim Ints_cases)
  fix z assume "a = of_int z"
  then have "\<lfloor>a + x + 1 / 2\<rfloor> = z + \<lfloor>x + 1 / 2\<rfloor>"
    by (metis add.assoc floor_add_int add.commute)
  with \<open>a = of_int z\<close> show ?thesis by (simp add: js_round_def)
qed

lemma dec2_cents [simp]: "cents x \<Longrightarrow> dec2 x = x"
proof -
  assume "cents x"
  then obtain k where k: "x * 100 = of_int k" by (auto simp: cents_def elim: Ints_cases)
  have "\<lfloor>of_int k + 1 / 2 :: rat\<rfloor> = k" "\<lfloor>1 / 2 - of_int k :: rat\<rfloor> = - k"
    by (simp_all add: floor_eq_iff)
  with k show ?thesis by (simp add: dec2_def field_simps)
qed

lemma cents_dec2 [simp]: "cents (dec2 x)"
  by (simp add: dec2_def cents_def)

lemma cents_0 [simp]: "cents 0"
  by (simp add: cents_def)

lemma cents_add [intro]: "cents x \<Longrightarrow> cents y \<Longrightarrow> cents (x + y)"
  by (simp add: cents_def distrib_right)

lemma cents_diff [intro]: "cents x \<Longrightarrow> cents y \<Longrightarrow> cents (x - y)"
  by (simp add: cents_def left_diff_distrib)

lemma cents_minus [intro]: "cents x \<Longrightarrow> cents (- x)"
  by (simp add: cents_def)

lemma cents_abs [intro]: "cents x \<Longrightarrow> cents \<bar>x\<bar>"
  by (simp add: abs_if cents_minus)

lemma cents_Ints: "x \<in> \<int> \<Longrightarrow> cents x"
  by (auto simp: cents_def intro: Ints_mult)

lemma cents_js_round [simp]: "cents (js_round x)"
  by (rule cents_Ints) simp

lemma cents_sum_list: "(\<And>x. x \<in> set xs \<Longrightarrow> cents x) \<Longrightarrow> cents (sum_list xs)"
  by (induction xs) auto

lemma dec2_nonneg: "0 \<le> x \<Longrightarrow> 0 \<le> dec2 x"
  by (simp add: dec2_def)

lemma dec2_mono: "x \<le> y \<Longrightarrow> dec2 x \<le> dec2 y"
proof -
  assume le: "x \<le> y"
  consider "0 \<le> x" | "x < 0" "0 \<le> y" | "y < 0" using le by linarith
  then show ?thesis
  proof cases
    case 1 with le show ?thesis by (simp add: dec2_def floor_mono)
  next
    case 2
    have "(0::rat) \<le> of_int \<lfloor>1 / 2 - x * 100\<rfloor>" "(0::rat) \<le> of_int \<lfloor>y * 100 + 1 / 2\<rfloor>"
      using 2 by simp_all
    with 2 show ?thesis unfolding dec2_def by (simp only: if_False if_True not_le [symmetric])
  next
    case 3 with le show ?thesis by (simp add: dec2_def floor_mono)
  qed
qed

lemma dec2_le_cents: "x \<le> y \<Longrightarrow> cents y \<Longrightarrow> dec2 x \<le> y"
  using dec2_mono [of x y] by simp

section \<open>Strings\<close>

text \<open>
  Text is a list of 8-bit characters, so \<open>toLowerCase\<close> and \<open>trim\<close> are those of JavaScript on the
  ASCII and Latin-1 blanks and the ASCII letters.
\<close>

definition js_space :: "char \<Rightarrow> bool" where
  "js_space c \<longleftrightarrow> (of_char c :: nat) \<in> {9, 10, 11, 12, 13, 32, 160}"

definition js_trim :: "string \<Rightarrow> string" where
  "js_trim s = rev (dropWhile js_space (rev (dropWhile js_space s)))"

definition js_lower :: "string \<Rightarrow> string" where
  "js_lower s = map (\<lambda>c. if 65 \<le> (of_char c :: nat) \<and> (of_char c :: nat) \<le> 90
                         then char_of ((of_char c :: nat) + 32) else c) s"

definition js_includes :: "string \<Rightarrow> string \<Rightarrow> bool" where
  "js_includes s part \<longleftrightarrow> sublist part s"

text \<open>\<open>String(n)\<close> and \<open>padStart\<close>.\<close>

fun decimal :: "nat \<Rightarrow> string" where
  "decimal n = (if n < 10 then [char_of (48 + n)] else decimal (n div 10) @ [char_of (48 + n mod 10)])"

declare decimal.simps [simp del]

definition pad_start :: "nat \<Rightarrow> char \<Rightarrow> string \<Rightarrow> string" where
  "pad_start w c s = replicate (w - length s) c @ s"

definition read_decimal :: "string \<Rightarrow> nat" where
  "read_decimal s = foldl (\<lambda>v c. v * 10 + (of_char c - 48)) 0 s"

lemma read_decimal_decimal [simp]: "read_decimal (decimal n) = n"
proof (induction n rule: decimal.induct)
  case (1 n)
  then show ?case
    by (subst decimal.simps) (auto simp: read_decimal_def)
qed

lemma decimal_digits: "set (decimal n) \<subseteq> {c. 48 \<le> (of_char c :: nat) \<and> (of_char c :: nat) < 58}"
proof (induction n rule: decimal.induct)
  case (1 n)
  show ?case
  proof (cases "n < 10")
    case True
    then show ?thesis by (subst decimal.simps) simp
  next
    case False
    have "(of_char (char_of (48 + n mod 10) :: char) :: nat) = 48 + n mod 10" by simp
    moreover have "n mod 10 < 10" by simp
    ultimately show ?thesis using 1 [OF False] False by (subst decimal.simps) auto
  qed
qed

lemma decimal_length: "n < 10 ^ k \<Longrightarrow> 0 < k \<Longrightarrow> length (decimal n) \<le> k"
proof (induction n arbitrary: k rule: decimal.induct)
  case (1 n)
  show ?case
  proof (cases "n < 10")
    case True
    with 1(3) show ?thesis by (subst decimal.simps) simp
  next
    case False
    obtain j where j: "k = Suc j" using 1(3) not0_implies_Suc by blast
    with False 1(2) have "n div 10 < 10 ^ j" "0 < j" by (auto simp: less_mult_imp_div_less intro: Suc_lessI gr0I)
    with 1(1) [OF False] j False show ?thesis by (subst decimal.simps) simp
  qed
qed

lemma read_decimal_pad [simp]: "read_decimal (pad_start w (CHR ''0'') s) = read_decimal s"
proof -
  have "foldl (\<lambda>v c. v * 10 + (of_char c - 48)) 0 (replicate k (CHR ''0'')) = (0 :: nat)" for k
    by (induction k) simp_all
  then show ?thesis by (simp add: read_decimal_def pad_start_def)
qed

fun join_with :: "string \<Rightarrow> string list \<Rightarrow> string" where
  "join_with sep [] = []"
| "join_with sep [x] = x"
| "join_with sep (x # y # ys) = x @ sep @ join_with sep (y # ys)"

lemma js_trim_Nil_iff: "js_trim s = [] \<longleftrightarrow> (\<forall>c \<in> set s. js_space c)"
  by (auto simp: js_trim_def dropWhile_eq_Nil_conv dest: set_dropWhileD)
    (metis dropWhile_eq_Nil_conv dropWhile_eq_self_iff hd_dropWhile hd_in_set)

section \<open>Tables\<close>

record 'r table =
  t_rows :: "(nat \<times> 'r) list"
  t_next :: nat

definition empty_table :: "'r table" where
  "empty_table = \<lparr>t_rows = [], t_next = 1\<rparr>"

definition find_unique :: "'r table \<Rightarrow> nat \<Rightarrow> 'r option" where
  "find_unique t k = map_of (t_rows t) k"

definition insert_row :: "'r \<Rightarrow> 'r table \<Rightarrow> 'r table" where
  "insert_row r t = t\<lparr>t_rows := t_rows t @ [(t_next t, r)], t_next := Suc (t_next t)\<rparr>"

definition update_many :: "(nat \<Rightarrow> 'r \<Rightarrow> bool) \<Rightarrow> ('r \<Rightarrow> 'r) \<Rightarrow> 'r table \<Rightarrow> 'r table" where
  "update_many P f t = t\<lparr>t_rows := map (\<lambda>(k, r). (k, if P k r then f r else r)) (t_rows t)\<rparr>"

definition update_row :: "nat \<Rightarrow> ('r \<Rightarrow> 'r) \<Rightarrow> 'r table \<Rightarrow> 'r table" where
  "update_row k f = update_many (\<lambda>k' _. k' = k) f"

definition delete_row :: "nat \<Rightarrow> 'r table \<Rightarrow> 'r table" where
  "delete_row k t = t\<lparr>t_rows := filter (\<lambda>(k', _). k' \<noteq> k) (t_rows t)\<rparr>"

definition find_many :: "(nat \<Rightarrow> 'r \<Rightarrow> bool) \<Rightarrow> 'r table \<Rightarrow> (nat \<times> 'r) list" where
  "find_many P t = filter (\<lambda>(k, r). P k r) (t_rows t)"

definition find_first :: "(nat \<Rightarrow> 'r \<Rightarrow> bool) \<Rightarrow> 'r table \<Rightarrow> (nat \<times> 'r) option" where
  "find_first P t = find (\<lambda>(k, r). P k r) (t_rows t)"

text \<open>\<open>findFirst\<close> with \<open>orderBy: {createdAt: 'desc'}\<close>: the last row inserted.\<close>

definition find_last :: "(nat \<Rightarrow> 'r \<Rightarrow> bool) \<Rightarrow> 'r table \<Rightarrow> (nat \<times> 'r) option" where
  "find_last P t = find (\<lambda>(k, r). P k r) (rev (t_rows t))"

abbreviation exists_row :: "(nat \<Rightarrow> 'r \<Rightarrow> bool) \<Rightarrow> 'r table \<Rightarrow> bool" where
  "exists_row P t \<equiv> find_first P t \<noteq> None"

definition wf_table :: "'r table \<Rightarrow> bool" where
  "wf_table t \<longleftrightarrow> distinct (map fst (t_rows t)) \<and> (\<forall>k \<in> fst ` set (t_rows t). k < t_next t)"

locale row_store =
  fixes lookup :: "'t \<Rightarrow> nat \<Rightarrow> 'r option"
    and insert :: "'r \<Rightarrow> 't \<Rightarrow> 't"
    and modify :: "nat \<Rightarrow> ('r \<Rightarrow> 'r) \<Rightarrow> 't \<Rightarrow> 't"
    and fresh :: "'t \<Rightarrow> nat"
    and ok :: "'t \<Rightarrow> bool"
  assumes lookup_fresh: "ok t \<Longrightarrow> lookup t (fresh t) = None"
    and lookup_insert: "ok t \<Longrightarrow> lookup (insert r t) k = (if k = fresh t then Some r else lookup t k)"
    and lookup_modify: "lookup (modify k f t) k' = (if k' = k then map_option f (lookup t k) else lookup t k')"
    and ok_insert: "ok t \<Longrightarrow> ok (insert r t)"
    and ok_modify: "ok t \<Longrightarrow> ok (modify k f t)"
begin

lemma insert_keeps: "ok t \<Longrightarrow> lookup t k = Some r \<Longrightarrow> lookup (insert r' t) k = Some r"
  by (auto simp: lookup_insert lookup_fresh)

lemma insert_new: "ok t \<Longrightarrow> lookup (insert r t) (fresh t) = Some r"
  by (simp add: lookup_insert)

lemma insert_all:
  assumes "ok t" "\<And>k r. lookup t k = Some r \<Longrightarrow> P k r" "P (fresh t) r" "lookup (insert r t) k = Some s"
  shows "P k s"
  using assms by (auto simp: lookup_insert split: if_splits)

lemma modify_all:
  assumes "\<And>k r. lookup t k = Some r \<Longrightarrow> P k r" "\<And>r. lookup t k = Some r \<Longrightarrow> P k (f r)"
    and "lookup (modify k f t) k' = Some s"
  shows "P k' s"
  using assms by (auto simp: lookup_modify split: if_splits)

lemma modify_modify: "lookup (modify k g (modify k f t)) k' = lookup (modify k (g \<circ> f) t) k'"
  by (simp add: lookup_modify option.map_comp)

end

lemma map_of_update_many:
  "map_of (map (\<lambda>(k, r). (k, if P k r then f r else r)) rs) k
     = map_option (\<lambda>r. if P k r then f r else r) (map_of rs k)"
  by (induction rs) (auto split: prod.split)

lemma find_unique_update_many:
  "find_unique (update_many P f t) k = map_option (\<lambda>r. if P k r then f r else r) (find_unique t k)"
  by (simp add: find_unique_def update_many_def map_of_update_many)

lemma wf_update_many [simp]: "wf_table (update_many P f t) = wf_table t"
proof -
  have "map fst (map (\<lambda>(k, r). (k, if P k r then f r else r)) (t_rows t)) = map fst (t_rows t)"
    by (simp add: case_prod_unfold)
  then have "map fst (t_rows (update_many P f t)) = map fst (t_rows t)"
    by (simp add: update_many_def)
  moreover have "t_next (update_many P f t) = t_next t"
    by (simp add: update_many_def)
  ultimately show ?thesis by (simp only: wf_table_def flip: set_map)
qed

interpretation tbl: row_store find_unique insert_row update_row t_next wf_table
proof unfold_locales
  fix t :: "'r table" and r :: 'r and k assume wf: "wf_table t"
  show fresh: "find_unique t (t_next t) = None"
    using wf by (force simp: find_unique_def wf_table_def map_of_eq_None_iff)
  show "find_unique (insert_row r t) k = (if k = t_next t then Some r else find_unique t k)"
    using fresh by (auto simp: find_unique_def insert_row_def map_add_def split: option.split)
  show "wf_table (insert_row r t)"
    using wf by (force simp: wf_table_def insert_row_def less_Suc_eq)
qed (auto simp: update_row_def find_unique_update_many option.map_ident split: option.split)

lemmas [simp] = tbl.lookup_fresh tbl.lookup_insert tbl.lookup_modify tbl.ok_insert tbl.ok_modify

lemma next_update_row [simp]: "t_next (update_row k f t) = t_next t"
  and next_update_many [simp]: "t_next (update_many P f t) = t_next t"
  and next_insert_row [simp]: "t_next (insert_row r t) = Suc (t_next t)"
  and rows_insert_row [simp]: "t_rows (insert_row r t) = t_rows t @ [(t_next t, r)]"
  by (simp_all add: update_row_def update_many_def insert_row_def)

lemma find_many_insert_row [simp]:
  "find_many P (insert_row r t) = find_many P t @ (if P (t_next t) r then [(t_next t, r)] else [])"
  by (simp add: find_many_def)

text \<open>\<open>createMany\<close>\<close>

definition insert_rows :: "'r list \<Rightarrow> 'r table \<Rightarrow> 'r table" where
  "insert_rows rs t = foldl (\<lambda>t r. insert_row r t) t rs"

lemma rows_insert_rows: "map snd (t_rows (insert_rows rs t)) = map snd (t_rows t) @ rs"
  by (induction rs arbitrary: t) (simp_all add: insert_rows_def)

lemma wf_insert_rows [simp]: "wf_table t \<Longrightarrow> wf_table (insert_rows rs t)"
  by (induction rs arbitrary: t) (simp_all add: insert_rows_def)

lemma find_unique_insert_rows:
  "wf_table t \<Longrightarrow> find_unique t k = Some r \<Longrightarrow> find_unique (insert_rows rs t) k = Some r"
  by (induction rs arbitrary: t) (simp_all add: insert_rows_def tbl.insert_keeps del: tbl.lookup_insert)

lemma wf_delete_row [simp]: "wf_table t \<Longrightarrow> wf_table (delete_row k t)"
  by (auto simp: wf_table_def delete_row_def distinct_map_filter)

lemma find_unique_delete_row [simp]:
  "find_unique (delete_row k t) k' = (if k' = k then None else find_unique t k')"
proof -
  have "map_of (filter (\<lambda>(k', _). k' \<noteq> k) rs) k' = (if k' = k then None else map_of rs k')" for rs
    by (induction rs) auto
  from this [of "t_rows t"] show ?thesis by (simp add: find_unique_def delete_row_def)
qed

lemma wf_empty_table [simp]: "wf_table empty_table"
  by (simp add: wf_table_def empty_table_def)

lemma find_unique_in_rows: "wf_table t \<Longrightarrow> find_unique t k = Some r \<longleftrightarrow> (k, r) \<in> set (t_rows t)"
  by (auto simp: find_unique_def wf_table_def)

lemma find_SomeD: "find P xs = Some x \<Longrightarrow> P x \<and> x \<in> set xs"
  by (induction xs) (auto split: if_splits)

lemma find_first_SomeD: "find_first P t = Some (k, r) \<Longrightarrow> P k r \<and> (k, r) \<in> set (t_rows t)"
  unfolding find_first_def by (drule find_SomeD) simp

lemma find_last_SomeD: "find_last P t = Some (k, r) \<Longrightarrow> P k r \<and> (k, r) \<in> set (t_rows t)"
  unfolding find_last_def by (drule find_SomeD) simp

lemma find_first_None_iff: "find_first P t = None \<longleftrightarrow> (\<forall>(k, r) \<in> set (t_rows t). \<not> P k r)"
  by (auto simp: find_first_def find_None_iff)

lemma find_append: "find P (xs @ ys) = (case find P xs of None \<Rightarrow> find P ys | Some x \<Rightarrow> Some x)"
  by (induction xs) auto

lemma find_first_insert_row:
  "find_first P (insert_row r t) =
     (case find_first P t of None \<Rightarrow> if P (t_next t) r then Some (t_next t, r) else None | Some x \<Rightarrow> Some x)"
  by (simp add: find_first_def find_append split: option.split)

lemma find_last_insert_row:
  "find_last P (insert_row r t) = (if P (t_next t) r then Some (t_next t, r) else find_last P t)"
  by (simp add: find_last_def)

lemma find_first_update_many:
  assumes "\<And>k r. (k, r) \<in> set (t_rows t) \<Longrightarrow> Q k r \<Longrightarrow> P k (f r) = P k r"
  shows "find_first P (update_many Q f t)
           = map_option (\<lambda>(k, r). (k, if Q k r then f r else r)) (find_first P t)"
proof -
  have "find (\<lambda>(k, r). P k r) (map (\<lambda>(k, r). (k, if Q k r then f r else r)) rs)
          = map_option (\<lambda>(k, r). (k, if Q k r then f r else r)) (find (\<lambda>(k, r). P k r) rs)"
    if "\<And>k r. (k, r) \<in> set rs \<Longrightarrow> Q k r \<Longrightarrow> P k (f r) = P k r" for rs
    using that by (induction rs) auto
  from this [of "t_rows t"] assms show ?thesis
    by (simp add: find_first_def update_many_def)
qed

lemma rows_update_many:
  "t_rows (update_many P f t) = map (\<lambda>(k, r). (k, if P k r then f r else r)) (t_rows t)"
  by (simp add: update_many_def)

lemma find_many_update_many:
  assumes "\<And>k r. (k, r) \<in> set (t_rows t) \<Longrightarrow> Q k r \<Longrightarrow> P k (f r) = P k r"
  shows "find_many P (update_many Q f t)
           = map (\<lambda>(k, r). (k, if Q k r then f r else r)) (find_many P t)"
proof -
  have "filter (\<lambda>(k, r). P k r) (map (\<lambda>(k, r). (k, if Q k r then f r else r)) rs)
          = map (\<lambda>(k, r). (k, if Q k r then f r else r)) (filter (\<lambda>(k, r). P k r) rs)"
    if "\<And>k r. (k, r) \<in> set rs \<Longrightarrow> Q k r \<Longrightarrow> P k (f r) = P k r" for rs
    using that by (induction rs) (auto split: if_splits)
  from this [of "t_rows t"] assms show ?thesis by (simp add: find_many_def rows_update_many)
qed

text \<open>In a table with unique keys, an update by key sees only the row found under the key.\<close>

lemma wf_row_unique: "wf_table t \<Longrightarrow> (k, r) \<in> set (t_rows t) \<Longrightarrow> (k, r') \<in> set (t_rows t) \<Longrightarrow> r = r'"
  by (auto simp: wf_table_def dest: eq_key_imp_eq_value)

lemma rows_below_next: "wf_table t \<Longrightarrow> (k, r) \<in> set (t_rows t) \<Longrightarrow> k < t_next t"
  by (force simp: wf_table_def)

lemma find_many_iff: "(k, r) \<in> set (find_many P t) \<longleftrightarrow> (k, r) \<in> set (t_rows t) \<and> P k r"
  by (auto simp: find_many_def)

text \<open>\<open>findFirst\<close> with \<open>orderBy: {key: 'desc'}\<close>; among equal keys the row inserted first.\<close>

fun max_by :: "('a \<Rightarrow> 'k::linorder) \<Rightarrow> 'a list \<Rightarrow> 'a option" where
  "max_by key [] = None"
| "max_by key (x # xs) = (case max_by key xs of None \<Rightarrow> Some x
     | Some y \<Rightarrow> if key x < key y then Some y else Some x)"

lemma max_by_None [simp]: "max_by key xs = None \<longleftrightarrow> xs = []"
  by (cases xs) (auto split: option.split)

lemma max_by_SomeD: "max_by key xs = Some y \<Longrightarrow> y \<in> set xs \<and> (\<forall>z \<in> set xs. key z \<le> key y)"
  by (induction xs arbitrary: y) (fastforce split: option.splits if_splits)+

lemma max_by_append_top:
  assumes "\<And>z. z \<in> set xs \<Longrightarrow> key z < key y"
  shows "max_by key (xs @ [y]) = Some y"
  using assms by (induction xs) auto

lemma max_by_map: "max_by key (map f xs) = map_option f (max_by (key \<circ> f) xs)"
  by (induction xs) (auto split: option.split)

section \<open>Operations that may throw\<close>

type_synonym ('s, 'e, 'a) outcome = "('e + 'a) \<times> 's"

abbreviation throw :: "'e \<Rightarrow> 's \<Rightarrow> ('s, 'e, 'a) outcome" where
  "throw e s \<equiv> (Inl e, s)"

abbreviation return :: "'a \<Rightarrow> 's \<Rightarrow> ('s, 'e, 'a) outcome" where
  "return a s \<equiv> (Inr a, s)"

definition and_then ::
  "('s, 'e, 'a) outcome \<Rightarrow> ('a \<Rightarrow> 's \<Rightarrow> ('s, 'e, 'b) outcome) \<Rightarrow> ('s, 'e, 'b) outcome" where
  "and_then r f = (case r of (Inl e, s) \<Rightarrow> (Inl e, s) | (Inr a, s) \<Rightarrow> f a s)"

text \<open>\<open>prisma.$transaction(async tx => ...)\<close>: a throw inside rolls every write back.\<close>

definition transactional :: "'s \<Rightarrow> ('s, 'e, 'a) outcome \<Rightarrow> ('s, 'e, 'a) outcome" where
  "transactional s r = (case r of (Inl e, _) \<Rightarrow> (Inl e, s) | (Inr a, s') \<Rightarrow> (Inr a, s'))"

lemma and_then_simps [simp]:
  "and_then (Inl e, s) f = (Inl e, s)"
  "and_then (Inr a, s) f = f a s"
  by (simp_all add: and_then_def)

lemma and_then_Inr_iff:
  "and_then r f = (Inr b, s') \<longleftrightarrow> (\<exists>a s. r = (Inr a, s) \<and> f a s = (Inr b, s'))"
  by (auto simp: and_then_def split: prod.splits sum.splits)

lemma transactional_simps [simp]:
  "transactional s (Inl e, s') = (Inl e, s)"
  "transactional s (Inr a, s') = (Inr a, s')"
  by (simp_all add: transactional_def)

lemma snd_and_then:
  "\<lbrakk>\<And>e s. r = (Inl e, s) \<Longrightarrow> P s; \<And>a s. r = (Inr a, s) \<Longrightarrow> P (snd (f a s))\<rbrakk> \<Longrightarrow> P (snd (and_then r f))"
  by (auto simp: and_then_def split: prod.split sum.split)

text \<open>
  That an operation leaves the state alone, kept away from the simplifier's decomposition of an
  equation between records into one equation per field.
\<close>

definition same_state :: "'s \<Rightarrow> 's \<Rightarrow> bool" where
  "same_state s s' \<longleftrightarrow> s' = s"

lemma same_state_simps [simp]:
  "same_state s s" "same_state s (snd (throw err s))" "same_state s (snd (return a s))"
  by (simp_all add: same_state_def)

lemma same_stateD: "same_state s s' \<Longrightarrow> s' = s"
  by (simp add: same_state_def)

end
