(* ===== verification/Schema.thy ===== *)
theory Schema
  imports Prelude "HOL-Library.Word"
begin

text \<open>
  The data model of the backend, \<open>src/backend/prisma/schema.prisma\<close>: one datatype per enum, one
  record per model, and the database \<open>db\<close> as a record of tables. Enum members carry a prefix
  that names their enum, since the members of different enums share names. A column that no
  modelled operation reads or writes is left out; a \<open>Decimal(12, 2)\<close> column is a rational that
  is rounded by \<open>dec2\<close> where a row is written, a \<open>DateTime\<close> the milliseconds since the epoch,
  and a nullable column an option. Ids are the numbers of rows (they stand for the uuids, and
  for the autoincremented \<open>seq\<close> and \<open>version\<close> columns).
\<close>

section \<open>Enums\<close>

datatype role = R_CUSTOMER | R_BENEFICIARY | R_FIELD_AGENT | R_PROVIDER | R_RELATIONSHIP_MANAGER
    | R_CASE_MANAGER | R_QUALITY_CONTROL | R_FINANCE | R_COMPLIANCE_RISK | R_ADMIN
    | R_SUPER_ADMIN | R_PARTNER

datatype service_type = ST_PROPERTY_INSPECTION | ST_CONSTRUCTION_SUPERVISION
    | ST_ASSET_INSPECTION | ST_FAMILY_SUPPORT | ST_PROCUREMENT | ST_BUSINESS_VERIFICATION
    | ST_INVESTMENT_SUPPORT | ST_AGRICULTURE_SUPPORT | ST_BEREAVEMENT_SUPPORT
    | ST_ARRIVAL_SUPPORT | ST_LEGAL_DOCUMENT_SERVICES | ST_HEALTHCARE_COORDINATION

datatype case_tier = CT_ESSENTIAL | CT_CONCIERGE

datatype case_priority = CP_STANDARD | CP_PRIORITY | CP_URGENT

datatype billing_currency = BC_USD | BC_GBP | BC_EUR

datatype pricing_zone = Z_LAGOS | Z_SOUTH_WEST | Z_OTHER

datatype milestone_group = MG_FOUNDATION | MG_DPC | MG_SUPERSTRUCTURE | MG_ROOFING
    | MG_FINISHING

datatype case_status = CS_DRAFT | CS_SUBMITTED | CS_UNDER_REVIEW | CS_QUOTED
    | CS_AWAITING_PAYMENT | CS_SCHEDULED | CS_ASSIGNED | CS_IN_PROGRESS | CS_EVIDENCE_SUBMITTED
    | CS_QUALITY_CONTROL | CS_CUSTOMER_REVIEW | CS_ADDITIONAL_WORK | CS_APPROVED | CS_COMPLETED
    | CS_CLOSED | CS_ON_HOLD | CS_DISPUTED

datatype payment_status = PS_PENDING | PS_PROCESSING | PS_PAID | PS_FAILED | PS_EXPIRED
    | PS_REFUNDED | PS_PARTIALLY_REFUNDED | PS_RECONCILIATION_REQUIRED

datatype reconciliation_status = RS_MATCHED | RS_REJECTED

datatype qc_outcome = QC_APPROVED | QC_PASS_WITH_LIMITATION | QC_REWORK | QC_REVISIT_REQUIRED
    | QC_ESCALATE | QC_INCIDENT

datatype approval_action = AP_APPROVED | AP_REQUEST_CLARIFICATION | AP_REQUEST_ADDITIONAL_WORK
    | AP_ESCALATE

datatype assignment_role = AR_FIELD_AGENT | AR_PROVIDER

datatype assignment_status = AS_OFFERED | AS_ACCEPTED | AS_DECLINED | AS_IN_PROGRESS
    | AS_COMPLETED | AS_REVOKED

datatype collaborator_role = CR_RELATIONSHIP_MANAGER | CR_CASE_MANAGER | CR_QUALITY_CONTROL
    | CR_FINANCE | CR_COMPLIANCE_RISK

datatype subscription_status = SS_PENDING | SS_ACTIVE | SS_PAUSED | SS_CANCELLED | SS_EXPIRED

datatype provider_status = PV_PENDING | PV_UNDER_REVIEW | PV_VERIFIED | PV_ACTIVE
    | PV_RESTRICTED | PV_SUSPENDED | PV_REMOVED

datatype quote_line_category = QL_ASOJU_SERVICE_FEE | QL_EXTERNAL_COST
    | QL_THIRD_PARTY_PROFESSIONAL | QL_TAX_STATUTORY

datatype refund_request_status = RR_PENDING | RR_APPROVED | RR_REJECTED

datatype ledger_account_type = LA_ASSET | LA_LIABILITY | LA_EXPENSE | LA_REVENUE | LA_EQUITY

datatype journal_direction = JD_DEBIT | JD_CREDIT

datatype direct_cost_category = DC_REPRESENTATIVE | DC_TRAVEL | DC_THIRD_PARTY | DC_OTHER

datatype delivery_status = DS_SENT | DS_FAILED

datatype membership_plan = MP_ESSENTIAL | MP_PRIORITY | MP_PREMIUM

datatype sc_type = SC_GRANT | SC_DEBIT | SC_REVERSAL | SC_ADJUSTMENT | SC_EXPIRY

datatype dispute_status = DI_OPEN | DI_RESOLVED

datatype escalation_reason = ER_MISSING_INFORMATION | ER_PRICING_UNAVAILABLE
    | ER_NON_STANDARD_SCOPE | ER_PROVIDER_AVAILABILITY | ER_POLICY_RISK | ER_TECHNICAL_FAILURE
    | ER_MANUAL | ER_AUTOMATION_UNAVAILABLE

datatype escalation_status = ES_REQUIRED | ES_REVIEWING | ES_RESOLVED | ES_CANCELLED

datatype automation_outcome = AO_AUTO | AO_CUSTOMER_INPUT | AO_ESCALATE | AO_UNSUPPORTED
    | AO_BLOCKED

datatype automation_rule_kind = AK_REQUIRED_FIELDS | AK_BLOCKED_KEYWORDS

datatype idempotency_operation = IO_SERVICE_REQUEST_CREATE | IO_PAYMENT_INITIATE
    | IO_FIELD_LOCATION_REPORT

datatype idempotency_status = IS_PROCESSING | IS_SUCCEEDED | IS_FAILED

datatype vault_category = VC_TITLE_DEED | VC_CAC_CERT | VC_POWER_OF_ATTORNEY | VC_IDENTITY
    | VC_OTHER

datatype arrangement_status = AA_REQUESTED | AA_BEING_SOURCED | AA_AWAITING_CONFIRMATION
    | AA_CONFIRMED | AA_CHANGED | AA_CANCELLED | AA_COMPLETED

text \<open>
  A Paystack reference is a prefix, the id of the invoice and four random bytes in hex:
  \<open>caseinv_<id>_<hex>\<close> for a case invoice, \<open>subinv_<id>_<hex>\<close> for a subscription.
\<close>

datatype reference = Case_Inv nat nat | Sub_Inv nat nat

text \<open>The statuses Paystack reports for a transaction.\<close>

datatype verify_status = V_success | V_failed | V_abandoned | V_pending | V_ongoing | V_queued
    | V_reversed

datatype evidence_type = ET_PHOTO | ET_VIDEO | ET_DOCUMENT | ET_VOICE | ET_LOCATION | ET_NOTE

datatype evidence_level = EL_OBSERVED | EL_REPORTED | EL_PROFESSIONALLY_ASSESSED
    | EL_PLATFORM_VERIFIED

datatype agent_tier = TI_BRONZE | TI_SILVER | TI_GOLD

datatype incident_severity = IN_LOW | IN_MEDIUM | IN_HIGH | IN_CRITICAL

datatype arrangement_type = AT_AIRPORT_TRANSPORT | AT_ACCOMMODATION

datatype partner_status = PA_ACTIVE | PA_INACTIVE

datatype partner_type = PT_ASSOCIATION | PT_BUSINESS | PT_AGENT

datatype account_type = AT_FAMILY | AT_CORPORATE

datatype document_visibility = DV_ALL | DV_STAFF_ONLY | DV_ASSIGNEE

datatype relay_type = RM_MESSAGE | RM_OBJECTION

text \<open>String columns that the code fills from a fixed list of literals.\<close>

datatype sos_type = SOS_GENERAL | SOS_MEDICAL | SOS_SECURITY | SOS_SAFETY | SOS_LOST

datatype sos_severity = SV_LOW | SV_MEDIUM | SV_HIGH | SV_CRITICAL

datatype sos_status = SO_ACTIVE | SO_ACKNOWLEDGED | SO_RESOLVED | SO_ESCALATED | SO_FALSE_ALARM

datatype sos_channel = Ch_admin | Ch_whatsapp | Ch_emergency_contact | Ch_police

datatype geofence_outcome = PASS | UNVERIFIED | REJECTED

datatype lead_tag = LT_HOT | LT_WARM | LT_COLD

datatype ai_escalation = AE_NONE | AE_HUMAN_REQUESTED | AE_VIP | AE_FRUSTRATION | AE_LEGAL_QUESTION

datatype ai_action_level = AL_INFORM | AL_ASSIST | AL_EXECUTE_LOW_RISK | AL_HUMAN_APPROVAL_REQUIRED

datatype feedback_rating = FR_UP | FR_DOWN

datatype analytics_event_name = CE_OPENED | CE_QUICK_PROMPT_CLICKED | CE_MESSAGE_SENT | CE_MESSAGE_FAILED | CE_RETRY_CLICKED

datatype knowledge_category = KC_PRICING | KC_POLICY | KC_SERVICE_INFO | KC_FAQ | KC_GENERAL

datatype transcription_status = TR_NOT_REQUESTED | TR_COMPLETED | TR_FAILED

text \<open>
  The location of a check-in is unchecked JSON, of which the code reads three numbers and a
  timestamp: a field is \<open>None\<close> when it is absent or of another type, and a timestamp that
  \<open>new Date\<close> cannot parse is \<open>Unparsable\<close>. JSON numbers are finite.
\<close>

datatype captured = Captured int | Unparsable

record location =
  lo_lat :: "rat option"
  lo_lng :: "rat option"
  lo_accuracy :: "rat option"
  lo_captured :: "captured option"

section \<open>Values written into JSON columns and message templates\<close>

text \<open>
  The metadata of an audit event is a list of keys with values, the text of a notification the
  list of the fixed and the interpolated parts of its template literal. Absent values
  (\<open>undefined\<close>, \<open>null\<close>) are \<open>J_Null\<close>.
\<close>

datatype json = J_Null | J_Lit String.literal | J_Text string | J_Id nat | J_Num rat | J_Time int
    | J_Bool bool | J_Case case_status | J_Payment payment_status | J_Role role
    | J_Collaborator collaborator_role | J_Service service_type | J_Ref reference
    | J_Recon reconciliation_status | J_Verify verify_status | J_Approval approval_action
    | J_Plan membership_plan | J_Cost direct_cost_category | J_Reason escalation_reason
    | J_Outcome automation_outcome | J_Evidence evidence_type | J_Qc qc_outcome
    | J_Assignment assignment_role | J_Provider provider_status | J_Vault vault_category
    | J_Arrangement arrangement_status | J_Arrangement_Type arrangement_type
    | J_Geofence geofence_outcome | J_Location location | J_Sos_Type sos_type
    | J_Severity sos_severity | J_Channel sos_channel | J_Array "json list"
    | J_Object "(String.literal \<times> json) list"

fun json_option :: "('a \<Rightarrow> json) \<Rightarrow> 'a option \<Rightarrow> json" where
  "json_option f None = J_Null"
| "json_option f (Some x) = f x"

section \<open>Errors\<close>

text \<open>
  The exceptions the services throw, by HTTP status, with the fixed part of their message.
  \<open>Invalid_Transition\<close> is the \<open>BadRequestException\<close> of a state machine, with both ends of the
  refused edge; \<open>Internal\<close> stands for what reaches the client as a 500: an \<open>Error\<close> of the
  code itself, a violated constraint of the database, or a provider that failed.
\<close>

datatype error = Not_Found String.literal | Bad_Request String.literal
    | Unauthorized String.literal
    | Forbidden String.literal | Conflict String.literal | Unprocessable String.literal
    | Invalid_Transition case_status case_status | Internal String.literal

fun http_status :: "error \<Rightarrow> nat" where
  "http_status (Not_Found _) = 404"
| "http_status (Bad_Request _) = 400"
| "http_status (Unauthorized _) = 401"
| "http_status (Forbidden _) = 403"
| "http_status (Conflict _) = 409"
| "http_status (Unprocessable _) = 422"
| "http_status (Invalid_Transition _ _) = 400"
| "http_status (Internal _) = 500"

section \<open>Rows\<close>

record user =
  u_email :: "string option"
  u_phone :: "string option"
  u_role :: role
  u_preferred_channel :: "String.literal option"
  u_billing_currency :: "billing_currency option"
  u_country :: "string option"
  u_password_hash :: "string option"
  u_active :: bool
  u_mfa_enabled :: bool
  u_mfa_secret :: "string option"

record customer =
  cu_user :: nat
  cu_name :: string
  cu_rm :: "nat option"
  cu_referral_code :: string
  cu_referred_by :: "nat option"
  cu_partner :: "nat option"
  cu_account :: "nat option"

text \<open>
  A saved beneficiary, property or asset; \<open>Beneficiary.userId\<close> is its portal login. Properties and
  assets share a shape: \<open>pl_details\<close> are their descriptive columns, by name, as the customer gave them.
\<close>

record beneficiary =
  bf_customer :: nat
  bf_user :: "nat option"
  bf_name :: string
  bf_relationship :: "string option"
  bf_phone :: "string option"
  bf_notes :: "string option"

record place =
  pl_customer :: nat
  pl_latitude :: "rat option"
  pl_longitude :: "rat option"
  pl_details :: "(String.literal \<times> string) list"

record verified_asset =
  va_customer :: nat
  va_type :: vault_category
  va_verified :: bool

record service_request =
  rq_customer :: nat
  rq_service_type :: "service_type option"
  rq_raw_description :: string
  rq_location :: "string option"
  rq_channel :: String.literal
  rq_converted :: "nat option"
  rq_objective :: "string option"
  rq_subject :: "string option"
  rq_timing :: "string option"
  rq_requirements :: "json option"
  rq_lead_tag :: "lead_tag option"
  rq_lead_score :: "rat option"
  rq_interaction :: "nat option"

record service_case =
  c_number :: string
  c_customer :: nat
  c_beneficiary :: "nat option"
  c_property :: "nat option"
  c_asset :: "nat option"
  c_service_type :: service_type
  c_description :: string
  c_location :: string
  c_priority :: case_priority
  c_risk_level :: int
  c_tier :: case_tier
  c_status :: case_status
  c_payment_status :: payment_status
  c_owner :: "nat option"
  c_next_action :: "string option"
  c_next_action_due :: "int option"
  c_sla_target :: "int option"
  c_held_from :: "case_status option"
  c_schedule :: "nat option"

record case_task =
  tk_case :: nat
  tk_label :: string
  tk_required :: bool
  tk_complete :: bool
  tk_completed_at :: "int option"
  tk_sort :: int
  tk_milestone :: "milestone_group option"

record history_row =
  h_case :: nat
  h_from :: "case_status option"
  h_to :: case_status
  h_by :: "nat option"
  h_reason :: "string option"

record collaborator =
  cl_case :: nat
  cl_user :: nat
  cl_role :: collaborator_role

record approval =
  ap_case :: nat
  ap_user :: nat
  ap_action :: approval_action
  ap_note :: "string option"

record dispute =
  di_case :: nat
  di_customer :: nat
  di_tasks :: "nat list"
  di_reasons :: "string list"
  di_notes :: "string option"
  di_status :: dispute_status
  di_resolved_at :: "int option"
  di_resolved_by :: "nat option"

record message =
  ms_case :: nat
  ms_sender :: "nat option"
  ms_channel :: String.literal
  ms_body :: string

record agent =
  ag_user :: nat
  ag_name :: string
  ag_active :: bool
  ag_score :: "rat option"
  ag_tier :: agent_tier
  ag_pass_rate :: "rat option"
  ag_city :: "string option"
  ag_state :: "string option"

record provider =
  pv_user :: nat
  pv_name :: string
  pv_category :: string
  pv_city :: "string option"
  pv_state :: "string option"
  pv_status :: provider_status
  pv_score :: "rat option"

record assignment =
  as_case :: nat
  as_role :: assignment_role
  as_agent :: "nat option"
  as_provider :: "nat option"
  as_status :: assignment_status
  as_scheduled_for :: "int option"
  as_accepted_at :: "int option"
  as_check_in_at :: "int option"
  as_location :: "location option"
  as_accuracy :: "rat option"
  as_geofence :: "geofence_outcome option"
  as_distance :: "int option"
  as_completed_at :: "int option"
  as_created :: int

record location_ping =
  lp_assignment :: nat
  lp_agent :: nat
  lp_latitude :: rat
  lp_longitude :: rat
  lp_accuracy :: "rat option"
  lp_captured :: int

record evidence =
  ev_case :: nat
  ev_task :: "nat option"
  ev_uploader :: nat
  ev_type :: evidence_type
  ev_level :: evidence_level
  ev_description :: "string option"
  ev_location :: "json option"
  ev_storage_key :: string
  ev_captured :: int
  ev_created :: int
  ev_client_request :: "string option"
  ev_language_hint :: "string option"
  ev_transcript :: "string option"
  ev_transcript_lang :: "string option"
  ev_translated :: "string option"
  ev_translated_lang :: "string option"
  ev_transcription :: transcription_status
  ev_translation :: transcription_status

record report =
  rp_case :: nat
  rp_summary :: string
  rp_findings :: json
  rp_outcome :: qc_outcome
  rp_limitation :: "string option"
  rp_reviewed_by :: nat
  rp_reviewed_at :: int
  rp_pdf_key :: "string option"

record qc_review =
  qr_case :: nat
  qr_outcome :: qc_outcome
  qr_by :: nat

record risk_flag =
  kf_case :: nat
  kf_label :: "json list"
  kf_detail :: "json list option"
  kf_raised_by :: "nat option"
  kf_resolved_at :: "int option"

record incident =
  in_case :: "nat option"
  in_severity :: incident_severity
  in_summary :: "json list"
  in_detail :: "string option"

record risk_factors =
  fa_open_flags :: nat
  fa_incident_points :: nat
  fa_prior_incidents :: nat
  fa_low_performer :: bool
  fa_urgent :: bool
  fa_rework :: nat
  fa_high_value :: bool

record risk_assessment =
  ra_case :: nat
  ra_score :: nat
  ra_level :: int
  ra_factors :: risk_factors

record rating =
  rt_case :: nat
  rt_by :: nat
  rt_stars :: int
  rt_comment :: "string option"

record schedule =
  rs_origin :: nat
  rs_customer :: nat
  rs_service :: service_type
  rs_description :: string
  rs_location :: string
  rs_beneficiary :: "nat option"
  rs_property :: "nat option"
  rs_asset :: "nat option"
  rs_cadence :: int
  rs_next_run :: int
  rs_active :: bool
  rs_paused_at :: "int option"

record sos_alert =
  so_agent :: nat
  so_case :: "nat option"
  so_assignment :: "nat option"
  so_type :: sos_type
  so_severity :: sos_severity
  so_message :: "string option"
  so_latitude :: rat
  so_longitude :: rat
  so_accuracy :: "rat option"
  so_address :: "string option"
  so_status :: sos_status
  so_acknowledged_by :: "nat option"
  so_acknowledged_at :: "int option"
  so_resolved_by :: "nat option"
  so_resolved_at :: "int option"
  so_resolution :: "string option"
  so_level :: nat
  so_channels :: "sos_channel list"
  so_case_held :: bool

record arrangement =
  aa_case :: nat
  aa_type :: arrangement_type
  aa_status :: arrangement_status
  aa_detail :: "string option"
  aa_note :: "string option"
  aa_updated_by :: "nat option"

record credential =
  cr_provider :: nat
  cr_type :: string
  cr_issuer :: "string option"
  cr_reference :: "string option"
  cr_verified_at :: "int option"
  cr_document_url :: "string option"

record vault_document =
  vd_customer :: nat
  vd_name :: string
  vd_category :: vault_category
  vd_storage_key :: "string option"

record trust_score =
  ts_agent :: nat
  ts_completion :: int
  ts_gps :: int
  ts_evidence :: int
  ts_rating :: int
  ts_response :: int
  ts_composite :: int
  ts_tier :: String.literal
  ts_total :: nat
  ts_completed :: nat
  ts_previous :: "int option"
  ts_trend :: String.literal

record partner =
  pa_name :: string
  pa_type :: partner_type
  pa_code :: string
  pa_status :: partner_status

record partner_contact =
  pn_partner :: nat
  pn_user :: nat

record account_group =
  gr_name :: string
  gr_type :: account_type

record document =
  doc_case :: nat
  doc_label :: string
  doc_storage_key :: string
  doc_uploader :: "nat option"
  doc_visibility :: document_visibility
  doc_restricted :: "nat option"

record relay_message =
  rm_case :: nat
  rm_sender :: nat
  rm_from_beneficiary :: bool
  rm_type :: relay_type
  rm_body :: string
  rm_acknowledged :: "int option"
  rm_acknowledged_by :: "nat option"

text \<open>
  What the language model reports of a conversation: unchecked JSON, in which the service type and
  the timeline are texts.
\<close>

record collected =
  co_service :: "string option"
  co_location :: "string option"
  co_scope :: "string option"
  co_timeline :: "string option"

record ai_interaction =
  ax_channel :: String.literal
  ax_level :: ai_action_level
  ax_summary :: string
  ax_collected :: collected
  ax_engagement :: rat
  ax_escalation :: ai_escalation
  ax_complete :: bool

record concierge_feedback =
  cf_customer :: nat
  cf_rating :: feedback_rating
  cf_message :: string
  cf_reply :: string
  cf_had_quote :: bool

record analytics_event =
  an_name :: analytics_event_name
  an_session :: string
  an_metadata :: "json option"

record knowledge_entry =
  ke_category :: knowledge_category
  ke_title :: string
  ke_content :: string
  ke_active :: bool
  ke_updated :: int

record chat_turn =
  ct_user :: bool
  ct_content :: string

record whatsapp_thread =
  wt_phone :: string
  wt_user :: nat
  wt_history :: "chat_turn list"

text \<open>Only the hash of a token is stored.\<close>

record token =
  to_owner :: nat
  to_hash :: string
  to_expires :: int
  to_spent :: "int option"

record case_scope =
  sc_case :: nat
  sc_version :: nat
  sc_zone :: pricing_zone
  sc_objective :: string
  sc_tasks :: "string list"
  sc_deliverables :: "string list"
  sc_exclusions :: "string list"
  sc_evidence :: "string list"
  sc_created_by :: nat
  sc_confirmed_by :: "nat option"
  sc_confirmed_at :: "int option"

record price_book =
  pb_currency :: String.literal
  pb_active :: bool

record price_rule =
  pr_book :: nat
  pr_service :: service_type
  pr_zone :: pricing_zone
  pr_value :: rat
  pr_label :: string
  pr_priority :: int
  pr_active :: bool

text \<open>The only \<open>MultiplierType\<close> is \<open>URGENCY\<close>, so the column is not modelled.\<close>

record multiplier_rule =
  mr_book :: nat
  mr_priority :: "case_priority option"
  mr_multiplier :: rat
  mr_active :: bool

record quote =
  q_case :: nat
  q_amount :: rat
  q_currency :: String.literal
  q_expires :: "int option"
  q_accepted :: "int option"
  q_created :: int
  q_price_book :: "nat option"
  q_scope :: "nat option"
  q_subscription :: "nat option"
  q_base :: "rat option"
  q_non_service :: "rat option"
  q_discount_percent :: "rat option"
  q_discount :: "rat option"
  q_sc_applied :: "rat option"
  q_locked_fx :: "rat option"
  q_source_currency :: "String.literal option"
  q_fx_expiry :: "int option"

record quote_line =
  ql_quote :: nat
  ql_category :: quote_line_category
  ql_label :: string
  ql_amount :: rat

record invoice =
  iv_case :: nat
  iv_quote :: "nat option"
  iv_amount :: rat
  iv_currency :: String.literal

record payment =
  p_invoice :: nat
  p_amount :: rat
  p_currency :: String.literal
  p_reference :: reference
  p_verified_at :: "int option"
  p_status :: payment_status
  p_created :: int

record refund =
  rf_payment :: nat
  rf_amount :: rat
  rf_reason :: "string option"
  rf_actor :: "nat option"

record refund_request =
  rr_payment :: nat
  rr_amount :: rat
  rr_reason :: string
  rr_status :: refund_request_status
  rr_requested_by :: nat
  rr_decided_by :: "nat option"
  rr_decided_at :: "int option"
  rr_note :: "string option"

record reconciliation =
  rc_payment :: nat
  rc_status :: reconciliation_status
  rc_notes :: string
  rc_by :: "nat option"

record direct_cost =
  dc_case :: nat
  dc_category :: direct_cost_category
  dc_amount :: rat
  dc_currency :: String.literal
  dc_note :: "string option"
  dc_actor :: "nat option"

record plan_config =
  pc_plan :: membership_plan
  pc_price_usd :: rat
  pc_sc_grant_usd :: rat
  pc_discount_percent :: rat
  pc_eligible :: nat
  pc_updated_by :: "nat option"

record subscription =
  s_customer :: nat
  s_tier :: case_tier
  s_plan :: membership_plan
  s_status :: subscription_status
  s_started :: int
  s_renews :: "int option"
  s_cancelled :: "int option"
  s_price_usd :: rat
  s_fx_rate :: rat
  s_amount :: rat
  s_currency :: String.literal

record sub_invoice =
  si_subscription :: nat
  si_start :: int
  si_end :: int
  si_amount :: rat
  si_currency :: String.literal
  si_status :: payment_status
  si_reference :: "reference option"
  si_paid_at :: "int option"

record sc_entry =
  se_subscription :: nat
  se_type :: sc_type
  se_amount :: rat
  se_case :: "nat option"
  se_quote :: "nat option"
  se_fx :: "rat option"
  se_amount_ngn :: "rat option"
  se_reason :: "string option"
  se_actor :: "nat option"

text \<open>
  \<open>AutomationRule.config\<close> is unchecked JSON; the evaluator reads \<open>config.fields\<close> or
  \<open>config.keywords\<close> when it is an array, else the empty list.
\<close>

record automation_rule =
  ar_capability :: nat
  ar_kind :: automation_rule_kind
  ar_fields :: "string list option"
  ar_keywords :: "string list option"
  ar_sort :: int

record automation_capability =
  cap_service :: service_type
  cap_enabled :: bool

record rule_result =
  rres_rule :: nat
  rres_kind :: automation_rule_kind
  rres_passed :: bool
  rres_detail :: "json list option"

record automation_decision =
  ad_request :: nat
  ad_outcome :: automation_outcome
  ad_reason :: "json list"
  ad_results :: "rule_result list"
  ad_capability_enabled :: bool
  ad_escalation :: "nat option"
  ad_decided :: int

record escalation =
  es_case :: "nat option"
  es_request :: "nat option"
  es_reason_category :: escalation_reason
  es_internal :: "json list option"
  es_handoff :: "json option"
  es_customer_message :: string
  es_status :: escalation_status
  es_assigned :: "nat option"
  es_resolved_at :: "int option"
  es_notes :: "string option"

record idempotency_record =
  id_operation :: idempotency_operation
  id_key :: string
  id_actor :: nat
  id_result :: "nat option"
  id_status :: idempotency_status

record wallet_account =
  wa_agent :: nat
  wa_available :: rat
  wa_earned :: rat
  wa_paid :: rat

text \<open>\<open>type\<close> is a free string column that the code fills with one of two values.\<close>

datatype wallet_entry_type = EARNING | PAYOUT_DEBIT

record wallet_entry =
  we_agent :: nat
  we_wallet :: nat
  we_type :: wallet_entry_type
  we_amount :: rat
  we_case :: "nat option"
  we_payout :: "nat option"
  we_description :: "string option"
  we_actor :: "nat option"

record ledger_account =
  la_code :: String.literal
  la_name :: String.literal
  la_type :: ledger_account_type

text \<open>\<open>EARNING_<walletEntryId>\<close> and \<open>PAYOUT_<payoutId>\<close>.\<close>

datatype journal_key = Earning_Key nat | Payout_Key nat

record journal_entry =
  je_key :: journal_key
  je_entity_type :: String.literal
  je_entity :: "nat option"
  je_agent :: "nat option"
  je_description :: "json list option"

record journal_line =
  jl_entry :: nat
  jl_account :: nat
  jl_direction :: journal_direction
  jl_amount :: rat

record payout =
  po_agent :: "nat option"
  po_amount :: rat
  po_status :: payment_status
  po_note :: "string option"

datatype actor_type = By_User | By_Ai | By_System

record audit_event =
  ae_case :: "nat option"
  ae_actor :: "nat option"
  ae_actor_type :: actor_type
  ae_action :: String.literal
  ae_metadata :: "(String.literal \<times> json) list"

record notification =
  n_user :: nat
  n_title :: String.literal
  n_body :: "json list"
  n_url :: "json list option"
  n_channel :: "String.literal option"
  n_delivery :: delivery_status
  n_failure :: "String.literal option"
  n_read_at :: "int option"

section \<open>The database and the environment\<close>

record db =
  users :: "user table"
  customers :: "customer table"
  beneficiaries :: "beneficiary table"
  properties :: "place table"
  assets :: "place table"
  verified_assets :: "verified_asset table"
  requests :: "service_request table"
  cases :: "service_case table"
  tasks :: "case_task table"
  history :: "history_row table"
  collaborators :: "collaborator table"
  approvals :: "approval table"
  disputes :: "dispute table"
  messages :: "message table"
  agents :: "agent table"
  providers :: "provider table"
  assignments :: "assignment table"
  scopes :: "case_scope table"
  price_books :: "price_book table"
  price_rules :: "price_rule table"
  multiplier_rules :: "multiplier_rule table"
  quotes :: "quote table"
  quote_lines :: "quote_line table"
  invoices :: "invoice table"
  payments :: "payment table"
  refunds :: "refund table"
  refund_requests :: "refund_request table"
  reconciliations :: "reconciliation table"
  direct_costs :: "direct_cost table"
  plan_configs :: "plan_config table"
  subscriptions :: "subscription table"
  sub_invoices :: "sub_invoice table"
  sc_entries :: "sc_entry table"
  capabilities :: "automation_capability table"
  automation_rules :: "automation_rule table"
  decisions :: "automation_decision table"
  escalations :: "escalation table"
  idempotency :: "idempotency_record table"
  wallets :: "wallet_account table"
  wallet_entries :: "wallet_entry table"
  ledger_accounts :: "ledger_account table"
  journal_entries :: "journal_entry table"
  journal_lines :: "journal_line table"
  payouts :: "payout table"
  pings :: "location_ping table"
  evidences :: "evidence table"
  reports :: "report table"
  qc_reviews :: "qc_review table"
  risk_flags :: "risk_flag table"
  incidents :: "incident table"
  risk_assessments :: "risk_assessment table"
  ratings :: "rating table"
  schedules :: "schedule table"
  sos_alerts :: "sos_alert table"
  arrangements :: "arrangement table"
  credentials :: "credential table"
  vault_documents :: "vault_document table"
  trust_scores :: "trust_score table"
  partners :: "partner table"
  partner_contacts :: "partner_contact table"
  account_groups :: "account_group table"
  documents :: "document table"
  relay_messages :: "relay_message table"
  interactions :: "ai_interaction table"
  feedbacks :: "concierge_feedback table"
  analytics :: "analytics_event table"
  knowledge :: "knowledge_entry table"
  threads :: "whatsapp_thread table"
  refresh_tokens :: "token table"
  reset_tokens :: "token table"
  invites :: "token table"
  audit_log :: "audit_event table"
  notifications :: "notification table"

definition empty_db :: db where
  "empty_db = \<lparr>users = empty_table, customers = empty_table, beneficiaries = empty_table,
     properties = empty_table, assets = empty_table, verified_assets = empty_table,
     requests = empty_table, cases = empty_table, tasks = empty_table, history = empty_table,
     collaborators = empty_table, approvals = empty_table, disputes = empty_table,
     messages = empty_table, agents = empty_table, providers = empty_table,
     assignments = empty_table, scopes = empty_table, price_books = empty_table,
     price_rules = empty_table, multiplier_rules = empty_table, quotes = empty_table,
     quote_lines = empty_table, invoices = empty_table, payments = empty_table,
     refunds = empty_table, refund_requests = empty_table, reconciliations = empty_table,
     direct_costs = empty_table, plan_configs = empty_table, subscriptions = empty_table,
     sub_invoices = empty_table, sc_entries = empty_table, capabilities = empty_table,
     automation_rules = empty_table, decisions = empty_table, escalations = empty_table,
     idempotency = empty_table, wallets = empty_table, wallet_entries = empty_table,
     ledger_accounts = empty_table, journal_entries = empty_table, journal_lines = empty_table,
     payouts = empty_table, pings = empty_table, evidences = empty_table, reports = empty_table,
     qc_reviews = empty_table, risk_flags = empty_table, incidents = empty_table,
     risk_assessments = empty_table, ratings = empty_table, schedules = empty_table,
     sos_alerts = empty_table, arrangements = empty_table, credentials = empty_table,
     vault_documents = empty_table, trust_scores = empty_table, partners = empty_table,
     partner_contacts = empty_table, account_groups = empty_table, documents = empty_table,
     relay_messages = empty_table, interactions = empty_table, feedbacks = empty_table,
     analytics = empty_table, knowledge = empty_table, threads = empty_table,
     refresh_tokens = empty_table, reset_tokens = empty_table, invites = empty_table,
     audit_log = empty_table, notifications = empty_table\<rparr>"

text \<open>
  What Paystack answers to a verification request: its own transaction status, the amount in
  kobo and the gateway's message.
\<close>

record verify_result =
  vr_dry_run :: bool
  vr_status :: "verify_status option"
  vr_amount_kobo :: rat
  vr_gateway :: "string option"

text \<open>What the speech service answers for a voice recording.\<close>

record transcription =
  tx_transcript :: "string option"
  tx_transcript_lang :: "string option"
  tx_translated :: "string option"
  tx_translated_lang :: "string option"
  tx_transcription :: transcription_status
  tx_translation :: transcription_status

text \<open>
  What an operation reads besides the database: the server's clock, the numeric environment
  variables, whether a WhatsApp or an e-mail provider is configured and whether the attempt to
  deliver a given notification succeeds, the currency rates of the FX provider (\<open>None\<close> when it
  is unreachable), the bytes drawn by \<open>randomBytes\<close>, and the three calls to Paystack
  (\<open>payments/paystack.service.ts\<close>): each fails or answers, the checkout URL or nothing, and
  whether it was a dry run without a key. \<open>object_exists\<close> is the object store's answer,
  \<open>transcribe\<close> the speech service's (\<open>None\<close> when it is not configured or the recording cannot be
  fetched), and the rest are the functions of the \<open>argon2\<close> and \<open>crypto\<close> packages the code calls
  and the bytes it draws from them.
\<close>

record env =
  now :: int
  sla_hours_env :: "case_priority \<Rightarrow> rat option"
  sla_multiplier_env :: "pricing_zone \<Rightarrow> rat option"
  usd_to_ngn_env :: "rat option"
  payment_expiry_env :: "rat option"
  quote_validity_env :: "rat option"
  fx_lock_env :: "rat option"
  refund_threshold_env :: "rat option"
  verification_age_env :: "rat option"
  whatsapp_configured :: bool
  email_configured :: bool
  delivers :: "nat \<Rightarrow> bool"
  fx_rates :: "billing_currency \<Rightarrow> rat option"
  random_hex :: nat
  initializeTransaction :: "reference \<Rightarrow> rat \<Rightarrow> error + (string \<times> bool)"
  refundTransaction :: "reference \<Rightarrow> rat \<Rightarrow> error + bool"
  verifyTransaction :: "reference \<Rightarrow> error + verify_result"
  object_exists :: "string \<Rightarrow> bool"
  transcribe :: "evidence \<Rightarrow> transcription option"
  argon_hash :: "string \<Rightarrow> string"
  argon_verify :: "string \<Rightarrow> string \<Rightarrow> bool"
  sha256 :: "string \<Rightarrow> string"
  hmac_sha1 :: "8 word list \<Rightarrow> 8 word list \<Rightarrow> 8 word list"
  random_codes :: "8 word list list"
  random_token :: string

record actor =
  act_id :: nat
  act_role :: role

type_synonym 'a result = "(db, error, 'a) outcome"

text \<open>
  \<open>include\<close> of a required relation: the foreign key guarantees the row; were it missing, Prisma
  would reject the query.
\<close>

definition included :: "'r table \<Rightarrow> nat \<Rightarrow> db \<Rightarrow> ('r \<Rightarrow> 'a result) \<Rightarrow> 'a result" where
  "included t k d f = (case find_unique t k of
     None \<Rightarrow> throw (Internal STR ''Inconsistent query result'') d
   | Some r \<Rightarrow> f r)"

lemma included_simps [simp]:
  "find_unique t k = Some r \<Longrightarrow> included t k d f = f r"
  "find_unique t k = None \<Longrightarrow> included t k d f = throw (Internal STR ''Inconsistent query result'') d"
  by (simp_all add: included_def)

lemma included_Inr: "included t k d f = (Inr a, d') \<longleftrightarrow> (\<exists>r. find_unique t k = Some r \<and> f r = (Inr a, d'))"
  by (simp add: included_def split: option.split)

text \<open>Milliseconds of a number of hours or minutes, as \<open>new Date\<close> truncates them.\<close>

definition hours_ms :: "rat \<Rightarrow> int" where
  "hours_ms h = \<lfloor>h * 60 * 60 * 1000\<rfloor>"

definition minutes_ms :: "rat \<Rightarrow> int" where
  "minutes_ms m = \<lfloor>m * 60 * 1000\<rfloor>"

section \<open>Enums in the order of their declaration\<close>

text \<open>\<open>orderBy\<close> on an enum column sorts by the position of the member in the declaration.\<close>

fun membership_plan_rank :: "membership_plan \<Rightarrow> nat" where
  "membership_plan_rank MP_ESSENTIAL = 0"
| "membership_plan_rank MP_PRIORITY = 1"
| "membership_plan_rank MP_PREMIUM = 2"

lemma membership_plan_rank_inject: "membership_plan_rank a = membership_plan_rank b \<longleftrightarrow> a = b"
  by (cases a; cases b) simp_all

instantiation membership_plan :: linorder
begin

definition less_eq_membership_plan :: "membership_plan \<Rightarrow> membership_plan \<Rightarrow> bool" where
  "less_eq_membership_plan a b \<longleftrightarrow> membership_plan_rank a \<le> membership_plan_rank b"

definition less_membership_plan :: "membership_plan \<Rightarrow> membership_plan \<Rightarrow> bool" where
  "less_membership_plan a b \<longleftrightarrow> membership_plan_rank a < membership_plan_rank b"

instance
  by standard (auto simp: less_eq_membership_plan_def less_membership_plan_def simp flip: membership_plan_rank_inject)

end

fun pricing_zone_rank :: "pricing_zone \<Rightarrow> nat" where
  "pricing_zone_rank Z_LAGOS = 0"
| "pricing_zone_rank Z_SOUTH_WEST = 1"
| "pricing_zone_rank Z_OTHER = 2"

lemma pricing_zone_rank_inject: "pricing_zone_rank a = pricing_zone_rank b \<longleftrightarrow> a = b"
  by (cases a; cases b) simp_all

instantiation pricing_zone :: linorder
begin

definition less_eq_pricing_zone :: "pricing_zone \<Rightarrow> pricing_zone \<Rightarrow> bool" where
  "less_eq_pricing_zone a b \<longleftrightarrow> pricing_zone_rank a \<le> pricing_zone_rank b"

definition less_pricing_zone :: "pricing_zone \<Rightarrow> pricing_zone \<Rightarrow> bool" where
  "less_pricing_zone a b \<longleftrightarrow> pricing_zone_rank a < pricing_zone_rank b"

instance
  by standard (auto simp: less_eq_pricing_zone_def less_pricing_zone_def simp flip: pricing_zone_rank_inject)

end

fun service_type_rank :: "service_type \<Rightarrow> nat" where
  "service_type_rank ST_PROPERTY_INSPECTION = 0"
| "service_type_rank ST_CONSTRUCTION_SUPERVISION = 1"
| "service_type_rank ST_ASSET_INSPECTION = 2"
| "service_type_rank ST_FAMILY_SUPPORT = 3"
| "service_type_rank ST_PROCUREMENT = 4"
| "service_type_rank ST_BUSINESS_VERIFICATION = 5"
| "service_type_rank ST_INVESTMENT_SUPPORT = 6"
| "service_type_rank ST_AGRICULTURE_SUPPORT = 7"
| "service_type_rank ST_BEREAVEMENT_SUPPORT = 8"
| "service_type_rank ST_ARRIVAL_SUPPORT = 9"
| "service_type_rank ST_LEGAL_DOCUMENT_SERVICES = 10"
| "service_type_rank ST_HEALTHCARE_COORDINATION = 11"

lemma service_type_rank_inject: "service_type_rank a = service_type_rank b \<longleftrightarrow> a = b"
  by (cases a; cases b) simp_all

instantiation service_type :: linorder
begin

definition less_eq_service_type :: "service_type \<Rightarrow> service_type \<Rightarrow> bool" where
  "less_eq_service_type a b \<longleftrightarrow> service_type_rank a \<le> service_type_rank b"

definition less_service_type :: "service_type \<Rightarrow> service_type \<Rightarrow> bool" where
  "less_service_type a b \<longleftrightarrow> service_type_rank a < service_type_rank b"

instance
  by standard (auto simp: less_eq_service_type_def less_service_type_def simp flip: service_type_rank_inject)

end

fun case_priority_rank :: "case_priority \<Rightarrow> nat" where
  "case_priority_rank CP_STANDARD = 0"
| "case_priority_rank CP_PRIORITY = 1"
| "case_priority_rank CP_URGENT = 2"

lemma case_priority_rank_inject: "case_priority_rank a = case_priority_rank b \<longleftrightarrow> a = b"
  by (cases a; cases b) simp_all

instantiation case_priority :: linorder
begin

definition less_eq_case_priority :: "case_priority \<Rightarrow> case_priority \<Rightarrow> bool" where
  "less_eq_case_priority a b \<longleftrightarrow> case_priority_rank a \<le> case_priority_rank b"

definition less_case_priority :: "case_priority \<Rightarrow> case_priority \<Rightarrow> bool" where
  "less_case_priority a b \<longleftrightarrow> case_priority_rank a < case_priority_rank b"

instance
  by standard (auto simp: less_eq_case_priority_def less_case_priority_def simp flip: case_priority_rank_inject)

end

end
