(* ===== verification/Audit_Log.thy ===== *)
theory Audit_Log
  imports Schema "HOL-Library.Sublist"
begin

text \<open>
  \<open>AuditService\<close> (\<open>src/backend/src/audit/audit.service.ts\<close>): the append-only audit log. Every
  other component writes to it through \<open>audit_record\<close>; \<open>audit_extends\<close> is the contract that
  no operation removes or rewrites an event.
\<close>

definition audit_record ::
  "nat option \<Rightarrow> nat option \<Rightarrow> actor_type \<Rightarrow> String.literal \<Rightarrow> (String.literal \<times> json) list \<Rightarrow> db \<Rightarrow> db" where
  "audit_record caseId actorId actorType action metadata d =
     d\<lparr>audit_log := insert_row \<lparr>ae_case = caseId, ae_actor = actorId, ae_actor_type = actorType,
        ae_action = action, ae_metadata = metadata\<rparr> (audit_log d)\<rparr>"

definition listForCase :: "nat \<Rightarrow> db \<Rightarrow> audit_event list" where
  "listForCase caseId d = map snd (find_many (\<lambda>_ a. ae_case a = Some caseId) (audit_log d))"

definition audit_findById :: "nat \<Rightarrow> db \<Rightarrow> audit_event result" where
  "audit_findById i d = (case find_unique (audit_log d) i of
     None \<Rightarrow> throw (Not_Found STR ''Audit event not found'') d
   | Some a \<Rightarrow> return a d)"

definition audit_extends :: "db \<Rightarrow> db \<Rightarrow> bool" where
  "audit_extends d d' \<longleftrightarrow> prefix (t_rows (audit_log d)) (t_rows (audit_log d'))"

lemma audit_record_frame [simp]:
  "users (audit_record ca ac ty action md d) = users d"
  "customers (audit_record ca ac ty action md d) = customers d"
  "beneficiaries (audit_record ca ac ty action md d) = beneficiaries d"
  "properties (audit_record ca ac ty action md d) = properties d"
  "assets (audit_record ca ac ty action md d) = assets d"
  "verified_assets (audit_record ca ac ty action md d) = verified_assets d"
  "requests (audit_record ca ac ty action md d) = requests d"
  "cases (audit_record ca ac ty action md d) = cases d"
  "tasks (audit_record ca ac ty action md d) = tasks d"
  "history (audit_record ca ac ty action md d) = history d"
  "collaborators (audit_record ca ac ty action md d) = collaborators d"
  "approvals (audit_record ca ac ty action md d) = approvals d"
  "disputes (audit_record ca ac ty action md d) = disputes d"
  "messages (audit_record ca ac ty action md d) = messages d"
  "agents (audit_record ca ac ty action md d) = agents d"
  "providers (audit_record ca ac ty action md d) = providers d"
  "assignments (audit_record ca ac ty action md d) = assignments d"
  "scopes (audit_record ca ac ty action md d) = scopes d"
  "price_books (audit_record ca ac ty action md d) = price_books d"
  "price_rules (audit_record ca ac ty action md d) = price_rules d"
  "multiplier_rules (audit_record ca ac ty action md d) = multiplier_rules d"
  "quotes (audit_record ca ac ty action md d) = quotes d"
  "quote_lines (audit_record ca ac ty action md d) = quote_lines d"
  "invoices (audit_record ca ac ty action md d) = invoices d"
  "payments (audit_record ca ac ty action md d) = payments d"
  "refunds (audit_record ca ac ty action md d) = refunds d"
  "refund_requests (audit_record ca ac ty action md d) = refund_requests d"
  "reconciliations (audit_record ca ac ty action md d) = reconciliations d"
  "direct_costs (audit_record ca ac ty action md d) = direct_costs d"
  "plan_configs (audit_record ca ac ty action md d) = plan_configs d"
  "subscriptions (audit_record ca ac ty action md d) = subscriptions d"
  "sub_invoices (audit_record ca ac ty action md d) = sub_invoices d"
  "sc_entries (audit_record ca ac ty action md d) = sc_entries d"
  "capabilities (audit_record ca ac ty action md d) = capabilities d"
  "automation_rules (audit_record ca ac ty action md d) = automation_rules d"
  "decisions (audit_record ca ac ty action md d) = decisions d"
  "escalations (audit_record ca ac ty action md d) = escalations d"
  "idempotency (audit_record ca ac ty action md d) = idempotency d"
  "wallets (audit_record ca ac ty action md d) = wallets d"
  "wallet_entries (audit_record ca ac ty action md d) = wallet_entries d"
  "ledger_accounts (audit_record ca ac ty action md d) = ledger_accounts d"
  "journal_entries (audit_record ca ac ty action md d) = journal_entries d"
  "journal_lines (audit_record ca ac ty action md d) = journal_lines d"
  "payouts (audit_record ca ac ty action md d) = payouts d"
  "pings (audit_record ca ac ty action md d) = pings d"
  "evidences (audit_record ca ac ty action md d) = evidences d"
  "reports (audit_record ca ac ty action md d) = reports d"
  "qc_reviews (audit_record ca ac ty action md d) = qc_reviews d"
  "risk_flags (audit_record ca ac ty action md d) = risk_flags d"
  "incidents (audit_record ca ac ty action md d) = incidents d"
  "risk_assessments (audit_record ca ac ty action md d) = risk_assessments d"
  "ratings (audit_record ca ac ty action md d) = ratings d"
  "schedules (audit_record ca ac ty action md d) = schedules d"
  "sos_alerts (audit_record ca ac ty action md d) = sos_alerts d"
  "arrangements (audit_record ca ac ty action md d) = arrangements d"
  "credentials (audit_record ca ac ty action md d) = credentials d"
  "vault_documents (audit_record ca ac ty action md d) = vault_documents d"
  "trust_scores (audit_record ca ac ty action md d) = trust_scores d"
  "partners (audit_record ca ac ty action md d) = partners d"
  "refresh_tokens (audit_record ca ac ty action md d) = refresh_tokens d"
  "reset_tokens (audit_record ca ac ty action md d) = reset_tokens d"
  "invites (audit_record ca ac ty action md d) = invites d"
  "partner_contacts (audit_record ca ac ty action md d) = partner_contacts d"
  "account_groups (audit_record ca ac ty action md d) = account_groups d"
  "documents (audit_record ca ac ty action md d) = documents d"
  "relay_messages (audit_record ca ac ty action md d) = relay_messages d"
  "notifications (audit_record ca ac ty action md d) = notifications d"
  by (simp_all add: audit_record_def)

lemma rows_audit_record [simp]:
  "t_rows (audit_log (audit_record ca ac ty action md d)) =
     t_rows (audit_log d) @ [(t_next (audit_log d), \<lparr>ae_case = ca, ae_actor = ac, ae_actor_type = ty,
        ae_action = action, ae_metadata = md\<rparr>)]"
  by (simp add: audit_record_def)

lemma audit_extends_refl [simp]: "audit_extends d d"
  by (simp add: audit_extends_def)

lemma audit_extends_trans [trans]:
  "audit_extends d d' \<Longrightarrow> audit_extends d' d'' \<Longrightarrow> audit_extends d d''"
  unfolding audit_extends_def by (rule prefix_order.trans)

lemma audit_extends_record [simp]: "audit_extends d (audit_record ca ac ty action md d')
    \<longleftrightarrow> prefix (t_rows (audit_log d)) (t_rows (audit_log (audit_record ca ac ty action md d')))"
  by (simp add: audit_extends_def)

lemma prefix_audit_record [simp]:
  "prefix xs (t_rows (audit_log d)) \<Longrightarrow> prefix xs (t_rows (audit_log (audit_record ca ac ty action md d)))"
  by (simp add: prefix_prefix)

end
