(* ===== verification/Notifications.thy ===== *)
theory Notifications
  imports Audit_Log
begin

text \<open>
  \<open>NotificationsService\<close> (\<open>src/backend/src/notifications/notifications.service.ts\<close>): the in-app
  inbox row is always written first, then the customer's preferred channel is attempted when
  its provider is configured, and the outcome of the attempt recorded on the row. Delivery
  itself is the parameter \<open>delivers\<close> of the environment.
\<close>

definition attemptChannelFanOut :: "env \<Rightarrow> nat \<Rightarrow> notification \<Rightarrow> db \<Rightarrow> notification \<times> db" where
  "attemptChannelFanOut e nid n d = (case find_unique (users d) (n_user n) of
     None \<Rightarrow> (n, d)
   | Some u \<Rightarrow>
       (let channel = (if u_preferred_channel u = Some STR ''whatsapp'' \<and> u_phone u \<notin> {None, Some []}
                           \<and> whatsapp_configured e then Some STR ''whatsapp''
                       else if u_preferred_channel u = Some STR ''email'' \<and> u_email u \<notin> {None, Some []}
                           \<and> email_configured e then Some STR ''email''
                       else None)
        in case channel of
             None \<Rightarrow> (n, d)
           | Some ch \<Rightarrow>
               (let n' = n\<lparr>n_channel := Some ch,
                    n_delivery := (if delivers e nid then DS_SENT else DS_FAILED),
                    n_failure := (if delivers e nid then None
                                  else Some (ch + STR '' delivery failed''))\<rparr>
                in (n', d\<lparr>notifications := update_row nid (\<lambda>_. n') (notifications d)\<rparr>))))"

definition notify_url ::
  "env \<Rightarrow> nat \<Rightarrow> String.literal \<Rightarrow> json list \<Rightarrow> json list option \<Rightarrow> db \<Rightarrow> db" where
  "notify_url e userId title body actionUrl d =
     (let n = \<lparr>n_user = userId, n_title = title, n_body = body, n_url = actionUrl,
               n_channel = None, n_delivery = DS_SENT, n_failure = None, n_read_at = None\<rparr>
      in snd (attemptChannelFanOut e (t_next (notifications d)) n
                (d\<lparr>notifications := insert_row n (notifications d)\<rparr>)))"

abbreviation notify :: "env \<Rightarrow> nat \<Rightarrow> String.literal \<Rightarrow> json list \<Rightarrow> db \<Rightarrow> db" where
  "notify e userId title body \<equiv> notify_url e userId title body None"

definition retryDelivery :: "env \<Rightarrow> nat \<Rightarrow> nat \<Rightarrow> db \<Rightarrow> notification result" where
  "retryDelivery e actorId nid d = (case find_unique (notifications d) nid of
     None \<Rightarrow> throw (Not_Found STR ''Notification not found'') d
   | Some n \<Rightarrow>
       if n_delivery n \<noteq> DS_FAILED
       then throw (Bad_Request STR ''This notification is not in a failed delivery state'') d
       else (let (n', d') = attemptChannelFanOut e nid n d in
         return n' (audit_record None (Some actorId) By_User STR ''notification.retried''
           [(STR ''notificationId'', J_Id nid), (STR ''channel'', json_option J_Lit (n_channel n')),
            (STR ''deliveryStatus'', J_Bool (n_delivery n' = DS_SENT))] d')))"

definition listFailed :: "db \<Rightarrow> notification list" where
  "listFailed d = take 100 (map snd (rev (find_many (\<lambda>_ n. n_delivery n = DS_FAILED) (notifications d))))"

definition listForUser :: "nat \<Rightarrow> db \<Rightarrow> notification list" where
  "listForUser userId d = take 50 (map snd (rev (find_many (\<lambda>_ n. n_user n = userId) (notifications d))))"

definition markRead :: "env \<Rightarrow> nat \<Rightarrow> nat \<Rightarrow> db \<Rightarrow> bool result" where
  "markRead e userId nid d = (let hit = (\<lambda>k n. k = nid \<and> n_user n = userId) in
     return (find_many hit (notifications d) \<noteq> [])
       (d\<lparr>notifications := update_many hit (\<lambda>n. n\<lparr>n_read_at := Some (now e)\<rparr>) (notifications d)\<rparr>))"

definition markAllRead :: "env \<Rightarrow> nat \<Rightarrow> db \<Rightarrow> unit result" where
  "markAllRead e userId d = return ()
     (d\<lparr>notifications := update_many (\<lambda>_ n. n_user n = userId \<and> n_read_at n = None)
          (\<lambda>n. n\<lparr>n_read_at := Some (now e)\<rparr>) (notifications d)\<rparr>)"

text \<open>A notification touches nothing but the table of notifications.\<close>

lemma attemptChannelFanOut_state:
  "snd (attemptChannelFanOut e nid n d) = d\<lparr>notifications := notifications (snd (attemptChannelFanOut e nid n d))\<rparr>"
proof (cases "find_unique (users d) (n_user n)")
  case None
  then show ?thesis by (simp add: attemptChannelFanOut_def)
next
  case (Some u)
  then show ?thesis by (simp only: attemptChannelFanOut_def Let_def option.case prod.sel split: option.split) simp
qed

lemma notify_state:
  "notify_url e u title body url d = d\<lparr>notifications := notifications (notify_url e u title body url d)\<rparr>"
  unfolding notify_url_def Let_def by (subst attemptChannelFanOut_state) simp

lemma notify_frame [simp]:
  "users (notify_url e u title body url d) = users d"
  "customers (notify_url e u title body url d) = customers d"
  "beneficiaries (notify_url e u title body url d) = beneficiaries d"
  "properties (notify_url e u title body url d) = properties d"
  "assets (notify_url e u title body url d) = assets d"
  "verified_assets (notify_url e u title body url d) = verified_assets d"
  "requests (notify_url e u title body url d) = requests d"
  "cases (notify_url e u title body url d) = cases d"
  "tasks (notify_url e u title body url d) = tasks d"
  "history (notify_url e u title body url d) = history d"
  "collaborators (notify_url e u title body url d) = collaborators d"
  "approvals (notify_url e u title body url d) = approvals d"
  "disputes (notify_url e u title body url d) = disputes d"
  "messages (notify_url e u title body url d) = messages d"
  "agents (notify_url e u title body url d) = agents d"
  "providers (notify_url e u title body url d) = providers d"
  "assignments (notify_url e u title body url d) = assignments d"
  "scopes (notify_url e u title body url d) = scopes d"
  "price_books (notify_url e u title body url d) = price_books d"
  "price_rules (notify_url e u title body url d) = price_rules d"
  "multiplier_rules (notify_url e u title body url d) = multiplier_rules d"
  "quotes (notify_url e u title body url d) = quotes d"
  "quote_lines (notify_url e u title body url d) = quote_lines d"
  "invoices (notify_url e u title body url d) = invoices d"
  "payments (notify_url e u title body url d) = payments d"
  "refunds (notify_url e u title body url d) = refunds d"
  "refund_requests (notify_url e u title body url d) = refund_requests d"
  "reconciliations (notify_url e u title body url d) = reconciliations d"
  "direct_costs (notify_url e u title body url d) = direct_costs d"
  "plan_configs (notify_url e u title body url d) = plan_configs d"
  "subscriptions (notify_url e u title body url d) = subscriptions d"
  "sub_invoices (notify_url e u title body url d) = sub_invoices d"
  "sc_entries (notify_url e u title body url d) = sc_entries d"
  "capabilities (notify_url e u title body url d) = capabilities d"
  "automation_rules (notify_url e u title body url d) = automation_rules d"
  "decisions (notify_url e u title body url d) = decisions d"
  "escalations (notify_url e u title body url d) = escalations d"
  "idempotency (notify_url e u title body url d) = idempotency d"
  "wallets (notify_url e u title body url d) = wallets d"
  "wallet_entries (notify_url e u title body url d) = wallet_entries d"
  "ledger_accounts (notify_url e u title body url d) = ledger_accounts d"
  "journal_entries (notify_url e u title body url d) = journal_entries d"
  "journal_lines (notify_url e u title body url d) = journal_lines d"
  "payouts (notify_url e u title body url d) = payouts d"
  "pings (notify_url e u title body url d) = pings d"
  "evidences (notify_url e u title body url d) = evidences d"
  "reports (notify_url e u title body url d) = reports d"
  "qc_reviews (notify_url e u title body url d) = qc_reviews d"
  "risk_flags (notify_url e u title body url d) = risk_flags d"
  "incidents (notify_url e u title body url d) = incidents d"
  "risk_assessments (notify_url e u title body url d) = risk_assessments d"
  "ratings (notify_url e u title body url d) = ratings d"
  "schedules (notify_url e u title body url d) = schedules d"
  "sos_alerts (notify_url e u title body url d) = sos_alerts d"
  "arrangements (notify_url e u title body url d) = arrangements d"
  "credentials (notify_url e u title body url d) = credentials d"
  "vault_documents (notify_url e u title body url d) = vault_documents d"
  "trust_scores (notify_url e u title body url d) = trust_scores d"
  "partners (notify_url e u title body url d) = partners d"
  "refresh_tokens (notify_url e u title body url d) = refresh_tokens d"
  "reset_tokens (notify_url e u title body url d) = reset_tokens d"
  "invites (notify_url e u title body url d) = invites d"
  "partner_contacts (notify_url e u title body url d) = partner_contacts d"
  "account_groups (notify_url e u title body url d) = account_groups d"
  "documents (notify_url e u title body url d) = documents d"
  "relay_messages (notify_url e u title body url d) = relay_messages d"
  "audit_log (notify_url e u title body url d) = audit_log d"
  by (subst notify_state, simp)+

end
