(* ===== verification/State_Machines.thy ===== *)
theory State_Machines
  imports Notifications
begin

text \<open>
  The deterministic status machines: cases (\<open>src/backend/src/cases/case-state-machine.ts\<close>),
  arrival arrangements (\<open>arrival/arrival-arrangement-state-machine.ts\<close>) and providers
  (\<open>providers/provider-status-machine.ts\<close>). Each is a map from a status to the statuses it may
  move to, and a check that throws outside the map. What such a machine promises is the locale
  \<open>status_machine\<close>, interpreted for all three.
\<close>

section \<open>The interface\<close>

locale status_machine =
  fixes allowed :: "'s \<Rightarrow> 's list"
    and legal :: "'s \<Rightarrow> 's \<Rightarrow> bool"
  assumes legal_iff: "legal a b \<longleftrightarrow> b \<in> set (allowed a)"
begin

lemma terminal_stays:
  assumes "legal\<^sup>*\<^sup>* a b" and "allowed a = []"
  shows "b = a"
  using assms by (induction rule: converse_rtranclp_induct) (auto simp: legal_iff)

lemma unreachable:
  assumes "legal\<^sup>*\<^sup>* a b" and "\<And>c. b \<notin> set (allowed c)"
  shows "a = b"
  using assms by (induction rule: rtranclp_induct) (auto simp: legal_iff)

lemma confined:
  assumes "legal\<^sup>*\<^sup>* a b" and "a \<in> S" and "\<And>c. c \<in> S \<Longrightarrow> set (allowed c) \<subseteq> S"
  shows "b \<in> S"
  using assms(1, 2) by (induction rule: rtranclp_induct) (use assms(3) in \<open>auto simp: legal_iff\<close>)

text \<open>A rank that never falls along an edge bounds what is reachable.\<close>

lemma ranked:
  assumes "legal\<^sup>*\<^sup>* a b" and "\<And>c d. d \<in> set (allowed c) \<Longrightarrow> (rank c :: nat) \<le> rank d"
  shows "rank a \<le> rank b"
  using assms(1) by (induction rule: rtranclp_induct) (use assms(2) in \<open>auto simp: legal_iff intro: le_trans\<close>)

end

section \<open>Cases\<close>

fun case_transitions :: "case_status \<Rightarrow> case_status list" where
  "case_transitions CS_DRAFT = [CS_SUBMITTED, CS_CLOSED]"
| "case_transitions CS_SUBMITTED = [CS_UNDER_REVIEW, CS_CLOSED]"
| "case_transitions CS_UNDER_REVIEW = [CS_QUOTED, CS_CLOSED]"
| "case_transitions CS_QUOTED = [CS_AWAITING_PAYMENT, CS_UNDER_REVIEW, CS_CLOSED]"
| "case_transitions CS_AWAITING_PAYMENT = [CS_SCHEDULED, CS_CLOSED]"
| "case_transitions CS_SCHEDULED = [CS_ASSIGNED, CS_CLOSED]"
| "case_transitions CS_ASSIGNED = [CS_IN_PROGRESS, CS_SCHEDULED]"
| "case_transitions CS_IN_PROGRESS = [CS_EVIDENCE_SUBMITTED]"
| "case_transitions CS_EVIDENCE_SUBMITTED = [CS_QUALITY_CONTROL]"
| "case_transitions CS_QUALITY_CONTROL = [CS_CUSTOMER_REVIEW, CS_IN_PROGRESS]"
| "case_transitions CS_CUSTOMER_REVIEW = [CS_ADDITIONAL_WORK, CS_APPROVED]"
| "case_transitions CS_ADDITIONAL_WORK = [CS_IN_PROGRESS]"
| "case_transitions CS_APPROVED = [CS_COMPLETED]"
| "case_transitions CS_COMPLETED = [CS_CLOSED]"
| "case_transitions CS_CLOSED = []"
| "case_transitions CS_ON_HOLD = []"
| "case_transitions CS_DISPUTED = []"

definition assertValidTransition :: "case_status \<Rightarrow> case_status \<Rightarrow> error + unit" where
  "assertValidTransition from to =
     (if to \<notin> set (case_transitions from) then Inl (Invalid_Transition from to) else Inr ())"

definition getAllowedTransitions :: "case_status \<Rightarrow> case_status list" where
  "getAllowedTransitions from = case_transitions from"

lemma assertValidTransition_Inr [simp]:
  "assertValidTransition a b = Inr u \<longleftrightarrow> b \<in> set (case_transitions a)"
  by (simp add: assertValidTransition_def)

lemma assertValidTransition_Inl [simp]:
  "assertValidTransition a b = Inl err \<longleftrightarrow> b \<notin> set (case_transitions a) \<and> err = Invalid_Transition a b"
  by (auto simp: assertValidTransition_def)

abbreviation case_edge :: "case_status \<Rightarrow> case_status \<Rightarrow> bool" where
  "case_edge a b \<equiv> assertValidTransition a b = Inr ()"

interpretation case_sm: status_machine getAllowedTransitions case_edge
  by unfold_locales (simp add: getAllowedTransitions_def)

text \<open>The side statuses are off the map, \<open>CLOSED\<close> is its only other end.\<close>

lemma case_transitions_Nil: "case_transitions a = [] \<longleftrightarrow> a \<in> {CS_CLOSED, CS_ON_HOLD, CS_DISPUTED}"
  by (cases a) auto

lemma side_status_not_target [simp]:
  "CS_ON_HOLD \<notin> set (case_transitions a)" "CS_DISPUTED \<notin> set (case_transitions a)"
  "CS_DRAFT \<notin> set (case_transitions a)"
  by (cases a; simp)+

section \<open>Arrival arrangements\<close>

fun arrangement_transitions :: "arrangement_status \<Rightarrow> arrangement_status list" where
  "arrangement_transitions AA_REQUESTED = [AA_BEING_SOURCED, AA_CANCELLED]"
| "arrangement_transitions AA_BEING_SOURCED = [AA_AWAITING_CONFIRMATION, AA_CANCELLED]"
| "arrangement_transitions AA_AWAITING_CONFIRMATION = [AA_CONFIRMED, AA_CANCELLED]"
| "arrangement_transitions AA_CONFIRMED = [AA_CHANGED, AA_CANCELLED, AA_COMPLETED]"
| "arrangement_transitions AA_CHANGED = [AA_AWAITING_CONFIRMATION, AA_CANCELLED]"
| "arrangement_transitions AA_CANCELLED = []"
| "arrangement_transitions AA_COMPLETED = []"

definition note_required_statuses :: "arrangement_status list" where
  "note_required_statuses = [AA_CANCELLED, AA_CHANGED]"

definition assertValidArrangementTransition ::
  "arrangement_status \<Rightarrow> arrangement_status \<Rightarrow> string option \<Rightarrow> error + unit" where
  "assertValidArrangementTransition from to note =
     (if to \<notin> set (arrangement_transitions from)
      then Inl (Bad_Request STR ''Invalid arrival arrangement transition'')
      else if to \<in> set note_required_statuses \<and> (case note of None \<Rightarrow> True | Some s \<Rightarrow> js_trim s = [])
      then Inl (Bad_Request STR ''note is required moving an arrangement'')
      else Inr ())"

definition getAllowedArrangementTransitions :: "arrangement_status \<Rightarrow> arrangement_status list" where
  "getAllowedArrangementTransitions from = arrangement_transitions from"

text \<open>An edge that can be taken with some note.\<close>

definition arrangement_edge :: "arrangement_status \<Rightarrow> arrangement_status \<Rightarrow> bool" where
  "arrangement_edge a b \<longleftrightarrow> (\<exists>note. assertValidArrangementTransition a b note = Inr ())"

interpretation arrangement_sm: status_machine getAllowedArrangementTransitions arrangement_edge
proof unfold_locales
  fix a b
  have "assertValidArrangementTransition a b (Some ''x'') = Inr () \<longleftrightarrow> b \<in> set (arrangement_transitions a)"
    by (simp add: assertValidArrangementTransition_def js_trim_def js_space_def)
  then show "arrangement_edge a b \<longleftrightarrow> b \<in> set (getAllowedArrangementTransitions a)"
    unfolding arrangement_edge_def getAllowedArrangementTransitions_def
    by (metis assertValidArrangementTransition_def sum.distinct(1))
qed

section \<open>Providers\<close>

fun provider_transitions :: "provider_status \<Rightarrow> provider_status list" where
  "provider_transitions PV_PENDING = [PV_UNDER_REVIEW, PV_REMOVED]"
| "provider_transitions PV_UNDER_REVIEW = [PV_VERIFIED, PV_REMOVED]"
| "provider_transitions PV_VERIFIED = [PV_ACTIVE, PV_RESTRICTED, PV_SUSPENDED]"
| "provider_transitions PV_ACTIVE = [PV_RESTRICTED, PV_SUSPENDED]"
| "provider_transitions PV_RESTRICTED = [PV_ACTIVE, PV_SUSPENDED, PV_REMOVED]"
| "provider_transitions PV_SUSPENDED = [PV_ACTIVE, PV_RESTRICTED, PV_REMOVED]"
| "provider_transitions PV_REMOVED = []"

definition assertValidProviderTransition :: "provider_status \<Rightarrow> provider_status \<Rightarrow> error + unit" where
  "assertValidProviderTransition from to =
     (if to \<notin> set (provider_transitions from)
      then Inl (Bad_Request STR ''Invalid provider status transition'') else Inr ())"

abbreviation provider_edge :: "provider_status \<Rightarrow> provider_status \<Rightarrow> bool" where
  "provider_edge a b \<equiv> assertValidProviderTransition a b = Inr ()"

interpretation provider_sm: status_machine provider_transitions provider_edge
  by unfold_locales (simp add: assertValidProviderTransition_def)

end
