(* ===== verification/Catalogue.thy ===== *)
theory Catalogue
  imports State_Machines
begin

text \<open>
  The fixed tables of the service catalogue and the pure functions over them: service families
  (\<open>cases/service-family.ts\<close>), field checklists (\<open>cases/checklist-templates.ts\<close>), pricing zones
  (\<open>scope/pricing-zone.ts\<close>), the service-level windows (\<open>cases/regional-sla.ts\<close> and the
  constants of \<open>cases/cases.service.ts\<close>), the regional price hint
  (\<open>commerce/regional-pricing.ts\<close>), and the roles that may not see a customer's name
  (\<open>common/pii-restricted-roles.ts\<close>).
\<close>

section \<open>Service families\<close>

datatype service_family = SF_arrivals | SF_inspect | SF_build | SF_care | SF_verify | SF_assist

definition service_type_to_family :: "(service_type \<times> service_family) list" where
  "service_type_to_family =
    [(ST_ARRIVAL_SUPPORT, SF_arrivals),
     (ST_PROPERTY_INSPECTION, SF_inspect),
     (ST_ASSET_INSPECTION, SF_inspect),
     (ST_CONSTRUCTION_SUPERVISION, SF_build),
     (ST_FAMILY_SUPPORT, SF_care),
     (ST_BEREAVEMENT_SUPPORT, SF_care),
     (ST_BUSINESS_VERIFICATION, SF_verify),
     (ST_PROCUREMENT, SF_assist),
     (ST_INVESTMENT_SUPPORT, SF_assist),
     (ST_AGRICULTURE_SUPPORT, SF_assist),
     (ST_LEGAL_DOCUMENT_SERVICES, SF_verify),
     (ST_HEALTHCARE_COORDINATION, SF_care)]"

fun family_name :: "service_family \<Rightarrow> String.literal" where
  "family_name SF_arrivals = STR ''ASOJU Arrivals''"
| "family_name SF_inspect = STR ''ASOJU Inspect''"
| "family_name SF_build = STR ''ASOJU Build''"
| "family_name SF_care = STR ''ASOJU Care''"
| "family_name SF_verify = STR ''ASOJU Verify''"
| "family_name SF_assist = STR ''ASOJU Assist''"

definition service_family_order :: "service_family list" where
  "service_family_order = [SF_arrivals, SF_inspect, SF_build, SF_care, SF_verify, SF_assist]"

definition familyForServiceType :: "service_type \<Rightarrow> service_family option" where
  "familyForServiceType st = map_of service_type_to_family st"

text \<open>The loop that fills \<open>byFamily\<close>: each service type is appended to the list of its family.\<close>

definition types_by_family :: "service_family \<Rightarrow> service_type list" where
  "types_by_family = foldl (\<lambda>m (st, f). m(f := m f @ [st])) (\<lambda>_. []) service_type_to_family"

definition listServiceFamilies :: "(service_family \<times> String.literal \<times> service_type list) list" where
  "listServiceFamilies = map (\<lambda>f. (f, family_name f, types_by_family f)) service_family_order"

section \<open>Checklists\<close>

definition item :: "string \<Rightarrow> string \<times> milestone_group option" where
  "item label = (label, None)"

fun checklist_template :: "service_type \<Rightarrow> (string \<times> milestone_group option) list" where
  "checklist_template ST_PROPERTY_INSPECTION =
    [item ''Confirm location'',
     item ''Photograph entrance / access road'',
     item ''Photograph surrounding development'',
     item ''Photograph the property'',
     item ''Capture site video'',
     item ''Record observations'',
     item ''Collect available documents'',
     item ''Identify exceptions'',
     item ''Complete inspection submission'']"
| "checklist_template ST_CONSTRUCTION_SUPERVISION =
    [item ''Confirm site location'',
     (''Verify foundation/footing works against approved plan'', Some MG_FOUNDATION),
     (''Photograph foundation/footing progress (all angles)'', Some MG_FOUNDATION),
     (''Verify damp-proof course (DPC) / ground floor slab'', Some MG_DPC),
     (''Photograph DPC / ground floor slab progress'', Some MG_DPC),
     (''Verify superstructure/walling matches approved plan'', Some MG_SUPERSTRUCTURE),
     (''Photograph superstructure progress (all angles)'', Some MG_SUPERSTRUCTURE),
     (''Verify roofing structure and covering'', Some MG_ROOFING),
     (''Photograph roofing progress (all angles)'', Some MG_ROOFING),
     (''Verify finishing works (plastering, fittings, painting)'', Some MG_FINISHING),
     (''Photograph finishing progress (all angles)'', Some MG_FINISHING),
     item ''Record contractor observations'',
     item ''Verify materials on site'',
     item ''Capture progress video'',
     item ''Record observations'',
     item ''Identify exceptions'',
     item ''Complete supervision submission'']"
| "checklist_template ST_ASSET_INSPECTION =
    [item ''Confirm asset location'',
     item ''Photograph the asset (all angles)'',
     item ''Capture asset video'',
     item ''Record condition observations'',
     item ''Collect available documents'',
     item ''Identify exceptions'',
     item ''Complete inspection submission'']"
| "checklist_template ST_FAMILY_SUPPORT =
    [item ''Confirm beneficiary details and location'',
     item ''Make contact / confirm welfare'',
     item ''Photograph relevant documentation'',
     item ''Record observations'',
     item ''Identify exceptions'',
     item ''Complete visit submission'']"
| "checklist_template ST_PROCUREMENT =
    [item ''Confirm item specification and budget'',
     item ''Source and compare at least two quotes'',
     item ''Photograph the item(s) before purchase'',
     item ''Complete purchase and collect receipt'',
     item ''Photograph item(s) and receipt after purchase'',
     item ''Arrange delivery / handoff'',
     item ''Identify exceptions'',
     item ''Complete procurement submission'']"
| "checklist_template ST_BUSINESS_VERIFICATION =
    [item ''Confirm business name and registered address'',
     item ''Photograph business premises'',
     item ''Collect CAC / registration documents'',
     item ''Record observations on business activity'',
     item ''Identify exceptions'',
     item ''Complete verification submission'']"
| "checklist_template ST_INVESTMENT_SUPPORT =
    [item ''Confirm investment site / instrument details'',
     item ''Photograph site or supporting documents'',
     item ''Record observations'',
     item ''Collect available documents'',
     item ''Identify exceptions'',
     item ''Complete review submission'']"
| "checklist_template ST_AGRICULTURE_SUPPORT =
    [item ''Confirm farm / site location'',
     item ''Photograph the farm (all sections)'',
     item ''Capture site video'',
     item ''Record crop/livestock condition observations'',
     item ''Collect available documents'',
     item ''Identify exceptions'',
     item ''Complete inspection submission'']"
| "checklist_template ST_BEREAVEMENT_SUPPORT =
    [item ''Confirm next of kin / family point of contact'',
     item ''Confirm mortuary -- location, hold status, and release requirements'',
     item ''Confirm burial/venue booking and date'',
     item ''Confirm permits and documentation required (death certificate, burial permit)'',
     item ''Coordinate with officiant / clergy if requested'',
     item ''Record observations'',
     item ''Identify exceptions'',
     item ''Complete coordination submission'']"
| "checklist_template ST_ARRIVAL_SUPPORT =
    [item ''Confirm arrival date, flight, and accommodation address against the Arrival Profile'',
     item ''Verify accommodation condition and readiness (photos)'',
     item ''Confirm utilities / internet active at accommodation'',
     item ''Confirm groceries and essentials stocked, if requested'',
     item ''Confirm driver / vehicle arranged for airport pickup, if requested'',
     item ''Complete airport pickup and meet-and-greet, if requested'',
     item ''Record observations'',
     item ''Identify exceptions'',
     item ''Complete arrival coordination submission'']"
| "checklist_template ST_LEGAL_DOCUMENT_SERVICES =
    [item ''Confirm the document(s)/title requested and the issuing registry'',
     item ''Confirm any reference numbers, file numbers, or prior correspondence needed for retrieval'',
     item ''Visit the registry / government office'',
     item ''Photograph the retrieved or verified document(s)'',
     item ''Confirm document authenticity markers (seal, signature, watermark) where applicable'',
     item ''Collect certified copies / receipts of any fees paid'',
     item ''Record observations'',
     item ''Identify exceptions'',
     item ''Complete legal/document services submission'']"
| "checklist_template ST_HEALTHCARE_COORDINATION =
    [item ''Confirm beneficiary details and hospital/clinic location'',
     item ''Confirm appointment time and attending doctor, if scheduled'',
     item ''Accompany or facilitate beneficiary at the hospital visit'',
     item ''Photograph relevant documentation (admission, prescriptions, receipts)'',
     item (''Collect the medical report / doctor'' @ [CHR 0x27] @ ''s notes''),
     item (''Confirm signed doctor'' @ [CHR 0x27] @ ''s notes are present and legible''),
     item ''Record observations'',
     item ''Identify exceptions'',
     item ''Complete healthcare coordination submission'']"

section \<open>Zones and service-level windows\<close>

definition south_west_states :: "string list" where
  "south_west_states = [''oyo'', ''ogun'', ''osun'', ''ondo'', ''ekiti'']"

definition classifyZone :: "string \<Rightarrow> pricing_zone" where
  "classifyZone location = (let normalized = js_lower location in
     if js_includes normalized ''lagos'' then Z_LAGOS
     else if (\<exists>state \<in> set south_west_states. js_includes normalized state) then Z_SOUTH_WEST
     else Z_OTHER)"

fun default_regional_sla_multiplier :: "pricing_zone \<Rightarrow> rat" where
  "default_regional_sla_multiplier Z_LAGOS = 1"
| "default_regional_sla_multiplier Z_SOUTH_WEST = 125 / 100"
| "default_regional_sla_multiplier Z_OTHER = 15 / 10"

definition regionalSlaMultiplier :: "env \<Rightarrow> pricing_zone \<Rightarrow> rat" where
  "regionalSlaMultiplier e zone = env_positive (sla_multiplier_env e zone) (default_regional_sla_multiplier zone)"

definition slaHoursForCase :: "env \<Rightarrow> rat \<Rightarrow> string \<Rightarrow> rat" where
  "slaHoursForCase e baseSlaHours location =
     js_round (baseSlaHours * regionalSlaMultiplier e (classifyZone location))"

fun default_sla_hours :: "case_priority \<Rightarrow> rat" where
  "default_sla_hours CP_STANDARD = 72"
| "default_sla_hours CP_PRIORITY = 48"
| "default_sla_hours CP_URGENT = 24"

fun service_type_default_priority :: "service_type \<Rightarrow> case_priority option" where
  "service_type_default_priority ST_BEREAVEMENT_SUPPORT = Some CP_URGENT"
| "service_type_default_priority _ = None"

definition verified_poa_required_service_types :: "service_type list" where
  "verified_poa_required_service_types = [ST_LEGAL_DOCUMENT_SERVICES]"

definition slaHoursForPriority :: "env \<Rightarrow> case_priority \<Rightarrow> rat" where
  "slaHoursForPriority e p = env_positive (sla_hours_env e p) (default_sla_hours p)"

section \<open>Regional price hint\<close>

fun base_rate_usd :: "pricing_zone \<Rightarrow> rat option" where
  "base_rate_usd Z_LAGOS = Some 40"
| "base_rate_usd Z_SOUTH_WEST = Some 80"
| "base_rate_usd Z_OTHER = None"

definition urgency_multiplier :: rat where
  "urgency_multiplier = 15 / 10"

record regional_suggestion =
  rg_zone :: pricing_zone
  rg_base :: "rat option"
  rg_urgent :: bool
  rg_fee :: "rat option"
  rg_sc_eligible :: bool

definition suggestRegionalServiceFee :: "pricing_zone \<Rightarrow> case_priority \<Rightarrow> regional_suggestion" where
  "suggestRegionalServiceFee zone p =
     (let base = base_rate_usd zone; urgent = (p = CP_URGENT) in
      \<lparr>rg_zone = zone, rg_base = base, rg_urgent = urgent,
       rg_fee = map_option (\<lambda>b. if urgent then js_round (b * urgency_multiplier * 100) / 100 else b) base,
       rg_sc_eligible = (zone \<noteq> Z_OTHER)\<rparr>)"

section \<open>Restricted staff roles\<close>

definition pii_restricted_staff_roles :: "role list" where
  "pii_restricted_staff_roles = [R_CASE_MANAGER, R_QUALITY_CONTROL, R_FINANCE, R_COMPLIANCE_RISK]"

definition isPiiRestricted :: "role \<Rightarrow> bool" where
  "isPiiRestricted r \<longleftrightarrow> r \<in> set pii_restricted_staff_roles"

definition redacted_customer_name :: string where
  "redacted_customer_name = ''Client (name withheld)''"

definition redactCustomerName :: "customer \<Rightarrow> role \<Rightarrow> customer" where
  "redactCustomerName cu r = (if \<not> isPiiRestricted r then cu else cu\<lparr>cu_name := redacted_customer_name\<rparr>)"

section \<open>Lemmas\<close>

lemma familyForServiceType_total: "familyForServiceType st \<noteq> None"
  by (cases st) (simp_all add: familyForServiceType_def service_type_to_family_def)

lemma types_by_family_foldl:
  "foldl (\<lambda>m (st, f). m(f := m f @ [st])) m xs f = m f @ map fst (filter (\<lambda>(_, g). g = f) xs)"
  by (induction xs arbitrary: m) auto

lemma types_by_family_filter:
  "types_by_family f = map fst (filter (\<lambda>(_, g). g = f) service_type_to_family)"
  by (simp add: types_by_family_def types_by_family_foldl)

lemma distinct_service_types: "distinct (map fst service_type_to_family)"
  by (simp add: service_type_to_family_def)

lemma checklist_nonempty: "checklist_template st \<noteq> []"
  by (cases st) simp_all

lemma sla_hours_pos: "0 < slaHoursForPriority e p"
  unfolding slaHoursForPriority_def by (rule env_positive_pos) (cases p; simp)

lemma sla_multiplier_pos: "0 < regionalSlaMultiplier e z"
  unfolding regionalSlaMultiplier_def by (rule env_positive_pos) (cases z; simp)

end
