(* ===== verification/Automation.thy ===== *)
theory Automation
  imports Catalogue
begin

text \<open>
  The automation of intake: the pure rule evaluator (\<open>automation/automation-evaluator.ts\<close>), the
  service that records its decision per request and escalates (\<open>automation/
  automation-eligibility.service.ts\<close>), and the escalation queue
  (\<open>escalation/escalation.service.ts\<close>).
\<close>

section \<open>The evaluator\<close>

definition field_present :: "service_request \<Rightarrow> string \<Rightarrow> bool" where
  "field_present rq f =
     (if f = ''serviceType'' then rq_service_type rq \<noteq> None
      else (case (if f = ''objective'' then rq_objective rq
                  else if f = ''location'' then rq_location rq
                  else if f = ''timing'' then rq_timing rq
                  else None) of
              None \<Rightarrow> False | Some v \<Rightarrow> js_trim v \<noteq> []))"

definition evaluateRequiredFields :: "service_request \<Rightarrow> nat \<Rightarrow> string list option \<Rightarrow> rule_result" where
  "evaluateRequiredFields rq ruleId config =
     (let fields = (case config of Some fs \<Rightarrow> fs | None \<Rightarrow> []);
          missing = filter (\<lambda>f. \<not> field_present rq f) fields
      in \<lparr>rres_rule = ruleId, rres_kind = AK_REQUIRED_FIELDS, rres_passed = (length missing = 0),
          rres_detail = (if length missing > 0
            then Some (J_Lit STR ''Missing: '' # map J_Text missing) else None)\<rparr>)"

text \<open>An empty keyword is found in any text, but as a falsy result it does not count as matched.\<close>

definition evaluateBlockedKeywords :: "service_request \<Rightarrow> nat \<Rightarrow> string list option \<Rightarrow> rule_result" where
  "evaluateBlockedKeywords rq ruleId config =
     (let keywords = (case config of Some ks \<Rightarrow> ks | None \<Rightarrow> []);
          haystack = js_lower (rq_raw_description rq @ '' '' @
            (case rq_objective rq of Some t \<Rightarrow> t | None \<Rightarrow> []));
          matched = (case find (\<lambda>k. js_includes haystack (js_lower k)) keywords of
            Some k \<Rightarrow> if k = [] then None else Some k | None \<Rightarrow> None)
      in \<lparr>rres_rule = ruleId, rres_kind = AK_BLOCKED_KEYWORDS, rres_passed = (matched = None),
          rres_detail = (case matched of
            Some k \<Rightarrow> Some [J_Lit STR ''Matched blocked keyword: '', J_Text k] | None \<Rightarrow> None)\<rparr>)"

record evaluation =
  ev_outcome :: automation_outcome
  ev_reason :: "json list"
  ev_results :: "rule_result list"
  ev_enabled :: bool

definition evaluate_rule :: "service_request \<Rightarrow> nat \<times> automation_rule \<Rightarrow> rule_result" where
  "evaluate_rule rq rule = (case rule of (i, r) \<Rightarrow>
     if ar_kind r = AK_BLOCKED_KEYWORDS then evaluateBlockedKeywords rq i (ar_keywords r)
     else evaluateRequiredFields rq i (ar_fields r))"

definition detail_or :: "json list option \<Rightarrow> String.literal \<Rightarrow> json list" where
  "detail_or detail alternative = (case detail of Some t \<Rightarrow> t | None \<Rightarrow> [J_Lit alternative])"

definition evaluate ::
  "service_request \<Rightarrow> (automation_capability \<times> (nat \<times> automation_rule) list) option \<Rightarrow> evaluation" where
  "evaluate rq capability = (case rq_service_type rq of
     None \<Rightarrow> \<lparr>ev_outcome = AO_CUSTOMER_INPUT,
               ev_reason = [J_Lit STR ''Service type has not been determined yet''],
               ev_results = [], ev_enabled = False\<rparr>
   | Some st \<Rightarrow>
     (case capability of
        None \<Rightarrow> \<lparr>ev_outcome = AO_UNSUPPORTED,
                  ev_reason = [J_Lit STR ''Automation is not offered for '', J_Service st],
                  ev_results = [], ev_enabled = False\<rparr>
      | Some (cap, rules) \<Rightarrow>
        if \<not> cap_enabled cap
        then \<lparr>ev_outcome = AO_ESCALATE,
               ev_reason = [J_Lit STR ''Automation is currently disabled for '', J_Service st],
               ev_results = [], ev_enabled = False\<rparr>
        else (let results = map (evaluate_rule rq) rules in
          (case find (\<lambda>r. rres_kind r = AK_BLOCKED_KEYWORDS \<and> \<not> rres_passed r) results of
             Some blocked \<Rightarrow> \<lparr>ev_outcome = AO_BLOCKED,
               ev_reason = detail_or (rres_detail blocked) STR ''A blocked-keyword rule matched'',
               ev_results = results, ev_enabled = True\<rparr>
           | None \<Rightarrow>
             (case find (\<lambda>r. rres_kind r = AK_REQUIRED_FIELDS \<and> \<not> rres_passed r) results of
                Some missing \<Rightarrow> \<lparr>ev_outcome = AO_CUSTOMER_INPUT,
                  ev_reason = detail_or (rres_detail missing) STR ''Required information is missing'',
                  ev_results = results, ev_enabled = True\<rparr>
              | None \<Rightarrow> \<lparr>ev_outcome = AO_AUTO,
                  ev_reason = [J_Lit STR ''Every configured rule passed''],
                  ev_results = results, ev_enabled = True\<rparr>)))))"

section \<open>Escalations\<close>

definition ops_roles :: "role list" where
  "ops_roles = [R_CASE_MANAGER, R_RELATIONSHIP_MANAGER, R_QUALITY_CONTROL, R_FINANCE,
     R_COMPLIANCE_RISK, R_ADMIN, R_SUPER_ADMIN]"

record escalation_dto =
  ed_reason :: escalation_reason
  ed_internal :: "json list option"
  ed_handoff :: "json option"
  ed_message :: string

definition new_escalation ::
  "nat option \<Rightarrow> nat option \<Rightarrow> escalation_reason \<Rightarrow> json list option \<Rightarrow> json option \<Rightarrow> string \<Rightarrow> escalation" where
  "new_escalation caseId requestId reason internal handoff message =
     \<lparr>es_case = caseId, es_request = requestId, es_reason_category = reason, es_internal = internal,
      es_handoff = handoff, es_customer_message = message, es_status = ES_REQUIRED,
      es_assigned = None, es_resolved_at = None, es_notes = None\<rparr>"

definition escalation_create :: "actor \<Rightarrow> nat \<Rightarrow> escalation_dto \<Rightarrow> db \<Rightarrow> nat result" where
  "escalation_create ac caseId dto d = (case find_unique (cases d) caseId of
     None \<Rightarrow> throw (Not_Found STR ''Case not found'') d
   | Some _ \<Rightarrow>
       (let eid = t_next (escalations d) in return eid
         (audit_record (Some caseId) (Some (act_id ac)) By_User STR ''escalation.created''
            [(STR ''escalationId'', J_Id eid), (STR ''reasonCategory'', J_Reason (ed_reason dto))]
          (d\<lparr>escalations := insert_row (new_escalation (Some caseId) None (ed_reason dto) (ed_internal dto)
             (ed_handoff dto) (ed_message dto)) (escalations d)\<rparr>))))"

definition createForServiceRequest ::
  "nat \<Rightarrow> escalation_reason \<Rightarrow> string \<Rightarrow> json list option \<Rightarrow> db \<Rightarrow> nat \<times> db" where
  "createForServiceRequest requestId reason message internal d =
     (let eid = t_next (escalations d) in
      (eid, audit_record None None By_System STR ''escalation.created''
         [(STR ''escalationId'', J_Id eid), (STR ''reasonCategory'', J_Reason reason),
          (STR ''serviceRequestId'', J_Id requestId)]
       (d\<lparr>escalations := insert_row (new_escalation None (Some requestId) reason internal None message)
          (escalations d)\<rparr>)))"

definition requireEscalation :: "nat \<Rightarrow> db \<Rightarrow> escalation result" where
  "requireEscalation i d = (case find_unique (escalations d) i of
     None \<Rightarrow> throw (Not_Found STR ''Escalation not found'') d
   | Some es \<Rightarrow> return es d)"

definition escalation_findOne :: "nat \<Rightarrow> db \<Rightarrow> escalation result" where
  "escalation_findOne i d = (case find_unique (escalations d) i of
     None \<Rightarrow> throw (Not_Found STR ''Escalation not found'') d
   | Some es \<Rightarrow> return es d)"

definition escalation_list :: "escalation_status option \<Rightarrow> db \<Rightarrow> (nat \<times> escalation) list" where
  "escalation_list status d =
     rev (find_many (\<lambda>_ es. case status of Some st \<Rightarrow> es_status es = st | None \<Rightarrow> True) (escalations d))"

text \<open>What a viewer sees of an escalation: staff every field, anyone else the safe ones.\<close>

datatype escalation_view =
    Full_View nat escalation
  | Safe_View nat escalation_reason string escalation_status "int option"

definition escalation_listForCase :: "nat \<Rightarrow> role \<Rightarrow> db \<Rightarrow> escalation_view list" where
  "escalation_listForCase caseId viewer d =
     (let found = rev (find_many (\<lambda>_ es. es_case es = Some caseId) (escalations d))
      in if viewer \<in> set ops_roles then map (\<lambda>(i, es). Full_View i es) found
         else map (\<lambda>(i, es). Safe_View i (es_reason_category es) (es_customer_message es) (es_status es)
                                (es_resolved_at es)) found)"

definition escalation_assign :: "actor \<Rightarrow> nat \<Rightarrow> nat \<Rightarrow> db \<Rightarrow> nat result" where
  "escalation_assign ac i assignedToId d = and_then (requireEscalation i d) (\<lambda>es d.
     case find_unique (users d) assignedToId of
       None \<Rightarrow> throw (Bad_Request STR ''Escalations can only be assigned to operations staff'') d
     | Some u \<Rightarrow>
         if u_role u \<notin> set ops_roles
         then throw (Bad_Request STR ''Escalations can only be assigned to operations staff'') d
         else return i
           (audit_record (es_case es) (Some (act_id ac)) By_User STR ''escalation.assigned''
              [(STR ''escalationId'', J_Id i), (STR ''assignedToId'', J_Id assignedToId)]
            (d\<lparr>escalations := update_row i (\<lambda>es. es\<lparr>es_assigned := Some assignedToId,
               es_status := ES_REVIEWING\<rparr>) (escalations d)\<rparr>)))"

definition escalation_resolve :: "env \<Rightarrow> actor \<Rightarrow> nat \<Rightarrow> string option \<Rightarrow> db \<Rightarrow> nat result" where
  "escalation_resolve e ac i notes d = and_then (requireEscalation i d) (\<lambda>es d.
     if es_status es = ES_RESOLVED \<or> es_status es = ES_CANCELLED
     then throw (Bad_Request STR ''Escalation is already closed'') d
     else return i
       (audit_record (es_case es) (Some (act_id ac)) By_User STR ''escalation.resolved''
          [(STR ''escalationId'', J_Id i)]
        (d\<lparr>escalations := update_row i (\<lambda>es. es\<lparr>es_status := ES_RESOLVED, es_resolved_at := Some (now e),
           es_notes := notes\<rparr>) (escalations d)\<rparr>)))"

definition escalation_cancel :: "env \<Rightarrow> actor \<Rightarrow> nat \<Rightarrow> string option \<Rightarrow> db \<Rightarrow> nat result" where
  "escalation_cancel e ac i reason d = and_then (requireEscalation i d) (\<lambda>es d.
     if es_status es = ES_RESOLVED \<or> es_status es = ES_CANCELLED
     then throw (Bad_Request STR ''Escalation is already closed'') d
     else return i
       (audit_record (es_case es) (Some (act_id ac)) By_User STR ''escalation.cancelled''
          [(STR ''escalationId'', J_Id i)]
        (d\<lparr>escalations := update_row i (\<lambda>es. es\<lparr>es_status := ES_CANCELLED, es_resolved_at := Some (now e),
           es_notes := reason\<rparr>) (escalations d)\<rparr>)))"

section \<open>The decision of a request\<close>

definition find_capability ::
  "service_request \<Rightarrow> db \<Rightarrow> (automation_capability \<times> (nat \<times> automation_rule) list) option" where
  "find_capability rq d = (case rq_service_type rq of
     None \<Rightarrow> None
   | Some st \<Rightarrow> map_option
       (\<lambda>(cid, cap). (cap, sort_key (\<lambda>(_, r). ar_sort r)
          (find_many (\<lambda>_ r. ar_capability r = cid) (automation_rules d))))
       (find_first (\<lambda>_ cap. cap_service cap = st) (capabilities d)))"

definition getDecision :: "nat \<Rightarrow> db \<Rightarrow> (nat \<times> automation_decision) option" where
  "getDecision requestId d = find_first (\<lambda>_ ad. ad_request ad = requestId) (decisions d)"

definition upsert_decision :: "automation_decision \<Rightarrow> db \<Rightarrow> db" where
  "upsert_decision ad d = (case getDecision (ad_request ad) d of
     None \<Rightarrow> d\<lparr>decisions := insert_row ad (decisions d)\<rparr>
   | Some (i, _) \<Rightarrow> d\<lparr>decisions := update_row i (\<lambda>_. ad) (decisions d)\<rparr>)"

definition evaluateAndRecord :: "env \<Rightarrow> nat \<Rightarrow> db \<Rightarrow> automation_decision result" where
  "evaluateAndRecord e requestId d = (case find_unique (requests d) requestId of
     None \<Rightarrow> throw (Internal STR ''No ServiceRequest found'') d
   | Some rq \<Rightarrow>
     (let r = evaluate rq (find_capability rq d);
          known = (case getDecision requestId d of Some (_, ad) \<Rightarrow> ad_escalation ad | None \<Rightarrow> None);
          (escalationId, d1) =
            (if ev_outcome r = AO_ESCALATE \<and> known = None
             then (let (eid, d') = createForServiceRequest requestId ER_AUTOMATION_UNAVAILABLE
                      ''We're reviewing your request with a member of the team and will be in touch shortly.''
                      (Some (ev_reason r)) d
                   in (Some eid, d'))
             else (known, d));
          ad = \<lparr>ad_request = requestId, ad_outcome = ev_outcome r, ad_reason = ev_reason r,
                ad_results = ev_results r, ad_capability_enabled = ev_enabled r,
                ad_escalation = escalationId, ad_decided = now e\<rparr>
      in return ad
        (audit_record None None By_System STR ''automation_decision.recorded''
           [(STR ''serviceRequestId'', J_Id requestId), (STR ''outcome'', J_Outcome (ev_outcome r)),
            (STR ''reason'', J_Array (ev_reason r))]
         (upsert_decision ad d1))))"

section \<open>Lemmas\<close>

lemma evaluate_rule_kind [simp]: "rres_kind (evaluate_rule rq (i, r)) = ar_kind r"
  by (cases "ar_kind r") (simp_all add: evaluate_rule_def evaluateBlockedKeywords_def
      evaluateRequiredFields_def Let_def)

lemma evaluate_enabled:
  assumes "rq_service_type rq = Some st" "cap_enabled cap"
  shows "ev_outcome (evaluate rq (Some (cap, rules))) =
    (if \<exists>r \<in> set rules. ar_kind (snd r) = AK_BLOCKED_KEYWORDS \<and> \<not> rres_passed (evaluate_rule rq r) then AO_BLOCKED
     else if \<exists>r \<in> set rules. ar_kind (snd r) = AK_REQUIRED_FIELDS \<and> \<not> rres_passed (evaluate_rule rq r)
     then AO_CUSTOMER_INPUT else AO_AUTO)"
proof -
  have find_rule: "find (\<lambda>r. rres_kind r = k \<and> \<not> rres_passed r) (map (evaluate_rule rq) rules) = None
      \<longleftrightarrow> \<not> (\<exists>r \<in> set rules. ar_kind (snd r) = k \<and> \<not> rres_passed (evaluate_rule rq r))" for k
    by (force simp: find_None_iff)
  show ?thesis
    using find_rule [of AK_BLOCKED_KEYWORDS] find_rule [of AK_REQUIRED_FIELDS] assms
    by (auto simp: evaluate_def Let_def split: option.split)
qed

lemma evaluate_auto:
  assumes "ev_outcome (evaluate rq capability) = AO_AUTO"
  obtains st cap rules where "rq_service_type rq = Some st" "capability = Some (cap, rules)" "cap_enabled cap"
    "\<And>r. r \<in> set rules \<Longrightarrow> rres_passed (evaluate_rule rq r)"
proof -
  obtain st where st: "rq_service_type rq = Some st"
    using assms by (cases "rq_service_type rq") (simp_all add: evaluate_def)
  obtain cap rules where cap: "capability = Some (cap, rules)"
    using assms st by (cases capability) (auto simp: evaluate_def)
  have enabled: "cap_enabled cap"
    using assms st cap by (cases "cap_enabled cap") (simp_all add: evaluate_def)
  have "rres_passed (evaluate_rule rq r)" if "r \<in> set rules" for r
    using assms that unfolding cap evaluate_enabled [OF st enabled]
    by (cases "ar_kind (snd r)") (auto split: if_splits)
  with that [OF st cap enabled] show thesis by blast
qed

lemma evaluate_auto_iff:
  "ev_outcome (evaluate rq capability) = AO_AUTO \<longleftrightarrow> (\<exists>st cap rules. rq_service_type rq = Some st
     \<and> capability = Some (cap, rules) \<and> cap_enabled cap \<and> (\<forall>r \<in> set rules. rres_passed (evaluate_rule rq r)))"
proof
  assume "\<exists>st cap rules. rq_service_type rq = Some st
     \<and> capability = Some (cap, rules) \<and> cap_enabled cap \<and> (\<forall>r \<in> set rules. rres_passed (evaluate_rule rq r))"
  then show "ev_outcome (evaluate rq capability) = AO_AUTO" by (auto simp: evaluate_enabled)
qed (metis evaluate_auto)

lemma evaluate_blocked_iff:
  "ev_outcome (evaluate rq capability) = AO_BLOCKED \<longleftrightarrow> (\<exists>st cap rules. rq_service_type rq = Some st
     \<and> capability = Some (cap, rules) \<and> cap_enabled cap
     \<and> (\<exists>r \<in> set rules. ar_kind (snd r) = AK_BLOCKED_KEYWORDS \<and> \<not> rres_passed (evaluate_rule rq r)))"
proof
  assume blocked: "ev_outcome (evaluate rq capability) = AO_BLOCKED"
  then obtain st cap rules where cap: "rq_service_type rq = Some st" "capability = Some (cap, rules)" "cap_enabled cap"
    by (cases "rq_service_type rq"; cases capability) (auto simp: evaluate_def split: if_splits)
  with blocked show "\<exists>st cap rules. rq_service_type rq = Some st
     \<and> capability = Some (cap, rules) \<and> cap_enabled cap
     \<and> (\<exists>r \<in> set rules. ar_kind (snd r) = AK_BLOCKED_KEYWORDS \<and> \<not> rres_passed (evaluate_rule rq r))"
    by (simp add: evaluate_enabled split: if_splits)
qed (elim exE conjE, simp add: evaluate_enabled)

lemma getDecision_upsert:
  assumes "wf_table (decisions d)"
  shows "map_option snd (getDecision rid (upsert_decision ad d))
    = (if rid = ad_request ad then Some ad else map_option snd (getDecision rid d))"
proof (cases "getDecision (ad_request ad) d")
  case None
  then show ?thesis
    by (auto simp: upsert_decision_def getDecision_def find_first_insert_row split: option.split)
next
  case (Some x)
  then obtain i ad' where x: "x = (i, ad')" "getDecision (ad_request ad) d = Some (i, ad')" by (cases x) auto
  then have row: "(i, ad') \<in> set (t_rows (decisions d))" "ad_request ad' = ad_request ad"
    by (auto simp: getDecision_def dest: find_first_SomeD)
  have "find_first (\<lambda>_ a. ad_request a = rid) (update_many (\<lambda>k _. k = i) (\<lambda>_. ad) (decisions d))
      = map_option (\<lambda>(k, r). (k, if k = i then ad else r)) (find_first (\<lambda>_ a. ad_request a = rid) (decisions d))"
  proof (rule find_first_update_many)
    fix k r assume "(k, r) \<in> set (t_rows (decisions d))" "k = i"
    then have "r = ad'" using wf_row_unique [OF assms] row(1) by blast
    with row(2) show "(ad_request ad = rid) = (ad_request r = rid)" by simp
  qed
  moreover have "k = i \<longleftrightarrow> rid = ad_request ad"
    if "find_first (\<lambda>_ a. ad_request a = rid) (decisions d) = Some (k, r)" for k r
  proof -
    have kr: "ad_request r = rid" "(k, r) \<in> set (t_rows (decisions d))"
      using find_first_SomeD [OF that] by simp_all
    show ?thesis
    proof
      assume "k = i"
      with wf_row_unique [OF assms kr(2)] row kr(1) show "rid = ad_request ad" by simp
    next
      assume "rid = ad_request ad"
      with that x(2) show "k = i" by (simp add: getDecision_def)
    qed
  qed
  moreover have "rid \<noteq> ad_request ad" if "find_first (\<lambda>_ a. ad_request a = rid) (decisions d) = None"
    using that x(2) by (auto simp: getDecision_def)
  moreover have "decisions (upsert_decision ad d) = update_many (\<lambda>k _. k = i) (\<lambda>_. ad) (decisions d)"
    by (simp add: upsert_decision_def x(2) update_row_def)
  ultimately show ?thesis
    by (cases "find_first (\<lambda>_ a. ad_request a = rid) (decisions d)") (auto simp: getDecision_def)
qed

text \<open>Each request is linked to the escalations its decision knows: at most one.\<close>

definition escalations_of :: "nat \<Rightarrow> db \<Rightarrow> nat list" where
  "escalations_of rid d = map fst (find_many (\<lambda>_ es. es_request es = Some rid) (escalations d))"

definition decision_escalation :: "nat \<Rightarrow> db \<Rightarrow> nat list" where
  "decision_escalation rid d = (case map_option snd (getDecision rid d) of
     Some ad \<Rightarrow> (case ad_escalation ad of Some i \<Rightarrow> [i] | None \<Rightarrow> []) | None \<Rightarrow> [])"

definition escalation_inv :: "db \<Rightarrow> bool" where
  "escalation_inv d \<longleftrightarrow> wf_table (decisions d) \<and> (\<forall>rid. escalations_of rid d = decision_escalation rid d)"

lemma wf_upsert: "wf_table (decisions d) \<Longrightarrow> wf_table (decisions (upsert_decision ad d))"
  by (auto simp: upsert_decision_def split: option.split)

lemma upsert_escalations [simp]: "escalations (upsert_decision ad d) = escalations d"
  by (auto simp: upsert_decision_def split: option.split)

lemma evaluateAndRecord_Inr:
  assumes "evaluateAndRecord e rid d = (Inr ad, d')"
  obtains rq d1 where "find_unique (requests d) rid = Some rq" "ad_request ad = rid"
    "ad_outcome ad = ev_outcome (evaluate rq (find_capability rq d))"
    "decisions d' = decisions (upsert_decision ad d1)" "escalations d' = escalations d1" "decisions d1 = decisions d"
    "(ad_escalation ad = (case getDecision rid d of Some (_, a) \<Rightarrow> ad_escalation a | None \<Rightarrow> None)
        \<and> escalations d1 = escalations d \<and> (ad_outcome ad = AO_ESCALATE \<longrightarrow> ad_escalation ad \<noteq> None))
     \<or> ((case getDecision rid d of Some (_, a) \<Rightarrow> ad_escalation a | None \<Rightarrow> None) = None
        \<and> ad_outcome ad = AO_ESCALATE \<and> ad_escalation ad = Some (t_next (escalations d))
        \<and> (\<exists>es. escalations d1 = insert_row es (escalations d) \<and> es_request es = Some rid))"
proof -
  obtain rq where rq: "find_unique (requests d) rid = Some rq"
    using assms by (cases "find_unique (requests d) rid") (simp_all add: evaluateAndRecord_def)
  let ?r = "evaluate rq (find_capability rq d)"
  let ?known = "case getDecision rid d of Some (_, a) \<Rightarrow> ad_escalation a | None \<Rightarrow> None"
  show thesis
  proof (cases "ev_outcome ?r = AO_ESCALATE \<and> ?known = None")
    case True
    with assms show thesis
      by (intro that [OF rq, where ?d1.0 = "snd (createForServiceRequest rid ER_AUTOMATION_UNAVAILABLE
             ''We're reviewing your request with a member of the team and will be in touch shortly.''
             (Some (ev_reason ?r)) d)"])
        (auto simp: evaluateAndRecord_def rq Let_def createForServiceRequest_def new_escalation_def)
  next
    case False
    with assms show thesis
      by (intro that [OF rq, where ?d1.0 = d]) (auto simp: evaluateAndRecord_def rq Let_def)
  qed
qed

lemma evaluateAndRecord_inv:
  assumes inv: "escalation_inv d" and ev: "evaluateAndRecord e rid d = (Inr ad, d')"
  shows "escalation_inv d'"
proof (rule evaluateAndRecord_Inr [OF ev])
  fix d1
  assume ad: "ad_request ad = rid" and dec: "decisions d' = decisions (upsert_decision ad d1)"
    and esc: "escalations d' = escalations d1" and same: "decisions d1 = decisions d"
    and link: "(ad_escalation ad = (case getDecision rid d of Some (_, a) \<Rightarrow> ad_escalation a | None \<Rightarrow> None)
        \<and> escalations d1 = escalations d \<and> (ad_outcome ad = AO_ESCALATE \<longrightarrow> ad_escalation ad \<noteq> None))
     \<or> ((case getDecision rid d of Some (_, a) \<Rightarrow> ad_escalation a | None \<Rightarrow> None) = None
        \<and> ad_outcome ad = AO_ESCALATE \<and> ad_escalation ad = Some (t_next (escalations d))
        \<and> (\<exists>es. escalations d1 = insert_row es (escalations d) \<and> es_request es = Some rid))"
  have wf: "wf_table (decisions d1)" using inv same by (simp add: escalation_inv_def)
  have get: "getDecision k d1 = getDecision k d" for k by (simp add: getDecision_def same)
  have dec': "map_option snd (getDecision k d')
      = (if k = rid then Some ad else map_option snd (getDecision k d))" for k
    using getDecision_upsert [OF wf, of k ad] ad by (simp add: getDecision_def dec same)
  have old: "escalations_of k d = decision_escalation k d" for k
    using inv by (simp add: escalation_inv_def)
  have "escalations_of k d' = decision_escalation k d'" for k
  proof (cases "k = rid")
    case False
    then show ?thesis using old [of k] link dec' [of k]
      by (auto simp: escalations_of_def decision_escalation_def esc)
  next
    case True
    then show ?thesis using old [of rid] link dec' [of rid]
      by (auto simp: escalations_of_def decision_escalation_def esc split: option.splits)
  qed
  with wf dec show ?thesis by (simp add: escalation_inv_def wf_upsert)
qed

end
