(* ===== verification/Idempotency.thy ===== *)
theory Idempotency
  imports Notifications
begin

text \<open>
  \<open>IdempotencyService\<close> (\<open>src/backend/src/common/idempotency/idempotency.service.ts\<close>): duplicate
  protection of consequential operations under a key the client supplies. \<open>with_idempotency\<close> is
  the protocol its comment prescribes to the call sites, \<open>CasesService.createServiceRequest\<close>
  and \<open>CommerceService.initiatePayment\<close>, which follow it word for word.

  The contract of the three methods is the locale \<open>idempotency_protocol\<close>: a key is free, in
  progress, done with a result, or failed.
\<close>

datatype idem_check = Should_Proceed | Replay "nat option"

datatype idem_state = Free | Busy | Done "nat option"

type_synonym idem_key = "idempotency_operation \<times> string \<times> nat"

section \<open>The interface\<close>

locale idempotency_protocol =
  fixes enter :: "'k \<Rightarrow> 's \<Rightarrow> ('s, 'e, idem_check) outcome"
    and finish :: "'k \<Rightarrow> nat \<Rightarrow> 's \<Rightarrow> 's"
    and abandon :: "'k \<Rightarrow> 's \<Rightarrow> 's"
    and state :: "'s \<Rightarrow> 'k \<Rightarrow> idem_state"
    and ok :: "'s \<Rightarrow> bool"
  assumes enter_free: "ok s \<Longrightarrow> state s k = Free \<Longrightarrow>
      \<exists>s'. enter k s = (Inr Should_Proceed, s') \<and> ok s' \<and> state s' k = Busy"
    and enter_busy: "ok s \<Longrightarrow> state s k = Busy \<Longrightarrow> \<exists>err. enter k s = (Inl err, s)"
    and enter_done: "ok s \<Longrightarrow> state s k = Done ref \<Longrightarrow> enter k s = (Inr (Replay ref), s)"
    and finish_done: "state s k = Busy \<Longrightarrow> state (finish k i s) k = Done (Some i)"
    and abandon_free: "state s k = Busy \<Longrightarrow> state (abandon k s) k = Free"
    and ok_finish: "ok s \<Longrightarrow> ok (finish k i s)"
    and ok_abandon: "ok s \<Longrightarrow> ok (abandon k s)"
begin

text \<open>Entering never starts a second run of an operation that has a result.\<close>

lemma proceed_only_if_free:
  assumes "ok s" "enter k s = (Inr Should_Proceed, s')"
  shows "state s k = Free \<and> state s' k = Busy \<and> ok s'"
proof (cases "state s k")
  case Free with assms enter_free [of s k] show ?thesis by auto
next
  case Busy with assms enter_busy [of s k] show ?thesis by auto
next
  case (Done r) with assms enter_done [of s k r] show ?thesis by auto
qed

lemma finished_replays:
  assumes "ok s" "state s k = Busy"
  shows "enter k (finish k i s) = (Inr (Replay (Some i)), finish k i s)"
  using assms by (simp add: enter_done ok_finish finish_done)

lemma abandoned_retries:
  assumes "ok s" "state s k = Busy"
  shows "\<exists>s'. enter k (abandon k s) = (Inr Should_Proceed, s')"
  using enter_free [of "abandon k s" k] assms by (auto simp: ok_abandon abandon_free)

end

section \<open>The service\<close>

definition idem_matches :: "idem_key \<Rightarrow> nat \<Rightarrow> idempotency_record \<Rightarrow> bool" where
  "idem_matches k _ r \<longleftrightarrow> (id_operation r, id_key r, id_actor r) = k"

definition idem_create :: "idem_key \<Rightarrow> db \<Rightarrow> idem_check result" where
  "idem_create k d =
     (if exists_row (idem_matches k) (idempotency d)
      then throw (Conflict STR ''This request is already being processed'') d
      else return Should_Proceed (d\<lparr>idempotency := insert_row
        \<lparr>id_operation = fst k, id_key = fst (snd k), id_actor = snd (snd k), id_result = None,
         id_status = IS_PROCESSING\<rparr> (idempotency d)\<rparr>))"

definition idem_begin :: "idem_key \<Rightarrow> db \<Rightarrow> idem_check result" where
  "idem_begin k d = (case find_first (idem_matches k) (idempotency d) of
     Some (i, existing) \<Rightarrow>
       (case id_status existing of
          IS_SUCCEEDED \<Rightarrow> return (Replay (id_result existing)) d
        | IS_PROCESSING \<Rightarrow> throw (Conflict STR ''This request is already being processed'') d
        | IS_FAILED \<Rightarrow> idem_create k (d\<lparr>idempotency := delete_row i (idempotency d)\<rparr>))
   | None \<Rightarrow> idem_create k d)"

definition idem_complete :: "idem_key \<Rightarrow> nat \<Rightarrow> db \<Rightarrow> db" where
  "idem_complete k ref d = d\<lparr>idempotency := update_many (idem_matches k)
     (\<lambda>r. r\<lparr>id_status := IS_SUCCEEDED, id_result := Some ref\<rparr>) (idempotency d)\<rparr>"

definition idem_fail :: "idem_key \<Rightarrow> db \<Rightarrow> db" where
  "idem_fail k d = d\<lparr>idempotency := update_many (idem_matches k)
     (\<lambda>r. r\<lparr>id_status := IS_FAILED\<rparr>) (idempotency d)\<rparr>"

text \<open>An empty key is falsy in JavaScript, so it counts as no key.\<close>

definition with_idempotency ::
  "idempotency_operation \<Rightarrow> string option \<Rightarrow> nat \<Rightarrow> (nat option \<Rightarrow> db \<Rightarrow> 'a result)
    \<Rightarrow> (db \<Rightarrow> 'b result) \<Rightarrow> ('b \<Rightarrow> nat) \<Rightarrow> ('b \<Rightarrow> 'a) \<Rightarrow> db \<Rightarrow> 'a result" where
  "with_idempotency operation key user reload body ident answer d =
     (if key = None \<or> key = Some [] then and_then (body d) (\<lambda>b d'. return (answer b) d')
      else (let k = (operation, the key, user) in
        and_then (idem_begin k d) (\<lambda>check d1. case check of
          Replay ref \<Rightarrow> reload ref d1
        | Should_Proceed \<Rightarrow>
            (case body d1 of
               (Inr b, d2) \<Rightarrow> return (answer b) (idem_complete k (ident b) d2)
             | (Inl err, d2) \<Rightarrow> throw err (idem_fail k d2)))))"

section \<open>The contract holds\<close>

definition idem_ok :: "db \<Rightarrow> bool" where
  "idem_ok d \<longleftrightarrow> wf_table (idempotency d)
     \<and> distinct (map (\<lambda>(_, r). (id_operation r, id_key r, id_actor r)) (t_rows (idempotency d)))"

definition idem_state :: "db \<Rightarrow> idem_key \<Rightarrow> idem_state" where
  "idem_state d k = (case find_first (idem_matches k) (idempotency d) of
     None \<Rightarrow> Free
   | Some (_, r) \<Rightarrow> (case id_status r of IS_PROCESSING \<Rightarrow> Busy | IS_SUCCEEDED \<Rightarrow> Done (id_result r)
                    | IS_FAILED \<Rightarrow> Free))"

lemma idem_create_Free:
  assumes "idem_ok d" "find_first (idem_matches k) (idempotency d) = None"
  shows "\<exists>d'. idem_create k d = (Inr Should_Proceed, d') \<and> idem_ok d' \<and> idem_state d' k = Busy"
proof -
  have "k \<notin> (\<lambda>(_, r). (id_operation r, id_key r, id_actor r)) ` set (t_rows (idempotency d))"
    using assms(2) by (auto simp: find_first_None_iff idem_matches_def)
  with assms show ?thesis
    by (auto simp: idem_create_def idem_ok_def idem_state_def find_first_insert_row idem_matches_def)
qed

lemma find_first_delete_only:
  assumes "distinct (map f rs)" "find P rs = Some x" "\<And>y. P y \<longleftrightarrow> f y = c"
  shows "find P (filter (\<lambda>y. y \<noteq> x) rs) = None"
  using assms by (auto simp: find_None_iff dest!: find_SomeD) (metis (mono_tags) distinct_map inj_on_eq_iff)

lemma idem_delete:
  assumes ok: "idem_ok d" and found: "find_first (idem_matches k) (idempotency d) = Some (i, r)"
  shows "idem_ok (d\<lparr>idempotency := delete_row i (idempotency d)\<rparr>)"
    and "find_first (idem_matches k) (delete_row i (idempotency d)) = None"
proof -
  let ?f = "\<lambda>(_ :: nat, r). (id_operation r, id_key r, id_actor r)"
  have in_rows: "(i, r) \<in> set (t_rows (idempotency d))"
    using found by (auto dest: find_first_SomeD)
  have same: "filter (\<lambda>(k', _). k' \<noteq> i) (t_rows (idempotency d)) = filter (\<lambda>y. y \<noteq> (i, r)) (t_rows (idempotency d))"
    using ok in_rows by (intro filter_cong) (auto simp: idem_ok_def wf_table_def eq_key_imp_eq_value)
  show "idem_ok (d\<lparr>idempotency := delete_row i (idempotency d)\<rparr>)"
    using ok by (auto simp: idem_ok_def) (auto simp: delete_row_def distinct_map_filter)
  have "find (\<lambda>(k', r'). idem_matches k k' r') (filter (\<lambda>y. y \<noteq> (i, r)) (t_rows (idempotency d))) = None"
    using ok found by (intro find_first_delete_only [where f = ?f and c = k])
      (auto simp: idem_ok_def find_first_def idem_matches_def)
  then show "find_first (idem_matches k) (delete_row i (idempotency d)) = None"
    by (simp add: find_first_def delete_row_def same)
qed

lemma idem_ok_update:
  assumes "\<And>r. (id_operation (f r), id_key (f r), id_actor (f r)) = (id_operation r, id_key r, id_actor r)"
  shows "idem_ok (d\<lparr>idempotency := update_many P f (idempotency d)\<rparr>) = idem_ok d"
proof -
  have "map (\<lambda>(_, r). (id_operation r, id_key r, id_actor r)) (t_rows (update_many P f (idempotency d)))
      = map (\<lambda>(_, r). (id_operation r, id_key r, id_actor r)) (t_rows (idempotency d))"
    using assms by (auto simp: rows_update_many)
  then show ?thesis by (simp add: idem_ok_def del: map_map)
qed

lemma idem_state_update:
  assumes "\<And>r. (id_operation (f r), id_key (f r), id_actor (f r)) = (id_operation r, id_key r, id_actor r)"
  shows "find_first (idem_matches k) (update_many (idem_matches k') f (idempotency d))
    = map_option (\<lambda>(i, r). (i, if idem_matches k' i r then f r else r)) (find_first (idem_matches k) (idempotency d))"
  using assms by (intro find_first_update_many) (simp add: idem_matches_def)

interpretation idem: idempotency_protocol idem_begin idem_complete idem_fail idem_state idem_ok
proof unfold_locales
  fix d :: db and k assume ok: "idem_ok d" and free: "idem_state d k = Free"
  show "\<exists>d'. idem_begin k d = (Inr Should_Proceed, d') \<and> idem_ok d' \<and> idem_state d' k = Busy"
  proof (cases "find_first (idem_matches k) (idempotency d)")
    case None
    with idem_create_Free [OF ok] show ?thesis by (simp add: idem_begin_def)
  next
    case (Some x)
    then obtain i r where x: "x = (i, r)" by fastforce
    with free Some have "id_status r = IS_FAILED"
      by (auto simp: idem_state_def split: idempotency_status.splits)
    with idem_create_Free [OF idem_delete(1) [OF ok Some [unfolded x]]] idem_delete(2) [OF ok Some [unfolded x]]
    show ?thesis by (simp add: idem_begin_def Some x)
  qed
qed (auto simp: idem_begin_def idem_complete_def idem_fail_def idem_ok_update idem_state_update idem_state_def idem_matches_def
       split: option.splits idempotency_status.splits dest!: find_first_SomeD)

section \<open>The protocol\<close>

lemma idem_state_cong: "idempotency d' = idempotency d \<Longrightarrow> idem_state d' k = idem_state d k"
  by (simp add: idem_state_def)

lemma idem_ok_cong: "idempotency d' = idempotency d \<Longrightarrow> idem_ok d' = idem_ok d"
  by (simp add: idem_ok_def)

lemma idem_complete_frame [simp]:
  "requests (idem_complete k i d) = requests d" "payments (idem_complete k i d) = payments d"
  by (simp_all add: idem_complete_def)

lemma idem_begin_frame:
  assumes "idem_begin k d = (c, d')"
  shows "requests d' = requests d" "payments d' = payments d" "invoices d' = invoices d"
    "cases d' = cases d" "customers d' = customers d"
  using assms by (auto simp: idem_begin_def idem_create_def split: option.splits if_splits idempotency_status.splits)

text \<open>
  A call under a key that returns either replays an earlier result without a write, or runs the
  operation once; then every later call under the key replays this result.
\<close>

lemma with_idempotency_Inr:
  assumes ok: "idem_ok d" and key: "key \<noteq> None" "key \<noteq> Some []"
    and frame: "\<And>b d1 d2. body d1 = (Inr b, d2) \<Longrightarrow> idempotency d2 = idempotency d1"
    and run: "with_idempotency op key u reload body ident answer d = (Inr a, d')"
  obtains (replay) ref where "idem_begin (op, the key, u) d = (Inr (Replay ref), d)" "reload ref d = (Inr a, d')"
  | (fresh) b d1 d2 where "idem_begin (op, the key, u) d = (Inr Should_Proceed, d1)" "body d1 = (Inr b, d2)"
      "a = answer b" "d' = idem_complete (op, the key, u) (ident b) d2" "idem_ok d'"
      "idem_begin (op, the key, u) d' = (Inr (Replay (Some (ident b))), d')"
proof -
  let ?k = "(op, the key, u)"
  obtain check d1 where entered: "idem_begin ?k d = (Inr check, d1)"
    using run key by (auto simp: with_idempotency_def and_then_Inr_iff Let_def)
  show thesis
  proof (cases check)
    case (Replay ref)
    have "d1 = d"
    proof (cases "idem_state d ?k")
      case Free with idem.enter_free [OF ok this] entered Replay show ?thesis by auto
    next
      case Busy with idem.enter_busy [OF ok this] entered show ?thesis by auto
    next
      case (Done r) with idem.enter_done [OF ok this] entered show ?thesis by auto
    qed
    with run key entered Replay show thesis
      by (intro replay) (auto simp: with_idempotency_def Let_def)
  next
    case Should_Proceed
    with entered have proceed: "idem_begin ?k d = (Inr Should_Proceed, d1)" by simp
    obtain b d2 where body: "body d1 = (Inr b, d2)" and a: "a = answer b" "d' = idem_complete ?k (ident b) d2"
      using run key proceed
      by (auto simp: with_idempotency_def Let_def split: prod.splits sum.splits)
    have busy: "idem_ok d2" "idem_state d2 ?k = Busy"
      using idem.proceed_only_if_free [OF ok proceed] idem_state_cong [OF frame [OF body]]
        idem_ok_cong [OF frame [OF body]] by auto
    with idem.finished_replays [OF busy, of "ident b"] idem.ok_finish a show thesis
      by (intro fresh [OF proceed body]) auto
  qed
qed

lemma with_idempotency_replays:
  assumes "key \<noteq> None" "key \<noteq> Some []" "idem_begin (op, the key, u) d = (Inr (Replay ref), d)"
  shows "with_idempotency op key u reload body ident answer d = reload ref d"
  using assms by (auto simp: with_idempotency_def Let_def)

text \<open>A failed run frees its key.\<close>

lemma with_idempotency_Inl:
  assumes ok: "idem_ok d" and key: "key \<noteq> None" "key \<noteq> Some []"
    and proceed: "idem_begin (op, the key, u) d = (Inr Should_Proceed, d1)" and body: "body d1 = (Inl err, d2)"
    and frame: "idempotency d2 = idempotency d1"
  shows "with_idempotency op key u reload body ident answer d = (Inl err, idem_fail (op, the key, u) d2)"
    and "\<exists>d3. idem_begin (op, the key, u) (idem_fail (op, the key, u) d2) = (Inr Should_Proceed, d3)"
proof -
  show "with_idempotency op key u reload body ident answer d = (Inl err, idem_fail (op, the key, u) d2)"
    using key by (auto simp: with_idempotency_def Let_def proceed body)
  have "idem_ok d2" "idem_state d2 (op, the key, u) = Busy"
    using idem.proceed_only_if_free [OF ok proceed] idem_state_cong [OF frame] idem_ok_cong [OF frame] by auto
  then show "\<exists>d3. idem_begin (op, the key, u) (idem_fail (op, the key, u) d2) = (Inr Should_Proceed, d3)"
    by (rule idem.abandoned_retries)
qed

end
