(* ===== verification/Sc_Ledger.thy ===== *)
theory Sc_Ledger
  imports Notifications
begin

text \<open>
  \<open>ScLedgerService\<close> (\<open>src/backend/src/concierge/sc-ledger.service.ts\<close>): the service credit of a
  Concierge subscription as an append-only ledger. The balance is recomputed from the entries on
  every read. The \<open>Decimal(12, 2)\<close> column rounds what is written, so a debit of a fraction of a
  cent is stored rounded; that a debit still never overdraws is \<open>debit_keeps_nonneg\<close>.

  What \<open>MembershipService\<close> relies on is the locale \<open>credit_account\<close>.
\<close>

section \<open>The interface\<close>

locale credit_account =
  fixes balance :: "'s \<Rightarrow> nat \<Rightarrow> rat"
    and spend :: "nat \<Rightarrow> rat \<Rightarrow> 's \<Rightarrow> rat \<times> 's"
    and ok :: "'s \<Rightarrow> bool"
  assumes spend_applied: "ok s \<Longrightarrow> spend a req s = (u, s') \<Longrightarrow>
      0 \<le> u \<and> u \<le> max 0 req \<and> u \<le> max 0 (balance s a)"
    and spend_nonneg: "ok s \<Longrightarrow> 0 \<le> balance s a \<Longrightarrow> spend b req s = (u, s') \<Longrightarrow> 0 \<le> balance s' a"
    and spend_falls: "ok s \<Longrightarrow> spend b req s = (u, s') \<Longrightarrow> balance s' a \<le> balance s a"
    and spend_ok: "ok s \<Longrightarrow> spend b req s = (u, s') \<Longrightarrow> ok s'"
begin

text \<open>Any sequence of debits, on any accounts.\<close>

fun spend_all :: "(nat \<times> rat) list \<Rightarrow> 's \<Rightarrow> 's" where
  "spend_all [] s = s"
| "spend_all ((a, req) # rest) s = spend_all rest (snd (spend a req s))"

lemma spend_all_bounds:
  assumes "ok s" "0 \<le> balance s a"
  shows "0 \<le> balance (spend_all reqs s) a \<and> balance (spend_all reqs s) a \<le> balance s a"
  using assms
proof (induction reqs s rule: spend_all.induct)
  case (2 b req rest s)
  obtain u s' where "spend b req s = (u, s')" by (cases "spend b req s")
  with 2 spend_nonneg [of s a b req u s'] spend_falls [of s b req u s' a] spend_ok [of s b req u s']
  show ?case by force
qed simp

end

section \<open>The service\<close>

fun signedAmount :: "sc_type \<Rightarrow> rat \<Rightarrow> rat" where
  "signedAmount SC_GRANT amt = \<bar>amt\<bar>"
| "signedAmount SC_REVERSAL amt = \<bar>amt\<bar>"
| "signedAmount SC_DEBIT amt = - \<bar>amt\<bar>"
| "signedAmount SC_EXPIRY amt = - \<bar>amt\<bar>"
| "signedAmount SC_ADJUSTMENT amt = amt"

definition sc_of :: "nat \<Rightarrow> db \<Rightarrow> sc_entry list" where
  "sc_of subscriptionId d = map snd (find_many (\<lambda>_ e. se_subscription e = subscriptionId) (sc_entries d))"

definition getBalanceUsd :: "nat \<Rightarrow> db \<Rightarrow> rat" where
  "getBalanceUsd subscriptionId d =
     foldl (\<lambda>sum e. sum + signedAmount (se_type e) (se_amount e)) 0 (sc_of subscriptionId d)"

definition listForSubscription :: "nat \<Rightarrow> db \<Rightarrow> sc_entry list" where
  "listForSubscription subscriptionId d = rev (sc_of subscriptionId d)"

definition sc_grant :: "nat \<Rightarrow> rat \<Rightarrow> db \<Rightarrow> db" where
  "sc_grant subscriptionId amountUsd d =
     audit_record None None By_System STR ''sc.granted''
       [(STR ''subscriptionId'', J_Id subscriptionId), (STR ''amountUsd'', J_Num amountUsd)]
     (d\<lparr>sc_entries := insert_row
        \<lparr>se_subscription = subscriptionId, se_type = SC_GRANT, se_amount = dec2 \<bar>amountUsd\<bar>,
         se_case = None, se_quote = None, se_fx = None, se_amount_ngn = None, se_reason = None,
         se_actor = None\<rparr> (sc_entries d)\<rparr>)"

definition sc_debit ::
  "nat \<Rightarrow> rat \<Rightarrow> nat option \<Rightarrow> nat option \<Rightarrow> rat \<Rightarrow> db \<Rightarrow> (rat \<times> rat) \<times> db" where
  "sc_debit subscriptionId requestedUsd caseId quoteId fxRate d =
     (if requestedUsd \<le> 0 then ((0, 0), d)
      else (let available = getBalanceUsd subscriptionId d;
                appliedUsd = max 0 (min requestedUsd available) in
        if appliedUsd \<le> 0 then ((0, 0), d)
        else (let appliedNgn = js_round (appliedUsd * fxRate) in
          ((appliedUsd, appliedNgn),
           audit_record caseId None By_System STR ''sc.debited''
             [(STR ''subscriptionId'', J_Id subscriptionId), (STR ''appliedUsd'', J_Num appliedUsd),
              (STR ''appliedNgn'', J_Num appliedNgn), (STR ''fxRate'', J_Num fxRate),
              (STR ''quoteId'', json_option J_Id quoteId)]
           (d\<lparr>sc_entries := insert_row
              \<lparr>se_subscription = subscriptionId, se_type = SC_DEBIT, se_amount = dec2 appliedUsd,
               se_case = caseId, se_quote = quoteId, se_fx = Some fxRate,
               se_amount_ngn = Some (dec2 appliedNgn), se_reason = None, se_actor = None\<rparr>
              (sc_entries d)\<rparr>)))))"

text \<open>\<open>!reason?.trim()\<close>\<close>

definition blank :: "string \<Rightarrow> bool" where
  "blank s \<longleftrightarrow> js_trim s = []"

definition sc_reverse :: "nat \<Rightarrow> rat \<Rightarrow> string \<Rightarrow> nat \<Rightarrow> nat option \<Rightarrow> db \<Rightarrow> nat result" where
  "sc_reverse subscriptionId amountUsd reason actorId caseId d =
     (if blank reason then throw (Bad_Request STR ''reason is required for a reversal'') d
      else return (t_next (sc_entries d))
        (audit_record None (Some actorId) By_User STR ''sc.reversed''
           [(STR ''subscriptionId'', J_Id subscriptionId), (STR ''amountUsd'', J_Num amountUsd),
            (STR ''reason'', J_Text reason), (STR ''caseId'', json_option J_Id caseId)]
         (d\<lparr>sc_entries := insert_row
            \<lparr>se_subscription = subscriptionId, se_type = SC_REVERSAL, se_amount = dec2 \<bar>amountUsd\<bar>,
             se_case = caseId, se_quote = None, se_fx = None, se_amount_ngn = None,
             se_reason = Some reason, se_actor = Some actorId\<rparr> (sc_entries d)\<rparr>)))"

definition sc_adjust :: "nat \<Rightarrow> rat \<Rightarrow> string \<Rightarrow> nat \<Rightarrow> db \<Rightarrow> nat result" where
  "sc_adjust subscriptionId amountUsd reason actorId d =
     (if blank reason then throw (Bad_Request STR ''reason is required for a manual adjustment'') d
      else if amountUsd = 0 then throw (Bad_Request STR ''adjustment amount cannot be zero'') d
      else return (t_next (sc_entries d))
        (audit_record None (Some actorId) By_User STR ''sc.adjusted''
           [(STR ''subscriptionId'', J_Id subscriptionId), (STR ''amountUsd'', J_Num amountUsd),
            (STR ''reason'', J_Text reason)]
         (d\<lparr>sc_entries := insert_row
            \<lparr>se_subscription = subscriptionId, se_type = SC_ADJUSTMENT, se_amount = dec2 amountUsd,
             se_case = None, se_quote = None, se_fx = None, se_amount_ngn = None,
             se_reason = Some reason, se_actor = Some actorId\<rparr> (sc_entries d)\<rparr>)))"

section \<open>The balance\<close>

lemma foldl_plus: "foldl (\<lambda>sum e. sum + f e) a xs = (a :: rat) + sum_list (map f xs)"
  by (induction xs arbitrary: a) auto

lemma getBalanceUsd_sum:
  "getBalanceUsd sub d = sum_list (map (\<lambda>e. signedAmount (se_type e) (se_amount e)) (sc_of sub d))"
  by (simp add: getBalanceUsd_def foldl_plus)

lemma sc_of_insert [simp]:
  "sc_of sub (d\<lparr>sc_entries := insert_row r (sc_entries d)\<rparr>)
     = sc_of sub d @ (if se_subscription r = sub then [r] else [])"
  by (simp add: sc_of_def)

lemma sc_of_audit [simp]: "sc_of sub (audit_record ca ac ty action md d) = sc_of sub d"
  by (simp add: sc_of_def)

lemma getBalanceUsd_audit [simp]: "getBalanceUsd sub (audit_record ca ac ty action md d) = getBalanceUsd sub d"
  by (simp add: getBalanceUsd_def)

lemma getBalanceUsd_notify [simp]: "getBalanceUsd sub (notify_url e u t b l d) = getBalanceUsd sub d"
  by (simp add: getBalanceUsd_def sc_of_def)

lemma balance_insert:
  "getBalanceUsd sub (d\<lparr>sc_entries := insert_row r (sc_entries d)\<rparr>) = getBalanceUsd sub d
     + (if se_subscription r = sub then signedAmount (se_type r) (se_amount r) else 0)"
  by (simp add: getBalanceUsd_sum)

lemma balance_grant:
  "getBalanceUsd sub (sc_grant s a d) = getBalanceUsd sub d + (if s = sub then dec2 \<bar>a\<bar> else 0)"
  by (simp add: sc_grant_def balance_insert dec2_nonneg)

lemma balance_reverse:
  "sc_reverse s a reason actorId ca d = (Inr i, d') \<Longrightarrow>
     getBalanceUsd sub d' = getBalanceUsd sub d + (if s = sub then dec2 \<bar>a\<bar> else 0)"
  by (auto simp: sc_reverse_def balance_insert dec2_nonneg split: if_splits)

lemma balance_adjust:
  "sc_adjust s a reason actorId d = (Inr i, d') \<Longrightarrow>
     getBalanceUsd sub d' = getBalanceUsd sub d + (if s = sub then dec2 a else 0)"
  by (auto simp: sc_adjust_def balance_insert split: if_splits)

lemma balance_debit:
  "sc_debit s req ca qu fx d = ((u, n), d') \<Longrightarrow>
     getBalanceUsd sub d' = getBalanceUsd sub d - (if s = sub then dec2 u else 0)"
  by (auto simp: sc_debit_def Let_def balance_insert dec2_nonneg split: if_splits)

section \<open>Entries are whole cents\<close>

definition sc_cents :: "db \<Rightarrow> bool" where
  "sc_cents d \<longleftrightarrow> (\<forall>(_, e) \<in> set (t_rows (sc_entries d)). cents (se_amount e))"

lemma sc_cents_insert [simp]:
  "sc_cents (d\<lparr>sc_entries := insert_row r (sc_entries d)\<rparr>) \<longleftrightarrow> sc_cents d \<and> cents (se_amount r)"
  by (auto simp: sc_cents_def)

lemma sc_cents_audit [simp]: "sc_cents (audit_record ca ac ty action md d) = sc_cents d"
  by (simp add: sc_cents_def)

lemma sc_cents_notify [simp]: "sc_cents (notify_url e u t b l d) = sc_cents d"
  by (simp add: sc_cents_def)

lemma sc_cents_debit: "sc_cents d \<Longrightarrow> sc_cents (snd (sc_debit s req ca qu fx d))"
  by (simp add: sc_debit_def Let_def)

lemma sc_cents_grant: "sc_cents d \<Longrightarrow> sc_cents (sc_grant s a d)"
  by (simp add: sc_grant_def)

lemma signedAmount_cents: "cents a \<Longrightarrow> cents (signedAmount ty a)"
  by (cases ty) auto

lemma balance_cents: "sc_cents d \<Longrightarrow> cents (getBalanceUsd sub d)"
  unfolding getBalanceUsd_sum
  by (rule cents_sum_list) (auto simp: sc_cents_def sc_of_def find_many_def intro!: signedAmount_cents)

lemma debit_applied:
  assumes "sc_debit s req ca qu fx d = ((u, n), d')"
  shows "0 \<le> u" "u \<le> max 0 req" "u \<le> max 0 (getBalanceUsd s d)" "n = js_round (u * fx)"
  using assms js_round_of_int [of 0] by (auto simp: sc_debit_def Let_def split: if_splits)

lemma debit_keeps_nonneg:
  assumes "sc_cents d" "0 \<le> getBalanceUsd sub d" "sc_debit s req ca qu fx d = ((u, n), d')"
  shows "0 \<le> getBalanceUsd sub d'"
proof -
  have "dec2 u \<le> getBalanceUsd sub d" if "s = sub"
    using debit_applied(3) [OF assms(3)] that assms(2) balance_cents [OF assms(1)]
    by (intro dec2_le_cents) (auto simp: max_def)
  with balance_debit [OF assms(3), of sub] assms(2) show ?thesis by auto
qed

lemma debit_falls: "sc_debit s req ca qu fx d = ((u, n), d') \<Longrightarrow> getBalanceUsd sub d' \<le> getBalanceUsd sub d"
  by (simp add: balance_debit dec2_nonneg debit_applied)

lemma sc_debit_shape:
  obtains "snd (sc_debit s req ca qu fx d) = d"
  | m t where "snd (sc_debit s req ca qu fx d) = audit_record ca None By_System STR ''sc.debited'' m (d\<lparr>sc_entries := t\<rparr>)"
proof (cases "req \<le> 0 \<or> max 0 (min req (getBalanceUsd s d)) \<le> 0")
  case True
  then have "snd (sc_debit s req ca qu fx d) = d"
    by (elim disjE) (simp_all only: sc_debit_def Let_def if_True if_cancel snd_conv)
  then show thesis by (rule that)
next
  case False
  then have "\<not> req \<le> 0" "\<not> max 0 (min req (getBalanceUsd s d)) \<le> 0" by blast+
  then show thesis by (intro that(2)) (simp only: sc_debit_def Let_def if_False snd_conv)
qed

lemma sc_debit_frame [simp]:
  "users (snd (sc_debit s req ca qu fx d)) = users d"
  "customers (snd (sc_debit s req ca qu fx d)) = customers d"
  "beneficiaries (snd (sc_debit s req ca qu fx d)) = beneficiaries d"
  "properties (snd (sc_debit s req ca qu fx d)) = properties d"
  "assets (snd (sc_debit s req ca qu fx d)) = assets d"
  "verified_assets (snd (sc_debit s req ca qu fx d)) = verified_assets d"
  "requests (snd (sc_debit s req ca qu fx d)) = requests d"
  "cases (snd (sc_debit s req ca qu fx d)) = cases d"
  "tasks (snd (sc_debit s req ca qu fx d)) = tasks d"
  "history (snd (sc_debit s req ca qu fx d)) = history d"
  "collaborators (snd (sc_debit s req ca qu fx d)) = collaborators d"
  "approvals (snd (sc_debit s req ca qu fx d)) = approvals d"
  "disputes (snd (sc_debit s req ca qu fx d)) = disputes d"
  "messages (snd (sc_debit s req ca qu fx d)) = messages d"
  "agents (snd (sc_debit s req ca qu fx d)) = agents d"
  "providers (snd (sc_debit s req ca qu fx d)) = providers d"
  "assignments (snd (sc_debit s req ca qu fx d)) = assignments d"
  "scopes (snd (sc_debit s req ca qu fx d)) = scopes d"
  "price_books (snd (sc_debit s req ca qu fx d)) = price_books d"
  "price_rules (snd (sc_debit s req ca qu fx d)) = price_rules d"
  "multiplier_rules (snd (sc_debit s req ca qu fx d)) = multiplier_rules d"
  "quotes (snd (sc_debit s req ca qu fx d)) = quotes d"
  "quote_lines (snd (sc_debit s req ca qu fx d)) = quote_lines d"
  "invoices (snd (sc_debit s req ca qu fx d)) = invoices d"
  "payments (snd (sc_debit s req ca qu fx d)) = payments d"
  "refunds (snd (sc_debit s req ca qu fx d)) = refunds d"
  "refund_requests (snd (sc_debit s req ca qu fx d)) = refund_requests d"
  "reconciliations (snd (sc_debit s req ca qu fx d)) = reconciliations d"
  "direct_costs (snd (sc_debit s req ca qu fx d)) = direct_costs d"
  "plan_configs (snd (sc_debit s req ca qu fx d)) = plan_configs d"
  "subscriptions (snd (sc_debit s req ca qu fx d)) = subscriptions d"
  "sub_invoices (snd (sc_debit s req ca qu fx d)) = sub_invoices d"
  "capabilities (snd (sc_debit s req ca qu fx d)) = capabilities d"
  "automation_rules (snd (sc_debit s req ca qu fx d)) = automation_rules d"
  "decisions (snd (sc_debit s req ca qu fx d)) = decisions d"
  "escalations (snd (sc_debit s req ca qu fx d)) = escalations d"
  "idempotency (snd (sc_debit s req ca qu fx d)) = idempotency d"
  "wallets (snd (sc_debit s req ca qu fx d)) = wallets d"
  "wallet_entries (snd (sc_debit s req ca qu fx d)) = wallet_entries d"
  "ledger_accounts (snd (sc_debit s req ca qu fx d)) = ledger_accounts d"
  "journal_entries (snd (sc_debit s req ca qu fx d)) = journal_entries d"
  "journal_lines (snd (sc_debit s req ca qu fx d)) = journal_lines d"
  "payouts (snd (sc_debit s req ca qu fx d)) = payouts d"
  "notifications (snd (sc_debit s req ca qu fx d)) = notifications d"
  by (rule sc_debit_shape [of s req ca qu fx d], simp_all)+

lemma sc_grant_frame [simp]:
  "users (sc_grant s amt d) = users d"
  "customers (sc_grant s amt d) = customers d"
  "beneficiaries (sc_grant s amt d) = beneficiaries d"
  "properties (sc_grant s amt d) = properties d"
  "assets (sc_grant s amt d) = assets d"
  "verified_assets (sc_grant s amt d) = verified_assets d"
  "requests (sc_grant s amt d) = requests d"
  "cases (sc_grant s amt d) = cases d"
  "tasks (sc_grant s amt d) = tasks d"
  "history (sc_grant s amt d) = history d"
  "collaborators (sc_grant s amt d) = collaborators d"
  "approvals (sc_grant s amt d) = approvals d"
  "disputes (sc_grant s amt d) = disputes d"
  "messages (sc_grant s amt d) = messages d"
  "agents (sc_grant s amt d) = agents d"
  "providers (sc_grant s amt d) = providers d"
  "assignments (sc_grant s amt d) = assignments d"
  "scopes (sc_grant s amt d) = scopes d"
  "price_books (sc_grant s amt d) = price_books d"
  "price_rules (sc_grant s amt d) = price_rules d"
  "multiplier_rules (sc_grant s amt d) = multiplier_rules d"
  "quotes (sc_grant s amt d) = quotes d"
  "quote_lines (sc_grant s amt d) = quote_lines d"
  "invoices (sc_grant s amt d) = invoices d"
  "payments (sc_grant s amt d) = payments d"
  "refunds (sc_grant s amt d) = refunds d"
  "refund_requests (sc_grant s amt d) = refund_requests d"
  "reconciliations (sc_grant s amt d) = reconciliations d"
  "direct_costs (sc_grant s amt d) = direct_costs d"
  "plan_configs (sc_grant s amt d) = plan_configs d"
  "subscriptions (sc_grant s amt d) = subscriptions d"
  "sub_invoices (sc_grant s amt d) = sub_invoices d"
  "capabilities (sc_grant s amt d) = capabilities d"
  "automation_rules (sc_grant s amt d) = automation_rules d"
  "decisions (sc_grant s amt d) = decisions d"
  "escalations (sc_grant s amt d) = escalations d"
  "idempotency (sc_grant s amt d) = idempotency d"
  "wallets (sc_grant s amt d) = wallets d"
  "wallet_entries (sc_grant s amt d) = wallet_entries d"
  "ledger_accounts (sc_grant s amt d) = ledger_accounts d"
  "journal_entries (sc_grant s amt d) = journal_entries d"
  "journal_lines (sc_grant s amt d) = journal_lines d"
  "payouts (sc_grant s amt d) = payouts d"
  "notifications (sc_grant s amt d) = notifications d"
  by (simp_all add: sc_grant_def)

lemma sc_debit_state:
  "snd (sc_debit s req ca qu fx d) = d\<lparr>audit_log := audit_log (snd (sc_debit s req ca qu fx d)),
     sc_entries := sc_entries (snd (sc_debit s req ca qu fx d))\<rparr>"
  by (rule sc_debit_shape [of s req ca qu fx d]) (simp_all add: audit_record_def)

lemma sc_debit_audit: "audit_extends d (snd (sc_debit s req ca qu fx d))"
  by (simp add: sc_debit_def Let_def audit_extends_def)

lemma sc_grant_audit: "audit_extends d (sc_grant s amt d)"
  by (simp add: sc_grant_def audit_extends_def)

text \<open>The debit of a fixed case and quote, as the interface sees it.\<close>

definition spend_on :: "nat option \<Rightarrow> nat option \<Rightarrow> rat \<Rightarrow> nat \<Rightarrow> rat \<Rightarrow> db \<Rightarrow> rat \<times> db" where
  "spend_on ca qu fx s req d = (let ((u, n), d') = sc_debit s req ca qu fx d in (u, d'))"

lemma spend_onE:
  assumes "spend_on ca qu fx s req d = (u, d')"
  obtains n where "sc_debit s req ca qu fx d = ((u, n), d')"
  using assms by (auto simp: spend_on_def split: prod.splits)

interpretation sc: credit_account "\<lambda>d a. getBalanceUsd a d" "spend_on ca qu fx" sc_cents
proof unfold_locales
  fix d a req u d' assume "sc_cents d" "spend_on ca qu fx a req d = (u, d')"
  then show "0 \<le> u \<and> u \<le> max 0 req \<and> u \<le> max 0 (getBalanceUsd a d)"
    by (metis debit_applied spend_onE)
next
  fix d a b req u d' assume "sc_cents d" "0 \<le> getBalanceUsd a d" "spend_on ca qu fx b req d = (u, d')"
  then show "0 \<le> getBalanceUsd a d'" by (metis debit_keeps_nonneg spend_onE)
next
  fix d b req u d' a assume "sc_cents d" "spend_on ca qu fx b req d = (u, d')"
  then show "getBalanceUsd a d' \<le> getBalanceUsd a d" by (metis debit_falls spend_onE)
next
  fix d b req u d' assume "sc_cents d" "spend_on ca qu fx b req d = (u, d')"
  then show "sc_cents d'" by (metis sc_cents_debit snd_conv spend_onE)
qed

end
