(* ===== verification/Membership.thy ===== *)
theory Membership
  imports Sc_Ledger
begin

text \<open>
  Plan configuration and membership benefits: \<open>concierge/membership-plans.ts\<close>,
  \<open>PlanConfigService\<close> (\<open>concierge/plan-config.service.ts\<close>) and \<open>MembershipService\<close>
  (\<open>concierge/membership.service.ts\<close>). \<open>previewBenefit\<close> projects the discount and the service
  credit on a quote without writing anything; \<open>commitBenefit\<close> recomputes them when the quote is
  accepted and debits the credit for real.
\<close>

definition default_usd_to_ngn_rate :: rat where
  "default_usd_to_ngn_rate = 1600"

definition usdToNgnRate :: "env \<Rightarrow> rat" where
  "usdToNgnRate e = env_positive (usd_to_ngn_env e) default_usd_to_ngn_rate"

lemma usdToNgnRate_pos: "0 < usdToNgnRate e"
  by (simp add: usdToNgnRate_def default_usd_to_ngn_rate_def env_positive_pos)

section \<open>Plan configuration\<close>

definition find_config :: "membership_plan \<Rightarrow> db \<Rightarrow> (nat \<times> plan_config) option" where
  "find_config plan d = find_first (\<lambda>_ c. pc_plan c = plan) (plan_configs d)"

definition getConfig :: "membership_plan \<Rightarrow> db \<Rightarrow> error + plan_config" where
  "getConfig plan d = (case find_config plan d of
     None \<Rightarrow> Inl (Not_Found STR ''No pricing configured for plan'')
   | Some (_, c) \<Rightarrow> Inr c)"

definition listConfigs :: "db \<Rightarrow> plan_config list" where
  "listConfigs d = sort_key pc_plan (map snd (t_rows (plan_configs d)))"

record plan_update =
  up_price_usd :: "rat option"
  up_sc_grant_usd :: "rat option"
  up_discount_percent :: "rat option"
  up_eligible :: "nat option"

definition plan_view :: "plan_config \<Rightarrow> json" where
  "plan_view c = J_Object [(STR ''priceUsd'', J_Num (pc_price_usd c)),
     (STR ''scGrantUsd'', J_Num (pc_sc_grant_usd c)),
     (STR ''discountPercent'', J_Num (pc_discount_percent c)),
     (STR ''eligibleRequestsPerMonth'', J_Num (of_nat (pc_eligible c)))]"

definition updateConfig :: "actor \<Rightarrow> membership_plan \<Rightarrow> plan_update \<Rightarrow> db \<Rightarrow> plan_config result" where
  "updateConfig ac plan dto d = (case find_config plan d of
     None \<Rightarrow> throw (Not_Found STR ''No pricing configured for plan'') d
   | Some (i, existing) \<Rightarrow>
       if up_price_usd dto = None \<and> up_sc_grant_usd dto = None \<and> up_discount_percent dto = None
          \<and> up_eligible dto = None
       then throw (Bad_Request STR ''At least one field must be provided'') d
       else (let updated = existing\<lparr>
             pc_price_usd := (case up_price_usd dto of Some x \<Rightarrow> dec2 x | None \<Rightarrow> pc_price_usd existing),
             pc_sc_grant_usd := (case up_sc_grant_usd dto of Some x \<Rightarrow> dec2 x | None \<Rightarrow> pc_sc_grant_usd existing),
             pc_discount_percent := (case up_discount_percent dto of Some x \<Rightarrow> dec2 x
                                     | None \<Rightarrow> pc_discount_percent existing),
             pc_eligible := (case up_eligible dto of Some x \<Rightarrow> x | None \<Rightarrow> pc_eligible existing),
             pc_updated_by := Some (act_id ac)\<rparr>
         in return updated
           (audit_record None (Some (act_id ac)) By_User STR ''concierge.plan_config_updated''
              [(STR ''before'', plan_view existing), (STR ''after'', plan_view updated)]
            (d\<lparr>plan_configs := update_row i (\<lambda>_. updated) (plan_configs d)\<rparr>))))"

section \<open>Benefits\<close>

definition billing_period_ms :: int where
  "billing_period_ms = 30 * 24 * 60 * 60 * 1000"

record benefit =
  bn_subscription :: nat
  bn_percent :: rat
  bn_discount :: rat
  bn_sc_ngn :: rat
  bn_final :: rat

definition getActiveSubscription :: "nat \<Rightarrow> db \<Rightarrow> (nat \<times> subscription) option" where
  "getActiveSubscription customerId d =
     find_first (\<lambda>_ s. s_customer s = customerId \<and> s_status s = SS_ACTIVE) (subscriptions d)"

definition periodStart :: "subscription \<Rightarrow> int" where
  "periodStart s = (case s_renews s of Some r \<Rightarrow> r - billing_period_ms | None \<Rightarrow> s_started s)"

definition getEligibleUsageThisPeriod :: "nat \<Rightarrow> subscription \<Rightarrow> db \<Rightarrow> nat" where
  "getEligibleUsageThisPeriod sid s d = length (find_many
     (\<lambda>_ q. q_subscription q = Some sid \<and> periodStart s \<le> q_created q \<and> q_discount q \<noteq> None) (quotes d))"

definition previewBenefit ::
  "nat \<Rightarrow> case_tier \<Rightarrow> rat \<Rightarrow> pricing_zone \<Rightarrow> db \<Rightarrow> error + benefit option" where
  "previewBenefit customerId caseTier baseAmountNgn zone d =
     (if caseTier \<noteq> CT_CONCIERGE then Inr None
      else (case getActiveSubscription customerId d of
        None \<Rightarrow> Inr None
      | Some (sid, s) \<Rightarrow>
          (case getConfig (s_plan s) d of
             Inl err \<Rightarrow> Inl err
           | Inr plan \<Rightarrow>
               if pc_eligible plan \<le> getEligibleUsageThisPeriod sid s d then Inr None
               else (let discountAmount = js_round (baseAmountNgn * (pc_discount_percent plan / 100));
                         afterDiscount = baseAmountNgn - discountAmount;
                         scAppliedNgn = (if zone \<noteq> Z_OTHER
                           then max 0 (min (getBalanceUsd sid d * s_fx_rate s) afterDiscount) else 0)
                     in Inr (Some \<lparr>bn_subscription = sid, bn_percent = pc_discount_percent plan,
                          bn_discount = discountAmount, bn_sc_ngn = js_round scAppliedNgn,
                          bn_final = max 0 (js_round (afterDiscount - scAppliedNgn))\<rparr>)))))"

definition commitBenefit :: "nat \<Rightarrow> quote \<Rightarrow> db \<Rightarrow> (rat \<times> bool) \<times> db" where
  "commitBenefit qid q d = (case q_subscription q of
     None \<Rightarrow> ((q_amount q, False), d)
   | Some sid \<Rightarrow>
       (let baseAmount = (case q_base q of Some x \<Rightarrow> x | None \<Rightarrow> q_amount q);
            nonServiceFeeAmount = (case q_non_service q of Some x \<Rightarrow> x | None \<Rightarrow> 0);
            discountAmount = (case q_discount q of Some x \<Rightarrow> x | None \<Rightarrow> 0);
            lapsed = (let finalAmount = js_round baseAmount + nonServiceFeeAmount
                      in ((finalAmount, finalAmount \<noteq> js_round (q_amount q)), d))
        in case find_unique (subscriptions d) sid of
             None \<Rightarrow> lapsed
           | Some s \<Rightarrow>
               if s_status s \<noteq> SS_ACTIVE then lapsed
               else (let fxRate = s_fx_rate s;
                         projectedScUsd = (case q_sc_applied q of Some x \<Rightarrow> x / fxRate | None \<Rightarrow> 0);
                         ((_, appliedNgn), d') = sc_debit sid projectedScUsd (Some (q_case q)) (Some qid) fxRate d;
                         finalAmount = max 0 (js_round (baseAmount - discountAmount - appliedNgn))
                                         + nonServiceFeeAmount
                     in ((finalAmount, finalAmount \<noteq> js_round (q_amount q)), d'))))"

section \<open>What a benefit amounts to\<close>

lemma preview_cases:
  assumes "previewBenefit cu ti base zone d = Inr (Some b)"
  obtains sid s plan where "ti = CT_CONCIERGE" "getActiveSubscription cu d = Some (sid, s)"
    "getConfig (s_plan s) d = Inr plan" "getEligibleUsageThisPeriod sid s d < pc_eligible plan"
    "bn_subscription b = sid" "bn_percent b = pc_discount_percent plan"
    "bn_discount b = js_round (base * (pc_discount_percent plan / 100))"
    "bn_sc_ngn b = js_round (if zone \<noteq> Z_OTHER
       then max 0 (min (getBalanceUsd sid d * s_fx_rate s) (base - bn_discount b)) else 0)"
    "bn_final b = max 0 (js_round (base - bn_discount b - (if zone \<noteq> Z_OTHER
       then max 0 (min (getBalanceUsd sid d * s_fx_rate s) (base - bn_discount b)) else 0)))"
proof -
  have tier: "ti = CT_CONCIERGE"
    using assms by (cases "ti = CT_CONCIERGE") (simp_all add: previewBenefit_def)
  obtain sid s where active: "getActiveSubscription cu d = Some (sid, s)"
    using assms tier by (cases "getActiveSubscription cu d") (auto simp: previewBenefit_def)
  obtain plan where plan: "getConfig (s_plan s) d = Inr plan"
    using assms tier active by (cases "getConfig (s_plan s) d") (simp_all add: previewBenefit_def)
  have usage: "getEligibleUsageThisPeriod sid s d < pc_eligible plan"
  proof (rule ccontr)
    assume "\<not> getEligibleUsageThisPeriod sid s d < pc_eligible plan"
    then have "previewBenefit cu ti base zone d = Inr None" by (simp add: previewBenefit_def tier active plan)
    with assms show False by simp
  qed
  then have "\<not> pc_eligible plan \<le> getEligibleUsageThisPeriod sid s d" by simp
  with assms tier active plan have b: "b = \<lparr>bn_subscription = sid, bn_percent = pc_discount_percent plan,
      bn_discount = js_round (base * (pc_discount_percent plan / 100)),
      bn_sc_ngn = js_round (if zone \<noteq> Z_OTHER then max 0 (min (getBalanceUsd sid d * s_fx_rate s)
        (base - js_round (base * (pc_discount_percent plan / 100)))) else 0),
      bn_final = max 0 (js_round (base - js_round (base * (pc_discount_percent plan / 100))
        - (if zone \<noteq> Z_OTHER then max 0 (min (getBalanceUsd sid d * s_fx_rate s)
        (base - js_round (base * (pc_discount_percent plan / 100)))) else 0)))\<rparr>"
    by (simp only: previewBenefit_def Let_def if_False option.case prod.case sum.case simp_thms
        sum.inject option.inject)
  show thesis
    by (rule that [OF tier active plan usage]) (simp_all only: b benefit.simps)
qed

lemma active_subscription_found:
  assumes "wf_table (subscriptions d)" "getActiveSubscription cu d = Some (sid, s)"
  shows "find_unique (subscriptions d) sid = Some s \<and> s_status s = SS_ACTIVE \<and> s_customer s = cu"
  using assms by (auto simp: getActiveSubscription_def find_unique_in_rows dest: find_first_SomeD)

lemma commit_active:
  assumes "q_subscription q = Some sid" "find_unique (subscriptions d) sid = Some s" "s_status s = SS_ACTIVE"
    and "q_base q = Some base" "q_non_service q = Some non" "q_discount q = Some disc" "q_sc_applied q = Some ngn"
    and "sc_debit sid (ngn / s_fx_rate s) (Some (q_case q)) (Some qid) (s_fx_rate s) d = ((usd, applied), d')"
  shows "commitBenefit qid q d =
    ((max 0 (js_round (base - disc - applied)) + non,
      max 0 (js_round (base - disc - applied)) + non \<noteq> js_round (q_amount q)), d')"
  using assms by (simp add: commitBenefit_def Let_def)

text \<open>A debit of whole naira within the balance is applied in full.\<close>

lemma debit_in_full:
  assumes "0 < fx" "ngn \<in> \<int>" "0 \<le> ngn" "ngn \<le> getBalanceUsd sid d * fx"
  shows "\<exists>usd d'. sc_debit sid (ngn / fx) ca qu fx d = ((usd, ngn), d')"
proof (cases "ngn = 0")
  case True
  then show ?thesis by (simp add: sc_debit_def)
next
  case False
  with assms have pos: "0 < ngn / fx" by simp
  have "ngn / fx \<le> getBalanceUsd sid d" using assms by (simp add: pos_divide_le_eq)
  with pos have "max 0 (min (ngn / fx) (getBalanceUsd sid d)) = ngn / fx" by simp
  with pos assms(1, 2) show ?thesis by (simp add: sc_debit_def Let_def)
qed

lemma max_0_Ints: "(x :: rat) \<in> \<int> \<Longrightarrow> max 0 x \<in> \<int>"
  by (simp add: max_def)

lemma min_Ints: "(x :: rat) \<in> \<int> \<Longrightarrow> y \<in> \<int> \<Longrightarrow> min x y \<in> \<int>"
  by (simp add: min_def)

lemma cap_le: "(m :: rat) \<le> 0 \<or> max 0 (min m a) \<le> m"
  by linarith

lemma cap_le_nonneg: "0 \<le> (m :: rat) \<Longrightarrow> max 0 (min m a) \<le> m"
  by simp

lemma preview_bounds:
  assumes "previewBenefit cu ti base zone d = Inr (Some b)"
    and "0 \<le> bn_percent b" "bn_percent b \<le> 100" "0 \<le> base" "base \<in> \<int>"
  shows "0 \<le> bn_discount b" "bn_discount b \<le> base" "0 \<le> bn_sc_ngn b"
    "bn_sc_ngn b \<le> base - bn_discount b" "0 \<le> bn_final b" "bn_final b \<le> base"
proof -
  obtain sc where b: "bn_discount b = js_round (base * (bn_percent b / 100))"
      "bn_sc_ngn b = js_round sc" "bn_final b = max 0 (js_round (base - bn_discount b - sc))"
    and sc: "0 \<le> sc" "sc \<le> max 0 (base - bn_discount b)"
  proof (rule preview_cases [OF assms(1)])
    fix sid and s :: subscription and plan :: plan_config
    let ?sc = "if zone \<noteq> Z_OTHER
       then max 0 (min (getBalanceUsd sid d * s_fx_rate s) (base - bn_discount b)) else 0"
    assume b: "bn_percent b = pc_discount_percent plan"
      "bn_discount b = js_round (base * (pc_discount_percent plan / 100))"
      "bn_sc_ngn b = js_round ?sc" "bn_final b = max 0 (js_round (base - bn_discount b - ?sc))"
    have sc: "0 \<le> ?sc" "?sc \<le> max 0 (base - bn_discount b)" by auto
    show thesis by (rule that [OF _ b(3,4) sc]) (simp only: b(1,2))
  qed
  show disc: "0 \<le> bn_discount b"
    unfolding b(1) using assms by (intro js_round_nonneg) simp
  have "base * (bn_percent b / 100) \<le> base * 1"
    using assms by (intro mult_left_mono) auto
  then have "js_round (base * (bn_percent b / 100)) \<le> js_round base"
    by (intro js_round_mono) simp
  then show le: "bn_discount b \<le> base"
    unfolding b(1) using assms(5) by simp
  show "0 \<le> bn_sc_ngn b"
    unfolding b(2) using sc(1) by (rule js_round_nonneg)
  have "bn_discount b \<in> \<int>" by (simp add: b(1))
  with assms(5) have ints: "base - bn_discount b \<in> \<int>" by simp
  have "js_round sc \<le> js_round (base - bn_discount b)"
    using sc le by (intro js_round_mono) simp
  with ints show "bn_sc_ngn b \<le> base - bn_discount b" by (simp add: b(2))
  show "0 \<le> bn_final b" by (simp add: b(3))
  have "js_round (base - bn_discount b - sc) \<le> js_round base"
    using disc sc(1) by (intro js_round_mono) simp
  with assms(4, 5) show "bn_final b \<le> base" by (simp add: b(3))
qed

lemma preview_commit_agree:
  assumes wf: "wf_table (subscriptions d)"
    and pre: "previewBenefit cu ti base zone d = Inr (Some b)"
    and fx: "\<And>s. find_unique (subscriptions d) (bn_subscription b) = Some s \<Longrightarrow>
               0 < s_fx_rate s \<and> getBalanceUsd (bn_subscription b) d * s_fx_rate s \<in> \<int>"
    and nonneg: "0 \<le> getBalanceUsd (bn_subscription b) d"
    and base: "base \<in> \<int>" and non: "non \<in> \<int>"
    and q: "q_subscription q = Some (bn_subscription b)" "q_base q = Some base" "q_non_service q = Some non"
      "q_discount q = Some (bn_discount b)" "q_sc_applied q = Some (bn_sc_ngn b)"
      "q_amount q = bn_final b + non"
  shows "\<exists>d'. commitBenefit qid q d = ((q_amount q, False), d')"
  using pre
proof (rule preview_cases)
  fix sid and s :: subscription and plan :: plan_config
  let ?after = "base - bn_discount b"
  let ?avail = "getBalanceUsd sid d * s_fx_rate s"
  let ?sc = "if zone \<noteq> Z_OTHER then max 0 (min ?avail ?after) else 0"
  assume active: "getActiveSubscription cu d = Some (sid, s)" and sid: "bn_subscription b = sid"
    and disc: "bn_discount b = js_round (base * (pc_discount_percent plan / 100))"
    and sc: "bn_sc_ngn b = js_round ?sc" and final: "bn_final b = max 0 (js_round (?after - ?sc))"
  have found: "find_unique (subscriptions d) sid = Some s" "s_status s = SS_ACTIVE"
    using active_subscription_found [OF wf active] by auto
  have rate: "0 < s_fx_rate s" "?avail \<in> \<int>" using fx found(1) sid by auto
  have after: "?after \<in> \<int>" using base by (simp add: disc)
  have ints: "?sc \<in> \<int>" using after rate by (simp add: max_0_Ints min_Ints)
  have ngn: "bn_sc_ngn b = ?sc" using ints by (simp only: sc js_round_Ints)
  have "0 \<le> ?avail" using rate nonneg sid by simp
  then have "0 \<le> ?sc" "?sc \<le> ?avail" by simp_all
  then have "0 \<le> bn_sc_ngn b" "bn_sc_ngn b \<le> ?avail" "bn_sc_ngn b \<in> \<int>"
    using ints by (simp_all only: ngn)
  then obtain usd d' where "sc_debit sid (bn_sc_ngn b / s_fx_rate s) (Some (q_case q)) (Some qid) (s_fx_rate s) d
      = ((usd, bn_sc_ngn b), d')"
    using debit_in_full [OF rate(1)] by blast
  note commit = commit_active [OF q(1) [unfolded sid] found q(2-5) this]
  have eq: "max 0 (js_round (?after - bn_sc_ngn b)) + non = q_amount q"
    by (simp only: q(6) final ngn)
  have "js_round (q_amount q) = q_amount q"
    unfolding q(6) final by (intro js_round_Ints Ints_add max_0_Ints js_round_in_Ints non)
  with commit eq show ?thesis by simp
qed

text \<open>The discount and the credit never touch the external costs of a quote.\<close>

lemma commit_cases:
  obtains (no_benefit) "q_subscription q = None" "commitBenefit qid q d = ((q_amount q, False), d)"
  | (lapsed) final adj where "q_subscription q \<noteq> None" "commitBenefit qid q d = ((final, adj), d)"
      "final = js_round (case q_base q of Some x \<Rightarrow> x | None \<Rightarrow> q_amount q)
                 + (case q_non_service q of Some x \<Rightarrow> x | None \<Rightarrow> 0)"
  | (active) sid s usd ngn d' adj where "q_subscription q = Some sid" "find_unique (subscriptions d) sid = Some s"
      "s_status s = SS_ACTIVE"
      "sc_debit sid (case q_sc_applied q of Some x \<Rightarrow> x / s_fx_rate s | None \<Rightarrow> 0) (Some (q_case q)) (Some qid)
         (s_fx_rate s) d = ((usd, ngn), d')"
      "commitBenefit qid q d = ((max 0 (js_round ((case q_base q of Some x \<Rightarrow> x | None \<Rightarrow> q_amount q)
         - (case q_discount q of Some x \<Rightarrow> x | None \<Rightarrow> 0) - ngn))
         + (case q_non_service q of Some x \<Rightarrow> x | None \<Rightarrow> 0), adj), d')"
proof (cases "q_subscription q")
  case None
  then show thesis using no_benefit by (simp add: commitBenefit_def)
next
  case (Some sid)
  show thesis
  proof (cases "find_unique (subscriptions d) sid")
    case None
    with Some show thesis using lapsed by (simp add: commitBenefit_def Let_def)
  next
    case found: (Some s)
    show thesis
    proof (cases "s_status s = SS_ACTIVE")
      case False
      with Some found show thesis using lapsed by (simp add: commitBenefit_def Let_def)
    next
      case True
      obtain usd ngn d' where debit: "sc_debit sid (case q_sc_applied q of Some x \<Rightarrow> x / s_fx_rate s | None \<Rightarrow> 0)
          (Some (q_case q)) (Some qid) (s_fx_rate s) d = ((usd, ngn), d')"
        by (metis surj_pair)
      with Some found True show thesis
        using active [OF Some found True debit] by (simp add: commitBenefit_def Let_def)
    qed
  qed
qed

text \<open>The discount and the credit never touch the external costs of a quote.\<close>

lemma commit_at_least_external:
  assumes "commitBenefit qid q d = ((final, adj), d')" "q_subscription q \<noteq> None"
    and "q_base q = Some base" "0 \<le> base" "q_non_service q = Some non"
  shows "non \<le> final"
  by (rule commit_cases [of q qid d]) (use assms js_round_nonneg [of base] in auto)

lemma commit_state:
  "snd (commitBenefit qid q d) = d\<lparr>audit_log := audit_log (snd (commitBenefit qid q d)),
     sc_entries := sc_entries (snd (commitBenefit qid q d))\<rparr>"
proof (rule commit_cases [of q qid d])
  fix sid s usd ngn d' adj f
  assume debit: "sc_debit sid (case q_sc_applied q of Some x \<Rightarrow> x / s_fx_rate s | None \<Rightarrow> 0) (Some (q_case q))
      (Some qid) (s_fx_rate s) d = ((usd, ngn), d')"
  then have "d' = d\<lparr>audit_log := audit_log d', sc_entries := sc_entries d'\<rparr>"
    using sc_debit_state by (metis snd_conv)
  moreover assume "commitBenefit qid q d = ((max 0 (js_round ((case q_base q of Some x \<Rightarrow> x | None \<Rightarrow> q_amount q)
         - (case q_discount q of Some x \<Rightarrow> x | None \<Rightarrow> 0) - ngn))
         + (case q_non_service q of Some x \<Rightarrow> x | None \<Rightarrow> 0), adj), d')"
  ultimately show ?thesis by (simp only: snd_conv)
qed simp_all

lemma commit_stateE:
  obtains a l where "snd (commitBenefit qid q d) = d\<lparr>audit_log := a, sc_entries := l\<rparr>"
  using commit_state by blast

lemma commit_nonneg:
  assumes "sc_cents d" "0 \<le> getBalanceUsd sub d"
  shows "0 \<le> getBalanceUsd sub (snd (commitBenefit qid q d)) \<and> sc_cents (snd (commitBenefit qid q d))"
proof (rule commit_cases [of q qid d])
  fix sid s usd ngn d' adj
  assume debit: "sc_debit sid (case q_sc_applied q of Some x \<Rightarrow> x / s_fx_rate s | None \<Rightarrow> 0) (Some (q_case q))
      (Some qid) (s_fx_rate s) d = ((usd, ngn), d')"
  assume "commitBenefit qid q d = ((max 0 (js_round ((case q_base q of Some x \<Rightarrow> x | None \<Rightarrow> q_amount q)
         - (case q_discount q of Some x \<Rightarrow> x | None \<Rightarrow> 0) - ngn))
         + (case q_non_service q of Some x \<Rightarrow> x | None \<Rightarrow> 0), adj), d')"
  then show ?thesis
    using debit_keeps_nonneg [OF assms debit] sc_cents_debit [OF assms(1)] debit by (metis snd_conv)
qed (use assms in simp_all)

lemma commit_audit_extends: "audit_extends d (snd (commitBenefit qid q d))"
  by (rule commit_cases [of q qid d]; simp; metis sc_debit_audit snd_conv)

end
