(* ===== verification/Billing.thy ===== *)
theory Billing
  imports Membership
begin

text \<open>
  Subscriptions and their billing: \<open>ConciergeService\<close> (\<open>concierge/concierge.service.ts\<close>) and
  \<open>SubscriptionBillingService\<close> (\<open>concierge/subscription-billing.service.ts\<close>). A subscription
  starts \<open>PENDING\<close>, becomes \<open>ACTIVE\<close> only by a verified payment of one of its invoices, lapses
  when a period stays unpaid, and receives its service credit with each verified payment.
\<close>

section \<open>Billing a period\<close>

definition billing_period_days_ms :: int where
  "billing_period_days_ms = 30 * 24 * 60 * 60 * 1000"

definition kobo :: "rat \<Rightarrow> rat" where
  "kobo amount = js_round (amount * 100)"

record checkout =
  ck_invoice :: nat
  ck_period_end :: int
  ck_url :: string
  ck_reference :: reference
  ck_dry_run :: bool

text \<open>\<open>paystackReference\<close> is unique: a collision makes the insertion fail after Paystack was asked.\<close>

definition initiatePeriodPayment :: "env \<Rightarrow> nat \<Rightarrow> subscription \<Rightarrow> db \<Rightarrow> checkout result" where
  "initiatePeriodPayment e sid s d =
     (let start = now e; finish = start + billing_period_days_ms; ref = Sub_Inv sid (random_hex e)
      in case initializeTransaction e ref (kobo (s_amount s)) of
           Inl err \<Rightarrow> throw err d
         | Inr (url, dryRun) \<Rightarrow>
             if exists_row (\<lambda>_ i. si_reference i = Some ref) (sub_invoices d)
             then throw (Internal STR ''Unique constraint failed'') d
             else return \<lparr>ck_invoice = t_next (sub_invoices d), ck_period_end = finish, ck_url = url,
                    ck_reference = ref, ck_dry_run = dryRun\<rparr>
               (d\<lparr>sub_invoices := insert_row \<lparr>si_subscription = sid, si_start = start, si_end = finish,
                  si_amount = dec2 (s_amount s), si_currency = s_currency s, si_status = PS_PENDING,
                  si_reference = Some ref, si_paid_at = None\<rparr> (sub_invoices d)\<rparr>))"

definition billPeriod :: "env \<Rightarrow> nat \<Rightarrow> nat \<Rightarrow> subscription \<Rightarrow> db \<Rightarrow> unit result" where
  "billPeriod e userId sid s d = and_then (initiatePeriodPayment e sid s d) (\<lambda>ck d1.
     return () (notify e userId STR ''Your Concierge subscription is due for renewal''
        (if ck_dry_run ck
         then [J_Lit STR ''Your next Concierge payment of '', J_Lit (s_currency s), J_Num (s_amount s),
               J_Lit STR '' is due''] else
              [J_Lit STR ''Your next Concierge payment of '', J_Lit (s_currency s), J_Num (s_amount s),
               J_Lit STR '' is ready, complete it at '', J_Text (ck_url ck)])
      (audit_record None None By_System STR ''concierge.subscription_billed''
        [(STR ''subscriptionId'', J_Id sid), (STR ''invoiceId'', J_Id (ck_invoice ck)),
         (STR ''reference'', J_Ref (ck_reference ck)), (STR ''dryRun'', J_Bool (ck_dry_run ck))]
      (d1\<lparr>subscriptions := update_row sid (\<lambda>s. s\<lparr>s_renews := Some (ck_period_end ck)\<rparr>)
            (subscriptions d1)\<rparr>))))"

definition initiateFirstPayment :: "env \<Rightarrow> nat \<Rightarrow> subscription \<Rightarrow> db \<Rightarrow> checkout result" where
  "initiateFirstPayment e sid s d = initiatePeriodPayment e sid s d"

definition last_invoice :: "db \<Rightarrow> nat \<Rightarrow> (nat \<times> sub_invoice) option" where
  "last_invoice d sid = find_last (\<lambda>_ i. si_subscription i = sid) (sub_invoices d)"

definition lapse :: "env \<Rightarrow> nat \<Rightarrow> nat \<Rightarrow> nat \<Rightarrow> db \<Rightarrow> db" where
  "lapse e userId sid unpaid d =
     notify e userId STR ''Your Concierge subscription has lapsed''
       [J_Lit STR ''We couldn't confirm payment for your last billing period'']
     (audit_record None None By_System STR ''concierge.subscription_lapsed''
       [(STR ''subscriptionId'', J_Id sid), (STR ''unpaidInvoiceId'', J_Id unpaid)]
     (d\<lparr>subscriptions := update_row sid (\<lambda>s. s\<lparr>s_status := SS_EXPIRED, s_cancelled := Some (now e)\<rparr>)
           (subscriptions d)\<rparr>))"

text \<open>
  The sweep works on the subscriptions and last invoices read before the loop; a failing provider
  aborts it with the work done so far kept.
\<close>

fun billing_loop ::
  "env \<Rightarrow> (nat \<times> subscription \<times> (nat \<times> sub_invoice) option) list \<Rightarrow> nat \<Rightarrow> nat \<Rightarrow> db \<Rightarrow> (nat \<times> nat) result" where
  "billing_loop e [] billed lapsed d = return (billed, lapsed) d"
| "billing_loop e ((sid, s, newest) # due) billed lapsed d =
     included (customers d) (s_customer s) d (\<lambda>cu.
       case newest of
         Some (iid, i) \<Rightarrow>
           if si_status i \<noteq> PS_PAID
           then billing_loop e due billed (lapsed + 1) (lapse e (cu_user cu) sid iid d)
           else and_then (billPeriod e (cu_user cu) sid s d) (\<lambda>_. billing_loop e due (billed + 1) lapsed)
       | None \<Rightarrow> and_then (billPeriod e (cu_user cu) sid s d) (\<lambda>_. billing_loop e due (billed + 1) lapsed))"

definition due_subscriptions :: "env \<Rightarrow> db \<Rightarrow> (nat \<times> subscription \<times> (nat \<times> sub_invoice) option) list" where
  "due_subscriptions e d = map (\<lambda>(sid, s). (sid, s, last_invoice d sid))
     (find_many (\<lambda>_ s. s_status s = SS_ACTIVE \<and> (case s_renews s of Some r \<Rightarrow> r \<le> now e | None \<Rightarrow> False))
        (subscriptions d))"

definition runBillingSweep :: "env \<Rightarrow> db \<Rightarrow> (nat \<times> nat) result" where
  "runBillingSweep e d = billing_loop e (due_subscriptions e d) 0 0 d"

section \<open>The webhook\<close>

definition find_sub_invoice :: "reference \<Rightarrow> db \<Rightarrow> (nat \<times> sub_invoice) option" where
  "find_sub_invoice ref d = find_first (\<lambda>_ i. si_reference i = Some ref) (sub_invoices d)"

definition handleVerifiedSubscriptionPayment :: "env \<Rightarrow> reference \<Rightarrow> rat \<Rightarrow> db \<Rightarrow> nat result" where
  "handleVerifiedSubscriptionPayment e ref amountKobo d = (case find_sub_invoice ref d of
     None \<Rightarrow> throw (Not_Found STR ''No subscription invoice pending for reference'') d
   | Some (iid, i) \<Rightarrow>
     included (subscriptions d) (si_subscription i) d (\<lambda>s.
     included (customers d) (s_customer s) d (\<lambda>cu.
       if kobo (si_amount i) \<noteq> amountKobo
       then throw (Bad_Request STR ''Payment amount does not match subscription invoice'') d
       else if si_status i = PS_PAID then return iid d
       else
         (let d1 = d\<lparr>sub_invoices := update_row iid
                (\<lambda>i. i\<lparr>si_status := PS_PAID, si_paid_at := Some (now e)\<rparr>) (sub_invoices d)\<rparr>;
              isFirstActivation = (s_status s = SS_PENDING);
              d2 = (if isFirstActivation
                then audit_record None None By_System STR ''concierge.subscribed''
                  [(STR ''subscriptionId'', J_Id (si_subscription i)),
                   (STR ''subscriptionInvoiceId'', J_Id iid), (STR ''reference'', J_Ref ref)]
                  (d1\<lparr>subscriptions := update_row (si_subscription i)
                     (\<lambda>s. s\<lparr>s_status := SS_ACTIVE, s_renews := Some (si_end i)\<rparr>) (subscriptions d1)\<rparr>)
                else d1)
          in case getConfig (s_plan s) d2 of
               Inl err \<Rightarrow> throw err d2
             | Inr plan \<Rightarrow>
                 return iid
                   (notify e (cu_user cu)
                      (if isFirstActivation then STR ''Welcome to ASOJU Concierge''
                       else STR ''Concierge payment received'')
                      [J_Lit (if isFirstActivation
                         then STR ''your Concierge subscription is now active''
                         else STR ''your Concierge subscription is active for another period'')]
                   (audit_record None None By_System STR ''concierge.subscription_payment_verified''
                      [(STR ''subscriptionInvoiceId'', J_Id iid), (STR ''reference'', J_Ref ref)]
                   (sc_grant (si_subscription i) (pc_sc_grant_usd plan) d2)))))))"

definition handleFailedSubscriptionPayment :: "env \<Rightarrow> reference \<Rightarrow> string option \<Rightarrow> db \<Rightarrow> nat result" where
  "handleFailedSubscriptionPayment e ref gatewayResponse d = (case find_sub_invoice ref d of
     None \<Rightarrow> throw (Not_Found STR ''No subscription invoice pending for reference'') d
   | Some (iid, i) \<Rightarrow>
     included (subscriptions d) (si_subscription i) d (\<lambda>s.
     included (customers d) (s_customer s) d (\<lambda>cu.
       if si_status i = PS_PAID \<or> si_status i = PS_FAILED then return iid d
       else
         (let d1 = d\<lparr>sub_invoices := update_row iid (\<lambda>i. i\<lparr>si_status := PS_FAILED\<rparr>) (sub_invoices d)\<rparr>;
              isFirst = (s_status s = SS_PENDING);
              d2 = (if isFirst
                then d1\<lparr>subscriptions := update_row (si_subscription i)
                   (\<lambda>s. s\<lparr>s_status := SS_CANCELLED, s_cancelled := Some (now e)\<rparr>) (subscriptions d1)\<rparr>
                else d1)
          in return iid
            (notify e (cu_user cu)
               (if isFirst then STR ''Concierge signup payment did not go through''
                else STR ''Concierge payment did not go through'')
               [json_option J_Text gatewayResponse]
            (audit_record None None By_System STR ''concierge.subscription_payment_failed''
               [(STR ''subscriptionInvoiceId'', J_Id iid), (STR ''reference'', J_Ref ref),
                (STR ''gatewayResponse'', json_option J_Text gatewayResponse),
                (STR ''cancelledPendingSubscription'', J_Bool isFirst)] d2))))))"

section \<open>Concierge\<close>

definition find_customer :: "nat \<Rightarrow> db \<Rightarrow> (nat \<times> customer) option" where
  "find_customer userId d = find_first (\<lambda>_ c. cu_user c = userId) (customers d)"

definition open_subscription :: "nat \<Rightarrow> db \<Rightarrow> (nat \<times> subscription) option" where
  "open_subscription cid d =
     find_last (\<lambda>_ s. s_customer s = cid \<and> s_status s \<in> {SS_ACTIVE, SS_PENDING}) (subscriptions d)"

definition subscribe_anew :: "env \<Rightarrow> actor \<Rightarrow> nat \<Rightarrow> membership_plan \<Rightarrow> db \<Rightarrow> (nat \<times> checkout) result" where
  "subscribe_anew e usr cid plan d = (case getConfig plan d of
     Inl err \<Rightarrow> throw err d
   | Inr cfg \<Rightarrow>
       (let fxRate = usdToNgnRate e; sid = t_next (subscriptions d);
            s = \<lparr>s_customer = cid, s_tier = CT_CONCIERGE, s_plan = plan, s_status = SS_PENDING,
                 s_started = now e, s_renews = None, s_cancelled = None,
                 s_price_usd = dec2 (pc_price_usd cfg), s_fx_rate = dec4 fxRate,
                 s_amount = dec2 (js_round (pc_price_usd cfg * fxRate)), s_currency = STR ''NGN''\<rparr>
        in and_then (initiateFirstPayment e sid s
             (audit_record None (Some (act_id usr)) By_User STR ''concierge.subscription_initiated''
                [(STR ''subscriptionId'', J_Id sid), (STR ''plan'', J_Plan plan),
                 (STR ''priceUsd'', J_Num (pc_price_usd cfg))]
              (d\<lparr>subscriptions := insert_row s (subscriptions d)\<rparr>)))
             (\<lambda>ck. return (sid, ck))))"

definition subscribe :: "env \<Rightarrow> actor \<Rightarrow> membership_plan \<Rightarrow> db \<Rightarrow> (nat \<times> checkout) result" where
  "subscribe e usr plan d = (case find_customer (act_id usr) d of
     None \<Rightarrow> throw (Not_Found STR ''No customer profile for this user'') d
   | Some (cid, cu) \<Rightarrow>
       (case open_subscription cid d of
          Some (sid, s) \<Rightarrow>
            if s_status s = SS_ACTIVE
            then throw (Bad_Request STR ''Already subscribed to Concierge'') d
            else if s_plan s = plan
            then and_then (initiateFirstPayment e sid s d) (\<lambda>ck. return (sid, ck))
            else subscribe_anew e usr cid plan d
        | None \<Rightarrow> subscribe_anew e usr cid plan d))"

record subscription_summary =
  sm_subscription :: nat
  sm_config :: plan_config
  sm_balance_usd :: rat
  sm_used :: nat
  sm_remaining :: nat

definition getMySubscription :: "actor \<Rightarrow> db \<Rightarrow> subscription_summary option result" where
  "getMySubscription usr d = (case find_customer (act_id usr) d of
     None \<Rightarrow> throw (Not_Found STR ''No customer profile for this user'') d
   | Some (cid, cu) \<Rightarrow>
       (case find_last (\<lambda>_ s. s_customer s = cid) (subscriptions d) of
          None \<Rightarrow> return None d
        | Some (sid, s) \<Rightarrow>
            (case getConfig (s_plan s) d of
               Inl err \<Rightarrow> throw err d
             | Inr cfg \<Rightarrow>
                 (let used = getEligibleUsageThisPeriod sid s d
                  in return (Some \<lparr>sm_subscription = sid, sm_config = cfg,
                       sm_balance_usd = getBalanceUsd sid d, sm_used = used,
                       sm_remaining = pc_eligible cfg - used\<rparr>) d))))"

definition getMyScLedger :: "actor \<Rightarrow> db \<Rightarrow> sc_entry list result" where
  "getMyScLedger usr d = (case find_customer (act_id usr) d of
     None \<Rightarrow> throw (Not_Found STR ''No customer profile for this user'') d
   | Some (cid, cu) \<Rightarrow>
       (case find_last (\<lambda>_ s. s_customer s = cid) (subscriptions d) of
          None \<Rightarrow> return [] d
        | Some (sid, s) \<Rightarrow> return (listForSubscription sid d) d))"

definition cancelSubscription :: "env \<Rightarrow> actor \<Rightarrow> db \<Rightarrow> nat result" where
  "cancelSubscription e usr d = (case find_customer (act_id usr) d of
     None \<Rightarrow> throw (Not_Found STR ''No customer profile for this user'') d
   | Some (cid, cu) \<Rightarrow>
       (case open_subscription cid d of
          None \<Rightarrow> throw (Not_Found STR ''No active Concierge subscription'') d
        | Some (sid, s) \<Rightarrow>
            return sid
              (audit_record None (Some (act_id usr)) By_User STR ''concierge.cancelled''
                 [(STR ''subscriptionId'', J_Id sid)]
               (d\<lparr>subscriptions := update_row sid
                  (\<lambda>s. s\<lparr>s_status := SS_CANCELLED, s_cancelled := Some (now e)\<rparr>) (subscriptions d)\<rparr>))))"

definition assignRm :: "env \<Rightarrow> actor \<Rightarrow> nat \<Rightarrow> nat \<Rightarrow> db \<Rightarrow> nat result" where
  "assignRm e ac customerId rmUserId d = (case find_unique (customers d) customerId of
     None \<Rightarrow> throw (Not_Found STR ''Customer not found'') d
   | Some cu \<Rightarrow>
       (case map_option u_role (find_unique (users d) rmUserId) of
          Some R_RELATIONSHIP_MANAGER \<Rightarrow>
            return customerId
              (notify e (cu_user cu) STR ''You have a dedicated relationship manager''
                 [J_Lit STR ''As a Concierge member, you now have a relationship manager looking after your cases.'']
               (audit_record None (Some (act_id ac)) By_User STR ''concierge.rm_assigned''
                 [(STR ''customerId'', J_Id customerId), (STR ''rmUserId'', J_Id rmUserId)]
               (d\<lparr>customers := update_row customerId (\<lambda>c. c\<lparr>cu_rm := Some rmUserId\<rparr>) (customers d)\<rparr>)))
        | _ \<Rightarrow> throw (Bad_Request STR ''rmUserId must belong to a Relationship Manager'') d))"

definition listPortfolio :: "actor \<Rightarrow> db \<Rightarrow> nat list" where
  "listPortfolio ac d = map fst (rev (find_many (\<lambda>_ c. cu_rm c = Some (act_id ac)) (customers d)))"

definition listRelationshipManagers :: "db \<Rightarrow> nat list" where
  "listRelationshipManagers d = map fst (find_many (\<lambda>_ u. u_role u = R_RELATIONSHIP_MANAGER) (users d))"

section \<open>Lemmas\<close>

lemma balance_cong: "sc_entries d' = sc_entries d \<Longrightarrow> getBalanceUsd sub d' = getBalanceUsd sub d"
  by (simp add: getBalanceUsd_def sc_of_def)

lemma initiatePeriodPayment_Inr:
  assumes "initiatePeriodPayment e sid s d = (Inr ck, d')"
  shows "ck_invoice ck = t_next (sub_invoices d) \<and> ck_period_end ck = now e + billing_period_days_ms
    \<and> d' = d\<lparr>sub_invoices := insert_row \<lparr>si_subscription = sid, si_start = now e,
         si_end = now e + billing_period_days_ms, si_amount = dec2 (s_amount s),
         si_currency = s_currency s, si_status = PS_PENDING, si_reference = Some (Sub_Inv sid (random_hex e)),
         si_paid_at = None\<rparr> (sub_invoices d)\<rparr>"
  using assms by (auto simp: initiatePeriodPayment_def Let_def split: sum.splits if_splits prod.splits)

lemma initiatePeriodPayment_Inl: "initiatePeriodPayment e sid s d = (Inl err, d') \<Longrightarrow> d' = d"
  by (auto simp: initiatePeriodPayment_def Let_def split: sum.splits if_splits prod.splits)

lemma billPeriod_Inr:
  assumes "billPeriod e u sid s d = (Inr x, d')"
  shows "subscriptions d' = update_row sid (\<lambda>s. s\<lparr>s_renews := Some (now e + billing_period_days_ms)\<rparr>) (subscriptions d)
    \<and> sc_entries d' = sc_entries d \<and> customers d' = customers d"
proof -
  obtain ck d1 where ck: "initiatePeriodPayment e sid s d = (Inr ck, d1)"
    using assms by (auto simp: billPeriod_def and_then_Inr_iff)
  note facts = initiatePeriodPayment_Inr [OF ck]
  show ?thesis using assms facts by (auto simp: billPeriod_def ck)
qed

lemma billPeriod_Inl: "billPeriod e u sid s d = (Inl err, d') \<Longrightarrow> d' = d"
  by (auto simp: billPeriod_def and_then_def split: prod.splits sum.splits dest: initiatePeriodPayment_Inl)

lemma lapse_frame [simp]:
  "subscriptions (lapse e u sid iid d)
     = update_row sid (\<lambda>s. s\<lparr>s_status := SS_EXPIRED, s_cancelled := Some (now e)\<rparr>) (subscriptions d)"
  "sc_entries (lapse e u sid iid d) = sc_entries d"
  "sub_invoices (lapse e u sid iid d) = sub_invoices d"
  "customers (lapse e u sid iid d) = customers d"
  by (simp_all add: lapse_def)

lemma billing_loop_sc: "sc_entries (snd (billing_loop e due b l d)) = sc_entries d"
proof (induction due arbitrary: b l d)
  case (Cons x due)
  obtain sid s newest where x: "x = (sid, s, newest)" by (cases x)
  have bill: "sc_entries (snd (and_then (billPeriod e u sid s d) (\<lambda>_. billing_loop e due b' l'))) = sc_entries d" for u b' l'
    by (rule snd_and_then) (auto simp: Cons.IH dest: billPeriod_Inl billPeriod_Inr)
  show ?case
    by (auto simp: x included_def Cons.IH bill split: option.split)
qed simp

text \<open>One round of the loop on a subscription that is due.\<close>

definition unpaid :: "(nat \<times> sub_invoice) option \<Rightarrow> bool" where
  "unpaid newest \<longleftrightarrow> (\<exists>iid i. newest = Some (iid, i) \<and> si_status i \<noteq> PS_PAID)"

definition settle :: "env \<Rightarrow> (nat \<times> sub_invoice) option \<Rightarrow> subscription \<Rightarrow> subscription" where
  "settle e newest = (if unpaid newest
     then (\<lambda>s. s\<lparr>s_status := SS_EXPIRED, s_cancelled := Some (now e)\<rparr>)
     else (\<lambda>s. s\<lparr>s_renews := Some (now e + billing_period_days_ms)\<rparr>))"

lemma billing_loop_Cons:
  assumes "billing_loop e ((sid, s, newest) # due) b l d = (Inr r, d')"
  obtains d1 where "billing_loop e due (if unpaid newest then b else b + 1) (if unpaid newest then l + 1 else l) d1 = (Inr r, d')"
    "subscriptions d1 = update_row sid (settle e newest) (subscriptions d)"
proof -
  obtain cu where cu: "find_unique (customers d) (s_customer s) = Some cu"
    using assms by (auto simp: included_Inr)
  show thesis
  proof (cases "unpaid newest")
    case True
    then obtain iid i where "newest = Some (iid, i)" "si_status i \<noteq> PS_PAID" by (auto simp: unpaid_def)
    with assms cu True show thesis by (intro that [of "lapse e (cu_user cu) sid iid d"]) (auto simp: settle_def)
  next
    case False
    then have "and_then (billPeriod e (cu_user cu) sid s d) (\<lambda>_. billing_loop e due (b + 1) l) = (Inr r, d')"
      using assms cu by (cases newest) (auto simp: unpaid_def)
    then obtain y d1 where "billPeriod e (cu_user cu) sid s d = (Inr y, d1)" "billing_loop e due (b + 1) l d1 = (Inr r, d')"
      by (auto simp: and_then_Inr_iff)
    with False billPeriod_Inr show thesis by (intro that [of d1]) (auto simp: settle_def)
  qed
qed

lemma billing_loop_effect:
  assumes "billing_loop e due b l d = (Inr (b', l'), d')" "distinct (map fst due)"
  shows "b' + l' = b + l + length due"
    and "sid \<notin> fst ` set due \<Longrightarrow> find_unique (subscriptions d') sid = find_unique (subscriptions d) sid"
    and "(sid, s, newest) \<in> set due \<Longrightarrow> find_unique (subscriptions d') sid =
      map_option (settle e newest) (find_unique (subscriptions d) sid)"
proof -
  have "b' + l' = b + l + length due \<and>
     (\<forall>sid. sid \<notin> fst ` set due \<longrightarrow> find_unique (subscriptions d') sid = find_unique (subscriptions d) sid) \<and>
     (\<forall>(sid, s, newest) \<in> set due. find_unique (subscriptions d') sid =
      map_option (settle e newest) (find_unique (subscriptions d) sid))"
    using assms
  proof (induction due arbitrary: b l d)
    case (Cons x due)
    obtain sid0 s0 newest0 where x: "x = (sid0, s0, newest0)" by (cases x)
    from Cons.prems(1) [unfolded x] obtain d1 where
      rest: "billing_loop e due (if unpaid newest0 then b else b + 1) (if unpaid newest0 then l + 1 else l) d1 = (Inr (b', l'), d')"
      and subs: "subscriptions d1 = update_row sid0 (settle e newest0) (subscriptions d)"
      by (rule billing_loop_Cons)
    have "distinct (map fst due)" and fresh: "sid0 \<notin> fst ` set due"
      using Cons.prems(2) by (auto simp: x)
    note IH = Cons.IH [OF rest this(1)]
    have same: "find_unique (subscriptions d1) k = find_unique (subscriptions d) k" if "k \<noteq> sid0" for k
      using that by (simp add: subs)
    have hit: "find_unique (subscriptions d1) sid0 = map_option (settle e newest0) (find_unique (subscriptions d) sid0)"
      by (simp add: subs)
    have "b' + l' = b + l + length (x # due)"
      using IH by (simp split: if_splits)
    moreover have "find_unique (subscriptions d') k = find_unique (subscriptions d) k" if "k \<notin> fst ` set (x # due)" for k
      using IH same that by (simp add: x)
    moreover have "find_unique (subscriptions d') k = map_option (settle e nw) (find_unique (subscriptions d) k)"
      if "(k, s', nw) \<in> set (x # due)" for k s' nw
    proof (cases "(k, s', nw) \<in> set due")
      case True
      then have "k \<noteq> sid0" using fresh by force
      with True IH same show ?thesis by fastforce
    next
      case False
      with that x have "k = sid0" "nw = newest0" by auto
      with IH fresh hit show ?thesis by simp
    qed
    ultimately show ?case by blast
  qed simp
  then show "b' + l' = b + l + length due"
    and "sid \<notin> fst ` set due \<Longrightarrow> find_unique (subscriptions d') sid = find_unique (subscriptions d) sid"
    and "(sid, s, newest) \<in> set due \<Longrightarrow> find_unique (subscriptions d') sid =
      map_option (settle e newest) (find_unique (subscriptions d) sid)"
    by blast+
qed

lemma distinct_due: "wf_table (subscriptions d) \<Longrightarrow> distinct (map fst (due_subscriptions e d))"
  by (auto simp: due_subscriptions_def find_many_def wf_table_def comp_def case_prod_unfold intro: distinct_map_filter)

end
