(* ===== verification/Intake.thy ===== *)
theory Intake
  imports Automation Idempotency Billing
begin

text \<open>
  Requests and the creation of cases, the first half of \<open>CasesService\<close>
  (\<open>src/backend/src/cases/cases.service.ts\<close>): a service request is created (once per idempotency
  key), enriched, evaluated for automation, and converted into a case by staff (\<open>convertToCase\<close>)
  or automatically (\<open>autoConvert\<close>); a recurring schedule spawns cases without a request. All
  three ways of creating a case write the same rows (\<open>create_case\<close>).
\<close>

section \<open>Creating the rows of a case\<close>

definition case_number_prefix :: string where
  "case_number_prefix = ''ASJ''"

definition case_number :: "nat \<Rightarrow> string" where
  "case_number seq = case_number_prefix @ ''-'' @ pad_start 6 (CHR ''0'') (decimal seq)"

fun collaborator_role_by_user_role :: "role \<Rightarrow> collaborator_role option" where
  "collaborator_role_by_user_role R_RELATIONSHIP_MANAGER = Some CR_RELATIONSHIP_MANAGER"
| "collaborator_role_by_user_role R_CASE_MANAGER = Some CR_CASE_MANAGER"
| "collaborator_role_by_user_role R_QUALITY_CONTROL = Some CR_QUALITY_CONTROL"
| "collaborator_role_by_user_role R_FINANCE = Some CR_FINANCE"
| "collaborator_role_by_user_role R_COMPLIANCE_RISK = Some CR_COMPLIANCE_RISK"
| "collaborator_role_by_user_role _ = None"

definition checklist_tasks :: "nat \<Rightarrow> service_type \<Rightarrow> case_task list" where
  "checklist_tasks caseId st = map (\<lambda>(index, label, milestone).
      \<lparr>tk_case = caseId, tk_label = label, tk_required = True, tk_complete = False,
       tk_completed_at = None, tk_sort = int index, tk_milestone = milestone\<rparr>)
     (List.enumerate 0 (checklist_template st))"

text \<open>
  The row is inserted under a placeholder number, renumbered from its \<open>seq\<close> (the key of the row),
  given its checklist and the first entry of its status history.
\<close>

definition create_case :: "service_case \<Rightarrow> nat option \<Rightarrow> db \<Rightarrow> nat \<times> db" where
  "create_case c changedBy d =
     (let caseId = t_next (cases d);
          d1 = d\<lparr>cases := insert_row (c\<lparr>c_number := ''PENDING-'' @ decimal caseId\<rparr>) (cases d)\<rparr>;
          d2 = d1\<lparr>cases := update_row caseId (\<lambda>c. c\<lparr>c_number := case_number caseId\<rparr>) (cases d1)\<rparr>;
          d3 = d2\<lparr>tasks := insert_rows (checklist_tasks caseId (c_service_type c)) (tasks d2)\<rparr>;
          d4 = d3\<lparr>history := insert_row \<lparr>h_case = caseId, h_from = None, h_to = CS_DRAFT,
                 h_by = changedBy, h_reason = None\<rparr> (history d3)\<rparr>
      in (caseId, d4))"

definition new_case ::
  "nat \<Rightarrow> service_type \<Rightarrow> string \<Rightarrow> string \<Rightarrow> case_priority \<Rightarrow> int \<Rightarrow> case_tier \<Rightarrow> nat option \<Rightarrow> nat option
    \<Rightarrow> nat option \<Rightarrow> nat option \<Rightarrow> int \<Rightarrow> service_case" where
  "new_case customerId st description location priority risk tier beneficiary property asset schedule sla =
     \<lparr>c_number = [], c_customer = customerId, c_beneficiary = beneficiary, c_property = property,
      c_asset = asset, c_service_type = st, c_description = description, c_location = location,
      c_priority = priority, c_risk_level = risk, c_tier = tier, c_status = CS_DRAFT,
      c_payment_status = PS_PENDING, c_owner = None, c_next_action = None, c_next_action_due = None,
      c_sla_target = Some sla, c_held_from = None, c_schedule = schedule\<rparr>"

definition sla_target :: "env \<Rightarrow> case_priority \<Rightarrow> string \<Rightarrow> int" where
  "sla_target e priority location =
     now e + hours_ms (slaHoursForCase e (slaHoursForPriority e priority) location)"

text \<open>\<open>originRequest: {connect: ...}\<close> writes the new case into the request.\<close>

definition connect_request :: "nat \<Rightarrow> nat \<Rightarrow> db \<Rightarrow> db" where
  "connect_request requestId caseId d =
     d\<lparr>requests := update_row requestId (\<lambda>r. r\<lparr>rq_converted := Some caseId\<rparr>) (requests d)\<rparr>"

definition has_verified_poa :: "nat \<Rightarrow> db \<Rightarrow> bool" where
  "has_verified_poa customerId d \<longleftrightarrow> exists_row
     (\<lambda>_ a. va_customer a = customerId \<and> va_type a = VC_POWER_OF_ATTORNEY \<and> va_verified a) (verified_assets d)"

section \<open>Conversion by staff\<close>

record convert_dto =
  cd_service :: service_type
  cd_description :: string
  cd_location :: string
  cd_priority :: "case_priority option"
  cd_risk :: "int option"
  cd_tier :: "case_tier option"
  cd_beneficiary :: "nat option"
  cd_property :: "nat option"
  cd_asset :: "nat option"

definition belongs :: "('r \<Rightarrow> nat) \<Rightarrow> 'r table \<Rightarrow> nat \<Rightarrow> nat option \<Rightarrow> bool" where
  "belongs owner t customerId i = (case i of
     None \<Rightarrow> True
   | Some k \<Rightarrow> (case find_unique t k of None \<Rightarrow> False | Some r \<Rightarrow> owner r = customerId))"

definition convertToCase :: "env \<Rightarrow> actor \<Rightarrow> nat \<Rightarrow> convert_dto \<Rightarrow> db \<Rightarrow> nat result" where
  "convertToCase e ac requestId dto d = (case find_unique (requests d) requestId of
     None \<Rightarrow> throw (Not_Found STR ''Service request not found'') d
   | Some rq \<Rightarrow>
     if rq_converted rq \<noteq> None
     then throw (Not_Found STR ''Service request has already been converted'') d
     else if \<not> belongs bf_customer (beneficiaries d) (rq_customer rq) (cd_beneficiary dto)
     then throw (Bad_Request STR ''beneficiaryId does not belong to this customer'') d
     else if \<not> belongs pl_customer (properties d) (rq_customer rq) (cd_property dto)
     then throw (Bad_Request STR ''propertyId does not belong to this customer'') d
     else if \<not> belongs pl_customer (assets d) (rq_customer rq) (cd_asset dto)
     then throw (Bad_Request STR ''assetId does not belong to this customer'') d
     else if cd_service dto \<in> set verified_poa_required_service_types
            \<and> \<not> has_verified_poa (rq_customer rq) d
     then throw (Bad_Request STR ''This service requires a verified Power of Attorney on file'') d
     else
       (let tier = (case cd_tier dto of
              Some t \<Rightarrow> t
            | None \<Rightarrow> (case find_first (\<lambda>_ s. s_customer s = rq_customer rq \<and> s_status s = SS_ACTIVE)
                               (subscriptions d) of
                Some (_, s) \<Rightarrow> s_tier s | None \<Rightarrow> CT_ESSENTIAL));
            priority = (case cd_priority dto of
              Some p \<Rightarrow> p
            | None \<Rightarrow> (case service_type_default_priority (cd_service dto) of
                Some p \<Rightarrow> p | None \<Rightarrow> CP_STANDARD));
            c = new_case (rq_customer rq) (cd_service dto) (cd_description dto) (cd_location dto) priority
                  (case cd_risk dto of Some r \<Rightarrow> r | None \<Rightarrow> 1) tier (cd_beneficiary dto)
                  (cd_property dto) (cd_asset dto) None (sla_target e priority (cd_location dto));
            (caseId, d1) = create_case c (Some (act_id ac)) d;
            d2 = connect_request requestId caseId d1;
            d3 = (case collaborator_role_by_user_role (act_role ac) of
                Some r \<Rightarrow> d2\<lparr>collaborators := insert_row
                    \<lparr>cl_case = caseId, cl_user = act_id ac, cl_role = r\<rparr> (collaborators d2)\<rparr>
              | None \<Rightarrow> d2)
        in return caseId
          (audit_record (Some caseId) (Some (act_id ac)) By_User STR ''case.created_from_request''
             [(STR ''serviceRequestId'', J_Id requestId)] d3)))"

section \<open>Automatic conversion\<close>

definition autoConvert :: "env \<Rightarrow> nat \<Rightarrow> db \<Rightarrow> db" where
  "autoConvert e requestId d = (case find_unique (requests d) requestId of
     None \<Rightarrow> d
   | Some rq \<Rightarrow>
     if rq_converted rq \<noteq> None then d
     else (case (rq_service_type rq, rq_location rq) of
       (Some st, Some location) \<Rightarrow>
         if location = [] then d
         else if st \<in> set verified_poa_required_service_types \<and> \<not> has_verified_poa (rq_customer rq) d
         then d
         else
           (let tier = (case find_first (\<lambda>_ s. s_customer s = rq_customer rq \<and> s_status s = SS_ACTIVE)
                     (subscriptions d) of Some (_, s) \<Rightarrow> s_tier s | None \<Rightarrow> CT_ESSENTIAL);
                priority = (case service_type_default_priority st of Some p \<Rightarrow> p | None \<Rightarrow> CP_STANDARD);
                c = new_case (rq_customer rq) st
                      (case rq_objective rq of Some t \<Rightarrow> t | None \<Rightarrow> rq_raw_description rq) location priority 1
                      tier None None None None (sla_target e priority location);
                (caseId, d1) = create_case c None d
            in audit_record (Some caseId) None By_System STR ''case.auto_converted''
                 [(STR ''serviceRequestId'', J_Id requestId)] (connect_request requestId caseId d1))
     | _ \<Rightarrow> d))"

definition evaluateAutomationAndMaybeConvert :: "env \<Rightarrow> nat \<Rightarrow> db \<Rightarrow> automation_decision result" where
  "evaluateAutomationAndMaybeConvert e requestId d =
     and_then (evaluateAndRecord e requestId d) (\<lambda>decision d1.
       return decision (if ad_outcome decision = AO_AUTO then autoConvert e requestId d1 else d1))"

text \<open>The schedule is the argument of \<open>spawnCaseFromSchedule\<close>.\<close>

record schedule_data =
  sch_id :: nat
  sch_customer :: nat
  sch_service :: service_type
  sch_description :: string
  sch_location :: string
  sch_beneficiary :: "nat option"
  sch_property :: "nat option"
  sch_asset :: "nat option"

text \<open>
  The columns of a case that name a saved beneficiary, property or asset are foreign keys: the
  database refuses a row that names one that is gone. Those of a schedule are not.
\<close>

definition links_live :: "nat option \<Rightarrow> nat option \<Rightarrow> nat option \<Rightarrow> db \<Rightarrow> bool" where
  "links_live b p a d \<longleftrightarrow> (case b of None \<Rightarrow> True | Some i \<Rightarrow> find_unique (beneficiaries d) i \<noteq> None)
     \<and> (case p of None \<Rightarrow> True | Some i \<Rightarrow> find_unique (properties d) i \<noteq> None)
     \<and> (case a of None \<Rightarrow> True | Some i \<Rightarrow> find_unique (assets d) i \<noteq> None)"

definition spawnCaseFromSchedule :: "env \<Rightarrow> schedule_data \<Rightarrow> db \<Rightarrow> nat result" where
  "spawnCaseFromSchedule e sch d =
     (if \<not> links_live (sch_beneficiary sch) (sch_property sch) (sch_asset sch) d
      then throw (Internal STR ''Foreign key constraint violated'') d
      else let c = new_case (sch_customer sch) (sch_service sch) (sch_description sch) (sch_location sch)
                CP_STANDARD 1 CT_ESSENTIAL (sch_beneficiary sch) (sch_property sch) (sch_asset sch)
                (Some (sch_id sch)) (sla_target e CP_STANDARD (sch_location sch));
          (caseId, d1) = create_case c None d
      in return caseId
        (audit_record (Some caseId) None By_System STR ''case.spawned_from_schedule''
           [(STR ''scheduleId'', J_Id (sch_id sch))] d1))"

section \<open>Requests\<close>

definition requireCustomerProfile :: "nat \<Rightarrow> db \<Rightarrow> (nat \<times> customer) result" where
  "requireCustomerProfile userId d = (case find_customer userId d of
     None \<Rightarrow> throw (Not_Found STR ''No customer profile for this user'') d
   | Some cu \<Rightarrow> return cu d)"

record request_dto =
  rd_raw_description :: string
  rd_location :: "string option"
  rd_channel :: String.literal
  rd_service_type :: "service_type option"

definition doCreateServiceRequest :: "env \<Rightarrow> actor \<Rightarrow> request_dto \<Rightarrow> db \<Rightarrow> nat result" where
  "doCreateServiceRequest e usr dto d = and_then (requireCustomerProfile (act_id usr) d) (\<lambda>(cid, _) d.
     let rid = t_next (requests d) in
     and_then (evaluateAutomationAndMaybeConvert e rid
       (audit_record None (Some (act_id usr)) By_User STR ''service_request.created''
          [(STR ''serviceRequestId'', J_Id rid), (STR ''channel'', J_Lit (rd_channel dto))]
        (d\<lparr>requests := insert_row \<lparr>rq_customer = cid, rq_service_type = rd_service_type dto,
           rq_raw_description = rd_raw_description dto, rq_location = rd_location dto,
           rq_channel = rd_channel dto, rq_converted = None, rq_objective = None, rq_subject = None,
           rq_timing = None, rq_requirements = None, rq_lead_tag = None,
           rq_lead_score = None, rq_interaction = None\<rparr> (requests d)\<rparr>)))
       (\<lambda>_. return rid))"

definition reload_request :: "nat option \<Rightarrow> db \<Rightarrow> nat result" where
  "reload_request ref d = (case ref of
     None \<Rightarrow> throw (Internal STR ''No ServiceRequest found'') d
   | Some i \<Rightarrow> (case find_unique (requests d) i of
       None \<Rightarrow> throw (Internal STR ''No ServiceRequest found'') d
     | Some _ \<Rightarrow> return i d))"

definition createServiceRequest :: "env \<Rightarrow> actor \<Rightarrow> request_dto \<Rightarrow> string option \<Rightarrow> db \<Rightarrow> nat result" where
  "createServiceRequest e usr dto idempotencyKey d =
     with_idempotency IO_SERVICE_REQUEST_CREATE idempotencyKey (act_id usr) reload_request
       (doCreateServiceRequest e usr dto) (\<lambda>rid. rid) (\<lambda>rid. rid) d"

record request_patch =
  rp_service_type :: "service_type option"
  rp_objective :: "string option"
  rp_subject :: "string option"
  rp_timing :: "string option"
  rp_location :: "string option"
  rp_requirements :: "json option"

definition patch :: "'a option \<Rightarrow> 'a option \<Rightarrow> 'a option" where
  "patch given old = (case given of Some x \<Rightarrow> Some x | None \<Rightarrow> old)"

definition apply_patch :: "request_patch \<Rightarrow> service_request \<Rightarrow> service_request" where
  "apply_patch dto r = r\<lparr>rq_service_type := patch (rp_service_type dto) (rq_service_type r),
     rq_objective := patch (rp_objective dto) (rq_objective r),
     rq_subject := patch (rp_subject dto) (rq_subject r),
     rq_timing := patch (rp_timing dto) (rq_timing r),
     rq_location := patch (rp_location dto) (rq_location r),
     rq_requirements := patch (rp_requirements dto) (rq_requirements r)\<rparr>"

text \<open>\<open>Object.keys(dto)\<close>: the fields the body has, here in the order of the DTO.\<close>

definition patched_fields :: "request_patch \<Rightarrow> String.literal list" where
  "patched_fields dto = map fst (filter snd
     [(STR ''serviceType'', rp_service_type dto \<noteq> None), (STR ''objective'', rp_objective dto \<noteq> None),
      (STR ''subject'', rp_subject dto \<noteq> None), (STR ''timing'', rp_timing dto \<noteq> None),
      (STR ''location'', rp_location dto \<noteq> None), (STR ''requirements'', rp_requirements dto \<noteq> None)])"

definition updateServiceRequest :: "env \<Rightarrow> actor \<Rightarrow> nat \<Rightarrow> request_patch \<Rightarrow> db \<Rightarrow> nat result" where
  "updateServiceRequest e usr requestId dto d = and_then (requireCustomerProfile (act_id usr) d) (\<lambda>(cid, _) d.
     case find_unique (requests d) requestId of
       None \<Rightarrow> throw (Not_Found STR ''Service request not found'') d
     | Some rq \<Rightarrow>
       if rq_customer rq \<noteq> cid then throw (Not_Found STR ''Service request not found'') d
       else if rq_converted rq \<noteq> None
       then throw (Bad_Request STR ''This request has already been converted to a case'') d
       else and_then (evaluateAutomationAndMaybeConvert e requestId
           (audit_record None (Some (act_id usr)) By_User STR ''service_request.updated''
              [(STR ''serviceRequestId'', J_Id requestId), (STR ''fields'', J_Array (map J_Lit (patched_fields dto)))]
            (d\<lparr>requests := update_row requestId (apply_patch dto) (requests d)\<rparr>)))
         (\<lambda>_. return requestId))"

definition getAutomationDecision :: "actor \<Rightarrow> nat \<Rightarrow> db \<Rightarrow> (nat \<times> automation_decision) option result" where
  "getAutomationDecision usr requestId d = (case find_unique (requests d) requestId of
     None \<Rightarrow> throw (Not_Found STR ''Service request not found'') d
   | Some rq \<Rightarrow>
     if act_role usr = R_CUSTOMER
     then and_then (requireCustomerProfile (act_id usr) d) (\<lambda>(cid, _) d.
       if rq_customer rq \<noteq> cid then throw (Not_Found STR ''Service request not found'') d
       else return (getDecision requestId d) d)
     else return (getDecision requestId d) d)"

definition recomputeAutomationDecision :: "env \<Rightarrow> nat \<Rightarrow> db \<Rightarrow> automation_decision result" where
  "recomputeAutomationDecision e requestId d = (case find_unique (requests d) requestId of
     None \<Rightarrow> throw (Not_Found STR ''Service request not found'') d
   | Some _ \<Rightarrow> evaluateAutomationAndMaybeConvert e requestId d)"

definition listServiceRequests :: "actor \<Rightarrow> db \<Rightarrow> (nat \<times> service_request) list result" where
  "listServiceRequests usr d =
     (if act_role usr = R_CUSTOMER
      then and_then (requireCustomerProfile (act_id usr) d) (\<lambda>(cid, _) d.
        return (rev (find_many (\<lambda>_ r. rq_customer r = cid) (requests d))) d)
      else return (find_many (\<lambda>_ r. rq_converted r = None) (requests d)) d)"

section \<open>Lemmas\<close>

lemma case_number_inject: "case_number m = case_number n \<longleftrightarrow> m = n"
proof
  assume "case_number m = case_number n"
  then have "read_decimal (pad_start 6 (CHR ''0'') (decimal m)) = read_decimal (pad_start 6 (CHR ''0'') (decimal n))"
    by (simp add: case_number_def case_number_prefix_def)
  then show "m = n" by simp
qed simp

lemma create_case_eq:
  assumes "create_case c by d = (caseId, d')"
  shows "caseId = t_next (cases d)"
    and "d' = d\<lparr>cases := update_row caseId (\<lambda>c. c\<lparr>c_number := case_number caseId\<rparr>)
              (insert_row (c\<lparr>c_number := ''PENDING-'' @ decimal caseId\<rparr>) (cases d)),
            tasks := insert_rows (checklist_tasks caseId (c_service_type c)) (tasks d),
            history := insert_row \<lparr>h_case = caseId, h_from = None, h_to = CS_DRAFT, h_by = by, h_reason = None\<rparr>
              (history d)\<rparr>"
  using assms by (auto simp: create_case_def Let_def)

lemma create_case_row:
  assumes "wf_table (cases d)" "create_case c by d = (caseId, d')"
  shows "find_unique (cases d') k = (if k = t_next (cases d) then Some (c\<lparr>c_number := case_number k\<rparr>)
     else find_unique (cases d) k)"
  using create_case_eq [OF assms(2)] assms(1) by simp

lemma connect_request_row:
  "find_unique (requests (connect_request rid cid d)) k
     = (if k = rid then map_option (\<lambda>r. r\<lparr>rq_converted := Some cid\<rparr>) (find_unique (requests d) k)
        else find_unique (requests d) k)"
  by (simp add: connect_request_def)

lemma connect_request_frame [simp]:
  "cases (connect_request rid cid d) = cases d" "idempotency (connect_request rid cid d) = idempotency d"
  "tasks (connect_request rid cid d) = tasks d" "history (connect_request rid cid d) = history d"
  "audit_log (connect_request rid cid d) = audit_log d" "collaborators (connect_request rid cid d) = collaborators d"
  "t_next (requests (connect_request rid cid d)) = t_next (requests d)"
  by (simp_all add: connect_request_def)

text \<open>What a conversion that succeeds has written.\<close>

lemma convertToCase_Inr:
  assumes "convertToCase e ac rid dto d = (Inr cid, d')"
  obtains rq c where "find_unique (requests d) rid = Some rq" "rq_converted rq = None"
    "cid = t_next (cases d)" "c_status c = CS_DRAFT" "c_customer c = rq_customer rq" "c_held_from c = None"
    "c_service_type c = cd_service dto" "c_number c = case_number cid"
    "wf_table (cases d) \<Longrightarrow> find_unique (cases d') k = (if k = cid then Some c else find_unique (cases d) k)"
    "requests d' = requests (connect_request rid cid d)" "idempotency d' = idempotency d"
    "tasks d' = insert_rows (checklist_tasks cid (cd_service dto)) (tasks d)"
    "collaborators d' = (case collaborator_role_by_user_role (act_role ac) of
       Some r \<Rightarrow> insert_row \<lparr>cl_case = cid, cl_user = act_id ac, cl_role = r\<rparr> (collaborators d)
     | None \<Rightarrow> collaborators d)"
    "cd_service dto \<in> set verified_poa_required_service_types \<longrightarrow> has_verified_poa (rq_customer rq) d"
    "belongs bf_customer (beneficiaries d) (rq_customer rq) (cd_beneficiary dto)"
proof -
  obtain rq where rq: "find_unique (requests d) rid = Some rq"
    using assms by (cases "find_unique (requests d) rid") (simp_all add: convertToCase_def)
  have unconverted: "rq_converted rq = None"
    and ben: "belongs bf_customer (beneficiaries d) (rq_customer rq) (cd_beneficiary dto)"
    and pl: "belongs pl_customer (properties d) (rq_customer rq) (cd_property dto)"
      "belongs pl_customer (assets d) (rq_customer rq) (cd_asset dto)"
    and poa: "\<not> (cd_service dto \<in> set verified_poa_required_service_types \<and> \<not> has_verified_poa (rq_customer rq) d)"
    using assms rq by (auto simp: convertToCase_def split: if_splits)
  let ?prio = "case cd_priority dto of Some p \<Rightarrow> p
     | None \<Rightarrow> (case service_type_default_priority (cd_service dto) of Some p \<Rightarrow> p | None \<Rightarrow> CP_STANDARD)"
  let ?c = "new_case (rq_customer rq) (cd_service dto) (cd_description dto) (cd_location dto) ?prio
      (case cd_risk dto of Some r \<Rightarrow> r | None \<Rightarrow> 1)
      (case cd_tier dto of Some t \<Rightarrow> t
       | None \<Rightarrow> (case find_first (\<lambda>_ s. s_customer s = rq_customer rq \<and> s_status s = SS_ACTIVE) (subscriptions d) of
           Some (_, s) \<Rightarrow> s_tier s | None \<Rightarrow> CT_ESSENTIAL))
      (cd_beneficiary dto) (cd_property dto) (cd_asset dto) None (sla_target e ?prio (cd_location dto))"
  obtain k d1 where create: "create_case ?c (Some (act_id ac)) d = (k, d1)" by fastforce
  note d1 = create_case_eq [OF create]
  have res: "cid = k" "d' = audit_record (Some k) (Some (act_id ac)) By_User STR ''case.created_from_request''
      [(STR ''serviceRequestId'', J_Id rid)]
      (case collaborator_role_by_user_role (act_role ac) of
         Some r \<Rightarrow> (connect_request rid k d1)\<lparr>collaborators := insert_row
            \<lparr>cl_case = k, cl_user = act_id ac, cl_role = r\<rparr> (collaborators (connect_request rid k d1))\<rparr>
       | None \<Rightarrow> connect_request rid k d1)"
    using assms create unconverted ben pl poa by (auto simp: convertToCase_def rq Let_def split: if_splits)
  have same: "cases d' = cases d1" "idempotency d' = idempotency d" "tasks d' = tasks d1"
    by (simp_all add: res d1 split: option.split)
  have req: "requests d' = requests (connect_request rid cid d)"
    by (simp add: res d1 connect_request_def split: option.split)
  have coll: "collaborators d' = (case collaborator_role_by_user_role (act_role ac) of
       Some r \<Rightarrow> insert_row \<lparr>cl_case = cid, cl_user = act_id ac, cl_role = r\<rparr> (collaborators d)
     | None \<Rightarrow> collaborators d)"
    by (simp add: res d1 split: option.split)
  show thesis
    by (rule that [OF rq unconverted, of "?c\<lparr>c_number := case_number cid\<rparr>", OF _ _ _ _ _ _ _ req same(2) _ coll _ ben])
      (use poa d1 same res create_case_row [OF _ create] in \<open>simp_all add: new_case_def\<close>)
qed

lemma create_case_frame [simp]:
  "requests (snd (create_case c by d)) = requests d" "idempotency (snd (create_case c by d)) = idempotency d"
  "decisions (snd (create_case c by d)) = decisions d" "escalations (snd (create_case c by d)) = escalations d"
  "audit_log (snd (create_case c by d)) = audit_log d"
  by (simp_all add: create_case_def Let_def)

lemma create_case_keeps:
  assumes "create_case c by d = (k, d1)"
  shows "k = t_next (cases d) \<and> requests d1 = requests d \<and> idempotency d1 = idempotency d
    \<and> decisions d1 = decisions d \<and> escalations d1 = escalations d \<and> audit_log d1 = audit_log d"
  using create_case_eq [OF assms] by simp

text \<open>The automatic conversion either declines and changes nothing, or creates one case.\<close>

lemma autoConvert_cases:
  obtains (declined) "autoConvert e rid d = d"
  | (converted) rq st loc c k d1 where "find_unique (requests d) rid = Some rq" "rq_converted rq = None"
      "rq_service_type rq = Some st" "rq_location rq = Some loc" "loc \<noteq> []"
      "st \<in> set verified_poa_required_service_types \<longrightarrow> has_verified_poa (rq_customer rq) d"
      "create_case c None d = (k, d1)" "c_status c = CS_DRAFT" "c_held_from c = None"
      "c_service_type c = st" "c_customer c = rq_customer rq"
      "autoConvert e rid d = audit_record (Some k) None By_System STR ''case.auto_converted''
         [(STR ''serviceRequestId'', J_Id rid)] (connect_request rid k d1)"
proof (cases "find_unique (requests d) rid")
  case None
  then show thesis by (intro declined) (simp add: autoConvert_def)
next
  case (Some rq)
  show thesis
  proof (cases "rq_converted rq = None \<and> rq_service_type rq \<noteq> None \<and> rq_location rq \<noteq> None \<and> rq_location rq \<noteq> Some []
      \<and> (the (rq_service_type rq) \<in> set verified_poa_required_service_types \<longrightarrow> has_verified_poa (rq_customer rq) d)")
    case False
    with Some show thesis
      by (intro declined, intro same_stateD) (auto simp: autoConvert_def split: option.split)
  next
    case True
    then obtain st loc where req: "rq_service_type rq = Some st" "rq_location rq = Some loc" "loc \<noteq> []" by auto
    let ?prio = "case service_type_default_priority st of Some p \<Rightarrow> p | None \<Rightarrow> CP_STANDARD"
    let ?c = "new_case (rq_customer rq) st
        (case rq_objective rq of Some t \<Rightarrow> t | None \<Rightarrow> rq_raw_description rq) loc ?prio 1
        (case find_first (\<lambda>_ s. s_customer s = rq_customer rq \<and> s_status s = SS_ACTIVE) (subscriptions d) of
           Some (_, s) \<Rightarrow> s_tier s | None \<Rightarrow> CT_ESSENTIAL)
        None None None None (sla_target e ?prio loc)"
    obtain k d1 where create: "create_case ?c None d = (k, d1)" by fastforce
    have poa: "\<not> (st \<in> set verified_poa_required_service_types \<and> \<not> has_verified_poa (rq_customer rq) d)"
      using True req by simp
    have unconverted: "rq_converted rq = None" using True by simp
    have "autoConvert e rid d = audit_record (Some k) None By_System STR ''case.auto_converted''
         [(STR ''serviceRequestId'', J_Id rid)] (connect_request rid k d1)"
      using create poa by (auto simp: autoConvert_def Some unconverted req Let_def)
    with poa show thesis
      by (intro converted [OF Some unconverted req _ create]) (simp_all add: new_case_def)
  qed
qed

lemma autoConvert_idempotency [simp]: "idempotency (autoConvert e rid d) = idempotency d"
  by (rule autoConvert_cases [of e rid d]) (auto dest!: create_case_keeps)

lemma autoConvert_requests:
  "map_option (\<lambda>r. r\<lparr>rq_converted := None\<rparr>) (find_unique (requests (autoConvert e rid d)) k)
     = map_option (\<lambda>r. r\<lparr>rq_converted := None\<rparr>) (find_unique (requests d) k)"
  by (rule autoConvert_cases [of e rid d]) (auto simp: connect_request_row option.map_comp comp_def dest!: create_case_keeps)

text \<open>A request that has a case is never converted again, by staff or automatically.\<close>

lemma converted_stays:
  assumes "find_unique (requests d) rid = Some rq" "rq_converted rq \<noteq> None"
  shows "autoConvert e rid d = d"
    and "convertToCase e ac rid dto d = (Inl (Not_Found STR ''Service request has already been converted''), d)"
  using assms by (auto simp: autoConvert_def convertToCase_def)

lemma convertToCase_marks:
  assumes "convertToCase e ac rid dto d = (Inr cid, d')"
  shows "\<exists>rq. find_unique (requests d') rid = Some rq \<and> rq_converted rq = Some cid"
proof (rule convertToCase_Inr [OF assms])
  fix rq assume "find_unique (requests d) rid = Some rq" "requests d' = requests (connect_request rid cid d)"
  then show ?thesis by (simp add: connect_request_row)
qed

lemma autoConvert_marks:
  assumes "autoConvert e rid d \<noteq> d"
  shows "\<exists>rq. find_unique (requests (autoConvert e rid d)) rid = Some rq \<and> rq_converted rq = Some (t_next (cases d))"
  by (rule autoConvert_cases [of e rid d]) (use assms in \<open>auto simp: connect_request_row dest!: create_case_keeps\<close>)

lemma evaluateAndRecord_frame:
  assumes "evaluateAndRecord e rid d = (Inr ad, d')"
  shows "requests d' = requests d" "idempotency d' = idempotency d" "cases d' = cases d" "customers d' = customers d"
proof -
  have "requests (snd (evaluateAndRecord e rid d)) = requests d \<and> idempotency (snd (evaluateAndRecord e rid d)) = idempotency d
    \<and> cases (snd (evaluateAndRecord e rid d)) = cases d \<and> customers (snd (evaluateAndRecord e rid d)) = customers d"
    by (auto simp: evaluateAndRecord_def createForServiceRequest_def Let_def upsert_decision_def split: option.split)
  then show "requests d' = requests d" "idempotency d' = idempotency d" "cases d' = cases d" "customers d' = customers d"
    by (simp_all add: assms)
qed

lemma evaluateAutomation_frame:
  assumes "evaluateAutomationAndMaybeConvert e rid d = (Inr ad, d')"
  shows "idempotency d' = idempotency d"
    and "find_unique (requests d') k = None \<longleftrightarrow> find_unique (requests d) k = None"
proof -
  obtain d1 where ev: "evaluateAndRecord e rid d = (Inr ad, d1)"
    and d': "d' = (if ad_outcome ad = AO_AUTO then autoConvert e rid d1 else d1)"
    using assms by (auto simp: evaluateAutomationAndMaybeConvert_def and_then_Inr_iff)
  note frame = evaluateAndRecord_frame [OF ev]
  show "idempotency d' = idempotency d"
    using frame by (simp add: d')
  show "find_unique (requests d') k = None \<longleftrightarrow> find_unique (requests d) k = None"
    using arg_cong [OF autoConvert_requests [of e rid d1 k], of "\<lambda>x. x = None"] frame by (simp add: d')
qed

lemma doCreateServiceRequest_Inr:
  assumes "doCreateServiceRequest e usr dto d = (Inr rid, d')"
  shows "rid = t_next (requests d)" "idempotency d' = idempotency d"
    "wf_table (requests d) \<Longrightarrow> find_unique (requests d') rid \<noteq> None"
proof -
  obtain cid cu where cu: "find_customer (act_id usr) d = Some (cid, cu)"
    using assms by (cases "find_customer (act_id usr) d")
      (auto simp: doCreateServiceRequest_def requireCustomerProfile_def)
  define d1 where "d1 = audit_record None (Some (act_id usr)) By_User STR ''service_request.created''
          [(STR ''serviceRequestId'', J_Id (t_next (requests d))), (STR ''channel'', J_Lit (rd_channel dto))]
        (d\<lparr>requests := insert_row \<lparr>rq_customer = cid, rq_service_type = rd_service_type dto,
           rq_raw_description = rd_raw_description dto, rq_location = rd_location dto,
           rq_channel = rd_channel dto, rq_converted = None, rq_objective = None, rq_subject = None,
           rq_timing = None, rq_requirements = None, rq_lead_tag = None,
           rq_lead_score = None, rq_interaction = None\<rparr> (requests d)\<rparr>)"
  have d1: "idempotency d1 = idempotency d" "\<exists>r. requests d1 = insert_row r (requests d)"
    by (auto simp: d1_def)
  obtain ad where rid: "rid = t_next (requests d)" and ev: "evaluateAutomationAndMaybeConvert e rid d1 = (Inr ad, d')"
    using assms cu
    by (auto simp: doCreateServiceRequest_def requireCustomerProfile_def and_then_Inr_iff Let_def d1_def)
  show "rid = t_next (requests d)" by (fact rid)
  show "idempotency d' = idempotency d" using evaluateAutomation_frame(1) [OF ev] d1 by simp
  show "wf_table (requests d) \<Longrightarrow> find_unique (requests d') rid \<noteq> None"
    using evaluateAutomation_frame(2) [OF ev, of rid] d1(2) rid(1) by auto
qed

end
