(* ===== verification/Scope.thy ===== *)
theory Scope
  imports Catalogue
begin

text \<open>
  \<open>ScopeService\<close> (\<open>src/backend/src/scope/scope.service.ts\<close>): a case's scope is a sequence of
  versions; a revision is a new, unconfirmed version, and only the customer who owns the case can
  confirm the latest one. Quotes and prices are gated on that confirmation.
\<close>

definition getLatest :: "nat \<Rightarrow> db \<Rightarrow> (nat \<times> case_scope) option" where
  "getLatest caseId d = max_by (\<lambda>(_, s). sc_version s) (find_many (\<lambda>_ s. sc_case s = caseId) (scopes d))"

definition listVersions :: "nat \<Rightarrow> db \<Rightarrow> (nat \<times> case_scope) list" where
  "listVersions caseId d = rev (sort_key (\<lambda>(_, s). sc_version s) (find_many (\<lambda>_ s. sc_case s = caseId) (scopes d)))"

record scope_dto =
  sd_zone :: "pricing_zone option"
  sd_objective :: string
  sd_tasks :: "string list"
  sd_deliverables :: "string list option"
  sd_exclusions :: "string list option"
  sd_evidence :: "string list option"

definition or_empty :: "'a list option \<Rightarrow> 'a list" where
  "or_empty x = (case x of Some xs \<Rightarrow> xs | None \<Rightarrow> [])"

definition createOrRevise :: "env \<Rightarrow> actor \<Rightarrow> nat \<Rightarrow> scope_dto \<Rightarrow> db \<Rightarrow> nat result" where
  "createOrRevise e ac caseId dto d = (case find_unique (cases d) caseId of
     None \<Rightarrow> throw (Not_Found STR ''Case not found'') d
   | Some c \<Rightarrow> included (customers d) (c_customer c) d (\<lambda>cu.
       (let version = (case getLatest caseId d of Some (_, s) \<Rightarrow> sc_version s | None \<Rightarrow> 0) + 1;
            zone = (case sd_zone dto of Some z \<Rightarrow> z | None \<Rightarrow> classifyZone (c_location c));
            sid = t_next (scopes d)
        in return sid
          (notify e (cu_user cu)
             (if version = 1 then STR ''Please review the scope for your case''
              else STR ''The scope for your case has been revised'')
             [J_Lit STR ''Review exactly what's included'',
              J_Lit (if version > 1 then STR ''; this replaces the previous version'' else STR ''''),
              J_Lit STR '' and confirm it so we can quote.'']
          (audit_record (Some caseId) (Some (act_id ac)) By_User STR ''scope.created''
             [(STR ''scopeId'', J_Id sid), (STR ''version'', J_Id version),
              (STR ''taskCount'', J_Id (length (sd_tasks dto)))]
          (d\<lparr>scopes := insert_row \<lparr>sc_case = caseId, sc_version = version, sc_zone = zone,
             sc_objective = sd_objective dto, sc_tasks = sd_tasks dto,
             sc_deliverables = or_empty (sd_deliverables dto), sc_exclusions = or_empty (sd_exclusions dto),
             sc_evidence = or_empty (sd_evidence dto), sc_created_by = act_id ac,
             sc_confirmed_by = None, sc_confirmed_at = None\<rparr> (scopes d)\<rparr>))))))"

definition confirm_scope :: "env \<Rightarrow> actor \<Rightarrow> nat \<Rightarrow> db \<Rightarrow> nat result" where
  "confirm_scope e ac caseId d = (case find_unique (cases d) caseId of
     None \<Rightarrow> throw (Not_Found STR ''Case not found'') d
   | Some c \<Rightarrow> included (customers d) (c_customer c) d (\<lambda>cu.
       if cu_user cu \<noteq> act_id ac then throw (Forbidden STR ''Only the case owner can confirm scope'') d
       else (case getLatest caseId d of
         None \<Rightarrow> throw (Bad_Request STR ''No scope has been proposed for this case yet'') d
       | Some (sid, s) \<Rightarrow>
           if sc_confirmed_at s \<noteq> None then return sid d
           else return sid
             (audit_record (Some caseId) (Some (act_id ac)) By_User STR ''scope.confirmed''
                [(STR ''scopeId'', J_Id sid), (STR ''version'', J_Id (sc_version s))]
              (d\<lparr>scopes := update_row sid (\<lambda>s. s\<lparr>sc_confirmed_by := Some (act_id ac),
                 sc_confirmed_at := Some (now e)\<rparr>) (scopes d)\<rparr>)))))"

section \<open>Versions\<close>

text \<open>The versions of a case count up from 1 without gaps or repetitions.\<close>

definition versions :: "nat \<Rightarrow> db \<Rightarrow> nat list" where
  "versions caseId d = map (\<lambda>(_, s). sc_version s) (find_many (\<lambda>_ s. sc_case s = caseId) (scopes d))"

definition versions_ok :: "db \<Rightarrow> bool" where
  "versions_ok d \<longleftrightarrow> (\<forall>caseId. versions caseId d = [1..<Suc (length (versions caseId d))])"

lemma getLatest_version:
  assumes "versions caseId d = [1..<Suc n]"
  shows "(case getLatest caseId d of Some (_, s) \<Rightarrow> sc_version s | None \<Rightarrow> 0) = n"
proof (cases "getLatest caseId d")
  case None
  then have "versions caseId d = []" by (simp add: getLatest_def versions_def)
  with assms None show ?thesis by (cases n) simp_all
next
  case (Some x)
  then have x: "x \<in> set (find_many (\<lambda>_ s. sc_case s = caseId) (scopes d))"
    "\<And>z. z \<in> set (find_many (\<lambda>_ s. sc_case s = caseId) (scopes d)) \<Longrightarrow> sc_version (snd z) \<le> sc_version (snd x)"
    by (auto simp: getLatest_def case_prod_unfold dest!: max_by_SomeD)
  have set_v: "(\<lambda>z. sc_version (snd z)) ` set (find_many (\<lambda>_ s. sc_case s = caseId) (scopes d)) = {1..n}"
    using arg_cong [OF assms, of set] by (auto simp: versions_def case_prod_unfold)
  then have "sc_version (snd x) \<in> {1..n}" using x(1) by blast
  moreover have "n \<le> sc_version (snd x)"
  proof -
    have "n \<in> {1..n}" using \<open>sc_version (snd x) \<in> {1..n}\<close> by auto
    with set_v obtain z where "z \<in> set (find_many (\<lambda>_ s. sc_case s = caseId) (scopes d))" "sc_version (snd z) = n"
      by (metis (no_types, lifting) image_iff)
    with x(2) show ?thesis by blast
  qed
  ultimately show ?thesis by (simp add: Some case_prod_unfold)
qed

lemma createOrRevise_Inr:
  assumes "createOrRevise e ac caseId dto d = (Inr sid, d')"
  obtains c cu s where "find_unique (cases d) caseId = Some c" "find_unique (customers d) (c_customer c) = Some cu"
    "sid = t_next (scopes d)" "scopes d' = insert_row s (scopes d)" "sc_case s = caseId"
    "sc_version s = (case getLatest caseId d of Some (_, s) \<Rightarrow> sc_version s | None \<Rightarrow> 0) + 1"
    "sc_confirmed_at s = None" "cases d' = cases d"
    "sc_zone s = (case sd_zone dto of Some z \<Rightarrow> z | None \<Rightarrow> classifyZone (c_location c))"
proof -
  obtain c where c: "find_unique (cases d) caseId = Some c"
    using assms by (cases "find_unique (cases d) caseId") (simp_all add: createOrRevise_def)
  obtain cu where cu: "find_unique (customers d) (c_customer c) = Some cu"
    using assms c by (cases "find_unique (customers d) (c_customer c)") (simp_all add: createOrRevise_def)
  show thesis
    using assms by (intro that [OF c cu]) (auto simp: createOrRevise_def c cu Let_def)
qed

lemma createOrRevise_versions:
  assumes "versions_ok d" "createOrRevise e ac caseId dto d = (Inr sid, d')"
  shows "versions_ok d'"
proof (rule createOrRevise_Inr [OF assms(2)])
  fix s assume s: "scopes d' = insert_row s (scopes d)" "sc_case s = caseId"
    "sc_version s = (case getLatest caseId d of Some (_, s) \<Rightarrow> sc_version s | None \<Rightarrow> 0) + 1"
  have ok: "versions k d = [1..<Suc (length (versions k d))]" for k
    using assms(1) by (simp add: versions_ok_def)
  have "sc_version s = Suc (length (versions caseId d))"
    using s(3) getLatest_version [OF ok] by simp
  then have new: "versions k d' = versions k d @ (if k = caseId then [Suc (length (versions k d))] else [])" for k
    using s by (simp add: versions_def)
  have "versions k d' = [1..<Suc (length (versions k d'))]" for k
  proof (cases "k = caseId")
    case True
    have "[1..<Suc (length (versions k d))] @ [Suc (length (versions k d))] = [1..<Suc (Suc (length (versions k d)))]"
      by simp
    with ok [of k] True show ?thesis by (simp add: new del: upt_Suc)
  next
    case False
    with ok [of k] show ?thesis by (simp add: new del: upt_Suc)
  qed
  then show ?thesis by (simp add: versions_ok_def)
qed

text \<open>A revision leaves the case without a confirmed scope.\<close>

lemma revision_unconfirmed:
  assumes "createOrRevise e ac caseId dto d = (Inr sid, d')"
  shows "\<exists>s. getLatest caseId d' = Some (sid, s) \<and> sc_confirmed_at s = None"
proof (rule createOrRevise_Inr [OF assms])
  fix s assume s: "sid = t_next (scopes d)" "scopes d' = insert_row s (scopes d)" "sc_case s = caseId"
    "sc_version s = (case getLatest caseId d of Some (_, s) \<Rightarrow> sc_version s | None \<Rightarrow> 0) + 1"
    "sc_confirmed_at s = None"
  have top: "sc_version (snd z) < sc_version s" if "z \<in> set (find_many (\<lambda>_ s. sc_case s = caseId) (scopes d))" for z
  proof (cases "getLatest caseId d")
    case None with that show ?thesis by (auto simp: getLatest_def)
  next
    case (Some x)
    then have "sc_version (snd z) \<le> sc_version (snd x)"
      using that by (auto simp: getLatest_def case_prod_unfold dest!: max_by_SomeD)
    with Some s(4) show ?thesis by (simp add: case_prod_unfold)
  qed
  have "find_many (\<lambda>_ s. sc_case s = caseId) (scopes d')
      = find_many (\<lambda>_ s. sc_case s = caseId) (scopes d) @ [(sid, s)]"
    using s by simp
  moreover have "max_by (\<lambda>(_, s). sc_version s) (find_many (\<lambda>_ s. sc_case s = caseId) (scopes d) @ [(sid, s)]) = Some (sid, s)"
    using top by (intro max_by_append_top) (simp add: case_prod_unfold)
  ultimately show ?thesis using s(5) by (simp add: getLatest_def)
qed

end
