(* ===== verification/Cases.thy ===== *)
theory Cases
  imports Intake Scope
begin

text \<open>
  The life of a case, the second half of \<open>CasesService\<close> (\<open>src/backend/src/cases/cases.service.ts\<close>):
  transitions along the status machine, approval, collaborators and ownership, hold and resume,
  the checklist, disputes and messages. A status changes only in \<open>applyTransition\<close>,
  \<open>holdCase\<close>/\<open>resumeCase\<close> and \<open>raiseDispute\<close>/\<open>resolveDispute\<close>, and each of them writes the
  status history (\<open>set_status\<close>) and the audit log.
\<close>

section \<open>Changing a status\<close>

definition add_history ::
  "nat \<Rightarrow> case_status \<Rightarrow> case_status \<Rightarrow> nat option \<Rightarrow> string option \<Rightarrow> db \<Rightarrow> db" where
  "add_history caseId from to changedById reason d =
     d\<lparr>history := insert_row \<lparr>h_case = caseId, h_from = Some from, h_to = to, h_by = changedById,
        h_reason = reason\<rparr> (history d)\<rparr>"

definition applyTransition ::
  "nat \<Rightarrow> case_status \<Rightarrow> string option \<Rightarrow> nat option \<Rightarrow> actor_type \<Rightarrow> db \<Rightarrow> unit result" where
  "applyTransition caseId toStatus reason actorId actorType d = (case find_unique (cases d) caseId of
     None \<Rightarrow> throw (Not_Found STR ''Case not found'') d
   | Some c \<Rightarrow>
       (case assertValidTransition (c_status c) toStatus of
          Inl err \<Rightarrow> throw err d
        | Inr _ \<Rightarrow> return ()
            (audit_record (Some caseId) actorId actorType STR ''case.status_transitioned''
               [(STR ''from'', J_Case (c_status c)), (STR ''to'', J_Case toStatus),
                (STR ''reason'', json_option J_Text reason)]
             (add_history caseId (c_status c) toStatus actorId reason
             (d\<lparr>cases := update_row caseId (\<lambda>c. c\<lparr>c_status := toStatus\<rparr>) (cases d)\<rparr>)))))"

definition transitionCase :: "actor \<Rightarrow> nat \<Rightarrow> case_status \<Rightarrow> string option \<Rightarrow> db \<Rightarrow> unit result" where
  "transitionCase ac caseId toStatus reason d =
     applyTransition caseId toStatus reason (Some (act_id ac)) By_User d"

definition systemTransitionCase :: "nat \<Rightarrow> case_status \<Rightarrow> string option \<Rightarrow> db \<Rightarrow> unit result" where
  "systemTransitionCase caseId toStatus reason d = applyTransition caseId toStatus reason None By_System d"

section \<open>Approval\<close>

definition recordApproval :: "actor \<Rightarrow> nat \<Rightarrow> approval_action \<Rightarrow> string option \<Rightarrow> db \<Rightarrow> nat result" where
  "recordApproval ac caseId action note d = (case find_unique (cases d) caseId of
     None \<Rightarrow> throw (Not_Found STR ''Case not found'') d
   | Some c \<Rightarrow>
     (let aid = t_next (approvals d);
          d1 = audit_record (Some caseId) (Some (act_id ac)) By_User STR ''case.approval_recorded''
                 [(STR ''action'', J_Approval action), (STR ''note'', json_option J_Text note)]
               (d\<lparr>approvals := insert_row \<lparr>ap_case = caseId, ap_user = act_id ac, ap_action = action,
                  ap_note = note\<rparr> (approvals d)\<rparr>)
      in if action = AP_APPROVED \<and> c_status c = CS_CUSTOMER_REVIEW
         then and_then (transitionCase ac caseId CS_APPROVED (Some ''Customer approved'') d1) (\<lambda>_ d2.
              and_then (transitionCase ac caseId CS_COMPLETED (Some ''Auto-completed after customer approval'') d2)
                (\<lambda>_. return aid))
         else if action = AP_REQUEST_ADDITIONAL_WORK \<and> c_status c = CS_CUSTOMER_REVIEW
         then and_then (transitionCase ac caseId CS_ADDITIONAL_WORK
                (Some (case note of Some n \<Rightarrow> n | None \<Rightarrow> ''Customer requested additional work'')) d1)
                (\<lambda>_. return aid)
         else return aid d1))"

section \<open>Collaborators and ownership\<close>

definition upsert_collaborator :: "nat \<Rightarrow> nat \<Rightarrow> collaborator_role \<Rightarrow> db \<Rightarrow> nat \<times> db" where
  "upsert_collaborator caseId userId r d =
     (case find_first (\<lambda>_ x. cl_case x = caseId \<and> cl_user x = userId \<and> cl_role x = r) (collaborators d) of
        Some (i, _) \<Rightarrow> (i, d)
      | None \<Rightarrow> (t_next (collaborators d), d\<lparr>collaborators := insert_row
          \<lparr>cl_case = caseId, cl_user = userId, cl_role = r\<rparr> (collaborators d)\<rparr>))"

definition addCollaborator :: "actor \<Rightarrow> nat \<Rightarrow> nat \<Rightarrow> collaborator_role \<Rightarrow> db \<Rightarrow> nat result" where
  "addCollaborator ac caseId userId r d = (case find_unique (cases d) caseId of
     None \<Rightarrow> throw (Not_Found STR ''Case not found'') d
   | Some _ \<Rightarrow>
     (let (i, d1) = upsert_collaborator caseId userId r d in return i
        (audit_record (Some caseId) (Some (act_id ac)) By_User STR ''case.collaborator_added''
           [(STR ''userId'', J_Id userId), (STR ''role'', J_Collaborator r)] d1)))"

definition claimCase :: "actor \<Rightarrow> nat \<Rightarrow> db \<Rightarrow> nat result" where
  "claimCase ac caseId d = (case collaborator_role_by_user_role (act_role ac) of
     None \<Rightarrow> throw (Bad_Request STR ''This role cannot claim cases'') d
   | Some r \<Rightarrow> addCollaborator ac caseId (act_id ac) r d)"

definition assignOwner :: "actor \<Rightarrow> nat \<Rightarrow> nat \<Rightarrow> db \<Rightarrow> unit result" where
  "assignOwner ac caseId ownerUserId d = (case find_unique (cases d) caseId of
     None \<Rightarrow> throw (Not_Found STR ''Case not found'') d
   | Some c \<Rightarrow>
     (case find_unique (users d) ownerUserId of
        None \<Rightarrow> throw (Bad_Request STR ''Case owner must be an operational staff member'') d
      | Some u \<Rightarrow>
        if u_role u \<notin> set ops_roles
        then throw (Bad_Request STR ''Case owner must be an operational staff member'') d
        else
          (let d1 = d\<lparr>cases := update_row caseId (\<lambda>c. c\<lparr>c_owner := Some ownerUserId\<rparr>) (cases d)\<rparr>;
               d2 = (case collaborator_role_by_user_role (u_role u) of
                       Some r \<Rightarrow> snd (upsert_collaborator caseId ownerUserId r d1) | None \<Rightarrow> d1)
           in return ()
             (audit_record (Some caseId) (Some (act_id ac)) By_User STR ''case.owner_assigned''
                [(STR ''ownerUserId'', J_Id ownerUserId),
                 (STR ''previousOwnerUserId'', json_option J_Id (c_owner c))] d2))))"

definition setNextAction :: "actor \<Rightarrow> nat \<Rightarrow> string \<Rightarrow> int option \<Rightarrow> db \<Rightarrow> unit result" where
  "setNextAction ac caseId nextAction dueAt d = (case find_unique (cases d) caseId of
     None \<Rightarrow> throw (Not_Found STR ''Case not found'') d
   | Some _ \<Rightarrow> return ()
       (audit_record (Some caseId) (Some (act_id ac)) By_User STR ''case.next_action_set''
          [(STR ''nextAction'', J_Text nextAction), (STR ''dueAt'', json_option J_Time dueAt)]
        (d\<lparr>cases := update_row caseId (\<lambda>c. c\<lparr>c_next_action := Some nextAction, c_next_action_due := dueAt\<rparr>)
           (cases d)\<rparr>)))"

section \<open>Hold and resume\<close>

definition holdCase :: "actor \<Rightarrow> nat \<Rightarrow> string \<Rightarrow> db \<Rightarrow> unit result" where
  "holdCase ac caseId reason d = (case find_unique (cases d) caseId of
     None \<Rightarrow> throw (Not_Found STR ''Case not found'') d
   | Some c \<Rightarrow>
     if c_status c = CS_ON_HOLD then throw (Bad_Request STR ''Case is already on hold'') d
     else if c_status c = CS_COMPLETED \<or> c_status c = CS_CLOSED
     then throw (Bad_Request STR ''Cannot hold a case in this status'') d
     else return ()
       (audit_record (Some caseId) (Some (act_id ac)) By_User STR ''case.held''
          [(STR ''heldFromStatus'', J_Case (c_status c)), (STR ''reason'', J_Text reason)]
        (add_history caseId (c_status c) CS_ON_HOLD (Some (act_id ac)) (Some reason)
        (d\<lparr>cases := update_row caseId (\<lambda>r. r\<lparr>c_status := CS_ON_HOLD, c_held_from := Some (c_status c)\<rparr>)
           (cases d)\<rparr>))))"

definition resumeCase :: "actor \<Rightarrow> nat \<Rightarrow> string option \<Rightarrow> db \<Rightarrow> unit result" where
  "resumeCase ac caseId reason d = (case find_unique (cases d) caseId of
     None \<Rightarrow> throw (Not_Found STR ''Case not found'') d
   | Some c \<Rightarrow>
     (case c_held_from c of
        None \<Rightarrow> throw (Bad_Request STR ''Case is not on hold'') d
      | Some resumeTo \<Rightarrow>
        if c_status c \<noteq> CS_ON_HOLD then throw (Bad_Request STR ''Case is not on hold'') d
        else return ()
          (audit_record (Some caseId) (Some (act_id ac)) By_User STR ''case.resumed''
             [(STR ''resumedTo'', J_Case resumeTo), (STR ''reason'', json_option J_Text reason)]
           (add_history caseId CS_ON_HOLD resumeTo (Some (act_id ac)) reason
           (d\<lparr>cases := update_row caseId (\<lambda>r. r\<lparr>c_status := resumeTo, c_held_from := None\<rparr>) (cases d)\<rparr>)))))"

section \<open>The checklist\<close>

definition max_sort_order :: "nat \<Rightarrow> db \<Rightarrow> int option" where
  "max_sort_order caseId d = map_option (\<lambda>(_, t). tk_sort t)
     (max_by (\<lambda>(_, t). tk_sort t) (find_many (\<lambda>_ t. tk_case t = caseId) (tasks d)))"

definition addTask :: "actor \<Rightarrow> nat \<Rightarrow> string \<Rightarrow> bool option \<Rightarrow> db \<Rightarrow> nat result" where
  "addTask ac caseId label isRequired d = (case find_unique (cases d) caseId of
     None \<Rightarrow> throw (Not_Found STR ''Case not found'') d
   | Some c \<Rightarrow>
     if c_status c = CS_COMPLETED \<or> c_status c = CS_CLOSED
     then throw (Bad_Request STR ''Cannot add a checklist item to a case in this status'') d
     else
       (let required = (case isRequired of Some b \<Rightarrow> b | None \<Rightarrow> True); tid = t_next (tasks d)
        in return tid
          (audit_record (Some caseId) (Some (act_id ac)) By_User STR ''case_task.added''
             [(STR ''taskId'', J_Id tid), (STR ''label'', J_Text label), (STR ''isRequired'', J_Bool required)]
           (d\<lparr>tasks := insert_row \<lparr>tk_case = caseId, tk_label = label, tk_required = required,
              tk_complete = False, tk_completed_at = None,
              tk_sort = (case max_sort_order caseId d of Some m \<Rightarrow> m | None \<Rightarrow> 0) + 1,
              tk_milestone = None\<rparr> (tasks d)\<rparr>))))"

definition updateTask ::
  "actor \<Rightarrow> nat \<Rightarrow> nat \<Rightarrow> string option \<Rightarrow> bool option \<Rightarrow> db \<Rightarrow> unit result" where
  "updateTask ac caseId taskId label isRequired d = (case find_unique (tasks d) taskId of
     None \<Rightarrow> throw (Not_Found STR ''Checklist item not found on this case'') d
   | Some t \<Rightarrow>
     if tk_case t \<noteq> caseId then throw (Not_Found STR ''Checklist item not found on this case'') d
     else if tk_complete t
     then throw (Bad_Request STR ''Cannot edit a checklist item that is already complete'') d
     else if label = None \<and> isRequired = None
     then throw (Bad_Request STR ''Nothing to update'') d
     else return ()
       (audit_record (Some caseId) (Some (act_id ac)) By_User STR ''case_task.updated''
          [(STR ''taskId'', J_Id taskId), (STR ''label'', json_option J_Text label),
           (STR ''isRequired'', json_option J_Bool isRequired)]
        (d\<lparr>tasks := update_row taskId (\<lambda>t. t\<lparr>
             tk_label := (case label of Some l \<Rightarrow> l | None \<Rightarrow> tk_label t),
             tk_required := (case isRequired of Some b \<Rightarrow> b | None \<Rightarrow> tk_required t)\<rparr>) (tasks d)\<rparr>)))"

definition removeTask :: "actor \<Rightarrow> nat \<Rightarrow> nat \<Rightarrow> db \<Rightarrow> unit result" where
  "removeTask ac caseId taskId d = (case find_unique (tasks d) taskId of
     None \<Rightarrow> throw (Not_Found STR ''Checklist item not found on this case'') d
   | Some t \<Rightarrow>
     if tk_case t \<noteq> caseId then throw (Not_Found STR ''Checklist item not found on this case'') d
     else if tk_complete t
     then throw (Bad_Request STR ''Cannot remove a checklist item that is already complete'') d
     else return ()
       (audit_record (Some caseId) (Some (act_id ac)) By_User STR ''case_task.removed''
          [(STR ''taskId'', J_Id taskId), (STR ''label'', J_Text (tk_label t))]
        (d\<lparr>tasks := delete_row taskId (tasks d)\<rparr>)))"

section \<open>Disputes\<close>

record dispute_dto =
  dd_tasks :: "nat list"
  dd_reasons :: "string list option"
  dd_notes :: "string option"

definition dispute_reason :: "dispute_dto \<Rightarrow> string" where
  "dispute_reason dto = ''Customer disputed '' @ decimal (length (dd_tasks dto)) @ '' checklist item(s)'' @
     (case dd_reasons dto of Some (r # rs) \<Rightarrow> '': '' @ join_with '', '' (r # rs) | _ \<Rightarrow> [])"

definition disputed :: "dispute_dto \<Rightarrow> nat \<Rightarrow> nat \<Rightarrow> case_task \<Rightarrow> bool" where
  "disputed dto caseId k t \<longleftrightarrow> k \<in> set (dd_tasks dto) \<and> tk_case t = caseId"

definition field_agent_user :: "nat \<Rightarrow> db \<Rightarrow> nat option" where
  "field_agent_user caseId d =
     (case find_last (\<lambda>_ a. as_case a = caseId \<and> as_role a = AR_FIELD_AGENT \<and> as_agent a \<noteq> None)
             (assignments d) of
        None \<Rightarrow> None
      | Some (_, a) \<Rightarrow> (case as_agent a of None \<Rightarrow> None
          | Some i \<Rightarrow> map_option ag_user (find_unique (agents d) i)))"

definition raiseDispute :: "env \<Rightarrow> actor \<Rightarrow> nat \<Rightarrow> dispute_dto \<Rightarrow> db \<Rightarrow> nat result" where
  "raiseDispute e ac caseId dto d = (case find_unique (cases d) caseId of
     None \<Rightarrow> throw (Not_Found STR ''Case not found'') d
   | Some c \<Rightarrow>
     if c_status c \<noteq> CS_CUSTOMER_REVIEW
     then throw (Bad_Request STR ''Disputes can only be raised once a report is ready for your review'') d
     else if length (find_many (disputed dto caseId) (tasks d)) \<noteq> length (dd_tasks dto)
     then throw (Bad_Request STR ''One or more disputed items are not checklist tasks on this case'') d
     else and_then (requireCustomerProfile (act_id ac) d) (\<lambda>(cid, _) d.
       (let did = t_next (disputes d);
            d1 = d\<lparr>disputes := insert_row \<lparr>di_case = caseId, di_customer = cid, di_tasks = dd_tasks dto,
                   di_reasons = or_empty (dd_reasons dto), di_notes = dd_notes dto, di_status = DI_OPEN,
                   di_resolved_at = None, di_resolved_by = None\<rparr> (disputes d)\<rparr>;
            d2 = d1\<lparr>tasks := update_many (disputed dto caseId)
                   (\<lambda>t. t\<lparr>tk_complete := False, tk_completed_at := None\<rparr>) (tasks d1)\<rparr>;
            d3 = d2\<lparr>cases := update_row caseId (\<lambda>c. c\<lparr>c_status := CS_DISPUTED\<rparr>) (cases d2)\<rparr>;
            d4 = add_history caseId CS_CUSTOMER_REVIEW CS_DISPUTED (Some (act_id ac))
                   (Some (dispute_reason dto)) d3;
            d5 = audit_record (Some caseId) (Some (act_id ac)) By_User STR ''case.dispute_raised''
                   [(STR ''disputeId'', J_Id did), (STR ''disputedTaskIds'', J_Array (map J_Id (dd_tasks dto))),
                    (STR ''reasons'', J_Array (map J_Text (or_empty (dd_reasons dto))))] d4;
            d6 = notify e (act_id ac) STR ''Dispute filed''
                   [J_Lit STR ''The report has been locked and a rework on the disputed items has been scheduled.''] d5
        in return did
          (case field_agent_user caseId d6 of
             None \<Rightarrow> d6
           | Some u \<Rightarrow> notify e u STR ''Rework needed: customer disputed part of your report''
               [J_Id (length (dd_tasks dto)),
                J_Lit STR '' checklist item(s) were reopened for rework on case '', J_Text (c_number c)] d6))))"

definition resolveDispute :: "env \<Rightarrow> actor \<Rightarrow> nat \<Rightarrow> string option \<Rightarrow> db \<Rightarrow> unit result" where
  "resolveDispute e ac caseId note d = (case find_unique (cases d) caseId of
     None \<Rightarrow> throw (Not_Found STR ''Case not found'') d
   | Some c \<Rightarrow> included (customers d) (c_customer c) d (\<lambda>cu.
     if c_status c \<noteq> CS_DISPUTED then throw (Bad_Request STR ''Case is not disputed'') d
     else
       (let dispute = find_first (\<lambda>_ x. di_case x = caseId \<and> di_status x = DI_OPEN) (disputes d);
            d1 = (case dispute of None \<Rightarrow> d
                  | Some (i, _) \<Rightarrow> d\<lparr>disputes := update_row i (\<lambda>x. x\<lparr>di_status := DI_RESOLVED,
                      di_resolved_at := Some (now e), di_resolved_by := Some (act_id ac)\<rparr>) (disputes d)\<rparr>);
            d2 = d1\<lparr>cases := update_row caseId (\<lambda>c. c\<lparr>c_status := CS_ADDITIONAL_WORK\<rparr>) (cases d1)\<rparr>;
            d3 = add_history caseId CS_DISPUTED CS_ADDITIONAL_WORK (Some (act_id ac))
                   (Some (case note of Some n \<Rightarrow> n
                          | None \<Rightarrow> ''Dispute accepted: rework scheduled on disputed items'')) d2;
            d4 = audit_record (Some caseId) (Some (act_id ac)) By_User STR ''case.dispute_resolved''
                   [(STR ''disputeId'', json_option J_Id (map_option fst dispute)),
                    (STR ''note'', json_option J_Text note)] d3
        in return () (notify e (cu_user cu) STR ''Dispute accepted: rework underway''
             [J_Lit STR ''We've accepted your dispute and scheduled rework on the disputed items.''] d4))))"

section \<open>Messages\<close>

definition listMessages :: "nat \<Rightarrow> db \<Rightarrow> (nat \<times> message) list" where
  "listMessages caseId d = find_many (\<lambda>_ m. ms_case m = caseId) (messages d)"

definition sendMessage :: "actor \<Rightarrow> nat \<Rightarrow> string \<Rightarrow> db \<Rightarrow> nat result" where
  "sendMessage ac caseId body d =
     (if find_unique (cases d) caseId = None
      then throw (Internal STR ''Foreign key constraint violated'') d
      else (let mid = t_next (messages d) in return mid
        (audit_record (Some caseId) (Some (act_id ac)) By_User STR ''case.message_sent''
           [(STR ''messageId'', J_Id mid)]
         (d\<lparr>messages := insert_row \<lparr>ms_case = caseId, ms_sender = Some (act_id ac), ms_channel = STR ''web'',
            ms_body = body\<rparr> (messages d)\<rparr>))))"

end
