(* ===== verification/Lifecycle.thy ===== *)
theory Lifecycle
  imports Cases
begin

text \<open>
  What holds of a case through its whole life. The abstract specification is a machine on
  positions, a status together with the status to resume to: \<open>step_to\<close> has the edges of the status
  map, the hold that remembers where it was entered from, the resumption that goes back exactly there, and
  the two steps of a dispute. \<open>case_inv\<close> says that the status history of every case, replayed
  from \<open>DRAFT\<close> on that machine, ends in the position of its row; \<open>lifecycle\<close> relates the states
  before and after an operation: the invariant is kept, no history row, audit event or case is
  lost. Every operation of \<open>CasesService\<close> is shown to be such a step.
\<close>

section \<open>The abstract machine\<close>

type_synonym position = "case_status \<times> case_status option"

definition no_hold :: "case_status set" where
  "no_hold = {CS_ON_HOLD, CS_COMPLETED, CS_CLOSED}"

fun step_to :: "position \<Rightarrow> case_status \<Rightarrow> position option" where
  "step_to (a, None) b =
     (if b \<in> set (case_transitions a) \<or> (a, b) \<in> {(CS_CUSTOMER_REVIEW, CS_DISPUTED), (CS_DISPUTED, CS_ADDITIONAL_WORK)}
      then Some (b, None)
      else if b = CS_ON_HOLD \<and> a \<notin> no_hold then Some (CS_ON_HOLD, Some a) else None)"
| "step_to (a, Some s) b = (if b = s then Some (s, None) else None)"

definition status_step :: "position \<Rightarrow> position \<Rightarrow> bool" where
  "status_step p q \<longleftrightarrow> (\<exists>b. step_to p b = Some q)"

text \<open>A history is replayed row by row; each row has to start where the previous one ended.\<close>

fun replay :: "position \<Rightarrow> (case_status option \<times> case_status) list \<Rightarrow> position option" where
  "replay p [] = Some p"
| "replay p ((f, t) # rest) =
     (if f = Some (fst p) then Option.bind (step_to p t) (\<lambda>q. replay q rest) else None)"

fun trail_state :: "(case_status option \<times> case_status) list \<Rightarrow> position option" where
  "trail_state [] = None"
| "trail_state ((f, t) # rest) = (if f = None \<and> t = CS_DRAFT then replay (CS_DRAFT, None) rest else None)"

definition trail :: "nat \<Rightarrow> db \<Rightarrow> (case_status option \<times> case_status) list" where
  "trail k d = map (\<lambda>(_, h). (h_from h, h_to h)) (find_many (\<lambda>_ h. h_case h = k) (history d))"

lemma replay_append: "replay p (xs @ ys) = Option.bind (replay p xs) (\<lambda>q. replay q ys)"
  by (induction p xs rule: replay.induct) (auto split: bind_split)

lemma trail_state_append: "xs \<noteq> [] \<Longrightarrow> trail_state (xs @ ys) = Option.bind (trail_state xs) (\<lambda>q. replay q ys)"
  by (cases xs) (auto simp: replay_append)

lemma replay_path: "replay p tr = Some q \<Longrightarrow> status_step\<^sup>*\<^sup>* p q"
proof (induction p tr rule: replay.induct)
  case (2 p f t rest)
  then obtain r where "step_to p t = Some r" "replay r rest = Some q" "f = Some (fst p)" by (auto split: if_splits bind_splits)
  then have "status_step p r" "status_step\<^sup>*\<^sup>* r q" using 2(1) unfolding status_step_def by blast+
  then show ?case by (rule converse_rtranclp_into_rtranclp)
qed simp

section \<open>Positions on the machine\<close>

definition well_held :: "position \<Rightarrow> bool" where
  "well_held = (\<lambda>(a, h). case h of None \<Rightarrow> a \<noteq> CS_ON_HOLD | Some s \<Rightarrow> a = CS_ON_HOLD \<and> s \<notin> no_hold)"

lemma step_well_held: "step_to p b = Some q \<Longrightarrow> well_held p \<Longrightarrow> well_held q"
  by (cases p; cases "snd p") (auto simp: well_held_def no_hold_def split: if_splits)

lemma replay_well_held: "replay p tr = Some q \<Longrightarrow> well_held p \<Longrightarrow> well_held q"
  by (induction p tr rule: replay.induct) (auto split: if_splits bind_splits dest: step_well_held)

lemma trail_well_held: "trail_state tr = Some q \<Longrightarrow> well_held q"
  by (cases tr rule: trail_state.cases) (auto split: if_splits dest: replay_well_held simp: well_held_def)

lemma closed_no_step [simp]: "\<not> status_step (CS_CLOSED, None) q"
  by (auto simp: status_step_def no_hold_def)

lemma closed_forever: "status_step\<^sup>*\<^sup>* (CS_CLOSED, None) q \<Longrightarrow> q = (CS_CLOSED, None)"
  by (erule converse_rtranclpE) simp_all

text \<open>
  A case on hold counts as being in the status it will resume to. The statuses after payment can
  only be reached through \<open>AWAITING_PAYMENT\<close>; \<open>CLOSED\<close> is not one of them, since a case can be
  closed before it is paid for.
\<close>

definition effective :: "position \<Rightarrow> case_status" where
  "effective = (\<lambda>(a, h). case h of Some s \<Rightarrow> s | None \<Rightarrow> a)"

definition after_payment :: "case_status set" where
  "after_payment = {CS_SCHEDULED, CS_ASSIGNED, CS_IN_PROGRESS, CS_EVIDENCE_SUBMITTED, CS_QUALITY_CONTROL,
     CS_CUSTOMER_REVIEW, CS_ADDITIONAL_WORK, CS_APPROVED, CS_COMPLETED, CS_DISPUTED}"

lemma into_after_payment:
  "b \<in> set (case_transitions a) \<Longrightarrow> b \<in> after_payment \<Longrightarrow> a \<in> after_payment \<or> a = CS_AWAITING_PAYMENT"
  by (cases a) (auto simp: after_payment_def)

lemma step_after_payment:
  "step_to p b = Some q \<Longrightarrow> well_held p \<Longrightarrow> effective q \<in> after_payment \<Longrightarrow>
     effective p \<in> after_payment \<or> p = (CS_AWAITING_PAYMENT, None)"
  using into_after_payment [of b "fst p"]
  by (cases p; cases "snd p") (auto simp: effective_def well_held_def after_payment_def split: if_splits)

lemma replay_after_payment:
  "replay p tr = Some q \<Longrightarrow> well_held p \<Longrightarrow> effective q \<in> after_payment \<Longrightarrow>
     effective p \<in> after_payment \<or> fst p = CS_AWAITING_PAYMENT \<or> CS_AWAITING_PAYMENT \<in> snd ` set tr"
proof (induction p tr rule: replay.induct)
  case (2 p f t rest)
  then obtain r where r: "step_to p t = Some r" "replay r rest = Some q" by (auto split: if_splits bind_splits)
  have to: "fst r = t" using r(1) by (cases p; cases "snd p") (auto split: if_splits)
  have "effective r \<in> after_payment \<or> fst r = CS_AWAITING_PAYMENT \<or> CS_AWAITING_PAYMENT \<in> snd ` set rest"
    using 2 r step_well_held [OF r(1)] by (auto split: if_splits)
  then show ?case using step_after_payment [OF r(1) 2(3)] to by auto
qed simp

lemma paid_before_work:
  assumes "trail_state tr = Some q" "effective q \<in> after_payment" shows "CS_AWAITING_PAYMENT \<in> snd ` set tr"
proof (cases tr rule: trail_state.cases)
  case (2 f t rest)
  with assms(1) have "replay (CS_DRAFT, None) rest = Some q" by (simp split: if_splits)
  from replay_after_payment [OF this _ assms(2)] 2 show ?thesis
    by (auto simp: well_held_def effective_def after_payment_def)
qed (use assms in simp)

section \<open>The invariant\<close>

definition position_of :: "service_case \<Rightarrow> position" where
  "position_of c = (c_status c, c_held_from c)"

definition sound_row :: "nat \<Rightarrow> service_case \<Rightarrow> (case_status option \<times> case_status) list \<Rightarrow> bool" where
  "sound_row k c tr \<longleftrightarrow> trail_state tr = Some (position_of c) \<and> c_number c = case_number k"

definition case_inv :: "db \<Rightarrow> bool" where
  "case_inv d \<longleftrightarrow> wf_table (cases d)
     \<and> (\<forall>k c. find_unique (cases d) k = Some c \<longrightarrow>
          sound_row k c (trail k d))
     \<and> (\<forall>k. t_next (cases d) \<le> k \<longrightarrow> trail k d = [])"

lemma case_invI:
  assumes "wf_table (cases d)"
    and "\<And>k c. find_unique (cases d) k = Some c \<Longrightarrow> sound_row k c (trail k d)"
    and "\<And>k. t_next (cases d) \<le> k \<Longrightarrow> trail k d = []"
  shows "case_inv d"
  using assms unfolding case_inv_def by blast

lemma case_invD:
  assumes "case_inv d"
  shows "wf_table (cases d)"
    and "find_unique (cases d) k = Some c \<Longrightarrow> sound_row k c (trail k d)"
    and "t_next (cases d) \<le> k \<Longrightarrow> trail k d = []"
  using assms unfolding case_inv_def by blast+

definition lifecycle :: "db \<Rightarrow> db \<Rightarrow> bool" where
  "lifecycle d d' \<longleftrightarrow> (case_inv d \<longrightarrow> case_inv d'
        \<and> (\<forall>k. find_unique (cases d) k \<noteq> None \<longrightarrow> find_unique (cases d') k \<noteq> None))
     \<and> prefix (t_rows (history d)) (t_rows (history d')) \<and> audit_extends d d'"

lemma lifecycle_refl [simp]: "lifecycle d d"
  by (simp add: lifecycle_def)

lemma lifecycle_trans [trans]: "lifecycle d d1 \<Longrightarrow> lifecycle d1 d2 \<Longrightarrow> lifecycle d d2"
  unfolding lifecycle_def using prefix_order.trans audit_extends_trans by blast

lemma lifecycle_and_then:
  assumes "lifecycle d (snd r)" "\<And>a s. r = (Inr a, s) \<Longrightarrow> lifecycle s (snd (f a s))"
  shows "lifecycle d (snd (and_then r f))"
  using assms by (cases r; cases "fst r") (auto simp: and_then_def intro: lifecycle_trans)

lemma trail_cong: "history d' = history d \<Longrightarrow> trail k d' = trail k d"
  by (simp add: trail_def)

lemma lifecycle_frame:
  assumes "cases d' = cases d" "history d' = history d" "audit_extends d d'"
  shows "lifecycle d d'"
  using assms trail_cong [OF assms(2)] by (simp add: lifecycle_def case_inv_def)

lemma lifecycle_audit: "lifecycle d d' \<Longrightarrow> lifecycle d (audit_record ca ac ty action md d')"
  by (erule lifecycle_trans) (rule lifecycle_frame, simp_all add: audit_extends_def)

lemma lifecycle_notify: "lifecycle d d' \<Longrightarrow> lifecycle d (notify_url e u t b l d')"
  by (erule lifecycle_trans) (rule lifecycle_frame, simp_all add: audit_extends_def)

lemma trail_add_history:
  "trail k (add_history k' from to by reason d) = trail k d @ (if k' = k then [(Some from, to)] else [])"
  by (simp add: trail_def add_history_def)

lemma add_history_frame [simp]:
  "cases (add_history k from to by reason d) = cases d"
  "audit_log (add_history k from to by reason d) = audit_log d"
  "customers (add_history k from to by reason d) = customers d"
  "t_rows (history (add_history k from to by reason d)) = t_rows (history d) @
     [(t_next (history d), \<lparr>h_case = k, h_from = Some from, h_to = to, h_by = by, h_reason = reason\<rparr>)]"
  by (simp_all add: add_history_def)

text \<open>A status change as every operation performs it: the row is updated, the history extended.\<close>

lemma lifecycle_set_status:
  assumes found: "find_unique (cases d) k = Some c"
    and step: "well_held (position_of c) \<Longrightarrow> step_to (position_of c) s = Some (position_of (f c))"
    and new: "c_number (f c) = c_number c"
    and d1: "cases d1 = update_row k f (cases d)" "history d1 = history d" "audit_log d1 = audit_log d"
  shows "lifecycle d (add_history k (c_status c) s by reason d1)"
proof -
  let ?d = "add_history k (c_status c) s by reason d1"
  have trail: "trail k' ?d = trail k' d @ (if k = k' then [(Some (c_status c), s)] else [])" for k'
    by (simp add: trail_add_history trail_cong [OF d1(2)])
  have row: "find_unique (cases d1) k' = (if k' = k then Some (f c) else find_unique (cases d) k')" for k'
    by (simp add: d1(1) found)
  have "case_inv ?d" if inv: "case_inv d"
  proof (rule case_invI)
    show "wf_table (cases ?d)" using case_invD(1) [OF inv] by (simp add: d1)
  next
    fix k' c' assume c': "find_unique (cases ?d) k' = Some c'"
    show "sound_row k' c' (trail k' ?d)"
    proof (cases "k' = k")
      case True
      with c' have "c' = f c" by (simp add: row)
      moreover have old: "sound_row k c (trail k d)" by (rule case_invD(2) [OF inv found])
      moreover have "trail k d \<noteq> []" using old by (auto simp: sound_row_def)
      moreover have "step_to (position_of c) s = Some (position_of (f c))"
        using old step trail_well_held unfolding sound_row_def by blast
      ultimately show ?thesis
        using True new by (simp add: sound_row_def trail trail_state_append) (simp add: position_of_def)
    next
      case False
      with c' have "find_unique (cases d) k' = Some c'" by (simp add: row)
      from case_invD(2) [OF inv this] False show ?thesis by (simp add: trail)
    qed
  next
    fix k' assume k': "t_next (cases ?d) \<le> k'"
    have "(k, c) \<in> set (t_rows (cases d))"
      using found find_unique_in_rows [OF case_invD(1) [OF inv]] by blast
    then have "k < t_next (cases d)" by (rule rows_below_next [OF case_invD(1) [OF inv]])
    with k' have "t_next (cases d) \<le> k'" "k' \<noteq> k" by (simp_all add: d1)
    with case_invD(3) [OF inv, of k'] show "trail k' ?d = []" by (simp add: trail)
  qed
  moreover have "find_unique (cases ?d) k' \<noteq> None" if "find_unique (cases d) k' \<noteq> None" for k'
    using that by (simp add: row split: if_splits)
  ultimately show ?thesis using d1 by (simp add: lifecycle_def audit_extends_def)
qed

text \<open>A change of other columns of a case.\<close>

lemma lifecycle_update_cases:
  assumes f: "\<And>r. c_status (f r) = c_status r" "\<And>r. c_held_from (f r) = c_held_from r"
      "\<And>r. c_number (f r) = c_number r"
    and d1: "cases d1 = update_many P f (cases d)" "history d1 = history d" "audit_log d1 = audit_log d"
  shows "lifecycle d d1"
proof -
  have same: "sound_row k (f r) tr = sound_row k r tr" for k r tr
    using f by (simp add: sound_row_def position_of_def)
  have "case_inv d1" if inv: "case_inv d"
  proof (rule case_invI)
    show "wf_table (cases d1)" using case_invD(1) [OF inv] by (simp add: d1)
  next
    fix k' c' assume c': "find_unique (cases d1) k' = Some c'"
    then obtain r where r: "find_unique (cases d) k' = Some r" "c' = f r \<or> c' = r"
      by (auto simp: d1(1) find_unique_update_many split: if_splits)
    from case_invD(2) [OF inv r(1)] r(2) show "sound_row k' c' (trail k' d1)"
      using same by (auto simp: trail_cong [OF d1(2)])
  next
    fix k' assume "t_next (cases d1) \<le> k'"
    with case_invD(3) [OF inv, of k'] show "trail k' d1 = []" by (simp add: d1(1) trail_cong [OF d1(2)])
  qed
  moreover have "find_unique (cases d1) k' \<noteq> None" if "find_unique (cases d) k' \<noteq> None" for k'
    using that by (auto simp: d1(1) find_unique_update_many)
  ultimately show ?thesis using d1 by (simp add: lifecycle_def audit_extends_def)
qed

lemma lifecycle_update_case:
  assumes "\<And>r. c_status (f r) = c_status r" "\<And>r. c_held_from (f r) = c_held_from r" "\<And>r. c_number (f r) = c_number r"
    and "cases d1 = update_row k f (cases d)" "history d1 = history d" "audit_log d1 = audit_log d"
  shows "lifecycle d d1"
  using assms unfolding update_row_def by (rule lifecycle_update_cases)

lemma lifecycle_create:
  assumes create: "create_case c by d = (k, d1)" and c: "c_status c = CS_DRAFT" "c_held_from c = None"
  shows "lifecycle d d1"
proof -
  note eq = create_case_eq [OF create]
  have trail: "trail k' d1 = trail k' d @ (if k = k' then [(None, CS_DRAFT)] else [])" for k'
    by (simp add: trail_def eq(2))
  have nxt: "t_next (cases d1) = Suc k" by (simp add: eq)
  have "case_inv d1" if inv: "case_inv d"
  proof (rule case_invI)
    show "wf_table (cases d1)" using case_invD(1) [OF inv] by (simp add: eq(2))
  next
    fix k' c' assume c': "find_unique (cases d1) k' = Some c'"
    note row = create_case_row [OF case_invD(1) [OF inv] create, of k']
    show "sound_row k' c' (trail k' d1)"
    proof (cases "k' = k")
      case True
      with c' row eq(1) have "position_of c' = (CS_DRAFT, None)" "c_number c' = case_number k"
        by (auto simp: c position_of_def)
      moreover have "trail k d = []" using case_invD(3) [OF inv, of k] eq(1) by simp
      ultimately show ?thesis using True by (simp add: trail sound_row_def)
    next
      case False
      with c' row eq(1) have "find_unique (cases d) k' = Some c'" by simp
      from case_invD(2) [OF inv this] False show ?thesis by (simp add: trail)
    qed
  next
    fix k' assume "t_next (cases d1) \<le> k'"
    with nxt eq(1) have "t_next (cases d) \<le> k'" "k' \<noteq> k" by simp_all
    with case_invD(3) [OF inv, of k'] show "trail k' d1 = []" by (simp add: trail)
  qed
  moreover have "find_unique (cases d1) k' \<noteq> None" if "case_inv d" "find_unique (cases d) k' \<noteq> None" for k'
    using that create_case_row [OF case_invD(1) [OF that(1)] create, of k'] by auto
  moreover have "prefix (t_rows (history d)) (t_rows (history d1))" by (simp add: eq(2))
  moreover have "audit_log d1 = audit_log d" using create_case_keeps [OF create] by simp
  ultimately show ?thesis by (simp add: lifecycle_def audit_extends_def)
qed

section \<open>Every operation is a step\<close>

lemma edge_step:
  "b \<in> set (case_transitions (c_status c)) \<Longrightarrow> well_held (position_of c) \<Longrightarrow>
     step_to (position_of c) b = Some (position_of (c\<lparr>c_status := b\<rparr>))"
  by (cases "c_held_from c") (auto simp: position_of_def well_held_def)

lemma lifecycle_applyTransition [simp]: "lifecycle d (snd (applyTransition k s reason a ty d))"
proof (cases "find_unique (cases d) k")
  case None
  then show ?thesis by (simp add: applyTransition_def)
next
  case (Some c)
  show ?thesis
  proof (cases "s \<in> set (case_transitions (c_status c))")
    case False
    with Some show ?thesis by (simp add: applyTransition_def assertValidTransition_def)
  next
    case True
    have "lifecycle d (add_history k (c_status c) s a reason
        (d\<lparr>cases := update_row k (\<lambda>c. c\<lparr>c_status := s\<rparr>) (cases d)\<rparr>))"
      using True by (intro lifecycle_set_status [OF Some]) (simp_all add: edge_step)
    with True Some show ?thesis
      by (simp add: applyTransition_def assertValidTransition_def lifecycle_audit)
  qed
qed

lemma lifecycle_transition [simp]:
  "lifecycle d (snd (transitionCase ac k s reason d))" "lifecycle d (snd (systemTransitionCase k s reason d))"
  by (simp_all add: transitionCase_def systemTransitionCase_def)

lemma lifecycle_recordApproval: "lifecycle d (snd (recordApproval ac k action note d))"
proof (cases "find_unique (cases d) k")
  case None
  then show ?thesis by (simp add: recordApproval_def)
next
  case (Some c)
  have start: "lifecycle d (audit_record ca aa ty nm md (d\<lparr>approvals := t\<rparr>))" for ca aa ty nm md t
    by (intro lifecycle_audit lifecycle_frame) simp_all
  have go: "lifecycle d (snd (and_then (transitionCase ac k s reason
      (audit_record ca aa ty nm md (d\<lparr>approvals := t\<rparr>))) (\<lambda>_ d2. f d2)))"
    if "\<And>d2. lifecycle d2 (snd (f d2))" for s reason ca aa ty nm md t f
    using that by (intro lifecycle_and_then lifecycle_trans [OF start lifecycle_transition(1)])
  show ?thesis
    by (auto simp: recordApproval_def Some Let_def intro!: go start lifecycle_and_then)
qed

lemma upsert_collaborator_frame [simp]:
  "cases (snd (upsert_collaborator k u r d)) = cases d" "history (snd (upsert_collaborator k u r d)) = history d"
  "audit_log (snd (upsert_collaborator k u r d)) = audit_log d"
  by (auto simp: upsert_collaborator_def split: option.split)

lemma lifecycle_addCollaborator: "lifecycle d (snd (addCollaborator ac k u r d))"
proof (cases "find_unique (cases d) k")
  case (Some c)
  obtain i d1 where up: "upsert_collaborator k u r d = (i, d1)" by fastforce
  then have "cases d1 = cases d" "history d1 = history d" "audit_log d1 = audit_log d"
    using upsert_collaborator_frame [of k u r d] by simp_all
  then show ?thesis
    by (auto simp: addCollaborator_def Some up audit_extends_def intro!: lifecycle_audit lifecycle_frame)
qed (simp add: addCollaborator_def)

lemma lifecycle_claimCase: "lifecycle d (snd (claimCase ac k d))"
  by (auto simp: claimCase_def lifecycle_addCollaborator split: option.split)

lemma lifecycle_assignOwner: "lifecycle d (snd (assignOwner ac k u d))"
proof (cases "find_unique (cases d) k")
  case (Some c)
  have "lifecycle d (d\<lparr>cases := update_row k (\<lambda>c. c\<lparr>c_owner := Some u\<rparr>) (cases d)\<rparr>)"
    by (rule lifecycle_update_case [where f = "\<lambda>c. c\<lparr>c_owner := Some u\<rparr>"]) simp_all
  then have "lifecycle d (snd (upsert_collaborator k u r (d\<lparr>cases := update_row k (\<lambda>c. c\<lparr>c_owner := Some u\<rparr>) (cases d)\<rparr>)))" for r
    by (rule lifecycle_trans) (simp add: lifecycle_frame audit_extends_def)
  with \<open>lifecycle d (d\<lparr>cases := update_row k (\<lambda>c. c\<lparr>c_owner := Some u\<rparr>) (cases d)\<rparr>)\<close> show ?thesis
    by (simp add: assignOwner_def Some Let_def lifecycle_audit split: option.split)
qed (simp add: assignOwner_def)

lemma lifecycle_setNextAction: "lifecycle d (snd (setNextAction ac k a due d))"
proof (cases "find_unique (cases d) k")
  case (Some c)
  have "lifecycle d (d\<lparr>cases := update_row k (\<lambda>c. c\<lparr>c_next_action := Some a, c_next_action_due := due\<rparr>) (cases d)\<rparr>)"
    by (rule lifecycle_update_case [where f = "\<lambda>c. c\<lparr>c_next_action := Some a, c_next_action_due := due\<rparr>"]) simp_all
  then show ?thesis by (simp add: setNextAction_def Some lifecycle_audit)
qed (simp add: setNextAction_def)

lemma lifecycle_holdCase: "lifecycle d (snd (holdCase ac k reason d))"
proof (cases "find_unique (cases d) k")
  case (Some c)
  show ?thesis
  proof (cases "c_status c \<in> {CS_ON_HOLD, CS_COMPLETED, CS_CLOSED}")
    case True
    with Some show ?thesis by (auto simp: holdCase_def)
  next
    case False
    have "lifecycle d (add_history k (c_status c) CS_ON_HOLD (Some (act_id ac)) (Some reason)
        (d\<lparr>cases := update_row k (\<lambda>r. r\<lparr>c_status := CS_ON_HOLD, c_held_from := Some (c_status c)\<rparr>) (cases d)\<rparr>))"
      using False
      by (intro lifecycle_set_status [OF Some])
        (auto simp: position_of_def well_held_def no_hold_def split: option.splits)
    with False Some show ?thesis by (simp add: holdCase_def lifecycle_audit)
  qed
qed (simp add: holdCase_def)

lemma lifecycle_resumeCase: "lifecycle d (snd (resumeCase ac k reason d))"
proof (cases "\<exists>c s. find_unique (cases d) k = Some c \<and> c_held_from c = Some s \<and> c_status c = CS_ON_HOLD")
  case False
  then show ?thesis by (auto simp: resumeCase_def split: option.split)
next
  case True
  then obtain c s where found: "find_unique (cases d) k = Some c" "c_held_from c = Some s" "c_status c = CS_ON_HOLD"
    by blast
  let ?d = "add_history k (c_status c) s (Some (act_id ac)) reason
      (d\<lparr>cases := update_row k (\<lambda>r. r\<lparr>c_status := s, c_held_from := None\<rparr>) (cases d)\<rparr>)"
  have "lifecycle d ?d"
    by (intro lifecycle_set_status [OF found(1)]) (auto simp: found position_of_def)
  with found show ?thesis by (simp add: resumeCase_def lifecycle_audit)
qed

lemma lifecycle_tasks: "lifecycle d (audit_record ca ac ty nm md (d\<lparr>tasks := t\<rparr>))"
  by (intro lifecycle_audit lifecycle_frame) simp_all

lemma lifecycle_addTask: "lifecycle d (snd (addTask ac k label req d))"
  by (auto simp: addTask_def Let_def lifecycle_tasks split: option.split)

lemma lifecycle_updateTask: "lifecycle d (snd (updateTask ac k t label req d))"
  by (cases "find_unique (tasks d) t") (simp_all add: updateTask_def lifecycle_tasks)

lemma lifecycle_removeTask: "lifecycle d (snd (removeTask ac k t d))"
  by (cases "find_unique (tasks d) t") (simp_all add: removeTask_def lifecycle_tasks)

lemma lifecycle_sendMessage: "lifecycle d (snd (sendMessage ac k body d))"
  by (auto simp: sendMessage_def Let_def audit_extends_def intro!: lifecycle_audit lifecycle_frame)

lemma lifecycle_raiseDispute: "lifecycle d (snd (raiseDispute e ac k dto d))"
proof (cases "find_unique (cases d) k")
  case (Some c)
  show ?thesis
  proof (cases "c_status c = CS_CUSTOMER_REVIEW \<and> length (find_many (disputed dto k) (tasks d)) = length (dd_tasks dto)")
    case False
    with Some show ?thesis by (auto simp: raiseDispute_def)
  next
    case True
    have step: "lifecycle d (add_history k (c_status c) CS_DISPUTED u r
        (d\<lparr>disputes := x, tasks := y, cases := update_row k (\<lambda>c. c\<lparr>c_status := CS_DISPUTED\<rparr>) (cases d)\<rparr>))" for x y u r
      using True by (intro lifecycle_set_status [OF Some]) (auto simp: position_of_def well_held_def split: option.splits)
    show ?thesis
    proof (cases "find_customer (act_id ac) d")
      case None
      with Some True show ?thesis by (simp add: raiseDispute_def requireCustomerProfile_def)
    next
      case cu: (Some x)
      with Some True step show ?thesis
        by (cases x) (auto simp: raiseDispute_def requireCustomerProfile_def Let_def
          intro!: lifecycle_notify lifecycle_audit split: option.split)
    qed
  qed
qed (simp add: raiseDispute_def)

lemma lifecycle_resolveDispute: "lifecycle d (snd (resolveDispute e ac k note d))"
proof (cases "find_unique (cases d) k")
  case (Some c)
  show ?thesis
  proof (cases "c_status c = CS_DISPUTED \<and> find_unique (customers d) (c_customer c) \<noteq> None")
    case False
    with Some show ?thesis by (auto simp: resolveDispute_def included_def split: option.split)
  next
    case True
    have step: "lifecycle d (add_history k (c_status c) CS_ADDITIONAL_WORK u r
        (d\<lparr>cases := update_row k (\<lambda>c. c\<lparr>c_status := CS_ADDITIONAL_WORK\<rparr>) (cases d)\<rparr>))" for u r
      using True
      by (intro lifecycle_set_status [OF Some, where f = "\<lambda>c. c\<lparr>c_status := CS_ADDITIONAL_WORK\<rparr>"])
        (auto simp: position_of_def well_held_def split: option.splits)
    have step': "lifecycle d (add_history k (c_status c) CS_ADDITIONAL_WORK u r
        (d\<lparr>disputes := x, cases := update_row k (\<lambda>c. c\<lparr>c_status := CS_ADDITIONAL_WORK\<rparr>) (cases d)\<rparr>))" for u r x
      using True
      by (intro lifecycle_set_status [OF Some, where f = "\<lambda>c. c\<lparr>c_status := CS_ADDITIONAL_WORK\<rparr>"])
        (auto simp: position_of_def well_held_def split: option.splits)
    from True Some step step' show ?thesis
      by (auto simp: resolveDispute_def Let_def intro!: lifecycle_notify lifecycle_audit split: option.split)
  qed
qed (simp add: resolveDispute_def)

section \<open>The ways a case comes about\<close>

lemma lifecycle_connect: "lifecycle d d' \<Longrightarrow> lifecycle d (connect_request rid k d')"
  by (erule lifecycle_trans) (rule lifecycle_frame, simp_all add: audit_extends_def)

lemma lifecycle_new_case:
  assumes "create_case (new_case cu st de lo p r t b pr as sc sla) by d = (k, d1)"
  shows "lifecycle d d1"
  by (rule lifecycle_create [OF assms]) (simp_all add: new_case_def)

lemma lifecycle_collaborators:
  "lifecycle d d' \<Longrightarrow> lifecycle d (d'\<lparr>collaborators := x\<rparr>)"
  by (erule lifecycle_trans) (rule lifecycle_frame, simp_all add: audit_extends_def)

lemma lifecycle_convertToCase: "lifecycle d (snd (convertToCase e ac rid dto d))"
proof (cases "find_unique (requests d) rid")
  case None
  then show ?thesis by (simp add: convertToCase_def)
next
  case (Some rq)
  show ?thesis
    unfolding convertToCase_def Some Let_def option.case
    by (cases "collaborator_role_by_user_role (act_role ac)")
      (simp_all add: lifecycle_audit lifecycle_connect lifecycle_collaborators lifecycle_new_case split: prod.split)
qed

lemma lifecycle_autoConvert: "lifecycle d (autoConvert e rid d)"
  by (rule autoConvert_cases [of e rid d])
    (auto intro!: lifecycle_audit lifecycle_connect intro: lifecycle_create)

lemma lifecycle_spawnCaseFromSchedule: "lifecycle d (snd (spawnCaseFromSchedule e sch d))"
  by (auto simp: spawnCaseFromSchedule_def Let_def split: if_splits dest: lifecycle_new_case
      intro!: lifecycle_audit split: prod.split)

lemma upsert_decision_frame [simp]:
  "cases (upsert_decision ad d) = cases d" "history (upsert_decision ad d) = history d"
  "audit_log (upsert_decision ad d) = audit_log d"
  by (auto simp: upsert_decision_def split: option.split)

lemma lifecycle_evaluateAndRecord: "lifecycle d (snd (evaluateAndRecord e rid d))"
  by (auto simp: evaluateAndRecord_def createForServiceRequest_def Let_def audit_extends_def prefix_prefix
      intro!: lifecycle_frame split: option.split)

lemma lifecycle_evaluateAutomation: "lifecycle d (snd (evaluateAutomationAndMaybeConvert e rid d))"
  unfolding evaluateAutomationAndMaybeConvert_def
  by (intro lifecycle_and_then lifecycle_evaluateAndRecord) (simp add: lifecycle_autoConvert)

lemma lifecycle_recomputeAutomation: "lifecycle d (snd (recomputeAutomationDecision e rid d))"
  by (simp add: recomputeAutomationDecision_def lifecycle_evaluateAutomation split: option.split)

lemma lifecycle_requireCustomer [simp]: "lifecycle d (snd (requireCustomerProfile u d))"
  by (simp add: requireCustomerProfile_def split: option.split)

lemma lifecycle_after:
  assumes "lifecycle d1 d'" "cases d1 = cases d" "history d1 = history d" "audit_extends d d1"
  shows "lifecycle d d'"
  using lifecycle_trans [OF lifecycle_frame [OF assms(2-4)] assms(1)] .

lemma lifecycle_doCreateServiceRequest: "lifecycle d (snd (doCreateServiceRequest e u dto d))"
proof -
  have "lifecycle s (snd (evaluateAutomationAndMaybeConvert e rid
      (audit_record None x ty nm md (s\<lparr>requests := t\<rparr>))))" for s rid x ty nm md t
    by (rule lifecycle_after [OF lifecycle_evaluateAutomation]) (simp_all add: audit_extends_def)
  then show ?thesis
    unfolding doCreateServiceRequest_def Let_def
    by (intro lifecycle_and_then) (auto intro!: lifecycle_and_then)
qed

lemma lifecycle_updateServiceRequest: "lifecycle d (snd (updateServiceRequest e u rid dto d))"
proof -
  have "lifecycle s (snd (evaluateAutomationAndMaybeConvert e rid
      (audit_record None x ty nm md (s\<lparr>requests := t\<rparr>))))" for s rid x ty nm md t
    by (rule lifecycle_after [OF lifecycle_evaluateAutomation]) (simp_all add: audit_extends_def)
  then show ?thesis
    unfolding updateServiceRequest_def
    by (intro lifecycle_and_then) (auto intro!: lifecycle_and_then split: option.split)
qed

lemma idem_create_frame [simp]:
  "cases (snd (idem_create k d)) = cases d" "history (snd (idem_create k d)) = history d"
  "audit_log (snd (idem_create k d)) = audit_log d"
  by (simp_all add: idem_create_def)

lemma idem_begin_cases [simp]:
  "cases (snd (idem_begin k d)) = cases d" "history (snd (idem_begin k d)) = history d"
  "audit_log (snd (idem_begin k d)) = audit_log d"
  by (simp_all add: idem_begin_def split: option.split idempotency_status.split)

text \<open>Duplicate protection adds nothing to what the protected operation may do.\<close>

lemma lifecycle_with_idempotency:
  assumes body: "\<And>s. lifecycle s (snd (body s))" and reload: "\<And>r s. lifecycle s (snd (reload r s))"
  shows "lifecycle d (snd (with_idempotency operation key user reload body ident answer d))"
proof -
  have begins: "lifecycle d (snd (idem_begin k d))" for k
    by (rule lifecycle_frame) (simp_all add: audit_extends_def)
  have finish: "lifecycle s (idem_complete k i d2)" "lifecycle s (idem_fail k d2)"
    if "body s = (r, d2)" for s r d2 k i
    using body [of s] that
    by (auto elim!: lifecycle_trans intro!: lifecycle_frame simp: idem_complete_def idem_fail_def audit_extends_def)
  show ?thesis
    unfolding with_idempotency_def Let_def
    by (auto intro!: lifecycle_and_then begins body reload
        split: idem_check.split prod.split sum.split dest: finish)
qed

lemma lifecycle_createServiceRequest: "lifecycle d (snd (createServiceRequest e u dto key d))"
  unfolding createServiceRequest_def
  by (rule lifecycle_with_idempotency)
    (simp_all add: lifecycle_doCreateServiceRequest reload_request_def split: option.split)

section \<open>What a transition writes\<close>

definition moved :: "nat \<Rightarrow> case_status \<Rightarrow> case_status \<Rightarrow> string option \<Rightarrow> nat option \<Rightarrow> actor_type \<Rightarrow> db \<Rightarrow> db" where
  "moved k from s reason a ty d =
     audit_record (Some k) a ty STR ''case.status_transitioned''
       [(STR ''from'', J_Case from), (STR ''to'', J_Case s), (STR ''reason'', json_option J_Text reason)]
     (add_history k from s a reason (d\<lparr>cases := update_row k (\<lambda>c. c\<lparr>c_status := s\<rparr>) (cases d)\<rparr>))"

lemma applyTransition_edge:
  "find_unique (cases d) k = Some c \<Longrightarrow> s \<in> set (case_transitions (c_status c)) \<Longrightarrow>
     applyTransition k s reason a ty d = (Inr (), moved k (c_status c) s reason a ty d)"
  by (simp add: applyTransition_def assertValidTransition_def moved_def)

lemma applyTransition_Inr:
  assumes "applyTransition k s reason a ty d = (Inr u, d')"
  obtains c where "find_unique (cases d) k = Some c" "s \<in> set (case_transitions (c_status c))"
    "d' = moved k (c_status c) s reason a ty d"
proof -
  obtain c where c: "find_unique (cases d) k = Some c"
    using assms by (cases "find_unique (cases d) k") (simp_all add: applyTransition_def)
  then have "s \<in> set (case_transitions (c_status c))"
    using assms by (cases "s \<in> set (case_transitions (c_status c))")
      (simp_all add: applyTransition_def assertValidTransition_def)
  with assms c that show thesis by (simp add: applyTransition_edge)
qed

lemma applyTransition_Inl:
  "applyTransition k s reason a ty d = (Inl err, d') \<Longrightarrow> d' = d"
  by (auto simp: applyTransition_def assertValidTransition_def split: option.splits if_splits)

lemma applyTransition_refused:
  assumes "find_unique (cases d) k = Some c" "s \<notin> set (case_transitions (c_status c))"
  shows "applyTransition k s reason a ty d = (Inl (Invalid_Transition (c_status c) s), d)"
  using assms by (simp add: applyTransition_def assertValidTransition_def)

lemma transition_only:
  "transitionCase ac k s reason d = applyTransition k s reason (Some (act_id ac)) By_User d"
  "systemTransitionCase k s reason d = applyTransition k s reason None By_System d"
  by (simp_all add: transitionCase_def systemTransitionCase_def)

lemma moved_frame [simp]:
  "cases (moved k from s reason a ty d) = update_row k (\<lambda>c. c\<lparr>c_status := s\<rparr>) (cases d)"
  "users (moved k from s reason a ty d) = users d"
  "customers (moved k from s reason a ty d) = customers d"
  "requests (moved k from s reason a ty d) = requests d"
  "scopes (moved k from s reason a ty d) = scopes d"
  "quotes (moved k from s reason a ty d) = quotes d"
  "quote_lines (moved k from s reason a ty d) = quote_lines d"
  "invoices (moved k from s reason a ty d) = invoices d"
  "payments (moved k from s reason a ty d) = payments d"
  "refunds (moved k from s reason a ty d) = refunds d"
  "refund_requests (moved k from s reason a ty d) = refund_requests d"
  "reconciliations (moved k from s reason a ty d) = reconciliations d"
  "subscriptions (moved k from s reason a ty d) = subscriptions d"
  "sub_invoices (moved k from s reason a ty d) = sub_invoices d"
  "sc_entries (moved k from s reason a ty d) = sc_entries d"
  "assignments (moved k from s reason a ty d) = assignments d"
  "wallets (moved k from s reason a ty d) = wallets d"
  "wallet_entries (moved k from s reason a ty d) = wallet_entries d"
  "idempotency (moved k from s reason a ty d) = idempotency d"
  "tasks (moved k from s reason a ty d) = tasks d"
  by (simp_all add: moved_def add_history_def)

lemma lifecycle_moved: "find_unique (cases d) k = Some c \<Longrightarrow> s \<in> set (case_transitions (c_status c)) \<Longrightarrow>
    lifecycle d (moved k (c_status c) s reason a ty d)"
  using lifecycle_applyTransition [of d k s reason a ty] by (simp add: applyTransition_edge)

end
