(* ===== verification/Pricing.thy ===== *)
theory Pricing
  imports Scope Membership "HOL-Library.Product_Lexorder"
begin

text \<open>
  \<open>PricingEngineService\<close> (\<open>src/backend/src/pricing-engine/pricing-engine.service.ts\<close>): price books
  with their rules, exactly one of them active, and the deterministic calculation of a case's
  service fee from the confirmed scope's zone, the case's service type and its priority.
\<close>

definition createPriceBook :: "String.literal option \<Rightarrow> db \<Rightarrow> nat result" where
  "createPriceBook currency d = return (t_next (price_books d))
     (d\<lparr>price_books := insert_row
        \<lparr>pb_currency = (case currency of Some c \<Rightarrow> c | None \<Rightarrow> STR ''USD''), pb_active = False\<rparr>
        (price_books d)\<rparr>)"

text \<open>\<open>PriceBook.version\<close> is autoincremented, so the books by descending version.\<close>

definition listPriceBooks :: "db \<Rightarrow> (nat \<times> price_book) list" where
  "listPriceBooks d = rev (t_rows (price_books d))"

definition activatePriceBook :: "nat \<Rightarrow> db \<Rightarrow> nat result" where
  "activatePriceBook i d = (case find_unique (price_books d) i of
     None \<Rightarrow> throw (Not_Found STR ''Price book not found'') d
   | Some _ \<Rightarrow> return i
       (d\<lparr>price_books := update_row i (\<lambda>b. b\<lparr>pb_active := True\<rparr>)
          (update_many (\<lambda>_ b. pb_active b) (\<lambda>b. b\<lparr>pb_active := False\<rparr>) (price_books d))\<rparr>))"

definition requirePriceBook :: "nat \<Rightarrow> db \<Rightarrow> price_book result" where
  "requirePriceBook i d = (case find_unique (price_books d) i of
     None \<Rightarrow> throw (Not_Found STR ''Price book not found'') d
   | Some b \<Rightarrow> return b d)"

record rule_dto =
  rd_service :: service_type
  rd_zone :: pricing_zone
  rd_value :: rat
  rd_label :: string
  rd_priority :: "int option"

definition addPriceRule :: "nat \<Rightarrow> rule_dto \<Rightarrow> db \<Rightarrow> nat result" where
  "addPriceRule bookId dto d = and_then (requirePriceBook bookId d) (\<lambda>_ d.
     return (t_next (price_rules d))
       (d\<lparr>price_rules := insert_row \<lparr>pr_book = bookId, pr_service = rd_service dto, pr_zone = rd_zone dto,
          pr_value = dec2 (rd_value dto), pr_label = rd_label dto,
          pr_priority = (case rd_priority dto of Some p \<Rightarrow> p | None \<Rightarrow> 0), pr_active = True\<rparr>
          (price_rules d)\<rparr>))"

definition listPriceRules :: "nat \<Rightarrow> db \<Rightarrow> (nat \<times> price_rule) list result" where
  "listPriceRules bookId d = and_then (requirePriceBook bookId d) (\<lambda>_ d.
     return (sort_key (\<lambda>(_, r). (pr_service r, pr_zone r, - pr_priority r))
               (find_many (\<lambda>_ r. pr_book r = bookId) (price_rules d))) d)"

definition addMultiplierRule :: "nat \<Rightarrow> case_priority option \<Rightarrow> rat \<Rightarrow> db \<Rightarrow> nat result" where
  "addMultiplierRule bookId p multiplier d = and_then (requirePriceBook bookId d) (\<lambda>_ d.
     return (t_next (multiplier_rules d))
       (d\<lparr>multiplier_rules := insert_row \<lparr>mr_book = bookId, mr_priority = p, mr_multiplier = dec2 multiplier,
          mr_active = True\<rparr> (multiplier_rules d)\<rparr>))"

definition listMultiplierRules :: "nat \<Rightarrow> db \<Rightarrow> (nat \<times> multiplier_rule) list result" where
  "listMultiplierRules bookId d = and_then (requirePriceBook bookId d) (\<lambda>_ d.
     return (find_many (\<lambda>_ r. mr_book r = bookId) (multiplier_rules d)) d)"

definition active_book :: "db \<Rightarrow> (nat \<times> price_book) option" where
  "active_book d = find_first (\<lambda>_ b. pb_active b) (price_books d)"

text \<open>
  The summary the AI concierge reads: the active book and, for each of its active rules, the
  dollar and the naira amount; the sentences around them are left out.
\<close>

definition getActivePricingCatalogSummary ::
  "env \<Rightarrow> db \<Rightarrow> (String.literal \<times> nat \<times> (service_type \<times> pricing_zone \<times> string \<times> rat \<times> rat) list) option" where
  "getActivePricingCatalogSummary e d = (case active_book d of
     None \<Rightarrow> None
   | Some (bid, b) \<Rightarrow>
       (let rules = map snd (sort_key (\<lambda>(_, r). (pr_service r, pr_zone r))
              (find_many (\<lambda>_ r. pr_book r = bid \<and> pr_active r) (price_rules d)))
        in if rules = [] then None
           else Some (pb_currency b, bid, map (\<lambda>r. (pr_service r, pr_zone r, pr_label r, pr_value r,
                  js_round (pr_value r * usdToNgnRate e))) rules)))"

record price =
  px_book :: nat
  px_rule :: nat
  px_zone :: pricing_zone
  px_label :: string
  px_usd :: rat
  px_fx :: rat
  px_ngn :: rat
  px_multiplied :: bool

datatype pricing_result = Priced price | Unpriced String.literal

definition calculateServiceFeeLine :: "env \<Rightarrow> nat \<Rightarrow> db \<Rightarrow> error + pricing_result" where
  "calculateServiceFeeLine e caseId d = (case find_unique (cases d) caseId of
     None \<Rightarrow> Inl (Not_Found STR ''Case not found'')
   | Some c \<Rightarrow>
     (case getLatest caseId d of
        None \<Rightarrow> Inl (Bad_Request STR ''This case has no scope yet'')
      | Some (_, latestScope) \<Rightarrow>
        if sc_confirmed_at latestScope = None
        then Inl (Bad_Request STR ''The customer has not confirmed the current scope yet'')
        else (case active_book d of
          None \<Rightarrow> Inr (Unpriced STR ''No active price book is configured.'')
        | Some (bid, _) \<Rightarrow>
          if sc_zone latestScope = Z_OTHER
          then Inr (Unpriced STR ''This case is in an unpriced zone'')
          else (case max_by (\<lambda>(_, r). pr_priority r)
                  (find_many (\<lambda>_ r. pr_book r = bid \<and> pr_service r = c_service_type c
                     \<and> pr_zone r = sc_zone latestScope \<and> pr_active r) (price_rules d)) of
            None \<Rightarrow> Inr (Unpriced STR ''No price is configured'')
          | Some (rid, rule) \<Rightarrow>
            (let multiplier = (case find_first (\<lambda>_ m. mr_book m = bid \<and> mr_priority m = Some (c_priority c)
                                   \<and> mr_active m) (multiplier_rules d) of
                                 Some (_, m) \<Rightarrow> mr_multiplier m | None \<Rightarrow> 1);
                 amountUsd = js_round (pr_value rule * multiplier * 100) / 100;
                 fxRate = usdToNgnRate e
             in Inr (Priced \<lparr>px_book = bid, px_rule = rid, px_zone = sc_zone latestScope,
                  px_label = pr_label rule, px_usd = amountUsd, px_fx = fxRate,
                  px_ngn = js_round (amountUsd * fxRate), px_multiplied = (multiplier \<noteq> 1)\<rparr>))))))"

section \<open>Lemmas\<close>

lemma activatePriceBook_active:
  assumes "activatePriceBook i d = (Inr j, d')"
  shows "find_unique (price_books d') k = map_option (\<lambda>b. b\<lparr>pb_active := (k = i)\<rparr>) (find_unique (price_books d) k)"
proof -
  obtain b where "find_unique (price_books d) i = Some b" and d': "d' = d\<lparr>price_books := update_row i (\<lambda>b. b\<lparr>pb_active := True\<rparr>)
          (update_many (\<lambda>_ b. pb_active b) (\<lambda>b. b\<lparr>pb_active := False\<rparr>) (price_books d))\<rparr>"
    using assms by (auto simp: activatePriceBook_def split: option.splits)
  then show ?thesis
    by (cases "find_unique (price_books d) k") (auto simp: find_unique_update_many)
qed

lemma calculate_Priced:
  assumes "calculateServiceFeeLine e caseId d = Inr (Priced px)"
  obtains c sid s b rule where "find_unique (cases d) caseId = Some c" "getLatest caseId d = Some (sid, s)"
    "sc_confirmed_at s \<noteq> None" "active_book d = Some (px_book px, b)" "sc_zone s \<noteq> Z_OTHER" "px_zone px = sc_zone s"
    "max_by (\<lambda>(_, r). pr_priority r) (find_many (\<lambda>_ r. pr_book r = px_book px \<and> pr_service r = c_service_type c
       \<and> pr_zone r = sc_zone s \<and> pr_active r) (price_rules d)) = Some (px_rule px, rule)"
    "px_usd px = js_round (pr_value rule * (case find_first (\<lambda>_ m. mr_book m = px_book px
       \<and> mr_priority m = Some (c_priority c) \<and> mr_active m) (multiplier_rules d) of
         Some (_, m) \<Rightarrow> mr_multiplier m | None \<Rightarrow> 1) * 100) / 100"
    "px_fx px = usdToNgnRate e" "px_ngn px = js_round (px_usd px * usdToNgnRate e)"
proof -
  obtain c where c: "find_unique (cases d) caseId = Some c"
    using assms by (cases "find_unique (cases d) caseId") (simp_all add: calculateServiceFeeLine_def)
  obtain sid s where s: "getLatest caseId d = Some (sid, s)"
    using assms c by (cases "getLatest caseId d") (auto simp: calculateServiceFeeLine_def)
  have conf: "sc_confirmed_at s \<noteq> None"
    using assms c s by (cases "sc_confirmed_at s") (simp_all add: calculateServiceFeeLine_def)
  obtain bid b where b: "active_book d = Some (bid, b)"
    using assms c s conf by (cases "active_book d") (auto simp: calculateServiceFeeLine_def)
  have zone: "sc_zone s \<noteq> Z_OTHER"
    using assms c s conf b by (cases "sc_zone s = Z_OTHER") (simp_all add: calculateServiceFeeLine_def)
  obtain rid rule where rule: "max_by (\<lambda>(_, r). pr_priority r) (find_many (\<lambda>_ r. pr_book r = bid
      \<and> pr_service r = c_service_type c \<and> pr_zone r = sc_zone s \<and> pr_active r) (price_rules d)) = Some (rid, rule)"
    using assms c s conf b zone
    by (cases "max_by (\<lambda>(_, r). pr_priority r) (find_many (\<lambda>_ r. pr_book r = bid
      \<and> pr_service r = c_service_type c \<and> pr_zone r = sc_zone s \<and> pr_active r) (price_rules d))")
      (auto simp: calculateServiceFeeLine_def)
  from assms have px: "px = \<lparr>px_book = bid, px_rule = rid, px_zone = sc_zone s, px_label = pr_label rule,
      px_usd = js_round (pr_value rule * (case find_first (\<lambda>_ m. mr_book m = bid \<and> mr_priority m = Some (c_priority c)
         \<and> mr_active m) (multiplier_rules d) of Some (_, m) \<Rightarrow> mr_multiplier m | None \<Rightarrow> 1) * 100) / 100,
      px_fx = usdToNgnRate e,
      px_ngn = js_round (js_round (pr_value rule * (case find_first (\<lambda>_ m. mr_book m = bid \<and> mr_priority m = Some (c_priority c)
         \<and> mr_active m) (multiplier_rules d) of Some (_, m) \<Rightarrow> mr_multiplier m | None \<Rightarrow> 1) * 100) / 100 * usdToNgnRate e),
      px_multiplied = ((case find_first (\<lambda>_ m. mr_book m = bid \<and> mr_priority m = Some (c_priority c)
         \<and> mr_active m) (multiplier_rules d) of Some (_, m) \<Rightarrow> mr_multiplier m | None \<Rightarrow> 1) \<noteq> 1)\<rparr>"
    using conf zone by (simp add: calculateServiceFeeLine_def c s b rule Let_def)
  show thesis
    by (rule that [OF c s conf _ zone]) (simp_all only: px price.simps b rule)
qed

end
