(* ===== verification/Quotes.thy ===== *)
theory Quotes
  imports Lifecycle Pricing
begin

text \<open>
  The quote half of \<open>CommerceService\<close> (\<open>src/backend/src/commerce/commerce.service.ts\<close>): staff
  quote a case under review whose scope the customer has confirmed, an automated case is quoted by
  the pricing engine, the customer accepts a quote while it is valid, and expired quotes reopen
  their case. Direct costs are recorded against a case.
\<close>

section \<open>Configuration\<close>

definition quoteValidityHours :: "env \<Rightarrow> rat" where
  "quoteValidityHours e = env_positive (quote_validity_env e) (24 * 7)"

definition fxLockHours :: "env \<Rightarrow> rat" where
  "fxLockHours e = env_positive (fx_lock_env e) 48"

text \<open>The note is a list of template parts, empty for the empty string.\<close>

fun currency_code :: "billing_currency \<Rightarrow> String.literal" where
  "currency_code BC_USD = STR ''USD''"
| "currency_code BC_GBP = STR ''GBP''"
| "currency_code BC_EUR = STR ''EUR''"

definition currencyNote :: "env \<Rightarrow> rat \<Rightarrow> rat option \<Rightarrow> billing_currency option \<Rightarrow> json list" where
  "currencyNote e baseAmountNgn lockedFxRate billingCurrency = (case (lockedFxRate, billingCurrency) of
     (Some locked, Some currency) \<Rightarrow>
       if locked = 0 \<or> currency = BC_USD then []
       else (case fx_rates e currency of
         None \<Rightarrow> []
       | Some rate \<Rightarrow> [J_Lit STR '' (~ '', J_Lit (currency_code currency), J_Lit STR '' '',
           J_Num (dec2 (baseAmountNgn / locked * rate)), J_Lit STR '')''])
   | _ \<Rightarrow> [])"

section \<open>Issuing a quote\<close>

record quote_line_dto =
  ln_category :: quote_line_category
  ln_label :: string
  ln_amount :: rat

record quote_dto =
  qd_lines :: "quote_line_dto list"
  qd_currency :: "String.literal option"
  qd_price_book :: "nat option"

definition total_of :: "quote_line_dto list \<Rightarrow> rat" where
  "total_of ls = foldl (\<lambda>sum l. sum + ln_amount l) 0 ls"

definition service_fee_lines :: "quote_line_dto list \<Rightarrow> quote_line_dto list" where
  "service_fee_lines = filter (\<lambda>l. ln_category l = QL_ASOJU_SERVICE_FEE)"

definition other_lines :: "quote_line_dto list \<Rightarrow> quote_line_dto list" where
  "other_lines = filter (\<lambda>l. ln_category l \<noteq> QL_ASOJU_SERVICE_FEE)"

text \<open>The nested \<open>create\<close> of a quote with its lines; the id of a price book is a foreign key.\<close>

definition quote_create :: "quote \<Rightarrow> quote_line_dto list \<Rightarrow> db \<Rightarrow> nat result" where
  "quote_create q ls d =
     (if (case q_price_book q of None \<Rightarrow> False | Some b \<Rightarrow> find_unique (price_books d) b = None)
      then throw (Internal STR ''Foreign key constraint violated'') d
      else (let qid = t_next (quotes d) in return qid
        (d\<lparr>quotes := insert_row q (quotes d),
           quote_lines := insert_rows (map (\<lambda>l. \<lparr>ql_quote = qid, ql_category = ln_category l,
             ql_label = ln_label l, ql_amount = dec2 (ln_amount l)\<rparr>) ls) (quote_lines d)\<rparr>)))"

definition staff_quote ::
  "env \<Rightarrow> nat \<Rightarrow> quote_dto \<Rightarrow> nat \<Rightarrow> benefit option \<Rightarrow> quote" where
  "staff_quote e caseId dto scopeId benefit =
     (let serviceFeeTotal = total_of (service_fee_lines (qd_lines dto));
          nonServiceFeeTotal = total_of (other_lines (qd_lines dto));
          finalServiceFee = (case benefit of Some b \<Rightarrow> bn_final b | None \<Rightarrow> serviceFeeTotal);
          fxRate = (if 0 < serviceFeeTotal then Some (usdToNgnRate e) else None)
      in \<lparr>q_case = caseId, q_amount = dec2 (finalServiceFee + nonServiceFeeTotal),
          q_currency = (case qd_currency dto of Some c \<Rightarrow> c | None \<Rightarrow> STR ''NGN''),
          q_expires = Some (now e + hours_ms (quoteValidityHours e)), q_accepted = None, q_created = now e,
          q_price_book = qd_price_book dto, q_scope = Some scopeId,
          q_subscription = map_option bn_subscription benefit,
          q_base = Some (dec2 serviceFeeTotal), q_non_service = Some (dec2 nonServiceFeeTotal),
          q_discount_percent = map_option (\<lambda>b. dec2 (bn_percent b)) benefit,
          q_discount = map_option (\<lambda>b. dec2 (bn_discount b)) benefit,
          q_sc_applied = map_option (\<lambda>b. dec2 (bn_sc_ngn b)) benefit,
          q_locked_fx = map_option dec4 fxRate,
          q_source_currency = (if fxRate = None then None else Some STR ''USD''),
          q_fx_expiry = (if fxRate = None then None else Some (now e + hours_ms (fxLockHours e)))\<rparr>)"

text \<open>The message to the customer, and the writes once every check has passed.\<close>

definition quote_message ::
  "env \<Rightarrow> service_case \<Rightarrow> billing_currency option \<Rightarrow> quote_dto \<Rightarrow> benefit option \<Rightarrow> quote \<Rightarrow> json list" where
  "quote_message e c billingCurrency dto benefit q =
     (let serviceFeeTotal = total_of (service_fee_lines (qd_lines dto));
          nonServiceFeeTotal = total_of (other_lines (qd_lines dto))
      in [J_Lit STR ''We've put together a quote of '', J_Lit (q_currency q), J_Num (q_amount q),
          J_Lit STR '' for '', J_Text (c_number c)]
         @ currencyNote e serviceFeeTotal
             (if 0 < serviceFeeTotal then Some (usdToNgnRate e) else None) billingCurrency
         @ (if benefit = None then []
            else [J_Lit STR '' (includes your membership discount and SC on the service fee: '',
                  J_Lit (q_currency q), J_Num serviceFeeTotal, J_Lit STR '' before benefits)''])
         @ [J_Lit STR ''.'']
         @ (if 0 < nonServiceFeeTotal
            then [J_Lit STR '' This includes '', J_Lit (q_currency q), J_Num nonServiceFeeTotal,
                  J_Lit STR '' in external/third-party costs, separate from our fee.''] else [])
         @ [J_Lit STR '' Review and accept it to get scheduled.''])"

definition issue_quote ::
  "env \<Rightarrow> actor \<Rightarrow> nat \<Rightarrow> service_case \<Rightarrow> nat \<Rightarrow> billing_currency option \<Rightarrow> quote_dto \<Rightarrow> nat \<Rightarrow> benefit option
    \<Rightarrow> db \<Rightarrow> nat result" where
  "issue_quote e ac caseId c userId billingCurrency dto scopeId benefit d =
     (let q = staff_quote e caseId dto scopeId benefit in
      and_then (quote_create q (qd_lines dto) d) (\<lambda>qid d1.
      and_then (transitionCase ac caseId CS_QUOTED (Some ''Quote issued'') d1) (\<lambda>_ d2.
      return qid
        (notify_url e userId STR ''Your quote is ready'' (quote_message e c billingCurrency dto benefit q)
           (Some [J_Lit STR ''/dashboard/cases/'', J_Id caseId])
        (audit_record (Some caseId) (Some (act_id ac)) By_User STR ''quote.created''
           [(STR ''quoteId'', J_Id qid), (STR ''amount'', J_Num (q_amount q)),
            (STR ''currency'', J_Lit (q_currency q)), (STR ''membershipApplied'', J_Bool (benefit \<noteq> None))]
         d2)))))"

definition createQuote :: "env \<Rightarrow> actor \<Rightarrow> nat \<Rightarrow> quote_dto \<Rightarrow> db \<Rightarrow> nat result" where
  "createQuote e ac caseId dto d = (case find_unique (cases d) caseId of
     None \<Rightarrow> throw (Not_Found STR ''Case not found'') d
   | Some c \<Rightarrow> included (customers d) (c_customer c) d (\<lambda>cu. included (users d) (cu_user cu) d (\<lambda>u.
     if c_status c \<noteq> CS_UNDER_REVIEW then throw (Bad_Request STR ''Cannot quote a case in this status'') d
     else (case getLatest caseId d of
       None \<Rightarrow> throw (Bad_Request STR ''This case has no scope yet'') d
     | Some (scopeId, latestScope) \<Rightarrow>
       if sc_confirmed_at latestScope = None
       then throw (Bad_Request STR ''The customer has not confirmed the current scope yet'') d
       else
       (let serviceFeeTotal = total_of (service_fee_lines (qd_lines dto))
        in case (if c_tier c = CT_CONCIERGE \<and> 0 < serviceFeeTotal
                 then previewBenefit (c_customer c) (c_tier c) serviceFeeTotal (sc_zone latestScope) d
                 else Inr None) of
          Inl err \<Rightarrow> throw err d
        | Inr benefit \<Rightarrow>
            issue_quote e ac caseId c (cu_user cu) (u_billing_currency u) dto scopeId benefit d)))))"

definition price_quote :: "env \<Rightarrow> nat \<Rightarrow> nat \<Rightarrow> price \<Rightarrow> quote" where
  "price_quote e caseId scopeId px =
     \<lparr>q_case = caseId, q_amount = dec2 (px_ngn px), q_currency = STR ''NGN'',
      q_expires = Some (now e + hours_ms (quoteValidityHours e)), q_accepted = None, q_created = now e,
      q_price_book = Some (px_book px), q_scope = Some scopeId, q_subscription = None,
      q_base = Some (dec2 (px_ngn px)), q_non_service = Some 0, q_discount_percent = None,
      q_discount = None, q_sc_applied = None, q_locked_fx = Some (dec4 (px_fx px)),
      q_source_currency = Some STR ''USD'', q_fx_expiry = Some (now e + hours_ms (fxLockHours e))\<rparr>"

text \<open>\<open>autoQuoteIfEligible\<close> catches every exception; what was written before it stays.\<close>

definition attempt_auto_quote :: "env \<Rightarrow> nat \<Rightarrow> db \<Rightarrow> unit result" where
  "attempt_auto_quote e caseId d = (case find_unique (cases d) caseId of
     None \<Rightarrow> return () d
   | Some c \<Rightarrow> included (customers d) (c_customer c) d (\<lambda>cu. included (users d) (cu_user cu) d (\<lambda>u.
     if c_status c \<noteq> CS_UNDER_REVIEW then return () d
     else (case find_first (\<lambda>_ r. rq_converted r = Some caseId) (requests d) of
       None \<Rightarrow> return () d
     | Some (requestId, _) \<Rightarrow>
       if map_option (\<lambda>(_, a). ad_outcome a) (getDecision requestId d) \<noteq> Some AO_AUTO then return () d
       else (case calculateServiceFeeLine e caseId d of
         Inl err \<Rightarrow> throw err d
       | Inr (Unpriced _) \<Rightarrow> return () d
       | Inr (Priced px) \<Rightarrow>
         (case getLatest caseId d of
            None \<Rightarrow> return () d
          | Some (scopeId, latestScope) \<Rightarrow>
            if sc_confirmed_at latestScope = None then return () d
            else
            (let q = price_quote e caseId scopeId px in
             and_then (quote_create q [\<lparr>ln_category = QL_ASOJU_SERVICE_FEE, ln_label = px_label px,
                 ln_amount = px_ngn px\<rparr>] d) (\<lambda>qid d1.
             and_then (systemTransitionCase caseId CS_QUOTED (Some ''Quote auto-generated'') d1) (\<lambda>_ d2.
             return ()
               (notify_url e (cu_user cu) STR ''Your quote is ready''
                  ([J_Lit STR ''We've put together a quote of '', J_Lit (q_currency q), J_Num (q_amount q),
                    J_Lit STR '' for '', J_Text (c_number c)]
                   @ currencyNote e (px_ngn px) (Some (px_fx px)) (u_billing_currency u)
                   @ [J_Lit STR ''. Review and accept it to get scheduled.''])
                  (Some [J_Lit STR ''/dashboard/cases/'', J_Id caseId])
                (audit_record (Some caseId) None By_System STR ''quote.auto_generated''
                  [(STR ''quoteId'', J_Id qid), (STR ''amount'', J_Num (q_amount q)),
                   (STR ''currency'', J_Lit (q_currency q)), (STR ''priceRuleId'', J_Id (px_rule px))]
                 d2)))))))))))"

definition autoQuoteIfEligible :: "env \<Rightarrow> nat \<Rightarrow> db \<Rightarrow> db" where
  "autoQuoteIfEligible e caseId d = snd (attempt_auto_quote e caseId d)"

record pricing_hint =
  ph_suggestion :: regional_suggestion
  ph_fx :: rat
  ph_ngn :: "rat option"

definition getRegionalPricingHint :: "env \<Rightarrow> nat \<Rightarrow> db \<Rightarrow> error + pricing_hint" where
  "getRegionalPricingHint e caseId d = (case find_unique (cases d) caseId of
     None \<Rightarrow> Inl (Not_Found STR ''Case not found'')
   | Some c \<Rightarrow>
     (case getLatest caseId d of
        None \<Rightarrow> Inl (Bad_Request STR ''This case has no scope yet'')
      | Some (_, latestScope) \<Rightarrow>
        (let suggestion = suggestRegionalServiceFee (sc_zone latestScope) (c_priority c);
             fxRate = usdToNgnRate e
         in Inr \<lparr>ph_suggestion = suggestion, ph_fx = fxRate,
              ph_ngn = map_option (\<lambda>usd. js_round (usd * fxRate)) (rg_fee suggestion)\<rparr>)))"

section \<open>Accepting a quote\<close>

text \<open>
  The membership benefit is committed and the quote marked and invoiced before the case is
  moved; a refused transition leaves these writes in place.
\<close>

definition acceptQuote :: "env \<Rightarrow> actor \<Rightarrow> nat \<Rightarrow> db \<Rightarrow> nat result" where
  "acceptQuote e ac quoteId d = (case find_unique (quotes d) quoteId of
     None \<Rightarrow> throw (Not_Found STR ''Quote not found'') d
   | Some q \<Rightarrow> included (cases d) (q_case q) d (\<lambda>c. included (customers d) (c_customer c) d (\<lambda>cu.
     if cu_user cu \<noteq> act_id ac then throw (Bad_Request STR ''Not authorised for this quote'') d
     else if q_accepted q \<noteq> None then throw (Bad_Request STR ''Quote already accepted'') d
     else if (case q_expires q of Some t \<Rightarrow> t < now e | None \<Rightarrow> False)
     then throw (Bad_Request STR ''This quote has expired'') d
     else
     (let ((finalAmount, adjusted), d1) = commitBenefit quoteId q d;
          invoiceId = t_next (invoices d1);
          d2 = d1\<lparr>quotes := update_row quoteId (\<lambda>q. (if adjusted then q\<lparr>q_amount := dec2 finalAmount\<rparr> else q)
                   \<lparr>q_accepted := Some (now e)\<rparr>) (quotes d1),
                 invoices := insert_row \<lparr>iv_case = q_case q, iv_quote = Some quoteId,
                   iv_amount = dec2 finalAmount, iv_currency = q_currency q\<rparr> (invoices d1)\<rparr>
      in and_then (transitionCase ac (q_case q) CS_AWAITING_PAYMENT (Some ''Quote accepted'') d2) (\<lambda>_ d3.
         (let d4 = audit_record (Some (q_case q)) (Some (act_id ac)) By_User STR ''quote.accepted''
               [(STR ''quoteId'', J_Id quoteId), (STR ''invoiceId'', J_Id invoiceId),
                (STR ''finalAmount'', J_Num finalAmount), (STR ''adjusted'', J_Bool adjusted)] d3
          in return invoiceId
            (if adjusted
             then notify e (cu_user cu) STR ''Your invoice amount was adjusted''
               [J_Lit STR ''Your membership benefit changed since this quote was issued, so the payable amount is now '',
                J_Lit (q_currency q), J_Num finalAmount,
                J_Lit STR '' instead of the originally shown amount.''] d4
             else d4)))))))"

section \<open>Expiry\<close>

definition stale_quotes :: "env \<Rightarrow> db \<Rightarrow> (nat \<times> quote) list" where
  "stale_quotes e d = find_many (\<lambda>_ q. q_accepted q = None
      \<and> (case q_expires q of Some t \<Rightarrow> t < now e | None \<Rightarrow> False)
      \<and> (case find_unique (cases d) (q_case q) of Some c \<Rightarrow> c_status c = CS_QUOTED | None \<Rightarrow> False))
     (quotes d)"

fun quote_expiry_loop :: "env \<Rightarrow> (nat \<times> quote) list \<Rightarrow> db \<Rightarrow> unit result" where
  "quote_expiry_loop e [] d = return () d"
| "quote_expiry_loop e ((qid, q) # rest) d = (case find_unique (cases d) (q_case q) of
     None \<Rightarrow> quote_expiry_loop e rest d
   | Some c \<Rightarrow>
     if c_status c \<noteq> CS_QUOTED then quote_expiry_loop e rest d
     else and_then (systemTransitionCase (q_case q) CS_UNDER_REVIEW (Some ''Quote expired unaccepted'') d) (\<lambda>_ d1.
       included (customers d) (c_customer c) d1 (\<lambda>cu.
       quote_expiry_loop e rest
         (notify e (cu_user cu) STR ''Your quote has expired''
            [J_Lit STR ''The quote for '', J_Text (c_number c), J_Lit STR '' has expired unaccepted'']
          (audit_record (Some (q_case q)) None By_System STR ''quote.expired''
            [(STR ''quoteId'', J_Id qid), (STR ''expiresAt'', json_option J_Time (q_expires q))] d1)))))"

definition runQuoteExpirySweep :: "env \<Rightarrow> db \<Rightarrow> nat result" where
  "runQuoteExpirySweep e d = and_then (quote_expiry_loop e (stale_quotes e d) d)
     (\<lambda>_. return (length (stale_quotes e d)))"

section \<open>Direct costs\<close>

record direct_cost_dto =
  dx_category :: direct_cost_category
  dx_amount :: rat
  dx_currency :: "String.literal option"
  dx_note :: "string option"

definition recordDirectCost :: "actor \<Rightarrow> nat \<Rightarrow> direct_cost_dto \<Rightarrow> db \<Rightarrow> nat result" where
  "recordDirectCost ac caseId dto d = (case find_unique (cases d) caseId of
     None \<Rightarrow> throw (Not_Found STR ''Case not found'') d
   | Some _ \<Rightarrow>
     (let i = t_next (direct_costs d);
          currency = (case dx_currency dto of Some c \<Rightarrow> c | None \<Rightarrow> STR ''NGN'')
      in return i
        (audit_record (Some caseId) (Some (act_id ac)) By_User STR ''case.direct_cost_recorded''
           [(STR ''directCostId'', J_Id i), (STR ''category'', J_Cost (dx_category dto)),
            (STR ''amount'', J_Num (dx_amount dto)),
            (STR ''currency'', J_Lit currency)]
         (d\<lparr>direct_costs := insert_row \<lparr>dc_case = caseId, dc_category = dx_category dto,
            dc_amount = dec2 (dx_amount dto), dc_currency = currency, dc_note = dx_note dto,
            dc_actor = Some (act_id ac)\<rparr> (direct_costs d)\<rparr>))))"

definition listDirectCosts :: "nat \<Rightarrow> db \<Rightarrow> (nat \<times> direct_cost) list result" where
  "listDirectCosts caseId d = (case find_unique (cases d) caseId of
     None \<Rightarrow> throw (Not_Found STR ''Case not found'') d
   | Some _ \<Rightarrow> return (rev (find_many (\<lambda>_ x. dc_case x = caseId) (direct_costs d))) d)"

section \<open>Lemmas\<close>

lemma total_of_sum: "total_of ls = sum_list (map ln_amount ls)"
  by (simp add: total_of_def foldl_plus)

text \<open>The service fee and the pass-through costs partition the lines.\<close>

lemma totals_partition: "total_of (service_fee_lines ls) + total_of (other_lines ls) = total_of ls"
  unfolding total_of_sum service_fee_lines_def other_lines_def by (induction ls) simp_all

lemma total_of_nonneg: "(\<And>l. l \<in> set ls \<Longrightarrow> 0 \<le> ln_amount l) \<Longrightarrow> 0 \<le> total_of ls"
  unfolding total_of_sum by (rule sum_list_nonneg) auto

lemma total_of_filter_nonneg:
  assumes "\<forall>l \<in> set ls. 0 < ln_amount l"
  shows "0 \<le> total_of (service_fee_lines ls)" "0 \<le> total_of (other_lines ls)"
  using assms by (auto intro!: total_of_nonneg simp: service_fee_lines_def other_lines_def less_imp_le)

lemma quote_create_cases:
  obtains (refused) err where "quote_create q ls d = (Inl err, d)"
  | (created) ql where "quote_create q ls d = (Inr (t_next (quotes d)), d\<lparr>quotes := insert_row q (quotes d), quote_lines := ql\<rparr>)"
      "map snd (t_rows ql) = map snd (t_rows (quote_lines d)) @ map (\<lambda>l. \<lparr>ql_quote = t_next (quotes d),
         ql_category = ln_category l, ql_label = ln_label l, ql_amount = dec2 (ln_amount l)\<rparr>) ls"
proof (cases "case q_price_book q of None \<Rightarrow> False | Some b \<Rightarrow> find_unique (price_books d) b = None")
  case True
  then show thesis by (intro refused) (simp add: quote_create_def)
next
  case False
  show thesis
    by (rule created, unfold quote_create_def if_not_P [OF False] Let_def, rule refl) (simp add: rows_insert_rows)
qed

text \<open>Once the checks have passed only the price book can still be refused.\<close>

lemma issue_quote_cases:
  assumes c: "find_unique (cases d) caseId = Some c" "c_status c = CS_UNDER_REVIEW"
  obtains (refused) err where "issue_quote e ac caseId c u bc dto scopeId benefit d = (Inl err, d)"
  | (issued) d' where "issue_quote e ac caseId c u bc dto scopeId benefit d = (Inr (t_next (quotes d)), d')"
      "quotes d' = insert_row (staff_quote e caseId dto scopeId benefit) (quotes d)"
      "cases d' = update_row caseId (\<lambda>c. c\<lparr>c_status := CS_QUOTED\<rparr>) (cases d)"
      "subscriptions d' = subscriptions d" "sc_entries d' = sc_entries d" "customers d' = customers d"
      "invoices d' = invoices d" "scopes d' = scopes d" "lifecycle d d'"
proof (rule quote_create_cases [of "staff_quote e caseId dto scopeId benefit" "qd_lines dto" d])
  fix err assume "quote_create (staff_quote e caseId dto scopeId benefit) (qd_lines dto) d = (Inl err, d)"
  then show thesis by (intro refused) (simp add: issue_quote_def)
next
  fix ql
  let ?q = "staff_quote e caseId dto scopeId benefit"
  let ?d1 = "d\<lparr>quotes := insert_row ?q (quotes d), quote_lines := ql\<rparr>"
  let ?d2 = "moved caseId CS_UNDER_REVIEW CS_QUOTED (Some ''Quote issued'') (Some (act_id ac)) By_User ?d1"
  assume made: "quote_create ?q (qd_lines dto) d = (Inr (t_next (quotes d)), ?d1)"
  have edge: "transitionCase ac caseId CS_QUOTED (Some ''Quote issued'') ?d1 = (Inr (), ?d2)"
    using applyTransition_edge [of ?d1 caseId c CS_QUOTED] c by (simp add: transition_only)
  have "lifecycle ?d1 ?d2" using lifecycle_moved [of ?d1 caseId c CS_QUOTED] c by simp
  then have life: "lifecycle d ?d2" by (rule lifecycle_after) (simp_all add: audit_extends_def)
  show thesis
    by (rule issued, unfold issue_quote_def Let_def made and_then_simps edge, rule refl)
      (simp_all add: lifecycle_notify lifecycle_audit life)
qed

text \<open>Everything a quote that was issued has checked and written; one that was refused wrote nothing.\<close>

lemma createQuote_Inr:
  assumes "createQuote e ac caseId dto d = (Inr qid, d')"
  obtains c cu scopeId s benefit where "qid = t_next (quotes d)"
      "find_unique (cases d) caseId = Some c" "find_unique (customers d) (c_customer c) = Some cu"
      "c_status c = CS_UNDER_REVIEW" "getLatest caseId d = Some (scopeId, s)" "sc_confirmed_at s \<noteq> None"
      "(if c_tier c = CT_CONCIERGE \<and> 0 < total_of (service_fee_lines (qd_lines dto))
        then previewBenefit (c_customer c) (c_tier c) (total_of (service_fee_lines (qd_lines dto))) (sc_zone s) d
        else Inr None) = Inr benefit"
      "quotes d' = insert_row (staff_quote e caseId dto scopeId benefit) (quotes d)"
      "cases d' = update_row caseId (\<lambda>c. c\<lparr>c_status := CS_QUOTED\<rparr>) (cases d)"
      "subscriptions d' = subscriptions d" "sc_entries d' = sc_entries d" "customers d' = customers d"
      "invoices d' = invoices d" "scopes d' = scopes d"
proof -
  obtain c where c: "find_unique (cases d) caseId = Some c"
    using assms by (cases "find_unique (cases d) caseId") (simp_all add: createQuote_def)
  obtain cu where cu: "find_unique (customers d) (c_customer c) = Some cu"
    using assms c by (cases "find_unique (customers d) (c_customer c)") (simp_all add: createQuote_def)
  obtain u where u: "find_unique (users d) (cu_user cu) = Some u"
    using assms c cu by (cases "find_unique (users d) (cu_user cu)") (simp_all add: createQuote_def)
  have st: "c_status c = CS_UNDER_REVIEW"
    using assms c cu u by (cases "c_status c = CS_UNDER_REVIEW") (simp_all add: createQuote_def)
  obtain scopeId s where sc: "getLatest caseId d = Some (scopeId, s)"
    using assms c cu u st by (cases "getLatest caseId d") (auto simp: createQuote_def)
  obtain t where conf: "sc_confirmed_at s = Some t"
    using assms c cu u st sc by (cases "sc_confirmed_at s") (simp_all add: createQuote_def)
  let ?fee = "total_of (service_fee_lines (qd_lines dto))"
  let ?pre = "if c_tier c = CT_CONCIERGE \<and> 0 < ?fee
    then previewBenefit (c_customer c) (c_tier c) ?fee (sc_zone s) d else Inr None"
  have eq: "createQuote e ac caseId dto d = (case ?pre of Inl err \<Rightarrow> throw err d
      | Inr benefit \<Rightarrow> issue_quote e ac caseId c (cu_user cu) (u_billing_currency u) dto scopeId benefit d)"
    using c cu u st sc conf by (simp add: createQuote_def Let_def)
  obtain benefit where pre: "?pre = Inr benefit"
    using assms eq by (cases ?pre) simp_all
  show thesis
    by (rule issue_quote_cases [OF c st, of e ac "cu_user cu" "u_billing_currency u" dto scopeId benefit])
      (use assms eq pre conf in \<open>auto intro: that [OF _ c cu st sc _ pre]\<close>)
qed

lemma createQuote_Inl:
  assumes "createQuote e ac caseId dto d = (Inl err, d')"
  shows "d' = d"
proof -
  have "d' = d" if "find_unique (cases d) caseId = Some c" "c_status c = CS_UNDER_REVIEW"
    "issue_quote e ac caseId c u bc dto scopeId benefit d = (Inl err, d')" for c u bc scopeId benefit
    by (rule issue_quote_cases [OF that(1, 2), of e ac u bc dto scopeId benefit]) (use that(3) in simp_all)
  with assms show ?thesis
    by (auto simp: createQuote_def included_def Let_def split: option.splits if_splits sum.splits)
qed

lemma lifecycle_createQuote: "lifecycle d (snd (createQuote e ac caseId dto d))"
proof -
  have "lifecycle d (snd (issue_quote e ac caseId c u bc dto scopeId benefit d))"
    if "find_unique (cases d) caseId = Some c" "c_status c = CS_UNDER_REVIEW" for c u bc scopeId benefit
    by (rule issue_quote_cases [OF that, of e ac u bc dto scopeId benefit]) simp_all
  then show ?thesis
    by (auto simp: createQuote_def included_def Let_def split: option.split sum.split)
qed

section \<open>Acceptance\<close>

lemma awaiting_payment_from_quoted [simp]: "CS_AWAITING_PAYMENT \<in> set (case_transitions a) \<longleftrightarrow> a = CS_QUOTED"
  by (cases a) simp_all

definition payable :: "quote \<Rightarrow> nat \<Rightarrow> rat \<Rightarrow> bool \<Rightarrow> env \<Rightarrow> db \<Rightarrow> db" where
  "payable q quoteId finalAmount adjusted e d =
     d\<lparr>quotes := update_row quoteId (\<lambda>q. (if adjusted then q\<lparr>q_amount := dec2 finalAmount\<rparr> else q)
          \<lparr>q_accepted := Some (now e)\<rparr>) (quotes d),
       invoices := insert_row \<lparr>iv_case = q_case q, iv_quote = Some quoteId,
          iv_amount = dec2 finalAmount, iv_currency = q_currency q\<rparr> (invoices d)\<rparr>"

text \<open>The three refusals write nothing; after them the benefit is committed and the quote invoiced.\<close>

lemma acceptQuote_open:
  assumes "find_unique (quotes d) quoteId = Some q" "find_unique (cases d) (q_case q) = Some c"
    "find_unique (customers d) (c_customer c) = Some cu" "cu_user cu = act_id ac" "q_accepted q = None"
    "case q_expires q of Some t \<Rightarrow> now e \<le> t | None \<Rightarrow> True"
    "commitBenefit quoteId q d = ((final, adjusted), d1)"
  shows "acceptQuote e ac quoteId d =
     and_then (transitionCase ac (q_case q) CS_AWAITING_PAYMENT (Some ''Quote accepted'')
       (payable q quoteId final adjusted e d1)) (\<lambda>_ d3.
       return (t_next (invoices d1))
         ((if adjusted then notify e (act_id ac) STR ''Your invoice amount was adjusted''
             [J_Lit STR ''Your membership benefit changed since this quote was issued, so the payable amount is now '',
              J_Lit (q_currency q), J_Num final, J_Lit STR '' instead of the originally shown amount.''] else id)
          (audit_record (Some (q_case q)) (Some (act_id ac)) By_User STR ''quote.accepted''
             [(STR ''quoteId'', J_Id quoteId), (STR ''invoiceId'', J_Id (t_next (invoices d1))),
              (STR ''finalAmount'', J_Num final), (STR ''adjusted'', J_Bool adjusted)] d3)))"
proof -
  have "\<not> (case q_expires q of Some t \<Rightarrow> t < now e | None \<Rightarrow> False)"
    using assms(6) by (simp split: option.splits)
  then show ?thesis
    using assms by (simp add: acceptQuote_def payable_def Let_def)
qed

lemma acceptQuote_Inr:
  assumes "acceptQuote e ac quoteId d = (Inr invoiceId, d')"
  obtains q c cu final adjusted d1 where "find_unique (quotes d) quoteId = Some q"
    "find_unique (cases d) (q_case q) = Some c" "find_unique (customers d) (c_customer c) = Some cu"
    "cu_user cu = act_id ac" "q_accepted q = None" "c_status c = CS_QUOTED"
    "case q_expires q of Some t \<Rightarrow> now e \<le> t | None \<Rightarrow> True"
    "commitBenefit quoteId q d = ((final, adjusted), d1)" "invoiceId = t_next (invoices d)"
    "quotes d' = quotes (payable q quoteId final adjusted e d)"
    "invoices d' = invoices (payable q quoteId final adjusted e d)"
    "cases d' = update_row (q_case q) (\<lambda>c. c\<lparr>c_status := CS_AWAITING_PAYMENT\<rparr>) (cases d)"
    "sc_entries d' = sc_entries d1" "subscriptions d' = subscriptions d"
proof -
  obtain q where q: "find_unique (quotes d) quoteId = Some q"
    using assms by (cases "find_unique (quotes d) quoteId") (simp_all add: acceptQuote_def)
  obtain c where c: "find_unique (cases d) (q_case q) = Some c"
    using assms q by (cases "find_unique (cases d) (q_case q)") (simp_all add: acceptQuote_def)
  obtain cu where cu: "find_unique (customers d) (c_customer c) = Some cu"
    using assms q c by (cases "find_unique (customers d) (c_customer c)") (simp_all add: acceptQuote_def)
  have own: "cu_user cu = act_id ac"
    using assms q c cu by (cases "cu_user cu = act_id ac") (simp_all add: acceptQuote_def)
  have new: "q_accepted q = None"
    using assms q c cu own by (cases "q_accepted q") (simp_all add: acceptQuote_def)
  have valid: "case q_expires q of Some t \<Rightarrow> now e \<le> t | None \<Rightarrow> True"
    using assms q c cu own new
    by (cases "case q_expires q of Some t \<Rightarrow> t < now e | None \<Rightarrow> False")
      (simp_all add: acceptQuote_def split: option.splits)
  obtain final adjusted d1 where commit: "commitBenefit quoteId q d = ((final, adjusted), d1)"
    by (metis surj_pair)
  have d1: "d1 = d\<lparr>audit_log := audit_log d1, sc_entries := sc_entries d1\<rparr>"
    using commit_state [of quoteId q d] by (simp add: commit)
  have same: "invoices d1 = invoices d" "quotes d1 = quotes d" "cases d1 = cases d" "subscriptions d1 = subscriptions d"
    by (subst d1, simp)+
  let ?p = "payable q quoteId final adjusted e d1"
  obtain d3 where tr: "applyTransition (q_case q) CS_AWAITING_PAYMENT (Some ''Quote accepted'') (Some (act_id ac)) By_User ?p
      = (Inr (), d3)" and d': "quotes d' = quotes d3" "invoices d' = invoices d3" "cases d' = cases d3"
      "sc_entries d' = sc_entries d3" "subscriptions d' = subscriptions d3" "invoiceId = t_next (invoices d1)"
    using assms unfolding acceptQuote_open [OF q c cu own new valid commit] transition_only and_then_Inr_iff
    by (auto split: if_splits)
  from applyTransition_Inr [OF tr] obtain c' where "find_unique (cases ?p) (q_case q) = Some c'"
    "CS_AWAITING_PAYMENT \<in> set (case_transitions (c_status c'))"
    "d3 = moved (q_case q) (c_status c') CS_AWAITING_PAYMENT (Some ''Quote accepted'') (Some (act_id ac)) By_User ?p"
    by blast
  moreover have "cases ?p = cases d" by (simp add: payable_def same)
  ultimately have "c_status c = CS_QUOTED" "d3 = moved (q_case q) CS_QUOTED CS_AWAITING_PAYMENT
      (Some ''Quote accepted'') (Some (act_id ac)) By_User ?p"
    using c by simp_all
  then show thesis
    using d' same by (intro that [OF q c cu own new _ valid commit]) (simp_all add: payable_def)
qed

lemma lifecycle_acceptQuote: "lifecycle d (snd (acceptQuote e ac quoteId d))"
proof (cases "\<exists>q c cu. find_unique (quotes d) quoteId = Some q \<and> find_unique (cases d) (q_case q) = Some c
    \<and> find_unique (customers d) (c_customer c) = Some cu \<and> cu_user cu = act_id ac \<and> q_accepted q = None
    \<and> (case q_expires q of Some t \<Rightarrow> now e \<le> t | None \<Rightarrow> True)")
  case False
  then have "snd (acceptQuote e ac quoteId d) = d"
    by (intro same_stateD) (auto simp: acceptQuote_def included_def Let_def not_less split: option.splits)
  then show ?thesis by simp
next
  case True
  then obtain q c cu where ok: "find_unique (quotes d) quoteId = Some q" "find_unique (cases d) (q_case q) = Some c"
    "find_unique (customers d) (c_customer c) = Some cu" "cu_user cu = act_id ac" "q_accepted q = None"
    "case q_expires q of Some t \<Rightarrow> now e \<le> t | None \<Rightarrow> True" by blast
  obtain final adjusted d1 where commit: "commitBenefit quoteId q d = ((final, adjusted), d1)"
    by (metis surj_pair)
  have d1: "d1 = d\<lparr>audit_log := audit_log d1, sc_entries := sc_entries d1\<rparr>" "audit_extends d d1"
    using commit_state [of quoteId q d] commit_audit_extends [of d quoteId q] by (simp_all add: commit)
  have same: "cases d1 = cases d" "history d1 = history d" by (subst d1(1), simp)+
  have start: "lifecycle d (payable q quoteId final adjusted e d1)"
    by (rule lifecycle_frame) (use same d1(2) in \<open>simp_all add: payable_def audit_extends_def\<close>)
  show ?thesis
    unfolding acceptQuote_open [OF ok commit]
    by (intro lifecycle_and_then lifecycle_trans [OF start lifecycle_transition(1)])
      (simp add: lifecycle_notify lifecycle_audit)
qed

section \<open>The expiry sweep\<close>

lemma lifecycle_quote_expiry: "lifecycle d (snd (quote_expiry_loop e due d))"
proof (induction e due d rule: quote_expiry_loop.induct)
  case (2 e qid q rest d)
  show ?case
  proof (cases "find_unique (cases d) (q_case q)")
    case None
    with 2(1) show ?thesis by simp
  next
    case (Some c)
    show ?thesis
    proof (cases "c_status c = CS_QUOTED")
      case False
      with 2(2) Some show ?thesis by simp
    next
      case True
      have "lifecycle d1 (snd (included (customers d) (c_customer c) d1 (\<lambda>cu. quote_expiry_loop e rest
         (notify e (cu_user cu) STR ''Your quote has expired''
            [J_Lit STR ''The quote for '', J_Text (c_number c), J_Lit STR '' has expired unaccepted'']
          (audit_record (Some (q_case q)) None By_System STR ''quote.expired''
            [(STR ''quoteId'', J_Id qid), (STR ''expiresAt'', json_option J_Time (q_expires q))] d1)))))"
        for d1
        using 2(3) [OF Some] True
        by (auto simp: included_def split: option.split
            intro: lifecycle_trans [OF lifecycle_notify [OF lifecycle_audit [OF lifecycle_refl]]])
      with Some True show ?thesis by (simp add: lifecycle_and_then)
    qed
  qed
qed simp

lemma lifecycle_runQuoteExpirySweep: "lifecycle d (snd (runQuoteExpirySweep e d))"
  unfolding runQuoteExpirySweep_def by (rule lifecycle_and_then [OF lifecycle_quote_expiry]) simp

text \<open>What the loop does to the cases: those of a due quote that are still quoted go back to review.\<close>

lemma quote_expiry_effect:
  assumes "\<forall>q \<in> snd ` set due. \<exists>c. find_unique (cases d) (q_case q) = Some c
      \<and> find_unique (customers d) (c_customer c) \<noteq> None"
  shows "\<exists>d'. quote_expiry_loop e due d = (Inr (), d') \<and> quotes d' = quotes d
    \<and> (\<forall>k. find_unique (cases d') k = map_option (\<lambda>c. if c_status c = CS_QUOTED \<and> k \<in> (q_case \<circ> snd) ` set due
         then c\<lparr>c_status := CS_UNDER_REVIEW\<rparr> else c) (find_unique (cases d) k))"
  using assms
proof (induction due arbitrary: d)
  case Nil
  then show ?case by (simp add: option.map_ident)
next
  case (Cons x rest)
  obtain qid q where x: "x = (qid, q)" by (cases x)
  obtain c cu where c: "find_unique (cases d) (q_case q) = Some c" and cu: "find_unique (customers d) (c_customer c) = Some cu"
    using Cons.prems x by auto
  show ?case
  proof (cases "c_status c = CS_QUOTED")
    case False
    have "find_unique (cases d) k = Some c' \<Longrightarrow> c_status c' = CS_QUOTED \<Longrightarrow> k \<noteq> q_case q" for k c'
      using c False by auto
    then have same: "map_option (\<lambda>c. if c_status c = CS_QUOTED \<and> k \<in> (q_case \<circ> snd) ` set (x # rest)
         then c\<lparr>c_status := CS_UNDER_REVIEW\<rparr> else c) (find_unique (cases d) k)
       = map_option (\<lambda>c. if c_status c = CS_QUOTED \<and> k \<in> (q_case \<circ> snd) ` set rest
         then c\<lparr>c_status := CS_UNDER_REVIEW\<rparr> else c) (find_unique (cases d) k)" for k
      using c by (cases "find_unique (cases d) k") (auto simp: x)
    have "quote_expiry_loop e (x # rest) d = quote_expiry_loop e rest d"
      using c False by (simp add: x)
    moreover have "\<forall>q \<in> snd ` set rest. \<exists>c. find_unique (cases d) (q_case q) = Some c
        \<and> find_unique (customers d) (c_customer c) \<noteq> None" using Cons.prems by simp
    note Cons.IH [OF this]
    ultimately show ?thesis by (simp only: same)
  next
    case True
    let ?m = "moved (q_case q) CS_QUOTED CS_UNDER_REVIEW (Some ''Quote expired unaccepted'') None By_System d"
    let ?d = "notify e (cu_user cu) STR ''Your quote has expired''
            [J_Lit STR ''The quote for '', J_Text (c_number c), J_Lit STR '' has expired unaccepted'']
          (audit_record (Some (q_case q)) None By_System STR ''quote.expired''
            [(STR ''quoteId'', J_Id qid), (STR ''expiresAt'', json_option J_Time (q_expires q))] ?m)"
    have tr: "systemTransitionCase (q_case q) CS_UNDER_REVIEW (Some ''Quote expired unaccepted'') d = (Inr (), ?m)"
      using applyTransition_edge [OF c, of CS_UNDER_REVIEW] True by (simp add: transition_only)
    then have step: "quote_expiry_loop e (x # rest) d = quote_expiry_loop e rest ?d"
      using c cu True by (simp add: x)
    have "\<forall>q' \<in> snd ` set rest. \<exists>c'. find_unique (cases ?d) (q_case q') = Some c'
        \<and> find_unique (customers ?d) (c_customer c') \<noteq> None"
      using Cons.prems by fastforce
    note IH = Cons.IH [OF this]
    obtain d' where "quote_expiry_loop e rest ?d = (Inr (), d')" "quotes d' = quotes ?d"
      and eff: "\<forall>k. find_unique (cases d') k = map_option (\<lambda>c. if c_status c = CS_QUOTED \<and> k \<in> (q_case \<circ> snd) ` set rest
         then c\<lparr>c_status := CS_UNDER_REVIEW\<rparr> else c) (find_unique (cases ?d) k)"
      using IH by (elim exE conjE) (rule that)
    moreover have "find_unique (cases d') k = map_option (\<lambda>c. if c_status c = CS_QUOTED \<and> k \<in> (q_case \<circ> snd) ` set (x # rest)
         then c\<lparr>c_status := CS_UNDER_REVIEW\<rparr> else c) (find_unique (cases d) k)" for k
      using c True eff by (cases "k = q_case q"; cases "find_unique (cases d) k") (auto simp: x)
    ultimately show ?thesis using step by auto
  qed
qed

end
