(* ===== verification/Payments.thy ===== *)
theory Payments
  imports Quotes
begin

text \<open>
  The payment half of \<open>CommerceService\<close> (\<open>src/backend/src/commerce/commerce.service.ts\<close>) and the
  webhook route that feeds it (\<open>commerce/commerce.controller.ts\<close>): a checkout is started on an
  invoice, the provider's webhook or the verification poll settles it, Finance refunds it (with a
  second person above a threshold) or reconciles an amount that does not match, and a checkout
  that never resolves expires.
\<close>

section \<open>Configuration\<close>

definition paymentExpiryHours :: "env \<Rightarrow> rat" where
  "paymentExpiryHours e = env_positive (payment_expiry_env e) 24"

definition refundApprovalThresholdNgn :: "env \<Rightarrow> rat" where
  "refundApprovalThresholdNgn e = env_positive (refund_threshold_env e) 200000"

definition paymentVerificationMinAgeMinutes :: "env \<Rightarrow> rat" where
  "paymentVerificationMinAgeMinutes e = env_positive (verification_age_env e) 5"

text \<open>\<open>new Date(Date.now() - ms)\<close> drops the fraction of a millisecond.\<close>

definition time_ago :: "env \<Rightarrow> rat \<Rightarrow> int" where
  "time_ago e ms = \<lfloor>of_int (now e) - ms\<rfloor>"

definition expiry_cutoff :: "env \<Rightarrow> int" where
  "expiry_cutoff e = time_ago e (paymentExpiryHours e * 60 * 60 * 1000)"

definition verification_cutoff :: "env \<Rightarrow> int" where
  "verification_cutoff e = time_ago e (paymentVerificationMinAgeMinutes e * 60 * 1000)"

section \<open>A payment with its invoice, case and customer\<close>

definition payment_context ::
  "payment \<Rightarrow> db \<Rightarrow> (invoice \<Rightarrow> service_case \<Rightarrow> customer \<Rightarrow> 'a result) \<Rightarrow> 'a result" where
  "payment_context p d f =
     included (invoices d) (p_invoice p) d (\<lambda>iv.
     included (cases d) (iv_case iv) d (\<lambda>c.
     included (customers d) (c_customer c) d (\<lambda>cu. f iv c cu)))"

definition set_payment :: "nat \<Rightarrow> payment_status \<Rightarrow> db \<Rightarrow> db" where
  "set_payment pid s d = d\<lparr>payments := update_row pid (\<lambda>p. p\<lparr>p_status := s\<rparr>) (payments d)\<rparr>"

definition set_case_payment :: "nat \<Rightarrow> payment_status \<Rightarrow> db \<Rightarrow> db" where
  "set_case_payment k s d = d\<lparr>cases := update_row k (\<lambda>c. c\<lparr>c_payment_status := s\<rparr>) (cases d)\<rparr>"

section \<open>Starting a payment\<close>

record started =
  sp_url :: "string option"
  sp_reference :: reference
  sp_dry_run :: bool
  sp_replay :: bool

definition doInitiatePayment :: "env \<Rightarrow> actor \<Rightarrow> nat \<Rightarrow> db \<Rightarrow> (started \<times> nat) result" where
  "doInitiatePayment e ac invoiceId d = (case find_unique (invoices d) invoiceId of
     None \<Rightarrow> throw (Not_Found STR ''Invoice not found'') d
   | Some iv \<Rightarrow>
     included (cases d) (iv_case iv) d (\<lambda>c. included (customers d) (c_customer c) d (\<lambda>cu.
     included (users d) (cu_user cu) d (\<lambda>u.
     if cu_user cu \<noteq> act_id ac then throw (Forbidden STR ''Not authorised for this invoice'') d
     else if exists_row (\<lambda>_ p. p_invoice p = invoiceId \<and> p_status p = PS_PAID) (payments d)
     then throw (Bad_Request STR ''Invoice already paid'') d
     else
       (let ref = Case_Inv invoiceId (random_hex e) in
        case initializeTransaction e ref (kobo (iv_amount iv)) of
          Inl err \<Rightarrow> throw err d
        | Inr (url, dryRun) \<Rightarrow>
          if exists_row (\<lambda>_ p. p_reference p = ref) (payments d)
          then throw (Internal STR ''Unique constraint failed'') d
          else (let pid = t_next (payments d) in
            return (\<lparr>sp_url = Some url, sp_reference = ref, sp_dry_run = dryRun, sp_replay = False\<rparr>, pid)
              (audit_record (Some (iv_case iv)) (Some (act_id ac)) By_User STR ''payment.initiated''
                 [(STR ''invoiceId'', J_Id invoiceId), (STR ''reference'', J_Ref ref), (STR ''dryRun'', J_Bool dryRun)]
               (d\<lparr>payments := insert_row \<lparr>p_invoice = invoiceId, p_amount = iv_amount iv,
                  p_currency = iv_currency iv, p_reference = ref, p_verified_at = None,
                  p_status = PS_PENDING, p_created = now e\<rparr> (payments d)\<rparr>))))))))"

definition reload_payment :: "nat option \<Rightarrow> db \<Rightarrow> started result" where
  "reload_payment ref d = (case ref of
     None \<Rightarrow> throw (Internal STR ''No Payment found'') d
   | Some i \<Rightarrow> (case find_unique (payments d) i of
       None \<Rightarrow> throw (Internal STR ''No Payment found'') d
     | Some p \<Rightarrow> return \<lparr>sp_url = None, sp_reference = p_reference p, sp_dry_run = False, sp_replay = True\<rparr> d))"

definition initiatePayment :: "env \<Rightarrow> actor \<Rightarrow> nat \<Rightarrow> string option \<Rightarrow> db \<Rightarrow> started result" where
  "initiatePayment e ac invoiceId idempotencyKey d =
     with_idempotency IO_PAYMENT_INITIATE idempotencyKey (act_id ac) reload_payment
       (doInitiatePayment e ac invoiceId) snd fst d"

section \<open>The provider's answer\<close>

definition find_payment :: "reference \<Rightarrow> db \<Rightarrow> (nat \<times> payment) option" where
  "find_payment ref d = find_first (\<lambda>_ p. p_reference p = ref) (payments d)"

text \<open>The amount that does not match is recorded before the request is refused.\<close>

definition flag_mismatch :: "nat \<Rightarrow> payment \<Rightarrow> nat \<Rightarrow> rat \<Rightarrow> db \<Rightarrow> db" where
  "flag_mismatch pid p caseId amountKobo d =
     (if p_status p \<noteq> PS_PAID
      then audit_record (Some caseId) None By_System STR ''payment.reconciliation_required''
        [(STR ''paymentId'', J_Id pid), (STR ''providerReference'', J_Ref (p_reference p)),
         (STR ''expectedKobo'', J_Num (kobo (p_amount p))),
         (STR ''receivedKobo'', J_Num amountKobo)]
        (set_case_payment caseId PS_RECONCILIATION_REQUIRED (set_payment pid PS_RECONCILIATION_REQUIRED d))
      else d)"

text \<open>The payment is marked, then its case; a case that was waiting for it is scheduled.\<close>

definition mark_paid :: "env \<Rightarrow> reference \<Rightarrow> nat \<Rightarrow> nat \<Rightarrow> service_case \<Rightarrow> nat \<Rightarrow> db \<Rightarrow> db" where
  "mark_paid e ref pid caseId c userId d =
     notify e userId STR ''Payment received''
       [J_Lit STR ''We've confirmed your payment for '', J_Text (c_number c),
        J_Lit STR '': we'll be in touch to schedule the visit.'']
     (audit_record (Some caseId) None By_System STR ''payment.webhook_verified''
       [(STR ''paymentId'', J_Id pid), (STR ''provider'', J_Lit STR ''paystack''),
        (STR ''providerReference'', J_Ref ref)]
     (set_case_payment caseId PS_PAID
       (d\<lparr>payments := update_row pid (\<lambda>p. p\<lparr>p_status := PS_PAID, p_verified_at := Some (now e)\<rparr>) (payments d)\<rparr>)))"

definition settle_payment :: "env \<Rightarrow> reference \<Rightarrow> nat \<Rightarrow> nat \<Rightarrow> service_case \<Rightarrow> nat \<Rightarrow> db \<Rightarrow> nat result" where
  "settle_payment e ref pid caseId c userId d =
     (if c_status c = CS_AWAITING_PAYMENT
      then and_then (systemTransitionCase caseId CS_SCHEDULED (Some ''Payment verified by Paystack webhook'')
             (mark_paid e ref pid caseId c userId d)) (\<lambda>_. return pid)
      else return pid (mark_paid e ref pid caseId c userId d))"

definition handleVerifiedCasePayment :: "env \<Rightarrow> reference \<Rightarrow> rat \<Rightarrow> db \<Rightarrow> nat result" where
  "handleVerifiedCasePayment e ref amountKobo d = (case find_payment ref d of
     None \<Rightarrow> throw (Not_Found STR ''No payment pending for reference'') d
   | Some (pid, p) \<Rightarrow> payment_context p d (\<lambda>iv c cu.
     if kobo (p_amount p) \<noteq> amountKobo
     then throw (Bad_Request STR ''Payment amount does not match invoice: flagged for Finance review'')
            (flag_mismatch pid p (iv_case iv) amountKobo d)
     else if p_status p = PS_PAID then return pid d
     else settle_payment e ref pid (iv_case iv) c (cu_user cu) d))"

definition handleFailedCasePayment :: "env \<Rightarrow> reference \<Rightarrow> string option \<Rightarrow> db \<Rightarrow> nat result" where
  "handleFailedCasePayment e ref gatewayResponse d = (case find_payment ref d of
     None \<Rightarrow> throw (Not_Found STR ''No payment pending for reference'') d
   | Some (pid, p) \<Rightarrow> payment_context p d (\<lambda>iv c cu.
     if p_status p = PS_PAID \<or> p_status p = PS_FAILED then return pid d
     else return pid
       (notify e (cu_user cu) STR ''Payment did not go through''
          ([J_Lit STR ''Your payment for '', J_Text (c_number c), J_Lit STR '' wasn't successful'']
           @ (case gatewayResponse of
                Some (x # xs) \<Rightarrow> [J_Lit STR '' ('', J_Text (x # xs), J_Lit STR '')''] | _ \<Rightarrow> [])
           @ [J_Lit STR '': you can try again from your case page.''])
        (audit_record (Some (iv_case iv)) None By_System STR ''payment.webhook_failed''
          [(STR ''paymentId'', J_Id pid), (STR ''provider'', J_Lit STR ''paystack''),
           (STR ''providerReference'', J_Ref ref), (STR ''gatewayResponse'', json_option J_Text gatewayResponse)]
        (set_payment pid PS_FAILED d)))))"

text \<open>
  The webhook route, after the signature check of its guard: other events are acknowledged
  without acting, and the prefix of the reference names the service that owns the payment.
\<close>

datatype webhook_event = Charge_Success reference rat | Charge_Failed reference "string option"
    | Charge_Unrecognised | Other_Event
datatype webhook_reply = Handled nat | Ignored

definition handlePaystackWebhook :: "env \<Rightarrow> webhook_event \<Rightarrow> db \<Rightarrow> webhook_reply result" where
  "handlePaystackWebhook e ev d = (case ev of
     Other_Event \<Rightarrow> return Ignored d
   | Charge_Unrecognised \<Rightarrow> throw (Bad_Request STR ''Unrecognised payment reference'') d
   | Charge_Failed ref gatewayResponse \<Rightarrow>
       and_then (case ref of
           Case_Inv _ _ \<Rightarrow> handleFailedCasePayment e ref gatewayResponse d
         | Sub_Inv _ _ \<Rightarrow> handleFailedSubscriptionPayment e ref gatewayResponse d) (\<lambda>i. return (Handled i))
   | Charge_Success ref amount \<Rightarrow>
       and_then (case ref of
           Case_Inv _ _ \<Rightarrow> handleVerifiedCasePayment e ref amount d
         | Sub_Inv _ _ \<Rightarrow> handleVerifiedSubscriptionPayment e ref amount d) (\<lambda>i. return (Handled i)))"

section \<open>Refunds\<close>

definition refunded :: "nat \<Rightarrow> db \<Rightarrow> rat" where
  "refunded pid d = sum_list (map (\<lambda>(_, r). rf_amount r) (find_many (\<lambda>_ r. rf_payment r = pid) (refunds d)))"

definition remainingRefundable :: "nat \<Rightarrow> rat \<Rightarrow> db \<Rightarrow> rat" where
  "remainingRefundable pid paymentAmount d = paymentAmount - refunded pid d"

definition executeRefund ::
  "env \<Rightarrow> actor \<Rightarrow> nat \<Rightarrow> payment \<Rightarrow> nat \<Rightarrow> service_case \<Rightarrow> nat \<Rightarrow> rat \<Rightarrow> string option \<Rightarrow> db \<Rightarrow> nat result" where
  "executeRefund e ac pid p caseId c userId requested reason d =
     (let refundedSoFar = p_amount p - remainingRefundable pid (p_amount p) d in
      case refundTransaction e (p_reference p) (js_round (requested * 100)) of
        Inl err \<Rightarrow> throw err d
      | Inr dryRun \<Rightarrow>
        (let rid = t_next (refunds d);
             newStatus = (if p_amount p \<le> requested + refundedSoFar then PS_REFUNDED else PS_PARTIALLY_REFUNDED);
             d1 = d\<lparr>refunds := insert_row \<lparr>rf_payment = pid, rf_amount = dec2 requested, rf_reason = reason,
                    rf_actor = Some (act_id ac)\<rparr> (refunds d)\<rparr>;
             d2 = set_case_payment caseId newStatus (set_payment pid newStatus d1)
         in return rid
           (notify e userId STR ''A refund has been issued''
              [J_Lit STR ''A refund of '', J_Lit (p_currency p), J_Num requested,
               J_Lit STR '' has been issued for '', J_Text (c_number c)]
            (audit_record (Some caseId) (Some (act_id ac)) By_User STR ''payment.refunded''
              [(STR ''paymentId'', J_Id pid), (STR ''refundId'', J_Id rid), (STR ''amount'', J_Num requested),
               (STR ''reason'', json_option J_Text reason), (STR ''newStatus'', J_Payment newStatus),
               (STR ''dryRun'', J_Bool dryRun)] d2))))"

record refund_dto =
  rx_amount :: "rat option"
  rx_reason :: string

datatype refund_outcome = Refund_Requested nat | Refund_Executed nat

definition refundable :: "payment \<Rightarrow> bool" where
  "refundable p \<longleftrightarrow> p_status p = PS_PAID \<or> p_status p = PS_PARTIALLY_REFUNDED"

definition request_refund :: "env \<Rightarrow> actor \<Rightarrow> nat \<Rightarrow> nat \<Rightarrow> rat \<Rightarrow> string \<Rightarrow> db \<Rightarrow> refund_outcome result" where
  "request_refund e ac pid caseId requested reason d =
     (let rid = t_next (refund_requests d) in return (Refund_Requested rid)
        (audit_record (Some caseId) (Some (act_id ac)) By_User STR ''payment.refund_requested''
           [(STR ''paymentId'', J_Id pid), (STR ''refundRequestId'', J_Id rid), (STR ''amount'', J_Num requested),
            (STR ''reason'', J_Text reason), (STR ''thresholdNgn'', J_Num (refundApprovalThresholdNgn e))]
         (d\<lparr>refund_requests := insert_row \<lparr>rr_payment = pid, rr_amount = dec2 requested,
            rr_reason = reason, rr_status = RR_PENDING, rr_requested_by = act_id ac,
            rr_decided_by = None, rr_decided_at = None, rr_note = None\<rparr> (refund_requests d)\<rparr>)))"

definition refundPayment :: "env \<Rightarrow> actor \<Rightarrow> nat \<Rightarrow> refund_dto \<Rightarrow> db \<Rightarrow> refund_outcome result" where
  "refundPayment e ac pid dto d = (case find_unique (payments d) pid of
     None \<Rightarrow> throw (Not_Found STR ''Payment not found'') d
   | Some p \<Rightarrow> payment_context p d (\<lambda>iv c cu.
     if \<not> refundable p then throw (Bad_Request STR ''Cannot refund a payment in this status'') d
     else
       (let remaining = remainingRefundable pid (p_amount p) d;
            requested = (case rx_amount dto of Some a \<Rightarrow> a | None \<Rightarrow> remaining)
        in if requested \<le> 0 \<or> remaining < requested
           then throw (Bad_Request STR ''Refund amount must be between 0 and the remaining refundable amount'') d
           else if refundApprovalThresholdNgn e < requested
           then request_refund e ac pid (iv_case iv) requested (rx_reason dto) d
           else and_then (executeRefund e ac pid p (iv_case iv) c (cu_user cu) requested (Some (rx_reason dto)) d)
             (\<lambda>rid. return (Refund_Executed rid)))))"

definition decide_request ::
  "env \<Rightarrow> actor \<Rightarrow> nat \<Rightarrow> refund_request_status \<Rightarrow> string option \<Rightarrow> db \<Rightarrow> db" where
  "decide_request e ac rid s note d = d\<lparr>refund_requests := update_row rid (\<lambda>r. r\<lparr>rr_status := s,
     rr_decided_by := Some (act_id ac), rr_decided_at := Some (now e), rr_note := note\<rparr>) (refund_requests d)\<rparr>"

definition approveRefundRequest :: "env \<Rightarrow> actor \<Rightarrow> nat \<Rightarrow> string option \<Rightarrow> db \<Rightarrow> nat result" where
  "approveRefundRequest e ac requestId note d = (case find_unique (refund_requests d) requestId of
     None \<Rightarrow> throw (Not_Found STR ''Refund request not found'') d
   | Some rr \<Rightarrow> included (payments d) (rr_payment rr) d (\<lambda>p. payment_context p d (\<lambda>iv c cu.
     if rr_status rr \<noteq> RR_PENDING then throw (Bad_Request STR ''Refund request is already decided'') d
     else if rr_requested_by rr = act_id ac
     then throw (Forbidden STR ''The refund cannot be approved by the same person who requested it'') d
     else if \<not> refundable p then throw (Bad_Request STR ''Cannot refund a payment in this status'') d
     else if rr_amount rr \<le> 0 \<or> remainingRefundable (rr_payment rr) (p_amount p) d < rr_amount rr
     then throw (Bad_Request STR ''Refund amount must be between 0 and the remaining refundable amount'') d
     else and_then (executeRefund e ac (rr_payment rr) p (iv_case iv) c (cu_user cu) (rr_amount rr)
                      (Some (rr_reason rr)) d) (\<lambda>rid d1.
       return rid
         (audit_record (Some (iv_case iv)) (Some (act_id ac)) By_User STR ''payment.refund_request_approved''
            [(STR ''refundRequestId'', J_Id requestId), (STR ''paymentId'', J_Id (rr_payment rr)),
             (STR ''amount'', J_Num (rr_amount rr)), (STR ''note'', json_option J_Text note)]
          (decide_request e ac requestId RR_APPROVED note d1))))))"

definition rejectRefundRequest :: "env \<Rightarrow> actor \<Rightarrow> nat \<Rightarrow> string option \<Rightarrow> db \<Rightarrow> unit result" where
  "rejectRefundRequest e ac requestId note d = (case find_unique (refund_requests d) requestId of
     None \<Rightarrow> throw (Not_Found STR ''Refund request not found'') d
   | Some rr \<Rightarrow> included (payments d) (rr_payment rr) d (\<lambda>p. included (invoices d) (p_invoice p) d (\<lambda>iv.
     if rr_status rr \<noteq> RR_PENDING then throw (Bad_Request STR ''Refund request is already decided'') d
     else if rr_requested_by rr = act_id ac
     then throw (Forbidden STR ''The refund cannot be rejected by the same person who requested it'') d
     else return ()
       (audit_record (Some (iv_case iv)) (Some (act_id ac)) By_User STR ''payment.refund_request_rejected''
          [(STR ''refundRequestId'', J_Id requestId), (STR ''paymentId'', J_Id (rr_payment rr)),
           (STR ''note'', json_option J_Text note)]
        (decide_request e ac requestId RR_REJECTED note d)))))"

definition listRefundRequests :: "refund_request_status option \<Rightarrow> db \<Rightarrow> (nat \<times> refund_request) list" where
  "listRefundRequests status d = rev (find_many
     (\<lambda>_ r. case status of None \<Rightarrow> True | Some s \<Rightarrow> rr_status r = s) (refund_requests d))"

section \<open>Reconciliation\<close>

record reconcile_dto =
  rd_status :: reconciliation_status
  rd_notes :: string
  rd_resolved :: "rat option"

definition resolveReconciliation :: "env \<Rightarrow> actor \<Rightarrow> nat \<Rightarrow> reconcile_dto \<Rightarrow> db \<Rightarrow> nat result" where
  "resolveReconciliation e ac pid dto d = (case find_unique (payments d) pid of
     None \<Rightarrow> throw (Not_Found STR ''Payment not found'') d
   | Some p \<Rightarrow> payment_context p d (\<lambda>iv c cu.
     if p_status p \<noteq> PS_RECONCILIATION_REQUIRED
     then throw (Bad_Request STR ''Payment is not awaiting reconciliation'') d
     else
       (let matched = (rd_status dto = RS_MATCHED);
            newAmount = (if matched \<and> rd_resolved dto \<noteq> Some 0 then rd_resolved dto else None);
            newStatus = (if matched then PS_PAID else PS_FAILED);
            d1 = d\<lparr>payments := update_row pid (\<lambda>p. p\<lparr>p_status := newStatus,
                   p_amount := (case newAmount of Some a \<Rightarrow> dec2 a | None \<Rightarrow> p_amount p),
                   p_verified_at := (if matched then Some (now e) else p_verified_at p)\<rparr>) (payments d)\<rparr>;
            d2 = set_case_payment (iv_case iv) newStatus d1;
            rid = t_next (reconciliations d2);
            d3 = d2\<lparr>reconciliations := insert_row \<lparr>rc_payment = pid, rc_status = rd_status dto,
                   rc_notes = rd_notes dto, rc_by = Some (act_id ac)\<rparr> (reconciliations d2)\<rparr>
        in return rid
          (notify e (cu_user cu)
             (if matched then STR ''Your payment has been confirmed'' else STR ''Your payment could not be confirmed'')
             [J_Lit STR ''Your payment for '', J_Text (c_number c),
              J_Lit (if matched then STR '' has been reviewed and confirmed.''
                     else STR '' could not be confirmed: please try again from your case page.'')]
           (audit_record (Some (iv_case iv)) (Some (act_id ac)) By_User STR ''payment.reconciliation_resolved''
             [(STR ''paymentId'', J_Id pid), (STR ''reconciliationId'', J_Id rid), (STR ''status'', J_Recon (rd_status dto)),
              (STR ''notes'', J_Text (rd_notes dto)), (STR ''resolvedAmount'', json_option J_Num newAmount)] d3)))))"

section \<open>Sweeps\<close>

definition in_flight :: "payment \<Rightarrow> bool" where
  "in_flight p \<longleftrightarrow> p_status p = PS_PENDING \<or> p_status p = PS_PROCESSING"

definition stale_payments :: "env \<Rightarrow> db \<Rightarrow> (nat \<times> payment) list" where
  "stale_payments e d = find_many (\<lambda>_ p. in_flight p \<and> p_created p < expiry_cutoff e) (payments d)"

fun payment_expiry_loop :: "env \<Rightarrow> (nat \<times> payment) list \<Rightarrow> db \<Rightarrow> unit result" where
  "payment_expiry_loop e [] d = return () d"
| "payment_expiry_loop e ((pid, p) # rest) d = payment_context p d (\<lambda>iv c cu.
     payment_expiry_loop e rest
       (notify e (cu_user cu) STR ''Your payment window expired''
          [J_Lit STR ''The payment window for '', J_Text (c_number c),
           J_Lit STR '' has expired: you can start a new payment from your case page.'']
        (audit_record (Some (iv_case iv)) None By_System STR ''payment.expired''
          [(STR ''paymentId'', J_Id pid), (STR ''providerReference'', J_Ref (p_reference p)),
           (STR ''createdAt'', J_Time (p_created p))]
        (set_payment pid PS_EXPIRED d))))"

definition runPaymentExpirySweep :: "env \<Rightarrow> db \<Rightarrow> nat result" where
  "runPaymentExpirySweep e d = and_then (payment_expiry_loop e (stale_payments e d) d)
     (\<lambda>_. return (length (stale_payments e d)))"

definition poll_candidates :: "env \<Rightarrow> db \<Rightarrow> (nat \<times> payment) list" where
  "poll_candidates e d = find_many (\<lambda>_ p. in_flight p \<and> p_created p < verification_cutoff e
     \<and> expiry_cutoff e \<le> p_created p) (payments d)"

record poll_counts =
  pc_processing :: nat
  pc_paid :: nat
  pc_failed :: nat

text \<open>An exception of one payment is logged and the loop goes on with what was written.\<close>

definition poll_one :: "env \<Rightarrow> nat \<Rightarrow> payment \<Rightarrow> poll_counts \<Rightarrow> db \<Rightarrow> poll_counts \<times> db" where
  "poll_one e pid p n d = (case verifyTransaction e (p_reference p) of
     Inl _ \<Rightarrow> (n, d)
   | Inr r \<Rightarrow>
     if vr_dry_run r then (n, d)
     else (case vr_status r of
       None \<Rightarrow> (n, d)
     | Some V_success \<Rightarrow>
         (case handleVerifiedCasePayment e (p_reference p) (vr_amount_kobo r) d of
            (Inl _, d') \<Rightarrow> (n, d') | (Inr _, d') \<Rightarrow> (n\<lparr>pc_paid := pc_paid n + 1\<rparr>, d'))
     | Some s \<Rightarrow>
         if s \<in> {V_failed, V_abandoned, V_reversed}
         then (case handleFailedCasePayment e (p_reference p) (vr_gateway r) d of
            (Inl _, d') \<Rightarrow> (n, d') | (Inr _, d') \<Rightarrow> (n\<lparr>pc_failed := pc_failed n + 1\<rparr>, d'))
         else if p_status p \<noteq> PS_PROCESSING
         then (n\<lparr>pc_processing := pc_processing n + 1\<rparr>,
               audit_record None None By_System STR ''payment.processing''
                 [(STR ''paymentId'', J_Id pid), (STR ''providerReference'', J_Ref (p_reference p)),
                  (STR ''paystackStatus'', J_Verify s)] (set_payment pid PS_PROCESSING d))
         else (n, d)))"

fun poll_loop :: "env \<Rightarrow> (nat \<times> payment) list \<Rightarrow> poll_counts \<Rightarrow> db \<Rightarrow> poll_counts \<times> db" where
  "poll_loop e [] n d = (n, d)"
| "poll_loop e ((pid, p) # rest) n d = (case poll_one e pid p n d of (n', d') \<Rightarrow> poll_loop e rest n' d')"

definition runPaymentVerificationSweep :: "env \<Rightarrow> db \<Rightarrow> (nat \<times> poll_counts) \<times> db" where
  "runPaymentVerificationSweep e d =
     (case poll_loop e (poll_candidates e d) \<lparr>pc_processing = 0, pc_paid = 0, pc_failed = 0\<rparr> d of
        (n, d') \<Rightarrow> ((length (poll_candidates e d), n), d'))"

section \<open>What the pieces write\<close>

lemma payment_context_Inr:
  assumes "payment_context p d f = (Inr a, d')"
  obtains iv c cu where "find_unique (invoices d) (p_invoice p) = Some iv" "find_unique (cases d) (iv_case iv) = Some c"
    "find_unique (customers d) (c_customer c) = Some cu" "f iv c cu = (Inr a, d')"
  using assms by (auto simp: payment_context_def included_Inr)

lemma payment_context_simp:
  "find_unique (invoices d) (p_invoice p) = Some iv \<Longrightarrow> find_unique (cases d) (iv_case iv) = Some c \<Longrightarrow>
     find_unique (customers d) (c_customer c) = Some cu \<Longrightarrow> payment_context p d f = f iv c cu"
  by (simp add: payment_context_def)

lemma payment_context_snd:
  assumes "\<And>iv c cu. find_unique (cases d) (iv_case iv) = Some c \<Longrightarrow> P (snd (f iv c cu))" "P d"
  shows "P (snd (payment_context p d f))"
  using assms by (auto simp: payment_context_def included_def split: option.split)

lemma set_payment_frame [simp]:
  "cases (set_payment pid s d) = cases d" "history (set_payment pid s d) = history d"
  "audit_log (set_payment pid s d) = audit_log d" "invoices (set_payment pid s d) = invoices d"
  "customers (set_payment pid s d) = customers d" "refunds (set_payment pid s d) = refunds d"
  "idempotency (set_payment pid s d) = idempotency d" "refund_requests (set_payment pid s d) = refund_requests d"
  "payments (set_payment pid s d) = update_row pid (\<lambda>p. p\<lparr>p_status := s\<rparr>) (payments d)"
  by (simp_all add: set_payment_def)

lemma set_case_payment_frame [simp]:
  "payments (set_case_payment k s d) = payments d" "history (set_case_payment k s d) = history d"
  "audit_log (set_case_payment k s d) = audit_log d" "invoices (set_case_payment k s d) = invoices d"
  "customers (set_case_payment k s d) = customers d" "refunds (set_case_payment k s d) = refunds d"
  "idempotency (set_case_payment k s d) = idempotency d" "refund_requests (set_case_payment k s d) = refund_requests d"
  "cases (set_case_payment k s d) = update_row k (\<lambda>c. c\<lparr>c_payment_status := s\<rparr>) (cases d)"
  by (simp_all add: set_case_payment_def)

lemma lifecycle_payment: "lifecycle d (set_payment pid s d)"
  by (rule lifecycle_frame) (simp_all add: audit_extends_def)

lemma lifecycle_case_payment: "lifecycle d (set_case_payment k s d)"
  by (rule lifecycle_update_case [where f = "\<lambda>c. c\<lparr>c_payment_status := s\<rparr>"]) simp_all

lemma lifecycle_then_case_payment: "lifecycle d d' \<Longrightarrow> lifecycle d (set_case_payment k s d')"
  using lifecycle_trans lifecycle_case_payment by blast

lemma lifecycle_then_payment: "lifecycle d d' \<Longrightarrow> lifecycle d (set_payment pid s d')"
  using lifecycle_trans lifecycle_payment by blast

lemma lifecycle_tables:
  "lifecycle d (d\<lparr>payments := x\<rparr>)" "lifecycle d (d\<lparr>refunds := y\<rparr>)" "lifecycle d (d\<lparr>refund_requests := z\<rparr>)"
  "lifecycle d (decide_request e ac rid s note d)"
  by (rule lifecycle_frame; simp add: audit_extends_def decide_request_def)+

lemma lifecycle_then_reconciliation: "lifecycle d d' \<Longrightarrow> lifecycle d (d'\<lparr>reconciliations := x\<rparr>)"
  by (erule lifecycle_trans) (rule lifecycle_frame, simp_all add: audit_extends_def)

lemmas lifecycle_writes = lifecycle_notify lifecycle_audit lifecycle_then_case_payment lifecycle_then_payment
  lifecycle_tables

section \<open>Payments and the life of a case\<close>

lemma lifecycle_context:
  "(\<And>iv c cu. lifecycle d (snd (f iv c cu))) \<Longrightarrow> lifecycle d (snd (payment_context p d f))"
  by (rule payment_context_snd) simp_all

lemma lifecycle_doInitiatePayment: "lifecycle d (snd (doInitiatePayment e ac iid d))"
  by (auto simp: doInitiatePayment_def included_def Let_def intro!: lifecycle_writes split: option.split sum.split)

lemma lifecycle_initiatePayment: "lifecycle d (snd (initiatePayment e ac iid key d))"
  unfolding initiatePayment_def
  by (rule lifecycle_with_idempotency) (simp_all add: lifecycle_doInitiatePayment reload_payment_def split: option.split)

lemma lifecycle_flag: "lifecycle d (flag_mismatch pid p k amount d)"
  by (auto simp: flag_mismatch_def intro!: lifecycle_writes)

lemma lifecycle_handleFailed: "lifecycle d (snd (handleFailedCasePayment e ref why d))"
proof (cases "find_payment ref d")
  case None
  then show ?thesis by (simp add: handleFailedCasePayment_def)
next
  case (Some x)
  obtain pid p where x: "x = (pid, p)" by (cases x)
  show ?thesis
    unfolding handleFailedCasePayment_def Some x option.case prod.case
    by (rule lifecycle_context) (auto intro!: lifecycle_writes lifecycle_payment)
qed

lemma lifecycle_executeRefund: "lifecycle d (snd (executeRefund e ac pid p k c u amount why d))"
  by (auto simp: executeRefund_def Let_def intro!: lifecycle_writes split: sum.split)

lemma lifecycle_refundPayment: "lifecycle d (snd (refundPayment e ac pid dto d))"
  unfolding refundPayment_def
  by (cases "find_unique (payments d) pid")
    (auto simp: Let_def lifecycle_executeRefund request_refund_def
      intro!: lifecycle_context lifecycle_and_then lifecycle_writes)

lemma lifecycle_approveRefund: "lifecycle d (snd (approveRefundRequest e ac rid note d))"
proof (cases "find_unique (refund_requests d) rid")
  case None
  then show ?thesis by (simp add: approveRefundRequest_def)
next
  case (Some rr)
  have "lifecycle s (audit_record ca a ty nm md (decide_request e ac rid RR_APPROVED note s))" for s ca a ty nm md
    by (intro lifecycle_writes)
  with Some show ?thesis
    by (cases "find_unique (payments d) (rr_payment rr)")
      (auto simp: approveRefundRequest_def lifecycle_executeRefund intro!: lifecycle_context lifecycle_and_then)
qed

lemma lifecycle_rejectRefund: "lifecycle d (snd (rejectRefundRequest e ac rid note d))"
  by (auto simp: rejectRefundRequest_def included_def intro!: lifecycle_writes split: option.split)

lemma lifecycle_reconcile: "lifecycle d (snd (resolveReconciliation e ac pid dto d))"
  unfolding resolveReconciliation_def
  by (cases "find_unique (payments d) pid")
    (auto simp: Let_def intro!: lifecycle_context lifecycle_writes lifecycle_then_reconciliation)

lemma lifecycle_payment_expiry: "lifecycle d (snd (payment_expiry_loop e due d))"
proof (induction e due d rule: payment_expiry_loop.induct)
  case (2 e pid p rest d)
  show ?case
    unfolding payment_expiry_loop.simps
    by (rule lifecycle_context) (auto intro: lifecycle_trans [OF _ 2] lifecycle_writes lifecycle_payment)
qed simp

lemma lifecycle_runPaymentExpirySweep: "lifecycle d (snd (runPaymentExpirySweep e d))"
  unfolding runPaymentExpirySweep_def by (rule lifecycle_and_then [OF lifecycle_payment_expiry]) simp

section \<open>What a verified payment writes\<close>

text \<open>The case of a settled payment: paid, and scheduled when it was waiting for the payment.\<close>

definition paid_case :: "service_case \<Rightarrow> service_case" where
  "paid_case c = c\<lparr>c_payment_status := PS_PAID,
     c_status := (if c_status c = CS_AWAITING_PAYMENT then CS_SCHEDULED else c_status c)\<rparr>"

lemma settle_payment_Inr:
  assumes "find_unique (cases d) k = Some c"
  obtains d' where "settle_payment e ref pid k c u d = (Inr pid, d')"
    "payments d' = update_row pid (\<lambda>p. p\<lparr>p_status := PS_PAID, p_verified_at := Some (now e)\<rparr>) (payments d)"
    "\<And>k'. find_unique (cases d') k' = (if k' = k then Some (paid_case c) else find_unique (cases d) k')"
    "invoices d' = invoices d" "customers d' = customers d" "refunds d' = refunds d"
proof -
  let ?m = "mark_paid e ref pid k c u d"
  have m: "find_unique (cases ?m) k = Some (c\<lparr>c_payment_status := PS_PAID\<rparr>)"
    using assms by (simp add: mark_paid_def)
  show thesis
  proof (cases "c_status c = CS_AWAITING_PAYMENT")
    case True
    have "settle_payment e ref pid k c u d = (Inr pid, moved k CS_AWAITING_PAYMENT CS_SCHEDULED
        (Some ''Payment verified by Paystack webhook'') None By_System ?m)"
      using applyTransition_edge [OF m, of CS_SCHEDULED] True by (simp add: settle_payment_def transition_only)
    then show thesis
      by (rule that) (simp_all add: True mark_paid_def paid_case_def assms)
  next
    case False
    have "settle_payment e ref pid k c u d = (Inr pid, ?m)" using False by (simp add: settle_payment_def)
    then show thesis
      by (rule that) (simp_all add: False mark_paid_def paid_case_def assms)
  qed
qed

lemma verified_cases:
  assumes "handleVerifiedCasePayment e ref amount d = (Inr pid, d')"
  obtains p iv c cu where "find_payment ref d = Some (pid, p)" "kobo (p_amount p) = amount"
    "find_unique (invoices d) (p_invoice p) = Some iv" "find_unique (cases d) (iv_case iv) = Some c"
    "find_unique (customers d) (c_customer c) = Some cu"
    "if p_status p = PS_PAID then d' = d else settle_payment e ref pid (iv_case iv) c (cu_user cu) d = (Inr pid, d')"
proof -
  obtain i p where found: "find_payment ref d = Some (i, p)"
    using assms by (cases "find_payment ref d") (auto simp: handleVerifiedCasePayment_def)
  then have "payment_context p d (\<lambda>iv c cu. if kobo (p_amount p) \<noteq> amount
      then throw (Bad_Request STR ''Payment amount does not match invoice: flagged for Finance review'')
             (flag_mismatch i p (iv_case iv) amount d)
      else if p_status p = PS_PAID then return i d else settle_payment e ref i (iv_case iv) c (cu_user cu) d) = (Inr pid, d')"
    using assms by (simp add: handleVerifiedCasePayment_def)
  then show thesis
  proof (rule payment_context_Inr)
    fix iv :: invoice and c :: service_case and cu :: customer
    assume rows: "find_unique (invoices d) (p_invoice p) = Some iv" "find_unique (cases d) (iv_case iv) = Some c"
      "find_unique (customers d) (c_customer c) = Some cu"
      and run: "(if kobo (p_amount p) \<noteq> amount
        then throw (Bad_Request STR ''Payment amount does not match invoice: flagged for Finance review'')
             (flag_mismatch i p (iv_case iv) amount d)
        else if p_status p = PS_PAID then return i d
        else settle_payment e ref i (iv_case iv) c (cu_user cu) d) = (Inr pid, d')"
    have "kobo (p_amount p) = amount" using run by (cases "kobo (p_amount p) = amount") simp_all
    moreover have "i = pid"
      by (rule settle_payment_Inr [OF rows(2), of e ref i "cu_user cu"]) (use run in \<open>auto split: if_splits\<close>)
    ultimately show thesis using run found rows by (intro that) (auto split: if_splits)
  qed
qed

lemma lifecycle_settle: "lifecycle d (snd (settle_payment e ref pid k c u d))"
proof -
  have "lifecycle d (mark_paid e ref pid k c u d)"
    unfolding mark_paid_def by (intro lifecycle_writes)
  then show ?thesis
    by (auto simp: settle_payment_def intro!: lifecycle_and_then intro: lifecycle_trans)
qed

lemma lifecycle_handleVerified: "lifecycle d (snd (handleVerifiedCasePayment e ref amount d))"
  by (cases "find_payment ref d")
    (auto simp: handleVerifiedCasePayment_def lifecycle_flag lifecycle_settle intro!: lifecycle_context split: prod.split)

lemma lifecycle_poll_one: "lifecycle d (snd (poll_one e pid p n d))"
  using lifecycle_handleVerified [of d e "p_reference p"] lifecycle_handleFailed [of d e "p_reference p"]
  by (auto simp: poll_one_def intro!: lifecycle_audit lifecycle_payment
      split: sum.split option.split verify_status.split prod.split) (metis snd_conv)+

lemma lifecycle_poll: "lifecycle d (snd (runPaymentVerificationSweep e d))"
proof -
  have "lifecycle d (snd (poll_loop e due n d))" for due n d
  proof (induction due arbitrary: n d)
    case (Cons x due)
    then show ?case
      using lifecycle_poll_one [of d e "fst x" "snd x" n]
      by (cases x; cases "poll_one e (fst x) (snd x) n d") (auto intro: lifecycle_trans)
  qed simp
  then show ?thesis
    by (simp add: runPaymentVerificationSweep_def split: prod.split) (metis snd_conv)
qed

section \<open>Redelivered webhooks\<close>

lemma find_payment_update:
  "(\<And>p. p_reference (f p) = p_reference p) \<Longrightarrow> find_payment ref d = Some (pid, p) \<Longrightarrow>
     payments d' = update_row pid f (payments d) \<Longrightarrow> find_payment ref d' = Some (pid, f p)"
  by (simp add: find_payment_def update_row_def find_first_update_many)

lemma verified_again:
  assumes "handleVerifiedCasePayment e ref amount d = (Inr pid, d1)"
  shows "handleVerifiedCasePayment e' ref amount d1 = (Inr pid, d1)"
  using assms
proof (rule verified_cases)
  fix p and iv :: invoice and c :: service_case and cu :: customer
  assume found: "find_payment ref d = Some (pid, p)" and kobo: "kobo (p_amount p) = amount"
    and rows: "find_unique (invoices d) (p_invoice p) = Some iv" "find_unique (cases d) (iv_case iv) = Some c"
      "find_unique (customers d) (c_customer c) = Some cu"
    and run: "if p_status p = PS_PAID then d1 = d
      else settle_payment e ref pid (iv_case iv) c (cu_user cu) d = (Inr pid, d1)"
  show ?thesis
  proof (cases "p_status p = PS_PAID")
    case True
    with run found kobo rows show ?thesis
      by (simp add: handleVerifiedCasePayment_def payment_context_simp)
  next
    case False
    show ?thesis
    proof (rule settle_payment_Inr [OF rows(2), of e ref pid "cu_user cu"])
      fix d'
      assume "settle_payment e ref pid (iv_case iv) c (cu_user cu) d = (Inr pid, d')"
      then have d1: "d' = d1" using run False by simp
      assume "payments d' = update_row pid (\<lambda>p. p\<lparr>p_status := PS_PAID, p_verified_at := Some (now e)\<rparr>) (payments d)"
        and row: "\<And>k'. find_unique (cases d') k' = (if k' = iv_case iv then Some (paid_case c) else find_unique (cases d) k')"
        and same: "invoices d' = invoices d" "customers d' = customers d"
      then have "find_payment ref d1 = Some (pid, p\<lparr>p_status := PS_PAID, p_verified_at := Some (now e)\<rparr>)"
        using find_payment_update [OF _ found, where f = "\<lambda>p. p\<lparr>p_status := PS_PAID, p_verified_at := Some (now e)\<rparr>"]
        by (simp add: d1)
      moreover have "payment_context (p\<lparr>p_status := PS_PAID, p_verified_at := Some (now e)\<rparr>) d1 f
          = f iv (paid_case c) cu" for f :: "invoice \<Rightarrow> service_case \<Rightarrow> customer \<Rightarrow> nat result"
        using row same rows by (intro payment_context_simp) (simp_all add: d1 paid_case_def)
      ultimately show ?thesis using kobo by (simp add: handleVerifiedCasePayment_def)
    qed
  qed
qed

lemma sub_verified_cases:
  assumes "handleVerifiedSubscriptionPayment e ref amount d = (Inr iid, d')"
  obtains i s cu where "find_sub_invoice ref d = Some (iid, i)" "kobo (si_amount i) = amount"
    "find_unique (subscriptions d) (si_subscription i) = Some s" "find_unique (customers d) (s_customer s) = Some cu"
    "if si_status i = PS_PAID then d' = d else
      sub_invoices d' = update_row iid (\<lambda>i. i\<lparr>si_status := PS_PAID, si_paid_at := Some (now e)\<rparr>) (sub_invoices d)
      \<and> customers d' = customers d
      \<and> subscriptions d' = (if s_status s = SS_PENDING
          then update_row (si_subscription i) (\<lambda>s. s\<lparr>s_status := SS_ACTIVE, s_renews := Some (si_end i)\<rparr>) (subscriptions d)
          else subscriptions d)
      \<and> (\<exists>plan. getConfig (s_plan s) d = Inr plan
          \<and> getBalanceUsd (si_subscription i) d' = getBalanceUsd (si_subscription i) d + dec2 \<bar>pc_sc_grant_usd plan\<bar>)"
proof -
  obtain j i where found: "find_sub_invoice ref d = Some (j, i)"
    using assms by (cases "find_sub_invoice ref d") (auto simp: handleVerifiedSubscriptionPayment_def)
  obtain s where s: "find_unique (subscriptions d) (si_subscription i) = Some s"
    using assms found by (cases "find_unique (subscriptions d) (si_subscription i)")
      (simp_all add: handleVerifiedSubscriptionPayment_def)
  obtain cu where cu: "find_unique (customers d) (s_customer s) = Some cu"
    using assms found s by (cases "find_unique (customers d) (s_customer s)")
      (simp_all add: handleVerifiedSubscriptionPayment_def)
  have kobo: "kobo (si_amount i) = amount"
    using assms found s cu by (cases "kobo (si_amount i) = amount")
      (simp_all add: handleVerifiedSubscriptionPayment_def)
  show thesis
  proof (cases "si_status i = PS_PAID")
    case True
    with assms found s cu kobo show thesis
      by (intro that [OF _ kobo s cu]) (simp_all add: handleVerifiedSubscriptionPayment_def)
  next
    case False
    let ?d1 = "d\<lparr>sub_invoices := update_row j (\<lambda>i. i\<lparr>si_status := PS_PAID, si_paid_at := Some (now e)\<rparr>) (sub_invoices d)\<rparr>"
    let ?d2 = "if s_status s = SS_PENDING
      then audit_record None None By_System STR ''concierge.subscribed''
                  [(STR ''subscriptionId'', J_Id (si_subscription i)), (STR ''subscriptionInvoiceId'', J_Id j),
                   (STR ''reference'', J_Ref ref)]
                  (?d1\<lparr>subscriptions := update_row (si_subscription i)
                     (\<lambda>s. s\<lparr>s_status := SS_ACTIVE, s_renews := Some (si_end i)\<rparr>) (subscriptions ?d1)\<rparr>)
      else ?d1"
    have conf: "getConfig (s_plan s) ?d2 = getConfig (s_plan s) d"
      by (simp add: getConfig_def find_config_def)
    have d2: "sub_invoices ?d2 = sub_invoices ?d1" "customers ?d2 = customers d" "sc_entries ?d2 = sc_entries d"
      "subscriptions ?d2 = (if s_status s = SS_PENDING
          then update_row (si_subscription i) (\<lambda>s. s\<lparr>s_status := SS_ACTIVE, s_renews := Some (si_end i)\<rparr>) (subscriptions d)
          else subscriptions d)"
      by simp_all
    obtain plan t b where plan: "getConfig (s_plan s) d = Inr plan" and j: "j = iid"
      and d': "d' = notify e (cu_user cu) t b
          (audit_record None None By_System STR ''concierge.subscription_payment_verified''
             [(STR ''subscriptionInvoiceId'', J_Id j), (STR ''reference'', J_Ref ref)] (sc_grant (si_subscription i) (pc_sc_grant_usd plan) ?d2))"
      using assms
      unfolding handleVerifiedSubscriptionPayment_def found option.case prod.case included_simps(1) [OF s]
        included_simps(1) [OF cu] Let_def conf if_not_P [OF False]
      using kobo by (cases "getConfig (s_plan s) d") (auto split del: if_split)
    have "getBalanceUsd (si_subscription i) ?d2 = getBalanceUsd (si_subscription i) d"
      by (rule balance_cong) (rule d2(3))
    with found s cu kobo False j plan d2 show thesis
      by (intro that [OF _ kobo s cu]) (simp_all add: d' balance_grant split del: if_split)
  qed
qed

lemma find_sub_invoice_update:
  "(\<And>i. si_reference (f i) = si_reference i) \<Longrightarrow> find_sub_invoice ref d = Some (iid, i) \<Longrightarrow>
     sub_invoices d' = update_row iid f (sub_invoices d) \<Longrightarrow> find_sub_invoice ref d' = Some (iid, f i)"
  by (simp add: find_sub_invoice_def update_row_def find_first_update_many)

lemma sub_verified_again:
  assumes "handleVerifiedSubscriptionPayment e ref amount d = (Inr iid, d1)"
  shows "handleVerifiedSubscriptionPayment e' ref amount d1 = (Inr iid, d1)"
  using assms
proof (rule sub_verified_cases)
  fix i and s :: subscription and cu :: customer
  assume found: "find_sub_invoice ref d = Some (iid, i)" and kobo: "kobo (si_amount i) = amount"
    and rows: "find_unique (subscriptions d) (si_subscription i) = Some s" "find_unique (customers d) (s_customer s) = Some cu"
    and run: "if si_status i = PS_PAID then d1 = d else
      sub_invoices d1 = update_row iid (\<lambda>i. i\<lparr>si_status := PS_PAID, si_paid_at := Some (now e)\<rparr>) (sub_invoices d)
      \<and> customers d1 = customers d
      \<and> subscriptions d1 = (if s_status s = SS_PENDING
          then update_row (si_subscription i) (\<lambda>s. s\<lparr>s_status := SS_ACTIVE, s_renews := Some (si_end i)\<rparr>) (subscriptions d)
          else subscriptions d)
      \<and> (\<exists>plan. getConfig (s_plan s) d = Inr plan
          \<and> getBalanceUsd (si_subscription i) d1 = getBalanceUsd (si_subscription i) d + dec2 \<bar>pc_sc_grant_usd plan\<bar>)"
  show ?thesis
  proof (cases "si_status i = PS_PAID")
    case True
    with run found kobo rows show ?thesis by (simp add: handleVerifiedSubscriptionPayment_def)
  next
    case False
    with run have "find_sub_invoice ref d1 = Some (iid, i\<lparr>si_status := PS_PAID, si_paid_at := Some (now e)\<rparr>)"
      using find_sub_invoice_update [OF _ found, where f = "\<lambda>i. i\<lparr>si_status := PS_PAID, si_paid_at := Some (now e)\<rparr>"] by simp
    moreover have "\<exists>s'. find_unique (subscriptions d1) (si_subscription i) = Some s' \<and> s_customer s' = s_customer s"
      using run False rows by simp
    ultimately show ?thesis
      using run False rows kobo by (auto simp: handleVerifiedSubscriptionPayment_def)
  qed
qed

section \<open>Refunds stay within the payment\<close>

text \<open>The refunds recorded for a payment, in whole kobo, never exceed its amount.\<close>

definition refunds_ok :: "db \<Rightarrow> bool" where
  "refunds_ok d \<longleftrightarrow> (\<forall>pid p. find_unique (payments d) pid = Some p \<longrightarrow> refunded pid d \<le> p_amount p \<and> cents (p_amount p))
     \<and> (\<forall>(_, r) \<in> set (t_rows (refunds d)). cents (rf_amount r))"

lemma refunded_cong: "refunds d' = refunds d \<Longrightarrow> refunded pid d' = refunded pid d"
  by (simp add: refunded_def)

lemma refunded_insert:
  "refunds d' = insert_row r (refunds d) \<Longrightarrow> refunded pid d' = refunded pid d + (if rf_payment r = pid then rf_amount r else 0)"
  by (simp add: refunded_def)

lemma refunded_cents:
  assumes "refunds_ok d"
  shows "cents (refunded pid d)"
  unfolding refunded_def using assms
  by (intro cents_sum_list) (auto simp: refunds_ok_def find_many_def)

lemma executeRefund_Inr:
  assumes "executeRefund e ac pid p k c u amount why d = (Inr rid, d')"
  shows "refunds d' = insert_row \<lparr>rf_payment = pid, rf_amount = dec2 amount, rf_reason = why, rf_actor = Some (act_id ac)\<rparr> (refunds d)"
    and "payments d' = update_row pid (\<lambda>q. q\<lparr>p_status := (if p_amount p \<le> amount + refunded pid d then PS_REFUNDED
           else PS_PARTIALLY_REFUNDED)\<rparr>) (payments d)"
    and "rid = t_next (refunds d)" "refund_requests d' = refund_requests d"
  using assms by (auto simp: executeRefund_def Let_def remainingRefundable_def split: sum.splits)

lemma executeRefund_Inl:
  "executeRefund e ac pid p k c u amount why d = (Inl err, d') \<Longrightarrow> d' = d"
  by (auto simp: executeRefund_def Let_def split: sum.splits)

lemma executeRefund_ok:
  assumes ok: "refunds_ok d" and p: "find_unique (payments d) pid = Some p"
    and amount: "amount \<le> remainingRefundable pid (p_amount p) d"
    and run: "executeRefund e ac pid p k c u amount why d = (Inr rid, d')"
  shows "refunds_ok d'"
proof -
  note eff = executeRefund_Inr [OF run]
  have "cents (p_amount p - refunded pid d)"
    using ok p refunded_cents [OF ok] by (auto simp: refunds_ok_def)
  then have le: "dec2 amount \<le> p_amount p - refunded pid d"
    using amount by (intro dec2_le_cents) (simp_all add: remainingRefundable_def)
  have "refunded k d' \<le> p_amount q \<and> cents (p_amount q)" if q: "find_unique (payments d') k = Some q" for k q
  proof (cases "k = pid")
    case True
    then have "p_amount q = p_amount p" using q p eff(2) by (auto split: if_splits)
    moreover have "refunded k d' = refunded pid d + dec2 amount" using True by (simp add: refunded_insert [OF eff(1)])
    ultimately show ?thesis using le ok p by (auto simp: refunds_ok_def)
  next
    case False
    then have "find_unique (payments d) k = Some q" using q eff(2) by simp
    with ok False show ?thesis by (simp add: refunds_ok_def refunded_insert [OF eff(1)])
  qed
  moreover have "\<forall>(_, r) \<in> set (t_rows (refunds d')). cents (rf_amount r)"
    using ok by (auto simp: eff(1) refunds_ok_def insert_row_def)
  ultimately show ?thesis by (simp add: refunds_ok_def)
qed

lemma refunds_ok_cong: "refunds d' = refunds d \<Longrightarrow> payments d' = payments d \<Longrightarrow> refunds_ok d' = refunds_ok d"
  by (simp add: refunds_ok_def refunded_def)

text \<open>What a refund that went through has checked.\<close>

lemma refundPayment_Inr:
  assumes "refundPayment e ac pid dto d = (Inr out, d')"
  obtains p and iv :: invoice and c :: service_case and cu :: customer and requested where
    "find_unique (payments d) pid = Some p" "refundable p"
    "requested = (case rx_amount dto of Some a \<Rightarrow> a | None \<Rightarrow> remainingRefundable pid (p_amount p) d)"
    "0 < requested" "requested \<le> remainingRefundable pid (p_amount p) d"
    "if refundApprovalThresholdNgn e < requested
     then request_refund e ac pid (iv_case iv) requested (rx_reason dto) d = (Inr out, d')
     else \<exists>rid. out = Refund_Executed rid
        \<and> executeRefund e ac pid p (iv_case iv) c (cu_user cu) requested (Some (rx_reason dto)) d = (Inr rid, d')"
proof -
  obtain p where p: "find_unique (payments d) pid = Some p"
    using assms by (cases "find_unique (payments d) pid") (simp_all add: refundPayment_def)
  let ?rem = "remainingRefundable pid (p_amount p) d"
  let ?req = "case rx_amount dto of Some a \<Rightarrow> a | None \<Rightarrow> ?rem"
  from assms show thesis
    unfolding refundPayment_def p option.case Let_def
  proof (rule payment_context_Inr)
    fix iv :: invoice and c :: service_case and cu :: customer
    assume run: "(if \<not> refundable p then throw (Bad_Request STR ''Cannot refund a payment in this status'') d
       else if ?req \<le> 0 \<or> ?rem < ?req
       then throw (Bad_Request STR ''Refund amount must be between 0 and the remaining refundable amount'') d
       else if refundApprovalThresholdNgn e < ?req
       then request_refund e ac pid (iv_case iv) ?req (rx_reason dto) d
       else and_then (executeRefund e ac pid p (iv_case iv) c (cu_user cu) ?req (Some (rx_reason dto)) d)
             (\<lambda>rid. return (Refund_Executed rid))) = (Inr out, d')"
    have st: "refundable p" using run by (cases "refundable p") simp_all
    have range: "\<not> (?req \<le> 0 \<or> ?rem < ?req)" using run st by (cases "?req \<le> 0 \<or> ?rem < ?req") simp_all
    show thesis
      by (rule that [OF p st refl])
        (use run st range in \<open>auto simp: not_le not_less and_then_Inr_iff split: if_splits\<close>)
  qed
qed

lemma refundPayment_Inl: "refundPayment e ac pid dto d = (Inl err, d') \<Longrightarrow> d' = d"
  by (auto simp: refundPayment_def payment_context_def included_def Let_def and_then_def request_refund_def
      dest: executeRefund_Inl split: option.splits if_splits prod.splits sum.splits)

lemma approveRefund_Inr:
  assumes "approveRefundRequest e ac requestId note d = (Inr rid, d')"
  obtains rr p and iv :: invoice and c :: service_case and cu :: customer and d1 where
    "find_unique (refund_requests d) requestId = Some rr" "find_unique (payments d) (rr_payment rr) = Some p"
    "rr_status rr = RR_PENDING" "rr_requested_by rr \<noteq> act_id ac" "refundable p"
    "0 < rr_amount rr" "rr_amount rr \<le> remainingRefundable (rr_payment rr) (p_amount p) d"
    "executeRefund e ac (rr_payment rr) p (iv_case iv) c (cu_user cu) (rr_amount rr) (Some (rr_reason rr)) d = (Inr rid, d1)"
    "refunds d' = refunds d1" "payments d' = payments d1"
    "refund_requests d' = refund_requests (decide_request e ac requestId RR_APPROVED note d1)"
proof -
  obtain rr where rr: "find_unique (refund_requests d) requestId = Some rr"
    using assms by (cases "find_unique (refund_requests d) requestId") (simp_all add: approveRefundRequest_def)
  obtain p where p: "find_unique (payments d) (rr_payment rr) = Some p"
    using assms rr by (cases "find_unique (payments d) (rr_payment rr)") (simp_all add: approveRefundRequest_def)
  from assms show thesis
    unfolding approveRefundRequest_def rr option.case included_simps(1) [OF p]
  proof (rule payment_context_Inr)
    fix iv :: invoice and c :: service_case and cu :: customer
    assume run: "(if rr_status rr \<noteq> RR_PENDING then throw (Bad_Request STR ''Refund request is already decided'') d
     else if rr_requested_by rr = act_id ac
     then throw (Forbidden STR ''The refund cannot be approved by the same person who requested it'') d
     else if \<not> refundable p then throw (Bad_Request STR ''Cannot refund a payment in this status'') d
     else if rr_amount rr \<le> 0 \<or> remainingRefundable (rr_payment rr) (p_amount p) d < rr_amount rr
     then throw (Bad_Request STR ''Refund amount must be between 0 and the remaining refundable amount'') d
     else and_then (executeRefund e ac (rr_payment rr) p (iv_case iv) c (cu_user cu) (rr_amount rr)
                      (Some (rr_reason rr)) d) (\<lambda>rid d1.
       return rid
         (audit_record (Some (iv_case iv)) (Some (act_id ac)) By_User STR ''payment.refund_request_approved''
            [(STR ''refundRequestId'', J_Id requestId), (STR ''paymentId'', J_Id (rr_payment rr)),
             (STR ''amount'', J_Num (rr_amount rr)), (STR ''note'', json_option J_Text note)]
          (decide_request e ac requestId RR_APPROVED note d1)))) = (Inr rid, d')"
    have st: "rr_status rr = RR_PENDING" using run by (cases "rr_status rr = RR_PENDING") simp_all
    have other: "rr_requested_by rr \<noteq> act_id ac" using run st by (cases "rr_requested_by rr = act_id ac") simp_all
    have paid: "refundable p" using run st other by (cases "refundable p") simp_all
    have range: "\<not> (rr_amount rr \<le> 0 \<or> remainingRefundable (rr_payment rr) (p_amount p) d < rr_amount rr)"
      using run st other paid
      by (cases "rr_amount rr \<le> 0 \<or> remainingRefundable (rr_payment rr) (p_amount p) d < rr_amount rr") simp_all
    show thesis
      using run st other paid range
      by (auto simp: and_then_Inr_iff decide_request_def not_le not_less intro!: that [OF rr p])
  qed
qed

section \<open>The expiry sweep\<close>

text \<open>The foreign keys of a payment: its invoice, the case of that and the customer of that exist.\<close>

definition linked :: "db \<Rightarrow> payment \<Rightarrow> bool" where
  "linked d p \<longleftrightarrow> (\<exists>iv c cu. find_unique (invoices d) (p_invoice p) = Some iv
     \<and> find_unique (cases d) (iv_case iv) = Some (c :: service_case)
     \<and> find_unique (customers d) (c_customer c) = Some (cu :: customer))"

lemma payment_expiry_effect:
  assumes "\<forall>p \<in> snd ` set due. linked d p"
  shows "\<exists>d'. payment_expiry_loop e due d = (Inr (), d') \<and> cases d' = cases d
    \<and> (\<forall>k. find_unique (payments d') k = map_option (\<lambda>p. if k \<in> fst ` set due then p\<lparr>p_status := PS_EXPIRED\<rparr> else p)
         (find_unique (payments d) k))"
  using assms
proof (induction due arbitrary: d)
  case Nil
  then show ?case by (simp add: option.map_ident)
next
  case (Cons x rest)
  obtain pid p where x: "x = (pid, p)" by (cases x)
  obtain iv and c :: service_case and cu :: customer where ctx: "find_unique (invoices d) (p_invoice p) = Some iv"
    "find_unique (cases d) (iv_case iv) = Some c" "find_unique (customers d) (c_customer c) = Some cu"
    using Cons.prems x by (auto simp: linked_def)
  let ?d = "notify e (cu_user cu) STR ''Your payment window expired''
          [J_Lit STR ''The payment window for '', J_Text (c_number c),
           J_Lit STR '' has expired: you can start a new payment from your case page.'']
        (audit_record (Some (iv_case iv)) None By_System STR ''payment.expired''
          [(STR ''paymentId'', J_Id pid), (STR ''providerReference'', J_Ref (p_reference p)),
           (STR ''createdAt'', J_Time (p_created p))]
        (set_payment pid PS_EXPIRED d))"
  have step: "payment_expiry_loop e (x # rest) d = payment_expiry_loop e rest ?d"
    by (simp add: x payment_context_simp [OF ctx])
  have "\<forall>p \<in> snd ` set rest. linked ?d p"
    using Cons.prems by (simp add: linked_def)
  from Cons.IH [OF this] obtain d' where "payment_expiry_loop e rest ?d = (Inr (), d')" "cases d' = cases ?d"
    and eff: "\<forall>k. find_unique (payments d') k = map_option (\<lambda>p. if k \<in> fst ` set rest then p\<lparr>p_status := PS_EXPIRED\<rparr> else p)
         (find_unique (payments ?d) k)" by blast
  moreover have "find_unique (payments d') k = map_option
      (\<lambda>p. if k \<in> fst ` set (x # rest) then p\<lparr>p_status := PS_EXPIRED\<rparr> else p) (find_unique (payments d) k)" for k
    using eff by (cases "find_unique (payments d) k") (auto simp: x)
  ultimately show ?case using step by auto
qed

end
