(* ===== verification/Sample.thy ===== *)
theory Sample
  imports Payments
begin

text \<open>
  A small concrete database and environment on which the witnesses of the properties are
  evaluated: one customer with a portal login, two members of staff and a case.
\<close>

definition sample_env :: env where
  "sample_env = \<lparr>now = 1000, sla_hours_env = (\<lambda>_. None), sla_multiplier_env = (\<lambda>_. None),
     usd_to_ngn_env = None, payment_expiry_env = None, quote_validity_env = None, fx_lock_env = None,
     refund_threshold_env = None, verification_age_env = None, whatsapp_configured = False,
     email_configured = False, delivers = (\<lambda>_. True), fx_rates = (\<lambda>_. None), random_hex = 7,
     initializeTransaction = (\<lambda>_ _. Inr (''url'', True)), refundTransaction = (\<lambda>_ _. Inr True),
     verifyTransaction = (\<lambda>_. Inl (Internal STR ''down'')),
     object_exists = (\<lambda>_. True), transcribe = (\<lambda>_. None), argon_hash = (\<lambda>p. CHR ''$'' # p),
     argon_verify = (\<lambda>h p. h = CHR ''$'' # p), sha256 = (\<lambda>s. CHR ''#'' # s), hmac_sha1 = (\<lambda>k m. k @ m),
     random_codes = [[0, 1, 2, 3, 4, 5]], random_token = ''t''\<rparr>"

definition sample_user :: "role \<Rightarrow> user" where
  "sample_user r = \<lparr>u_email = None, u_phone = None, u_role = r, u_preferred_channel = None, u_billing_currency = None,
     u_country = None, u_password_hash = None, u_active = True, u_mfa_enabled = False, u_mfa_secret = None\<rparr>"

definition rows :: "'r list \<Rightarrow> 'r table" where
  "rows rs = insert_rows rs empty_table"

definition sample_customer :: customer where
  "sample_customer = \<lparr>cu_user = 1, cu_name = ''Ada'', cu_rm = None, cu_referral_code = ''ABCDEF'',
     cu_referred_by = None, cu_partner = None, cu_account = None\<rparr>"

text \<open>User 1 is the customer, 2 a case manager, 3 and 4 work in finance.\<close>

definition sample_people :: db where
  "sample_people = empty_db\<lparr>
     users := rows [sample_user R_CUSTOMER, sample_user R_CASE_MANAGER, sample_user R_FINANCE, sample_user R_FINANCE],
     customers := rows [sample_customer]\<rparr>"

definition client :: actor where
  "client = \<lparr>act_id = 1, act_role = R_CUSTOMER\<rparr>"

definition manager :: actor where
  "manager = \<lparr>act_id = 2, act_role = R_CASE_MANAGER\<rparr>"

definition accountant :: actor where
  "accountant = \<lparr>act_id = 3, act_role = R_FINANCE\<rparr>"

definition accountant2 :: actor where
  "accountant2 = \<lparr>act_id = 4, act_role = R_FINANCE\<rparr>"

definition sample_case :: "case_status \<Rightarrow> service_case" where
  "sample_case s = (new_case 1 ST_PROPERTY_INSPECTION ''Visit'' ''Lekki, Lagos'' CP_STANDARD 1 CT_ESSENTIAL
     None None None None 5000)\<lparr>c_status := s, c_number := case_number 1\<rparr>"

definition sample_db :: "case_status \<Rightarrow> db" where
  "sample_db s = sample_people\<lparr>cases := rows [sample_case s]\<rparr>"

lemmas sample_defs = sample_customer_def sample_env_def sample_user_def rows_def sample_people_def client_def manager_def
  accountant_def accountant2_def sample_case_def sample_db_def new_case_def empty_db_def

end
