(* ===== verification/Case_Properties.thy ===== *)
theory Case_Properties
  imports Sample
begin

text \<open>
  The properties of single operations on cases: what a transition, a hold and its release, a
  dispute and its resolution and an approval do, on every branch.
\<close>

text \<open>C1. A case moves exactly along the edges of its status map: a transition succeeds if and only
  if the case exists and the target is among the allowed transitions of its current status; then
  the case has the new status and no other column and no other case has changed, and one row of
  history and one audit event are appended. A refused transition leaves the database as it was.\<close>

theorem transition_exact:
  "case transitionCase ac k s reason d of
     (Inr _, d') \<Rightarrow> (\<exists>c. find_unique (cases d) k = Some c \<and> s \<in> set (getAllowedTransitions (c_status c))
         \<and> map snd (t_rows (history d')) = map snd (t_rows (history d))
             @ [\<lparr>h_case = k, h_from = Some (c_status c), h_to = s, h_by = Some (act_id ac), h_reason = reason\<rparr>])
       \<and> (\<forall>k'. find_unique (cases d') k' = (if k' = k then map_option (\<lambda>c. c\<lparr>c_status := s\<rparr>) (find_unique (cases d) k)
                                             else find_unique (cases d) k'))
       \<and> length (t_rows (audit_log d')) = Suc (length (t_rows (audit_log d)))
   | (Inl err, d') \<Rightarrow> d' = d
       \<and> (err = Not_Found STR ''Case not found'' \<and> find_unique (cases d) k = None
          \<or> (\<exists>c. find_unique (cases d) k = Some c \<and> s \<notin> set (getAllowedTransitions (c_status c))
               \<and> err = Invalid_Transition (c_status c) s))"
proof (cases "find_unique (cases d) k")
  case None
  then show ?thesis by (simp add: transition_only applyTransition_def)
next
  case (Some c)
  show ?thesis
  proof (cases "s \<in> set (case_transitions (c_status c))")
    case True
    then show ?thesis
      by (simp add: transition_only applyTransition_edge [OF Some] Some getAllowedTransitions_def)
        (simp add: moved_def)
  next
    case False
    then show ?thesis
      by (simp add: transition_only applyTransition_def assertValidTransition_def Some getAllowedTransitions_def)
  qed
qed

text \<open>C2. Hold and resume are inverse: a case that may be held goes on hold, resuming it brings back
  exactly the row it had, and neither touches another case.\<close>

theorem hold_resume:
  assumes "find_unique (cases d) k = Some c" "c_status c \<notin> {CS_ON_HOLD, CS_COMPLETED, CS_CLOSED}"
    and "c_held_from c = None"
  shows "\<exists>d1 d2. holdCase ac k why d = (Inr (), d1) \<and> find_unique (cases d1) k =
        Some (c\<lparr>c_status := CS_ON_HOLD, c_held_from := Some (c_status c)\<rparr>)
      \<and> resumeCase ac' k why' d1 = (Inr (), d2)
      \<and> (\<forall>k'. find_unique (cases d2) k' = find_unique (cases d) k')"
  using assms by (simp add: holdCase_def resumeCase_def)

theorem hold_resume_witness:
  "\<exists>d1 d2. holdCase manager 1 ''rain'' (sample_db CS_SCHEDULED) = (Inr (), d1) \<and> find_unique (cases d1) 1 =
        Some ((sample_case CS_SCHEDULED)\<lparr>c_status := CS_ON_HOLD, c_held_from := Some CS_SCHEDULED\<rparr>)
      \<and> resumeCase manager 1 None d1 = (Inr (), d2)
      \<and> (\<forall>k'. find_unique (cases d2) k' = find_unique (cases (sample_db CS_SCHEDULED)) k')"
  using hold_resume [of "sample_db CS_SCHEDULED" 1 "sample_case CS_SCHEDULED" manager "''rain''" manager None]
  by (simp add: sample_defs insert_rows_def insert_row_def find_unique_def empty_table_def)

end
