(* ===== verification/Commerce_Properties.thy ===== *)
theory Commerce_Properties
  imports Sample
begin

text \<open>The properties of intake and commerce: requests, automation, quotes, benefits and billing.\<close>

text \<open>C14. A service request made under an idempotency key is made once: whatever the retry says, and
  whenever it comes, the call repeated under the key by the same user answers with the same request
  and writes nothing.\<close>

theorem request_once:
  assumes "idem_ok d" "wf_table (requests d)" "key \<noteq> None" "key \<noteq> Some []"
    and "createServiceRequest e usr dto key d = (Inr rid, d')"
  shows "createServiceRequest e' usr dto' key d' = (Inr rid, d')"
proof -
  have replay: "createServiceRequest e' usr dto' key d' = (Inr rid, d')"
    if "idem_begin (IO_SERVICE_REQUEST_CREATE, the key, act_id usr) d' = (Inr (Replay ref), d')"
      "reload_request ref d' = (Inr rid, d')" for ref
    using that(2) unfolding createServiceRequest_def by (simp only: with_idempotency_replays [OF assms(3, 4) that(1)])
  show ?thesis
  proof (rule with_idempotency_Inr [OF assms(1, 3, 4) _ assms(5) [unfolded createServiceRequest_def]])
    fix ref
    assume ref: "idem_begin (IO_SERVICE_REQUEST_CREATE, the key, act_id usr) d = (Inr (Replay ref), d)"
      "reload_request ref d = (Inr rid, d')"
    then have "d' = d" by (auto simp: reload_request_def split: option.splits)
    with ref show ?thesis by (intro replay) simp_all
  next
    fix i d1 d2
    let ?k = "(IO_SERVICE_REQUEST_CREATE, the key, act_id usr)"
    assume fresh: "idem_begin ?k d = (Inr Should_Proceed, d1)" and body: "doCreateServiceRequest e usr dto d1 = (Inr i, d2)"
      and d': "rid = i" "d' = idem_complete ?k i d2" and again: "idem_begin ?k d' = (Inr (Replay (Some i)), d')"
    have "wf_table (requests d1)" using assms(2) idem_begin_frame [OF fresh] by simp
    then have "find_unique (requests d2) i \<noteq> None" by (rule doCreateServiceRequest_Inr(3) [OF body])
    then have "reload_request (Some i) d' = (Inr rid, d')" by (auto simp: reload_request_def d')
    with again show ?thesis by (rule replay)
  qed (rule doCreateServiceRequest_Inr(2))
qed

definition visit_request :: request_dto where
  "visit_request = \<lparr>rd_raw_description = ''Please visit my house'', rd_location = Some ''Lekki'',
     rd_channel = STR ''WEB'', rd_service_type = Some ST_PROPERTY_INSPECTION\<rparr>"

theorem request_once_witness:
  "\<exists>d'. createServiceRequest sample_env client visit_request (Some ''k'') sample_people = (Inr 1, d')
     \<and> createServiceRequest sample_env client (visit_request\<lparr>rd_location := None\<rparr>) (Some ''k'') d' = (Inr 1, d')"
proof -
  let ?r = "createServiceRequest sample_env client visit_request (Some ''k'') sample_people"
  have "fst ?r = Inr 1" by code_simp
  then have run: "?r = (Inr 1, snd ?r)" by (simp add: prod_eq_iff)
  have "idem_ok sample_people" "wf_table (requests sample_people)"
    by (simp_all add: idem_ok_def sample_people_def empty_db_def empty_table_def wf_table_def)
  with request_once [OF _ _ _ _ run, of sample_env "visit_request\<lparr>rd_location := None\<rparr>"] run show ?thesis by blast
qed

text \<open>A request becomes at most one case: once staff or the automation have converted it, the request
  names its case, a second conversion is refused, the automatic one does nothing, and neither
  writes anything.\<close>

theorem conversion_once:
  assumes "convertToCase e ac rid dto d = (Inr cid, d') \<or> autoConvert e rid d = d' \<and> d' \<noteq> d \<and> cid = t_next (cases d)"
  shows "(\<exists>rq. find_unique (requests d') rid = Some rq \<and> rq_converted rq = Some cid)
    \<and> convertToCase e' ac' rid dto' d' = (Inl (Not_Found STR ''Service request has already been converted''), d')
    \<and> autoConvert e' rid d' = d'"
proof -
  have "\<exists>rq. find_unique (requests d') rid = Some rq \<and> rq_converted rq = Some cid"
    using assms convertToCase_marks autoConvert_marks [of e rid d] by auto
  then show ?thesis using converted_stays by fastforce
qed

definition asked_db :: db where
  "asked_db = (snd (doCreateServiceRequest sample_env client visit_request sample_people))
     \<lparr>decisions := empty_table, capabilities := rows [\<lparr>cap_service = ST_PROPERTY_INSPECTION, cap_enabled = True\<rparr>],
      automation_rules := rows [\<lparr>ar_capability = 1, ar_kind = AK_REQUIRED_FIELDS, ar_fields = Some [''location''],
        ar_keywords = None, ar_sort = 0\<rparr>]\<rparr>"

definition visit_dto :: convert_dto where
  "visit_dto = \<lparr>cd_service = ST_PROPERTY_INSPECTION, cd_description = ''Visit'', cd_location = ''Lekki'',
     cd_priority = None, cd_risk = None, cd_tier = None, cd_beneficiary = None, cd_property = None, cd_asset = None\<rparr>"

theorem conversion_once_witness:
  "\<exists>d'. convertToCase sample_env manager 1 visit_dto asked_db = (Inr 1, d')
     \<and> convertToCase sample_env manager 1 visit_dto d' = (Inl (Not_Found STR ''Service request has already been converted''), d')"
proof -
  let ?r = "convertToCase sample_env manager 1 visit_dto asked_db"
  have "fst ?r = Inr 1" by code_simp
  then have run: "?r = (Inr 1, snd ?r)" by (simp add: prod_eq_iff)
  with conversion_once [OF disjI1 [OF run], of sample_env manager visit_dto] show ?thesis by blast
qed

text \<open>C15. What the automation decides, and that it escalates once. An evaluation says AUTO exactly when the
  type of the request is known, automation is switched on for it and every rule passes; BLOCKED
  exactly when a keyword rule fails. However often a request is evaluated, it has exactly the one
  escalation its decision names.\<close>

theorem automation_exact:
  assumes "escalation_inv d" "evaluateAndRecord e rid d = (Inr ad, d')" "find_unique (requests d) rid = Some rq"
  shows "(ad_outcome ad = AO_AUTO \<longleftrightarrow> (\<exists>st cap rules. rq_service_type rq = Some st
        \<and> find_capability rq d = Some (cap, rules) \<and> cap_enabled cap \<and> (\<forall>r \<in> set rules. rres_passed (evaluate_rule rq r))))
    \<and> (ad_outcome ad = AO_BLOCKED \<longleftrightarrow> (\<exists>st cap rules. rq_service_type rq = Some st
        \<and> find_capability rq d = Some (cap, rules) \<and> cap_enabled cap
        \<and> (\<exists>r \<in> set rules. ar_kind (snd r) = AK_BLOCKED_KEYWORDS \<and> \<not> rres_passed (evaluate_rule rq r))))
    \<and> (ad_outcome ad = AO_ESCALATE \<longrightarrow> (\<exists>es. escalations_of rid d' = [es]))
    \<and> escalation_inv d'"
proof -
  have out: "ad_outcome ad = ev_outcome (evaluate rq (find_capability rq d))"
    and escalated: "ad_outcome ad = AO_ESCALATE \<Longrightarrow> ad_escalation ad \<noteq> None"
    and stored: "map_option snd (getDecision rid d') = Some ad"
  proof -
    obtain rq' d1 where 1: "find_unique (requests d) rid = Some rq'" "ad_request ad = rid"
      "ad_outcome ad = ev_outcome (evaluate rq' (find_capability rq' d))"
      "decisions d' = decisions (upsert_decision ad d1)" "decisions d1 = decisions d"
      "ad_outcome ad = AO_ESCALATE \<longrightarrow> ad_escalation ad \<noteq> None"
      by (rule evaluateAndRecord_Inr [OF assms(2)]) auto
    with assms(3) show "ad_outcome ad = ev_outcome (evaluate rq (find_capability rq d))"
      and "ad_outcome ad = AO_ESCALATE \<Longrightarrow> ad_escalation ad \<noteq> None" by simp_all
    have "wf_table (decisions d1)" using assms(1) 1(5) by (simp add: escalation_inv_def)
    from getDecision_upsert [OF this, of rid ad] show "map_option snd (getDecision rid d') = Some ad"
      using 1(2, 4) by (simp add: getDecision_def)
  qed
  have inv: "escalation_inv d'" using assms(1, 2) by (rule evaluateAndRecord_inv)
  have once: "ad_outcome ad = AO_ESCALATE \<longrightarrow> (\<exists>es. escalations_of rid d' = [es])"
  proof
    assume "ad_outcome ad = AO_ESCALATE"
    then obtain es where "ad_escalation ad = Some es" using escalated by auto
    with stored inv have "escalations_of rid d' = [es]"
      by (auto simp: escalation_inv_def decision_escalation_def)
    then show "\<exists>es. escalations_of rid d' = [es]" ..
  qed
  show ?thesis using inv once unfolding out by (simp only: evaluate_auto_iff evaluate_blocked_iff simp_thms)
qed

theorem automation_exact_witness:
  "\<exists>ad d'. evaluateAndRecord sample_env 1 asked_db = (Inr ad, d') \<and> ad_outcome ad = AO_AUTO \<and> escalation_inv d'"
proof -
  let ?r = "evaluateAndRecord sample_env 1 asked_db"
  have "(case fst ?r of Inr ad \<Rightarrow> ad_outcome ad = AO_AUTO | Inl _ \<Rightarrow> False)" by code_simp
  then obtain ad where run: "?r = (Inr ad, snd ?r)" and auto: "ad_outcome ad = AO_AUTO"
    by (cases "fst ?r") (auto simp: prod_eq_iff)
  have empty: "t_rows (decisions asked_db) = []" "t_rows (escalations asked_db) = []" by code_simp+
  have inv: "escalation_inv asked_db"
    by (simp add: escalation_inv_def wf_table_def escalations_of_def decision_escalation_def getDecision_def
        find_many_def find_first_def empty)
  have "find_unique (requests asked_db) 1 \<noteq> None" by code_simp
  then obtain rq where "find_unique (requests asked_db) 1 = Some rq" by auto
  with automation_exact [OF inv run] run auto show ?thesis by blast
qed

text \<open>C9. What accepting a quote does. It succeeds only for an open quote, before it expires, of a case that is
  quoted; then the quote is accepted, an invoice over the amount the benefit leaves is
  issued, the case and no other waits for its payment, and the quote cannot be accepted again.\<close>

theorem acceptance_exact:
  assumes "acceptQuote e ac quoteId d = (Inr invoiceId, d')"
  shows "\<exists>q c final adjusted. find_unique (quotes d) quoteId = Some q \<and> q_accepted q = None
    \<and> (case q_expires q of Some t \<Rightarrow> now e \<le> t | None \<Rightarrow> True)
    \<and> find_unique (cases d) (q_case q) = Some c \<and> c_status c = CS_QUOTED
    \<and> fst (commitBenefit quoteId q d) = (final, adjusted)
    \<and> (\<forall>k. find_unique (quotes d') k = (if k = quoteId
         then Some ((if adjusted then q\<lparr>q_amount := dec2 final\<rparr> else q)\<lparr>q_accepted := Some (now e)\<rparr>)
         else find_unique (quotes d) k))
    \<and> invoiceId = t_next (invoices d)
    \<and> invoices d' = insert_row \<lparr>iv_case = q_case q, iv_quote = Some quoteId, iv_amount = dec2 final,
         iv_currency = q_currency q\<rparr> (invoices d)
    \<and> (\<forall>k. find_unique (cases d') k = (if k = q_case q then Some (c\<lparr>c_status := CS_AWAITING_PAYMENT\<rparr>)
         else find_unique (cases d) k))
    \<and> (\<forall>e' ac'. \<exists>err. acceptQuote e' ac' quoteId d' = (Inl err, d'))"
proof (rule acceptQuote_Inr [OF assms])
  fix q c and cu :: customer and final adjusted and d1 :: db
  assume q: "find_unique (quotes d) quoteId = Some q" "q_accepted q = None"
      "case q_expires q of Some t \<Rightarrow> now e \<le> t | None \<Rightarrow> True"
    and c: "find_unique (cases d) (q_case q) = Some c" "c_status c = CS_QUOTED"
    and commit: "commitBenefit quoteId q d = ((final, adjusted), d1)"
    and tables: "quotes d' = quotes (payable q quoteId final adjusted e d)"
      "invoices d' = invoices (payable q quoteId final adjusted e d)" "invoiceId = t_next (invoices d)"
      "cases d' = update_row (q_case q) (\<lambda>c. c\<lparr>c_status := CS_AWAITING_PAYMENT\<rparr>) (cases d)"
  let ?q = "(if adjusted then q\<lparr>q_amount := dec2 final\<rparr> else q)\<lparr>q_accepted := Some (now e)\<rparr>"
  have rows: "find_unique (quotes d') k = (if k = quoteId then Some ?q else find_unique (quotes d) k)" for k
    using q(1) by (simp add: tables payable_def)
  then have "\<exists>err. acceptQuote e' ac' quoteId d' = (Inl err, d')" for e' ac'
    by (auto simp: acceptQuote_def included_def split: option.split)
  with q c commit rows show ?thesis
    by (intro exI [of _ q] exI [of _ c] exI [of _ final] exI [of _ adjusted])
      (simp add: tables payable_def)
qed

text \<open>C10. An acceptance that fails is not undone. When the case of an open quote is no longer quoted, the
  customer's acceptance is refused by the status machine, but by then the quote is accepted and its
  invoice issued: both stay, and no later acceptance of the quote succeeds.\<close>

theorem late_acceptance_sticks:
  assumes "find_unique (quotes d) quoteId = Some q" "find_unique (cases d) (q_case q) = Some c"
    and "find_unique (customers d) (c_customer c) = Some cu" "cu_user cu = act_id ac" "q_accepted q = None"
    and "case q_expires q of Some t \<Rightarrow> now e \<le> t | None \<Rightarrow> True" "c_status c \<noteq> CS_QUOTED"
    and "acceptQuote e ac quoteId d = (r, d')"
  shows "(\<exists>err. r = Inl err \<and> http_status err = 400)
    \<and> map_option q_accepted (find_unique (quotes d') quoteId) = Some (Some (now e))
    \<and> (\<exists>iv. invoices d' = insert_row iv (invoices d) \<and> iv_quote iv = Some quoteId) \<and> cases d' = cases d
    \<and> (\<forall>e' ac'. \<exists>err. acceptQuote e' ac' quoteId d' = (Inl err, d'))"
proof -
  obtain final adjusted d1 where commit: "commitBenefit quoteId q d = ((final, adjusted), d1)" by (metis surj_pair)
  obtain a l where d1: "d1 = d\<lparr>audit_log := a, sc_entries := l\<rparr>"
    using commit_stateE [of quoteId q d] commit by (metis snd_conv)
  let ?p = "payable q quoteId final adjusted e d1"
  have case_row: "find_unique (cases ?p) (q_case q) = Some c"
    using assms(2) by (simp add: payable_def d1)
  have wait: "CS_AWAITING_PAYMENT \<notin> set (case_transitions (c_status c))" using assms(7) by simp
  have "transitionCase ac (q_case q) CS_AWAITING_PAYMENT (Some ''Quote accepted'') ?p
      = (Inl (Invalid_Transition (c_status c) CS_AWAITING_PAYMENT), ?p)"
    unfolding transition_only by (rule applyTransition_refused [OF case_row wait])
  with assms(8) have result: "r = Inl (Invalid_Transition (c_status c) CS_AWAITING_PAYMENT)" "d' = ?p"
    unfolding acceptQuote_open [OF assms(1-6) commit] by simp_all
  have stuck: "find_unique (quotes d') quoteId
      = Some ((if adjusted then q\<lparr>q_amount := dec2 final\<rparr> else q)\<lparr>q_accepted := Some (now e)\<rparr>)"
    using assms(1) by (simp add: result payable_def d1)
  then have "\<exists>err. acceptQuote e' ac' quoteId d' = (Inl err, d')" for e' ac'
    by (auto simp: acceptQuote_def included_def split: option.split)
  moreover have "map_option q_accepted (find_unique (quotes d') quoteId) = Some (Some (now e))"
    by (simp add: stuck)
  moreover have "\<exists>iv. invoices d' = insert_row iv (invoices d) \<and> iv_quote iv = Some quoteId" "cases d' = cases d"
    by (auto simp: result payable_def d1)
  ultimately show ?thesis by (simp add: result)
qed

definition quoted_db :: "case_status \<Rightarrow> db" where
  "quoted_db s = (sample_db s)\<lparr>quotes := rows [\<lparr>q_case = 1, q_amount = 90000, q_currency = STR ''NGN'',
     q_expires = Some 5000, q_accepted = None, q_created = 0, q_price_book = None, q_scope = None,
     q_subscription = None, q_base = None, q_non_service = None, q_discount_percent = None,
     q_discount = None, q_sc_applied = None, q_locked_fx = None, q_source_currency = None,
     q_fx_expiry = None\<rparr>]\<rparr>"

lemmas quoted_defs = quoted_db_def sample_defs insert_rows_def insert_row_def find_unique_def empty_table_def

theorem acceptance_exact_witness:
  "\<exists>d'. acceptQuote sample_env client 1 (quoted_db CS_QUOTED) = (Inr 1, d')
    \<and> (\<forall>e' ac'. \<exists>err. acceptQuote e' ac' 1 d' = (Inl err, d'))"
proof -
  let ?r = "acceptQuote sample_env client 1 (quoted_db CS_QUOTED)"
  have "fst ?r = Inr 1" by code_simp
  then have "?r = (Inr 1, snd ?r)" by (simp add: prod_eq_iff)
  with acceptance_exact [OF this] show ?thesis by blast
qed

theorem late_acceptance_sticks_witness:
  "\<exists>err d'. acceptQuote sample_env client 1 (quoted_db CS_UNDER_REVIEW) = (Inl err, d')
    \<and> http_status err = 400 \<and> map_option q_accepted (find_unique (quotes d') 1) = Some (Some 1000)"
proof -
  let ?d = "quoted_db CS_UNDER_REVIEW"
  obtain q c cu where rows: "find_unique (quotes ?d) 1 = Some q" "find_unique (cases ?d) (q_case q) = Some c"
    "find_unique (customers ?d) (c_customer c) = Some cu" "cu_user cu = act_id client" "q_accepted q = None"
    "case q_expires q of Some t \<Rightarrow> now sample_env \<le> t | None \<Rightarrow> True" "c_status c \<noteq> CS_QUOTED"
    by (simp add: quoted_defs)
  have run: "acceptQuote sample_env client 1 ?d = (fst (acceptQuote sample_env client 1 ?d), snd (acceptQuote sample_env client 1 ?d))"
    by simp
  have "now sample_env = 1000" by (simp add: sample_env_def)
  with late_acceptance_sticks [OF rows run] run show ?thesis by metis
qed

text \<open>C13. The benefit a member is shown is the benefit a member gets, on quotes in whole naira. For a membership whose discount is
  between 0 and 100 percent and whose exchange rate is positive, a base fee that is a whole and not negative number of naira,
  external costs in whole naira and a credit balance that is not negative and is a whole number of naira at the membership's
  rate: a preview takes a discount and service credit out of the service fee that never exceed it; and a quote that stores
  the preview is, as long as neither the membership nor the credit has changed, accepted at exactly the amount
  previewed, without touching the external costs. Where the entries of the credit ledger are whole cents, the
  acceptance leaves no balance negative. The DTO admits fractions of
  a naira; with them the stored amounts are rounded and the acceptance may report an adjustment.\<close>

theorem benefit_as_previewed:
  assumes "wf_table (subscriptions d)" "previewBenefit cu ti base zone d = Inr (Some b)"
    and "0 \<le> bn_percent b" "bn_percent b \<le> 100" "0 \<le> base" "base \<in> \<int>" "non \<in> \<int>"
    and "find_unique (subscriptions d) (bn_subscription b) = Some s" "0 < s_fx_rate s"
    and "getBalanceUsd (bn_subscription b) d * s_fx_rate s \<in> \<int>" "0 \<le> getBalanceUsd (bn_subscription b) d"
    and "q_subscription q = Some (bn_subscription b)" "q_base q = Some base" "q_non_service q = Some non"
    and "q_discount q = Some (bn_discount b)" "q_sc_applied q = Some (bn_sc_ngn b)" "q_amount q = bn_final b + non"
  shows "0 \<le> bn_discount b \<and> 0 \<le> bn_sc_ngn b \<and> bn_discount b + bn_sc_ngn b \<le> base \<and> 0 \<le> bn_final b \<and> bn_final b \<le> base
    \<and> fst (commitBenefit qid q d) = (q_amount q, False)
    \<and> (sc_cents d \<longrightarrow> (\<forall>sub. 0 \<le> getBalanceUsd sub d \<longrightarrow> 0 \<le> getBalanceUsd sub (snd (commitBenefit qid q d))))"
proof -
  have "\<exists>d'. commitBenefit qid q d = ((q_amount q, False), d')"
    using assms(8-11) by (intro preview_commit_agree [OF assms(1, 2) _ assms(11, 6, 7, 12-17)]) auto
  then have "fst (commitBenefit qid q d) = (q_amount q, False)" by auto
  moreover have "bn_sc_ngn b \<le> base - bn_discount b" using preview_bounds [OF assms(2-6)] by blast
  then have "bn_discount b + bn_sc_ngn b \<le> base" by simp
  ultimately show ?thesis using preview_bounds [OF assms(2-6)] commit_nonneg by blast
qed

definition member_db :: db where
  "member_db = sample_people\<lparr>
     plan_configs := rows [\<lparr>pc_plan = MP_PRIORITY, pc_price_usd = 100, pc_sc_grant_usd = 20, pc_discount_percent = 10,
       pc_eligible = 3, pc_updated_by = None\<rparr>],
     subscriptions := rows [\<lparr>s_customer = 1, s_tier = CT_CONCIERGE, s_plan = MP_PRIORITY, s_status = SS_ACTIVE,
       s_started = 0, s_renews = Some 500, s_cancelled = None, s_price_usd = 100, s_fx_rate = 1500,
       s_amount = 150000, s_currency = STR ''NGN''\<rparr>],
     sc_entries := rows [\<lparr>se_subscription = 1, se_type = SC_GRANT, se_amount = 20, se_case = None, se_quote = None,
       se_fx = None, se_amount_ngn = None, se_reason = None, se_actor = None\<rparr>]\<rparr>"

definition member_benefit :: benefit where
  "member_benefit = \<lparr>bn_subscription = 1, bn_percent = 10, bn_discount = 10000, bn_sc_ngn = 30000, bn_final = 60000\<rparr>"

definition member_quote :: quote where
  "member_quote = \<lparr>q_case = 1, q_amount = 62000, q_currency = STR ''NGN'',
     q_expires = Some 5000, q_accepted = None, q_created = 0, q_price_book = None, q_scope = None,
     q_subscription = Some 1, q_base = Some 100000, q_non_service = Some 2000, q_discount_percent = Some 10,
     q_discount = Some 10000, q_sc_applied = Some 30000, q_locked_fx = None, q_source_currency = None,
     q_fx_expiry = None\<rparr>"

lemma wf_member_db: "wf_table (subscriptions member_db)"
  by (simp add: member_db_def rows_def wf_table_def insert_rows_def insert_row_def empty_table_def)

theorem benefit_as_previewed_witness:
  "previewBenefit 1 CT_CONCIERGE 100000 Z_LAGOS member_db = Inr (Some member_benefit)
    \<and> fst (commitBenefit 1 member_quote member_db) = (62000, False)"
proof
  show pre: "previewBenefit 1 CT_CONCIERGE 100000 Z_LAGOS member_db = Inr (Some member_benefit)" by code_simp
  obtain s where s: "find_unique (subscriptions member_db) (bn_subscription member_benefit) = Some s" "s_fx_rate s = 1500"
    by (simp add: member_db_def member_benefit_def find_unique_def rows_def insert_rows_def insert_row_def empty_table_def)
  have balance: "getBalanceUsd (bn_subscription member_benefit) member_db = 20" by code_simp
  have "fst (commitBenefit 1 member_quote member_db) = (q_amount member_quote, False)"
    by (rule benefit_as_previewed [OF wf_member_db pre _ _ _ _ _ s(1), of 2000, THEN conjunct2, THEN conjunct2,
        THEN conjunct2, THEN conjunct2, THEN conjunct2, THEN conjunct1])
      (simp_all add: s(2) balance, simp_all add: member_benefit_def member_quote_def)
  then show "fst (commitBenefit 1 member_quote member_db) = (62000, False)" by (simp add: member_quote_def)
qed

text \<open>What the daily billing sweep does to the subscriptions, when it runs to its end: each one that was due
  is either billed for a further period, or expires because its last invoice was
  never paid; it is counted once, and no other subscription changes.\<close>

theorem billing_sweep_exact:
  assumes "wf_table (subscriptions d)" "runBillingSweep e d = (Inr (billed, lapsed), d')"
  shows "billed + lapsed = length (due_subscriptions e d)
    \<and> (\<forall>sid. find_unique (subscriptions d') sid = (case find_unique (subscriptions d) sid of
         None \<Rightarrow> None
       | Some s \<Rightarrow> Some (if s_status s = SS_ACTIVE \<and> (case s_renews s of Some r \<Rightarrow> r \<le> now e | None \<Rightarrow> False)
           then if unpaid (last_invoice d sid) then s\<lparr>s_status := SS_EXPIRED, s_cancelled := Some (now e)\<rparr>
                else s\<lparr>s_renews := Some (now e + billing_period_days_ms)\<rparr>
           else s)))"
proof -
  note sweep = billing_loop_effect [OF assms(2) [unfolded runBillingSweep_def] distinct_due [OF assms(1)]]
  have row: "find_unique (subscriptions d) sid = Some s \<longleftrightarrow> (sid, s) \<in> set (t_rows (subscriptions d))" for sid s
    using assms(1) by (rule find_unique_in_rows)
  have due: "(sid, s, newest) \<in> set (due_subscriptions e d) \<longleftrightarrow> find_unique (subscriptions d) sid = Some s
      \<and> s_status s = SS_ACTIVE \<and> (case s_renews s of Some r \<Rightarrow> r \<le> now e | None \<Rightarrow> False)
      \<and> newest = last_invoice d sid" for sid s newest
    by (auto simp: due_subscriptions_def find_many_def row)
  have "find_unique (subscriptions d') sid = (case find_unique (subscriptions d) sid of
         None \<Rightarrow> None
       | Some s \<Rightarrow> Some (if s_status s = SS_ACTIVE \<and> (case s_renews s of Some r \<Rightarrow> r \<le> now e | None \<Rightarrow> False)
           then if unpaid (last_invoice d sid) then s\<lparr>s_status := SS_EXPIRED, s_cancelled := Some (now e)\<rparr>
                else s\<lparr>s_renews := Some (now e + billing_period_days_ms)\<rparr>
           else s))" for sid
  proof (cases "\<exists>s. (sid, s, last_invoice d sid) \<in> set (due_subscriptions e d)")
    case True
    then obtain s where s: "(sid, s, last_invoice d sid) \<in> set (due_subscriptions e d)" ..
    with sweep(3) [OF s] show ?thesis by (auto simp: due settle_def)
  next
    case False
    then have "sid \<notin> fst ` set (due_subscriptions e d)" using due by fastforce
    with sweep(2) [OF this] False show ?thesis by (auto simp: due split: option.split)
  qed
  with sweep(1) show ?thesis by simp
qed

theorem billing_sweep_exact_witness:
  "\<exists>d'. runBillingSweep sample_env member_db = (Inr (1, 0), d')
    \<and> map_option s_renews (find_unique (subscriptions d') 1) = Some (Some (1000 + billing_period_days_ms))"
proof -
  let ?r = "runBillingSweep sample_env member_db"
  have "fst ?r = Inr (1, 0)" by code_simp
  then have run: "?r = (Inr (1, 0), snd ?r)" by (simp add: prod_eq_iff)
  obtain s where s: "find_unique (subscriptions member_db) 1 = Some s" "s_status s = SS_ACTIVE" "s_renews s = Some 500"
    by (simp add: member_db_def find_unique_def rows_def insert_rows_def insert_row_def empty_table_def)
  have env: "now sample_env = 1000" by (simp add: sample_env_def)
  have "\<not> unpaid (last_invoice member_db 1)"
    by (simp add: unpaid_def last_invoice_def member_db_def sample_people_def empty_db_def empty_table_def find_last_def)
  then have "find_unique (subscriptions (snd ?r)) 1 = Some (s\<lparr>s_renews := Some (1000 + billing_period_days_ms)\<rparr>)"
    unfolding billing_sweep_exact [OF wf_member_db run, THEN conjunct2, rule_format] s(1) by (simp add: s env)
  with run show ?thesis by (intro exI [of _ "snd ?r"]) simp
qed

end
