(* ===== verification/Payment_Properties.thy ===== *)
theory Payment_Properties
  imports Sample
begin

text \<open>The properties of payments: webhooks, refunds, reconciliation and the two sweeps.\<close>

text \<open>An invoice of the sample case and a checkout on it.\<close>

definition sample_payment :: "payment_status \<Rightarrow> payment" where
  "sample_payment s = \<lparr>p_invoice = 1, p_amount = 500000, p_currency = STR ''NGN'', p_reference = Case_Inv 1 7,
     p_verified_at = None, p_status = s, p_created = 0\<rparr>"

definition sample_invoice :: invoice where
  "sample_invoice = \<lparr>iv_case = 1, iv_quote = None, iv_amount = 500000, iv_currency = STR ''NGN''\<rparr>"

definition paying_db :: "case_status \<Rightarrow> payment_status \<Rightarrow> db" where
  "paying_db cs s = (sample_db cs)\<lparr>
     invoices := rows [sample_invoice],
     payments := rows [sample_payment s]\<rparr>"

lemmas paying_defs = paying_db_def sample_invoice_def sample_payment_def sample_defs insert_rows_def insert_row_def find_unique_def
  empty_table_def find_payment_def find_first_def kobo_def js_round_def

text \<open>C3. A verified webhook takes effect once: after the success event of a payment has been handled,
  delivering it again, at any later time, answers the same and leaves the database as it is. This
  holds for case payments and for subscription payments, so no service credit is granted twice.\<close>

theorem webhook_once:
  assumes "handlePaystackWebhook e (Charge_Success ref amount) d = (Inr r, d1)"
  shows "handlePaystackWebhook e' (Charge_Success ref amount) d1 = (Inr r, d1)"
  using assms
  by (cases ref) (auto simp: handlePaystackWebhook_def and_then_Inr_iff dest: verified_again [where e' = e']
      sub_verified_again [where e' = e'])

theorem webhook_once_witness:
  "\<exists>d1. handlePaystackWebhook sample_env (Charge_Success (Case_Inv 1 7) 50000000) (paying_db CS_AWAITING_PAYMENT PS_PENDING)
      = (Inr (Handled 1), d1)
    \<and> handlePaystackWebhook sample_env (Charge_Success (Case_Inv 1 7) 50000000) d1 = (Inr (Handled 1), d1)"
proof -
  let ?d = "paying_db CS_AWAITING_PAYMENT PS_PENDING"
  have "fst (handlePaystackWebhook sample_env (Charge_Success (Case_Inv 1 7) 50000000) ?d) = Inr (Handled 1)"
    by code_simp
  then obtain d1 where "handlePaystackWebhook sample_env (Charge_Success (Case_Inv 1 7) 50000000) ?d = (Inr (Handled 1), d1)"
    by (cases "handlePaystackWebhook sample_env (Charge_Success (Case_Inv 1 7) 50000000) ?d") simp
  with webhook_once [OF this, of sample_env] show ?thesis by blast
qed

text \<open>C4. What a verified webhook does, on every branch, to a payment whose invoice, case and customer
  exist. An amount that differs from the invoice is refused, and the payment is flagged for Finance unless
  it is already paid; a payment already paid is left as it is; otherwise the payment is paid and
  dated, its case is paid and, when it was waiting for the payment, scheduled, and no other
  payment or case changes.\<close>

theorem webhook_exact:
  assumes found: "find_payment ref d = Some (pid, p)"
    and rows: "find_unique (invoices d) (p_invoice p) = Some iv" "find_unique (cases d) (iv_case iv) = Some c"
      "find_unique (customers d) (c_customer c) = Some cu"
  shows "case handleVerifiedCasePayment e ref amount d of
      (Inl err, d') \<Rightarrow> kobo (p_amount p) \<noteq> amount \<and> http_status err = 400 \<and> cases d' =
          (if p_status p = PS_PAID then cases d
           else update_row (iv_case iv) (\<lambda>c. c\<lparr>c_payment_status := PS_RECONCILIATION_REQUIRED\<rparr>) (cases d))
        \<and> payments d' = (if p_status p = PS_PAID then payments d
           else update_row pid (\<lambda>p. p\<lparr>p_status := PS_RECONCILIATION_REQUIRED\<rparr>) (payments d))
    | (Inr i, d') \<Rightarrow> kobo (p_amount p) = amount \<and> i = pid \<and> refunds d' = refunds d
        \<and> (if p_status p = PS_PAID then d' = d
           else payments d' = update_row pid (\<lambda>p. p\<lparr>p_status := PS_PAID, p_verified_at := Some (now e)\<rparr>) (payments d)
             \<and> (\<forall>k. find_unique (cases d') k
                    = (if k = iv_case iv then Some (paid_case c) else find_unique (cases d) k)))"
proof -
  have ctx: "payment_context p d f = f iv c cu" for f :: "invoice \<Rightarrow> service_case \<Rightarrow> customer \<Rightarrow> nat result"
    by (rule payment_context_simp [OF rows])
  show ?thesis
  proof (cases "kobo (p_amount p) = amount")
    case False
    then show ?thesis
      by (simp add: handleVerifiedCasePayment_def found ctx flag_mismatch_def)
  next
    case True
    show ?thesis
      by (rule settle_payment_Inr [OF rows(2), of e ref pid "cu_user cu"])
        (simp add: handleVerifiedCasePayment_def found ctx True)
  qed
qed

lemma approveRefund_Inl: "approveRefundRequest e ac rid note d = (Inl err, d') \<Longrightarrow> d' = d"
  by (auto simp: approveRefundRequest_def payment_context_def included_def and_then_def
      dest: executeRefund_Inl split: option.splits if_splits prod.splits sum.splits)

lemma request_refund_Inr:
  assumes "request_refund e ac pid k amount why d = (r, d')"
  shows "r = Inr (Refund_Requested (t_next (refund_requests d)))" "refunds d' = refunds d" "payments d' = payments d"
  using assms by (auto simp: request_refund_def Let_def)

lemma refundPayment_ok:
  assumes "refunds_ok d" "refundPayment e ac pid dto d = (Inr out, d')"
  shows "refunds_ok d'"
proof (rule refundPayment_Inr [OF assms(2)])
  fix p and iv :: invoice and c :: service_case and cu :: customer and requested
  assume p: "find_unique (payments d) pid = Some p" and le: "requested \<le> remainingRefundable pid (p_amount p) d"
    and run: "if refundApprovalThresholdNgn e < requested
     then request_refund e ac pid (iv_case iv) requested (rx_reason dto) d = (Inr out, d')
     else \<exists>rid. out = Refund_Executed rid
        \<and> executeRefund e ac pid p (iv_case iv) c (cu_user cu) requested (Some (rx_reason dto)) d = (Inr rid, d')"
  show ?thesis
  proof (cases "refundApprovalThresholdNgn e < requested")
    case True
    with run have "refunds d' = refunds d" "payments d' = payments d" by (auto dest: request_refund_Inr)
    with assms(1) show ?thesis by (simp add: refunds_ok_cong [of d' d])
  next
    case False
    with run show ?thesis using executeRefund_ok [OF assms(1) p le] by auto
  qed
qed

lemma approveRefund_ok:
  assumes "refunds_ok d" "approveRefundRequest e ac rid note d = (Inr out, d')"
  shows "refunds_ok d'"
proof (rule approveRefund_Inr [OF assms(2)])
  fix rr p and iv :: invoice and c :: service_case and cu :: customer and d1
  assume p: "find_unique (payments d) (rr_payment rr) = Some p"
    and le: "rr_amount rr \<le> remainingRefundable (rr_payment rr) (p_amount p) d"
    and run: "executeRefund e ac (rr_payment rr) p (iv_case iv) c (cu_user cu) (rr_amount rr) (Some (rr_reason rr)) d = (Inr out, d1)"
    and same: "refunds d' = refunds d1" "payments d' = payments d1"
  from executeRefund_ok [OF assms(1) p le run] same show ?thesis by (simp add: refunds_ok_cong [of d' d1])
qed

lemma paying_rows:
  "find_payment (Case_Inv 1 7) (paying_db cs s) = Some (1, sample_payment s)"
  "find_unique (payments (paying_db cs s)) 1 = Some (sample_payment s)"
  "find_unique (invoices (paying_db cs s)) (p_invoice (sample_payment s)) = Some sample_invoice"
  "find_unique (cases (paying_db cs s)) (iv_case sample_invoice) = Some (sample_case cs)"
  "find_unique (customers (paying_db cs s)) (c_customer (sample_case cs)) = Some sample_customer"
  by (simp_all add: paying_defs)

theorem webhook_exact_witness:
  "\<exists>d'. handleVerifiedCasePayment sample_env (Case_Inv 1 7) 50000000 (paying_db CS_AWAITING_PAYMENT PS_PENDING)
      = (Inr 1, d') \<and> find_unique (cases d') 1 = Some (paid_case (sample_case CS_AWAITING_PAYMENT))"
proof -
  let ?r = "handleVerifiedCasePayment sample_env (Case_Inv 1 7) 50000000 (paying_db CS_AWAITING_PAYMENT PS_PENDING)"
  have "fst ?r = Inr 1" by code_simp
  moreover have "p_status (sample_payment PS_PENDING) \<noteq> PS_PAID" "iv_case sample_invoice = 1" by code_simp+
  moreover note webhook_exact [where amount = 50000000 and e = sample_env and d = "paying_db CS_AWAITING_PAYMENT PS_PENDING",
      OF paying_rows(1,3,4,5)]
  ultimately show ?thesis by (cases ?r) auto
qed

text \<open>A failure reported by the provider never takes back money: a payment that is already paid
  stays as it is, whatever arrives for its reference; any other is marked failed and its case keeps
  its payment status and every other column.\<close>

theorem failure_keeps_paid:
  assumes found: "find_payment ref d = Some (pid, p)"
    and rows: "find_unique (invoices d) (p_invoice p) = Some iv" "find_unique (cases d) (iv_case iv) = Some c"
      "find_unique (customers d) (c_customer c) = Some cu"
  shows "\<exists>d'. handleFailedCasePayment e ref why d = (Inr pid, d') \<and> cases d' = cases d
      \<and> (if p_status p = PS_PAID \<or> p_status p = PS_FAILED then d' = d
         else payments d' = update_row pid (\<lambda>p. p\<lparr>p_status := PS_FAILED\<rparr>) (payments d))"
  by (simp add: handleFailedCasePayment_def found payment_context_simp [OF rows])

theorem failure_keeps_paid_witness:
  "\<exists>d'. handleFailedCasePayment sample_env (Case_Inv 1 7) None (paying_db CS_SCHEDULED PS_PAID) = (Inr 1, d')
    \<and> d' = paying_db CS_SCHEDULED PS_PAID"
proof -
  have "p_status (sample_payment PS_PAID) = PS_PAID" by code_simp
  with failure_keeps_paid [where e = sample_env and why = None and d = "paying_db CS_SCHEDULED PS_PAID",
      OF paying_rows(1,3,4,5)]
  show ?thesis by auto
qed

text \<open>C5. Refunds stay within the payment: if, for every payment, the refunds recorded so far do not
  exceed its amount, the same holds after any refund call, executed at once, sent for approval, approved or
  refused, whatever amount is asked for.\<close>

theorem refunds_within_payment:
  assumes "refunds_ok d"
  shows "refunds_ok (snd (refundPayment e ac pid dto d)) \<and> refunds_ok (snd (approveRefundRequest e ac rid note d))
    \<and> refunds_ok (snd (rejectRefundRequest e ac rid note d))"
proof (intro conjI)
  show "refunds_ok (snd (refundPayment e ac pid dto d))"
  proof (cases "refundPayment e ac pid dto d")
    case (Pair r d')
    show ?thesis
    proof (cases r)
      case (Inl err)
      with Pair assms show ?thesis using refundPayment_Inl by fastforce
    next
      case (Inr out)
      with Pair have "refundPayment e ac pid dto d = (Inr out, d')" by simp
      then show ?thesis using refundPayment_ok [OF assms] by simp
    qed
  qed
  show "refunds_ok (snd (approveRefundRequest e ac rid note d))"
  proof (cases "approveRefundRequest e ac rid note d")
    case (Pair r d')
    show ?thesis
    proof (cases r)
      case (Inl err)
      with Pair assms show ?thesis using approveRefund_Inl by fastforce
    next
      case (Inr out)
      with Pair have "approveRefundRequest e ac rid note d = (Inr out, d')" by simp
      then show ?thesis using approveRefund_ok [OF assms] by simp
    qed
  qed
  show "refunds_ok (snd (rejectRefundRequest e ac rid note d))"
    using assms refunds_ok_cong [of "decide_request e ac rid RR_REJECTED note d" d]
      refunds_ok_cong [of "audit_record _ _ _ _ _ (decide_request e ac rid RR_REJECTED note d)"
        "decide_request e ac rid RR_REJECTED note d"]
    by (auto simp: rejectRefundRequest_def included_def decide_request_def split: option.split)
qed

theorem refunds_within_payment_witness:
  "refunds_ok (snd (refundPayment sample_env accountant 1 \<lparr>rx_amount = Some 100000, rx_reason = ''late''\<rparr>
     (paying_db CS_SCHEDULED PS_PAID)))"
proof -
  have "refunds_ok (paying_db CS_SCHEDULED PS_PAID)"
    by (simp add: paying_defs refunds_ok_def refunded_def find_many_def cents_def)
  from refunds_within_payment [OF this] show ?thesis by blast
qed

lemma decided_for_good:
  assumes "find_unique (refund_requests d) req = Some rr" "rr_status rr \<noteq> RR_PENDING"
  shows "(\<exists>err. approveRefundRequest e ac req note' d = throw err d) \<and> (\<exists>err. rejectRefundRequest e ac req note' d = throw err d)"
  using assms by (auto simp: approveRefundRequest_def rejectRefundRequest_def payment_context_def included_def split: option.split)

text \<open>C6. A refund above the threshold takes two people. One call never executes it: it only records a request;
  an approval or a rejection that succeeds found the request pending, was made by somebody other than the person who
  asked, and records who decided what; a rejection refunds nothing; and after either of them no second decision
  on the request succeeds.\<close>

theorem maker_checker:
  "(refundPayment e ac pid dto d = (Inr (Refund_Executed rid), d') \<longrightarrow>
      (\<exists>r. refunds d' = insert_row r (refunds d) \<and> rf_payment r = pid \<and> rf_actor r = Some (act_id ac)
         \<and> rf_amount r \<le> dec2 (refundApprovalThresholdNgn e)))
   \<and> (approveRefundRequest e ac req nt d = (Inr rid, d') \<longrightarrow>
      (\<exists>rr. find_unique (refund_requests d) req = Some rr \<and> rr_status rr = RR_PENDING \<and> rr_requested_by rr \<noteq> act_id ac
         \<and> (\<exists>rr'. find_unique (refund_requests d') req = Some rr' \<and> rr_status rr' = RR_APPROVED
             \<and> rr_decided_by rr' = Some (act_id ac))))
   \<and> (rejectRefundRequest e ac req nt d = (Inr (), d') \<longrightarrow>
      (\<exists>rr. find_unique (refund_requests d) req = Some rr \<and> rr_status rr = RR_PENDING \<and> rr_requested_by rr \<noteq> act_id ac
         \<and> (\<exists>rr'. find_unique (refund_requests d') req = Some rr' \<and> rr_status rr' = RR_REJECTED
             \<and> rr_decided_by rr' = Some (act_id ac))) \<and> refunds d' = refunds d \<and> payments d' = payments d)
   \<and> (approveRefundRequest e ac req nt d = (Inr rid, d') \<or> rejectRefundRequest e ac req nt d = (Inr (), d') \<longrightarrow>
      (\<forall>e' ac' note'. (\<exists>err. approveRefundRequest e' ac' req note' d' = throw err d')
           \<and> (\<exists>err. rejectRefundRequest e' ac' req note' d' = throw err d')))"
proof -
  have one: "\<exists>r. refunds d' = insert_row r (refunds d) \<and> rf_payment r = pid \<and> rf_actor r = Some (act_id ac)
         \<and> rf_amount r \<le> dec2 (refundApprovalThresholdNgn e)"
    if "refundPayment e ac pid dto d = (Inr (Refund_Executed rid), d')"
    using that
  proof (rule refundPayment_Inr)
    fix p and iv :: invoice and c :: service_case and cu :: customer and requested
    assume "if refundApprovalThresholdNgn e < requested
     then request_refund e ac pid (iv_case iv) requested (rx_reason dto) d = (Inr (Refund_Executed rid), d')
     else \<exists>i. Refund_Executed rid = Refund_Executed i
        \<and> executeRefund e ac pid p (iv_case iv) c (cu_user cu) requested (Some (rx_reason dto)) d = (Inr i, d')"
    then have "requested \<le> refundApprovalThresholdNgn e"
      "refunds d' = insert_row \<lparr>rf_payment = pid, rf_amount = dec2 requested, rf_reason = Some (rx_reason dto),
         rf_actor = Some (act_id ac)\<rparr> (refunds d)"
      by (auto split: if_splits dest: request_refund_Inr(1) executeRefund_Inr(1))
    then show ?thesis by (intro exI conjI) (assumption, simp_all add: dec2_mono)
  qed
  have approved: "\<exists>rr. find_unique (refund_requests d) req = Some rr \<and> rr_status rr = RR_PENDING \<and> rr_requested_by rr \<noteq> act_id ac
         \<and> (\<exists>rr'. find_unique (refund_requests d') req = Some rr' \<and> rr_status rr' = RR_APPROVED
             \<and> rr_decided_by rr' = Some (act_id ac))"
    if "approveRefundRequest e ac req nt d = (Inr rid, d')"
    using that by (rule approveRefund_Inr) (auto simp: decide_request_def executeRefund_Inr(4))
  have rejected: "(\<exists>rr. find_unique (refund_requests d) req = Some rr \<and> rr_status rr = RR_PENDING \<and> rr_requested_by rr \<noteq> act_id ac
         \<and> (\<exists>rr'. find_unique (refund_requests d') req = Some rr' \<and> rr_status rr' = RR_REJECTED
             \<and> rr_decided_by rr' = Some (act_id ac))) \<and> refunds d' = refunds d \<and> payments d' = payments d"
    if "rejectRefundRequest e ac req nt d = (Inr (), d')"
    using that by (auto simp: rejectRefundRequest_def included_def decide_request_def split: option.splits if_splits)
  have "\<exists>rr. find_unique (refund_requests d') req = Some rr \<and> rr_status rr \<noteq> RR_PENDING"
    if "approveRefundRequest e ac req nt d = (Inr rid, d') \<or> rejectRefundRequest e ac req nt d = (Inr (), d')"
    using that approved rejected by fastforce
  then have "(\<exists>err. approveRefundRequest e' ac' req note' d' = throw err d') \<and> (\<exists>err. rejectRefundRequest e' ac' req note' d' = throw err d')"
    if "approveRefundRequest e ac req nt d = (Inr rid, d') \<or> rejectRefundRequest e ac req nt d = (Inr (), d')" for e' ac' note'
    using that decided_for_good by blast
  then show ?thesis using one approved rejected by blast
qed

text \<open>A refund of 300000 requested by user 3.\<close>

definition requested_db :: db where
  "requested_db = (paying_db CS_SCHEDULED PS_PAID)\<lparr>refund_requests := rows [\<lparr>rr_payment = 1, rr_amount = 300000,
     rr_reason = ''late'', rr_status = RR_PENDING, rr_requested_by = 3, rr_decided_by = None, rr_decided_at = None,
     rr_note = None\<rparr>]\<rparr>"

theorem maker_checker_witness:
  "\<exists>d'. approveRefundRequest sample_env accountant2 1 None requested_db = (Inr 1, d')
    \<and> (\<forall>e' ac' note'. \<exists>err. approveRefundRequest e' ac' 1 note' d' = throw err d')"
proof -
  let ?r = "approveRefundRequest sample_env accountant2 1 None requested_db"
  have "fst ?r = Inr 1" by code_simp
  then obtain d' where "?r = (Inr 1, d')" by (cases ?r) simp
  with maker_checker [where e = sample_env and ac = accountant2 and req = 1 and nt = None and d = requested_db
      and rid = 1 and d' = d'] show ?thesis by blast
qed

text \<open>C16. The expiry sweep ends, whatever the number of stale checkouts, and expires exactly those that
  were still in flight and older than the payment window: every other payment, and every case, is as it was.\<close>

theorem expiry_sweep_exact:
  assumes "wf_table (payments d)" "\<forall>p \<in> snd ` set (stale_payments e d). linked d p"
  shows "\<exists>d'. runPaymentExpirySweep e d = (Inr (length (stale_payments e d)), d') \<and> cases d' = cases d
    \<and> (\<forall>k. find_unique (payments d') k = map_option
         (\<lambda>p. if in_flight p \<and> p_created p < expiry_cutoff e then p\<lparr>p_status := PS_EXPIRED\<rparr> else p)
         (find_unique (payments d) k))"
proof -
  obtain d' where d': "payment_expiry_loop e (stale_payments e d) d = (Inr (), d')" "cases d' = cases d"
    and eff: "\<forall>k. find_unique (payments d') k = map_option
         (\<lambda>p. if k \<in> fst ` set (stale_payments e d) then p\<lparr>p_status := PS_EXPIRED\<rparr> else p) (find_unique (payments d) k)"
    using payment_expiry_effect [OF assms(2), of e] by blast
  have "k \<in> fst ` set (stale_payments e d) \<longleftrightarrow> in_flight p \<and> p_created p < expiry_cutoff e"
    if "find_unique (payments d) k = Some p" for k p
    using that assms(1) by (force simp: stale_payments_def find_many_iff find_unique_in_rows dest: wf_row_unique
        intro!: image_eqI [where x = "(k, p)"])
  with eff have "find_unique (payments d') k = map_option
         (\<lambda>p. if in_flight p \<and> p_created p < expiry_cutoff e then p\<lparr>p_status := PS_EXPIRED\<rparr> else p)
         (find_unique (payments d) k)" for k
    by (cases "find_unique (payments d) k") simp_all
  with d' show ?thesis by (simp add: runPaymentExpirySweep_def)
qed

theorem expiry_sweep_exact_witness:
  "\<exists>d'. runPaymentExpirySweep (sample_env\<lparr>now := 90000000\<rparr>) (paying_db CS_AWAITING_PAYMENT PS_PENDING) = (Inr 1, d')
     \<and> find_unique (payments d') 1 = Some ((sample_payment PS_PENDING)\<lparr>p_status := PS_EXPIRED\<rparr>)"
proof -
  let ?e = "sample_env\<lparr>now := 90000000\<rparr>" and ?d = "paying_db CS_AWAITING_PAYMENT PS_PENDING"
  have due: "stale_payments ?e ?d = [(1, sample_payment PS_PENDING)]" by code_simp
  have link: "linked ?d (sample_payment PS_PENDING)"
    using paying_rows(3,4,5) unfolding linked_def by blast
  have wf: "wf_table (payments ?d)" by (simp add: paying_defs wf_table_def)
  have stale: "in_flight (sample_payment PS_PENDING) \<and> p_created (sample_payment PS_PENDING) < expiry_cutoff ?e"
    by code_simp
  from expiry_sweep_exact [OF wf, of ?e] due link stale paying_rows(2) show ?thesis by auto
qed

lemma executeRefund_rows:
  assumes "executeRefund e ac pid p k c u amount why d = (Inr rid, d')"
  shows "invoices d' = invoices d" "customers d' = customers d"
    "cases d' = update_row k (\<lambda>c. c\<lparr>c_payment_status := (if p_amount p \<le> amount + refunded pid d then PS_REFUNDED
       else PS_PARTIALLY_REFUNDED)\<rparr>) (cases d)"
  using assms by (auto simp: executeRefund_def Let_def remainingRefundable_def set_case_payment_def set_payment_def split: sum.splits)

text \<open>C17. A redelivery after a refund undoes it. Whenever the success event of a case payment has been handled and the payment
  is then refunded in full, delivering the event again marks the payment and its case as paid, although the refund
  stays on record and the whole amount has been returned.\<close>

theorem refund_undone_by_redelivery:
  assumes "wf_table (payments d)" "handlePaystackWebhook e (Charge_Success (Case_Inv i n) amount) d = (Inr (Handled pid), d1)"
    and "refundPayment e1 ac pid dto d1 = (Inr (Refund_Executed rid), d2)" "rx_amount dto = None"
  shows "\<exists>d3 p2 p3 iv c. find_unique (payments d2) pid = Some p2 \<and> p_status p2 = PS_REFUNDED
     \<and> handlePaystackWebhook e2 (Charge_Success (Case_Inv i n) amount) d2 = (Inr (Handled pid), d3)
     \<and> find_unique (payments d3) pid = Some p3 \<and> p_status p3 = PS_PAID
     \<and> find_unique (invoices d2) (p_invoice p2) = Some iv \<and> find_unique (cases d3) (iv_case iv) = Some c \<and> c_payment_status c = PS_PAID
     \<and> refunds d3 = refunds d2 \<and> rid \<in> fst ` set (t_rows (refunds d3))"
proof -
  let ?ref = "Case_Inv i n"
  have paid: "handleVerifiedCasePayment e ?ref amount d = (Inr pid, d1)"
    using assms(2) by (auto simp: handlePaystackWebhook_def and_then_Inr_iff)
  have wf: "wf_table (payments d1)"
    using paid
  proof (rule verified_cases)
    fix p and iv :: invoice and c :: service_case and cu :: customer
    assume "find_unique (cases d) (iv_case iv) = Some c"
      and "if p_status p = PS_PAID then d1 = d else settle_payment e ?ref pid (iv_case iv) c (cu_user cu) d = (Inr pid, d1)"
    then show ?thesis
      using settle_payment_Inr [of d "iv_case iv" c e ?ref pid "cu_user cu"] assms(1) by (fastforce simp: update_row_def split: if_splits)
  qed
  show ?thesis
    using verified_again [OF paid, of e]
  proof (rule verified_cases)
    fix p and iv :: invoice and c :: service_case and cu :: customer
    assume found: "find_payment ?ref d1 = Some (pid, p)" and kobo: "kobo (p_amount p) = amount"
      and rows: "find_unique (invoices d1) (p_invoice p) = Some iv" "find_unique (cases d1) (iv_case iv) = Some c"
        "find_unique (customers d1) (c_customer c) = Some cu"
    have p: "find_unique (payments d1) pid = Some p"
      using find_first_SomeD [OF found [unfolded find_payment_def]] wf by (simp add: find_unique_in_rows)
    from assms(3) obtain k and c' :: service_case and u where run: "executeRefund e1 ac pid p k c' u
        (remainingRefundable pid (p_amount p) d1) (Some (rx_reason dto)) d1 = (Inr rid, d2)"
      by (rule refundPayment_Inr) (use p assms(4) in \<open>auto split: if_splits dest: request_refund_Inr(1)\<close>)
    define p2 where "p2 = p\<lparr>p_status := PS_REFUNDED\<rparr>"
    have full: "p_amount p \<le> remainingRefundable pid (p_amount p) d1 + refunded pid d1" by (simp add: remainingRefundable_def)
    have pay: "payments d2 = update_row pid (\<lambda>q. q\<lparr>p_status := PS_REFUNDED\<rparr>) (payments d1)"
      using executeRefund_Inr(2) [OF run] full by simp
    have found2: "find_payment ?ref d2 = Some (pid, p2)"
      using find_payment_update [OF _ found pay] by (simp add: p2_def)
    have unique2: "find_unique (payments d2) pid = Some p2" using p by (simp add: pay tbl.lookup_modify p2_def)
    obtain c2 where c2: "find_unique (cases d2) (iv_case iv) = Some c2" "c_customer c2 = c_customer c"
      using rows(2) by (cases "iv_case iv = k") (auto simp: executeRefund_rows(3) [OF run] tbl.lookup_modify)
    have rows2: "find_unique (invoices d2) (p_invoice p2) = Some iv" "find_unique (customers d2) (c_customer c2) = Some cu"
      using rows c2(2) by (simp_all add: executeRefund_rows(1,2) [OF run] p2_def)
    show ?thesis
    proof (rule settle_payment_Inr [OF c2(1), of e2 ?ref pid "cu_user cu"])
      fix d3
      assume settle: "settle_payment e2 ?ref pid (iv_case iv) c2 (cu_user cu) d2 = (Inr pid, d3)"
        and eff: "payments d3 = update_row pid (\<lambda>p. p\<lparr>p_status := PS_PAID, p_verified_at := Some (now e2)\<rparr>) (payments d2)"
          "\<And>k'. find_unique (cases d3) k' = (if k' = iv_case iv then Some (paid_case c2) else find_unique (cases d2) k')"
          "refunds d3 = refunds d2"
      have "handleVerifiedCasePayment e2 ?ref amount d2 = (Inr pid, d3)"
        using found2 kobo settle
        by (simp add: handleVerifiedCasePayment_def payment_context_simp [OF rows2(1) c2(1) rows2(2)]) (simp add: p2_def)
      then have again: "handlePaystackWebhook e2 (Charge_Success ?ref amount) d2 = (Inr (Handled pid), d3)"
        by (simp add: handlePaystackWebhook_def)
      have p3: "find_unique (payments d3) pid = Some (p2\<lparr>p_status := PS_PAID, p_verified_at := Some (now e2)\<rparr>)"
        using unique2 by (simp add: eff(1) tbl.lookup_modify)
      have "rid \<in> fst ` set (t_rows (refunds d3))"
        by (simp add: eff(3) executeRefund_Inr(1) [OF run] executeRefund_Inr(3) [OF run])
      then show ?thesis using unique2 again p3 rows2(1) eff(2) [of "iv_case iv"] eff(3)
        by (intro exI conjI) (assumption | simp add: p2_def paid_case_def)+
    qed
  qed
qed

theorem refund_undone_by_redelivery_witness:
  "\<exists>d3 p3. handlePaystackWebhook sample_env (Charge_Success (Case_Inv 1 7) 50000000)
       (snd (refundPayment (sample_env\<lparr>refund_threshold_env := Some 500000\<rparr>) accountant 1 \<lparr>rx_amount = None, rx_reason = ''late''\<rparr>
         (snd (handlePaystackWebhook sample_env (Charge_Success (Case_Inv 1 7) 50000000) (paying_db CS_AWAITING_PAYMENT PS_PENDING)))))
       = (Inr (Handled 1), d3)
     \<and> find_unique (payments d3) 1 = Some p3 \<and> p_status p3 = PS_PAID"
proof -
  let ?w = "handlePaystackWebhook sample_env (Charge_Success (Case_Inv 1 7) 50000000) (paying_db CS_AWAITING_PAYMENT PS_PENDING)"
  let ?f = "refundPayment (sample_env\<lparr>refund_threshold_env := Some 500000\<rparr>) accountant 1 \<lparr>rx_amount = None, rx_reason = ''late''\<rparr> (snd ?w)"
  have wf: "wf_table (payments (paying_db CS_AWAITING_PAYMENT PS_PENDING))" by code_simp
  have "fst ?w = Inr (Handled 1)" by code_simp
  then have w: "?w = (Inr (Handled 1), snd ?w)" by (metis prod.collapse)
  have "fst ?f = Inr (Refund_Executed 1)" by code_simp
  then have f: "?f = (Inr (Refund_Executed 1), snd ?f)" by (metis prod.collapse)
  have "rx_amount \<lparr>rx_amount = None, rx_reason = ''late''\<rparr> = None" by simp
  from refund_undone_by_redelivery [OF wf w f this, of sample_env] show ?thesis by blast
qed

end
