(* ===== verification/Access.thy ===== *)
theory Access
  imports Schema
begin

text \<open>
  Who may touch what: the role guard and the case guard of the routes
  (\<open>src/backend/src/common/guards\<close>) and the ownership checks of the routes that name another
  resource (\<open>common/ownership/ownership.service.ts\<close>). None of them writes.
\<close>

section \<open>Guards\<close>

text \<open>The request has no user when no valid token came with it.\<close>

definition roles_guard :: "role list option \<Rightarrow> actor option \<Rightarrow> bool" where
  "roles_guard required usr = (case required of
     None \<Rightarrow> True
   | Some [] \<Rightarrow> True
   | Some rs \<Rightarrow> (case usr of None \<Rightarrow> False | Some ac \<Rightarrow> act_role ac \<in> set rs))"

text \<open>A field agent or a provider is on a case through an assignment of any status.\<close>

definition holds_assignment :: "nat \<Rightarrow> nat \<Rightarrow> db \<Rightarrow> bool" where
  "holds_assignment userId caseId d \<longleftrightarrow> exists_row (\<lambda>_ a. as_case a = caseId
     \<and> ((\<exists>g \<in> set_option (Option.bind (as_agent a) (find_unique (agents d))). ag_user g = userId)
      \<or> (\<exists>p \<in> set_option (Option.bind (as_provider a) (find_unique (providers d))). pv_user p = userId)))
     (assignments d)"

definition collaborates :: "nat \<Rightarrow> nat \<Rightarrow> db \<Rightarrow> bool" where
  "collaborates userId caseId d \<longleftrightarrow>
     exists_row (\<lambda>_ c. cl_case c = caseId \<and> cl_user c = userId) (collaborators d)"

definition case_access :: "actor option \<Rightarrow> nat option \<Rightarrow> db \<Rightarrow> error + bool" where
  "case_access usr caseId d = (case usr of
     None \<Rightarrow> Inr False
   | Some ac \<Rightarrow> (case caseId of
       None \<Rightarrow> Inr True
     | Some k \<Rightarrow>
       if act_role ac = R_ADMIN \<or> act_role ac = R_SUPER_ADMIN then Inr True
       else (case find_unique (cases d) k of
         None \<Rightarrow> Inl (Not_Found STR ''Case not found'')
       | Some c \<Rightarrow>
         (case find_unique (customers d) (c_customer c) of
            None \<Rightarrow> Inl (Internal STR ''Inconsistent query result'')
          | Some cu \<Rightarrow>
            if act_role ac = R_CUSTOMER
            then (if cu_user cu = act_id ac then Inr True
                  else Inl (Forbidden STR ''Not authorised for this case''))
            else if act_role ac = R_BENEFICIARY
            then (case find_first (\<lambda>_ b. bf_user b = Some (act_id ac)) (beneficiaries d) of
                    Some (b, _) \<Rightarrow> if c_beneficiary c = Some b then Inr True
                                   else Inl (Forbidden STR ''Not authorised for this case'')
                  | None \<Rightarrow> Inl (Forbidden STR ''Not authorised for this case''))
            else if act_role ac = R_FIELD_AGENT \<or> act_role ac = R_PROVIDER
            then (if holds_assignment (act_id ac) k d then Inr True
                  else Inl (Forbidden STR ''Not assigned to this case''))
            else if collaborates (act_id ac) k d then Inr True
            else Inl (Forbidden STR ''Not authorised for this case'')))))"

section \<open>Ownership\<close>

definition ops_staff :: "role list" where
  "ops_staff = [R_ADMIN, R_SUPER_ADMIN]"

definition finance_staff :: "role list" where
  "finance_staff = [R_FINANCE, R_ADMIN, R_SUPER_ADMIN]"

definition assertOwnerOrStaff ::
  "actor \<Rightarrow> 'r option \<Rightarrow> nat option \<Rightarrow> role list \<Rightarrow> String.literal \<Rightarrow> String.literal \<Rightarrow> error + 'r" where
  "assertOwnerOrStaff ac resource owner staffRoles notFound forbidden = (case resource of
     None \<Rightarrow> Inl (Not_Found notFound)
   | Some r \<Rightarrow> if act_role ac \<in> set staffRoles then Inr r
       else if owner = Some (act_id ac) then Inr r
       else Inl (Forbidden forbidden))"

definition assertAgentOwnership :: "actor \<Rightarrow> nat \<Rightarrow> role list \<Rightarrow> db \<Rightarrow> error + agent" where
  "assertAgentOwnership ac agentId staffRoles d =
     assertOwnerOrStaff ac (find_unique (agents d) agentId) (map_option ag_user (find_unique (agents d) agentId))
       staffRoles STR ''Agent not found'' STR ''Not authorised for this agent''"

definition assertEvidenceOwnership :: "actor \<Rightarrow> nat \<Rightarrow> role list \<Rightarrow> db \<Rightarrow> error + evidence" where
  "assertEvidenceOwnership ac evidenceId staffRoles d =
     assertOwnerOrStaff ac (find_unique (evidences d) evidenceId)
       (map_option ev_uploader (find_unique (evidences d) evidenceId))
       staffRoles STR ''Evidence not found'' STR ''Not authorised for this evidence''"

definition own_agent :: "nat \<Rightarrow> db \<Rightarrow> (nat \<times> agent) option" where
  "own_agent userId d = find_first (\<lambda>_ g. ag_user g = userId) (agents d)"

definition assertSosAlertOwnership :: "actor \<Rightarrow> nat \<Rightarrow> role list \<Rightarrow> db \<Rightarrow> error + sos_alert" where
  "assertSosAlertOwnership ac alertId staffRoles d = (case find_unique (sos_alerts d) alertId of
     None \<Rightarrow> Inl (Not_Found STR ''SOS alert not found'')
   | Some al \<Rightarrow>
     if act_role ac \<in> set staffRoles then Inr al
     else (case own_agent (act_id ac) d of
             Some (g, _) \<Rightarrow> if so_agent al = g then Inr al
                            else Inl (Forbidden STR ''Not authorised for this SOS alert'')
           | None \<Rightarrow> Inl (Forbidden STR ''Not authorised for this SOS alert'')))"

definition assertFieldAgentAssignedToCase :: "actor \<Rightarrow> nat \<Rightarrow> db \<Rightarrow> error + unit" where
  "assertFieldAgentAssignedToCase ac caseId d =
     (if exists_row (\<lambda>_ a. as_case a = caseId
          \<and> (\<exists>g \<in> set_option (Option.bind (as_agent a) (find_unique (agents d))). ag_user g = act_id ac))
          (assignments d)
      then Inr () else Inl (Forbidden STR ''Not assigned to this case''))"

definition resolveEffectiveAgentId :: "actor \<Rightarrow> nat option \<Rightarrow> role list \<Rightarrow> db \<Rightarrow> error + nat option" where
  "resolveEffectiveAgentId ac requested staffRoles d =
     (if act_role ac \<in> set staffRoles then Inr requested
      else (case own_agent (act_id ac) d of
              None \<Rightarrow> Inl (Forbidden STR ''Not authorised: no agent profile on this account'')
            | Some (g, _) \<Rightarrow> Inr (Some g)))"

section \<open>What a granted check means\<close>

lemma assertOwnerOrStaff_Inr [simp]:
  "assertOwnerOrStaff ac resource owner staff nf fb = Inr r \<longleftrightarrow>
     resource = Some r \<and> (act_role ac \<in> set staff \<or> owner = Some (act_id ac))"
  by (auto simp: assertOwnerOrStaff_def split: option.split)

lemma holds_assignment_iff:
  "holds_assignment u k d \<longleftrightarrow> (\<exists>(i, a) \<in> set (t_rows (assignments d)). as_case a = k
     \<and> ((\<exists>j g. as_agent a = Some j \<and> find_unique (agents d) j = Some g \<and> ag_user g = u)
      \<or> (\<exists>j p. as_provider a = Some j \<and> find_unique (providers d) j = Some p \<and> pv_user p = u)))"
  by (fastforce simp: holds_assignment_def find_first_None_iff bind_eq_Some_conv)

lemma collaborates_iff:
  "collaborates u k d \<longleftrightarrow> (\<exists>(i, c) \<in> set (t_rows (collaborators d)). cl_case c = k \<and> cl_user c = u)"
  by (fastforce simp: collaborates_def find_first_None_iff)

text \<open>The relation to a case that each role needs.\<close>

fun related :: "role \<Rightarrow> nat \<Rightarrow> nat \<Rightarrow> db \<Rightarrow> bool" where
  "related R_ADMIN u k d = True"
| "related R_SUPER_ADMIN u k d = True"
| "related R_CUSTOMER u k d = (\<exists>c cu. find_unique (cases d) k = Some c
     \<and> find_unique (customers d) (c_customer c) = Some cu \<and> cu_user cu = u)"
| "related R_BENEFICIARY u k d = (\<exists>c b r. find_unique (cases d) k = Some c \<and> c_beneficiary c = Some b
     \<and> find_first (\<lambda>_ b. bf_user b = Some u) (beneficiaries d) = Some (b, r))"
| "related R_FIELD_AGENT u k d = holds_assignment u k d"
| "related R_PROVIDER u k d = holds_assignment u k d"
| "related _ u k d = collaborates u k d"

text \<open>\<open>case_rows d k\<close>: the case exists together with its customer, as the foreign key demands.\<close>

definition case_rows :: "db \<Rightarrow> nat \<Rightarrow> bool" where
  "case_rows d k \<longleftrightarrow> (\<exists>c cu. find_unique (cases d) k = Some c \<and> find_unique (customers d) (c_customer c) = Some (cu :: customer))"

lemma case_access_related:
  assumes "case_rows d k"
  shows "case_access (Some ac) (Some k) d = Inr True \<longleftrightarrow> related (act_role ac) (act_id ac) k d"
    and "case_access (Some ac) (Some k) d \<noteq> Inr False"
  using assms by (cases "act_role ac"; auto simp: case_rows_def case_access_def split: option.split)+

end
