(* ===== verification/Wallet.thy ===== *)
theory Wallet
  imports Audit_Log Access
begin

text \<open>
  What field agents earn and are paid: the double-entry ledger
  (\<open>src/backend/src/agent-wallet/ledger.service.ts\<close>) and the wallets kept beside it as a read model
  (\<open>agent-wallet/agent-wallet.service.ts\<close>). Both are written in one transaction, so a posting that
  is refused leaves neither.
\<close>

section \<open>The chart of accounts\<close>

definition chart_of_accounts :: "ledger_account list" where
  "chart_of_accounts =
     [\<lparr>la_code = STR ''AGENT_COMPENSATION_EXPENSE'', la_name = STR ''Agent Compensation Expense'', la_type = LA_EXPENSE\<rparr>,
      \<lparr>la_code = STR ''AGENT_PAYOUT_PAYABLE'', la_name = STR ''Agent Payout Payable'', la_type = LA_LIABILITY\<rparr>,
      \<lparr>la_code = STR ''OPERATING_CASH'', la_name = STR ''Operating Cash'', la_type = LA_ASSET\<rparr>]"

definition find_account :: "String.literal \<Rightarrow> ledger_account table \<Rightarrow> nat option" where
  "find_account code t = map_option fst (find_first (\<lambda>_ a. la_code a = code) t)"

definition upsert_account :: "ledger_account \<Rightarrow> ledger_account table \<Rightarrow> ledger_account table" where
  "upsert_account a t = (if find_account (la_code a) t = None then insert_row a t else t)"

definition ensure_accounts :: "ledger_account table \<Rightarrow> ledger_account table" where
  "ensure_accounts t = foldl (\<lambda>t a. upsert_account a t) t chart_of_accounts"

definition ensureChartOfAccounts :: "db \<Rightarrow> db" where
  "ensureChartOfAccounts d = d\<lparr>ledger_accounts := ensure_accounts (ledger_accounts d)\<rparr>"

section \<open>Posting\<close>

record posting_line =
  ji_code :: String.literal
  ji_direction :: journal_direction
  ji_amount :: rat

record posting =
  jp_key :: journal_key
  jp_entity_type :: String.literal
  jp_entity :: "nat option"
  jp_agent :: "nat option"
  jp_description :: "json list option"
  jp_lines :: "posting_line list"

definition total :: "journal_direction \<Rightarrow> posting_line list \<Rightarrow> rat" where
  "total dir ls = foldl (\<lambda>sum l. sum + ji_amount l) 0 (filter (\<lambda>l. ji_direction l = dir) ls)"

definition posting_error :: "posting_line list \<Rightarrow> error option" where
  "posting_error ls =
     (if length ls < 2 then Some (Internal STR ''Journal entry needs at least 2 lines'')
      else if \<exists>l \<in> set ls. ji_amount l \<le> 0 then Some (Internal STR ''Journal entry has a non-positive line amount'')
      else if total JD_DEBIT ls = 0 \<or> total JD_CREDIT ls = 0
      then Some (Internal STR ''Journal entry must have at least one debit line and one credit line'')
      else if total JD_DEBIT ls \<noteq> total JD_CREDIT ls then Some (Internal STR ''Journal entry does not balance'')
      else None)"

text \<open>An account code without an account would violate the foreign key of the line.\<close>

definition line_row :: "db \<Rightarrow> nat \<Rightarrow> posting_line \<Rightarrow> journal_line" where
  "line_row d jid l = \<lparr>jl_entry = jid, jl_account = the (find_account (ji_code l) (ledger_accounts d)),
     jl_direction = ji_direction l, jl_amount = dec2 (ji_amount l)\<rparr>"

definition postJournalEntry :: "posting \<Rightarrow> db \<Rightarrow> nat result" where
  "postJournalEntry jp d = (case posting_error (jp_lines jp) of
     Some err \<Rightarrow> throw err d
   | None \<Rightarrow> (case find_first (\<lambda>_ j. je_key j = jp_key jp) (journal_entries d) of
       Some (i, _) \<Rightarrow> return i d
     | None \<Rightarrow>
       (let d1 = ensureChartOfAccounts d; jid = t_next (journal_entries d1) in
        if \<exists>l \<in> set (jp_lines jp). find_account (ji_code l) (ledger_accounts d1) = None
        then throw (Internal STR ''Foreign key constraint violated'') d1
        else return jid
          (d1\<lparr>journal_entries := insert_row \<lparr>je_key = jp_key jp, je_entity_type = jp_entity_type jp,
                je_entity = jp_entity jp, je_agent = jp_agent jp, je_description = jp_description jp\<rparr>
                (journal_entries d1),
              journal_lines := insert_rows (map (line_row d1 jid) (jp_lines jp)) (journal_lines d1)\<rparr>))))"

definition transfer :: "String.literal \<Rightarrow> String.literal \<Rightarrow> rat \<Rightarrow> posting_line list" where
  "transfer debit credit amount =
     [\<lparr>ji_code = debit, ji_direction = JD_DEBIT, ji_amount = amount\<rparr>,
      \<lparr>ji_code = credit, ji_direction = JD_CREDIT, ji_amount = amount\<rparr>]"

definition postEarning :: "nat \<Rightarrow> nat \<Rightarrow> rat \<Rightarrow> nat \<Rightarrow> db \<Rightarrow> nat result" where
  "postEarning walletEntryId agentId amount caseId = postJournalEntry
     \<lparr>jp_key = Earning_Key walletEntryId, jp_entity_type = STR ''WalletEntry'', jp_entity = Some walletEntryId,
      jp_agent = Some agentId,
      jp_description = Some [J_Lit STR ''Agent earning recorded on case '', J_Id caseId],
      jp_lines = transfer STR ''AGENT_COMPENSATION_EXPENSE'' STR ''AGENT_PAYOUT_PAYABLE'' amount\<rparr>"

definition postPayout :: "nat \<Rightarrow> nat \<Rightarrow> rat \<Rightarrow> db \<Rightarrow> nat result" where
  "postPayout payoutId agentId amount = postJournalEntry
     \<lparr>jp_key = Payout_Key payoutId, jp_entity_type = STR ''Payout'', jp_entity = Some payoutId,
      jp_agent = Some agentId, jp_description = Some [J_Lit STR ''Agent payout '', J_Id payoutId],
      jp_lines = transfer STR ''AGENT_PAYOUT_PAYABLE'' STR ''OPERATING_CASH'' amount\<rparr>"

section \<open>Reading the ledger\<close>

definition side :: "nat \<Rightarrow> journal_direction \<Rightarrow> db \<Rightarrow> rat" where
  "side accountId dir d = sum_list (map (\<lambda>(_, l). jl_amount l)
     (find_many (\<lambda>_ l. jl_account l = accountId \<and> jl_direction l = dir) (journal_lines d)))"

record trial_row =
  tb_code :: String.literal
  tb_name :: String.literal
  tb_type :: ledger_account_type
  tb_debits :: rat
  tb_credits :: rat
  tb_balance :: rat

definition trial_row_of :: "db \<Rightarrow> nat \<times> ledger_account \<Rightarrow> trial_row" where
  "trial_row_of d = (\<lambda>(i, a).
     \<lparr>tb_code = la_code a, tb_name = la_name a, tb_type = la_type a,
      tb_debits = side i JD_DEBIT d, tb_credits = side i JD_CREDIT d,
      tb_balance = (if la_type a = LA_ASSET \<or> la_type a = LA_EXPENSE
        then side i JD_DEBIT d - side i JD_CREDIT d else side i JD_CREDIT d - side i JD_DEBIT d)\<rparr>)"

definition getTrialBalance :: "db \<Rightarrow> trial_row list" where
  "getTrialBalance d = map (trial_row_of d) (sort_key (\<lambda>(_, a). la_code a) (t_rows (ledger_accounts d)))"

definition getAgentLedger :: "nat \<Rightarrow> nat \<Rightarrow> db \<Rightarrow> (nat \<times> journal_entry) list" where
  "getAgentLedger agentId limit d =
     take limit (rev (find_many (\<lambda>_ j. je_agent j = Some agentId) (journal_entries d)))"

section \<open>Wallets\<close>

definition qc_passed_statuses :: "case_status list" where
  "qc_passed_statuses = [CS_APPROVED, CS_COMPLETED, CS_CLOSED]"

definition find_wallet :: "nat \<Rightarrow> db \<Rightarrow> (nat \<times> wallet_account) option" where
  "find_wallet agentId d = find_first (\<lambda>_ w. wa_agent w = agentId) (wallets d)"

definition getOrCreateWallet :: "nat \<Rightarrow> db \<Rightarrow> nat \<times> db" where
  "getOrCreateWallet agentId d = (case find_wallet agentId d of
     Some (i, _) \<Rightarrow> (i, d)
   | None \<Rightarrow> (t_next (wallets d), d\<lparr>wallets := insert_row
       \<lparr>wa_agent = agentId, wa_available = 0, wa_earned = 0, wa_paid = 0\<rparr> (wallets d)\<rparr>))"

record earning_dto =
  er_amount :: rat
  er_description :: "string option"

definition credit_wallet :: "actor \<Rightarrow> nat \<Rightarrow> nat \<Rightarrow> nat \<Rightarrow> earning_dto \<Rightarrow> db \<Rightarrow> nat result" where
  "credit_wallet ac caseId agentId wid dto d = transactional d
     (let eid = t_next (wallet_entries d) in
      and_then (postEarning eid agentId (er_amount dto) caseId
        (d\<lparr>wallet_entries := insert_row \<lparr>we_agent = agentId, we_wallet = wid, we_type = EARNING,
             we_amount = dec2 (er_amount dto), we_case = Some caseId, we_payout = None,
             we_description = er_description dto, we_actor = Some (act_id ac)\<rparr> (wallet_entries d),
           wallets := update_row wid (\<lambda>w. w\<lparr>wa_available := dec2 (wa_available w + er_amount dto),
             wa_earned := dec2 (wa_earned w + er_amount dto)\<rparr>) (wallets d)\<rparr>))
        (\<lambda>_. return eid))"

definition recordEarning :: "actor \<Rightarrow> nat \<Rightarrow> earning_dto \<Rightarrow> db \<Rightarrow> nat result" where
  "recordEarning ac caseId dto d = (case find_unique (cases d) caseId of
     None \<Rightarrow> throw (Not_Found STR ''Case not found'') d
   | Some c \<Rightarrow>
     if c_status c \<notin> set qc_passed_statuses
     then throw (Bad_Request STR ''Cannot record agent earnings: the case must have passed QC first'') d
     else (case find_last (\<lambda>_ a. as_case a = caseId \<and> as_role a = AR_FIELD_AGENT) (assignments d) of
       None \<Rightarrow> throw (Bad_Request STR ''This case has no field agent assignment to credit earnings against'') d
     | Some (_, a) \<Rightarrow> (case as_agent a of
         None \<Rightarrow> throw (Bad_Request STR ''This case has no field agent assignment to credit earnings against'') d
       | Some agentId \<Rightarrow>
         (case getOrCreateWallet agentId d of (wid, d1) \<Rightarrow>
           and_then (credit_wallet ac caseId agentId wid dto d1) (\<lambda>eid d2.
             return eid (audit_record (Some caseId) (Some (act_id ac)) By_User STR ''case.agent_earnings_recorded''
               [(STR ''agentId'', J_Id agentId), (STR ''amount'', J_Num (er_amount dto)),
                (STR ''walletEntryId'', J_Id eid)] d2))))))"

record payout_dto =
  py_amount :: rat
  py_note :: "string option"

definition debit_wallet :: "actor \<Rightarrow> nat \<Rightarrow> nat \<Rightarrow> payout_dto \<Rightarrow> db \<Rightarrow> nat result" where
  "debit_wallet ac agentId wid dto d = transactional d
     (let poid = t_next (payouts d) in
      and_then (postPayout poid agentId (py_amount dto)
        (d\<lparr>payouts := insert_row \<lparr>po_agent = Some agentId, po_amount = dec2 (py_amount dto), po_status = PS_PAID,
             po_note = py_note dto\<rparr> (payouts d),
           wallets := update_row wid (\<lambda>w. w\<lparr>wa_available := dec2 (wa_available w - py_amount dto),
             wa_paid := dec2 (wa_paid w + py_amount dto)\<rparr>) (wallets d),
           wallet_entries := insert_row \<lparr>we_agent = agentId, we_wallet = wid, we_type = PAYOUT_DEBIT,
             we_amount = dec2 (py_amount dto), we_case = None, we_payout = Some poid,
             we_description = py_note dto, we_actor = Some (act_id ac)\<rparr> (wallet_entries d)\<rparr>))
        (\<lambda>_. return poid))"

text \<open>Without a wallet the available balance is 0; the DTO admits positive amounts only, so the
  \<open>wallet!.id\<close> of the transaction is then not reached.\<close>

definition recordPayout :: "actor \<Rightarrow> nat \<Rightarrow> payout_dto \<Rightarrow> db \<Rightarrow> nat result" where
  "recordPayout ac agentId dto d = (case find_unique (agents d) agentId of
     None \<Rightarrow> throw (Not_Found STR ''Agent not found'') d
   | Some _ \<Rightarrow>
     (let available = (case find_wallet agentId d of Some (_, w) \<Rightarrow> wa_available w | None \<Rightarrow> 0) in
      if available < py_amount dto
      then throw (Bad_Request STR ''Payout exceeds available balance: nothing was recorded'') d
      else (case find_wallet agentId d of
          None \<Rightarrow> throw (Internal STR ''Cannot read properties of null'') d
        | Some (wid, _) \<Rightarrow>
          and_then (debit_wallet ac agentId wid dto d) (\<lambda>poid d1.
            return poid (audit_record None (Some (act_id ac)) By_User STR ''agent.payout_recorded''
              [(STR ''agentId'', J_Id agentId), (STR ''amount'', J_Num (py_amount dto)),
               (STR ''payoutId'', J_Id poid)] d1)))))"

record wallet_view =
  wv_available :: rat
  wv_earned :: rat
  wv_paid :: rat
  wv_entries :: "(nat \<times> wallet_entry) list"

definition getWallet :: "actor \<Rightarrow> nat \<Rightarrow> db \<Rightarrow> error + wallet_view" where
  "getWallet ac agentId d = (case assertAgentOwnership ac agentId finance_staff d of
     Inl err \<Rightarrow> Inl err
   | Inr _ \<Rightarrow> Inr (case find_wallet agentId d of
       None \<Rightarrow> \<lparr>wv_available = 0, wv_earned = 0, wv_paid = 0, wv_entries = []\<rparr>
     | Some (_, w) \<Rightarrow> \<lparr>wv_available = wa_available w, wv_earned = wa_earned w, wv_paid = wa_paid w,
         wv_entries = take 20 (rev (find_many (\<lambda>_ x. we_agent x = agentId) (wallet_entries d)))\<rparr>))"

section \<open>The chart is complete and stable\<close>

lemma find_account_upsert:
  "find_account code (upsert_account a t) = (case find_account code t of Some i \<Rightarrow> Some i
     | None \<Rightarrow> if la_code a = code then Some (t_next t) else None)"
  by (auto simp: find_account_def upsert_account_def find_first_insert_row split: option.splits)

lemma wf_upsert_account [simp]: "wf_table t \<Longrightarrow> wf_table (upsert_account a t)"
  by (simp add: upsert_account_def)

lemma find_unique_upsert: "wf_table t \<Longrightarrow> find_unique t k = Some r \<Longrightarrow> find_unique (upsert_account a t) k = Some r"
  by (auto simp: upsert_account_def)

lemma wf_ensure [simp]: "wf_table t \<Longrightarrow> wf_table (ensure_accounts t)"
  by (simp add: ensure_accounts_def chart_of_accounts_def)

lemma ensure_keeps:
  "find_account code t = Some i \<Longrightarrow> find_account code (ensure_accounts t) = Some i"
  "wf_table t \<Longrightarrow> find_unique t k = Some r \<Longrightarrow> find_unique (ensure_accounts t) k = Some r"
  by (simp_all add: ensure_accounts_def chart_of_accounts_def find_account_upsert find_unique_upsert)

lemma ensure_complete:
  "a \<in> set chart_of_accounts \<Longrightarrow> find_account (la_code a) (ensure_accounts t) \<noteq> None"
  by (auto simp: ensure_accounts_def chart_of_accounts_def find_account_upsert split: option.splits)

lemma find_accountD:
  "wf_table t \<Longrightarrow> find_account code t = Some i \<Longrightarrow> \<exists>a. find_unique t i = Some a \<and> la_code a = code"
  by (auto simp: find_account_def find_unique_in_rows dest!: find_first_SomeD)

lemma find_account_inj:
  "wf_table t \<Longrightarrow> find_account c t = Some i \<Longrightarrow> find_account c' t = Some i \<Longrightarrow> c = c'"
  by (metis find_accountD option.inject)

lemma ensure_new:
  assumes "wf_table t" "find_account code t = None" "find_account code (ensure_accounts t) = Some i"
  shows "find_unique t i = None"
proof (cases "find_unique t i")
  case (Some a)
  then have "find_unique (ensure_accounts t) i = Some a" using assms(1) by (rule ensure_keeps(2) [rotated])
  then have "la_code a = code" using find_accountD [OF _ assms(3)] assms(1) by auto
  with Some assms(1,2) show ?thesis
    by (auto simp: find_account_def find_first_None_iff find_unique_in_rows)
qed

section \<open>Sums of journal lines\<close>

definition line_total :: "(journal_line \<Rightarrow> bool) \<Rightarrow> journal_direction \<Rightarrow> db \<Rightarrow> rat" where
  "line_total P dir d = sum_list (map (\<lambda>(_, l). if P l \<and> jl_direction l = dir then jl_amount l else 0)
     (t_rows (journal_lines d)))"

lemma sum_list_filter_zero: "sum_list (map f (filter P xs)) = sum_list (map (\<lambda>x. if P x then f x else (0::rat)) xs)"
  by (induction xs) auto

lemma side_line_total: "side i dir d = line_total (\<lambda>l. jl_account l = i) dir d"
  by (simp add: side_def line_total_def find_many_def sum_list_filter_zero case_prod_unfold)

lemma line_total_insert_rows:
  assumes "journal_lines d' = insert_rows rs (journal_lines d)"
  shows "line_total P dir d' = line_total P dir d
    + sum_list (map (\<lambda>l. if P l \<and> jl_direction l = dir then jl_amount l else 0) rs)"
proof -
  have *: "sum_list (map (\<lambda>(_, l). f l) (t_rows t)) = sum_list (map f (map snd (t_rows t)))" for f :: "journal_line \<Rightarrow> rat" and t
    by (simp add: case_prod_unfold comp_def)
  show ?thesis
    unfolding line_total_def * assms rows_insert_rows by simp
qed

lemma line_total_cong: "journal_lines d' = journal_lines d \<Longrightarrow> line_total P dir d' = line_total P dir d"
  by (simp add: line_total_def)

section \<open>The ledger balances\<close>

text \<open>
  Every entry has equal debits and credits, so has the whole ledger, and every line is on an
  account and on an entry that exist.
\<close>

definition ledger_ok :: "db \<Rightarrow> bool" where
  "ledger_ok d \<longleftrightarrow> wf_table (ledger_accounts d) \<and> wf_table (journal_entries d)
     \<and> (\<forall>jid. line_total (\<lambda>l. jl_entry l = jid) JD_DEBIT d = line_total (\<lambda>l. jl_entry l = jid) JD_CREDIT d)
     \<and> line_total (\<lambda>_. True) JD_DEBIT d = line_total (\<lambda>_. True) JD_CREDIT d
     \<and> (\<forall>(_, l) \<in> set (t_rows (journal_lines d)). find_unique (ledger_accounts d) (jl_account l) \<noteq> None
          \<and> jl_entry l < t_next (journal_entries d))"

lemma ledger_ok_cong:
  "ledger_accounts d' = ledger_accounts d \<Longrightarrow> journal_entries d' = journal_entries d \<Longrightarrow>
     journal_lines d' = journal_lines d \<Longrightarrow> ledger_ok d' = ledger_ok d"
  by (simp add: ledger_ok_def line_total_def)

lemma total_sum: "total dir ls = sum_list (map (\<lambda>l. if ji_direction l = dir then ji_amount l else 0) ls)"
proof -
  have "foldl (\<lambda>s l. s + ji_amount l) a ls' = a + sum_list (map ji_amount ls')" for a and ls' :: "posting_line list"
    by (induction ls' arbitrary: a) (simp_all add: add.assoc)
  then show ?thesis by (simp add: total_def sum_list_filter_zero)
qed

text \<open>The lines as the columns keep them, with two decimals.\<close>

definition rounded :: "posting_line list \<Rightarrow> posting_line list" where
  "rounded = map (\<lambda>l. l\<lparr>ji_amount := dec2 (ji_amount l)\<rparr>)"

lemma rounded_cents: "\<forall>l \<in> set ls. cents (ji_amount l) \<Longrightarrow> rounded ls = ls"
  by (induction ls) (simp_all add: rounded_def)

lemma posted_lines:
  assumes "\<And>l. jl_entry l = jid \<Longrightarrow> P l"
  shows "sum_list (map (\<lambda>l. if P l \<and> jl_direction l = dir then jl_amount l else 0) (map (line_row d jid) ls))
    = total dir (rounded ls)"
proof -
  have "P (line_row d jid l)" for l by (rule assms) (simp add: line_row_def)
  then show ?thesis
    by (induction ls) (simp_all add: total_sum rounded_def, simp_all add: line_row_def)
qed

lemma posted_elsewhere:
  assumes "\<And>l. jl_entry l = jid \<Longrightarrow> \<not> P l"
  shows "sum_list (map (\<lambda>l. if P l \<and> jl_direction l = dir then jl_amount l else 0) (map (line_row d jid) ls)) = 0"
proof -
  have "\<not> P (line_row d jid l)" for l by (rule assms) (simp add: line_row_def)
  then show ?thesis by (induction ls) simp_all
qed

text \<open>What a new posting writes.\<close>

lemma postJournalEntry_new:
  assumes "posting_error (jp_lines jp) = None" "find_first (\<lambda>_ j. je_key j = jp_key jp) (journal_entries d) = None"
    and "\<forall>l \<in> set (jp_lines jp). find_account (ji_code l) (ensure_accounts (ledger_accounts d)) \<noteq> None"
  shows "postJournalEntry jp d = (Inr (t_next (journal_entries d)),
    d\<lparr>ledger_accounts := ensure_accounts (ledger_accounts d),
      journal_entries := insert_row \<lparr>je_key = jp_key jp, je_entity_type = jp_entity_type jp,
                je_entity = jp_entity jp, je_agent = jp_agent jp, je_description = jp_description jp\<rparr> (journal_entries d),
      journal_lines := insert_rows (map (line_row (ensureChartOfAccounts d) (t_next (journal_entries d))) (jp_lines jp))
         (journal_lines d)\<rparr>)"
  using assms by (simp add: postJournalEntry_def ensureChartOfAccounts_def Let_def)

lemma set_insert_rows: "snd ` set (t_rows (insert_rows rs t)) = snd ` set (t_rows t) \<union> set rs"
  by (metis rows_insert_rows set_append set_map)

lemma postJournalEntry_ok:
  assumes ok: "ledger_ok d"
    and bal: "posting_error (jp_lines jp) = None \<Longrightarrow> total JD_DEBIT (rounded (jp_lines jp)) = total JD_CREDIT (rounded (jp_lines jp))"
  shows "ledger_ok (snd (postJournalEntry jp d))"
proof (cases "posting_error (jp_lines jp)")
  case (Some err)
  with ok show ?thesis by (simp add: postJournalEntry_def)
next
  case None
  let ?d1 = "ensureChartOfAccounts d" and ?jid = "t_next (journal_entries d)"
  have ok1: "ledger_ok ?d1"
    using ok ensure_keeps(2) [of "ledger_accounts d"]
    by (fastforce simp: ledger_ok_def ensureChartOfAccounts_def line_total_def)
  show ?thesis
  proof (cases "find_first (\<lambda>_ j. je_key j = jp_key jp) (journal_entries d)")
    case Some
    with None ok show ?thesis by (auto simp: postJournalEntry_def split: prod.split)
  next
    case new: None
    show ?thesis
    proof (cases "\<forall>l \<in> set (jp_lines jp). find_account (ji_code l) (ensure_accounts (ledger_accounts d)) \<noteq> None")
      case False
      then show ?thesis using None new ok1
        by (simp add: postJournalEntry_def ensureChartOfAccounts_def)
    next
      case True
      let ?d' = "snd (postJournalEntry jp d)"
      note post = postJournalEntry_new [OF None new True]
      have lines: "journal_lines ?d' = insert_rows (map (line_row ?d1 ?jid) (jp_lines jp)) (journal_lines d)"
        by (simp add: post)
      note bal = bal [OF None]
      have "line_total (\<lambda>l. jl_entry l = i) JD_DEBIT ?d' = line_total (\<lambda>l. jl_entry l = i) JD_CREDIT ?d'" for i
        using ok bal posted_lines [of ?jid "\<lambda>l. jl_entry l = i"] posted_elsewhere [of ?jid "\<lambda>l. jl_entry l = i"]
        by (cases "i = ?jid") (simp_all add: line_total_insert_rows [OF lines] ledger_ok_def)
      moreover have "line_total (\<lambda>_. True) JD_DEBIT ?d' = line_total (\<lambda>_. True) JD_CREDIT ?d'"
        using ok bal posted_lines [of ?jid "\<lambda>_. True"]
        by (simp add: line_total_insert_rows [OF lines] ledger_ok_def)
      moreover have "\<forall>l \<in> snd ` set (t_rows (journal_lines ?d')). find_unique (ledger_accounts ?d') (jl_account l) \<noteq> None
          \<and> jl_entry l < t_next (journal_entries ?d')"
      proof -
        have "find_unique (ledger_accounts ?d') (jl_account l) \<noteq> None \<and> jl_entry l < t_next (journal_entries ?d')"
          if "l \<in> snd ` set (t_rows (journal_lines d))" for l
          using that ok1 ok by (force simp: ledger_ok_def post ensureChartOfAccounts_def)
        moreover have "find_unique (ledger_accounts ?d') (jl_account (line_row ?d1 ?jid l)) \<noteq> None"
          if l: "l \<in> set (jp_lines jp)" for l
        proof -
          obtain i where i: "find_account (ji_code l) (ensure_accounts (ledger_accounts d)) = Some i"
            using True l by (cases "find_account (ji_code l) (ensure_accounts (ledger_accounts d))") auto
          have "wf_table (ensure_accounts (ledger_accounts d))" using ok by (simp add: ledger_ok_def)
          from find_accountD [OF this i] obtain a where "find_unique (ensure_accounts (ledger_accounts d)) i = Some a"
            by blast
          with i show ?thesis by (simp add: post line_row_def ensureChartOfAccounts_def)
        qed
        ultimately show ?thesis
          unfolding lines set_insert_rows by (auto simp: line_row_def post)
      qed
      ultimately show ?thesis
        using ok by (auto simp: ledger_ok_def post)
    qed
  qed
qed

text \<open>Posting the same event again finds the first entry and changes nothing.\<close>

lemma postJournalEntry_again:
  assumes "postJournalEntry jp d = (Inr i, d')" "jp_key jp' = jp_key jp" "posting_error (jp_lines jp') = None"
  shows "postJournalEntry jp' d' = (Inr i, d')"
proof -
  have "\<exists>r. find_first (\<lambda>_ j. je_key j = jp_key jp) (journal_entries d') = Some (i, r)"
    using assms(1) by (auto simp: postJournalEntry_def Let_def ensureChartOfAccounts_def find_first_insert_row
        split: option.splits if_splits)
  with assms(2,3) show ?thesis by (auto simp: postJournalEntry_def)
qed

lemma transfer_ok: "0 < amount \<Longrightarrow> posting_error (transfer a b amount) = None"
  by (simp add: posting_error_def transfer_def total_def)

lemma sum_by_key:
  assumes "distinct ks" "\<forall>x \<in> set ls. g x \<in> set ks"
  shows "sum_list (map (\<lambda>k. sum_list (map (\<lambda>x. if g x = k \<and> Q x then f x else (0::rat)) ls)) ks)
    = sum_list (map (\<lambda>x. if Q x then f x else 0) ls)"
proof -
  have one: "sum_list (map (\<lambda>k. if a = k \<and> c then x else 0) ks) = (if a \<in> set ks \<and> c then x else 0)" for a c and x :: rat
    using assms(1) by (induction ks) auto
  show ?thesis
    using assms(2) by (induction ls) (simp_all add: sum_list_addf one)
qed

lemma trial_balances:
  assumes "ledger_ok d"
  shows "sum_list (map tb_debits (getTrialBalance d)) = sum_list (map tb_credits (getTrialBalance d))"
proof -
  have *: "sum_list (map (\<lambda>(i, _). side i dir d) (t_rows (ledger_accounts d))) = line_total (\<lambda>_. True) dir d" for dir
  proof -
    let ?acc = "t_rows (ledger_accounts d)"
    have dist: "distinct (map fst ?acc)" using assms by (simp add: ledger_ok_def wf_table_def)
    have all: "\<forall>(_, l) \<in> set (t_rows (journal_lines d)). jl_account l \<in> set (map fst ?acc)"
      using assms by (force simp: ledger_ok_def find_unique_def map_of_eq_None_iff)
    show ?thesis
      using sum_by_key [OF dist, of "t_rows (journal_lines d)" "\<lambda>x. jl_account (snd x)"
          "\<lambda>x. jl_direction (snd x) = dir" "\<lambda>x. jl_amount (snd x)"] all
      by (simp add: side_line_total line_total_def comp_def case_prod_unfold)
  qed
  have perm: "mset (sort_key (\<lambda>(_, a). la_code a) (t_rows (ledger_accounts d))) = mset (t_rows (ledger_accounts d))" by simp
  have "sum_list (map f (sort_key (\<lambda>(_, a). la_code a) (t_rows (ledger_accounts d)))) = sum_list (map f (t_rows (ledger_accounts d)))"
    for f :: "nat \<times> ledger_account \<Rightarrow> rat"
    by (simp flip: sum_mset_sum_list)
  then show ?thesis
    using * [of JD_DEBIT] * [of JD_CREDIT] assms
    by (simp add: getTrialBalance_def comp_def trial_row_of_def case_prod_unfold ledger_ok_def)
qed

section \<open>The wallets agree with the ledger\<close>

definition entry_total :: "wallet_entry_type \<Rightarrow> nat \<Rightarrow> db \<Rightarrow> rat" where
  "entry_total ty wid d = sum_list (map (\<lambda>(_, x). we_amount x)
     (find_many (\<lambda>_ x. we_wallet x = wid \<and> we_type x = ty) (wallet_entries d)))"

definition owed_agents :: "db \<Rightarrow> rat" where
  "owed_agents d = (case find_account STR ''AGENT_PAYOUT_PAYABLE'' (ledger_accounts d) of
     None \<Rightarrow> 0 | Some i \<Rightarrow> side i JD_CREDIT d - side i JD_DEBIT d)"

text \<open>What the ledger owes to one agent: the lines on the payable account of the entries posted for that agent.\<close>

definition entry_agent :: "db \<Rightarrow> nat \<Rightarrow> nat option" where
  "entry_agent d jid = (case find_unique (journal_entries d) jid of Some j \<Rightarrow> je_agent j | None \<Rightarrow> None)"

definition owed_to :: "nat \<Rightarrow> db \<Rightarrow> rat" where
  "owed_to a d = (case find_account STR ''AGENT_PAYOUT_PAYABLE'' (ledger_accounts d) of
     None \<Rightarrow> 0
   | Some i \<Rightarrow> line_total (\<lambda>l. jl_account l = i \<and> entry_agent d (jl_entry l) = Some a) JD_CREDIT d
       - line_total (\<lambda>l. jl_account l = i \<and> entry_agent d (jl_entry l) = Some a) JD_DEBIT d)"

definition agent_balance :: "nat \<Rightarrow> db \<Rightarrow> rat" where
  "agent_balance a d = (case find_wallet a d of Some (_, w) \<Rightarrow> wa_available w | None \<Rightarrow> 0)"

definition agents_ok :: "db \<Rightarrow> bool" where
  "agents_ok d \<longleftrightarrow> distinct (map (wa_agent \<circ> snd) (t_rows (wallets d))) \<and> (\<forall>a. owed_to a d = agent_balance a d)"

definition wallet_total :: "db \<Rightarrow> rat" where
  "wallet_total d = sum_list (map (\<lambda>(_, w). wa_available w) (t_rows (wallets d)))"

definition wallet_ok :: "db \<Rightarrow> nat \<Rightarrow> wallet_account \<Rightarrow> bool" where
  "wallet_ok d wid w \<longleftrightarrow> wa_available w = wa_earned w - wa_paid w \<and> 0 \<le> wa_available w
     \<and> cents (wa_earned w) \<and> cents (wa_paid w)
     \<and> wa_earned w = entry_total EARNING wid d \<and> wa_paid w = entry_total PAYOUT_DEBIT wid d"

definition fresh_keys :: "db \<Rightarrow> bool" where
  "fresh_keys d \<longleftrightarrow> (\<forall>(_, j) \<in> set (t_rows (journal_entries d)). case je_key j of
     Earning_Key k \<Rightarrow> k < t_next (wallet_entries d) | Payout_Key k \<Rightarrow> k < t_next (payouts d))"

definition books_ok :: "db \<Rightarrow> bool" where
  "books_ok d \<longleftrightarrow> ledger_ok d \<and> wf_table (wallets d) \<and> fresh_keys d
     \<and> (\<forall>(_, x) \<in> set (t_rows (wallet_entries d)). we_wallet x < t_next (wallets d))
     \<and> (\<forall>wid w. find_unique (wallets d) wid = Some w \<longrightarrow> wallet_ok d wid w)
     \<and> owed_agents d = wallet_total d \<and> agents_ok d"

lemma entry_total_insert:
  "wallet_entries d' = insert_row x (wallet_entries d) \<Longrightarrow>
     entry_total ty wid d' = entry_total ty wid d + (if we_wallet x = wid \<and> we_type x = ty then we_amount x else 0)"
  by (simp add: entry_total_def)

lemma entry_total_cong: "wallet_entries d' = wallet_entries d \<Longrightarrow> entry_total ty wid d' = entry_total ty wid d"
  by (simp add: entry_total_def)

lemma wallet_total_update:
  assumes "wf_table (wallets d)" "find_unique (wallets d) wid = Some w" "wallets d' = update_row wid f (wallets d)"
  shows "wallet_total d' = wallet_total d + (wa_available (f w) - wa_available w)"
proof -
  have "sum_list (map (\<lambda>(_, w). wa_available w) (map (\<lambda>(k, r). (k, if k = wid then f r else r)) rs))
    = sum_list (map (\<lambda>(_, w). wa_available w) rs) + (case map_of rs wid of None \<Rightarrow> 0 | Some w \<Rightarrow> wa_available (f w) - wa_available w)"
    if "distinct (map fst rs)" for rs :: "(nat \<times> wallet_account) list"
    using that
  proof (induction rs)
    case (Cons x rs)
    obtain k r where x: "x = (k, r)" by (cases x)
    have "map_of rs wid = None" if "k = wid" using Cons.prems that x by (simp add: map_of_eq_None_iff)
    with Cons show ?case by (auto simp: x)
  qed simp
  from this [of "t_rows (wallets d)"] assms show ?thesis
    by (simp add: wallet_total_def update_row_def rows_update_many wf_table_def find_unique_def)
qed

abbreviation payable_code :: String.literal where
  "payable_code \<equiv> STR ''AGENT_PAYOUT_PAYABLE''"

lemma line_total_None:
  "\<forall>(_, l) \<in> set (t_rows (journal_lines d)). \<not> P l \<Longrightarrow> line_total P dir d = 0"
proof -
  have "sum_list (map (\<lambda>(_, l). if P l \<and> jl_direction l = dir then jl_amount l else 0) ls) = 0"
    if "\<forall>(_, l) \<in> set ls. \<not> P l" for ls :: "(nat \<times> journal_line) list"
    using that by (induction ls) auto
  then show "\<forall>(_, l) \<in> set (t_rows (journal_lines d)). \<not> P l \<Longrightarrow> line_total P dir d = 0"
    by (simp add: line_total_def)
qed

lemma line_total_cong_rows:
  assumes "\<forall>(_, l) \<in> set (t_rows (journal_lines d)). P l = Q l"
  shows "line_total P dir d = line_total Q dir d"
  unfolding line_total_def using assms by (intro arg_cong [of _ _ sum_list] map_cong) auto

lemma post_transfer:
  assumes ok: "ledger_ok d" and new: "find_first (\<lambda>_ j. je_key j = jp_key jp) (journal_entries d) = None"
    and pos: "0 < amount" and lines: "jp_lines jp = transfer a b amount"
    and codes: "a \<in> la_code ` set chart_of_accounts" "b \<in> la_code ` set chart_of_accounts"
  obtains d' where "postJournalEntry jp d = (Inr (t_next (journal_entries d)), d')"
    "owed_agents d' = owed_agents d + (if b = payable_code then dec2 amount else 0) - (if a = payable_code then dec2 amount else 0)"
    "\<And>ag. owed_to ag d' = owed_to ag d + (if jp_agent jp = Some ag
       then (if b = payable_code then dec2 amount else 0) - (if a = payable_code then dec2 amount else 0) else 0)"
    "wallets d' = wallets d" "wallet_entries d' = wallet_entries d" "payouts d' = payouts d"
    "ledger_ok d'"
    "t_rows (journal_entries d') = t_rows (journal_entries d) @ [(t_next (journal_entries d), \<lparr>je_key = jp_key jp,
       je_entity_type = jp_entity_type jp, je_entity = jp_entity jp, je_agent = jp_agent jp, je_description = jp_description jp\<rparr>)]"
proof -
  let ?t = "ledger_accounts d" and ?t' = "ensure_accounts (ledger_accounts d)" and ?jid = "t_next (journal_entries d)"
  have wf: "wf_table ?t" "wf_table ?t'" using ok by (simp_all add: ledger_ok_def)
  have err: "posting_error (jp_lines jp) = None" using pos by (simp add: lines transfer_ok)
  have acc: "find_account c ?t' \<noteq> None" if "c \<in> la_code ` set chart_of_accounts" for c
    using that ensure_complete by auto
  then have accs: "\<forall>l \<in> set (jp_lines jp). find_account (ji_code l) ?t' \<noteq> None"
    using codes by (auto simp: lines transfer_def)
  note post = postJournalEntry_new [OF err new accs]
  obtain d' where d': "postJournalEntry jp d = (Inr ?jid, d')" using post by simp
  have tables: "ledger_accounts d' = ?t'" "journal_lines d' = insert_rows
      (map (line_row (ensureChartOfAccounts d) ?jid) (transfer a b amount)) (journal_lines d)"
    using d' by (auto simp: post lines)
  have "payable_code \<in> la_code ` set chart_of_accounts" by (simp add: chart_of_accounts_def)
  then obtain i where i: "find_account payable_code ?t' = Some i" using acc by fastforce
  have at: "the (find_account c ?t') = i \<longleftrightarrow> c = payable_code" if "c \<in> la_code ` set chart_of_accounts" for c
    by (metis acc [OF that] i find_account_inj [OF wf(2) i] option.collapse option.sel)
  have "side i dir d' = side i dir d + (if b = payable_code \<and> dir = JD_CREDIT then dec2 amount else 0)
      + (if a = payable_code \<and> dir = JD_DEBIT then dec2 amount else 0)" for dir
    unfolding side_line_total line_total_insert_rows [OF tables(2)]
    using codes by (cases dir) (auto simp: transfer_def line_row_def ensureChartOfAccounts_def at)
  moreover have "(case find_account payable_code ?t of None \<Rightarrow> 0 | Some i \<Rightarrow> side i JD_CREDIT d - side i JD_DEBIT d)
      = side i JD_CREDIT d - side i JD_DEBIT d"
  proof (cases "find_account payable_code ?t")
    case None
    have "find_unique ?t i = None" by (rule ensure_new [OF wf(1) None i])
    then have "\<forall>(_, l) \<in> set (t_rows (journal_lines d)). jl_account l \<noteq> i"
      using ok by (fastforce simp: ledger_ok_def)
    then have "side i dir d = 0" for dir by (simp add: side_line_total line_total_None)
    with None show ?thesis by simp
  next
    case (Some j)
    with i ensure_keeps(1) [OF Some] show ?thesis by simp
  qed
  ultimately have "owed_agents d' = owed_agents d + (if b = payable_code then dec2 amount else 0) - (if a = payable_code then dec2 amount else 0)"
    by (simp add: owed_agents_def tables i)
  moreover have "owed_to ag d' = owed_to ag d + (if jp_agent jp = Some ag
       then (if b = payable_code then dec2 amount else 0) - (if a = payable_code then dec2 amount else 0) else 0)" for ag
  proof -
    let ?P = "\<lambda>d l. jl_account l = i \<and> entry_agent d (jl_entry l) = Some ag"
    have entries: "journal_entries d' = insert_row \<lparr>je_key = jp_key jp, je_entity_type = jp_entity_type jp,
        je_entity = jp_entity jp, je_agent = jp_agent jp, je_description = jp_description jp\<rparr> (journal_entries d)"
      using d' by (auto simp: post)
    have wfj: "wf_table (journal_entries d)" using ok by (simp add: ledger_ok_def)
    have mine: "entry_agent d' ?jid = jp_agent jp" using wfj by (simp add: entry_agent_def entries)
    have old: "entry_agent d' k = entry_agent d k" if "k < ?jid" for k
      using wfj that by (simp add: entry_agent_def entries)
    have kept: "line_total (?P d') dir d = line_total (?P d) dir d" for dir
      using ok old by (intro line_total_cong_rows) (auto simp: ledger_ok_def)
    have "line_total (?P d') dir d' = line_total (?P d) dir d + (if jp_agent jp = Some ag
        then (if b = payable_code \<and> dir = JD_CREDIT then dec2 amount else 0)
          + (if a = payable_code \<and> dir = JD_DEBIT then dec2 amount else 0) else 0)" for dir
      unfolding line_total_insert_rows [OF tables(2)] kept
      using codes by (cases dir) (auto simp: transfer_def line_row_def ensureChartOfAccounts_def at mine)
    moreover have "owed_to ag d = line_total (?P d) JD_CREDIT d - line_total (?P d) JD_DEBIT d"
    proof (cases "find_account payable_code ?t")
      case None
      have "find_unique ?t i = None" by (rule ensure_new [OF wf(1) None i])
      then have "\<forall>(_, l) \<in> set (t_rows (journal_lines d)). \<not> ?P d l" using ok by (fastforce simp: ledger_ok_def)
      with None show ?thesis by (simp add: owed_to_def line_total_None)
    next
      case (Some j)
      with i ensure_keeps(1) [OF Some] show ?thesis by (simp add: owed_to_def)
    qed
    ultimately show ?thesis by (simp add: owed_to_def tables i)
  qed
  moreover have "ledger_ok d'"
  proof -
    have "total JD_DEBIT (rounded (jp_lines jp)) = total JD_CREDIT (rounded (jp_lines jp))"
      by (simp add: lines transfer_def rounded_def total_def)
    from postJournalEntry_ok [OF ok this] d' show ?thesis by simp
  qed
  ultimately show thesis
    using d' by (intro that [OF d']) (auto simp: post)
qed

lemma owed_agents_cong:
  assumes "ledger_accounts d' = ledger_accounts d" "journal_lines d' = journal_lines d"
  shows "owed_agents d' = owed_agents d"
proof -
  have "side i dir d' = side i dir d" for i dir by (simp add: side_def assms(2))
  then show ?thesis by (simp add: owed_agents_def assms(1) split: option.split)
qed

lemma owed_to_cong:
  assumes "ledger_accounts d' = ledger_accounts d" "journal_lines d' = journal_lines d" "journal_entries d' = journal_entries d"
  shows "owed_to a d' = owed_to a d"
proof -
  have "line_total P dir d' = line_total P dir d" for P dir by (rule line_total_cong [OF assms(2)])
  then show ?thesis by (simp add: owed_to_def entry_agent_def assms(1,3) split: option.split)
qed

lemma agent_balance_cong: "wallets d' = wallets d \<Longrightarrow> agent_balance a d' = agent_balance a d"
  by (simp add: agent_balance_def find_wallet_def)

lemma find_wallet_iff:
  assumes "distinct (map (wa_agent \<circ> snd) (t_rows (wallets d)))"
  shows "find_wallet a d = Some (k, w) \<longleftrightarrow> (k, w) \<in> set (t_rows (wallets d)) \<and> wa_agent w = a"
proof
  assume "find_wallet a d = Some (k, w)"
  then show "(k, w) \<in> set (t_rows (wallets d)) \<and> wa_agent w = a" by (auto simp: find_wallet_def dest: find_first_SomeD)
next
  assume kw: "(k, w) \<in> set (t_rows (wallets d)) \<and> wa_agent w = a"
  then obtain k' w' where f: "find_wallet a d = Some (k', w')"
    by (cases "find_wallet a d") (auto simp: find_wallet_def find_first_None_iff)
  then have "(k', w') \<in> set (t_rows (wallets d))" "wa_agent w' = a" by (auto simp: find_wallet_def dest: find_first_SomeD)
  with kw assms have "(k', w') = (k, w)" by (fastforce simp: distinct_map inj_on_def)
  with f show "find_wallet a d = Some (k, w)" by simp
qed

lemma agents_update:
  assumes one: "distinct (map (wa_agent \<circ> snd) (t_rows (wallets d)))" and wf: "wf_table (wallets d)"
    and w: "find_unique (wallets d) wid = Some w" "wallets d' = update_row wid f (wallets d)" "\<And>v. wa_agent (f v) = wa_agent v"
  shows "distinct (map (wa_agent \<circ> snd) (t_rows (wallets d')))"
    and "agent_balance a d' = agent_balance a d + (if wa_agent w = a then wa_available (f w) - wa_available w else 0)"
proof -
  have rows: "t_rows (wallets d') = map (\<lambda>(k, v). (k, if k = wid then f v else v)) (t_rows (wallets d))"
    by (auto simp: w(2) update_row_def rows_update_many)
  have keeps: "wa_agent (if k = wid then f v else v) = wa_agent v" for k v by (simp add: w(3))
  have "map (wa_agent \<circ> snd) (t_rows (wallets d')) = map (wa_agent \<circ> snd) (t_rows (wallets d))"
    by (simp add: rows w(3) case_prod_unfold)
  then show one': "distinct (map (wa_agent \<circ> snd) (t_rows (wallets d')))" using one by simp
  have here: "(wid, w) \<in> set (t_rows (wallets d))" using w(1) wf by (simp add: find_unique_in_rows)
  show "agent_balance a d' = agent_balance a d + (if wa_agent w = a then wa_available (f w) - wa_available w else 0)"
  proof (cases "wa_agent w = a")
    case True
    then have "find_wallet a d = Some (wid, w)" using here by (simp add: find_wallet_iff [OF one])
    moreover have "find_wallet a d' = Some (wid, f w)" using here True by (force simp: find_wallet_iff [OF one'] rows w(3))
    ultimately show ?thesis using True by (simp add: agent_balance_def)
  next
    case False
    have "find_wallet a d' = find_wallet a d"
    proof (cases "find_wallet a d")
      case None
      then have "\<forall>(k, v) \<in> set (t_rows (wallets d)). wa_agent v \<noteq> a" by (auto simp: find_wallet_def find_first_None_iff)
      then show ?thesis unfolding None by (auto simp: find_wallet_def find_first_None_iff rows keeps)
    next
      case (Some x)
      obtain k v where x: "x = (k, v)" by (cases x)
      then have kv: "(k, v) \<in> set (t_rows (wallets d))" "wa_agent v = a" using Some by (auto simp: find_wallet_iff [OF one])
      have "k \<noteq> wid" using kv w(1) wf False by (auto simp flip: find_unique_in_rows)
      with kv have "find_wallet a d' = Some (k, v)" by (force simp: find_wallet_iff [OF one'] rows)
      with Some x show ?thesis by simp
    qed
    with False show ?thesis by (simp add: agent_balance_def)
  qed
qed

lemma wallet_ok_cong: "wallet_entries d' = wallet_entries d \<Longrightarrow> wallet_ok d' i v = wallet_ok d i v"
proof -
  assume "wallet_entries d' = wallet_entries d"
  then have "entry_total ty i d' = entry_total ty i d" for ty by (rule entry_total_cong)
  then show "wallet_ok d' i v = wallet_ok d i v" by (simp only: wallet_ok_def)
qed

lemma fresh_keyD:
  assumes "fresh_keys d" "\<forall>j. key = Earning_Key j \<longrightarrow> t_next (wallet_entries d) \<le> j" "\<forall>j. key = Payout_Key j \<longrightarrow> t_next (payouts d) \<le> j"
  shows "find_first (\<lambda>_ j. je_key j = key) (journal_entries d) = None"
  unfolding find_first_None_iff
proof (clarify)
  fix i j assume "(i, j) \<in> set (t_rows (journal_entries d))" "key = je_key j"
  with assms show False by (cases "je_key j") (force simp: fresh_keys_def)+
qed

text \<open>Every other wallet keeps its row and its entries.\<close>

lemma wallets_ok_step:
  assumes "\<forall>wid w. find_unique (wallets d) wid = Some w \<longrightarrow> wallet_ok d wid w" "find_unique (wallets d) wid = Some w"
    and "wallets d' = update_row wid f (wallets d)" "wallet_entries d' = insert_row x (wallet_entries d)" "we_wallet x = wid"
    and "wallet_ok d' wid (f w)"
  shows "\<forall>wid w. find_unique (wallets d') wid = Some w \<longrightarrow> wallet_ok d' wid w"
proof (intro allI impI)
  fix i v assume v: "find_unique (wallets d') i = Some v"
  show "wallet_ok d' i v"
  proof (cases "i = wid")
    case True
    with v assms show ?thesis by simp
  next
    case False
    then have "entry_total ty i d' = entry_total ty i d" for ty
      using assms(5) by (simp add: entry_total_insert [OF assms(4)])
    then have "wallet_ok d' i v = wallet_ok d i v" by (simp only: wallet_ok_def)
    with v False assms(1,3) show ?thesis by simp
  qed
qed

text \<open>One movement of a wallet with its posting: \<open>dm\<close> is the database before the posting.\<close>

lemma books_step:
  assumes ok: "books_ok d" and w: "find_unique (wallets d) wid = Some w"
    and d2: "ledger_accounts dm = ledger_accounts d" "journal_entries dm = journal_entries d" "journal_lines dm = journal_lines d"
      "wallets dm = update_row wid f (wallets d)" "wallet_entries dm = insert_row x (wallet_entries d)" "we_wallet x = wid"
      "t_next (payouts d) \<le> t_next (payouts dm)"
    and moved: "wallet_ok dm wid (f w)"
    and key: "case jp_key jp of Earning_Key k \<Rightarrow> k = t_next (wallet_entries d)
        | Payout_Key k \<Rightarrow> k = t_next (payouts d) \<and> k < t_next (payouts dm)"
    and jp: "jp_lines jp = transfer a b amount" "0 < amount"
      "a \<in> la_code ` set chart_of_accounts" "b \<in> la_code ` set chart_of_accounts"
    and net: "(if b = payable_code then dec2 amount else 0) - (if a = payable_code then dec2 amount else 0)
        = wa_available (f w) - wa_available w"
    and agent: "jp_agent jp = Some (wa_agent w)" "\<And>v. wa_agent (f v) = wa_agent v"
  obtains d' where "postJournalEntry jp dm = (Inr (t_next (journal_entries d)), d')" "books_ok d'"
    "find_unique (wallets d') wid = Some (f w)" "wallet_entries d' = wallet_entries dm" "payouts d' = payouts dm"
    "\<And>a. agent_balance a d' = agent_balance a d + (if wa_agent w = a then wa_available (f w) - wa_available w else 0)"
proof -
  have ok': "ledger_ok d" "wf_table (wallets d)" "fresh_keys d" "owed_agents d = wallet_total d"
    "\<forall>(_, x) \<in> set (t_rows (wallet_entries d)). we_wallet x < t_next (wallets d)"
    "\<forall>wid w. find_unique (wallets d) wid = Some w \<longrightarrow> wallet_ok d wid w" "agents_ok d"
    using ok by (simp_all add: books_ok_def)
  have ledger: "ledger_ok dm" using ledger_ok_cong [OF d2(1-3)] ok'(1) by simp
  have new: "find_first (\<lambda>_ j. je_key j = jp_key jp) (journal_entries dm) = None"
    unfolding d2(2) by (rule fresh_keyD [OF ok'(3)]) (use key in auto)
  obtain d' where post: "postJournalEntry jp dm = (Inr (t_next (journal_entries dm)), d')"
    and pay: "owed_agents d' = owed_agents dm + (if b = payable_code then dec2 amount else 0) - (if a = payable_code then dec2 amount else 0)"
    and owed: "\<And>ag. owed_to ag d' = owed_to ag dm + (if jp_agent jp = Some ag
       then (if b = payable_code then dec2 amount else 0) - (if a = payable_code then dec2 amount else 0) else 0)"
    and same: "wallets d' = wallets dm" "wallet_entries d' = wallet_entries dm" "payouts d' = payouts dm"
    and led: "ledger_ok d'"
    and entries: "t_rows (journal_entries d') = t_rows (journal_entries dm) @ [(t_next (journal_entries dm),
       \<lparr>je_key = jp_key jp, je_entity_type = jp_entity_type jp, je_entity = jp_entity jp, je_agent = jp_agent jp,
        je_description = jp_description jp\<rparr>)]"
    by (rule post_transfer [OF ledger new jp(2,1,3,4)], rule that, assumption+)
  have ent: "wallet_entries d' = insert_row x (wallet_entries d)" and wal: "wallets d' = update_row wid f (wallets d)"
    using same d2 by simp_all
  have "wallet_ok d' wid (f w)"
    using moved wallet_ok_cong [OF same(2)] by simp
  from wallets_ok_step [OF ok'(6) w wal ent d2(6) this]
  have "\<forall>wid w. find_unique (wallets d') wid = Some w \<longrightarrow> wallet_ok d' wid w" .
  moreover have "owed_agents d' = wallet_total d'"
    using wallet_total_update [OF ok'(2) w wal] pay net owed_agents_cong [OF d2(1,3)] ok'(4) by simp
  moreover have bal: "agent_balance a d' = agent_balance a d + (if wa_agent w = a then wa_available (f w) - wa_available w else 0)" for a
    using ok'(7) by (intro agents_update(2) [OF _ ok'(2) w wal agent(2)]) (simp add: agents_ok_def)
  moreover have "owed_to ag d' = owed_to ag dm + (if wa_agent w = ag then wa_available (f w) - wa_available w else 0)" for ag
    using owed [of ag] agent(1) unfolding net by simp
  with ok'(7) agents_update(1) [OF _ ok'(2) w wal agent(2)] owed_to_cong [OF d2(1,3,2)] have "agents_ok d'"
    by (simp add: agents_ok_def bal)
  moreover have "fresh_keys d'"
    using ok'(3) key d2(7) by (force simp: fresh_keys_def entries same d2(2,5) split: journal_key.splits)
  moreover have "\<forall>(_, x) \<in> set (t_rows (wallet_entries d')). we_wallet x < t_next (wallets d')"
    using ok'(5) rows_below_next [OF ok'(2)] w ok'(2) d2(6) by (auto simp: ent wal find_unique_in_rows)
  ultimately have "books_ok d'"
    using led ok'(2) by (simp add: books_ok_def wal update_row_def)
  moreover have "find_unique (wallets d') wid = Some (f w)" using w by (simp add: wal)
  ultimately show thesis using same(2,3) post [unfolded d2(2)] bal by (intro that)
qed

lemma wallet_okD: "books_ok d \<Longrightarrow> find_unique (wallets d) wid = Some w \<Longrightarrow> wallet_ok d wid w"
  by (simp add: books_ok_def)

lemma credit_wallet_ok:
  assumes ok: "books_ok d" and w: "find_unique (wallets d) wid = Some w" "wa_agent w = agentId"
    and amount: "0 < er_amount dto" "cents (er_amount dto)"
  obtains d' where "credit_wallet ac k agentId wid dto d = (Inr (t_next (wallet_entries d)), d')" "books_ok d'"
    "find_unique (wallets d') wid = Some (w\<lparr>wa_available := wa_available w + er_amount dto, wa_earned := wa_earned w + er_amount dto\<rparr>)"
    "\<And>a. agent_balance a d' = agent_balance a d + (if agentId = a then er_amount dto else 0)"
proof -
  let ?a = "er_amount dto" and ?eid = "t_next (wallet_entries d)"
  let ?x = "\<lparr>we_agent = agentId, we_wallet = wid, we_type = EARNING, we_amount = dec2 ?a, we_case = Some k, we_payout = None,
             we_description = er_description dto, we_actor = Some (act_id ac)\<rparr>"
  let ?f = "\<lambda>w. w\<lparr>wa_available := dec2 (wa_available w + ?a), wa_earned := dec2 (wa_earned w + ?a)\<rparr>"
  let ?d2 = "d\<lparr>wallet_entries := insert_row ?x (wallet_entries d), wallets := update_row wid ?f (wallets d)\<rparr>"
  let ?jp = "\<lparr>jp_key = Earning_Key ?eid, jp_entity_type = STR ''WalletEntry'', jp_entity = Some ?eid,
      jp_agent = Some agentId, jp_description = Some [J_Lit STR ''Agent earning recorded on case '', J_Id k],
      jp_lines = transfer STR ''AGENT_COMPENSATION_EXPENSE'' payable_code ?a\<rparr>"
  have wok: "wallet_ok d wid w" using wallet_okD [OF ok w(1)] .
  have cents: "dec2 (wa_available w + ?a) = wa_available w + ?a" "dec2 (wa_earned w + ?a) = wa_earned w + ?a"
    using wok amount(2) by (auto simp: wallet_ok_def intro!: dec2_cents cents_add cents_diff)
  have "entry_total ty wid ?d2 = entry_total ty wid d + (if ty = EARNING then dec2 ?a else 0)" for ty
    by (subst entry_total_insert [where x = ?x and d = d]) auto
  then have "wallet_ok ?d2 wid (?f w)"
    using wok amount unfolding wallet_ok_def cents by (auto intro!: cents_add)
  then show thesis
  proof (rule_tac books_step [OF ok w(1), where dm = ?d2 and f = ?f and x = ?x and jp = ?jp and amount = ?a and a = "STR ''AGENT_COMPENSATION_EXPENSE''" and b = payable_code])
    fix d' assume post: "postJournalEntry ?jp ?d2 = (Inr (t_next (journal_entries d)), d')" "books_ok d'"
      "find_unique (wallets d') wid = Some (?f w)"
      and bal: "\<And>a. agent_balance a d' = agent_balance a d + (if wa_agent w = a then wa_available (?f w) - wa_available w else 0)"
    have moved: "agent_balance a d' = agent_balance a d + (if agentId = a then ?a else 0)" for a
      using bal [of a] w(2) by (auto simp: cents)
    show thesis
      by (rule that [OF _ _ _ moved]) (use post in \<open>simp_all add: credit_wallet_def postEarning_def cents\<close>)
  qed (use amount w(2) in \<open>simp_all add: chart_of_accounts_def cents\<close>)
qed

lemma debit_wallet_ok:
  assumes ok: "books_ok d" and w: "find_unique (wallets d) wid = Some w" "wa_agent w = agentId"
    and amount: "0 < py_amount dto" "cents (py_amount dto)" "py_amount dto \<le> wa_available w"
  obtains d' where "debit_wallet ac agentId wid dto d = (Inr (t_next (payouts d)), d')" "books_ok d'"
    "find_unique (wallets d') wid = Some (w\<lparr>wa_available := wa_available w - py_amount dto, wa_paid := wa_paid w + py_amount dto\<rparr>)"
    "\<And>a. agent_balance a d' = agent_balance a d - (if agentId = a then py_amount dto else 0)"
proof -
  let ?a = "py_amount dto" and ?poid = "t_next (payouts d)"
  let ?x = "\<lparr>we_agent = agentId, we_wallet = wid, we_type = PAYOUT_DEBIT, we_amount = dec2 ?a, we_case = None,
             we_payout = Some ?poid, we_description = py_note dto, we_actor = Some (act_id ac)\<rparr>"
  let ?f = "\<lambda>w. w\<lparr>wa_available := dec2 (wa_available w - ?a), wa_paid := dec2 (wa_paid w + ?a)\<rparr>"
  let ?d2 = "d\<lparr>payouts := insert_row \<lparr>po_agent = Some agentId, po_amount = dec2 ?a, po_status = PS_PAID,
             po_note = py_note dto\<rparr> (payouts d), wallets := update_row wid ?f (wallets d),
             wallet_entries := insert_row ?x (wallet_entries d)\<rparr>"
  let ?jp = "\<lparr>jp_key = Payout_Key ?poid, jp_entity_type = STR ''Payout'', jp_entity = Some ?poid,
      jp_agent = Some agentId, jp_description = Some [J_Lit STR ''Agent payout '', J_Id ?poid],
      jp_lines = transfer payable_code STR ''OPERATING_CASH'' ?a\<rparr>"
  have wok: "wallet_ok d wid w" using wallet_okD [OF ok w(1)] .
  have cents: "dec2 (wa_available w - ?a) = wa_available w - ?a" "dec2 (wa_paid w + ?a) = wa_paid w + ?a"
    using wok amount(2) by (auto simp: wallet_ok_def intro!: dec2_cents cents_add cents_diff)
  have "entry_total ty wid ?d2 = entry_total ty wid d + (if ty = PAYOUT_DEBIT then dec2 ?a else 0)" for ty
    by (subst entry_total_insert [where x = ?x and d = d]) auto
  then have "wallet_ok ?d2 wid (?f w)"
    using wok amount unfolding wallet_ok_def cents by (auto intro!: cents_add)
  then show thesis
  proof (rule_tac books_step [OF ok w(1), where dm = ?d2 and f = ?f and x = ?x and jp = ?jp and amount = ?a and a = payable_code and b = "STR ''OPERATING_CASH''"])
    fix d' assume post: "postJournalEntry ?jp ?d2 = (Inr (t_next (journal_entries d)), d')" "books_ok d'"
      "find_unique (wallets d') wid = Some (?f w)"
      and bal: "\<And>a. agent_balance a d' = agent_balance a d + (if wa_agent w = a then wa_available (?f w) - wa_available w else 0)"
    have moved: "agent_balance a d' = agent_balance a d - (if agentId = a then ?a else 0)" for a
      using bal [of a] w(2) by (auto simp: cents)
    show thesis
      by (rule that [OF _ _ _ moved]) (use post in \<open>simp_all add: debit_wallet_def postPayout_def cents\<close>)
  qed (use amount w(2) in \<open>simp_all add: chart_of_accounts_def cents\<close>)
qed

lemma fresh_keys_cong:
  assumes "journal_entries d' = journal_entries d" "wallet_entries d' = wallet_entries d" "payouts d' = payouts d"
  shows "fresh_keys d' = fresh_keys d"
  using assms by (simp add: fresh_keys_def split: journal_key.splits)

lemma entry_total_none:
  assumes "\<forall>(_, x) \<in> set (t_rows (wallet_entries d)). we_wallet x \<noteq> wid"
  shows "entry_total ty wid d = 0"
proof -
  have "find_many (\<lambda>_ x. we_wallet x = wid \<and> we_type x = ty) (wallet_entries d) = []"
    using assms by (auto simp: find_many_def intro!: filter_False)
  then show ?thesis by (simp add: entry_total_def)
qed

lemma find_wallet_row:
  "wf_table (wallets d) \<Longrightarrow> find_wallet agentId d = Some (wid, w) \<Longrightarrow> find_unique (wallets d) wid = Some w \<and> wa_agent w = agentId"
  by (auto simp: find_wallet_def find_unique_in_rows dest: find_first_SomeD)

lemma books_ok_audit: "books_ok (audit_record c a ty act m d) = books_ok d"
proof -
  let ?d = "audit_record c a ty act m d"
  have "ledger_ok ?d = ledger_ok d" by (rule ledger_ok_cong) simp_all
  moreover have "owed_agents ?d = owed_agents d" by (rule owed_agents_cong) simp_all
  moreover have "wallet_ok ?d i v = wallet_ok d i v" for i v by (rule wallet_ok_cong) simp
  moreover have "fresh_keys ?d = fresh_keys d" by (rule fresh_keys_cong) simp_all
  moreover have "owed_to a ?d = owed_to a d" for a by (rule owed_to_cong) simp_all
  moreover have "agent_balance a ?d = agent_balance a d" for a by (rule agent_balance_cong) simp
  ultimately show ?thesis by (simp add: books_ok_def agents_ok_def wallet_total_def)
qed

lemma getOrCreateWallet_ok:
  assumes ok: "books_ok d" and run: "getOrCreateWallet agentId d = (wid, d1)"
  shows "books_ok d1" "\<exists>w. find_unique (wallets d1) wid = Some w \<and> wa_agent w = agentId"
    "agent_balance a d1 = agent_balance a d"
proof -
  have wf: "wf_table (wallets d)" using ok by (simp add: books_ok_def)
  have "books_ok d1 \<and> (\<exists>w. find_unique (wallets d1) wid = Some w \<and> wa_agent w = agentId) \<and> (\<forall>a. agent_balance a d1 = agent_balance a d)"
  proof (cases "find_wallet agentId d")
    case (Some x)
    then show ?thesis using run ok find_wallet_row [OF wf, of agentId] by (cases x) (auto simp: getOrCreateWallet_def)
  next
    case None
    let ?w = "\<lparr>wa_agent = agentId, wa_available = 0, wa_earned = 0, wa_paid = 0\<rparr>"
    have d1: "wid = t_next (wallets d)" "d1 = d\<lparr>wallets := insert_row ?w (wallets d)\<rparr>"
      using None run by (auto simp: getOrCreateWallet_def)
    have "entry_total ty wid d = 0" for ty
      by (rule entry_total_none) (use ok in \<open>auto simp: books_ok_def d1(1)\<close>)
    then have new: "wallet_ok d1 wid ?w"
      by (simp add: wallet_ok_def d1(2) entry_total_def)
    have same: "wallet_ok d1 i v = wallet_ok d i v" for i v by (rule wallet_ok_cong) (simp add: d1(2))
    have "wallet_ok d1 i v" if v: "find_unique (wallets d1) i = Some v" for i v
    proof (cases "i = wid")
      case True
      with v new wf show ?thesis by (simp add: d1)
    next
      case False
      with v wf have "find_unique (wallets d) i = Some v" by (simp add: d1)
      from wallet_okD [OF ok this] show ?thesis by (simp add: same)
    qed
    moreover have "ledger_ok d1 = ledger_ok d" by (rule ledger_ok_cong) (simp_all add: d1(2))
    moreover have "owed_agents d1 = owed_agents d" by (rule owed_agents_cong) (simp_all add: d1(2))
    moreover have "wallet_total d1 = wallet_total d" by (simp add: wallet_total_def d1(2))
    moreover have "wf_table (wallets d1)" "find_unique (wallets d1) wid = Some ?w"
      using wf by (simp_all add: d1)
    moreover have "fresh_keys d1 = fresh_keys d" by (rule fresh_keys_cong) (simp_all add: d1(2))
    moreover have bal: "agent_balance a d1 = agent_balance a d" for a
      using None by (auto simp: agent_balance_def find_wallet_def d1(2) find_first_insert_row split: option.split)
    moreover have "agents_ok d1"
    proof -
      have "owed_to a d1 = owed_to a d" for a by (rule owed_to_cong) (simp_all add: d1(2))
      moreover have "wa_agent v \<noteq> agentId" if "(k, v) \<in> set (t_rows (wallets d))" for k v
        using None that by (auto simp: find_wallet_def find_first_None_iff)
      ultimately show ?thesis using ok by (auto simp: books_ok_def agents_ok_def bal) (fastforce simp: d1(2))
    qed
    moreover have "\<forall>(_, x) \<in> set (t_rows (wallet_entries d1)). we_wallet x < t_next (wallets d1)"
      using ok by (auto simp: books_ok_def d1(2))
    ultimately show ?thesis
      using ok by (auto simp: books_ok_def)
  qed
  then show "books_ok d1" "\<exists>w. find_unique (wallets d1) wid = Some w \<and> wa_agent w = agentId"
    "agent_balance a d1 = agent_balance a d" by auto
qed

text \<open>The field agent a case's earnings go to: the one of its latest field assignment.\<close>

definition earning_agent :: "nat \<Rightarrow> db \<Rightarrow> nat option" where
  "earning_agent k d = (case find_last (\<lambda>_ a. as_case a = k \<and> as_role a = AR_FIELD_AGENT) (assignments d) of
     None \<Rightarrow> None | Some (_, a) \<Rightarrow> as_agent a)"

definition earning_possible :: "nat \<Rightarrow> db \<Rightarrow> bool" where
  "earning_possible k d \<longleftrightarrow> map_option c_status (find_unique (cases d) k) \<in> Some ` set qc_passed_statuses
     \<and> earning_agent k d \<noteq> None"

lemma recordEarning_ok:
  assumes ok: "books_ok d" and amount: "0 < er_amount dto" "cents (er_amount dto)"
  shows "case recordEarning ac k dto d of
      (Inl err, d') \<Rightarrow> d' = d \<and> \<not> earning_possible k d
    | (Inr i, d') \<Rightarrow> books_ok d' \<and> earning_possible k d
        \<and> (\<forall>a. agent_balance a d' = agent_balance a d + (if earning_agent k d = Some a then er_amount dto else 0))"
proof -
  define go where "go agentId = (case getOrCreateWallet agentId d of (wid, d1) \<Rightarrow>
           and_then (credit_wallet ac k agentId wid dto d1) (\<lambda>eid d2.
             return eid (audit_record (Some k) (Some (act_id ac)) By_User STR ''case.agent_earnings_recorded''
               [(STR ''agentId'', J_Id agentId), (STR ''amount'', J_Num (er_amount dto)),
                (STR ''walletEntryId'', J_Id eid)] d2)))" for agentId
  have step: "\<exists>i d'. go agentId = (Inr i, d') \<and> books_ok d'
      \<and> (\<forall>a. agent_balance a d' = agent_balance a d + (if agentId = a then er_amount dto else 0))" for agentId
  proof (cases "getOrCreateWallet agentId d")
    case (Pair wid d1)
    note wallet = getOrCreateWallet_ok [OF ok Pair]
    obtain w where w: "find_unique (wallets d1) wid = Some w" "wa_agent w = agentId" using wallet(2) by blast
    from credit_wallet_ok [OF wallet(1) w amount, of ac k] obtain d' where
      "credit_wallet ac k agentId wid dto d1 = (Inr (t_next (wallet_entries d1)), d')" "books_ok d'"
      "\<And>a. agent_balance a d' = agent_balance a d1 + (if agentId = a then er_amount dto else 0)" by metis
    moreover have "agent_balance a (audit_record c i t act m d') = agent_balance a d'" for a c i t act m
      by (rule agent_balance_cong) simp
    ultimately show ?thesis using Pair by (simp add: go_def books_ok_audit wallet(3))
  qed
  have "(\<exists>err. recordEarning ac k dto d = (Inl err, d)) \<and> \<not> earning_possible k d
      \<or> (\<exists>a. earning_agent k d = Some a \<and> recordEarning ac k dto d = go a) \<and> earning_possible k d"
    by (auto simp: recordEarning_def earning_agent_def earning_possible_def go_def split: option.split)
  then show ?thesis
  proof (elim disjE exE conjE)
    fix a assume "earning_agent k d = Some a" "recordEarning ac k dto d = go a" "earning_possible k d"
    with step [of a] show ?thesis by auto
  qed simp
qed

lemma recordPayout_Inr:
  assumes ok: "books_ok d" and amount: "0 < py_amount dto" "cents (py_amount dto)"
  shows "case recordPayout ac agentId dto d of
      (Inl err, d') \<Rightarrow> d' = d \<and> \<not> (find_unique (agents d) agentId \<noteq> None \<and> py_amount dto \<le> agent_balance agentId d)
    | (Inr poid, d') \<Rightarrow> books_ok d' \<and> find_unique (agents d) agentId \<noteq> None \<and> (\<exists>wid w. find_wallet agentId d = Some (wid, w) \<and> py_amount dto \<le> wa_available w
        \<and> find_unique (wallets d') wid = Some (w\<lparr>wa_available := wa_available w - py_amount dto, wa_paid := wa_paid w + py_amount dto\<rparr>))
        \<and> (\<forall>a. agent_balance a d' = agent_balance a d - (if agentId = a then py_amount dto else 0))"
proof (cases "find_wallet agentId d")
  case None
  then show ?thesis using amount by (auto simp: recordPayout_def agent_balance_def split: option.split)
next
  case (Some x)
  obtain wid w where x: "x = (wid, w)" by (cases x)
  have wf: "wf_table (wallets d)" using ok by (simp add: books_ok_def)
  show ?thesis
  proof (cases "py_amount dto \<le> wa_available w")
    case False
    then show ?thesis by (auto simp: recordPayout_def agent_balance_def Some x split: option.split)
  next
    case True
    have row: "find_unique (wallets d) wid = Some w" "wa_agent w = agentId" using find_wallet_row [OF wf] Some x by auto
    from debit_wallet_ok [OF ok row amount True] obtain d' where
      "debit_wallet ac agentId wid dto d = (Inr (t_next (payouts d)), d')" "books_ok d'"
      "find_unique (wallets d') wid = Some (w\<lparr>wa_available := wa_available w - py_amount dto, wa_paid := wa_paid w + py_amount dto\<rparr>)"
      "\<And>a. agent_balance a d' = agent_balance a d - (if agentId = a then py_amount dto else 0)"
      by metis
    moreover have "agent_balance a (audit_record c i t act m d') = agent_balance a d'" for a c i t act m
      by (rule agent_balance_cong) simp
    ultimately show ?thesis using True by (auto simp: recordPayout_def agent_balance_def [of agentId d] Some x books_ok_audit split: option.split)
  qed
qed

end
