(* ===== verification/Wallet_Properties.thy ===== *)
theory Wallet_Properties
  imports Sample Wallet
begin

text \<open>The properties of the agents' ledger and wallets.\<close>

definition sample_agent :: agent where
  "sample_agent = \<lparr>ag_user = 5, ag_name = ''Bola'', ag_active = True, ag_score = None, ag_tier = TI_BRONZE, ag_pass_rate = None,
    ag_city = None, ag_state = None\<rparr>"

definition sample_assignment :: "assignment_status \<Rightarrow> assignment" where
  "sample_assignment s = \<lparr>as_case = 1, as_role = AR_FIELD_AGENT, as_agent = Some 1, as_provider = None, as_status = s,
     as_scheduled_for = None, as_accepted_at = None, as_check_in_at = None, as_location = None, as_accuracy = None,
     as_geofence = None, as_distance = None, as_completed_at = None, as_created = 0\<rparr>"

definition working_db :: "case_status \<Rightarrow> assignment_status \<Rightarrow> db" where
  "working_db cs s = (sample_db cs)\<lparr>agents := rows [sample_agent], assignments := rows [sample_assignment s]\<rparr>"

lemmas working_defs = working_db_def sample_agent_def sample_assignment_def sample_defs insert_rows_def insert_row_def
  find_unique_def empty_table_def

lemma working_books: "books_ok (working_db cs s)"
  by (simp add: books_ok_def ledger_ok_def working_defs line_total_def fresh_keys_def owed_agents_def wallet_total_def
      agents_ok_def owed_to_def agent_balance_def find_wallet_def find_account_def find_first_def wf_table_def)

text \<open>C18. The wallets and the ledger never diverge, agent by agent. Amounts are positive and whole kobo (the DTOs admit
  smaller fractions, which the columns round). Then every wallet is what was earned less what was paid, each the sum
  of its own entries, and never negative; every journal entry balances; and the ledger owes every agent exactly what
  the agent's wallet has available, and an agent without a wallet nothing. Recording an earning or a payout keeps all of
  this. An earning is accepted exactly when the case has passed quality control and was last assigned to a field
  agent, a payout exactly when the agent exists and has the amount available; otherwise nothing is
  written. Accepted, it moves by exactly the amount the wallet of that agent and what the ledger owes that agent,
  and no other.\<close>

theorem wallets_agree_with_ledger:
  assumes "books_ok d" "0 < er_amount earning" "cents (er_amount earning)" "0 < py_amount payout" "cents (py_amount payout)"
  shows "(\<forall>a. owed_to a d = agent_balance a d)
    \<and> (case recordEarning ac k earning d of
        (Inl err, d') \<Rightarrow> d' = d \<and> \<not> earning_possible k d
      | (Inr i, d') \<Rightarrow> books_ok d' \<and> earning_possible k d
          \<and> (\<forall>a. owed_to a d' = agent_balance a d'
            \<and> agent_balance a d' = agent_balance a d + (if earning_agent k d = Some a then er_amount earning else 0)))
    \<and> (case recordPayout ac agentId payout d of
        (Inl err, d') \<Rightarrow> d' = d \<and> (find_unique (agents d) agentId = None \<or> agent_balance agentId d < py_amount payout)
      | (Inr i, d') \<Rightarrow> books_ok d' \<and> find_unique (agents d) agentId \<noteq> None \<and> py_amount payout \<le> agent_balance agentId d
          \<and> (\<forall>a. owed_to a d' = agent_balance a d'
            \<and> agent_balance a d' = agent_balance a d - (if agentId = a then py_amount payout else 0)))"
proof -
  have agree: "owed_to a x = agent_balance a x" if "books_ok x" for a x
    using that by (simp add: books_ok_def agents_ok_def)
  show ?thesis
    using agree recordEarning_ok [OF assms(1-3), where ac = ac and k = k]
      recordPayout_Inr [OF assms(1,4,5), where ac = ac and agentId = agentId] assms(1)
    by (auto simp: agent_balance_def [of agentId d] not_le split: prod.splits sum.splits)
qed

theorem wallets_agree_with_ledger_witness:
  "owed_to 1 (snd (recordEarning accountant 1 \<lparr>er_amount = 15000, er_description = None\<rparr> (working_db CS_COMPLETED AS_ACCEPTED)))
     = 15000"
proof -
  let ?d = "working_db CS_COMPLETED AS_ACCEPTED" and ?e = "\<lparr>er_amount = 15000, er_description = None\<rparr>"
  let ?p = "\<lparr>py_amount = 1, py_note = None\<rparr>" and ?r = "recordEarning accountant 1 \<lparr>er_amount = 15000, er_description = None\<rparr>"
  have "0 < er_amount ?e" "cents (er_amount ?e)" "0 < py_amount ?p" "cents (py_amount ?p)" by (simp_all add: cents_def)
  note kept = wallets_agree_with_ledger [where d = ?d and earning = ?e and payout = ?p and ac = accountant and k = 1, OF working_books this]
  have "earning_possible 1 ?d" "earning_agent 1 ?d = Some 1" by code_simp+
  moreover have "agent_balance 1 ?d = 0" by (simp add: agent_balance_def find_wallet_def find_first_def working_defs)
  ultimately show ?thesis
    using conjunct1 [OF conjunct2 [OF kept]] by (cases "?r ?d") (auto simp del: One_nat_def split: sum.splits)
qed

text \<open>A payout is exact and bounded by the wallet: it is refused without a trace, or the agent has a wallet with at
  least the amount available, and then the amount moves from available to paid.\<close>

theorem payout_exact:
  assumes "books_ok d" "0 < py_amount dto" "cents (py_amount dto)"
  shows "case recordPayout ac agentId dto d of
      (Inl err, d') \<Rightarrow> d' = d
    | (Inr poid, d') \<Rightarrow> (\<exists>wid w. find_wallet agentId d = Some (wid, w) \<and> py_amount dto \<le> wa_available w
        \<and> find_unique (wallets d') wid = Some (w\<lparr>wa_available := wa_available w - py_amount dto, wa_paid := wa_paid w + py_amount dto\<rparr>))"
  using recordPayout_Inr [OF assms, where ac = ac and agentId = agentId] by (auto split: prod.splits sum.splits)

theorem payout_exact_witness:
  "snd (recordPayout accountant 1 \<lparr>py_amount = 1, py_note = None\<rparr> (working_db CS_COMPLETED AS_ACCEPTED))
     = working_db CS_COMPLETED AS_ACCEPTED"
proof -
  have "isl (fst (recordPayout accountant 1 \<lparr>py_amount = 1, py_note = None\<rparr> (working_db CS_COMPLETED AS_ACCEPTED)))"
    by code_simp
  with payout_exact [where d = "working_db CS_COMPLETED AS_ACCEPTED" and dto = "\<lparr>py_amount = 1, py_note = None\<rparr>"
      and ac = accountant and agentId = 1] working_books
  show ?thesis
    by (cases "recordPayout accountant 1 \<lparr>py_amount = 1, py_note = None\<rparr> (working_db CS_COMPLETED AS_ACCEPTED)")
      (auto simp: cents_def split: sum.splits)
qed

text \<open>The ledger keeps its one invariant. A posting whose amounts are whole kobo leaves every entry, and with it the
  trial balance over all accounts, in balance; a refused posting is one that does not balance, has
  fewer than two lines or a line that is not positive, and it writes nothing.\<close>

theorem trial_balance_balances:
  assumes "ledger_ok d" "\<forall>l \<in> set (jp_lines jp). cents (ji_amount l)"
  shows "sum_list (map tb_debits (getTrialBalance (snd (postJournalEntry jp d))))
       = sum_list (map tb_credits (getTrialBalance (snd (postJournalEntry jp d))))
    \<and> (posting_error (jp_lines jp) \<noteq> None \<longrightarrow> postJournalEntry jp d = throw (the (posting_error (jp_lines jp))) d)"
proof -
  have "total JD_DEBIT (rounded (jp_lines jp)) = total JD_CREDIT (rounded (jp_lines jp))"
    if "posting_error (jp_lines jp) = None"
    using that assms(2) by (auto simp: rounded_cents posting_error_def split: if_splits)
  from postJournalEntry_ok [OF assms(1) this] show ?thesis
    by (auto simp: trial_balances postJournalEntry_def)
qed

theorem trial_balance_balances_witness:
  "sum_list (map tb_debits (getTrialBalance (snd (postEarning 1 1 15000 1 (working_db CS_COMPLETED AS_ACCEPTED)))))
    = sum_list (map tb_credits (getTrialBalance (snd (postEarning 1 1 15000 1 (working_db CS_COMPLETED AS_ACCEPTED)))))"
proof -
  have "ledger_ok (working_db CS_COMPLETED AS_ACCEPTED)" using working_books by (simp add: books_ok_def)
  from trial_balance_balances [OF this] show ?thesis
    unfolding postEarning_def by (simp add: transfer_def cents_def)
qed

end
