(* ===== verification/Circuit_Breaker.thy ===== *)
theory Circuit_Breaker
  imports Prelude
begin

text \<open>
  The circuit breaker around calls to external providers
  (\<open>src/backend/src/common/resilience/circuit-breaker.ts\<close>). A call is admitted or rejected first
  and settles later, by its own result or by the timeout; other calls run in between. So the model
  has one step for the admission and one for each way to settle, and \<open>run\<close> is any interleaving of them.
\<close>

datatype circuit_state = CLOSED | OPEN | HALF_OPEN

record breaker_config =
  cb_failure_threshold :: "nat option"
  cb_reset_timeout :: "int option"
  cb_half_open_max :: "nat option"
  cb_timeout :: "int option"

definition failure_threshold :: "breaker_config \<Rightarrow> nat" where
  "failure_threshold c = (case cb_failure_threshold c of Some n \<Rightarrow> n | None \<Rightarrow> 5)"

definition reset_timeout_ms :: "breaker_config \<Rightarrow> int" where
  "reset_timeout_ms c = (case cb_reset_timeout c of Some n \<Rightarrow> n | None \<Rightarrow> 30000)"

definition half_open_max_calls :: "breaker_config \<Rightarrow> nat" where
  "half_open_max_calls c = (case cb_half_open_max c of Some n \<Rightarrow> n | None \<Rightarrow> 1)"

definition timeout_ms :: "breaker_config \<Rightarrow> int" where
  "timeout_ms c = (case cb_timeout c of Some n \<Rightarrow> n | None \<Rightarrow> 10000)"

record breaker =
  br_state :: circuit_state
  br_failures :: nat
  br_successes :: nat
  br_total :: nat
  br_last_failure :: "int option"
  br_last_success :: "int option"
  br_opened :: "int option"
  br_half_open :: nat

definition new_breaker :: breaker where
  "new_breaker = \<lparr>br_state = CLOSED, br_failures = 0, br_successes = 0, br_total = 0, br_last_failure = None,
     br_last_success = None, br_opened = None, br_half_open = 0\<rparr>"

definition transitionTo :: "int \<Rightarrow> circuit_state \<Rightarrow> breaker \<Rightarrow> breaker" where
  "transitionTo t s b = b\<lparr>br_state := s, br_opened := (if s = OPEN then Some t else br_opened b)\<rparr>"

definition recordSuccess :: "int \<Rightarrow> breaker \<Rightarrow> breaker" where
  "recordSuccess t b =
     (let b1 = b\<lparr>br_successes := br_successes b + 1, br_last_success := Some t\<rparr> in
      if br_state b1 = HALF_OPEN
      then (transitionTo t CLOSED b1)\<lparr>br_failures := 0, br_half_open := 0\<rparr> else b1)"

definition recordFailure :: "breaker_config \<Rightarrow> int \<Rightarrow> breaker \<Rightarrow> breaker" where
  "recordFailure c t b =
     (let b1 = b\<lparr>br_failures := br_failures b + 1, br_last_failure := Some t\<rparr> in
      if br_state b1 = HALF_OPEN then (transitionTo t OPEN b1)\<lparr>br_half_open := 0\<rparr>
      else if br_state b1 = CLOSED \<and> failure_threshold c \<le> br_failures b1 then transitionTo t OPEN b1
      else b1)"

datatype circuit_error = Circuit_Open | Half_Open_Exhausted

text \<open>The part of \<open>execute\<close> before the call: the counter of calls moves in every case.\<close>

definition admit :: "breaker_config \<Rightarrow> int \<Rightarrow> breaker \<Rightarrow> (circuit_error + unit) \<times> breaker" where
  "admit c t b =
     (let b1 = b\<lparr>br_total := br_total b + 1\<rparr>;
          waited = (case br_opened b1 of None \<Rightarrow> False | Some t0 \<Rightarrow> reset_timeout_ms c \<le> t - t0)
      in if br_state b1 = OPEN \<and> \<not> waited then (Inl Circuit_Open, b1)
         else (let b2 = (if br_state b1 = OPEN then transitionTo t HALF_OPEN b1 else b1)
               in if br_state b2 = HALF_OPEN
                  then (if half_open_max_calls c \<le> br_half_open b2 then (Inl Half_Open_Exhausted, b2)
                        else (Inr (), b2\<lparr>br_half_open := br_half_open b2 + 1\<rparr>))
                  else (Inr (), b2)))"

text \<open>
  One call alone: admitted at \<open>t\<close>, the call answers after \<open>delay\<close> with a value or an error; a
  call slower than the timeout counts as failed (\<open>None\<close>).
\<close>

definition withTimeout :: "breaker_config \<Rightarrow> int \<Rightarrow> ('e + 'a) \<Rightarrow> ('e + 'a) option" where
  "withTimeout c delay answer = (if timeout_ms c < delay then None else Some answer)"

definition execute :: "breaker_config \<Rightarrow> int \<Rightarrow> int \<Rightarrow> ('e + 'a) \<Rightarrow> breaker
    \<Rightarrow> (circuit_error + ('e + 'a) option) \<times> breaker" where
  "execute c t delay answer b = (case admit c t b of
     (Inl err, b1) \<Rightarrow> (Inl err, b1)
   | (Inr _, b1) \<Rightarrow> (case withTimeout c delay answer of
       Some (Inr v) \<Rightarrow> (Inr (Some (Inr v)), recordSuccess (t + delay) b1)
     | Some (Inl err) \<Rightarrow> (Inr (Some (Inl err)), recordFailure c (t + delay) b1)
     | None \<Rightarrow> (Inr None, recordFailure c (t + timeout_ms c) b1)))"

definition breaker_reset :: "breaker \<Rightarrow> breaker" where
  "breaker_reset b = b\<lparr>br_state := CLOSED, br_failures := 0, br_successes := 0, br_total := 0, br_opened := None,
     br_half_open := 0\<rparr>"

section \<open>Interleaved calls\<close>

inductive breaker_step :: "breaker_config \<Rightarrow> breaker \<Rightarrow> breaker \<Rightarrow> bool" for c where
  step_admit: "breaker_step c b (snd (admit c t b))"
| step_success: "breaker_step c b (recordSuccess t b)"
| step_failure: "breaker_step c b (recordFailure c t b)"
| step_reset: "breaker_step c b (breaker_reset b)"

inductive_cases breaker_stepE: "breaker_step c b b'"

inductive breaker_reachable :: "breaker_config \<Rightarrow> breaker \<Rightarrow> bool" for c where
  reach_new: "breaker_reachable c new_breaker"
| reach_step: "breaker_reachable c b \<Longrightarrow> breaker_step c b b' \<Longrightarrow> breaker_reachable c b'"

text \<open>
  An open breaker knows when it opened; test calls are counted only while half open and never
  exceed their maximum; a closed breaker has fewer failures than the threshold, or none where the threshold
  is zero. While it is open or half open the failures go on counting, without a bound.
\<close>

definition breaker_inv :: "breaker_config \<Rightarrow> breaker \<Rightarrow> bool" where
  "breaker_inv c b \<longleftrightarrow> (br_state b = OPEN \<longrightarrow> br_opened b \<noteq> None)
     \<and> br_half_open b \<le> half_open_max_calls c \<and> (br_state b \<noteq> HALF_OPEN \<longrightarrow> br_half_open b = 0)
     \<and> (br_state b = CLOSED \<longrightarrow> br_failures b < max 1 (failure_threshold c))"

lemma breaker_inv_step: "breaker_inv c b \<Longrightarrow> breaker_step c b b' \<Longrightarrow> breaker_inv c b'"
  by (erule breaker_stepE)
    (auto simp: breaker_inv_def admit_def recordSuccess_def recordFailure_def transitionTo_def breaker_reset_def Let_def)

lemma breaker_inv_reachable: "breaker_reachable c b \<Longrightarrow> breaker_inv c b"
  by (induction rule: breaker_reachable.induct)
    (simp add: breaker_inv_def new_breaker_def, blast intro: breaker_inv_step)

end
