(* ===== verification/Breaker_Properties.thy ===== *)
theory Breaker_Properties
  imports Circuit_Breaker
begin

text \<open>The properties of the circuit breaker.\<close>

text \<open>C20. In any interleaving of calls, whatever the times and answers, the test calls counted by a half-open breaker
  never exceed their maximum, none is counted in another state, and an open breaker knows since when
  it is open. Failures are bounded only while the breaker is closed: it has then had fewer than the threshold, and none
  when the threshold is zero. A call is let through by a closed breaker always, by an open one once the reset
  timeout has passed since it opened, and by a half-open one while a test call is left; otherwise it is rejected.\<close>

theorem breaker_invariant:
  assumes "breaker_reachable c b"
  shows "br_half_open b \<le> half_open_max_calls c \<and> (br_state b \<noteq> HALF_OPEN \<longrightarrow> br_half_open b = 0)
    \<and> (br_state b = OPEN \<longrightarrow> br_opened b \<noteq> None)
    \<and> (br_state b = CLOSED \<longrightarrow> br_failures b < failure_threshold c \<or> br_failures b = 0)
    \<and> (isl (fst (admit c t b)) \<longleftrightarrow> (case br_state b of CLOSED \<Rightarrow> False
        | OPEN \<Rightarrow> t - the (br_opened b) < reset_timeout_ms c \<or> half_open_max_calls c = 0
        | HALF_OPEN \<Rightarrow> br_half_open b = half_open_max_calls c))"
  using breaker_inv_reachable [OF assms]
  by (cases "br_state b") (auto simp: breaker_inv_def admit_def transitionTo_def Let_def)

definition sample_config :: breaker_config where
  "sample_config = \<lparr>cb_failure_threshold = Some 1, cb_reset_timeout = None, cb_half_open_max = None, cb_timeout = None\<rparr>"

theorem breaker_invariant_witness:
  "br_opened (recordFailure sample_config 7 new_breaker) \<noteq> None
     \<and> isl (fst (admit sample_config 30000 (recordFailure sample_config 7 new_breaker)))
     \<and> br_state (recordFailure sample_config 7 new_breaker) = OPEN"
proof -
  have "breaker_reachable sample_config (recordFailure sample_config 7 new_breaker)"
    by (rule reach_step [OF reach_new step_failure])
  from breaker_invariant [OF this, of 30000] show ?thesis
    by (simp add: recordFailure_def transitionTo_def new_breaker_def sample_config_def failure_threshold_def
        reset_timeout_ms_def half_open_max_calls_def Let_def)
qed

text \<open>An open breaker fails fast and recovers: until the reset timeout has passed every call is rejected
  without being made, and only the counter of calls moves; the first call after it is made, and the breaker closes with no
  failures left when that call succeeds in time and opens again, from that moment, when it does not.\<close>

theorem open_breaker:
  assumes "breaker_reachable c b" "0 < half_open_max_calls c"
    and "br_state b = OPEN" "br_opened b = Some t0"
  shows "if t - t0 < reset_timeout_ms c
     then execute c t delay answer b = (Inl Circuit_Open, b\<lparr>br_total := br_total b + 1\<rparr>)
     else \<exists>b'. execute c t delay answer b = (Inr (withTimeout c delay answer), b')
       \<and> (if \<exists>v. withTimeout c delay answer = Some (Inr v)
          then br_state b' = CLOSED \<and> br_failures b' = 0
          else br_state b' = OPEN \<and> br_opened b' = Some (t + min delay (timeout_ms c))) \<and> br_half_open b' = 0"
proof -
  have "br_half_open b = 0" using breaker_inv_reachable [OF assms(1)] assms(3) by (simp add: breaker_inv_def)
  with assms(2-4) show ?thesis
    by (auto simp: execute_def admit_def withTimeout_def transitionTo_def recordSuccess_def recordFailure_def Let_def
        split: sum.split)
qed

theorem open_breaker_witness:
  "br_state (snd (execute sample_config 40000 5 (Inr () :: unit + unit) (recordFailure sample_config 7 new_breaker))) = CLOSED"
proof -
  have "breaker_reachable sample_config (recordFailure sample_config 7 new_breaker)"
    by (rule reach_step [OF reach_new step_failure])
  moreover have "0 < half_open_max_calls sample_config"
    "br_state (recordFailure sample_config 7 new_breaker) = OPEN" "br_opened (recordFailure sample_config 7 new_breaker) = Some 7"
    "\<not> 40000 - 7 < reset_timeout_ms sample_config" "withTimeout sample_config 5 (Inr () :: unit + unit) = Some (Inr ())"
    by code_simp+
  ultimately show ?thesis
    using open_breaker [of sample_config "recordFailure sample_config 7 new_breaker" 7 40000 5 "Inr () :: unit + unit"] by auto
qed

text \<open>A call that is let through settles at a time with success or failure.\<close>

definition settle_call :: "breaker_config \<Rightarrow> breaker \<Rightarrow> int \<times> bool \<Rightarrow> breaker" where
  "settle_call c b = (\<lambda>(t, success). if success then recordSuccess t b else recordFailure c t b)"

lemma settle_calls:
  assumes "br_state b = CLOSED" "br_failures b < failure_threshold c"
    and "failure_threshold c \<le> br_failures b + length (filter (\<lambda>(_, s). \<not> s) calls)"
  shows "br_state (foldl (settle_call c) b calls) = OPEN"
proof -
  have opened: "br_state (foldl (settle_call c) b calls) = OPEN" if "br_state b = OPEN" for b calls
    using that
    by (induction calls arbitrary: b) (auto simp: settle_call_def recordSuccess_def recordFailure_def Let_def)
  show ?thesis
    using assms
  proof (induction calls arbitrary: b)
    case (Cons x calls)
    obtain t s where x: "x = (t, s)" by (cases x)
    show ?case
    proof (cases "br_state (settle_call c b x) = OPEN")
      case True
      then show ?thesis by (simp add: opened)
    next
      case False
      then have "br_state (settle_call c b x) = CLOSED \<and> br_failures (settle_call c b x) = br_failures b + (if s then 0 else 1)
          \<and> br_failures (settle_call c b x) < failure_threshold c"
        using Cons.prems(1,2) by (auto simp: x settle_call_def recordSuccess_def recordFailure_def transitionTo_def Let_def split: if_splits)
      then show ?thesis using Cons.IH [of "settle_call c b x"] Cons.prems(3) by (simp add: x split: if_splits)
    qed
  qed simp
qed

text \<open>Successes never make a closed breaker forget a failure: whatever calls settle while it is closed and whenever
  they do, once as many of them have failed as the threshold allows, in a row or years apart, the breaker is open.\<close>

theorem successes_do_not_forgive:
  assumes "0 < failure_threshold c" "failure_threshold c \<le> length (filter (\<lambda>(_, s). \<not> s) calls)"
  shows "br_state (foldl (settle_call c) new_breaker calls) = OPEN"
  by (rule settle_calls) (use assms in \<open>simp_all add: new_breaker_def\<close>)

theorem successes_do_not_forgive_witness:
  "br_state (foldl (settle_call \<lparr>cb_failure_threshold = Some 2, cb_reset_timeout = None, cb_half_open_max = None,
       cb_timeout = None\<rparr>) new_breaker [(1, False), (2, True), (3, True), (4, True), (900000000, False)]) = OPEN"
  by (rule successes_do_not_forgive) (simp_all add: failure_threshold_def)

end
