(* ===== verification/Geofence.thy ===== *)
theory Geofence
  imports Schema
begin

text \<open>
  The validation of a field agent's position at check-in
  (\<open>src/backend/src/common/geofence/geofence.ts\<close>). Reported coordinates are rationals; the
  distance is the real number \<open>Math.sin\<close>, \<open>Math.cos\<close>, \<open>Math.asin\<close> and \<open>Math.sqrt\<close> approximate. A
  number too large for a double (\<open>Infinity\<close>) is rejected by the same bounds as any other number
  that exceeds them, and an empty timestamp counts as absent, so neither needs a value of its own.
\<close>

section \<open>The checks\<close>

definition max_accuracy_meters :: rat where
  "max_accuracy_meters = 50"

definition max_location_age_ms :: int where
  "max_location_age_ms = 120000"

definition default_geofence_radius_meters :: rat where
  "default_geofence_radius_meters = 150"

definition earth_radius_meters :: real where
  "earth_radius_meters = 6371000"

datatype geofence_reason = NO_COORDINATES_SUPPLIED | INVALID_COORDINATES | ACCURACY_TOO_LOW
    | LOCATION_STALE | NO_TARGET_ON_FILE | OUTSIDE_GEOFENCE

record geofence_input =
  gi_lat :: "rat option"
  gi_lng :: "rat option"
  gi_accuracy :: "rat option"
  gi_captured :: "captured option"
  gi_target_lat :: "rat option"
  gi_target_lng :: "rat option"
  gi_radius :: "rat option"

record geofence_result =
  gr_outcome :: geofence_outcome
  gr_reason :: "geofence_reason option"
  gr_distance :: "int option"

definition validateCoordinates :: "rat \<Rightarrow> rat \<Rightarrow> bool" where
  "validateCoordinates lat lng \<longleftrightarrow> lat \<ge> -90 \<and> lat \<le> 90 \<and> lng \<ge> -180 \<and> lng \<le> 180"

definition validateAccuracy :: "rat option \<Rightarrow> bool" where
  "validateAccuracy accuracy = (case accuracy of
     None \<Rightarrow> True
   | Some a \<Rightarrow> a > 0 \<and> a \<le> max_accuracy_meters)"

definition validateLocationAge :: "int \<Rightarrow> captured option \<Rightarrow> bool" where
  "validateLocationAge now_ms capturedAt = (case capturedAt of
     None \<Rightarrow> True
   | Some Unparsable \<Rightarrow> False
   | Some (Captured ts) \<Rightarrow> now_ms - ts \<le> max_location_age_ms)"

definition toRad :: "real \<Rightarrow> real" where
  "toRad deg = deg * pi / 180"

definition haversine :: "real \<Rightarrow> real \<Rightarrow> real \<Rightarrow> real \<Rightarrow> real" where
  "haversine lat1 lng1 lat2 lng2 =
     (sin (toRad (lat2 - lat1) / 2))\<^sup>2 + cos (toRad lat1) * cos (toRad lat2) * (sin (toRad (lng2 - lng1) / 2))\<^sup>2"

definition haversineDistanceMeters :: "real \<times> real \<Rightarrow> real \<times> real \<Rightarrow> real" where
  "haversineDistanceMeters a b =
     2 * earth_radius_meters * arcsin (min 1 (sqrt (haversine (fst a) (snd a) (fst b) (snd b))))"

text \<open>\<open>Math.round\<close> of a distance.\<close>

definition round_meters :: "real \<Rightarrow> int" where
  "round_meters x = \<lfloor>x + 1 / 2\<rfloor>"

definition evaluateCheckIn :: "int \<Rightarrow> geofence_input \<Rightarrow> geofence_result" where
  "evaluateCheckIn now_ms input =
     (let radiusMeters = (case gi_radius input of Some r \<Rightarrow> r | None \<Rightarrow> default_geofence_radius_meters)
      in case (gi_lat input, gi_lng input) of
           (Some lat, Some lng) \<Rightarrow>
             if \<not> validateCoordinates lat lng
             then \<lparr>gr_outcome = REJECTED, gr_reason = Some INVALID_COORDINATES, gr_distance = None\<rparr>
             else if \<not> validateAccuracy (gi_accuracy input)
             then \<lparr>gr_outcome = REJECTED, gr_reason = Some ACCURACY_TOO_LOW, gr_distance = None\<rparr>
             else if \<not> validateLocationAge now_ms (gi_captured input)
             then \<lparr>gr_outcome = REJECTED, gr_reason = Some LOCATION_STALE, gr_distance = None\<rparr>
             else (case (gi_target_lat input, gi_target_lng input) of
                 (Some targetLat, Some targetLng) \<Rightarrow>
                   (let distanceMeters = haversineDistanceMeters (of_rat lat, of_rat lng)
                          (of_rat targetLat, of_rat targetLng)
                    in if distanceMeters > of_rat radiusMeters
                       then \<lparr>gr_outcome = REJECTED, gr_reason = Some OUTSIDE_GEOFENCE,
                              gr_distance = Some (round_meters distanceMeters)\<rparr>
                       else \<lparr>gr_outcome = PASS, gr_reason = None,
                              gr_distance = Some (round_meters distanceMeters)\<rparr>)
               | _ \<Rightarrow> \<lparr>gr_outcome = UNVERIFIED, gr_reason = Some NO_TARGET_ON_FILE, gr_distance = None\<rparr>)
         | _ \<Rightarrow> \<lparr>gr_outcome = UNVERIFIED, gr_reason = Some NO_COORDINATES_SUPPLIED, gr_distance = None\<rparr>)"

text \<open>The message of a rejection; a reason without an entry in the table gets the general one.\<close>

fun geofence_rejection_message :: "geofence_reason \<Rightarrow> String.literal option" where
  "geofence_rejection_message INVALID_COORDINATES = Some STR ''The reported GPS coordinates are not valid.''"
| "geofence_rejection_message ACCURACY_TOO_LOW = Some STR ''GPS accuracy must be within 50m to check in.''"
| "geofence_rejection_message LOCATION_STALE =
     Some STR ''The reported location is too old -- retry check-in with a fresh GPS fix.''"
| "geofence_rejection_message OUTSIDE_GEOFENCE =
     Some STR ''Check-in location is outside the expected radius for this case.''"
| "geofence_rejection_message _ = None"

fun reason_name :: "geofence_reason \<Rightarrow> String.literal" where
  "reason_name NO_COORDINATES_SUPPLIED = STR ''NO_COORDINATES_SUPPLIED''"
| "reason_name INVALID_COORDINATES = STR ''INVALID_COORDINATES''"
| "reason_name ACCURACY_TOO_LOW = STR ''ACCURACY_TOO_LOW''"
| "reason_name LOCATION_STALE = STR ''LOCATION_STALE''"
| "reason_name NO_TARGET_ON_FILE = STR ''NO_TARGET_ON_FILE''"
| "reason_name OUTSIDE_GEOFENCE = STR ''OUTSIDE_GEOFENCE''"

section \<open>The distance\<close>

lemma toRad_diff: "toRad (a - b) = toRad a - toRad b"
  by (simp add: toRad_def algebra_simps diff_divide_distrib)

lemma half_angle: "(sin (x / 2))\<^sup>2 = (1 - cos x) / 2" for x :: real
  using cos_double_sin [of "x / 2"] by (simp add: field_simps)

lemma cos_latitude: "-90 \<le> deg \<Longrightarrow> deg \<le> 90 \<Longrightarrow> 0 \<le> cos (toRad deg)"
proof -
  assume "-90 \<le> deg" "deg \<le> 90"
  then have "- (90 * pi) \<le> deg * pi" "deg * pi \<le> 90 * pi"
    by (simp_all only: mult_right_mono pi_ge_zero flip: mult_minus_left)
  then have "- (pi / 2) \<le> toRad deg" "toRad deg \<le> pi / 2"
    by (simp_all add: toRad_def field_simps)
  then show ?thesis by (rule cos_ge_zero)
qed

lemma haversine_commute: "haversine lat1 lng1 lat2 lng2 = haversine lat2 lng2 lat1 lng1"
proof -
  have flip: "(sin ((a - b) / 2))\<^sup>2 = (sin ((b - a) / 2))\<^sup>2" for a b :: real
    by (simp add: half_angle cos_diff mult.commute)
  show ?thesis unfolding haversine_def toRad_diff
    by (simp add: flip [of "toRad lat2"] flip [of "toRad lng2"] mult.commute)
qed

text \<open>
  Between latitudes in range the haversine is between 0 and 1, so \<open>Math.min(1, ...)\<close> only guards
  against rounding.
\<close>

lemma haversine_bounds:
  assumes "lat1 \<in> {-90..90}" "lat2 \<in> {-90..90}"
  shows "0 \<le> haversine lat1 lng1 lat2 lng2" and "haversine lat1 lng1 lat2 lng2 \<le> 1"
proof -
  let ?c = "cos (toRad lat1) * cos (toRad lat2)" and ?s = "(sin (toRad (lng2 - lng1) / 2))\<^sup>2"
  have c: "0 \<le> ?c" using assms by (simp add: cos_latitude)
  have s: "0 \<le> ?s" "?s \<le> 1" by (simp_all add: power2_le_iff_abs_le abs_square_le_1)
  show "0 \<le> haversine lat1 lng1 lat2 lng2" using c s by (simp add: haversine_def)
  have "haversine lat1 lng1 lat2 lng2 \<le> (1 - cos (toRad lat2 - toRad lat1)) / 2 + ?c"
    using mult_left_le [OF s(2) c] by (simp add: haversine_def half_angle toRad_diff)
  also have "\<dots> = (1 + cos (toRad lat1 + toRad lat2)) / 2"
    by (simp add: cos_diff cos_add field_simps)
  also have "\<dots> \<le> 1" using cos_le_one [of "toRad lat1 + toRad lat2"] by (simp del: cos_le_one)
  finally show "haversine lat1 lng1 lat2 lng2 \<le> 1" .
qed

lemma distance_bounds:
  assumes "fst a \<in> {-90..90}" "fst b \<in> {-90..90}"
  shows "0 \<le> haversineDistanceMeters a b" and "haversineDistanceMeters a b \<le> pi * earth_radius_meters"
proof -
  let ?r = "min 1 (sqrt (haversine (fst a) (snd a) (fst b) (snd b)))"
  have r: "0 \<le> ?r" "?r \<le> 1" using haversine_bounds(1) [OF assms] by simp_all
  have "- 1 \<le> ?r" using r(1) by linarith
  with r have "0 \<le> arcsin ?r" "arcsin ?r \<le> pi / 2"
    using arcsin_le_mono [of 0 ?r] arcsin_bounded [of ?r] by (simp_all del: min_less_iff_conj)
  then show "0 \<le> haversineDistanceMeters a b" "haversineDistanceMeters a b \<le> pi * earth_radius_meters"
    by (simp_all add: haversineDistanceMeters_def earth_radius_meters_def)
qed

lemma distance_self [simp]: "haversineDistanceMeters a a = 0"
  by (simp add: haversineDistanceMeters_def haversine_def toRad_def)

lemma distance_commute: "haversineDistanceMeters a b = haversineDistanceMeters b a"
  by (simp add: haversineDistanceMeters_def haversine_commute)

text \<open>On a meridian the distance is the length of the arc.\<close>

lemma distance_meridian:
  assumes "\<bar>lat2 - lat1\<bar> \<le> 180"
  shows "haversineDistanceMeters (lat1, lng) (lat2, lng) = earth_radius_meters * \<bar>toRad (lat2 - lat1)\<bar>"
proof -
  define x where "x = toRad (lat2 - lat1) / 2"
  have "\<bar>lat2 - lat1\<bar> * pi \<le> 180 * pi" using assms by (simp add: mult_right_mono)
  then have x: "\<bar>x\<bar> \<le> pi / 2" by (simp add: x_def toRad_def abs_mult)
  have sq: "sqrt (haversine lat1 lng lat2 lng) = \<bar>sin x\<bar>" by (simp add: haversine_def toRad_def x_def)
  have "\<bar>sin x\<bar> = sin \<bar>x\<bar>"
    using x sin_ge_zero [of "\<bar>x\<bar>"] pi_gt_zero by (cases "0 \<le> x") auto
  moreover have "arcsin (sin \<bar>x\<bar>) = \<bar>x\<bar>" using x by (intro arcsin_sin) auto
  moreover have "haversineDistanceMeters (lat1, lng) (lat2, lng) = 2 * earth_radius_meters * arcsin (min 1 \<bar>sin x\<bar>)"
    by (simp add: haversineDistanceMeters_def sq)
  moreover have "min 1 \<bar>sin x\<bar> = \<bar>sin x\<bar>" by (rule min_absorb2) (rule abs_sin_le_one)
  moreover have "2 * \<bar>x\<bar> = \<bar>toRad (lat2 - lat1)\<bar>" by (simp add: x_def)
  ultimately show ?thesis by simp
qed

section \<open>The verdict\<close>

definition usable :: "int \<Rightarrow> geofence_input \<Rightarrow> bool" where
  "usable now_ms input \<longleftrightarrow> (\<exists>lat lng. gi_lat input = Some lat \<and> gi_lng input = Some lng \<and> validateCoordinates lat lng)
     \<and> validateAccuracy (gi_accuracy input) \<and> validateLocationAge now_ms (gi_captured input)"

definition distance_to_target :: "geofence_input \<Rightarrow> real option" where
  "distance_to_target input = (case (gi_lat input, gi_lng input, gi_target_lat input, gi_target_lng input) of
     (Some lat, Some lng, Some tlat, Some tlng) \<Rightarrow>
       Some (haversineDistanceMeters (of_rat lat, of_rat lng) (of_rat tlat, of_rat tlng))
   | _ \<Rightarrow> None)"

definition radius :: "geofence_input \<Rightarrow> rat" where
  "radius input = (case gi_radius input of Some r \<Rightarrow> r | None \<Rightarrow> default_geofence_radius_meters)"

lemma verdict:
  shows "gr_outcome (evaluateCheckIn now_ms input) = PASS \<longleftrightarrow>
      usable now_ms input \<and> (\<exists>m. distance_to_target input = Some m \<and> m \<le> of_rat (radius input))"
    and "gr_outcome (evaluateCheckIn now_ms input) = REJECTED \<longleftrightarrow>
      gi_lat input \<noteq> None \<and> gi_lng input \<noteq> None
      \<and> (\<not> usable now_ms input \<or> (\<exists>m. distance_to_target input = Some m \<and> of_rat (radius input) < m))"
    and "gr_outcome (evaluateCheckIn now_ms input) = REJECTED \<Longrightarrow>
      \<exists>r. gr_reason (evaluateCheckIn now_ms input) = Some r \<and> geofence_rejection_message r \<noteq> None"
  by (auto simp: evaluateCheckIn_def usable_def distance_to_target_def radius_def Let_def split: option.splits if_splits)

end
