(* ===== verification/Assignments.thy ===== *)
theory Assignments
  imports Geofence Lifecycle
begin

text \<open>
  \<open>AssignmentsService\<close> (\<open>src/backend/src/assignments/assignments.service.ts\<close>): staff assign a field
  agent or a provider to a case, the assignee accepts or declines and checks in on site. The text
  of a transition's reason is that of the code.
\<close>

section \<open>Operations\<close>

record assignment_dto =
  ad_role :: assignment_role
  ad_agent :: "nat option"
  ad_provider :: "nat option"
  ad_scheduled :: "int option"

definition assignable_statuses :: "case_status list" where
  "assignable_statuses = [CS_SCHEDULED, CS_ASSIGNED, CS_IN_PROGRESS]"

fun role_assigned :: "assignment_role \<Rightarrow> string" where
  "role_assigned AR_FIELD_AGENT = ''FIELD_AGENT assigned''"
| "role_assigned AR_PROVIDER = ''PROVIDER assigned''"

text \<open>A lookup by an id that is missing from the request is rejected by Prisma.\<close>

definition assignee_check :: "assignment_dto \<Rightarrow> db \<Rightarrow> error option" where
  "assignee_check dto d = (case ad_role dto of
     AR_PROVIDER \<Rightarrow> (case ad_provider dto of
         None \<Rightarrow> Some (Internal STR ''Invalid invocation'')
       | Some i \<Rightarrow> (case find_unique (providers d) i of
           None \<Rightarrow> Some (Not_Found STR ''Provider not found'')
         | Some p \<Rightarrow> if pv_status p \<noteq> PV_VERIFIED \<and> pv_status p \<noteq> PV_ACTIVE
             then Some (Bad_Request STR ''Provider is not yet verified for assignment'') else None))
   | AR_FIELD_AGENT \<Rightarrow> (case ad_agent dto of
         None \<Rightarrow> Some (Internal STR ''Invalid invocation'')
       | Some i \<Rightarrow> (case find_unique (agents d) i of
           None \<Rightarrow> Some (Not_Found STR ''Agent not found or inactive'')
         | Some g \<Rightarrow> if \<not> ag_active g then Some (Not_Found STR ''Agent not found or inactive'') else None)))"

definition new_assignment :: "env \<Rightarrow> nat \<Rightarrow> assignment_dto \<Rightarrow> assignment" where
  "new_assignment e caseId dto = \<lparr>as_case = caseId, as_role = ad_role dto,
     as_agent = (if ad_role dto = AR_FIELD_AGENT then ad_agent dto else None),
     as_provider = (if ad_role dto = AR_PROVIDER then ad_provider dto else None),
     as_status = AS_OFFERED, as_scheduled_for = ad_scheduled dto, as_accepted_at = None,
     as_check_in_at = None, as_location = None, as_accuracy = None, as_geofence = None,
     as_distance = None, as_completed_at = None, as_created = now e\<rparr>"

definition createAssignment :: "env \<Rightarrow> actor \<Rightarrow> nat \<Rightarrow> assignment_dto \<Rightarrow> db \<Rightarrow> nat result" where
  "createAssignment e ac caseId dto d = (case find_unique (cases d) caseId of
     None \<Rightarrow> throw (Not_Found STR ''Case not found'') d
   | Some c \<Rightarrow> included (customers d) (c_customer c) d (\<lambda>cu.
     if c_status c \<notin> set assignable_statuses
     then throw (Bad_Request STR ''Cannot assign a case in this status'') d
     else (case assignee_check dto d of
       Some err \<Rightarrow> throw err d
     | None \<Rightarrow>
       (let aid = t_next (assignments d);
            d1 = d\<lparr>assignments := insert_row (new_assignment e caseId dto) (assignments d)\<rparr>
        in and_then
             (if c_status c = CS_SCHEDULED
              then transitionCase ac caseId CS_ASSIGNED (Some (role_assigned (ad_role dto))) d1
              else return () d1)
             (\<lambda>_ d2. return aid
               (notify e (cu_user cu) STR ''Someone has been assigned to your case''
                  [J_Lit STR ''We've assigned '',
                   J_Lit (if ad_role dto = AR_FIELD_AGENT then STR ''a field agent'' else STR ''a professional''),
                   J_Lit STR '' to '', J_Text (c_number c),
                   J_Lit STR ''. We'll update you once the visit is under way.'']
                 (audit_record (Some caseId) (Some (act_id ac)) By_User STR ''assignment.created''
                    [(STR ''assignmentId'', J_Id aid), (STR ''role'', J_Assignment (ad_role dto)),
                     (STR ''agentId'', json_option J_Id (ad_agent dto)),
                     (STR ''providerId'', json_option J_Id (ad_provider dto))] d2)))))))"

definition owns_assignment :: "actor \<Rightarrow> assignment \<Rightarrow> db \<Rightarrow> bool" where
  "owns_assignment ac a d \<longleftrightarrow>
     (\<exists>g \<in> set_option (Option.bind (as_agent a) (find_unique (agents d))). ag_user g = act_id ac)
   \<or> (\<exists>p \<in> set_option (Option.bind (as_provider a) (find_unique (providers d))). pv_user p = act_id ac)"

definition requireOwnedAssignment :: "actor \<Rightarrow> nat \<Rightarrow> db \<Rightarrow> (assignment \<times> service_case) result" where
  "requireOwnedAssignment ac assignmentId d = (case find_unique (assignments d) assignmentId of
     None \<Rightarrow> throw (Not_Found STR ''Assignment not found'') d
   | Some a \<Rightarrow> included (cases d) (as_case a) d (\<lambda>c.
     if \<not> owns_assignment ac a d then throw (Forbidden STR ''Not your assignment'') d
     else return (a, c) d))"

definition acceptAssignment :: "env \<Rightarrow> actor \<Rightarrow> nat \<Rightarrow> db \<Rightarrow> unit result" where
  "acceptAssignment e ac assignmentId d = and_then (requireOwnedAssignment ac assignmentId d) (\<lambda>(a, c) d.
     if as_status a \<noteq> AS_OFFERED then throw (Bad_Request STR ''Assignment already'') d
     else
       (let d1 = d\<lparr>assignments := update_row assignmentId
                   (\<lambda>r. r\<lparr>as_status := AS_ACCEPTED, as_accepted_at := Some (now e)\<rparr>) (assignments d)\<rparr>
        in and_then
             (if c_status c = CS_ASSIGNED
              then transitionCase ac (as_case a) CS_IN_PROGRESS (Some ''Assignment accepted'') d1
              else return () d1)
             (\<lambda>_ d2. return ()
               (audit_record (Some (as_case a)) (Some (act_id ac)) By_User STR ''assignment.accepted''
                  [(STR ''assignmentId'', J_Id assignmentId)] d2))))"

definition declineAssignment :: "actor \<Rightarrow> nat \<Rightarrow> db \<Rightarrow> unit result" where
  "declineAssignment ac assignmentId d = and_then (requireOwnedAssignment ac assignmentId d) (\<lambda>(a, c) d.
     (let d1 = d\<lparr>assignments := update_row assignmentId (\<lambda>r. r\<lparr>as_status := AS_DECLINED\<rparr>) (assignments d)\<rparr>
      in and_then
           (if c_status c = CS_ASSIGNED
            then transitionCase ac (as_case a) CS_SCHEDULED (Some ''Assignment declined'') d1
            else return () d1)
           (\<lambda>_ d2. return ()
             (audit_record (Some (as_case a)) (Some (act_id ac)) By_User STR ''assignment.declined''
                [(STR ''assignmentId'', J_Id assignmentId)] d2))))"

text \<open>The property on file for the case or, failing that, its asset.\<close>

definition target_place :: "nat \<Rightarrow> db \<Rightarrow> place option" where
  "target_place caseId d = (case find_unique (cases d) caseId of
     None \<Rightarrow> None
   | Some c \<Rightarrow> (case Option.bind (c_property c) (find_unique (properties d)) of
       Some p \<Rightarrow> Some p
     | None \<Rightarrow> Option.bind (c_asset c) (find_unique (assets d))))"

definition check_in_input :: "location option \<Rightarrow> place option \<Rightarrow> geofence_input" where
  "check_in_input loc target =
     \<lparr>gi_lat = Option.bind loc lo_lat, gi_lng = Option.bind loc lo_lng,
      gi_accuracy = Option.bind loc lo_accuracy, gi_captured = Option.bind loc lo_captured,
      gi_target_lat = Option.bind target pl_latitude, gi_target_lng = Option.bind target pl_longitude,
      gi_radius = None\<rparr>"

definition check_in_error :: "geofence_reason option \<Rightarrow> error" where
  "check_in_error reason =
     (let message = (case Option.bind reason geofence_rejection_message of
            Some m \<Rightarrow> m | None \<Rightarrow> STR ''Check-in could not be validated.'')
      in if reason = Some INVALID_COORDINATES then Bad_Request message
         else if reason = Some OUTSIDE_GEOFENCE then Forbidden message
         else Unprocessable message)"

definition checkIn :: "env \<Rightarrow> actor \<Rightarrow> nat \<Rightarrow> location option \<Rightarrow> db \<Rightarrow> unit result" where
  "checkIn e ac assignmentId loc d = and_then (requireOwnedAssignment ac assignmentId d) (\<lambda>(a, c) d.
     if as_status a \<noteq> AS_ACCEPTED
     then throw (Bad_Request STR ''Must accept the assignment before checking in'') d
     else
       (let geofence = evaluateCheckIn (now e) (check_in_input loc (target_place (as_case a) d));
            distance = json_option (\<lambda>m. J_Num (of_int m)) (gr_distance geofence)
        in if gr_outcome geofence = REJECTED
           then throw (check_in_error (gr_reason geofence))
             (audit_record (Some (as_case a)) (Some (act_id ac)) By_User STR ''assignment.check_in_rejected''
                [(STR ''assignmentId'', J_Id assignmentId),
                 (STR ''reason'', json_option (\<lambda>r. J_Lit (reason_name r)) (gr_reason geofence)),
                 (STR ''distanceMeters'', distance), (STR ''location'', json_option J_Location loc)] d)
           else return ()
             (audit_record (Some (as_case a)) (Some (act_id ac)) By_User STR ''assignment.checked_in''
                [(STR ''assignmentId'', J_Id assignmentId), (STR ''location'', json_option J_Location loc),
                 (STR ''geofenceResult'', J_Geofence (gr_outcome geofence)), (STR ''distanceMeters'', distance)]
              (d\<lparr>assignments := update_row assignmentId
                   (\<lambda>r. r\<lparr>as_check_in_at := Some (now e), as_location := loc,
                          as_accuracy := Option.bind loc lo_accuracy, as_geofence := Some (gr_outcome geofence),
                          as_distance := gr_distance geofence\<rparr>) (assignments d)\<rparr>))))"

section \<open>Ownership\<close>

lemma requireOwned_Inr [simp]:
  "requireOwnedAssignment ac aid d = (Inr (a, c), d') \<longleftrightarrow>
     d' = d \<and> find_unique (assignments d) aid = Some a \<and> find_unique (cases d) (as_case a) = Some c \<and> owns_assignment ac a d"
  by (auto simp: requireOwnedAssignment_def included_Inr split: option.split if_splits)

lemma requireOwned_snd [simp]: "snd (requireOwnedAssignment ac aid d) = d"
  by (simp add: requireOwnedAssignment_def included_def split: option.split)

lemma requireOwned_cases:
  obtains (refused) err where "requireOwnedAssignment ac aid d = (Inl err, d)"
  | (owned) a c where "requireOwnedAssignment ac aid d = (Inr (a, c), d)"
      "find_unique (assignments d) aid = Some a" "find_unique (cases d) (as_case a) = Some c" "owns_assignment ac a d"
proof (cases "requireOwnedAssignment ac aid d")
  case (Pair r d')
  moreover from Pair have "d' = d" using requireOwned_snd [of ac aid d] by simp
  ultimately show thesis using that by (cases r) auto
qed

section \<open>Effect on the lifecycle of the cases\<close>

lemma lifecycle_assignments: "lifecycle d d' \<Longrightarrow> lifecycle d (d'\<lparr>assignments := x\<rparr>)"
  by (erule lifecycle_trans) (rule lifecycle_frame, simp_all add: audit_extends_def)

lemma lifecycle_then_transition: "lifecycle d d1 \<Longrightarrow> lifecycle d (snd (transitionCase ac k s r d1))"
  by (erule lifecycle_trans) simp

lemmas lifecycle_field_writes = lifecycle_and_then lifecycle_notify lifecycle_audit lifecycle_then_transition
  lifecycle_assignments

lemma lifecycle_createAssignment: "lifecycle d (snd (createAssignment e ac k dto d))"
  by (cases "find_unique (cases d) k")
    (auto simp: createAssignment_def Let_def included_def intro!: lifecycle_field_writes split: option.split)

lemma lifecycle_acceptAssignment: "lifecycle d (snd (acceptAssignment e ac aid d))"
  by (cases ac aid d rule: requireOwned_cases)
    (auto simp: acceptAssignment_def Let_def intro!: lifecycle_field_writes)

lemma lifecycle_declineAssignment: "lifecycle d (snd (declineAssignment ac aid d))"
  by (cases ac aid d rule: requireOwned_cases)
    (auto simp: declineAssignment_def Let_def intro!: lifecycle_field_writes)

lemma lifecycle_checkIn: "lifecycle d (snd (checkIn e ac aid loc d))"
  by (cases ac aid d rule: requireOwned_cases)
    (auto simp: checkIn_def Let_def intro!: lifecycle_field_writes)

end
