(* ===== verification/Risk.thy ===== *)
theory Risk
  imports Lifecycle
begin

text \<open>
  The risk engine (\<open>src/backend/src/risk/risk-engine.service.ts\<close>): the deterministic score of a case
  from its flags, incidents, assignees, history and quotes, the level that follows from it, and
  the flag it raises on a high level.
\<close>

section \<open>Operations\<close>

definition high_risk_level :: int where
  "high_risk_level = 3"

fun incident_severity_points :: "incident_severity \<Rightarrow> nat" where
  "incident_severity_points IN_LOW = 1"
| "incident_severity_points IN_MEDIUM = 1"
| "incident_severity_points IN_HIGH = 2"
| "incident_severity_points IN_CRITICAL = 3"

definition open_flags :: "nat \<Rightarrow> db \<Rightarrow> nat" where
  "open_flags caseId d = length (find_many (\<lambda>_ f. kf_case f = caseId \<and> kf_resolved_at f = None) (risk_flags d))"

definition case_incidents :: "nat \<Rightarrow> db \<Rightarrow> incident list" where
  "case_incidents caseId d = map snd (find_many (\<lambda>_ i. in_case i = Some caseId) (incidents d))"

text \<open>\<open>a.agent?.performanceScore ?? a.provider?.performanceScore\<close>\<close>

definition assignee_score :: "assignment \<Rightarrow> db \<Rightarrow> rat option" where
  "assignee_score a d =
     (case Option.bind (Option.bind (as_agent a) (find_unique (agents d))) ag_score of
        Some s \<Rightarrow> Some s
      | None \<Rightarrow> Option.bind (Option.bind (as_provider a) (find_unique (providers d))) pv_score)"

definition low_performing :: "nat \<Rightarrow> db \<Rightarrow> bool" where
  "low_performing caseId d \<longleftrightarrow> list_ex (\<lambda>(_, a). case assignee_score a d of Some s \<Rightarrow> s < 3 | None \<Rightarrow> False)
     (find_many (\<lambda>_ a. as_case a = caseId \<and> as_status a \<in> {AS_OFFERED, AS_ACCEPTED, AS_IN_PROGRESS}) (assignments d))"

definition risk_factors_of :: "nat \<Rightarrow> service_case \<Rightarrow> db \<Rightarrow> risk_factors" where
  "risk_factors_of caseId c d =
     \<lparr>fa_open_flags = min (open_flags caseId d) 3,
      fa_incident_points = sum_list (map (\<lambda>i. incident_severity_points (in_severity i)) (case_incidents caseId d)),
      fa_prior_incidents = min (sum_list (map (\<lambda>(k, _). length (case_incidents k d))
        (find_many (\<lambda>k r. c_customer r = c_customer c \<and> k \<noteq> caseId) (cases d)))) 2,
      fa_low_performer = low_performing caseId d,
      fa_urgent = (c_priority c = CP_URGENT),
      fa_rework = min (length (find_many (\<lambda>_ h. h_case h = caseId \<and> h_to h = CS_IN_PROGRESS) (history d)) - 1) 2,
      fa_high_value = (foldl (\<lambda>m (_, q). max m (q_amount q)) 0
        (find_many (\<lambda>_ q. q_case q = caseId) (quotes d)) > 500000)\<rparr>"

definition risk_score :: "risk_factors \<Rightarrow> nat" where
  "risk_score f = fa_open_flags f + fa_incident_points f + fa_prior_incidents f
     + (if fa_low_performer f then 2 else 0) + (if fa_urgent f then 1 else 0) + fa_rework f
     + (if fa_high_value f then 1 else 0)"

definition risk_level :: "nat \<Rightarrow> int" where
  "risk_level score = (if score \<ge> 7 then 4 else if score \<ge> 4 then 3 else if score \<ge> 2 then 2 else 1)"

definition automated_label :: "json list" where
  "automated_label = [J_Text ''Automated risk escalation'']"

definition factors_json :: "risk_factors \<Rightarrow> json" where
  "factors_json f = J_Object [(STR ''openRiskFlags'', J_Num (of_nat (fa_open_flags f))),
     (STR ''incidentPointsThisCase'', J_Num (of_nat (fa_incident_points f))),
     (STR ''priorIncidentsOtherCases'', J_Num (of_nat (fa_prior_incidents f))),
     (STR ''lowPerformingAssignee'', J_Bool (fa_low_performer f)),
     (STR ''urgentPriority'', J_Bool (fa_urgent f)),
     (STR ''reworkCycles'', J_Num (of_nat (fa_rework f))), (STR ''highValue'', J_Bool (fa_high_value f))]"

definition flag_high_risk :: "nat \<Rightarrow> nat \<Rightarrow> int \<Rightarrow> risk_factors \<Rightarrow> db \<Rightarrow> db" where
  "flag_high_risk caseId score level f d =
     (if exists_row (\<lambda>_ x. kf_case x = caseId \<and> kf_label x = automated_label \<and> kf_resolved_at x = None) (risk_flags d)
      then d
      else d\<lparr>risk_flags := insert_row \<lparr>kf_case = caseId, kf_label = automated_label,
             kf_detail = Some [J_Lit STR ''Risk engine scored this case '', J_Num (of_nat score),
               J_Lit STR '' (level '', J_Num (of_int level), J_Lit STR ''). Factors: '', factors_json f],
             kf_raised_by = None, kf_resolved_at = None\<rparr> (risk_flags d)\<rparr>)"

definition assessCase :: "nat \<Rightarrow> db \<Rightarrow> risk_assessment result" where
  "assessCase caseId d = (case find_unique (cases d) caseId of
     None \<Rightarrow> throw (Not_Found STR ''Case not found'') d
   | Some c \<Rightarrow> included (customers d) (c_customer c) d (\<lambda>_.
     (let factors = risk_factors_of caseId c d;
          score = risk_score factors;
          level = risk_level score;
          assessment = \<lparr>ra_case = caseId, ra_score = score, ra_level = level, ra_factors = factors\<rparr>;
          d1 = d\<lparr>risk_assessments := insert_row assessment (risk_assessments d),
                 cases := update_row caseId (\<lambda>c. c\<lparr>c_risk_level := level\<rparr>) (cases d)\<rparr>;
          d2 = audit_record (Some caseId) None By_System STR ''case.risk_assessed''
                 [(STR ''score'', J_Num (of_nat score)), (STR ''level'', J_Num (of_int level)),
                  (STR ''factors'', factors_json factors)] d1
      in return assessment
           (if level \<ge> high_risk_level then flag_high_risk caseId score level factors d2 else d2))))"

definition listAssessments :: "nat \<Rightarrow> db \<Rightarrow> risk_assessment list" where
  "listAssessments caseId d = rev (map snd (find_many (\<lambda>_ a. ra_case a = caseId) (risk_assessments d)))"

text \<open>
  The review queue, each case with its customer and its newest assessment. \<open>updatedAt\<close> is not a
  column of the model, so the rows come in the order of the table.
\<close>

definition listHighRiskCases :: "role \<Rightarrow> db \<Rightarrow> (nat \<times> service_case \<times> customer option \<times> risk_assessment option) list" where
  "listHighRiskCases actorRole d = map (\<lambda>(k, c).
       (k, c, map_option (\<lambda>cu. redactCustomerName cu actorRole) (find_unique (customers d) (c_customer c)),
        map_option snd (find_last (\<lambda>_ a. ra_case a = k) (risk_assessments d))))
     (find_many (\<lambda>_ c. c_risk_level c \<ge> high_risk_level) (cases d))"

section \<open>Score and level\<close>

lemma risk_level_range: "1 \<le> risk_level s \<and> risk_level s \<le> 4"
  by (simp add: risk_level_def)

lemma risk_level_mono: "s \<le> t \<Longrightarrow> risk_level s \<le> risk_level t"
  by (simp add: risk_level_def)

lemma low_performing_cong:
  "assignments d' = assignments d \<Longrightarrow> agents d' = agents d \<Longrightarrow> providers d' = providers d
     \<Longrightarrow> low_performing k d' = low_performing k d"
  unfolding low_performing_def assignee_score_def by (simp only:)

text \<open>An assessment reads the case's flags besides rows that it does not write.\<close>

lemma risk_factors_cong:
  assumes "open_flags k d' = open_flags k d" "incidents d' = incidents d" "assignments d' = assignments d"
    "agents d' = agents d" "providers d' = providers d" "history d' = history d" "quotes d' = quotes d"
    "map (\<lambda>(k, r). (k, c_customer r)) (t_rows (cases d')) = map (\<lambda>(k, r). (k, c_customer r)) (t_rows (cases d))"
    "c_customer c' = c_customer c" "c_priority c' = c_priority c"
  shows "risk_factors_of k c' d' = risk_factors_of k c d"
proof -
  have keys: "map fst (find_many (\<lambda>i r. c_customer r = cu \<and> i \<noteq> k) t)
      = map fst (filter (\<lambda>(i, cu'). cu' = cu \<and> i \<noteq> k) (map (\<lambda>(k, r). (k, c_customer r)) (t_rows t)))" for cu t
    by (simp add: find_many_def filter_map comp_def case_prod_unfold)
  have inc: "map (\<lambda>(i, r). length (case_incidents i d)) xs = map (\<lambda>i. length (case_incidents i d)) (map fst xs)" for xs :: "(nat \<times> service_case) list" and d
    by (simp add: case_prod_unfold)
  have ci: "case_incidents i d' = case_incidents i d" for i
    by (simp add: case_incidents_def assms)
  have lp: "low_performing k d' = low_performing k d"
    by (rule low_performing_cong) (rule assms)+
  show ?thesis
    unfolding risk_factors_of_def inc keys by (simp add: assms ci lp)
qed

section \<open>Effect\<close>

lemma flag_high_risk_frame [simp]:
  "cases (flag_high_risk k s l f d) = cases d" "history (flag_high_risk k s l f d) = history d"
  "incidents (flag_high_risk k s l f d) = incidents d" "assignments (flag_high_risk k s l f d) = assignments d"
  "agents (flag_high_risk k s l f d) = agents d" "providers (flag_high_risk k s l f d) = providers d"
  "quotes (flag_high_risk k s l f d) = quotes d" "customers (flag_high_risk k s l f d) = customers d"
  "audit_log (flag_high_risk k s l f d) = audit_log d"
  by (simp_all add: flag_high_risk_def)

lemma assessCase_Inr:
  assumes "assessCase k d = (Inr a, d')"
  obtains c where "find_unique (cases d) k = Some c" "ra_score a = risk_score (risk_factors_of k c d)"
    "ra_level a = risk_level (ra_score a)" "cases d' = update_row k (\<lambda>c. c\<lparr>c_risk_level := ra_level a\<rparr>) (cases d)"
    "history d' = history d" "incidents d' = incidents d" "assignments d' = assignments d" "agents d' = agents d"
    "providers d' = providers d" "quotes d' = quotes d" "customers d' = customers d" "audit_extends d d'"
proof (cases "find_unique (cases d) k")
  case (Some c)
  show thesis
    by (rule that [OF Some]) (use assms Some in \<open>auto simp: assessCase_def included_Inr Let_def audit_extends_def\<close>)
qed (use assms in \<open>simp add: assessCase_def\<close>)

lemma assessCase_Inl: "assessCase k d = (Inl err, d') \<Longrightarrow> d' = d"
  by (auto simp: assessCase_def included_def Let_def split: option.splits)

lemma lifecycle_assessCase: "lifecycle d (snd (assessCase k d))"
proof (cases "assessCase k d")
  case (Pair r d')
  show ?thesis
  proof (cases r)
    case (Inr a)
    with Pair have "assessCase k d = (Inr a, d')" by simp
    from assessCase_Inr [OF this] have w: "cases d' = update_row k (\<lambda>c. c\<lparr>c_risk_level := ra_level a\<rparr>) (cases d)"
        "history d' = history d" "audit_extends d d'"
      by metis+
    define d1 where "d1 = d\<lparr>cases := update_row k (\<lambda>c. c\<lparr>c_risk_level := ra_level a\<rparr>) (cases d)\<rparr>"
    have "lifecycle d d1"
      by (rule lifecycle_update_case [where f = "\<lambda>c. c\<lparr>c_risk_level := ra_level a\<rparr>"]) (simp_all add: d1_def)
    moreover have "lifecycle d1 d'"
      by (rule lifecycle_frame) (use w(3) in \<open>simp_all add: d1_def w audit_extends_def\<close>)
    ultimately show ?thesis using Pair by (simp add: lifecycle_trans)
  next
    case (Inl err)
    then show ?thesis using Pair assessCase_Inl [of k d err d'] by simp
  qed
qed

section \<open>Assessing again\<close>

definition has_automated_flag :: "nat \<Rightarrow> db \<Rightarrow> bool" where
  "has_automated_flag k d \<longleftrightarrow>
     exists_row (\<lambda>_ x. kf_case x = k \<and> kf_label x = automated_label \<and> kf_resolved_at x = None) (risk_flags d)"

lemma assessCase_flags:
  assumes "assessCase k d = (Inr a, d')"
  shows "open_flags k d' = open_flags k d + (if 3 \<le> ra_level a \<and> \<not> has_automated_flag k d then 1 else 0)"
    and "has_automated_flag k d' \<longleftrightarrow> has_automated_flag k d \<or> 3 \<le> ra_level a"
  using assms
  by (auto simp: assessCase_def included_Inr Let_def flag_high_risk_def open_flags_def has_automated_flag_def
      high_risk_level_def find_first_insert_row split: option.splits if_splits)

lemma assess_twice:
  assumes one: "assessCase k d = (Inr a, d1)" and two: "assessCase k d1 = (Inr b, d2)"
  shows "ra_score b = ra_score a + (if 3 \<le> ra_level a \<and> \<not> has_automated_flag k d \<and> open_flags k d < 3 then 1 else 0)"
proof -
  from assessCase_Inr [OF one] obtain c where c: "find_unique (cases d) k = Some c"
    "ra_score a = risk_score (risk_factors_of k c d)" and up: "cases d1 = update_row k (\<lambda>c. c\<lparr>c_risk_level := ra_level a\<rparr>) (cases d)"
    and eq: "history d1 = history d" "incidents d1 = incidents d" "assignments d1 = assignments d" "agents d1 = agents d"
    "providers d1 = providers d" "quotes d1 = quotes d" by metis
  let ?c = "c\<lparr>c_risk_level := ra_level a\<rparr>"
  from assessCase_Inr [OF two] have b: "ra_score b = risk_score (risk_factors_of k ?c d1)"
    using up c(1) by (metis option.sel option.simps(9) tbl.lookup_modify)
  define dx where "dx = d1\<lparr>risk_flags := risk_flags d\<rparr>"
  have dx: "risk_factors_of k ?c dx = risk_factors_of k c d"
    by (rule risk_factors_cong)
      (auto simp: dx_def open_flags_def eq up update_row_def update_many_def)
  have low: "low_performing k (d1\<lparr>risk_flags := risk_flags d\<rparr>) = low_performing k d1"
    by (rule low_performing_cong) simp_all
  have "risk_factors_of k ?c d1 = (risk_factors_of k ?c dx)\<lparr>fa_open_flags := min (open_flags k d1) 3\<rparr>"
    by (simp add: risk_factors_of_def dx_def case_incidents_def low)
  then have "ra_score b + min (open_flags k d) 3 = ra_score a + min (open_flags k d1) 3"
    by (simp add: b c(2) dx risk_score_def) (simp add: risk_factors_of_def)
  then show ?thesis using assessCase_flags(1) [OF one] by (auto split: if_splits)
qed

end
