(* ===== verification/Tiering.thy ===== *)
theory Tiering
  imports Lifecycle "HOL-Library.Product_Lexorder"
begin

text \<open>
  Field agent tiers (\<open>src/backend/src/agent-tiering/agent-tiering.service.ts\<close>): a tier is a
  deterministic function of the agent's rating and of the share of passed quality controls on the
  cases the agent was assigned to. The log line of the sweep is left out.
\<close>

instantiation agent_tier :: linorder
begin

fun agent_tier_rank :: "agent_tier \<Rightarrow> nat" where
  "agent_tier_rank TI_BRONZE = 0"
| "agent_tier_rank TI_SILVER = 1"
| "agent_tier_rank TI_GOLD = 2"

definition less_eq_agent_tier :: "agent_tier \<Rightarrow> agent_tier \<Rightarrow> bool" where
  "less_eq_agent_tier a b \<longleftrightarrow> agent_tier_rank a \<le> agent_tier_rank b"

definition less_agent_tier :: "agent_tier \<Rightarrow> agent_tier \<Rightarrow> bool" where
  "less_agent_tier a b \<longleftrightarrow> agent_tier_rank a < agent_tier_rank b"

instance
proof
  fix a b :: agent_tier
  show "a \<le> b \<Longrightarrow> b \<le> a \<Longrightarrow> a = b" by (cases a; cases b) (simp_all add: less_eq_agent_tier_def)
qed (auto simp: less_eq_agent_tier_def less_agent_tier_def)

end

section \<open>Operations\<close>

definition passing_qc_outcomes :: "qc_outcome list" where
  "passing_qc_outcomes = [QC_APPROVED, QC_PASS_WITH_LIMITATION]"

definition min_qc_sample :: nat where
  "min_qc_sample = 3"

text \<open>The two pairs of thresholds: rating and pass rate.\<close>

definition gold_thresholds :: "rat \<times> rat" where
  "gold_thresholds = (9 / 2, 9 / 10)"

definition silver_thresholds :: "rat \<times> rat" where
  "silver_thresholds = (7 / 2, 3 / 4)"

definition worked_on :: "nat \<Rightarrow> nat \<Rightarrow> db \<Rightarrow> bool" where
  "worked_on agentId caseId d \<longleftrightarrow> exists_row (\<lambda>_ a. as_case a = caseId \<and> as_agent a = Some agentId
     \<and> as_role a = AR_FIELD_AGENT) (assignments d)"

definition computeQcPassRate :: "nat \<Rightarrow> db \<Rightarrow> rat option \<times> nat" where
  "computeQcPassRate agentId d =
     (let reviews = map (\<lambda>(_, r). qr_outcome r) (find_many (\<lambda>_ r. worked_on agentId (qr_case r) d) (qc_reviews d))
      in if length reviews = 0 then (None, 0)
         else (let passing = length (filter (\<lambda>q. q \<in> set passing_qc_outcomes) reviews)
               in (Some (of_nat passing / of_nat (length reviews)), length reviews)))"

definition determineTier :: "rat option \<Rightarrow> rat option \<times> nat \<Rightarrow> agent_tier" where
  "determineTier performanceScore qc = (case (performanceScore, qc) of
     (Some score, (Some rate, sampleSize)) \<Rightarrow>
       if sampleSize < min_qc_sample then TI_BRONZE
       else if score \<ge> fst gold_thresholds \<and> rate \<ge> snd gold_thresholds then TI_GOLD
       else if score \<ge> fst silver_thresholds \<and> rate \<ge> snd silver_thresholds then TI_SILVER
       else TI_BRONZE
   | _ \<Rightarrow> TI_BRONZE)"

definition recomputeAgentTier :: "nat \<Rightarrow> db \<Rightarrow> agent_tier result" where
  "recomputeAgentTier agentId d = (case find_unique (agents d) agentId of
     None \<Rightarrow> throw (Not_Found STR ''Agent not found'') d
   | Some g \<Rightarrow>
     (let qcResult = computeQcPassRate agentId d; tier = determineTier (ag_score g) qcResult
      in return tier (d\<lparr>agents := update_row agentId
           (\<lambda>g. g\<lparr>ag_tier := tier, ag_pass_rate := fst qcResult\<rparr>) (agents d)\<rparr>)))"

fun recompute_each :: "nat list \<Rightarrow> db \<Rightarrow> agent_tier list result" where
  "recompute_each [] d = return [] d"
| "recompute_each (i # is) d = and_then (recomputeAgentTier i d) (\<lambda>t d.
     and_then (recompute_each is d) (\<lambda>ts d. return (t # ts) d))"

definition case_field_agents :: "nat \<Rightarrow> db \<Rightarrow> nat list" where
  "case_field_agents caseId d = remdups (List.map_filter (\<lambda>(_, a). as_agent a)
     (find_many (\<lambda>_ a. as_case a = caseId \<and> as_role a = AR_FIELD_AGENT \<and> as_agent a \<noteq> None) (assignments d)))"

definition recomputeAgentsForCase :: "nat \<Rightarrow> db \<Rightarrow> unit result" where
  "recomputeAgentsForCase caseId d = and_then (recompute_each (case_field_agents caseId d) d) (\<lambda>_ d. return () d)"

definition recomputeAllTiers :: "db \<Rightarrow> (nat \<times> (agent_tier \<Rightarrow> nat)) result" where
  "recomputeAllTiers d =
     (let due = map fst (find_many (\<lambda>_ g. ag_active g) (agents d))
      in and_then (recompute_each due d) (\<lambda>ts d. return (length due, \<lambda>t. count_list ts t) d))"

text \<open>
  The suggestion: gold agents first, within a tier the better rated first and the unrated last.
  \<open>premiumCustomer\<close> looks at one active subscription of the customer.
\<close>

definition agent_rank :: "nat \<times> agent \<Rightarrow> int \<times> nat \<times> rat" where
  "agent_rank = (\<lambda>(_, g). (- int (agent_tier_rank (ag_tier g)),
     case ag_score g of Some s \<Rightarrow> (0, - s) | None \<Rightarrow> (1, 0)))"

definition suggestAgentsForCase :: "nat \<Rightarrow> db \<Rightarrow> (bool \<times> (nat \<times> agent) list) result" where
  "suggestAgentsForCase caseId d = (case find_unique (cases d) caseId of
     None \<Rightarrow> throw (Not_Found STR ''Case not found'') d
   | Some c \<Rightarrow> included (customers d) (c_customer c) d (\<lambda>_.
     (let premiumCustomer = list_ex (\<lambda>(_, s). s_plan s = MP_PREMIUM)
            (take 1 (find_many (\<lambda>_ s. s_customer s = c_customer c \<and> s_status s = SS_ACTIVE) (subscriptions d)))
      in return (premiumCustomer, sort_key agent_rank (find_many (\<lambda>_ g. ag_active g) (agents d))) d)))"

section \<open>Facts\<close>

text \<open>A tier never falls when the rating or the pass rate of an agent rises.\<close>

lemma determineTier_mono:
  assumes "s \<le> s'" "r \<le> r'"
  shows "determineTier (Some s) (Some r, n) \<le> determineTier (Some s') (Some r', n)"
  using assms by (auto simp: determineTier_def gold_thresholds_def silver_thresholds_def less_eq_agent_tier_def)

lemma pass_rate_bounds: "computeQcPassRate i d = (Some r, n) \<Longrightarrow> 0 \<le> r \<and> r \<le> 1 \<and> 0 < n"
proof -
  assume pr: "computeQcPassRate i d = (Some r, n)"
  define xs where "xs = map (\<lambda>(_, r). qr_outcome r) (find_many (\<lambda>_ r. worked_on i (qr_case r) d) (qc_reviews d))"
  have xs: "xs \<noteq> [] \<and> n = length xs \<and> r = of_nat (length (filter (\<lambda>q. q \<in> set passing_qc_outcomes) xs)) / of_nat (length xs)"
    using pr unfolding computeQcPassRate_def Let_def xs_def [symmetric] by (auto split: if_splits)
  then have "r \<le> 1" using length_filter_le [of "\<lambda>q. q \<in> set passing_qc_outcomes" xs]
    by (simp add: divide_le_eq_1)
  with xs show ?thesis by simp
qed

definition tier_current :: "nat \<Rightarrow> db \<Rightarrow> bool" where
  "tier_current i d \<longleftrightarrow> (\<forall>g. find_unique (agents d) i = Some g \<longrightarrow>
     ag_tier g = determineTier (ag_score g) (computeQcPassRate i d) \<and> ag_pass_rate g = fst (computeQcPassRate i d))"

lemma recompute_state:
  assumes "recomputeAgentTier i d = (r, d')"
  obtains t where "d' = d\<lparr>agents := t\<rparr>"
proof (cases "find_unique (agents d) i")
  case None
  with assms show thesis by (intro that [of "agents d"]) (simp add: recomputeAgentTier_def)
next
  case (Some g)
  with assms show thesis using that by (auto simp: recomputeAgentTier_def Let_def)
qed

lemma pass_rate_cong [simp]: "computeQcPassRate i (d\<lparr>agents := t\<rparr>) = computeQcPassRate i d"
  by (simp add: computeQcPassRate_def worked_on_def)

lemma recompute_each_state: "\<exists>t. snd (recompute_each is d) = d\<lparr>agents := t\<rparr>"
proof (induction "is" arbitrary: d)
  case Nil
  show ?case by (rule exI [of _ "agents d"]) simp
next
  case (Cons i "is")
  obtain r d1 where r: "recomputeAgentTier i d = (r, d1)" by fastforce
  from recompute_state [OF r] obtain t1 where d1: "d1 = d\<lparr>agents := t1\<rparr>" .
  from Cons [of d1] obtain t2 where "snd (recompute_each is d1) = d\<lparr>agents := t2\<rparr>" by (auto simp: d1)
  moreover have "snd (recompute_each (i # is) d) = (if isl r then d1 else snd (recompute_each is d1))"
    by (cases r; cases "recompute_each is d1"; cases "fst (recompute_each is d1)") (simp_all add: r)
  ultimately show ?case using d1 by (cases "isl r") auto
qed

lemma recompute_keys:
  "find_unique (agents (snd (recomputeAgentTier i d))) j = None \<longleftrightarrow> find_unique (agents d) j = None"
  by (auto simp: recomputeAgentTier_def Let_def split: option.split)

text \<open>After a pass over a list of existing agents each of them holds the tier it deserves.\<close>

lemma recompute_each_current:
  assumes "\<forall>i \<in> set is. find_unique (agents d) i \<noteq> None"
  shows "\<exists>ts d'. recompute_each is d = (Inr ts, d') \<and> length ts = length is
    \<and> (\<forall>j. j \<in> set is \<or> tier_current j d \<longrightarrow> tier_current j d')"
  using assms
proof (induction "is" arbitrary: d)
  case (Cons i "is")
  from Cons.prems obtain g where g: "find_unique (agents d) i = Some g" by auto
  let ?t = "determineTier (ag_score g) (computeQcPassRate i d)"
  let ?d1 = "d\<lparr>agents := update_row i (\<lambda>g. g\<lparr>ag_tier := ?t, ag_pass_rate := fst (computeQcPassRate i d)\<rparr>) (agents d)\<rparr>"
  have step: "recomputeAgentTier i d = (Inr ?t, ?d1)"
    by (simp add: recomputeAgentTier_def g Let_def)
  have current: "tier_current j ?d1" if "j = i \<or> tier_current j d" for j
    using that g by (auto simp: tier_current_def)
  have "\<forall>j \<in> set is. find_unique (agents ?d1) j \<noteq> None" using Cons.prems by simp
  from Cons.IH [OF this] obtain ts d' where rest: "recompute_each is ?d1 = (Inr ts, d')" "length ts = length is"
    "\<forall>j. j \<in> set is \<or> tier_current j ?d1 \<longrightarrow> tier_current j d'" by blast
  show ?case using rest current by (auto simp: step)
qed simp

lemma lifecycle_agents: "lifecycle d (d\<lparr>agents := t\<rparr>)"
  by (rule lifecycle_frame) (simp_all add: audit_extends_def)

lemma lifecycle_recompute: "lifecycle d (snd (recomputeAgentsForCase k d))" "lifecycle d (snd (recomputeAllTiers d))"
proof -
  have each: "lifecycle d (snd (recompute_each is d))" for "is"
    using recompute_each_state [of "is" d] lifecycle_agents [of d] by auto
  show "lifecycle d (snd (recomputeAgentsForCase k d))"
    unfolding recomputeAgentsForCase_def by (rule lifecycle_and_then [OF each]) simp
  show "lifecycle d (snd (recomputeAllTiers d))"
    unfolding recomputeAllTiers_def Let_def by (rule lifecycle_and_then [OF each]) simp
qed

end
