(* ===== verification/Evidence.thy ===== *)
theory Evidence
  imports Assignments Risk Tiering
begin

text \<open>
  Fieldwork and quality control (\<open>src/backend/src/evidence/evidence.service.ts\<close>), the voice
  transcription it triggers (\<open>voice-transcription/voice-transcription.service.ts\<close>, with the object
  store and the speech service as the parameter \<open>transcribe\<close>) and the storage keys it trusts
  (\<open>storage/storage.service.ts\<close>). The integrity hash is not a column of the model, and the approval
  buttons sent over WhatsApp leave no trace in the database.
\<close>

section \<open>Storage keys\<close>

definition file_extension :: "string \<Rightarrow> string" where
  "file_extension fileName = (if CHR ''.'' \<in> set fileName
     then CHR ''.'' # rev (takeWhile (\<lambda>c. c \<noteq> CHR ''.'') (rev fileName)) else [])"

text \<open>The uuid is an argument: the bytes of \<open>randomUUID\<close>.\<close>

definition createKey :: "string \<Rightarrow> string \<Rightarrow> string option \<Rightarrow> string" where
  "createKey uuid keyPrefix fileName =
     keyPrefix @ ''/'' @ uuid @ (case fileName of None \<Rightarrow> [] | Some f \<Rightarrow> file_extension f)"

definition evidence_key_prefix :: string where
  "evidence_key_prefix = ''evidence''"

definition evidence_folder :: "nat \<Rightarrow> string" where
  "evidence_folder caseId = evidence_key_prefix @ ''/'' @ decimal caseId"

definition createUploadUrl :: "string \<Rightarrow> nat \<Rightarrow> string \<Rightarrow> string" where
  "createUploadUrl uuid caseId fileName = createKey uuid (evidence_folder caseId) (Some fileName)"

definition issued_for :: "nat \<Rightarrow> string \<Rightarrow> bool" where
  "issued_for caseId storageKey \<longleftrightarrow> prefix (evidence_folder caseId @ ''/'') storageKey"

section \<open>Fieldwork\<close>

definition transcribeEvidence :: "env \<Rightarrow> nat \<Rightarrow> db \<Rightarrow> db" where
  "transcribeEvidence e evidenceId d = (case find_unique (evidences d) evidenceId of
     None \<Rightarrow> d
   | Some ev \<Rightarrow>
     if ev_type ev \<noteq> ET_VOICE then d
     else (case transcribe e ev of
       None \<Rightarrow> d\<lparr>evidences := update_row evidenceId
           (\<lambda>v. v\<lparr>ev_transcription := TR_FAILED, ev_translation := TR_NOT_REQUESTED\<rparr>) (evidences d)\<rparr>
     | Some tx \<Rightarrow> d\<lparr>evidences := update_row evidenceId
           (\<lambda>v. v\<lparr>ev_transcript := tx_transcript tx, ev_transcript_lang := tx_transcript_lang tx,
                  ev_translated := tx_translated tx, ev_translated_lang := tx_translated_lang tx,
                  ev_transcription := tx_transcription tx, ev_translation := tx_translation tx\<rparr>) (evidences d)\<rparr>))"

record evidence_dto =
  ed_type :: evidence_type
  ed_level :: "evidence_level option"
  ed_description :: "string option"
  ed_task :: "nat option"
  ed_location :: "json option"
  ed_storage_key :: string
  ed_client_request :: "string option"
  ed_language :: "string option"

definition new_evidence :: "env \<Rightarrow> actor \<Rightarrow> nat \<Rightarrow> evidence_dto \<Rightarrow> evidence" where
  "new_evidence e ac caseId dto = \<lparr>ev_case = caseId, ev_task = ed_task dto, ev_uploader = act_id ac,
     ev_type = ed_type dto, ev_level = (case ed_level dto of Some l \<Rightarrow> l | None \<Rightarrow> EL_OBSERVED),
     ev_description = ed_description dto, ev_location = ed_location dto,
     ev_storage_key = ed_storage_key dto, ev_captured = now e, ev_created = now e,
     ev_client_request = ed_client_request dto,
     ev_language_hint = (if ed_type dto = ET_VOICE then ed_language dto else None),
     ev_transcript = None, ev_transcript_lang = None, ev_translated = None, ev_translated_lang = None,
     ev_transcription = TR_NOT_REQUESTED, ev_translation = TR_NOT_REQUESTED\<rparr>"

text \<open>The row a replayed submission finds: an empty \<open>clientRequestId\<close> counts as none.\<close>

definition replayed :: "nat \<Rightarrow> evidence_dto \<Rightarrow> db \<Rightarrow> nat option" where
  "replayed caseId dto d = (case ed_client_request dto of
     None \<Rightarrow> None
   | Some r \<Rightarrow> if r = [] then None
       else map_option fst (find_first (\<lambda>_ v. ev_case v = caseId \<and> ev_client_request v = Some r) (evidences d)))"

text \<open>The task of a submission is a foreign key.\<close>

definition submitEvidence :: "env \<Rightarrow> actor \<Rightarrow> nat \<Rightarrow> evidence_dto \<Rightarrow> db \<Rightarrow> nat result" where
  "submitEvidence e ac caseId dto d = (case replayed caseId dto d of
     Some existing \<Rightarrow> return existing d
   | None \<Rightarrow>
     (case find_unique (cases d) caseId of
        None \<Rightarrow> throw (Not_Found STR ''Case not found'') d
      | Some c \<Rightarrow>
        if c_status c \<noteq> CS_IN_PROGRESS
        then throw (Bad_Request STR ''Cannot submit evidence for a case in this status'') d
        else if \<not> issued_for caseId (ed_storage_key dto)
        then throw (Bad_Request STR ''storageKey was not issued for this case -- request a new upload URL'') d
        else if \<not> object_exists e (ed_storage_key dto)
        then throw (Bad_Request STR ''Uploaded file not found -- the upload may not have completed. Request a new upload URL and try again.'') d
        else if (case ed_task dto of None \<Rightarrow> False | Some t \<Rightarrow> find_unique (tasks d) t = None)
        then throw (Internal STR ''Foreign key constraint violated'') d
        else
          (let eid = t_next (evidences d);
               d1 = audit_record (Some caseId) (Some (act_id ac)) By_User STR ''evidence.submitted''
                      [(STR ''evidenceId'', J_Id eid), (STR ''type'', J_Evidence (ed_type dto))]
                      (d\<lparr>evidences := insert_row (new_evidence e ac caseId dto) (evidences d)\<rparr>)
           in return eid (if ed_type dto = ET_VOICE then transcribeEvidence e eid d1 else d1))))"

definition completeTask :: "env \<Rightarrow> actor \<Rightarrow> nat \<Rightarrow> nat \<Rightarrow> db \<Rightarrow> case_task result" where
  "completeTask e ac caseId taskId d = (case find_unique (tasks d) taskId of
     None \<Rightarrow> throw (Not_Found STR ''Checklist item not found on this case'') d
   | Some t \<Rightarrow>
     if tk_case t \<noteq> caseId then throw (Not_Found STR ''Checklist item not found on this case'') d
     else if tk_complete t then return t d
     else
       (let t' = t\<lparr>tk_complete := True, tk_completed_at := Some (now e)\<rparr>
        in return t'
          (audit_record (Some caseId) (Some (act_id ac)) By_User STR ''case_task.completed''
             [(STR ''taskId'', J_Id taskId), (STR ''label'', J_Text (tk_label t))]
           (d\<lparr>tasks := update_row taskId (\<lambda>_. t') (tasks d)\<rparr>))))"

definition raiseException :: "actor \<Rightarrow> nat \<Rightarrow> string \<Rightarrow> string option \<Rightarrow> db \<Rightarrow> nat result" where
  "raiseException ac caseId label detail d = (case find_unique (cases d) caseId of
     None \<Rightarrow> throw (Not_Found STR ''Case not found'') d
   | Some _ \<Rightarrow>
     (let fid = t_next (risk_flags d);
          d1 = d\<lparr>risk_flags := insert_row \<lparr>kf_case = caseId, kf_label = [J_Text label],
                 kf_detail = map_option (\<lambda>s. [J_Text s]) detail, kf_raised_by = Some (act_id ac),
                 kf_resolved_at = None\<rparr> (risk_flags d)\<rparr>
      in and_then
           (assessCase caseId
             (audit_record (Some caseId) (Some (act_id ac)) By_User STR ''case.exception_raised''
                [(STR ''label'', J_Text label), (STR ''detail'', json_option J_Text detail)] d1))
           (\<lambda>_ d2. return fid d2)))"

definition completeFieldwork :: "actor \<Rightarrow> nat \<Rightarrow> db \<Rightarrow> unit result" where
  "completeFieldwork ac caseId d =
     (let evidenceCount = length (find_many (\<lambda>_ v. ev_case v = caseId) (evidences d))
      in if evidenceCount = 0
         then throw (Bad_Request STR ''Cannot submit a case with no evidence captured'') d
         else and_then (transitionCase ac caseId CS_EVIDENCE_SUBMITTED (Some ''Field agent submitted evidence'') d)
           (\<lambda>_ d1. return ()
             (audit_record (Some caseId) (Some (act_id ac)) By_User STR ''case.fieldwork_completed''
                [(STR ''evidenceCount'', J_Num (of_nat evidenceCount))] d1)))"

section \<open>Quality control\<close>

record qc_dto =
  qd_outcome :: qc_outcome
  qd_summary :: "string option"
  qd_findings :: "json option"
  qd_note :: "string option"

definition qc_eligible_statuses :: "case_status list" where
  "qc_eligible_statuses = [CS_EVIDENCE_SUBMITTED, CS_QUALITY_CONTROL]"

fun incident_severity_by_outcome :: "qc_outcome \<Rightarrow> incident_severity option" where
  "incident_severity_by_outcome QC_ESCALATE = Some IN_HIGH"
| "incident_severity_by_outcome QC_INCIDENT = Some IN_CRITICAL"
| "incident_severity_by_outcome _ = None"

text \<open>\<open>!dto.summary\<close> and \<open>!dto.note?.trim()\<close>\<close>

definition missing :: "string option \<Rightarrow> bool" where
  "missing s \<longleftrightarrow> s = None \<or> s = Some []"

definition blank_note :: "string option \<Rightarrow> bool" where
  "blank_note s \<longleftrightarrow> (case s of None \<Rightarrow> True | Some t \<Rightarrow> js_trim t = [])"

definition text_of :: "string option \<Rightarrow> string" where
  "text_of s = (case s of Some t \<Rightarrow> t | None \<Rightarrow> [])"

datatype qc_result = Qc_Report nat | Qc_Rework | Qc_Revisit nat | Qc_Incident nat

definition qc_issue_report ::
  "env \<Rightarrow> actor \<Rightarrow> nat \<Rightarrow> service_case \<Rightarrow> nat \<Rightarrow> qc_dto \<Rightarrow> db \<Rightarrow> qc_result result" where
  "qc_issue_report e ac caseId c customerUser dto d =
     (if missing (qd_summary dto)
      then throw (Bad_Request STR ''summary is required to approve and issue a report'') d
      else if qd_outcome dto = QC_PASS_WITH_LIMITATION \<and> blank_note (qd_note dto)
      then throw (Bad_Request STR ''note is required as the recorded limitation for PASS_WITH_LIMITATION'') d
      else
        (let rid = t_next (reports d);
             d1 = d\<lparr>reports := insert_row \<lparr>rp_case = caseId, rp_summary = text_of (qd_summary dto),
                    rp_findings = (case qd_findings dto of Some j \<Rightarrow> j | None \<Rightarrow> J_Object []),
                    rp_outcome = qd_outcome dto,
                    rp_limitation = (if qd_outcome dto = QC_PASS_WITH_LIMITATION then qd_note dto else None),
                    rp_reviewed_by = act_id ac, rp_reviewed_at = now e, rp_pdf_key = None\<rparr> (reports d)\<rparr>
         in and_then (transitionCase ac caseId CS_CUSTOMER_REVIEW (Some ''QC approved -- report issued'') d1)
              (\<lambda>_ d2. return (Qc_Report rid)
                (notify e customerUser STR ''Your report is ready''
                   (if qd_outcome dto = QC_PASS_WITH_LIMITATION
                    then [J_Lit STR ''The report for '', J_Text (c_number c),
                          J_Lit STR '' is ready for your review -- it includes a noted limitation, see the report for details.'']
                    else [J_Lit STR ''The report for '', J_Text (c_number c),
                          J_Lit STR '' is ready for your review -- approve it or let us know if something needs another look.''])
                   d2))))"

definition qc_rework :: "actor \<Rightarrow> nat \<Rightarrow> qc_dto \<Rightarrow> db \<Rightarrow> qc_result result" where
  "qc_rework ac caseId dto d =
     and_then (transitionCase ac caseId CS_IN_PROGRESS
         (Some (case qd_note dto of Some n \<Rightarrow> n | None \<Rightarrow> ''QC requested rework'')) d)
       (\<lambda>_ d1. and_then (assessCase caseId d1) (\<lambda>_ d2. return Qc_Rework d2))"

definition qc_revisit ::
  "env \<Rightarrow> actor \<Rightarrow> nat \<Rightarrow> service_case \<Rightarrow> nat \<Rightarrow> qc_dto \<Rightarrow> db \<Rightarrow> qc_result result" where
  "qc_revisit e ac caseId c customerUser dto d =
     (if blank_note (qd_note dto)
      then throw (Bad_Request STR ''note is required describing what the revisit needs to cover'') d
      else
        (let tid = t_next (tasks d);
             d1 = d\<lparr>tasks := insert_row \<lparr>tk_case = caseId,
                    tk_label = ''Revisit required: '' @ text_of (qd_note dto), tk_required = True,
                    tk_complete = False, tk_completed_at = None,
                    tk_sort = (case max_sort_order caseId d of Some m \<Rightarrow> m | None \<Rightarrow> 0) + 1,
                    tk_milestone = None\<rparr> (tasks d)\<rparr>
         in and_then (transitionCase ac caseId CS_IN_PROGRESS
                (Some (''QC requires a revisit -- '' @ text_of (qd_note dto))) d1)
              (\<lambda>_ d2. and_then
                (assessCase caseId
                  (notify e customerUser STR ''A follow-up site visit is needed''
                     [J_Lit STR ''Quality control found that '', J_Text (c_number c),
                      J_Lit STR '' needs another site visit before we can finish -- we've scheduled the follow-up and will keep you posted.''] d2))
                (\<lambda>_ d3. return (Qc_Revisit tid) d3))))"

definition qc_incident :: "actor \<Rightarrow> nat \<Rightarrow> qc_dto \<Rightarrow> db \<Rightarrow> qc_result result" where
  "qc_incident ac caseId dto d =
     (let iid = t_next (incidents d);
          d1 = d\<lparr>risk_flags := insert_row \<lparr>kf_case = caseId,
                 kf_label = [J_Lit STR ''QC outcome: '', J_Qc (qd_outcome dto)],
                 kf_detail = map_option (\<lambda>s. [J_Text s]) (qd_note dto), kf_raised_by = Some (act_id ac),
                 kf_resolved_at = None\<rparr> (risk_flags d),
               incidents := insert_row \<lparr>in_case = Some caseId,
                 in_severity = (case incident_severity_by_outcome (qd_outcome dto) of Some s \<Rightarrow> s | None \<Rightarrow> IN_MEDIUM),
                 in_summary = (case qd_summary dto of Some s \<Rightarrow> [J_Text s]
                   | None \<Rightarrow> [J_Lit STR ''QC '', J_Qc (qd_outcome dto), J_Lit STR '' on case'']),
                 in_detail = qd_note dto\<rparr> (incidents d)\<rparr>
      in and_then (assessCase caseId d1) (\<lambda>_ d2. return (Qc_Incident iid) d2))"

text \<open>What every outcome does first, and then the branch of the outcome.\<close>

definition qc_decision :: "actor \<Rightarrow> nat \<Rightarrow> qc_dto \<Rightarrow> db \<Rightarrow> unit result" where
  "qc_decision ac caseId dto d = recomputeAgentsForCase caseId
     (let d1 = audit_record (Some caseId) (Some (act_id ac)) By_User STR ''case.qc_performed''
                 [(STR ''outcome'', J_Qc (qd_outcome dto)), (STR ''note'', json_option J_Text (qd_note dto))] d
      in d1\<lparr>qc_reviews := insert_row \<lparr>qr_case = caseId, qr_outcome = qd_outcome dto, qr_by = act_id ac\<rparr>
           (qc_reviews d1)\<rparr>)"

definition performQc :: "env \<Rightarrow> actor \<Rightarrow> nat \<Rightarrow> qc_dto \<Rightarrow> db \<Rightarrow> qc_result result" where
  "performQc e ac caseId dto d = (case find_unique (cases d) caseId of
     None \<Rightarrow> throw (Not_Found STR ''Case not found'') d
   | Some c \<Rightarrow> included (customers d) (c_customer c) d (\<lambda>cu. included (users d) (cu_user cu) d (\<lambda>_.
     if c_status c \<notin> set qc_eligible_statuses
     then throw (Bad_Request STR ''Cannot perform QC on a case in this status'') d
     else and_then
       (if c_status c = CS_EVIDENCE_SUBMITTED
        then transitionCase ac caseId CS_QUALITY_CONTROL (Some ''QC review started'') d else return () d)
       (\<lambda>_ d1. and_then (qc_decision ac caseId dto d1) (\<lambda>_ d2.
         if qd_outcome dto \<in> {QC_APPROVED, QC_PASS_WITH_LIMITATION}
         then qc_issue_report e ac caseId c (cu_user cu) dto d2
         else if qd_outcome dto = QC_REWORK then qc_rework ac caseId dto d2
         else if qd_outcome dto = QC_REVISIT_REQUIRED then qc_revisit e ac caseId c (cu_user cu) dto d2
         else qc_incident ac caseId dto d2)))))"

section \<open>Keys belong to one case\<close>

lemma slash_not_in_decimal: "CHR ''/'' \<notin> set (decimal n)"
  using decimal_digits [of n] by (auto simp: of_char_def)

lemma takeWhile_digits: "takeWhile (\<lambda>c. c \<noteq> CHR ''/'') (decimal n @ CHR ''/'' # s) = decimal n"
  using slash_not_in_decimal [of n] by (subst takeWhile_append2) auto

lemma folder_of_key: "prefix (decimal k @ ''/'') (decimal k' @ CHR ''/'' # s) \<longleftrightarrow> k = k'"
proof
  assume "prefix (decimal k @ ''/'') (decimal k' @ CHR ''/'' # s)"
  then obtain r where "decimal k' @ CHR ''/'' # s = decimal k @ CHR ''/'' # r" by (auto simp: prefix_def)
  then have "decimal k' = decimal k" using takeWhile_digits by metis
  then show "k = k'" using read_decimal_decimal by metis
qed (simp add: prefix_def)

lemma issued_for_key [simp]: "issued_for k (createKey uuid (evidence_folder k') f) \<longleftrightarrow> k = k'"
  using folder_of_key by (simp add: issued_for_def createKey_def evidence_folder_def evidence_key_prefix_def)

section \<open>Effect on the lifecycle of the cases\<close>

lemma lifecycle_tables':
  "lifecycle d d' \<Longrightarrow> lifecycle d (d'\<lparr>evidences := v\<rparr>)" "lifecycle d d' \<Longrightarrow> lifecycle d (d'\<lparr>risk_flags := f\<rparr>)"
  "lifecycle d d' \<Longrightarrow> lifecycle d (d'\<lparr>risk_flags := f, incidents := i\<rparr>)"
  "lifecycle d d' \<Longrightarrow> lifecycle d (d'\<lparr>reports := r\<rparr>)" "lifecycle d d' \<Longrightarrow> lifecycle d (d'\<lparr>qc_reviews := q\<rparr>)"
  "lifecycle d d' \<Longrightarrow> lifecycle d (d'\<lparr>tasks := t\<rparr>)"
  by (erule lifecycle_trans, rule lifecycle_frame; simp add: audit_extends_def)+

lemma lifecycle_then_assess: "lifecycle d d' \<Longrightarrow> lifecycle d (snd (assessCase k d'))"
  by (erule lifecycle_trans) (rule lifecycle_assessCase)

lemma lifecycle_then_recompute: "lifecycle d d' \<Longrightarrow> lifecycle d (snd (recomputeAgentsForCase k d'))"
  by (erule lifecycle_trans) (rule lifecycle_recompute)

lemma lifecycle_transcribe: "lifecycle d d' \<Longrightarrow> lifecycle d (transcribeEvidence e i d')"
  by (auto simp: transcribeEvidence_def intro: lifecycle_tables' split: option.split)

lemmas lifecycle_evidence_writes = lifecycle_field_writes lifecycle_tables' lifecycle_then_assess
  lifecycle_then_recompute lifecycle_transcribe

lemma lifecycle_submitEvidence: "lifecycle d (snd (submitEvidence e ac k dto d))"
  by (auto simp: submitEvidence_def Let_def intro!: lifecycle_evidence_writes split: option.split)

lemma lifecycle_completeTask: "lifecycle d (snd (completeTask e ac k t d))"
  by (auto simp: completeTask_def Let_def intro!: lifecycle_evidence_writes split: option.split)

lemma lifecycle_raiseException: "lifecycle d (snd (raiseException ac k label detail d))"
  by (auto simp: raiseException_def Let_def intro!: lifecycle_evidence_writes split: option.split)

lemma lifecycle_completeFieldwork: "lifecycle d (snd (completeFieldwork ac k d))"
  by (auto simp: completeFieldwork_def Let_def intro!: lifecycle_evidence_writes)

lemma lifecycle_qc_branches:
  "lifecycle d (snd (qc_issue_report e ac k c u dto d))" "lifecycle d (snd (qc_rework ac k dto d))"
  "lifecycle d (snd (qc_revisit e ac k c u dto d))" "lifecycle d (snd (qc_incident ac k dto d))"
  "lifecycle d (snd (qc_decision ac k dto d))"
  unfolding qc_issue_report_def qc_rework_def qc_revisit_def qc_incident_def qc_decision_def Let_def
  by (auto intro!: lifecycle_evidence_writes)

lemma lifecycle_performQc: "lifecycle d (snd (performQc e ac k dto d))"
proof (cases "find_unique (cases d) k")
  case (Some c)
  have branch: "lifecycle d1 (snd (and_then (qc_decision ac k dto d1) f))"
    if "\<And>d2. lifecycle d2 (snd (f () d2))" for d1 f
    using that lifecycle_qc_branches(5) by (intro lifecycle_and_then) auto
  have start: "lifecycle d (snd (and_then (transitionCase ac k s r d) g))"
    if "\<And>d1. lifecycle d1 (snd (g () d1))" for s r g
    using that by (intro lifecycle_and_then) auto
  show ?thesis
    unfolding performQc_def Some included_def option.case
    by (auto simp: lifecycle_qc_branches intro!: start branch split: option.split)
qed (simp add: performQc_def)

section \<open>The outcome of a quality control\<close>

lemma moved_field_frame [simp]:
  "assignments (moved k from s reason a ty d) = assignments d" "agents (moved k from s reason a ty d) = agents d"
  "tasks (moved k from s reason a ty d) = tasks d" "reports (moved k from s reason a ty d) = reports d"
  "incidents (moved k from s reason a ty d) = incidents d" "qc_reviews (moved k from s reason a ty d) = qc_reviews d"
  "risk_flags (moved k from s reason a ty d) = risk_flags d" "evidences (moved k from s reason a ty d) = evidences d"
  by (simp_all add: moved_def add_history_def)

definition case_status_of :: "nat \<Rightarrow> db \<Rightarrow> case_status option" where
  "case_status_of k d = map_option c_status (find_unique (cases d) k)"

lemma assessCase_total:
  assumes "find_unique (cases d) k = Some c" "find_unique (customers d) (c_customer c) = Some cu"
  shows "\<exists>a d'. assessCase k d = (Inr a, d') \<and> case_status_of k d' = case_status_of k d \<and> reports d' = reports d
    \<and> incidents d' = incidents d \<and> tasks d' = tasks d \<and> qc_reviews d' = qc_reviews d"
  using assms by (simp add: assessCase_def Let_def case_status_of_def) (simp add: flag_high_risk_def)

lemma recomputeAgents_total:
  assumes "\<forall>i \<in> set (case_field_agents k d). find_unique (agents d) i \<noteq> None"
  shows "\<exists>t. recomputeAgentsForCase k d = (Inr (), d\<lparr>agents := t\<rparr>)"
proof -
  from recompute_each_current [OF assms] obtain ts d' where r: "recompute_each (case_field_agents k d) d = (Inr ts, d')" by blast
  moreover obtain t where "snd (recompute_each (case_field_agents k d) d) = d\<lparr>agents := t\<rparr>"
    using recompute_each_state by blast
  ultimately have "recomputeAgentsForCase k d = (Inr (), d\<lparr>agents := t\<rparr>)" by (simp add: recomputeAgentsForCase_def)
  then show ?thesis by blast
qed

text \<open>Everything before the branch succeeds: the case is in quality control and the review on file.\<close>

definition qc_branch :: "env \<Rightarrow> actor \<Rightarrow> nat \<Rightarrow> service_case \<Rightarrow> nat \<Rightarrow> qc_dto \<Rightarrow> db \<Rightarrow> qc_result result" where
  "qc_branch e ac k c u dto d = (if qd_outcome dto \<in> {QC_APPROVED, QC_PASS_WITH_LIMITATION}
         then qc_issue_report e ac k c u dto d
         else if qd_outcome dto = QC_REWORK then qc_rework ac k dto d
         else if qd_outcome dto = QC_REVISIT_REQUIRED then qc_revisit e ac k c u dto d
         else qc_incident ac k dto d)"

lemma performQc_branch:
  assumes c: "find_unique (cases d) k = Some c" "c_status c \<in> set qc_eligible_statuses"
    and cu: "find_unique (customers d) (c_customer c) = Some cu" "find_unique (users d) (cu_user cu) = Some u"
    and ag: "\<forall>i \<in> set (case_field_agents k d). find_unique (agents d) i \<noteq> None"
  obtains d2 where "performQc e ac k dto d = qc_branch e ac k c (cu_user cu) dto d2"
    "find_unique (cases d2) k = Some (c\<lparr>c_status := CS_QUALITY_CONTROL\<rparr>)" "customers d2 = customers d"
    "tasks d2 = tasks d" "reports d2 = reports d" "incidents d2 = incidents d"
    "qc_reviews d2 = insert_row \<lparr>qr_case = k, qr_outcome = qd_outcome dto, qr_by = act_id ac\<rparr> (qc_reviews d)"
proof -
  define d1 where "d1 = (if c_status c = CS_EVIDENCE_SUBMITTED
    then moved k CS_EVIDENCE_SUBMITTED CS_QUALITY_CONTROL (Some ''QC review started'') (Some (act_id ac)) By_User d else d)"
  have start: "(if c_status c = CS_EVIDENCE_SUBMITTED then transitionCase ac k CS_QUALITY_CONTROL (Some ''QC review started'') d
      else return () d) = (Inr (), d1)"
    by (simp add: d1_def transition_only applyTransition_edge [OF c(1)])
  have d1: "find_unique (cases d1) k = Some (c\<lparr>c_status := CS_QUALITY_CONTROL\<rparr>)" "customers d1 = customers d"
    "tasks d1 = tasks d" "reports d1 = reports d" "incidents d1 = incidents d" "qc_reviews d1 = qc_reviews d"
    "assignments d1 = assignments d" "agents d1 = agents d"
    using c by (auto simp: d1_def qc_eligible_statuses_def)
  have "\<forall>i \<in> set (case_field_agents k (d1\<lparr>audit_log := x, qc_reviews := y\<rparr>)). find_unique (agents (d1\<lparr>audit_log := x, qc_reviews := y\<rparr>)) i \<noteq> None" for x y
    using ag by (simp add: case_field_agents_def d1)
  from recomputeAgents_total [OF this] obtain t where
    t: "qc_decision ac k dto d1 = (Inr (), d1\<lparr>audit_log := audit_log (audit_record (Some k) (Some (act_id ac)) By_User STR ''case.qc_performed''
                 [(STR ''outcome'', J_Qc (qd_outcome dto)), (STR ''note'', json_option J_Text (qd_note dto))] d1),
        qc_reviews := insert_row \<lparr>qr_case = k, qr_outcome = qd_outcome dto, qr_by = act_id ac\<rparr> (qc_reviews d1), agents := t\<rparr>)"
    unfolding qc_decision_def Let_def audit_record_def by force
  show thesis
    by (rule that [OF _ _ _ _ _ _ _, of "snd (qc_decision ac k dto d1)"])
       (use c cu d1 in \<open>simp_all add: performQc_def start t qc_branch_def\<close>)
qed

text \<open>The branches that assess the risk of the case, from a case in quality control.\<close>

lemma qc_rework_effect:
  assumes "find_unique (cases d) k = Some c" "c_status c = CS_QUALITY_CONTROL" "find_unique (customers d) (c_customer c) = Some cu"
  shows "\<exists>d'. qc_rework ac k dto d = (Inr Qc_Rework, d') \<and> case_status_of k d' = Some CS_IN_PROGRESS \<and> qc_reviews d' = qc_reviews d"
proof -
  let ?d1 = "moved k CS_QUALITY_CONTROL CS_IN_PROGRESS (Some (case qd_note dto of Some n \<Rightarrow> n | None \<Rightarrow> ''QC requested rework'')) (Some (act_id ac)) By_User d"
  obtain a d' where "assessCase k ?d1 = (Inr a, d')" "case_status_of k d' = Some CS_IN_PROGRESS" "qc_reviews d' = qc_reviews d"
    using assessCase_total [of ?d1 k "c\<lparr>c_status := CS_IN_PROGRESS\<rparr>" cu] assms by (auto simp: case_status_of_def)
  then show ?thesis using assms(2) by (simp add: qc_rework_def transition_only applyTransition_edge [OF assms(1)])
qed

lemma qc_revisit_effect:
  assumes "find_unique (cases d) k = Some c" "c_status c = CS_QUALITY_CONTROL" "find_unique (customers d) (c_customer c) = Some cu"
    and "wf_table (tasks d)" "\<not> blank_note (qd_note dto)"
  shows "\<exists>i d' t. qc_revisit e ac k c0 u dto d = (Inr (Qc_Revisit i), d') \<and> case_status_of k d' = Some CS_IN_PROGRESS
    \<and> qc_reviews d' = qc_reviews d \<and> find_unique (tasks d') i = Some t \<and> tk_case t = k \<and> tk_required t \<and> \<not> tk_complete t"
proof -
  let ?t = "\<lparr>tk_case = k, tk_label = ''Revisit required: '' @ text_of (qd_note dto), tk_required = True, tk_complete = False,
      tk_completed_at = None, tk_sort = (case max_sort_order k d of Some m \<Rightarrow> m | None \<Rightarrow> 0) + 1, tk_milestone = None\<rparr>"
  let ?why = "Some (''QC requires a revisit -- '' @ text_of (qd_note dto))"
  let ?d1 = "notify e u STR ''A follow-up site visit is needed''
      [J_Lit STR ''Quality control found that '', J_Text (c_number c0),
       J_Lit STR '' needs another site visit before we can finish -- we've scheduled the follow-up and will keep you posted.'']
      (moved k CS_QUALITY_CONTROL CS_IN_PROGRESS ?why (Some (act_id ac)) By_User (d\<lparr>tasks := insert_row ?t (tasks d)\<rparr>))"
  obtain a d' where "assessCase k ?d1 = (Inr a, d')" "case_status_of k d' = Some CS_IN_PROGRESS" "qc_reviews d' = qc_reviews d"
    "tasks d' = insert_row ?t (tasks d)"
    using assessCase_total [of ?d1 k "c\<lparr>c_status := CS_IN_PROGRESS\<rparr>" cu] assms(1-3) by (auto simp: case_status_of_def)
  moreover have "applyTransition k CS_IN_PROGRESS ?why (Some (act_id ac)) By_User (d\<lparr>tasks := insert_row ?t (tasks d)\<rparr>)
      = (Inr (), moved k CS_QUALITY_CONTROL CS_IN_PROGRESS ?why (Some (act_id ac)) By_User (d\<lparr>tasks := insert_row ?t (tasks d)\<rparr>))"
    using applyTransition_edge [of "d\<lparr>tasks := insert_row ?t (tasks d)\<rparr>" k c CS_IN_PROGRESS] assms(1,2) by simp
  ultimately show ?thesis using assms(4,5) by (simp add: qc_revisit_def Let_def transition_only)
qed

lemma qc_incident_effect:
  assumes "find_unique (cases d) k = Some c" "c_status c = CS_QUALITY_CONTROL" "find_unique (customers d) (c_customer c) = Some cu"
    and "wf_table (incidents d)"
  shows "\<exists>i d' x. qc_incident ac k dto d = (Inr (Qc_Incident i), d') \<and> case_status_of k d' = Some CS_QUALITY_CONTROL
    \<and> qc_reviews d' = qc_reviews d \<and> find_unique (incidents d') i = Some x \<and> in_case x = Some k
    \<and> in_severity x = (case incident_severity_by_outcome (qd_outcome dto) of Some s \<Rightarrow> s | None \<Rightarrow> IN_MEDIUM)"
proof -
  have "\<exists>a d'. assessCase k (d\<lparr>risk_flags := f, incidents := i\<rparr>) = (Inr a, d') \<and> case_status_of k d' = Some CS_QUALITY_CONTROL
      \<and> incidents d' = i \<and> qc_reviews d' = qc_reviews d" for f i
    using assessCase_total [of "d\<lparr>risk_flags := f, incidents := i\<rparr>" k c cu] assms(1-3) by (auto simp: case_status_of_def)
  note assess = this
  define f where "f = insert_row \<lparr>kf_case = k, kf_label = [J_Lit STR ''QC outcome: '', J_Qc (qd_outcome dto)],
      kf_detail = map_option (\<lambda>s. [J_Text s]) (qd_note dto), kf_raised_by = Some (act_id ac), kf_resolved_at = None\<rparr> (risk_flags d)"
  define x where "x = \<lparr>in_case = Some k,
      in_severity = (case incident_severity_by_outcome (qd_outcome dto) of Some s \<Rightarrow> s | None \<Rightarrow> IN_MEDIUM),
      in_summary = (case qd_summary dto of Some s \<Rightarrow> [J_Text s]
        | None \<Rightarrow> [J_Lit STR ''QC '', J_Qc (qd_outcome dto), J_Lit STR '' on case'']), in_detail = qd_note dto\<rparr>"
  from assess [where f = f and i = "insert_row x (incidents d)"] obtain a d' where
    d': "assessCase k (d\<lparr>risk_flags := f, incidents := insert_row x (incidents d)\<rparr>) = (Inr a, d')"
      "case_status_of k d' = Some CS_QUALITY_CONTROL" "incidents d' = insert_row x (incidents d)" "qc_reviews d' = qc_reviews d" by blast
  have "qc_incident ac k dto d = (Inr (Qc_Incident (t_next (incidents d))), d')"
    using d'(1) by (simp add: qc_incident_def Let_def flip: f_def x_def)
  moreover have "find_unique (incidents d') (t_next (incidents d)) = Some x" using d'(3) assms(4) by simp
  ultimately show ?thesis using d'(2,4) by (simp add: x_def)
qed

section \<open>Submitting evidence\<close>

definition same_submission :: "nat \<Rightarrow> string \<Rightarrow> nat \<Rightarrow> evidence \<Rightarrow> bool" where
  "same_submission k r _ v \<longleftrightarrow> ev_case v = k \<and> ev_client_request v = Some r"

lemma replayed_keyed:
  "ed_client_request dto = Some r \<Longrightarrow> r \<noteq> [] \<Longrightarrow>
     replayed k dto d = map_option fst (find_first (same_submission k r) (evidences d))"
  by (simp add: replayed_def same_submission_def [abs_def])

lemma find_first_transcribed:
  "map_option fst (find_first (same_submission k r) (evidences (transcribeEvidence e i d)))
     = map_option fst (find_first (same_submission k r) (evidences d))"
proof -
  have upd: "map_option fst (find_first (same_submission k r) (update_row i f t)) = map_option fst (find_first (same_submission k r) t)"
    if "\<And>v. ev_case (f v) = ev_case v \<and> ev_client_request (f v) = ev_client_request v" for f t
    unfolding update_row_def using that
    by (subst find_first_update_many) (auto simp: same_submission_def option.map_comp comp_def case_prod_unfold)
  show ?thesis
    by (auto simp: transcribeEvidence_def upd split: option.split)
qed

text \<open>Every way a submission ends.\<close>

lemma submitEvidence_cases:
  obtains (replay) i where "replayed k dto d = Some i" "submitEvidence e ac k dto d = (Inr i, d)"
  | (refused) err where "replayed k dto d = None" "submitEvidence e ac k dto d = (Inl err, d)"
  | (stored) d1 where "replayed k dto d = None" "issued_for k (ed_storage_key dto)" "object_exists e (ed_storage_key dto)"
      "case_status_of k d = Some CS_IN_PROGRESS"
      "submitEvidence e ac k dto d = (Inr (t_next (evidences d)),
         if ed_type dto = ET_VOICE then transcribeEvidence e (t_next (evidences d)) d1 else d1)"
      "evidences d1 = insert_row (new_evidence e ac k dto) (evidences d)"
proof (cases "replayed k dto d")
  case (Some i)
  then show thesis by (intro replay) (simp_all add: submitEvidence_def)
next
  case None
  show thesis
  proof (cases "\<exists>err. submitEvidence e ac k dto d = (Inl err, d)")
    case True
    with None refused show thesis by blast
  next
    case False
    then show thesis using None
      by (intro stored [where ?d1.0 = "audit_record (Some k) (Some (act_id ac)) By_User STR ''evidence.submitted''
            [(STR ''evidenceId'', J_Id (t_next (evidences d))), (STR ''type'', J_Evidence (ed_type dto))]
            (d\<lparr>evidences := insert_row (new_evidence e ac k dto) (evidences d)\<rparr>)"])
        (auto simp: submitEvidence_def case_status_of_def Let_def split: option.splits if_splits)
  qed
qed

end
