(* ===== verification/Field_Properties.thy ===== *)
theory Field_Properties
  imports Sample Evidence
begin

text \<open>
  Properties of fieldwork: the check-in, the evidence an agent submits, quality control, and the
  two scores computed from them, the risk level of a case and the tier of an agent.
\<close>

section \<open>A database in the field\<close>

definition field_agent :: agent where
  "field_agent = \<lparr>ag_user = 1, ag_name = ''Bola'', ag_active = True, ag_score = Some 5, ag_tier = TI_BRONZE, ag_pass_rate = None,
    ag_city = None, ag_state = None\<rparr>"

definition site :: place where
  "site = \<lparr>pl_customer = 1, pl_latitude = Some 6, pl_longitude = Some 3, pl_details = []\<rparr>"

definition field_assignment :: assignment where
  "field_assignment = \<lparr>as_case = 1, as_role = AR_FIELD_AGENT, as_agent = Some 1, as_provider = None, as_status = AS_ACCEPTED,
     as_scheduled_for = None, as_accepted_at = Some 10, as_check_in_at = None, as_location = None, as_accuracy = None,
     as_geofence = None, as_distance = None, as_completed_at = None, as_created = 5\<rparr>"

definition field_case :: "case_status \<Rightarrow> service_case" where
  "field_case s = (sample_case s)\<lparr>c_property := Some 1\<rparr>"

definition field_db :: "case_status \<Rightarrow> db" where
  "field_db s = (sample_db s)\<lparr>cases := rows [field_case s], agents := rows [field_agent],
     assignments := rows [field_assignment], properties := rows [site]\<rparr>"

lemma field_rows [simp]:
  "find_unique (cases (field_db s)) k = (if k = 1 then Some (field_case s) else None)"
  "find_unique (customers (field_db s)) k = (if k = 1 then Some sample_customer else None)"
  "find_unique (assignments (field_db s)) k = (if k = 1 then Some field_assignment else None)"
  "find_unique (agents (field_db s)) k = (if k = 1 then Some field_agent else None)"
  "find_unique (properties (field_db s)) k = (if k = 1 then Some site else None)"
  by (simp_all add: field_db_def field_case_def sample_defs insert_rows_def insert_row_def find_unique_def empty_table_def)

lemma field_columns [simp]:
  "as_case field_assignment = 1" "c_status (field_case s) = s" "c_customer (field_case s) = 1" "cu_user sample_customer = 1"
  by (simp_all add: field_case_def sample_defs field_assignment_def)

section \<open>Check-in\<close>

text \<open>The distance a check-in is judged by behaves like one: it is zero from a point to itself, symmetric, never
  negative nor longer than half the equator, and along a meridian it is the length of the arc.\<close>

theorem distance_sound:
  assumes "fst a \<in> {-90..90}" "fst b \<in> {-90..90}"
  shows "0 \<le> haversineDistanceMeters a b \<and> haversineDistanceMeters a b \<le> pi * earth_radius_meters
    \<and> haversineDistanceMeters a b = haversineDistanceMeters b a \<and> haversineDistanceMeters a a = 0
    \<and> (snd a = snd b \<longrightarrow> haversineDistanceMeters a b = earth_radius_meters * \<bar>toRad (fst b - fst a)\<bar>)"
proof -
  have "haversineDistanceMeters a b = earth_radius_meters * \<bar>toRad (fst b - fst a)\<bar>" if "snd a = snd b"
    using that assms distance_meridian [of "fst b" "fst a" "snd a"] by (cases a; cases b) (auto simp: abs_le_iff)
  then show ?thesis using distance_bounds [OF assms] distance_commute [of a b] by simp
qed

theorem distance_sound_witness:
  "haversineDistanceMeters (6, 3) (7, 3) = earth_radius_meters * (pi / 180) \<and> haversineDistanceMeters (7, 3) (6, 3) = earth_radius_meters * (pi / 180)"
  using distance_sound [of "(6, 3)" "(7, 3)"] by (simp add: toRad_def)

text \<open>C23. A check-in on an accepted assignment of one's own is judged by the position alone: without coordinates, or
  without a position on file for the case, it is recorded as unverified whatever the place; coordinates that are malformed,
  imprecise or old, or farther than the radius from the place on file, are refused, with one audit event and nothing else
  written; all others are recorded as a pass.\<close>

theorem check_in_exact:
  assumes "find_unique (assignments d) aid = Some a" "find_unique (cases d) (as_case a) = Some c" "owns_assignment ac a d"
    and "as_status a = AS_ACCEPTED" and i: "i = check_in_input loc (target_place (as_case a) d)"
  shows "if gi_lat i \<noteq> None \<and> gi_lng i \<noteq> None \<and> (\<not> usable (now e) i \<or> (\<exists>m. distance_to_target i = Some m \<and> 150 < m))
     then \<exists>err d' x. checkIn e ac aid loc d = (Inl err, d') \<and> http_status err \<in> {400, 403, 422} \<and> assignments d' = assignments d
       \<and> cases d' = cases d \<and> t_rows (audit_log d') = t_rows (audit_log d) @ [x]
     else \<exists>d'. checkIn e ac aid loc d = (Inr (), d') \<and> cases d' = cases d
       \<and> find_unique (assignments d') aid = Some (a\<lparr>as_check_in_at := Some (now e), as_location := loc, as_accuracy := gi_accuracy i,
           as_geofence := Some (if distance_to_target i = None then UNVERIFIED else PASS),
           as_distance := map_option round_meters (distance_to_target i)\<rparr>)"
proof -
  have own: "requireOwnedAssignment ac aid d = (Inr (a, c), d)" using assms by simp
  have r: "radius i = 150" by (simp add: radius_def i check_in_input_def default_geofence_radius_meters_def)
  have status: "http_status (check_in_error x) \<in> {400, 403, 422}" for x
    by (simp add: check_in_error_def Let_def)
  show ?thesis
  proof (cases "gr_outcome (evaluateCheckIn (now e) i) = REJECTED")
    case True
    then have "gi_lat i \<noteq> None \<and> gi_lng i \<noteq> None \<and> (\<not> usable (now e) i \<or> (\<exists>m. distance_to_target i = Some m \<and> 150 < m))"
      by (simp add: verdict r)
    then show ?thesis using True status assms(4)
      by (simp add: own checkIn_def Let_def flip: i)
  next
    case False
    then have no: "\<not> (gi_lat i \<noteq> None \<and> gi_lng i \<noteq> None \<and> (\<not> usable (now e) i \<or> (\<exists>m. distance_to_target i = Some m \<and> 150 < m)))"
      using verdict(2) [of "now e" i] by (auto simp: r)
    have res: "gr_outcome (evaluateCheckIn (now e) i) = (if distance_to_target i = None then UNVERIFIED else PASS)"
      "gr_distance (evaluateCheckIn (now e) i) = map_option round_meters (distance_to_target i)"
      using False by (auto simp: evaluateCheckIn_def distance_to_target_def Let_def split: option.splits if_splits)
    have acc: "Option.bind loc lo_accuracy = gi_accuracy i" by (simp add: i check_in_input_def)
    show ?thesis unfolding if_not_P [OF no]
      using False assms(1,4) by (simp add: own checkIn_def Let_def acc res flip: i)
  qed
qed

theorem check_in_exact_witness:
  "\<exists>d'. checkIn sample_env client 1 (Some \<lparr>lo_lat = Some 6, lo_lng = Some 3, lo_accuracy = Some 10, lo_captured = Some (Captured 990)\<rparr>)
      (field_db CS_IN_PROGRESS) = (Inr (), d') \<and> map_option as_geofence (find_unique (assignments d') 1) = Some (Some PASS)"
proof -
  let ?loc = "Some \<lparr>lo_lat = Some 6, lo_lng = Some 3, lo_accuracy = Some 10, lo_captured = Some (Captured 990)\<rparr>"
  let ?i = "check_in_input ?loc (target_place 1 (field_db CS_IN_PROGRESS))"
  have i: "?i = \<lparr>gi_lat = Some 6, gi_lng = Some 3, gi_accuracy = Some 10, gi_captured = Some (Captured 990),
      gi_target_lat = Some 6, gi_target_lng = Some 3, gi_radius = None\<rparr>"
    by (simp add: check_in_input_def target_place_def field_case_def site_def)
  have u: "usable (now sample_env) ?i" "distance_to_target ?i = Some 0"
    unfolding i by (simp_all add: usable_def distance_to_target_def validateCoordinates_def validateAccuracy_def validateLocationAge_def
        max_accuracy_meters_def max_location_age_ms_def sample_env_def)
  have "owns_assignment client field_assignment (field_db CS_IN_PROGRESS)"
    by (simp add: owns_assignment_def field_assignment_def client_def) (simp add: field_agent_def)
  with check_in_exact [where d = "field_db CS_IN_PROGRESS" and aid = 1 and a = field_assignment and ac = client
      and c = "field_case CS_IN_PROGRESS" and loc = ?loc and e = sample_env, OF _ _ _ _ refl] u
  show ?thesis by (auto simp: field_assignment_def)
qed

section \<open>Quality control\<close>

text \<open>C24. What a quality control does to a case in review: an approval issues a report with the summary given, and the limitation
  where it passes with one, and hands the case to the customer, a rework sends it back to the field, a revisit does so with
  a new required task, an escalation or an incident, and nothing else, files an incident of its severity and leaves the
  case in quality control. It is refused exactly when the text its outcome needs is missing; then no report, task or
  incident is made, but the case has entered quality control all the same and the review counts in the agents' records.\<close>

theorem qc_exact:
  assumes "find_unique (cases d) k = Some c" "c_status c \<in> {CS_EVIDENCE_SUBMITTED, CS_QUALITY_CONTROL}"
    and "find_unique (customers d) (c_customer c) = Some cu" "find_unique (users d) (cu_user cu) = Some u"
    and "\<forall>i \<in> set (case_field_agents k d). find_unique (agents d) i \<noteq> None"
    and wf: "wf_table (reports d)" "wf_table (tasks d)" "wf_table (incidents d)"
  shows "\<exists>r d'. performQc e ac k dto d = (r, d')
    \<and> map snd (t_rows (qc_reviews d')) = map snd (t_rows (qc_reviews d)) @ [\<lparr>qr_case = k, qr_outcome = qd_outcome dto, qr_by = act_id ac\<rparr>]
    \<and> (isl r \<longleftrightarrow> qd_outcome dto \<in> {QC_APPROVED, QC_PASS_WITH_LIMITATION} \<and> missing (qd_summary dto)
         \<or> qd_outcome dto \<in> {QC_PASS_WITH_LIMITATION, QC_REVISIT_REQUIRED} \<and> blank_note (qd_note dto))
    \<and> (case r of
         Inl err \<Rightarrow> http_status err = 400 \<and> case_status_of k d' = Some CS_QUALITY_CONTROL
           \<and> reports d' = reports d \<and> tasks d' = tasks d \<and> incidents d' = incidents d
       | Inr (Qc_Report i) \<Rightarrow> qd_outcome dto \<in> {QC_APPROVED, QC_PASS_WITH_LIMITATION} \<and> case_status_of k d' = Some CS_CUSTOMER_REVIEW
           \<and> (\<exists>x. find_unique (reports d') i = Some x \<and> rp_case x = k \<and> rp_outcome x = qd_outcome dto
              \<and> Some (rp_summary x) = qd_summary dto \<and> rp_reviewed_by x = act_id ac
              \<and> rp_limitation x = (if qd_outcome dto = QC_PASS_WITH_LIMITATION then qd_note dto else None))
       | Inr Qc_Rework \<Rightarrow> qd_outcome dto = QC_REWORK \<and> case_status_of k d' = Some CS_IN_PROGRESS
       | Inr (Qc_Revisit i) \<Rightarrow> qd_outcome dto = QC_REVISIT_REQUIRED \<and> case_status_of k d' = Some CS_IN_PROGRESS
           \<and> (\<exists>t. find_unique (tasks d') i = Some t \<and> tk_case t = k \<and> tk_required t \<and> \<not> tk_complete t)
       | Inr (Qc_Incident i) \<Rightarrow> qd_outcome dto \<in> {QC_ESCALATE, QC_INCIDENT}
           \<and> case_status_of k d' = Some CS_QUALITY_CONTROL \<and> (\<exists>x. find_unique (incidents d') i = Some x
           \<and> in_case x = Some k \<and> in_severity x = (if qd_outcome dto = QC_ESCALATE then IN_HIGH else IN_CRITICAL)))"
proof -
  have elig: "c_status c \<in> set qc_eligible_statuses" using assms(2) by (simp add: qc_eligible_statuses_def)
  from performQc_branch [OF assms(1) elig assms(3-5), of e ac dto] obtain d2 where
    q: "performQc e ac k dto d = qc_branch e ac k c (cu_user cu) dto d2"
    and d2: "find_unique (cases d2) k = Some (c\<lparr>c_status := CS_QUALITY_CONTROL\<rparr>)" "customers d2 = customers d"
      "tasks d2 = tasks d" "reports d2 = reports d" "incidents d2 = incidents d"
      "qc_reviews d2 = insert_row \<lparr>qr_case = k, qr_outcome = qd_outcome dto, qr_by = act_id ac\<rparr> (qc_reviews d)" .
  let ?c2 = "c\<lparr>c_status := CS_QUALITY_CONTROL\<rparr>"
  have c2: "c_status ?c2 = CS_QUALITY_CONTROL" "find_unique (customers d2) (c_customer ?c2) = Some cu" using d2(2) assms(3) by simp_all
  show ?thesis
  proof (cases "qd_outcome dto")
    case QC_REWORK
    from qc_rework_effect [OF d2(1) c2, of ac dto] obtain d' where "qc_rework ac k dto d2 = (Inr Qc_Rework, d')"
      "case_status_of k d' = Some CS_IN_PROGRESS" "qc_reviews d' = qc_reviews d2" by blast
    with QC_REWORK d2(6) show ?thesis by (simp add: q qc_branch_def)
  next
    case QC_REVISIT_REQUIRED
    show ?thesis
    proof (cases "blank_note (qd_note dto)")
      case True
      with QC_REVISIT_REQUIRED d2 show ?thesis by (simp add: q qc_branch_def qc_revisit_def case_status_of_def)
    next
      case False
      from qc_revisit_effect [OF d2(1) c2 _ False, where e = e and ac = ac and ?c0.0 = c and u = "cu_user cu"] wf(2) d2(3) obtain i d' x where
        "qc_revisit e ac k c (cu_user cu) dto d2 = (Inr (Qc_Revisit i), d')" "case_status_of k d' = Some CS_IN_PROGRESS"
        "qc_reviews d' = qc_reviews d2" "find_unique (tasks d') i = Some x" "tk_case x = k" "tk_required x" "\<not> tk_complete x" by auto
      with QC_REVISIT_REQUIRED False d2(6) show ?thesis by (simp add: q qc_branch_def)
    qed
  next
    case QC_ESCALATE
    from qc_incident_effect [OF d2(1) c2, where dto = dto and ac = ac] d2(5) wf(3) obtain i d' x where
      "qc_incident ac k dto d2 = (Inr (Qc_Incident i), d')" "case_status_of k d' = Some CS_QUALITY_CONTROL" "qc_reviews d' = qc_reviews d2"
      "find_unique (incidents d') i = Some x" "in_case x = Some k" "in_severity x = IN_HIGH" by (auto simp: QC_ESCALATE)
    with QC_ESCALATE d2(6) show ?thesis by (simp add: q qc_branch_def)
  next
    case QC_INCIDENT
    from qc_incident_effect [OF d2(1) c2, where dto = dto and ac = ac] d2(5) wf(3) obtain i d' x where
      "qc_incident ac k dto d2 = (Inr (Qc_Incident i), d')" "case_status_of k d' = Some CS_QUALITY_CONTROL" "qc_reviews d' = qc_reviews d2"
      "find_unique (incidents d') i = Some x" "in_case x = Some k" "in_severity x = IN_CRITICAL" by (auto simp: QC_INCIDENT)
    with QC_INCIDENT d2(6) show ?thesis by (simp add: q qc_branch_def)
  qed (use d2 wf in \<open>auto simp: q qc_branch_def qc_issue_report_def applyTransition_edge transition_only case_status_of_def Let_def
      text_of_def missing_def\<close>)
qed

theorem qc_exact_witness:
  "\<exists>r d'. performQc sample_env manager 1 \<lparr>qd_outcome = QC_APPROVED, qd_summary = None, qd_findings = None, qd_note = None\<rparr>
      (field_db CS_EVIDENCE_SUBMITTED) = (r, d') \<and> isl r \<and> length (t_rows (qc_reviews d')) = Suc (length (t_rows (qc_reviews (field_db CS_EVIDENCE_SUBMITTED))))"
proof -
  let ?d = "field_db CS_EVIDENCE_SUBMITTED"
  have "find_unique (users ?d) 1 = Some (sample_user R_CUSTOMER)" "wf_table (reports ?d)" "wf_table (tasks ?d)" "wf_table (incidents ?d)"
    by (simp_all add: field_db_def sample_defs insert_rows_def insert_row_def find_unique_def empty_table_def wf_table_def)
  moreover have "case_field_agents 1 ?d = [1]" by code_simp
  ultimately show ?thesis
    using qc_exact [of ?d 1 "field_case CS_EVIDENCE_SUBMITTED" sample_customer "sample_user R_CUSTOMER" sample_env manager
      "\<lparr>qd_outcome = QC_APPROVED, qd_summary = None, qd_findings = None, qd_note = None\<rparr>"]
    by (auto simp: missing_def dest: arg_cong [where f = length])
qed

section \<open>Evidence\<close>

text \<open>The offline queue may send a submission again: once it has been accepted under a client request id, any
  later submission for the case under that id answers with the same evidence and writes nothing, whatever has happened to
  the case meanwhile and whoever sends it.\<close>

theorem evidence_once:
  assumes "submitEvidence e ac k dto d = (Inr i, d1)" "ed_client_request dto = Some r" "r \<noteq> []"
    and "ed_client_request again = Some r" "evidences d2 = evidences d1"
  shows "submitEvidence e' ac' k again d2 = (Inr i, d2)"
proof -
  have "map_option fst (find_first (same_submission k r) (evidences d1)) = Some i"
  proof (rule submitEvidence_cases [where k = k and dto = dto and d = d and e = e and ac = ac])
    fix dx
    assume stored: "replayed k dto d = None" "submitEvidence e ac k dto d = (Inr (t_next (evidences d)),
         if ed_type dto = ET_VOICE then transcribeEvidence e (t_next (evidences d)) dx else dx)"
      "evidences dx = insert_row (new_evidence e ac k dto) (evidences d)"
    have "map_option fst (find_first (same_submission k r) (evidences dx)) = Some (t_next (evidences d))"
      using stored(1,3) assms(2,3) by (simp add: replayed_keyed find_first_insert_row same_submission_def new_evidence_def)
    moreover from this have "map_option fst (find_first (same_submission k r)
        (evidences (transcribeEvidence e (t_next (evidences d)) dx))) = Some (t_next (evidences d))"
      by (simp only: find_first_transcribed)
    ultimately show ?thesis using stored(2) assms(1) by (auto split: if_splits)
  qed (use assms(1-3) in \<open>auto simp: replayed_keyed\<close>)
  then have "replayed k again d2 = Some i" using assms(3-5) by (simp add: replayed_keyed)
  then show ?thesis by (simp add: submitEvidence_def)
qed

definition note_of :: "string \<Rightarrow> evidence_dto" where
  "note_of key = \<lparr>ed_type = ET_NOTE, ed_level = None, ed_description = None, ed_task = None, ed_location = None,
     ed_storage_key = key, ed_client_request = Some ''q1'', ed_language = None\<rparr>"

theorem evidence_once_witness:
  "fst (submitEvidence sample_env client 1 (note_of []) (snd (submitEvidence sample_env client 1 (note_of (createUploadUrl ''u'' 1 ''a.jpg''))
     (field_db CS_IN_PROGRESS)))) = Inr 1"
proof -
  let ?r = "submitEvidence sample_env client 1 (note_of (createUploadUrl ''u'' 1 ''a.jpg'')) (field_db CS_IN_PROGRESS)"
  have "fst ?r = Inr 1" by code_simp
  then have "?r = (Inr 1, snd ?r)" by (metis prod.collapse)
  from evidence_once [OF this _ _ _ refl, of "''q1''" "note_of []" sample_env client] show ?thesis by (simp add: note_of_def)
qed

text \<open>Evidence can only point at an object of its own case: an upload key minted for one case, whatever the file is
  called, is accepted for that case while its fieldwork is under way and the object is in the store, and for another case
  it is refused with the database unchanged.\<close>

theorem upload_key_of_case:
  assumes "ed_storage_key dto = createUploadUrl uuid k' fileName" "replayed k dto d = None" "ed_task dto = None"
  shows "if k = k' \<and> case_status_of k d = Some CS_IN_PROGRESS \<and> object_exists e (ed_storage_key dto)
     then \<exists>d'. submitEvidence e ac k dto d = (Inr (t_next (evidences d)), d')
     else \<exists>err. submitEvidence e ac k dto d = (Inl err, d) \<and> http_status err \<in> {400, 404}"
  using assms by (auto simp: submitEvidence_def createUploadUrl_def case_status_of_def Let_def split: option.split)

theorem upload_key_of_case_witness:
  "\<exists>err. submitEvidence sample_env client 1 (note_of (createUploadUrl ''u'' 11 ''a.jpg'')) (field_db CS_IN_PROGRESS)
     = (Inl err, field_db CS_IN_PROGRESS) \<and> http_status err \<in> {400, 404}"
proof -
  have "replayed 1 (note_of (createUploadUrl ''u'' 11 ''a.jpg'')) (field_db CS_IN_PROGRESS) = None" by code_simp
  from upload_key_of_case [OF _ this, of "''u''" 11 "''a.jpg''"] show ?thesis by (simp add: note_of_def)
qed

section \<open>Risk and tiers\<close>

text \<open>The risk level is between 1 and 4 and follows from the score; scoring a case again with no new signal never
  lowers its score and raises it by at most one point, once: by the flag that the engine itself has raised for a high
  level, which the next assessment counts among the open flags. From the second assessment on the score is stable.\<close>

theorem risk_settles:
  assumes "assessCase k d = (Inr a, d1)" "assessCase k d1 = (Inr b, d2)" "assessCase k d2 = (Inr c, d3)"
  shows "1 \<le> ra_level a \<and> ra_level a \<le> ra_level b \<and> ra_level b \<le> 4 \<and> ra_score a \<le> ra_score b \<and> ra_score c = ra_score b
    \<and> (ra_score b = ra_score a + 1 \<longleftrightarrow> 3 \<le> ra_level a \<and> \<not> has_automated_flag k d \<and> open_flags k d < 3) \<and> ra_score b \<le> ra_score a + 1"
proof -
  have lev: "ra_level a = risk_level (ra_score a)" "ra_level b = risk_level (ra_score b)"
    using assessCase_Inr [OF assms(1)] assessCase_Inr [OF assms(2)] by metis+
  have b: "ra_score b = ra_score a + (if 3 \<le> ra_level a \<and> \<not> has_automated_flag k d \<and> open_flags k d < 3 then 1 else 0)"
    by (rule assess_twice [OF assms(1,2)])
  have c: "ra_score c = ra_score b + (if 3 \<le> ra_level b \<and> \<not> has_automated_flag k d1 \<and> open_flags k d1 < 3 then 1 else 0)"
    by (rule assess_twice [OF assms(2,3)])
  have flag: "has_automated_flag k d1 \<longleftrightarrow> has_automated_flag k d \<or> 3 \<le> ra_level a" by (rule assessCase_flags(2) [OF assms(1)])
  have "ra_score c = ra_score b"
  proof (cases "3 \<le> ra_level a \<or> has_automated_flag k d")
    case False
    then have "ra_score b = ra_score a" using b by simp
    then show ?thesis using c False lev by simp
  qed (use c flag in auto)
  then show ?thesis using b lev risk_level_range [of "ra_score a"] risk_level_range [of "ra_score b"]
      risk_level_mono [of "ra_score a" "ra_score b"] by simp
qed

definition risky_db :: db where
  "risky_db = (field_db CS_IN_PROGRESS)\<lparr>incidents := rows (replicate 2 \<lparr>in_case = Some 1, in_severity = IN_CRITICAL, in_summary = [], in_detail = None\<rparr>)\<rparr>"

theorem risk_settles_witness:
  "\<exists>a b d1 d2. assessCase 1 risky_db = (Inr a, d1) \<and> assessCase 1 d1 = (Inr b, d2) \<and> ra_level a = 3 \<and> ra_level a \<le> ra_level b"
proof -
  let ?r1 = "assessCase 1 risky_db"
  let ?r2 = "assessCase 1 (snd ?r1)"
  let ?r3 = "assessCase 1 (snd ?r2)"
  have "map_sum (\<lambda>_. ()) ra_level (fst ?r1) = Inr 3" "\<not> isl (fst ?r2)" "\<not> isl (fst ?r3)" by code_simp+
  then obtain a b c where "?r1 = (Inr a, snd ?r1)" "?r2 = (Inr b, snd ?r2)" "?r3 = (Inr c, snd ?r3)" "ra_level a = 3"
    by (cases "fst ?r1"; cases "fst ?r2"; cases "fst ?r3") (auto simp: prod_eq_iff)
  with risk_settles [of 1 risky_db a "snd ?r1" b "snd ?r2" c "snd ?r3"] show ?thesis by blast
qed

text \<open>The nightly sweep leaves every active agent with the tier its rating and its record of quality controls deserve,
  and a tier is never lowered by a better rating or a better record.\<close>

theorem tiers_current:
  assumes "recomputeAllTiers d = (r, d')" "\<forall>(i, g) \<in> set (t_rows (agents d)). find_unique (agents d) i = Some g"
  shows "\<not> isl r \<and> (\<forall>i g. find_unique (agents d) i = Some g \<and> ag_active g \<longrightarrow> tier_current i d')
    \<and> (s \<le> s' \<and> q \<le> q' \<longrightarrow> determineTier (Some s) (Some q, n) \<le> determineTier (Some s') (Some q', n))"
proof -
  let ?due = "map fst (find_many (\<lambda>_ g. ag_active g) (agents d))"
  have "\<forall>i \<in> set ?due. find_unique (agents d) i \<noteq> None" using assms(2) by (auto simp: find_many_def)
  from recompute_each_current [OF this] obtain ts d1 where
    "recompute_each ?due d = (Inr ts, d1)" "\<forall>j. j \<in> set ?due \<or> tier_current j d \<longrightarrow> tier_current j d1" by blast
  moreover have "i \<in> set ?due" if "find_unique (agents d) i = Some g" "ag_active g" for i g
    using that map_of_SomeD [of "t_rows (agents d)" i g] by (force simp: find_unique_def find_many_def)
  ultimately show ?thesis using assms(1) determineTier_mono [of s s' q q' n] by (auto simp: recomputeAllTiers_def Let_def)
qed

theorem tiers_current_witness:
  "\<not> isl (fst (recomputeAllTiers (field_db CS_IN_PROGRESS))) \<and> tier_current 1 (snd (recomputeAllTiers (field_db CS_IN_PROGRESS)))"
proof -
  have "t_rows (agents (field_db CS_IN_PROGRESS)) = [(1, field_agent)]"
    by (simp add: field_db_def rows_def insert_rows_def empty_table_def)
  then have "\<forall>(i, g) \<in> set (t_rows (agents (field_db CS_IN_PROGRESS))). find_unique (agents (field_db CS_IN_PROGRESS)) i = Some g" by simp
  from tiers_current [OF _ this, of "fst (recomputeAllTiers (field_db CS_IN_PROGRESS))" "snd (recomputeAllTiers (field_db CS_IN_PROGRESS))"]
  show ?thesis by (simp add: field_agent_def)
qed

end
