(* ===== verification/Sos.thy ===== *)
theory Sos
  imports Access Lifecycle
begin

text \<open>
  Emergency alerts of field agents (\<open>src/backend/src/agent-sos/agent-sos.service.ts\<close>): an alert is
  triggered, acknowledged, escalated along four channels, and resolved or marked a false alarm; a
  severe one puts the case on hold. The notifications of the administrators are written one after
  the other, in the order of their accounts.
\<close>

section \<open>Operations\<close>

definition max_escalation_level :: nat where
  "max_escalation_level = length [Ch_admin, Ch_whatsapp, Ch_emergency_contact, Ch_police]"

definition hold_triggering_severities :: "sos_severity list" where
  "hold_triggering_severities = [SV_HIGH, SV_CRITICAL]"

definition not_holdable_statuses :: "case_status list" where
  "not_holdable_statuses = [CS_ON_HOLD, CS_COMPLETED, CS_CLOSED]"

record sos_dto =
  sd_type :: sos_type
  sd_severity :: sos_severity
  sd_message :: "string option"
  sd_latitude :: rat
  sd_longitude :: rat
  sd_accuracy :: "rat option"
  sd_address :: "string option"
  sd_case :: "nat option"
  sd_assignment :: "nat option"

fun severity_name :: "sos_severity \<Rightarrow> string" where
  "severity_name SV_LOW = ''LOW''"
| "severity_name SV_MEDIUM = ''MEDIUM''"
| "severity_name SV_HIGH = ''HIGH''"
| "severity_name SV_CRITICAL = ''CRITICAL''"

definition notifyAdmins ::
  "env \<Rightarrow> nat \<Rightarrow> string \<Rightarrow> sos_type \<Rightarrow> sos_severity \<Rightarrow> nat option \<Rightarrow> db \<Rightarrow> db" where
  "notifyAdmins e alertId agentName alertType severity caseId d =
     foldl (\<lambda>d (uid, _). notify_url e uid STR ''SOS Alert''
         [J_Text agentName, J_Lit STR '' triggered a '', J_Sos_Type alertType, J_Lit STR '' emergency alert ('',
          J_Severity severity, J_Lit STR '').'',
          J_Lit (if caseId = None then STR '''' else STR '' Linked to an active case.''), J_Lit STR '' Tap to review.'']
         (Some [J_Lit STR ''/ops/sos?alert='', J_Id alertId]) d)
       d (find_many (\<lambda>_ u. u_role u \<in> {R_ADMIN, R_SUPER_ADMIN}) (users d))"

text \<open>The case of the alert, put on hold when the severity asks for it and the status allows it.\<close>

definition sos_hold :: "actor \<Rightarrow> sos_dto \<Rightarrow> db \<Rightarrow> bool result" where
  "sos_hold ac dto d = (case sd_case dto of
     None \<Rightarrow> return False d
   | Some k \<Rightarrow> (case find_unique (cases d) k of
       None \<Rightarrow> throw (Not_Found STR ''Case not found'') d
     | Some c \<Rightarrow>
       if sd_severity dto \<in> set hold_triggering_severities \<and> c_status c \<notin> set not_holdable_statuses
       then and_then (holdCase ac k (''Emergency SOS alert triggered by field agent ('' @ severity_name (sd_severity dto) @ '')'') d)
              (\<lambda>_ d. return True d)
       else return False d))"

definition new_alert :: "nat \<Rightarrow> sos_dto \<Rightarrow> bool \<Rightarrow> sos_alert" where
  "new_alert agentId dto caseHeld = \<lparr>so_agent = agentId, so_case = sd_case dto, so_assignment = sd_assignment dto,
     so_type = sd_type dto, so_severity = sd_severity dto, so_message = sd_message dto,
     so_latitude = sd_latitude dto, so_longitude = sd_longitude dto, so_accuracy = sd_accuracy dto,
     so_address = sd_address dto, so_status = SO_ACTIVE, so_acknowledged_by = None, so_acknowledged_at = None,
     so_resolved_by = None, so_resolved_at = None, so_resolution = None, so_level = 0, so_channels = [],
     so_case_held = caseHeld\<rparr>"

definition triggerSosAlert :: "env \<Rightarrow> actor \<Rightarrow> sos_dto \<Rightarrow> db \<Rightarrow> nat result" where
  "triggerSosAlert e ac dto d = (case own_agent (act_id ac) d of
     None \<Rightarrow> throw (Forbidden STR ''Only a field agent can trigger an SOS alert'') d
   | Some (gid, g) \<Rightarrow>
     if sd_latitude dto < -90 \<or> sd_latitude dto > 90 \<or> sd_longitude dto < -180 \<or> sd_longitude dto > 180
     then throw (Bad_Request STR ''Invalid GPS coordinates for SOS alert'') d
     else and_then (sos_hold ac dto d) (\<lambda>caseHeld d1.
       if (case sd_assignment dto of None \<Rightarrow> False | Some a \<Rightarrow> find_unique (assignments d1) a = None)
       then throw (Not_Found STR ''Assignment not found'') d1
       else
         (let sid = t_next (sos_alerts d1);
              d2 = d1\<lparr>sos_alerts := insert_row (new_alert gid dto caseHeld) (sos_alerts d1)\<rparr>;
              d3 = audit_record (sd_case dto) (Some (act_id ac)) By_User STR ''agent.sos_triggered''
                     [(STR ''alertId'', J_Id sid), (STR ''alertType'', J_Sos_Type (sd_type dto)),
                      (STR ''severity'', J_Severity (sd_severity dto)), (STR ''caseHeld'', J_Bool caseHeld)] d2
          in return sid (notifyAdmins e sid (ag_name g) (sd_type dto) (sd_severity dto) (sd_case dto) d3))))"

definition getAlertOrThrow :: "nat \<Rightarrow> db \<Rightarrow> sos_alert result" where
  "getAlertOrThrow alertId d = (case find_unique (sos_alerts d) alertId of
     None \<Rightarrow> throw (Not_Found STR ''SOS alert not found'') d
   | Some al \<Rightarrow> return al d)"

definition set_alert :: "nat \<Rightarrow> (sos_alert \<Rightarrow> sos_alert) \<Rightarrow> db \<Rightarrow> db" where
  "set_alert alertId f d = d\<lparr>sos_alerts := update_row alertId f (sos_alerts d)\<rparr>"

definition acknowledgeSosAlert :: "env \<Rightarrow> actor \<Rightarrow> nat \<Rightarrow> db \<Rightarrow> unit result" where
  "acknowledgeSosAlert e ac alertId d = and_then (getAlertOrThrow alertId d) (\<lambda>al d.
     if so_status al \<noteq> SO_ACTIVE \<and> so_status al \<noteq> SO_ESCALATED
     then throw (Bad_Request STR ''Only ACTIVE or ESCALATED alerts can be acknowledged'') d
     else return ()
       (audit_record (so_case al) (Some (act_id ac)) By_User STR ''agent.sos_acknowledged''
          [(STR ''alertId'', J_Id alertId)]
        (set_alert alertId (\<lambda>a. a\<lparr>so_status := SO_ACKNOWLEDGED, so_acknowledged_by := Some (act_id ac),
           so_acknowledged_at := Some (now e)\<rparr>) d)))"

definition resolveSosAlert :: "env \<Rightarrow> actor \<Rightarrow> nat \<Rightarrow> string \<Rightarrow> db \<Rightarrow> unit result" where
  "resolveSosAlert e ac alertId resolutionNotes d = and_then (getAlertOrThrow alertId d) (\<lambda>al d.
     if so_status al = SO_RESOLVED \<or> so_status al = SO_FALSE_ALARM
     then throw (Bad_Request STR ''SOS alert is already in a terminal status'') d
     else return ()
       (audit_record (so_case al) (Some (act_id ac)) By_User STR ''agent.sos_resolved''
          [(STR ''alertId'', J_Id alertId), (STR ''resolutionNotes'', J_Text resolutionNotes)]
        (set_alert alertId (\<lambda>a. a\<lparr>so_status := SO_RESOLVED, so_resolved_by := Some (act_id ac),
           so_resolved_at := Some (now e), so_resolution := Some resolutionNotes\<rparr>) d)))"

definition markFalseAlarm :: "env \<Rightarrow> actor \<Rightarrow> nat \<Rightarrow> string option \<Rightarrow> db \<Rightarrow> unit result" where
  "markFalseAlarm e ac alertId resolutionNotes d = and_then (getAlertOrThrow alertId d) (\<lambda>al d.
     if so_status al = SO_RESOLVED \<or> so_status al = SO_FALSE_ALARM
     then throw (Bad_Request STR ''SOS alert is already in a terminal status'') d
     else return ()
       (audit_record (so_case al) (Some (act_id ac)) By_User STR ''agent.sos_marked_false_alarm''
          [(STR ''alertId'', J_Id alertId)]
        (set_alert alertId (\<lambda>a. a\<lparr>so_status := SO_FALSE_ALARM, so_resolved_by := Some (act_id ac),
           so_resolved_at := Some (now e),
           so_resolution := (case resolutionNotes of None \<Rightarrow> so_resolution a | Some n \<Rightarrow> Some n)\<rparr>) d)))"

definition escalateSosAlert :: "actor \<Rightarrow> nat \<Rightarrow> sos_channel \<Rightarrow> db \<Rightarrow> unit result" where
  "escalateSosAlert ac alertId channel d = and_then (getAlertOrThrow alertId d) (\<lambda>al d.
     if so_status al \<noteq> SO_ACTIVE \<and> so_status al \<noteq> SO_ACKNOWLEDGED \<and> so_status al \<noteq> SO_ESCALATED
     then throw (Bad_Request STR ''Cannot escalate an SOS alert in this status'') d
     else
       (let nextLevel = so_level al + 1
        in if nextLevel > max_escalation_level
           then throw (Bad_Request STR ''SOS alert has already been escalated to the maximum level'') d
           else
             (let nextChannels = (if channel \<in> set (so_channels al) then so_channels al
                                  else so_channels al @ [channel])
              in return ()
                (audit_record (so_case al) (Some (act_id ac)) By_User STR ''agent.sos_escalated''
                   [(STR ''alertId'', J_Id alertId), (STR ''channel'', J_Channel channel),
                    (STR ''escalationLevel'', J_Num (of_nat nextLevel))]
                 (set_alert alertId (\<lambda>a. a\<lparr>so_status := SO_ESCALATED, so_level := nextLevel,
                    so_channels := nextChannels\<rparr>) d)))))"

definition getActiveAlerts :: "db \<Rightarrow> (nat \<times> sos_alert) list" where
  "getActiveAlerts d = rev (find_many (\<lambda>_ a. so_status a \<in> {SO_ACTIVE, SO_ACKNOWLEDGED, SO_ESCALATED}) (sos_alerts d))"

definition getAlertHistory :: "actor \<Rightarrow> nat option \<Rightarrow> nat \<Rightarrow> db \<Rightarrow> error + (nat \<times> sos_alert) list" where
  "getAlertHistory ac agentId limit d =
     (case resolveEffectiveAgentId ac agentId [R_ADMIN, R_SUPER_ADMIN, R_CASE_MANAGER] d of
        Inl err \<Rightarrow> Inl err
      | Inr chosen \<Rightarrow> Inr (take limit (rev (find_many (\<lambda>_ a. case chosen of None \<Rightarrow> True | Some g \<Rightarrow> so_agent a = g)
          (sos_alerts d)))))"

section \<open>The life of an alert\<close>

definition terminal :: "sos_status \<Rightarrow> bool" where
  "terminal s \<longleftrightarrow> s \<in> {SO_RESOLVED, SO_FALSE_ALARM}"

text \<open>An alert climbs at most four levels and names a channel at most once.\<close>

definition alert_ok :: "sos_alert \<Rightarrow> bool" where
  "alert_ok a \<longleftrightarrow> so_level a \<le> max_escalation_level \<and> distinct (so_channels a) \<and> length (so_channels a) \<le> so_level a
     \<and> (so_status a = SO_ESCALATED \<longrightarrow> so_channels a \<noteq> []) \<and> (terminal (so_status a) \<longleftrightarrow> so_resolved_at a \<noteq> None)"

definition alerts_ok :: "db \<Rightarrow> bool" where
  "alerts_ok d \<longleftrightarrow> wf_table (sos_alerts d) \<and> (\<forall>i a. find_unique (sos_alerts d) i = Some a \<longrightarrow> alert_ok a)"

inductive sos_step :: "db \<Rightarrow> db \<Rightarrow> bool" where
  Trigger: "sos_step d (snd (triggerSosAlert e ac dto d))"
| Acknowledge: "sos_step d (snd (acknowledgeSosAlert e ac i d))"
| Resolve: "sos_step d (snd (resolveSosAlert e ac i remark d))"
| False_Alarm: "sos_step d (snd (markFalseAlarm e ac i why d))"
| Escalate: "sos_step d (snd (escalateSosAlert ac i channel d))"

lemma notifyAdmins_frame [simp]:
  "sos_alerts (notifyAdmins e i nm ty sv k d) = sos_alerts d" "cases (notifyAdmins e i nm ty sv k d) = cases d"
  "history (notifyAdmins e i nm ty sv k d) = history d" "audit_log (notifyAdmins e i nm ty sv k d) = audit_log d"
proof -
  have "sos_alerts (foldl (\<lambda>d (uid, _ :: user). notify_url e uid t b u d) d xs) = sos_alerts d
      \<and> cases (foldl (\<lambda>d (uid, _ :: user). notify_url e uid t b u d) d xs) = cases d
      \<and> history (foldl (\<lambda>d (uid, _ :: user). notify_url e uid t b u d) d xs) = history d
      \<and> audit_log (foldl (\<lambda>d (uid, _ :: user). notify_url e uid t b u d) d xs) = audit_log d" for t b u xs d
    by (induction xs arbitrary: d) auto
  then show "sos_alerts (notifyAdmins e i nm ty sv k d) = sos_alerts d" "cases (notifyAdmins e i nm ty sv k d) = cases d"
    "history (notifyAdmins e i nm ty sv k d) = history d" "audit_log (notifyAdmins e i nm ty sv k d) = audit_log d"
    unfolding notifyAdmins_def by simp_all
qed

lemma getAlert_cases:
  obtains "getAlertOrThrow i d = (Inl (Not_Found STR ''SOS alert not found''), d)"
  | a where "getAlertOrThrow i d = (Inr a, d)" "find_unique (sos_alerts d) i = Some a"
  by (cases "find_unique (sos_alerts d) i") (simp_all add: getAlertOrThrow_def)

lemma holdCase_alerts: "sos_alerts (snd (holdCase ac k why d)) = sos_alerts d"
  by (simp add: holdCase_def add_history_def split: option.split)

lemma sos_hold_alerts: "sos_alerts (snd (sos_hold ac dto d)) = sos_alerts d"
proof -
  have "sos_alerts (snd (and_then (holdCase ac k why d) (\<lambda>_ d. return True d))) = sos_alerts d" for k why
    using holdCase_alerts [of ac k why d] by (cases "holdCase ac k why d"; cases "fst (holdCase ac k why d)") auto
  then show ?thesis by (simp add: sos_hold_def split: option.split)
qed

text \<open>What a trigger does to the alerts: nothing, or one new one.\<close>

lemma trigger_alerts:
  "sos_alerts (snd (triggerSosAlert e ac dto d)) = sos_alerts d
   \<or> (\<exists>g held. sos_alerts (snd (triggerSosAlert e ac dto d)) = insert_row (new_alert g dto held) (sos_alerts d))"
proof -
  obtain r d1 where h: "sos_hold ac dto d = (r, d1)" by fastforce
  with sos_hold_alerts [of ac dto d] have "sos_alerts d1 = sos_alerts d" by simp
  then show ?thesis
    by (cases r) (auto simp: triggerSosAlert_def h Let_def split: option.split)
qed

text \<open>A change of an alert by an operation that is not a trigger.\<close>

definition alert_move :: "sos_alert \<Rightarrow> sos_alert \<Rightarrow> bool" where
  "alert_move a b \<longleftrightarrow> \<not> terminal (so_status a) \<and> so_agent b = so_agent a \<and> so_case b = so_case a
     \<and> so_level a \<le> so_level b \<and> (alert_ok a \<longrightarrow> alert_ok b)"

lemma sos_step_cases:
  assumes "sos_step d d'"
  obtains (kept) "sos_alerts d' = sos_alerts d"
  | (triggered) g dto held where "sos_alerts d' = insert_row (new_alert g dto held) (sos_alerts d)"
  | (moved) i a f where "find_unique (sos_alerts d) i = Some a" "alert_move a (f a)" "sos_alerts d' = update_row i f (sos_alerts d)"
  using assms
proof cases
  case (Trigger e ac dto)
  then show thesis using trigger_alerts [of e ac dto d] kept triggered by blast
next
  case (Acknowledge e ac i)
  show thesis
  proof (cases rule: getAlert_cases [of i d])
    case (2 a)
    show thesis
    proof (cases "so_status a = SO_ACTIVE \<or> so_status a = SO_ESCALATED")
      case True
      with 2 Acknowledge show thesis
        by (intro moved [where f = "\<lambda>a. a\<lparr>so_status := SO_ACKNOWLEDGED, so_acknowledged_by := Some (act_id ac), so_acknowledged_at := Some (now e)\<rparr>"])
          (auto simp: acknowledgeSosAlert_def set_alert_def alert_move_def alert_ok_def terminal_def)
    qed (use 2 Acknowledge in \<open>auto simp: acknowledgeSosAlert_def intro: kept\<close>)
  qed (use Acknowledge in \<open>auto simp: acknowledgeSosAlert_def intro: kept\<close>)
next
  case (Resolve e ac i remark)
  show thesis
  proof (cases rule: getAlert_cases [of i d])
    case (2 a)
    show thesis
    proof (cases "terminal (so_status a)")
      case False
      with 2 Resolve show thesis
        by (intro moved [where f = "\<lambda>a. a\<lparr>so_status := SO_RESOLVED, so_resolved_by := Some (act_id ac), so_resolved_at := Some (now e), so_resolution := Some remark\<rparr>"])
          (auto simp: resolveSosAlert_def set_alert_def alert_move_def alert_ok_def terminal_def)
    qed (use 2 Resolve in \<open>auto simp: resolveSosAlert_def terminal_def intro: kept\<close>)
  qed (use Resolve in \<open>auto simp: resolveSosAlert_def intro: kept\<close>)
next
  case (False_Alarm e ac i why)
  show thesis
  proof (cases rule: getAlert_cases [of i d])
    case (2 a)
    show thesis
    proof (cases "terminal (so_status a)")
      case False
      with 2 False_Alarm show thesis
        by (intro moved [where f = "\<lambda>a. a\<lparr>so_status := SO_FALSE_ALARM, so_resolved_by := Some (act_id ac), so_resolved_at := Some (now e),
              so_resolution := (case why of None \<Rightarrow> so_resolution a | Some n \<Rightarrow> Some n)\<rparr>"])
          (auto simp: markFalseAlarm_def set_alert_def alert_move_def alert_ok_def terminal_def)
    qed (use 2 False_Alarm in \<open>auto simp: markFalseAlarm_def terminal_def intro: kept\<close>)
  qed (use False_Alarm in \<open>auto simp: markFalseAlarm_def intro: kept\<close>)
next
  case (Escalate ac i channel)
  show thesis
  proof (cases rule: getAlert_cases [of i d])
    case (2 a)
    show thesis
    proof (cases "\<not> terminal (so_status a) \<and> so_level a < max_escalation_level")
      case True
      then have "so_status a = SO_ACTIVE \<or> so_status a = SO_ACKNOWLEDGED \<or> so_status a = SO_ESCALATED"
        by (cases "so_status a") (simp_all add: terminal_def)
      with 2 True Escalate show thesis
        by (intro moved [where f = "\<lambda>x. x\<lparr>so_status := SO_ESCALATED, so_level := so_level a + 1,
              so_channels := (if channel \<in> set (so_channels a) then so_channels a else so_channels a @ [channel])\<rparr>"])
          (auto simp: escalateSosAlert_def Let_def set_alert_def alert_move_def alert_ok_def terminal_def)
    qed (use 2 Escalate in \<open>auto simp: escalateSosAlert_def terminal_def Let_def intro: kept\<close>)
  qed (use Escalate in \<open>auto simp: escalateSosAlert_def intro: kept\<close>)
qed

lemma alerts_ok_step: "sos_step d d' \<Longrightarrow> alerts_ok d \<Longrightarrow> alerts_ok d'"
  by (elim sos_step_cases) (auto simp: alerts_ok_def alert_move_def new_alert_def alert_ok_def terminal_def)

section \<open>Effect on the lifecycle of the cases\<close>

lemma lifecycle_alerts: "lifecycle d d' \<Longrightarrow> lifecycle d (d'\<lparr>sos_alerts := x\<rparr>)" "lifecycle d d' \<Longrightarrow> lifecycle d (set_alert i f d')"
  unfolding set_alert_def by (erule lifecycle_trans, rule lifecycle_frame; simp add: audit_extends_def)+

lemma lifecycle_notifyAdmins: "lifecycle d d' \<Longrightarrow> lifecycle d (notifyAdmins e i nm ty sv k d')"
  by (erule lifecycle_trans) (rule lifecycle_frame, simp_all add: audit_extends_def)

lemma lifecycle_sos_hold: "lifecycle d (snd (sos_hold ac dto d))"
  by (auto simp: sos_hold_def lifecycle_holdCase intro!: lifecycle_and_then split: option.split)

lemma lifecycle_sos_step: "sos_step d d' \<Longrightarrow> lifecycle d d'"
proof (induction rule: sos_step.induct)
  case (Trigger d e ac dto)
  have start: "lifecycle d (snd (and_then (sos_hold ac dto d) f))" if "\<And>b d1. lifecycle d1 (snd (f b d1))" for f :: "bool \<Rightarrow> db \<Rightarrow> nat result"
    using that lifecycle_sos_hold by (intro lifecycle_and_then) auto
  show ?case
    by (auto simp: triggerSosAlert_def Let_def intro!: start lifecycle_notifyAdmins lifecycle_audit lifecycle_alerts split: option.split)
qed (auto simp: acknowledgeSosAlert_def resolveSosAlert_def markFalseAlarm_def escalateSosAlert_def getAlertOrThrow_def Let_def
    intro!: lifecycle_audit lifecycle_alerts split: option.split)

end
