(* ===== verification/Recurring.thy ===== *)
theory Recurring
  imports Lifecycle
begin

text \<open>
  Recurring services (\<open>src/backend/src/recurring/recurring.service.ts\<close>): a schedule is set up from a
  completed case, paused and resumed, and the daily sweep opens a case for each due schedule.
\<close>

section \<open>Operations\<close>

definition day_ms :: int where
  "day_ms = 24 * 60 * 60 * 1000"

definition schedule_of :: "nat \<Rightarrow> db \<Rightarrow> (nat \<times> schedule) option" where
  "schedule_of caseId d = find_first (\<lambda>_ s. rs_origin s = caseId) (schedules d)"

definition setup_schedule :: "env \<Rightarrow> actor \<Rightarrow> nat \<Rightarrow> int \<Rightarrow> db \<Rightarrow> nat result" where
  "setup_schedule e ac caseId cadenceDays d = (case find_unique (cases d) caseId of
     None \<Rightarrow> throw (Not_Found STR ''Case not found'') d
   | Some c \<Rightarrow>
     if c_status c \<notin> {CS_COMPLETED, CS_CLOSED}
     then throw (Bad_Request STR ''A recurring schedule can only be set up from a completed case'') d
     else if schedule_of caseId d \<noteq> None
     then throw (Bad_Request STR ''This case already has a recurring schedule -- use the reactivate/cancel actions instead'') d
     else
       (let sid = t_next (schedules d)
        in return sid
          (audit_record (Some caseId) (Some (act_id ac)) By_User STR ''recurring_schedule.created''
             [(STR ''scheduleId'', J_Id sid), (STR ''cadenceDays'', J_Num (of_int cadenceDays))]
           (d\<lparr>schedules := insert_row \<lparr>rs_origin = caseId, rs_customer = c_customer c, rs_service = c_service_type c,
              rs_description = c_description c, rs_location = c_location c, rs_beneficiary = c_beneficiary c,
              rs_property = c_property c, rs_asset = c_asset c, rs_cadence = cadenceDays,
              rs_next_run = now e + cadenceDays * day_ms, rs_active = True, rs_paused_at = None\<rparr> (schedules d)\<rparr>))))"

definition resumed_at :: "env \<Rightarrow> bool \<Rightarrow> schedule \<Rightarrow> int" where
  "resumed_at e active s = (case rs_paused_at s of
     Some paused \<Rightarrow> if active then now e + max 0 (rs_next_run s - paused) else rs_next_run s
   | None \<Rightarrow> rs_next_run s)"

definition setActive :: "env \<Rightarrow> actor \<Rightarrow> nat \<Rightarrow> bool \<Rightarrow> db \<Rightarrow> unit result" where
  "setActive e ac caseId active d = (case schedule_of caseId d of
     None \<Rightarrow> throw (Not_Found STR ''No recurring schedule on this case'') d
   | Some (sid, s) \<Rightarrow>
     if active = rs_active s
     then throw (Bad_Request (if active then STR ''This schedule is already active'' else STR ''This schedule is already paused'')) d
     else return ()
       (audit_record (Some caseId) (Some (act_id ac)) By_User
          (if active then STR ''recurring_schedule.reactivated'' else STR ''recurring_schedule.cancelled'')
          [(STR ''scheduleId'', J_Id sid)]
        (d\<lparr>schedules := update_row sid (\<lambda>r. r\<lparr>rs_active := active, rs_next_run := resumed_at e active s,
           rs_paused_at := (if active then None else Some (now e))\<rparr>) (schedules d)\<rparr>)))"

definition due_schedules :: "env \<Rightarrow> db \<Rightarrow> (nat \<times> schedule) list" where
  "due_schedules e d = find_many (\<lambda>_ s. rs_active s \<and> rs_next_run s \<le> now e) (schedules d)"

definition schedule_case :: "nat \<Rightarrow> schedule \<Rightarrow> schedule_data" where
  "schedule_case sid s = \<lparr>sch_id = sid, sch_customer = rs_customer s, sch_service = rs_service s,
     sch_description = rs_description s, sch_location = rs_location s, sch_beneficiary = rs_beneficiary s,
     sch_property = rs_property s, sch_asset = rs_asset s\<rparr>"

fun schedule_loop :: "env \<Rightarrow> (nat \<times> schedule) list \<Rightarrow> db \<Rightarrow> unit result" where
  "schedule_loop e [] d = return () d"
| "schedule_loop e ((sid, s) # rest) d = included (customers d) (rs_customer s) d (\<lambda>cu.
     and_then (spawnCaseFromSchedule e (schedule_case sid s) d) (\<lambda>caseId d1.
       schedule_loop e rest
         (notify e (cu_user cu) STR ''A new recurring visit has been scheduled''
            [J_Text (case find_unique (cases d1) caseId of Some c \<Rightarrow> c_number c | None \<Rightarrow> []),
             J_Lit STR '' was created automatically as part of your recurring service -- we'll take it from here.'']
          (d1\<lparr>schedules := update_row sid (\<lambda>r. r\<lparr>rs_next_run := now e + rs_cadence s * day_ms\<rparr>) (schedules d1)\<rparr>))))"

definition processDueSchedules :: "env \<Rightarrow> db \<Rightarrow> nat result" where
  "processDueSchedules e d =
     (let due = due_schedules e d in and_then (schedule_loop e due d) (\<lambda>_ d'. return (length due) d'))"

section \<open>The sweep\<close>

text \<open>How many cases stem from a schedule.\<close>

definition spawned :: "nat \<Rightarrow> db \<Rightarrow> nat" where
  "spawned sid d = length (find_many (\<lambda>_ c. c_schedule c = Some sid) (cases d))"

lemma links_live_cong:
  "beneficiaries d' = beneficiaries d \<Longrightarrow> properties d' = properties d \<Longrightarrow> assets d' = assets d
     \<Longrightarrow> links_live b p a d' = links_live b p a d"
  by (simp add: links_live_def cong: option.case_cong)

lemma spawn_frame:
  assumes "spawnCaseFromSchedule e sch d = (r, d')"
  shows "(\<exists>k. r = Inr k) \<longleftrightarrow> links_live (sch_beneficiary sch) (sch_property sch) (sch_asset sch) d"
    "schedules d' = schedules d" "customers d' = customers d"
    "links_live b p a d' = links_live b p a d"
    "spawned i d' = spawned i d + (if i = sch_id sch \<and> links_live (sch_beneficiary sch) (sch_property sch) (sch_asset sch) d then 1 else 0)"
proof -
  have count: "length (find_many (\<lambda>_ c. c_schedule c = Some n) (update_row j f t)) = length (find_many (\<lambda>_ c. c_schedule c = Some n) t)"
    if "\<And>c. c_schedule (f c) = c_schedule c" for f j t n
    unfolding update_row_def by (subst find_many_update_many) (simp_all add: that)
  show "(\<exists>k. r = Inr k) \<longleftrightarrow> links_live (sch_beneficiary sch) (sch_property sch) (sch_asset sch) d"
    "schedules d' = schedules d" "customers d' = customers d"
    "spawned i d' = spawned i d + (if i = sch_id sch \<and> links_live (sch_beneficiary sch) (sch_property sch) (sch_asset sch) d then 1 else 0)"
    using assms by (auto simp: spawnCaseFromSchedule_def create_case_def Let_def new_case_def spawned_def count split: if_splits)
  show "links_live b p a d' = links_live b p a d"
    using assms by (intro links_live_cong) (auto simp: spawnCaseFromSchedule_def create_case_def Let_def split: if_splits)
qed

text \<open>What a schedule needs so that its case can be opened.\<close>

definition runnable :: "schedule \<Rightarrow> db \<Rightarrow> bool" where
  "runnable s d \<longleftrightarrow> find_unique (customers d) (rs_customer s) \<noteq> None
     \<and> links_live (rs_beneficiary s) (rs_property s) (rs_asset s) d"

text \<open>One turn of the loop.\<close>

lemma schedule_turn:
  obtains (stopped) err where "\<not> runnable s d" "schedule_loop e ((sid, s) # due) d = (Inl err, d)"
  | (spawned) d2 where "runnable s d" "schedule_loop e ((sid, s) # due) d = schedule_loop e due d2"
      "schedules d2 = update_row sid (\<lambda>r. r\<lparr>rs_next_run := now e + rs_cadence s * day_ms\<rparr>) (schedules d)"
      "\<And>r. runnable r d2 = runnable r d" "\<And>i. spawned i d2 = spawned i d + (if i = sid then 1 else 0)"
proof (cases "find_unique (customers d) (rs_customer s)")
  case None
  then show thesis by (intro stopped) (simp_all add: runnable_def included_def)
next
  case cu: (Some cu)
  obtain r d1 where sp: "spawnCaseFromSchedule e (schedule_case sid s) d = (r, d1)" by fastforce
  note fr = spawn_frame [OF sp]
  show thesis
  proof (cases "runnable s d")
    case False
    with cu have "spawnCaseFromSchedule e (schedule_case sid s) d = (Inl (Internal STR ''Foreign key constraint violated''), d)"
      by (simp add: spawnCaseFromSchedule_def runnable_def schedule_case_def)
    with cu False show thesis by (intro stopped) simp_all
  next
    case True
    with fr(1) obtain k where k: "r = Inr k" by (auto simp: runnable_def schedule_case_def)
    let ?body = "[J_Text (case find_unique (cases d1) k of Some c \<Rightarrow> c_number c | None \<Rightarrow> []),
       J_Lit STR '' was created automatically as part of your recurring service -- we'll take it from here.'']"
    define d2 where "d2 = notify e (cu_user cu) STR ''A new recurring visit has been scheduled'' ?body
       (d1\<lparr>schedules := update_row sid (\<lambda>r. r\<lparr>rs_next_run := now e + rs_cadence s * day_ms\<rparr>) (schedules d1)\<rparr>)"
    have d2: "customers d2 = customers d" "cases d2 = cases d1"
      "schedules d2 = update_row sid (\<lambda>r. r\<lparr>rs_next_run := now e + rs_cadence s * day_ms\<rparr>) (schedules d)"
      by (simp_all add: d2_def fr(2,3))
    have links: "links_live b p a d2 = links_live b p a d1" for b p a
      by (rule links_live_cong) (simp_all add: d2_def)
    have loop: "schedule_loop e ((sid, s) # due) d = schedule_loop e due d2"
      unfolding d2_def by (simp add: cu sp k)
    have same: "runnable r d2 = runnable r d" for r
      by (simp add: runnable_def d2(1) links fr(4))
    have one: "sch_id (schedule_case sid s) = sid" "links_live (sch_beneficiary (schedule_case sid s))
        (sch_property (schedule_case sid s)) (sch_asset (schedule_case sid s)) d"
      using True by (simp_all add: runnable_def schedule_case_def)
    have count: "spawned i d2 = spawned i d1" for i by (simp only: spawned_def d2(2))
    have grown: "spawned i d2 = spawned i d + (if i = sid then 1 else 0)" for i
      unfolding count using fr(5) [of i] one by simp
    show thesis by (rule spawned [OF True loop d2(3) same grown])
  qed
qed

lemma schedule_loop_effect:
  assumes "\<forall>(sid, s) \<in> set due. runnable s d" "distinct (map fst due)"
  shows "\<exists>d'. schedule_loop e due d = (Inr (), d')
    \<and> (\<forall>sid. find_unique (schedules d') sid = (case map_of due sid of
         None \<Rightarrow> find_unique (schedules d) sid
       | Some s \<Rightarrow> map_option (\<lambda>r. r\<lparr>rs_next_run := now e + rs_cadence s * day_ms\<rparr>) (find_unique (schedules d) sid)))
    \<and> (\<forall>sid. spawned sid d' = spawned sid d + (if sid \<in> fst ` set due then 1 else 0))"
  using assms
proof (induction due arbitrary: d)
  case (Cons x due)
  obtain sid s where x: "x = (sid, s)" by (cases x)
  from Cons.prems(1) have ready: "runnable s d" by (simp add: x)
  show ?case
  proof (rule schedule_turn [of s d e sid due])
    fix err assume "\<not> runnable s d" with ready show ?thesis by simp
  next
    fix d2
    assume loop: "schedule_loop e ((sid, s) # due) d = schedule_loop e due d2"
      and d2: "schedules d2 = update_row sid (\<lambda>r. r\<lparr>rs_next_run := now e + rs_cadence s * day_ms\<rparr>) (schedules d)"
        "\<And>r. runnable r d2 = runnable r d" "\<And>i. spawned i d2 = spawned i d + (if i = sid then 1 else 0)"
    have "\<forall>(i, s) \<in> set due. runnable s d2" "distinct (map fst due)"
      using Cons.prems by (auto simp: d2)
    from Cons.IH [OF this] obtain d' where d': "schedule_loop e due d2 = (Inr (), d')"
      "\<forall>i. find_unique (schedules d') i = (case map_of due i of None \<Rightarrow> find_unique (schedules d2) i
         | Some s \<Rightarrow> map_option (\<lambda>r. r\<lparr>rs_next_run := now e + rs_cadence s * day_ms\<rparr>) (find_unique (schedules d2) i))"
      "\<forall>i. spawned i d' = spawned i d2 + (if i \<in> fst ` set due then 1 else 0)" by blast
    have fresh: "map_of due sid = None" "sid \<notin> fst ` set due" using Cons.prems(2) by (auto simp: x map_of_eq_None_iff)
    have "find_unique (schedules d') i = (case map_of (x # due) i of None \<Rightarrow> find_unique (schedules d) i
         | Some s \<Rightarrow> map_option (\<lambda>r. r\<lparr>rs_next_run := now e + rs_cadence s * day_ms\<rparr>) (find_unique (schedules d) i))" for i
      using d'(2) fresh(1) by (cases "i = sid") (auto simp: x d2 split: option.split)
    moreover have "spawned i d' = spawned i d + (if i \<in> fst ` set (x # due) then 1 else 0)" for i
      using d'(3) fresh(2) by (auto simp: d2 x)
    ultimately show ?thesis using d'(1) loop by (auto simp: x)
  qed
qed simp

text \<open>A due schedule that cannot be run ends the sweep where it stands, and is left as it is.\<close>

lemma schedule_loop_stuck:
  assumes "(i, s) \<in> set due" "\<not> runnable s d" "distinct (map fst due)" "find_unique (schedules d) i = Some s"
  shows "\<exists>err d'. schedule_loop e due d = (Inl err, d') \<and> find_unique (schedules d') i = Some s \<and> spawned i d' = spawned i d"
  using assms
proof (induction due arbitrary: d)
  case (Cons x due)
  obtain j r where x: "x = (j, r)" by (cases x)
  show ?case
  proof (rule schedule_turn [of r d e j due])
    fix err assume "schedule_loop e ((j, r) # due) d = (Inl err, d)"
    with Cons.prems show ?thesis by (simp add: x)
  next
    fix d2
    assume ready: "runnable r d" and loop: "schedule_loop e ((j, r) # due) d = schedule_loop e due d2"
      and d2: "schedules d2 = update_row j (\<lambda>q. q\<lparr>rs_next_run := now e + rs_cadence r * day_ms\<rparr>) (schedules d)"
        "\<And>q. runnable q d2 = runnable q d" "\<And>k. spawned k d2 = spawned k d + (if k = j then 1 else 0)"
    have later: "(i, s) \<in> set due" "i \<noteq> j"
      using Cons.prems ready by (auto simp: x image_iff)
    with Cons.prems d2 have "\<exists>err d'. schedule_loop e due d2 = (Inl err, d') \<and> find_unique (schedules d') i = Some s
        \<and> spawned i d' = spawned i d2"
      by (intro Cons.IH) auto
    with loop later(2) show ?thesis by (simp add: x d2)
  qed
qed simp

lemma schedule_loop_wf: "wf_table (schedules d) \<Longrightarrow> wf_table (schedules (snd (schedule_loop e due d)))"
proof (induction due arbitrary: d)
  case (Cons x due)
  obtain sid s where x: "x = (sid, s)" by (cases x)
  show ?case
    by (rule schedule_turn [of s d e sid due]) (use Cons in \<open>simp_all add: x\<close>)
qed simp

lemma due_schedules_iff:
  assumes "wf_table (schedules d)"
  shows "(i, s) \<in> set (due_schedules e d) \<longleftrightarrow> find_unique (schedules d) i = Some s \<and> rs_active s \<and> rs_next_run s \<le> now e"
    and "distinct (map fst (due_schedules e d))"
  using assms by (auto simp: due_schedules_def find_many_def find_unique_def wf_table_def intro: distinct_map_filter)

lemma schedule_loop_runnable: "runnable r (snd (schedule_loop e due d)) = runnable r d"
proof (induction due arbitrary: d)
  case (Cons x due)
  obtain sid s where x: "x = (sid, s)" by (cases x)
  show ?case by (rule schedule_turn [of s d e sid due]) (use Cons in \<open>simp_all add: x\<close>)
qed simp

text \<open>So a sweep that meets such a schedule fails, and leaves behind what the next one will meet.\<close>

lemma sweep_stuck:
  assumes "wf_table (schedules d)" "find_unique (schedules d) i = Some s" "rs_active s" "rs_next_run s \<le> now e"
    and "\<not> runnable s d"
  shows "\<exists>err d'. processDueSchedules e d = (Inl err, d') \<and> find_unique (schedules d') i = Some s
    \<and> spawned i d' = spawned i d \<and> wf_table (schedules d') \<and> \<not> runnable s d'"
proof -
  let ?due = "due_schedules e d"
  have "(i, s) \<in> set ?due" using assms(2-4) by (simp add: due_schedules_iff(1) [OF assms(1)])
  from schedule_loop_stuck [OF this assms(5) due_schedules_iff(2) [OF assms(1)] assms(2), of e] obtain err d'
    where loop: "schedule_loop e ?due d = (Inl err, d')" and s: "find_unique (schedules d') i = Some s" "spawned i d' = spawned i d"
    by blast
  have "wf_table (schedules d')" "\<not> runnable s d'"
    using schedule_loop_wf [OF assms(1), of e ?due] schedule_loop_runnable [of s e ?due d] assms(5) loop by simp_all
  with loop s show ?thesis by (simp add: processDueSchedules_def Let_def)
qed

section \<open>Effect on the lifecycle of the cases\<close>

lemma lifecycle_schedules: "lifecycle d d' \<Longrightarrow> lifecycle d (d'\<lparr>schedules := x\<rparr>)"
  by (erule lifecycle_trans) (rule lifecycle_frame, simp_all add: audit_extends_def)

lemma lifecycle_setup_schedule: "lifecycle d (snd (setup_schedule e ac k n d))"
  by (auto simp: setup_schedule_def Let_def intro!: lifecycle_audit lifecycle_schedules split: option.split)

lemma lifecycle_setActive: "lifecycle d (snd (setActive e ac k b d))"
  by (auto simp: setActive_def intro!: lifecycle_audit lifecycle_schedules split: option.split)

lemma lifecycle_schedule_loop: "lifecycle d (snd (schedule_loop e due d))"
proof (induction due arbitrary: d)
  case (Cons x due)
  obtain sid s where x: "x = (sid, s)" by (cases x)
  have step: "lifecycle d1 (snd (schedule_loop e due (notify_url e u t b l (d1\<lparr>schedules := y\<rparr>))))" for d1 u t b l y
    by (rule lifecycle_trans [OF _ Cons]) (intro lifecycle_notify lifecycle_schedules lifecycle_refl)
  show ?case
    by (cases "find_unique (customers d) (rs_customer s)")
      (auto simp: x step intro!: lifecycle_and_then lifecycle_spawnCaseFromSchedule)
qed simp

lemma lifecycle_processDueSchedules: "lifecycle d (snd (processDueSchedules e d))"
  unfolding processDueSchedules_def Let_def by (rule lifecycle_and_then [OF lifecycle_schedule_loop]) simp

end
