(* ===== verification/Ratings.thy ===== *)
theory Ratings
  imports Tiering
begin

text \<open>
  Ratings (\<open>src/backend/src/ratings/ratings.service.ts\<close>): a customer rates a completed case once, and
  the rolling score of everyone assigned to it is recomputed, an agent's tier with it.
\<close>

section \<open>Operations\<close>

definition average :: "int list \<Rightarrow> rat option" where
  "average xs = (if xs = [] then None else Some (of_int (sum_list xs) / of_nat (length xs)))"

text \<open>The stars of the cases with an assignment that satisfies the predicate.\<close>

definition stars_of :: "(assignment \<Rightarrow> bool) \<Rightarrow> db \<Rightarrow> int list" where
  "stars_of P d = map (\<lambda>(_, r). rt_stars r)
     (find_many (\<lambda>_ r. exists_row (\<lambda>_ a. as_case a = rt_case r \<and> P a) (assignments d)) (ratings d))"

text \<open>\<open>prisma.agent.update\<close> rejects an id that is not in the table.\<close>

definition recomputeAgentScore :: "nat \<Rightarrow> db \<Rightarrow> unit result" where
  "recomputeAgentScore agentId d =
     (if find_unique (agents d) agentId = None then throw (Internal STR ''Record to update not found'') d
      else and_then
        (recomputeAgentTier agentId (d\<lparr>agents := update_row agentId
           (\<lambda>g. g\<lparr>ag_score := average (stars_of (\<lambda>a. as_agent a = Some agentId) d)\<rparr>) (agents d)\<rparr>))
        (\<lambda>_ d. return () d))"

definition recomputeProviderScore :: "nat \<Rightarrow> db \<Rightarrow> unit result" where
  "recomputeProviderScore providerId d =
     (if find_unique (providers d) providerId = None then throw (Internal STR ''Record to update not found'') d
      else return () (d\<lparr>providers := update_row providerId
           (\<lambda>p. p\<lparr>pv_score := average (stars_of (\<lambda>a. as_provider a = Some providerId) d)\<rparr>) (providers d)\<rparr>))"

fun roll_up :: "assignment list \<Rightarrow> db \<Rightarrow> unit result" where
  "roll_up [] d = return () d"
| "roll_up (a # rest) d =
     and_then (if as_role a = AR_FIELD_AGENT \<and> as_agent a \<noteq> None
               then recomputeAgentScore (the (as_agent a)) d else return () d) (\<lambda>_ d1.
     and_then (if as_role a = AR_PROVIDER \<and> as_provider a \<noteq> None
               then recomputeProviderScore (the (as_provider a)) d1 else return () d1) (\<lambda>_ d2.
     roll_up rest d2))"

definition rateCase :: "actor \<Rightarrow> nat \<Rightarrow> int \<Rightarrow> string option \<Rightarrow> db \<Rightarrow> nat result" where
  "rateCase ac caseId stars comment d = (case find_unique (cases d) caseId of
     None \<Rightarrow> throw (Not_Found STR ''Case not found'') d
   | Some c \<Rightarrow>
     if c_status c \<notin> {CS_COMPLETED, CS_CLOSED} then throw (Bad_Request STR ''Only a completed case can be rated'') d
     else if exists_row (\<lambda>_ r. rt_case r = caseId) (ratings d)
     then throw (Conflict STR ''This case has already been rated'') d
     else
       (let rid = t_next (ratings d);
            d1 = audit_record (Some caseId) (Some (act_id ac)) By_User STR ''case.rated''
                   [(STR ''stars'', J_Num (of_int stars)), (STR ''ratingId'', J_Id rid)]
                   (d\<lparr>ratings := insert_row \<lparr>rt_case = caseId, rt_by = act_id ac, rt_stars = stars, rt_comment = comment\<rparr>
                      (ratings d)\<rparr>)
        in and_then (roll_up (map snd (find_many (\<lambda>_ a. as_case a = caseId) (assignments d))) d1)
             (\<lambda>_ d2. return rid d2)))"

section \<open>The rolled-up scores\<close>

lemma average_bounds:
  assumes "average xs = Some m" "\<forall>x \<in> set xs. 1 \<le> x \<and> x \<le> 5"
  shows "1 \<le> m \<and> m \<le> 5"
proof -
  have "int (length xs) \<le> sum_list xs \<and> sum_list xs \<le> 5 * int (length xs)"
    using assms(2) by (induction xs) auto
  then have "(of_int (int (length xs)) :: rat) \<le> of_int (sum_list xs) \<and> (of_int (sum_list xs) :: rat) \<le> of_int (5 * int (length xs))"
    by (simp only: of_int_le_iff)
  then show ?thesis using assms(1) by (auto simp: average_def field_simps split: if_splits)
qed

definition score_current :: "nat \<Rightarrow> db \<Rightarrow> bool" where
  "score_current i d \<longleftrightarrow> (\<forall>g. find_unique (agents d) i = Some g \<longrightarrow>
     ag_score g = average (stars_of (\<lambda>a. as_agent a = Some i) d)
     \<and> ag_tier g = determineTier (ag_score g) (computeQcPassRate i d))"

lemma stars_cong [simp]: "stars_of P (d\<lparr>agents := t\<rparr>) = stars_of P d" "stars_of P (d\<lparr>providers := u\<rparr>) = stars_of P d"
  by (simp_all add: stars_of_def)

lemma recomputeAgentScore_state:
  assumes "find_unique (agents d) i \<noteq> None"
  shows "\<exists>t. recomputeAgentScore i d = (Inr (), d\<lparr>agents := t\<rparr>) \<and> (\<forall>j. find_unique t j = None \<longleftrightarrow> find_unique (agents d) j = None)
    \<and> (\<forall>j. j \<noteq> i \<longrightarrow> find_unique t j = find_unique (agents d) j) \<and> score_current i (d\<lparr>agents := t\<rparr>)"
  using assms
  by (intro exI [of _ "agents (snd (recomputeAgentScore i d))"])
    (auto simp: recomputeAgentScore_def recomputeAgentTier_def Let_def score_current_def split: if_splits)

lemma score_current_cong:
  "find_unique (agents d') i = find_unique (agents d) i \<Longrightarrow> assignments d' = assignments d \<Longrightarrow> ratings d' = ratings d
     \<Longrightarrow> qc_reviews d' = qc_reviews d \<Longrightarrow> score_current i d' = score_current i d"
  by (simp add: score_current_def stars_of_def computeQcPassRate_def worked_on_def)

lemma roll_up_current:
  assumes "\<forall>a \<in> set as. (\<forall>i. as_agent a = Some i \<longrightarrow> find_unique (agents d) i \<noteq> None)
      \<and> (\<forall>i. as_provider a = Some i \<longrightarrow> find_unique (providers d) i \<noteq> None)"
  shows "\<exists>t p. roll_up as d = (Inr (), d\<lparr>agents := t, providers := p\<rparr>)
    \<and> (\<forall>i. score_current i d \<or> (\<exists>a \<in> set as. as_role a = AR_FIELD_AGENT \<and> as_agent a = Some i)
         \<longrightarrow> score_current i (d\<lparr>agents := t, providers := p\<rparr>))"
  using assms
proof (induction "as" arbitrary: d)
  case Nil
  show ?case by (rule exI [of _ "agents d"], rule exI [of _ "providers d"]) simp
next
  case (Cons a "as")
  obtain t where t: "(if as_role a = AR_FIELD_AGENT \<and> as_agent a \<noteq> None then recomputeAgentScore (the (as_agent a)) d else return () d)
      = (Inr (), d\<lparr>agents := t\<rparr>)" "\<forall>j. find_unique t j = None \<longleftrightarrow> find_unique (agents d) j = None"
    "\<forall>i. score_current i d \<or> as_role a = AR_FIELD_AGENT \<and> as_agent a = Some i \<longrightarrow> score_current i (d\<lparr>agents := t\<rparr>)"
  proof (cases "as_role a = AR_FIELD_AGENT \<and> as_agent a \<noteq> None")
    case True
    then obtain i where i: "as_agent a = Some i" by auto
    with Cons.prems have "find_unique (agents d) i \<noteq> None" by simp
    from recomputeAgentScore_state [OF this] obtain t where s: "recomputeAgentScore i d = (Inr (), d\<lparr>agents := t\<rparr>)"
      "\<forall>j. find_unique t j = None \<longleftrightarrow> find_unique (agents d) j = None"
      "\<forall>j. j \<noteq> i \<longrightarrow> find_unique t j = find_unique (agents d) j" "score_current i (d\<lparr>agents := t\<rparr>)" by blast
    have "score_current j (d\<lparr>agents := t\<rparr>)" if "score_current j d" for j
      using that s(3,4) score_current_cong [of "d\<lparr>agents := t\<rparr>" j d] by (cases "j = i") auto
    with s True i show thesis by (intro that [of t]) auto
  next
    case False
    then show thesis by (intro that [of "agents d"]) auto
  qed
  define d1 where "d1 = d\<lparr>agents := t\<rparr>"
  obtain p where p: "(if as_role a = AR_PROVIDER \<and> as_provider a \<noteq> None then recomputeProviderScore (the (as_provider a)) d1 else return () d1)
      = (Inr (), d1\<lparr>providers := p\<rparr>)" "\<forall>j. find_unique p j = None \<longleftrightarrow> find_unique (providers d1) j = None"
  proof (cases "as_role a = AR_PROVIDER \<and> as_provider a \<noteq> None")
    case True
    with Cons.prems that show thesis by (force simp: recomputeProviderScore_def d1_def)
  next
    case False
    then show thesis by (intro that [of "providers d1"]) auto
  qed
  define d2 where "d2 = d1\<lparr>providers := p\<rparr>"
  have "\<forall>a \<in> set as. (\<forall>i. as_agent a = Some i \<longrightarrow> find_unique (agents d2) i \<noteq> None)
      \<and> (\<forall>i. as_provider a = Some i \<longrightarrow> find_unique (providers d2) i \<noteq> None)"
    using Cons.prems t(2) p(2) by (simp add: d2_def d1_def)
  from Cons.IH [OF this] obtain t' p' where r: "roll_up as d2 = (Inr (), d2\<lparr>agents := t', providers := p'\<rparr>)"
    "\<forall>i. score_current i d2 \<or> (\<exists>a \<in> set as. as_role a = AR_FIELD_AGENT \<and> as_agent a = Some i)
       \<longrightarrow> score_current i (d2\<lparr>agents := t', providers := p'\<rparr>)" by blast
  have "score_current i d2" if "score_current i d \<or> as_role a = AR_FIELD_AGENT \<and> as_agent a = Some i" for i
    using t(3) that score_current_cong [of d2 i d1] by (auto simp: d2_def d1_def)
  moreover have "roll_up (a # as) d = (Inr (), d\<lparr>agents := t', providers := p'\<rparr>)"
    using r(1) unfolding roll_up.simps t(1) and_then_simps d1_def [symmetric] p(1) d2_def [symmetric]
    by (simp add: d2_def d1_def)
  ultimately show ?case using r(2) by (intro exI [of _ t'] exI [of _ p']) (auto simp: d2_def d1_def)
qed

lemma lifecycle_rateCase: "lifecycle d (snd (rateCase ac k stars comment d))"
proof -
  have score: "lifecycle d (snd (recomputeAgentScore i d))" "lifecycle d (snd (recomputeProviderScore i d))" for i d
    by (auto simp: recomputeAgentScore_def recomputeAgentTier_def recomputeProviderScore_def Let_def audit_extends_def
        intro!: lifecycle_frame split: option.split)
  have roll: "lifecycle d (snd (roll_up as d))" for "as" d
    by (induction "as" arbitrary: d) (auto simp: score intro!: lifecycle_and_then)
  have start: "lifecycle d (audit_record a b c n m (d\<lparr>ratings := x\<rparr>))" for a b c n m x
    by (intro lifecycle_audit lifecycle_frame) (simp_all add: audit_extends_def)
  show ?thesis
    by (auto simp: rateCase_def Let_def intro!: lifecycle_and_then lifecycle_trans [OF start roll] split: option.split)
qed

end
