(* ===== verification/Tracking.thy ===== *)
theory Tracking
  imports Geofence Idempotency
begin

text \<open>
  Live tracking of checked-in agents (\<open>src/backend/src/tracking/tracking.service.ts\<close>): pings, replayed
  from the offline queue under an idempotency key, the track of an assignment, and the position
  every active agent was last seen at.
\<close>

section \<open>Operations\<close>

record ping_input =
  pg_lat :: rat
  pg_lng :: rat
  pg_accuracy :: "rat option"
  pg_captured :: "captured option"
  pg_key :: "string option"

definition requireActiveOwnedAssignment :: "actor \<Rightarrow> nat \<Rightarrow> db \<Rightarrow> assignment result" where
  "requireActiveOwnedAssignment ac assignmentId d = (case find_unique (assignments d) assignmentId of
     None \<Rightarrow> throw (Not_Found STR ''Assignment not found'') d
   | Some a \<Rightarrow>
     if \<not> ((\<exists>g \<in> set_option (Option.bind (as_agent a) (find_unique (agents d))). ag_user g = act_id ac)
         \<or> (\<exists>p \<in> set_option (Option.bind (as_provider a) (find_unique (providers d))). pv_user p = act_id ac))
     then throw (Forbidden STR ''Not your assignment'') d
     else if as_check_in_at a = None then throw (Bad_Request STR ''Must check in before reporting a location'') d
     else if as_completed_at a \<noteq> None
     then throw (Bad_Request STR ''Assignment is already completed -- no further location pings accepted'') d
     else return a d)"

definition store_ping :: "nat \<Rightarrow> nat \<Rightarrow> ping_input \<Rightarrow> int \<Rightarrow> db \<Rightarrow> nat result" where
  "store_ping assignmentId agentId input capturedAt d = return (t_next (pings d))
     (d\<lparr>pings := insert_row \<lparr>lp_assignment = assignmentId, lp_agent = agentId, lp_latitude = pg_lat input,
        lp_longitude = pg_lng input, lp_accuracy = pg_accuracy input, lp_captured = capturedAt\<rparr> (pings d)\<rparr>)"

text \<open>A replay answers with the ping the first delivery created.\<close>

definition reload_ping :: "nat option \<Rightarrow> db \<Rightarrow> nat option result" where
  "reload_ping ref d = return (case ref of None \<Rightarrow> None
     | Some i \<Rightarrow> if find_unique (pings d) i = None then None else Some i) d"

definition reportLocation :: "env \<Rightarrow> actor \<Rightarrow> nat \<Rightarrow> ping_input \<Rightarrow> db \<Rightarrow> nat option result" where
  "reportLocation e ac assignmentId input d =
     and_then (requireActiveOwnedAssignment ac assignmentId d) (\<lambda>a d. case as_agent a of
       None \<Rightarrow> throw (Bad_Request STR ''Live tracking applies to field agent assignments only'') d
     | Some agentId \<Rightarrow>
       if \<not> validateCoordinates (pg_lat input) (pg_lng input)
       then throw (Bad_Request STR ''Invalid GPS coordinates'') d
       else (case (case pg_captured input of None \<Rightarrow> Captured (now e) | Some c \<Rightarrow> c) of
         Unparsable \<Rightarrow> throw (Bad_Request STR ''Invalid capturedAt timestamp'') d
       | Captured capturedAt \<Rightarrow>
         with_idempotency IO_FIELD_LOCATION_REPORT (pg_key input) (act_id ac) reload_ping
           (store_ping assignmentId agentId input capturedAt) (\<lambda>i. i) Some d))"

section \<open>Tracks\<close>

definition reliable :: "location_ping \<Rightarrow> bool" where
  "reliable p \<longleftrightarrow> (case lp_accuracy p of Some a \<Rightarrow> a \<le> max_accuracy_meters | None \<Rightarrow> False)"

definition leg :: "location_ping \<Rightarrow> location_ping \<Rightarrow> real" where
  "leg p q = (if \<not> reliable p \<or> \<not> reliable q then 0
     else haversineDistanceMeters (of_rat (lp_latitude p), of_rat (lp_longitude p))
       (of_rat (lp_latitude q), of_rat (lp_longitude q)))"

fun track_length :: "location_ping list \<Rightarrow> real" where
  "track_length (p # q # rest) = leg p q + track_length (q # rest)"
| "track_length _ = 0"

definition assignment_pings :: "nat \<Rightarrow> db \<Rightarrow> location_ping list" where
  "assignment_pings assignmentId d =
     sort_key lp_captured (map snd (find_many (\<lambda>_ p. lp_assignment p = assignmentId) (pings d)))"

record track =
  tr_points :: nat
  tr_distance :: int
  tr_duration :: int
  tr_pings :: "location_ping list"

definition getAssignmentTrack :: "actor \<Rightarrow> nat \<Rightarrow> db \<Rightarrow> error + track" where
  "getAssignmentTrack ac assignmentId d = (case find_unique (assignments d) assignmentId of
     None \<Rightarrow> Inl (Not_Found STR ''Assignment not found'')
   | Some a \<Rightarrow>
     if act_role ac \<noteq> R_ADMIN \<and> act_role ac \<noteq> R_SUPER_ADMIN
       \<and> \<not> (\<exists>g \<in> set_option (Option.bind (as_agent a) (find_unique (agents d))). ag_user g = act_id ac)
     then Inl (Forbidden STR ''Not authorised to view this assignment's track'')
     else (let ps = assignment_pings assignmentId d
           in Inr \<lparr>tr_points = length ps, tr_distance = round_meters (track_length ps),
                tr_duration = (if length ps \<ge> 2
                  then \<lfloor>(of_int (lp_captured (last ps) - lp_captured (hd ps)) / 1000 + 1 / 2 :: rat)\<rfloor> else 0),
                tr_pings = ps\<rparr>))"

record sighting =
  sg_assignment :: nat
  sg_agent :: "(nat \<times> string) option"
  sg_case :: nat
  sg_latitude :: "rat option"
  sg_longitude :: "rat option"
  sg_seen :: "int option"
  sg_live :: bool

definition latest_ping :: "nat \<Rightarrow> db \<Rightarrow> location_ping option" where
  "latest_ping assignmentId d = (case rev (assignment_pings assignmentId d) of [] \<Rightarrow> None | p # _ \<Rightarrow> Some p)"

definition sighting_of :: "nat \<Rightarrow> assignment \<Rightarrow> db \<Rightarrow> sighting" where
  "sighting_of i a d = (let latest = latest_ping i d in
     \<lparr>sg_assignment = i,
      sg_agent = Option.bind (as_agent a) (\<lambda>g. map_option (\<lambda>r. (g, ag_name r)) (find_unique (agents d) g)),
      sg_case = as_case a,
      sg_latitude = (case latest of Some p \<Rightarrow> Some (lp_latitude p) | None \<Rightarrow> Option.bind (as_location a) lo_lat),
      sg_longitude = (case latest of Some p \<Rightarrow> Some (lp_longitude p) | None \<Rightarrow> Option.bind (as_location a) lo_lng),
      sg_seen = (case latest of Some p \<Rightarrow> Some (lp_captured p) | None \<Rightarrow> as_check_in_at a),
      sg_live = (latest \<noteq> None)\<rparr>)"

definition getActiveAgentLocations :: "db \<Rightarrow> sighting list" where
  "getActiveAgentLocations d = map (\<lambda>(i, a). sighting_of i a d)
     (find_many (\<lambda>_ a. as_check_in_at a \<noteq> None \<and> as_completed_at a = None \<and> as_agent a \<noteq> None) (assignments d))"

section \<open>Facts\<close>

text \<open>Dropping unreliable readings can only shorten a track, and no leg is longer than half the equator.\<close>

definition on_earth :: "location_ping \<Rightarrow> bool" where
  "on_earth p \<longleftrightarrow> lp_latitude p \<in> {-90..90}"

lemma leg_bounds:
  assumes "on_earth p" "on_earth q"
  shows "0 \<le> leg p q" "leg p q \<le> pi * earth_radius_meters"
proof -
  have lat: "of_rat x \<in> {-90..90 :: real}" if "x \<in> {-90..90}" for x
    using that of_rat_less_eq [of "-90" x, where 'a = real] of_rat_less_eq [of x 90, where 'a = real] by simp
  show "0 \<le> leg p q" "leg p q \<le> pi * earth_radius_meters"
    using distance_bounds [of "(of_rat (lp_latitude p), of_rat (lp_longitude p))" "(of_rat (lp_latitude q), of_rat (lp_longitude q))"]
      lat assms by (auto simp: leg_def on_earth_def earth_radius_meters_def)
qed

lemma track_bounds:
  assumes "\<forall>p \<in> set ps. on_earth p"
  shows "0 \<le> track_length ps" "track_length ps \<le> real (length ps - 1) * (pi * earth_radius_meters)"
proof -
  have "0 \<le> track_length ps \<and> track_length ps \<le> real (length ps - 1) * (pi * earth_radius_meters)" using assms
  proof (induction ps rule: track_length.induct)
    case (1 p q rest)
    then show ?case using leg_bounds [of p q] by (auto simp: algebra_simps)
  qed simp_all
  then show "0 \<le> track_length ps" "track_length ps \<le> real (length ps - 1) * (pi * earth_radius_meters)" by simp_all
qed

text \<open>A reading that is not reliable contributes nothing, wherever it claims to have been taken.\<close>

lemma unreliable_nothing: "(\<forall>p \<in> set ps. \<not> reliable p) \<Longrightarrow> track_length ps = 0"
  by (induction ps rule: track_length.induct) (simp_all add: leg_def)

lemma requireActive_state: "snd (requireActiveOwnedAssignment ac i d) = d"
  by (rule same_stateD) (simp add: requireActiveOwnedAssignment_def split: option.split)

end
