(* ===== verification/Vault.thy ===== *)
theory Vault
  imports Evidence
begin

text \<open>
  The customer's document vault (\<open>src/backend/src/vault/vault.service.ts\<close>): documents under upload keys
  of the customer's own folder, and legal assets that staff verify once. Presigning a download URL
  is the S3 package's and left out of the listing.
\<close>

section \<open>Operations\<close>

definition vault_folder :: "nat \<Rightarrow> string" where
  "vault_folder customerId = ''vault/'' @ decimal customerId"

definition createVaultUploadUrl :: "string \<Rightarrow> nat \<Rightarrow> string \<Rightarrow> db \<Rightarrow> string result" where
  "createVaultUploadUrl uuid userId fileName d = and_then (requireCustomerProfile userId d)
     (\<lambda>(cid, _) d. return (createKey uuid (vault_folder cid) (Some fileName)) d)"

definition listDocuments :: "nat \<Rightarrow> db \<Rightarrow> (nat \<times> vault_document) list result" where
  "listDocuments userId d = and_then (requireCustomerProfile userId d)
     (\<lambda>(cid, _) d. return (rev (find_many (\<lambda>_ v. vd_customer v = cid) (vault_documents d))) d)"

record vault_dto =
  vo_name :: string
  vo_category :: "vault_category option"
  vo_storage_key :: "string option"

text \<open>An empty storage key is stored as it is and not checked.\<close>

definition addDocument :: "env \<Rightarrow> nat \<Rightarrow> vault_dto \<Rightarrow> db \<Rightarrow> nat result" where
  "addDocument e userId dto d = and_then (requireCustomerProfile userId d) (\<lambda>(cid, _) d.
     case (case vo_storage_key dto of None \<Rightarrow> None
           | Some key \<Rightarrow> if key = [] then None
             else if \<not> prefix (vault_folder cid @ ''/'') key
             then Some (Bad_Request STR ''storageKey was not issued for this account -- request a new upload URL'')
             else if \<not> object_exists e key
             then Some (Bad_Request STR ''Uploaded file not found -- the upload may not have completed. Request a new upload URL and try again.'')
             else None) of
       Some err \<Rightarrow> throw err d
     | None \<Rightarrow>
       (let vid = t_next (vault_documents d);
            category = (case vo_category dto of Some c \<Rightarrow> c | None \<Rightarrow> VC_OTHER)
        in return vid
          (audit_record None (Some userId) By_User STR ''vault_document.added''
             [(STR ''documentId'', J_Id vid), (STR ''category'', J_Vault category)]
           (d\<lparr>vault_documents := insert_row \<lparr>vd_customer = cid, vd_name = vo_name dto, vd_category = category,
              vd_storage_key = vo_storage_key dto\<rparr> (vault_documents d)\<rparr>))))"

definition deleteDocument :: "nat \<Rightarrow> nat \<Rightarrow> db \<Rightarrow> unit result" where
  "deleteDocument userId documentId d = and_then (requireCustomerProfile userId d) (\<lambda>(cid, _) d.
     case find_unique (vault_documents d) documentId of
       None \<Rightarrow> throw (Not_Found STR ''Document not found'') d
     | Some v \<Rightarrow>
       if vd_customer v \<noteq> cid then throw (Forbidden STR ''Not your document'') d
       else return ()
         (audit_record None (Some userId) By_User STR ''vault_document.deleted'' [(STR ''documentId'', J_Id documentId)]
          (d\<lparr>vault_documents := delete_row documentId (vault_documents d)\<rparr>)))"

definition listVerifiedAssets :: "nat \<Rightarrow> db \<Rightarrow> (nat \<times> verified_asset) list result" where
  "listVerifiedAssets userId d = and_then (requireCustomerProfile userId d)
     (\<lambda>(cid, _) d. return (rev (find_many (\<lambda>_ a. va_customer a = cid) (verified_assets d))) d)"

definition addAsset :: "nat \<Rightarrow> vault_category \<Rightarrow> db \<Rightarrow> nat result" where
  "addAsset userId type d = and_then (requireCustomerProfile userId d) (\<lambda>(cid, _) d.
     (let aid = t_next (verified_assets d)
      in return aid
        (audit_record None (Some userId) By_User STR ''verified_asset.submitted''
           [(STR ''assetId'', J_Id aid), (STR ''type'', J_Vault type)]
         (d\<lparr>verified_assets := insert_row \<lparr>va_customer = cid, va_type = type, va_verified = False\<rparr>
            (verified_assets d)\<rparr>))))"

definition verifyAsset :: "actor \<Rightarrow> nat \<Rightarrow> db \<Rightarrow> unit result" where
  "verifyAsset ac assetId d = (case find_unique (verified_assets d) assetId of
     None \<Rightarrow> throw (Not_Found STR ''Asset not found'') d
   | Some _ \<Rightarrow> return ()
     (audit_record None (Some (act_id ac)) By_User STR ''verified_asset.verified'' [(STR ''assetId'', J_Id assetId)]
      (d\<lparr>verified_assets := update_row assetId (\<lambda>a. a\<lparr>va_verified := True\<rparr>) (verified_assets d)\<rparr>)))"

section \<open>Vaults are separate\<close>

lemma vault_key [simp]: "prefix (vault_folder k @ ''/'') (createKey uuid (vault_folder k') f) \<longleftrightarrow> k = k'"
  using folder_of_key by (simp add: createKey_def vault_folder_def)

text \<open>Every document with an object points into the folder of its owner.\<close>

definition vault_ok :: "db \<Rightarrow> bool" where
  "vault_ok d \<longleftrightarrow> wf_table (vault_documents d) \<and> (\<forall>i v key. find_unique (vault_documents d) i = Some v \<longrightarrow>
     vd_storage_key v = Some key \<longrightarrow> key = [] \<or> prefix (vault_folder (vd_customer v) @ ''/'') key)"

lemma requireCustomer_cases:
  obtains err where "requireCustomerProfile u d = (Inl err, d)"
  | cid cu where "requireCustomerProfile u d = (Inr (cid, cu), d)" "find_customer u d = Some (cid, cu)"
  by (cases "find_customer u d") (auto simp: requireCustomerProfile_def)

lemma vault_ok_add: "vault_ok d \<Longrightarrow> vault_ok (snd (addDocument e u dto d))"
  by (rule requireCustomer_cases [of u d])
    (auto simp: addDocument_def vault_ok_def Let_def split: option.splits if_splits)

lemma vault_ok_delete: "vault_ok d \<Longrightarrow> vault_ok (snd (deleteDocument u i d))"
  by (rule requireCustomer_cases [of u d])
    (auto simp: deleteDocument_def vault_ok_def split: option.splits if_splits)

end
