(* ===== verification/Service_Properties.thy ===== *)
theory Service_Properties
  imports Sample Sos Recurring Ratings Tracking Vault
begin

text \<open>
  Properties of the services around a case: the emergency alerts of its agents, the schedules it
  starts, the rating it ends with, the track of an assignment and the vault of its customer.
\<close>

section \<open>Emergency alerts\<close>

definition alarmed_agent :: agent where
  "alarmed_agent = \<lparr>ag_user = 2, ag_name = ''Bola'', ag_active = True, ag_score = None, ag_tier = TI_BRONZE, ag_pass_rate = None,
    ag_city = None, ag_state = None\<rparr>"

definition alarm_db :: db where
  "alarm_db = (sample_db CS_IN_PROGRESS)\<lparr>agents := rows [alarmed_agent]\<rparr>"

definition alarm :: "nat option \<Rightarrow> sos_dto" where
  "alarm assignmentId = \<lparr>sd_type = SOS_MEDICAL, sd_severity = SV_HIGH, sd_message = None, sd_latitude = 6, sd_longitude = 3,
     sd_accuracy = None, sd_address = None, sd_case = Some 1, sd_assignment = assignmentId\<rparr>"

text \<open>C27. However the alert operations are mixed, every alert keeps its agent and its case, climbs at most the four
  escalation levels and never comes down, names each channel once, is marked with the time of its
  resolution exactly when it is resolved or a false alarm, and from then on never changes again.\<close>
theorem alerts_sound:
  assumes "alerts_ok d" "sos_step\<^sup>*\<^sup>* d d'"
  shows "alerts_ok d' \<and> (\<forall>i a. find_unique (sos_alerts d) i = Some a \<longrightarrow>
    (\<exists>b. find_unique (sos_alerts d') i = Some b \<and> so_agent b = so_agent a \<and> so_case b = so_case a
       \<and> so_level a \<le> so_level b \<and> (terminal (so_status a) \<longrightarrow> b = a)))"
  using assms(2)
proof (induction rule: rtranclp_induct)
  case base
  with assms(1) show ?case by auto
next
  case (step d1 d2)
  have ok: "alerts_ok d1" using step.IH by blast
  have one: "\<exists>c. find_unique (sos_alerts d2) i = Some c \<and> so_agent c = so_agent b \<and> so_case c = so_case b
      \<and> so_level b \<le> so_level c \<and> (terminal (so_status b) \<longrightarrow> c = b)"
    if b: "find_unique (sos_alerts d1) i = Some b" for i b
  proof (cases rule: sos_step_cases [OF step.hyps(2)])
    case (2 g dto held)
    have "i \<noteq> t_next (sos_alerts d1)" using b ok by (auto simp: alerts_ok_def)
    with b 2 ok show ?thesis by (simp add: alerts_ok_def)
  qed (use b in \<open>auto simp: alert_move_def\<close>)
  show ?case
  proof (intro conjI allI impI)
    show "alerts_ok d2" by (rule alerts_ok_step [OF step.hyps(2) ok])
    fix i a assume "find_unique (sos_alerts d) i = Some a"
    with step.IH obtain b where b: "find_unique (sos_alerts d1) i = Some b" "so_agent b = so_agent a" "so_case b = so_case a"
      "so_level a \<le> so_level b" "terminal (so_status a) \<longrightarrow> b = a" by blast
    from one [OF b(1)] obtain c where "find_unique (sos_alerts d2) i = Some c" "so_agent c = so_agent b" "so_case c = so_case b"
      "so_level b \<le> so_level c" "terminal (so_status b) \<longrightarrow> c = b" by blast
    with b show "\<exists>b. find_unique (sos_alerts d2) i = Some b \<and> so_agent b = so_agent a \<and> so_case b = so_case a
       \<and> so_level a \<le> so_level b \<and> (terminal (so_status a) \<longrightarrow> b = a)" by (intro exI [of _ c]) auto
  qed
qed

definition raised :: db where
  "raised = snd (triggerSosAlert sample_env manager (alarm None) alarm_db)"

lemma alerts_sound_witness:
  "so_level (new_alert 1 (alarm None) True) = 0 \<and>
   (\<exists>b. find_unique (sos_alerts (snd (resolveSosAlert sample_env manager 1 ''safe''
       (snd (escalateSosAlert manager 1 Ch_police raised))))) 1 = Some b \<and> so_agent b = 1 \<and> so_case b = Some 1)"
proof -
  have r: "find_unique (sos_alerts raised) 1 = Some (new_alert 1 (alarm None) True)" by code_simp
  have "alerts_ok alarm_db" by (simp add: alerts_ok_def alarm_db_def sample_defs find_unique_def empty_table_def wf_table_def)
  then have "alerts_ok raised" unfolding raised_def using alerts_sound sos_step.Trigger by blast
  moreover have "sos_step\<^sup>*\<^sup>* raised (snd (resolveSosAlert sample_env manager 1 ''safe'' (snd (escalateSosAlert manager 1 Ch_police raised))))"
    by (meson converse_rtranclp_into_rtranclp r_into_rtranclp sos_step.Escalate sos_step.Resolve)
  ultimately have "\<exists>b. find_unique (sos_alerts (snd (resolveSosAlert sample_env manager 1 ''safe''
       (snd (escalateSosAlert manager 1 Ch_police raised))))) 1 = Some b \<and> so_agent b = so_agent (new_alert 1 (alarm None) True)
       \<and> so_case b = so_case (new_alert 1 (alarm None) True)"
    using alerts_sound r by blast
  then show ?thesis by (simp add: new_alert_def alarm_def)
qed

text \<open>C28. A severe alert of an agent puts the running case it names on hold and is recorded, with the
  administrators notified; when it also names an assignment that does not exist, the caller gets an
  error and there is no alert, but the case has been put on hold all the same.\<close>
theorem sos_trigger_exact:
  fixes e :: env
  assumes "own_agent (act_id ac) d = Some (g, r)" "sd_latitude dto \<in> {-90..90}" "sd_longitude dto \<in> {-180..180}"
    "sd_case dto = Some k" "find_unique (cases d) k = Some c" "sd_severity dto \<in> {SV_HIGH, SV_CRITICAL}"
    "c_status c \<notin> {CS_ON_HOLD, CS_COMPLETED, CS_CLOSED}" "wf_table (cases d)"
  defines "d' \<equiv> snd (triggerSosAlert e ac dto d)"
  shows "(find_unique (cases d') k = Some (c\<lparr>c_status := CS_ON_HOLD, c_held_from := Some (c_status c)\<rparr>))
    \<and> (sd_assignment dto = Some a \<longrightarrow> find_unique (assignments d) a = None \<longrightarrow>
      fst (triggerSosAlert e ac dto d) = Inl (Not_Found STR ''Assignment not found'') \<and> sos_alerts d' = sos_alerts d)
    \<and> (sd_assignment dto = None \<longrightarrow>
      fst (triggerSosAlert e ac dto d) = Inr (t_next (sos_alerts d))
      \<and> sos_alerts d' = insert_row (new_alert g dto True) (sos_alerts d))"
proof (rule conjI [OF _ conjI [OF impI [OF impI] impI]])
  define d1 where "d1 = snd (holdCase ac k (''Emergency SOS alert triggered by field agent ('' @ severity_name (sd_severity dto) @ '')'') d)"
  have hold: "sos_hold ac dto d = (Inr True, d1)"
    using assms(4-7) by (simp add: sos_hold_def hold_triggering_severities_def not_holdable_statuses_def holdCase_def d1_def)
  have held: "cases d1 = update_row k (\<lambda>r. r\<lparr>c_status := CS_ON_HOLD, c_held_from := Some (c_status c)\<rparr>) (cases d)"
    "sos_alerts d1 = sos_alerts d" "assignments d1 = assignments d"
    using assms(5,7) by (simp_all add: holdCase_def add_history_def d1_def)
  have trigger: "triggerSosAlert e ac dto d =
    (if (case sd_assignment dto of None \<Rightarrow> False | Some a \<Rightarrow> find_unique (assignments d) a = None)
     then throw (Not_Found STR ''Assignment not found'') d1
     else return (t_next (sos_alerts d)) (notifyAdmins e (t_next (sos_alerts d)) (ag_name r) (sd_type dto) (sd_severity dto) (Some k)
       (audit_record (Some k) (Some (act_id ac)) By_User STR ''agent.sos_triggered''
          [(STR ''alertId'', J_Id (t_next (sos_alerts d))), (STR ''alertType'', J_Sos_Type (sd_type dto)),
           (STR ''severity'', J_Severity (sd_severity dto)), (STR ''caseHeld'', J_Bool True)]
          (d1\<lparr>sos_alerts := insert_row (new_alert g dto True) (sos_alerts d)\<rparr>))))"
    using assms(1-4) held(2,3) by (simp add: triggerSosAlert_def hold Let_def not_less split: option.split)
  show "find_unique (cases d') k = Some (c\<lparr>c_status := CS_ON_HOLD, c_held_from := Some (c_status c)\<rparr>)"
    using assms(5) held(1) by (simp add: d'_def trigger)
  show "sd_assignment dto = Some a \<Longrightarrow> find_unique (assignments d) a = None \<Longrightarrow>
      fst (triggerSosAlert e ac dto d) = Inl (Not_Found STR ''Assignment not found'') \<and> sos_alerts d' = sos_alerts d"
    using held(2) by (simp add: d'_def trigger)
  show "sd_assignment dto = None \<Longrightarrow> fst (triggerSosAlert e ac dto d) = Inr (t_next (sos_alerts d))
      \<and> sos_alerts d' = insert_row (new_alert g dto True) (sos_alerts d)"
    by (simp add: d'_def trigger)
qed

lemma sos_trigger_exact_witness:
  "let d' = snd (triggerSosAlert sample_env manager (alarm (Some 9)) alarm_db)
   in find_unique (cases d') 1 = Some ((sample_case CS_IN_PROGRESS)\<lparr>c_status := CS_ON_HOLD, c_held_from := Some CS_IN_PROGRESS\<rparr>)
     \<and> sos_alerts d' = sos_alerts alarm_db
     \<and> fst (triggerSosAlert sample_env manager (alarm (Some 9)) alarm_db) = Inl (Not_Found STR ''Assignment not found'')"
proof -
  have agent: "own_agent (act_id manager) alarm_db = Some (1, alarmed_agent)" by code_simp
  have row: "find_unique (cases alarm_db) 1 = Some (sample_case CS_IN_PROGRESS)" "find_unique (assignments alarm_db) 9 = None"
    by (simp_all add: alarm_db_def sample_defs insert_rows_def insert_row_def find_unique_def empty_table_def)
  have status: "c_status (sample_case CS_IN_PROGRESS) = CS_IN_PROGRESS" by (simp add: sample_defs)
  have hyps: "sd_latitude (alarm (Some 9)) \<in> {-90..90}" "sd_longitude (alarm (Some 9)) \<in> {-180..180}"
    "sd_case (alarm (Some 9)) = Some 1" "sd_severity (alarm (Some 9)) \<in> {SV_HIGH, SV_CRITICAL}" "sd_assignment (alarm (Some 9)) = Some 9"
    by (simp_all add: alarm_def)
  have "c_status (sample_case CS_IN_PROGRESS) \<notin> {CS_ON_HOLD, CS_COMPLETED, CS_CLOSED}" "wf_table (cases alarm_db)"
    by (simp add: status) (simp add: alarm_db_def sample_defs insert_rows_def insert_row_def empty_table_def wf_table_def)
  note all = sos_trigger_exact [OF agent hyps(1-3) row(1) hyps(4) this, where e = sample_env]
  show ?thesis using all hyps(5) row(2) unfolding status Let_def by blast
qed

section \<open>Recurring services\<close>

definition weekly :: schedule where
  "weekly = \<lparr>rs_origin = 1, rs_customer = 1, rs_service = ST_PROPERTY_INSPECTION, rs_description = ''Visit'',
     rs_location = ''Lekki, Lagos'', rs_beneficiary = None, rs_property = None, rs_asset = None, rs_cadence = 7,
     rs_next_run = 900, rs_active = True, rs_paused_at = None\<rparr>"

definition weekly_db :: db where
  "weekly_db = (sample_db CS_COMPLETED)\<lparr>schedules := rows [weekly]\<rparr>"

text \<open>Pausing a schedule stops its clock: paused at one time and resumed at any later one, it is the schedule
  it was but for the next run, which is as far from the moment of resuming as it was from the moment of
  pausing, or due at once where it was overdue.\<close>
theorem pause_resume:
  assumes "wf_table (schedules d)" "schedule_of k d = Some (i, s)" "rs_active s" "rs_paused_at s = None"
    "setActive e1 ac1 k False d = (Inr (), d1)"
  shows "\<exists>d2. setActive e2 ac2 k True d1 = (Inr (), d2)
    \<and> find_unique (schedules d2) i = Some (s\<lparr>rs_next_run := now e2 + max 0 (rs_next_run s - now e1)\<rparr>)
    \<and> (\<forall>j. j \<noteq> i \<longrightarrow> find_unique (schedules d2) j = find_unique (schedules d) j)"
proof -
  let ?paused = "\<lambda>r. r\<lparr>rs_active := False, rs_next_run := rs_next_run s, rs_paused_at := Some (now e1)\<rparr>"
  have row: "find_unique (schedules d) i = Some s"
    using assms(1,2) find_first_SomeD by (fastforce simp: schedule_of_def find_unique_def wf_table_def)
  have d1: "schedules d1 = update_row i ?paused (schedules d)"
    using assms(2-5) by (auto simp: setActive_def resumed_at_def)
  then have "schedule_of k d1 = Some (i, ?paused s)"
    using assms(2) by (simp add: schedule_of_def update_row_def find_first_update_many)
  then have "setActive e2 ac2 k True d1 = (Inr (), snd (setActive e2 ac2 k True d1))
    \<and> schedules (snd (setActive e2 ac2 k True d1)) = update_row i (\<lambda>r. r\<lparr>rs_active := True,
        rs_next_run := now e2 + max 0 (rs_next_run s - now e1), rs_paused_at := None\<rparr>) (schedules d1)"
    by (simp add: setActive_def resumed_at_def)
  with row d1 assms(3,4) show ?thesis
    by (intro exI [of _ "snd (setActive e2 ac2 k True d1)"]) simp
qed

lemma pause_resume_witness:
  "\<exists>d2. setActive (sample_env\<lparr>now := 5000\<rparr>) manager 1 True (snd (setActive (sample_env\<lparr>now := 400\<rparr>) manager 1 False weekly_db)) = (Inr (), d2)
    \<and> find_unique (schedules d2) 1 = Some (weekly\<lparr>rs_next_run := 5500\<rparr>)"
proof -
  have w: "wf_table (schedules weekly_db)" "schedule_of 1 weekly_db = Some (1, weekly)"
    by (simp_all add: weekly_db_def weekly_def schedule_of_def sample_defs insert_rows_def insert_row_def empty_table_def find_first_def wf_table_def)
  have "setActive (sample_env\<lparr>now := 400\<rparr>) manager 1 False weekly_db
      = (Inr (), snd (setActive (sample_env\<lparr>now := 400\<rparr>) manager 1 False weekly_db))"
    using w(2) [unfolded One_nat_def] by (simp add: setActive_def weekly_def)
  from pause_resume [OF w _ _ this, of "sample_env\<lparr>now := 5000\<rparr>" manager] show ?thesis
    by (auto simp: weekly_def)
qed

text \<open>The daily sweep ends, and treats every schedule that was due alike: each spawns exactly one case and moves on by
  its own cadence, no other schedule spawns a case or moves, and the answer is the number of schedules
  that were due; so a second sweep at the same time finds none of them due again.\<close>
theorem schedule_sweep_exact:
  assumes "wf_table (schedules d)"
    "\<forall>i s. find_unique (schedules d) i = Some s \<longrightarrow> runnable s d \<and> 0 < rs_cadence s"
  shows "\<exists>d'. processDueSchedules e d = (Inr (length (due_schedules e d)), d') \<and> due_schedules e d' = []
    \<and> (\<forall>i s. find_unique (schedules d) i = Some s \<longrightarrow>
        (if rs_active s \<and> rs_next_run s \<le> now e
         then find_unique (schedules d') i = Some (s\<lparr>rs_next_run := now e + rs_cadence s * day_ms\<rparr>) \<and> spawned i d' = spawned i d + 1
         else find_unique (schedules d') i = Some s \<and> spawned i d' = spawned i d))"
proof -
  let ?due = "due_schedules e d"
  note mem = due_schedules_iff(1) [OF assms(1), where e = e] and dist = due_schedules_iff(2) [OF assms(1), of e]
  have "\<forall>(i, s) \<in> set ?due. runnable s d" using assms(2) mem by blast
  from schedule_loop_effect [OF this dist, of e] obtain d' where d': "schedule_loop e ?due d = (Inr (), d')"
    "\<forall>i. find_unique (schedules d') i = (case map_of ?due i of None \<Rightarrow> find_unique (schedules d) i
       | Some s \<Rightarrow> map_option (\<lambda>r. r\<lparr>rs_next_run := now e + rs_cadence s * day_ms\<rparr>) (find_unique (schedules d) i))"
    "\<forall>i. spawned i d' = spawned i d + (if i \<in> fst ` set ?due then 1 else 0)" by blast
  have of: "map_of ?due i = Some s \<longleftrightarrow> (i, s) \<in> set ?due" for i s using dist by simp
  have each: "if rs_active s \<and> rs_next_run s \<le> now e
         then find_unique (schedules d') i = Some (s\<lparr>rs_next_run := now e + rs_cadence s * day_ms\<rparr>) \<and> spawned i d' = spawned i d + 1
         else find_unique (schedules d') i = Some s \<and> spawned i d' = spawned i d" if s: "find_unique (schedules d) i = Some s" for i s
  proof (cases "rs_active s \<and> rs_next_run s \<le> now e")
    case True
    with s mem have "(i, s) \<in> set ?due" by blast
    moreover from this have "i \<in> fst ` set ?due" by force
    ultimately show ?thesis using True d' of [of i s] s by simp
  next
    case False
    with s mem have "i \<notin> fst ` set ?due" by force
    moreover from this have "map_of ?due i = None" by (simp add: map_of_eq_None_iff)
    ultimately show ?thesis using False d' s by simp
  qed
  have gone: "find_unique (schedules d') i = None" if "find_unique (schedules d) i = None" for i
    using d'(2) that by (auto split: option.split)
  have later: "\<not> (rs_active s \<and> rs_next_run s \<le> now e)" if s: "find_unique (schedules d') i = Some s" for i s
  proof -
    from gone s obtain r where r: "find_unique (schedules d) i = Some r" by (cases "find_unique (schedules d) i") auto
    with assms(2) have "0 < rs_cadence r * day_ms" by (simp add: day_ms_def)
    with each [OF r] s show ?thesis by (auto split: if_splits)
  qed
  have "wf_table (schedules d')" using schedule_loop_wf [OF assms(1), of e ?due] d'(1) by simp
  with later have "due_schedules e d' = []"
    by (auto simp: due_schedules_def find_many_def filter_empty_conv find_unique_def wf_table_def)
  then show ?thesis using d'(1) each by (intro exI [of _ d']) (simp add: processDueSchedules_def Let_def)
qed

lemma schedule_sweep_exact_witness:
  "\<exists>d'. processDueSchedules sample_env weekly_db = (Inr 1, d') \<and> due_schedules sample_env d' = []
    \<and> find_unique (schedules d') 1 = Some (weekly\<lparr>rs_next_run := 1000 + 7 * day_ms\<rparr>)"
proof -
  have rows: "wf_table (schedules weekly_db)" "\<And>k. find_unique (schedules weekly_db) k = (if k = 1 then Some weekly else None)"
    "find_unique (customers weekly_db) 1 = Some sample_customer"
    by (simp_all add: weekly_db_def sample_defs insert_rows_def insert_row_def empty_table_def find_unique_def wf_table_def)
  have one: "length (due_schedules sample_env weekly_db) = 1" by code_simp
  have w: "rs_customer weekly = 1" "0 < rs_cadence weekly" "rs_active weekly" "rs_next_run weekly \<le> now sample_env"
    "rs_cadence weekly = 7" "now sample_env = 1000"
    by (simp_all add: weekly_def sample_env_def)
  have "\<forall>i s. find_unique (schedules weekly_db) i = Some s \<longrightarrow> runnable s weekly_db \<and> 0 < rs_cadence s"
    using rows w by (simp add: runnable_def links_live_def weekly_def split: if_splits)
  from schedule_sweep_exact [OF rows(1) this, of sample_env] show ?thesis
    unfolding one using rows(2) [of 1] w by auto
qed

section \<open>Ratings\<close>

text \<open>A completed case is rated at most once; the rating is stored as it was given, and it leaves every field agent
  of the case with the average of the stars of all the cases it worked on and with the tier that goes with
  it, both between one and five stars when the ratings are.\<close>
theorem rating_rolls_up:
  assumes "find_unique (cases d) k = Some c" "c_status c \<in> {CS_COMPLETED, CS_CLOSED}" "\<not> exists_row (\<lambda>_ r. rt_case r = k) (ratings d)"
    and fk: "\<forall>(j, a) \<in> set (find_many (\<lambda>_ a. as_case a = k) (assignments d)).
      (\<forall>i. as_agent a = Some i \<longrightarrow> find_unique (agents d) i \<noteq> None)
      \<and> (\<forall>i. as_provider a = Some i \<longrightarrow> find_unique (providers d) i \<noteq> None)"
    and stars: "\<forall>(j, r) \<in> set (t_rows (ratings d)). rt_stars r \<in> {1..5}" "stars \<in> {1..5}"
  shows "\<exists>d'. rateCase ac k stars comment d = (Inr (t_next (ratings d)), d')
    \<and> ratings d' = insert_row \<lparr>rt_case = k, rt_by = act_id ac, rt_stars = stars, rt_comment = comment\<rparr> (ratings d)
    \<and> (\<forall>(j, a) \<in> set (find_many (\<lambda>_ a. as_case a = k) (assignments d)). \<forall>i g.
        as_role a = AR_FIELD_AGENT \<longrightarrow> as_agent a = Some i \<longrightarrow> find_unique (agents d') i = Some g \<longrightarrow>
        score_current i d' \<and> (\<exists>m. ag_score g = Some m \<and> 1 \<le> m \<and> m \<le> 5))
    \<and> rateCase ac2 k stars2 comment2 d' = (Inl (Conflict STR ''This case has already been rated''), d')"
proof -
  let ?row = "\<lparr>rt_case = k, rt_by = act_id ac, rt_stars = stars, rt_comment = comment\<rparr>"
  let ?as = "map snd (find_many (\<lambda>_ a. as_case a = k) (assignments d))"
  define d1 where "d1 = audit_record (Some k) (Some (act_id ac)) By_User STR ''case.rated''
     [(STR ''stars'', J_Num (of_int stars)), (STR ''ratingId'', J_Id (t_next (ratings d)))]
     (d\<lparr>ratings := insert_row ?row (ratings d)\<rparr>)"
  have "\<forall>a \<in> set ?as. (\<forall>i. as_agent a = Some i \<longrightarrow> find_unique (agents d1) i \<noteq> None)
      \<and> (\<forall>i. as_provider a = Some i \<longrightarrow> find_unique (providers d1) i \<noteq> None)"
    using fk by (auto simp: d1_def)
  from roll_up_current [OF this] obtain t p where roll: "roll_up ?as d1 = (Inr (), d1\<lparr>agents := t, providers := p\<rparr>)"
    and current: "\<And>i. score_current i d1 \<or> (\<exists>a \<in> set ?as. as_role a = AR_FIELD_AGENT \<and> as_agent a = Some i)
       \<Longrightarrow> score_current i (d1\<lparr>agents := t, providers := p\<rparr>)" by blast
  define d2 where "d2 = d1\<lparr>agents := t, providers := p\<rparr>"
  have rate: "rateCase ac k stars comment d = (Inr (t_next (ratings d)), d2)"
    using assms(1-3) roll by (simp add: rateCase_def Let_def d2_def flip: d1_def)
  have r2: "ratings d2 = insert_row ?row (ratings d)" "assignments d2 = assignments d" "cases d2 = cases d"
    by (simp_all add: d2_def d1_def)
  have agent: "score_current i d2 \<and> (\<exists>m. ag_score g = Some m \<and> 1 \<le> m \<and> m \<le> 5)"
    if a: "(j, a) \<in> set (find_many (\<lambda>_ a. as_case a = k) (assignments d))" "as_role a = AR_FIELD_AGENT" "as_agent a = Some i"
      and g: "find_unique (agents d2) i = Some g" for j a i g
  proof -
    have sc: "score_current i d2" unfolding d2_def by (rule current) (use a in force)
    let ?xs = "stars_of (\<lambda>a. as_agent a = Some i) d2"
    have "exists_row (\<lambda>_ a. as_case a = k \<and> as_agent a = Some i) (assignments d)"
      using a by (auto simp: find_first_None_iff find_many_def)
    then have "stars \<in> set ?xs" by (force simp: stars_of_def find_many_def insert_row_def r2)
    moreover have "\<forall>x \<in> set ?xs. 1 \<le> x \<and> x \<le> 5"
      using stars by (auto simp: stars_of_def find_many_def insert_row_def r2)
    ultimately show ?thesis using sc g average_bounds [of ?xs]
      by (auto simp: score_current_def average_def)
  qed
  have "rateCase ac2 k stars2 comment2 d2 = (Inl (Conflict STR ''This case has already been rated''), d2)"
  proof -
    have "exists_row (\<lambda>_ r. rt_case r = k) (ratings d2)"
      by (simp add: r2 find_first_insert_row split: option.split)
    then show ?thesis using assms(1,2) by (simp add: rateCase_def r2(3))
  qed
  with rate r2(1) agent show ?thesis by (intro exI [of _ d2]) blast
qed

definition rated_db :: db where
  "rated_db = (sample_db CS_COMPLETED)\<lparr>agents := rows [alarmed_agent], assignments := rows [\<lparr>as_case = 1, as_role = AR_FIELD_AGENT,
     as_agent = Some 1, as_provider = None, as_status = AS_ACCEPTED, as_scheduled_for = None, as_accepted_at = Some 10,
     as_check_in_at = None, as_location = None, as_accuracy = None, as_geofence = None, as_distance = None,
     as_completed_at = None, as_created = 5\<rparr>]\<rparr>"

lemma rating_rolls_up_witness:
  "\<exists>d'. rateCase client 1 4 None rated_db = (Inr 1, d')
    \<and> rateCase client 1 5 None d' = (Inl (Conflict STR ''This case has already been rated''), d')"
  using rating_rolls_up [of rated_db 1 "sample_case CS_COMPLETED" 4 client None client 5 None]
  by (auto simp: rated_db_def sample_defs insert_rows_def insert_row_def empty_table_def find_unique_def find_many_def find_first_def)

section \<open>Tracks\<close>

text \<open>The track of an assignment holds exactly its pings, in the order they were captured in whatever order they
  arrived; its length and duration are never negative, it is no longer than half the equator per
  leg, and readings too inaccurate to rely on add nothing to it.\<close>
theorem track_sound:
  assumes "getAssignmentTrack ac i d = Inr tr" "\<forall>(j, p) \<in> set (t_rows (pings d)). on_earth p"
  shows "mset (tr_pings tr) = mset (map snd (find_many (\<lambda>_ p. lp_assignment p = i) (pings d))) \<and> sorted (map lp_captured (tr_pings tr))
    \<and> tr_points tr = length (tr_pings tr) \<and> 0 \<le> tr_duration tr \<and> 0 \<le> tr_distance tr
    \<and> tr_distance tr \<le> round_meters (real (length (tr_pings tr) - 1) * (pi * earth_radius_meters))
    \<and> ((\<forall>p \<in> set (tr_pings tr). \<not> reliable p) \<longrightarrow> tr_distance tr = 0)"
proof -
  let ?ps = "assignment_pings i d"
  have tr: "tr_pings tr = ?ps" "tr_points tr = length ?ps" "tr_distance tr = round_meters (track_length ?ps)"
    "tr_duration tr = (if length ?ps \<ge> 2
       then \<lfloor>(of_int (lp_captured (last ?ps) - lp_captured (hd ?ps)) / 1000 + 1 / 2 :: rat)\<rfloor> else 0)"
    using assms(1) by (auto simp: getAssignmentTrack_def Let_def split: option.splits if_splits)
  have sorted: "sorted (map lp_captured ?ps)" by (simp add: assignment_pings_def)
  have earth: "\<forall>p \<in> set ?ps. on_earth p" using assms(2) by (auto simp: assignment_pings_def find_many_def)
  have "lp_captured (hd ?ps) \<le> lp_captured (last ?ps)" if "length ?ps \<ge> 2"
    using sorted that last_in_set [of "tl ?ps"] by (cases ?ps) (auto split: if_splits)
  then have "0 \<le> tr_duration tr" by (simp add: tr(4))
  moreover have "0 \<le> tr_distance tr"
    "tr_distance tr \<le> round_meters (real (length ?ps - 1) * (pi * earth_radius_meters))"
    using track_bounds [OF earth] by (simp_all add: tr(3) round_meters_def floor_mono)
  moreover have "(\<forall>p \<in> set ?ps. \<not> reliable p) \<longrightarrow> tr_distance tr = 0"
    using unreliable_nothing by (simp add: tr(3) round_meters_def)
  ultimately show ?thesis using sorted tr by (simp add: assignment_pings_def)
qed

definition tracked_db :: db where
  "tracked_db = rated_db\<lparr>pings := rows [
     \<lparr>lp_assignment = 1, lp_agent = 1, lp_latitude = 6, lp_longitude = 3, lp_accuracy = Some 10, lp_captured = 9000\<rparr>,
     \<lparr>lp_assignment = 1, lp_agent = 1, lp_latitude = 7, lp_longitude = 3, lp_accuracy = Some 10, lp_captured = 4000\<rparr>]\<rparr>"

lemma track_sound_witness:
  "\<exists>tr. getAssignmentTrack \<lparr>act_id = 9, act_role = R_ADMIN\<rparr> 1 tracked_db = Inr tr
     \<and> length (tr_pings tr) = 2 \<and> sorted (map lp_captured (tr_pings tr)) \<and> 0 \<le> tr_distance tr"
proof -
  have row: "find_unique (assignments tracked_db) 1 \<noteq> None"
    by (simp add: tracked_db_def rated_db_def sample_defs insert_rows_def insert_row_def empty_table_def find_unique_def)
  then obtain tr where tr: "getAssignmentTrack \<lparr>act_id = 9, act_role = R_ADMIN\<rparr> 1 tracked_db = Inr tr"
    by (auto simp: getAssignmentTrack_def Let_def)
  have "\<forall>(j, p) \<in> set (t_rows (pings tracked_db)). on_earth p"
    by (simp add: tracked_db_def sample_defs insert_rows_def insert_row_def empty_table_def on_earth_def)
  note sound = track_sound [OF tr this]
  then have "length (tr_pings tr) = length (map snd (find_many (\<lambda>_ p. lp_assignment p = 1) (pings tracked_db)))"
    by (metis mset_eq_length)
  also have "\<dots> = 2"
    by (simp add: tracked_db_def sample_defs insert_rows_def insert_row_def empty_table_def find_many_def)
  finally show ?thesis using tr sound by blast
qed

section \<open>The vault\<close>

text \<open>A customer sees in the vault exactly the documents of the account, every stored object lies in the folder of its
  owner, and no customer can add to, or remove from, what another customer sees.\<close>
theorem vaults_separate:
  assumes "vault_ok d" "find_customer u d = Some (c, cu)" "find_customer v d = Some (c', cu')" "c' \<noteq> c"
  shows "(\<exists>xs. listDocuments u d = (Inr xs, d) \<and>
      (\<forall>i r. (i, r) \<in> set xs \<longleftrightarrow> find_unique (vault_documents d) i = Some r \<and> vd_customer r = c) \<and>
      (\<forall>(i, r) \<in> set xs. \<forall>key. vd_storage_key r = Some key \<longrightarrow> key = [] \<or> prefix (vault_folder c @ ''/'') key))
    \<and> (fst (listDocuments u (snd (addDocument e v dto d))) = fst (listDocuments u d))
    \<and> (fst (listDocuments u (snd (deleteDocument v i d))) = fst (listDocuments u d))"
proof (rule conjI [OF _ conjI [OF _ _]])
  have list: "listDocuments u d' = (Inr (rev (find_many (\<lambda>_ r. vd_customer r = c) (vault_documents d'))), d')"
    if "customers d' = customers d" for d'
    using assms(2) that by (simp add: listDocuments_def requireCustomerProfile_def find_customer_def)
  have mem: "(i, r) \<in> set (find_many (\<lambda>_ r. vd_customer r = c) (vault_documents d))
      \<longleftrightarrow> find_unique (vault_documents d) i = Some r \<and> vd_customer r = c" for i r
    using assms(1) by (auto simp: vault_ok_def find_many_def find_unique_def wf_table_def)
  show "\<exists>xs. listDocuments u d = (Inr xs, d) \<and>
      (\<forall>i r. (i, r) \<in> set xs \<longleftrightarrow> find_unique (vault_documents d) i = Some r \<and> vd_customer r = c) \<and>
      (\<forall>(i, r) \<in> set xs. \<forall>key. vd_storage_key r = Some key \<longrightarrow> key = [] \<or> prefix (vault_folder c @ ''/'') key)"
    using list [of d] mem assms(1) by (fastforce simp: vault_ok_def)
  have req: "requireCustomerProfile v d = (Inr (c', cu'), d)" using assms(3) by (simp add: requireCustomerProfile_def)
  have "customers (snd (addDocument e v dto d)) = customers d"
    "find_many (\<lambda>_ r. vd_customer r = c) (vault_documents (snd (addDocument e v dto d))) = find_many (\<lambda>_ r. vd_customer r = c) (vault_documents d)"
    using assms(4) by (auto simp: addDocument_def req Let_def find_many_def insert_row_def split: option.split)
  then show "fst (listDocuments u (snd (addDocument e v dto d))) = fst (listDocuments u d)"
    using list by simp
  have "customers (snd (deleteDocument v i d)) = customers d"
    "find_many (\<lambda>_ r. vd_customer r = c) (vault_documents (snd (deleteDocument v i d))) = find_many (\<lambda>_ r. vd_customer r = c) (vault_documents d)"
  proof -
    show "customers (snd (deleteDocument v i d)) = customers d" by (simp add: deleteDocument_def req split: option.split)
    have "filter (\<lambda>(j, r). vd_customer r = c) (filter (\<lambda>(j, _). j \<noteq> i) (t_rows (vault_documents d)))
        = filter (\<lambda>(j, r). vd_customer r = c) (t_rows (vault_documents d))"
      if "find_unique (vault_documents d) i = Some w" "vd_customer w = c'" for w
      using that assms(1,4) unfolding filter_filter
      by (intro filter_cong) (auto simp: vault_ok_def find_unique_def wf_table_def dest: eq_key_imp_eq_value)
    then show "find_many (\<lambda>_ r. vd_customer r = c) (vault_documents (snd (deleteDocument v i d)))
        = find_many (\<lambda>_ r. vd_customer r = c) (vault_documents d)"
      by (simp add: deleteDocument_def req find_many_def delete_row_def split: option.split)
  qed
  then show "fst (listDocuments u (snd (deleteDocument v i d))) = fst (listDocuments u d)"
    using list by simp
qed

definition vault_db :: db where
  "vault_db = sample_people\<lparr>customers := rows [sample_customer, sample_customer\<lparr>cu_user := 2\<rparr>],
     vault_documents := rows [\<lparr>vd_customer = 1, vd_name = ''deed'', vd_category = VC_TITLE_DEED, vd_storage_key = None\<rparr>]\<rparr>"

lemma vaults_separate_witness:
  "fst (listDocuments 1 (snd (deleteDocument 2 1 vault_db)))
    = Inr [(1, \<lparr>vd_customer = 1, vd_name = ''deed'', vd_category = VC_TITLE_DEED, vd_storage_key = None\<rparr>)]"
proof -
  have "vault_ok vault_db" "find_customer 1 vault_db = Some (1, sample_customer)" "find_customer 2 vault_db = Some (2, sample_customer\<lparr>cu_user := 2\<rparr>)"
    by (simp_all add: vault_ok_def find_customer_def vault_db_def sample_defs insert_rows_def insert_row_def empty_table_def
        find_unique_def find_first_def wf_table_def)
  from vaults_separate [OF this, THEN conjunct2, THEN conjunct2, of 1] show ?thesis
    by (simp add: listDocuments_def requireCustomerProfile_def find_customer_def vault_db_def sample_defs insert_rows_def
        insert_row_def empty_table_def find_first_def find_many_def)
qed

end
