(* ===== verification/Totp.thy ===== *)
theory Totp
  imports Schema
begin

text \<open>
  One-time passwords (\<open>src/backend/src/auth/totp.ts\<close>): the base32 text of a secret, and the codes of RFC
  4226 and 6238. JavaScript's bitwise operators work on 32-bit integers, \<open>>>>\<close> without sign, so the
  accumulators are 32-bit words whose upper bits are shifted out unmasked. HMAC-SHA1 is the
  parameter \<open>hmac\<close>; its digest has 20 bytes.
\<close>

section \<open>Base32\<close>

definition base32_alphabet :: string where
  "base32_alphabet = ''ABCDEFGHIJKLMNOPQRSTUVWXYZ234567''"

definition base32_char :: "32 word \<Rightarrow> char" where
  "base32_char i = base32_alphabet ! unat i"

text \<open>The inner loop of the encoder: five bits at a time, from the top of the pending ones.\<close>

function drain :: "32 word \<Rightarrow> nat \<Rightarrow> 32 word list \<times> nat" where
  "drain value bits = (if bits \<ge> 5
     then (let (ds, rest) = drain value (bits - 5) in (and (drop_bit (bits - 5) value) 31 # ds, rest))
     else ([], bits))"
  by pat_completeness auto

termination by (relation "measure (\<lambda>(_, bits). bits)") auto

declare drain.simps [simp del]

fun encode_loop :: "32 word \<Rightarrow> nat \<Rightarrow> 8 word list \<Rightarrow> 32 word list" where
  "encode_loop value bits [] = (if bits > 0 then [and (push_bit (5 - bits) value) 31] else [])"
| "encode_loop value bits (byte # rest) =
     (let value' = or (push_bit 8 value) (ucast byte); (ds, bits') = drain value' (bits + 8)
      in ds @ encode_loop value' bits' rest)"

definition base32Encode :: "8 word list \<Rightarrow> string" where
  "base32Encode buffer = map base32_char (encode_loop 0 0 buffer)"

definition js_upper :: "string \<Rightarrow> string" where
  "js_upper s = map (\<lambda>c. if 97 \<le> (of_char c :: nat) \<and> (of_char c :: nat) \<le> 122
                         then char_of ((of_char c :: nat) - 32) else c) s"

text \<open>The position of the first occurrence, as \<open>indexOf\<close> finds it.\<close>

fun index_of :: "string \<Rightarrow> char \<Rightarrow> nat option" where
  "index_of [] c = None"
| "index_of (x # xs) c = (if x = c then Some 0 else map_option Suc (index_of xs c))"

fun decode_loop :: "32 word \<Rightarrow> nat \<Rightarrow> string \<Rightarrow> 8 word list" where
  "decode_loop value bits [] = []"
| "decode_loop value bits (c # rest) = (case index_of base32_alphabet c of
     None \<Rightarrow> decode_loop value bits rest
   | Some i \<Rightarrow>
     (let value' = or (push_bit 5 value) (word_of_nat i); bits' = bits + 5
      in if bits' \<ge> 8 then ucast (and (drop_bit (bits' - 8) value') 255) # decode_loop value' (bits' - 8) rest
         else decode_loop value' bits' rest))"

definition base32Decode :: "string \<Rightarrow> 8 word list" where
  "base32Decode encoded = decode_loop 0 0
     (filter (\<lambda>c. c \<in> set ''ABCDEFGHIJKLMNOPQRSTUVWXYZ234567'') (js_upper encoded))"

section \<open>Codes\<close>

definition time_step_seconds :: int where
  "time_step_seconds = 30"

definition code_digits :: nat where
  "code_digits = 6"

text \<open>The counter as eight bytes, most significant first.\<close>

definition counter_bytes :: "int \<Rightarrow> 8 word list" where
  "counter_bytes counter = map (\<lambda>i. ucast (drop_bit (8 * i) (word_of_int counter :: 64 word))) (rev [0..<8])"

definition dynamic_code :: "8 word list \<Rightarrow> 32 word" where
  "dynamic_code hmac =
     (let offset = unat (and (last hmac) 15); byte_at = (\<lambda>i. ucast (hmac ! (offset + i)) :: 32 word)
      in or (or (or (push_bit 24 (and (byte_at 0) 127)) (push_bit 16 (and (byte_at 1) 255))) (push_bit 8 (and (byte_at 2) 255)))
           (and (byte_at 3) 255))"

definition hotp :: "(8 word list \<Rightarrow> 8 word list \<Rightarrow> 8 word list) \<Rightarrow> 8 word list \<Rightarrow> int \<Rightarrow> string" where
  "hotp hmac secret counter =
     pad_start code_digits (CHR ''0'')
       (decimal (nat (sint (dynamic_code (hmac secret (counter_bytes counter))) mod 10 ^ code_digits)))"

definition time_counter :: "int \<Rightarrow> int" where
  "time_counter atMs = atMs div (1000 * time_step_seconds)"

definition generateTotpCode :: "(8 word list \<Rightarrow> 8 word list \<Rightarrow> 8 word list) \<Rightarrow> string \<Rightarrow> int \<Rightarrow> string" where
  "generateTotpCode hmac base32Secret atMs = hotp hmac (base32Decode base32Secret) (time_counter atMs)"

definition verifyTotpCode :: "(8 word list \<Rightarrow> 8 word list \<Rightarrow> 8 word list) \<Rightarrow> string \<Rightarrow> string \<Rightarrow> int \<Rightarrow> bool" where
  "verifyTotpCode hmac base32Secret code atMs =
     (let normalized = filter (\<lambda>c. \<not> js_space c) code
      in list_ex (\<lambda>drift. generateTotpCode hmac base32Secret (atMs + drift * time_step_seconds * 1000) = normalized)
           [0, -1, 1])"

definition generateTotpSecret :: "8 word list \<Rightarrow> string" where
  "generateTotpSecret random20 = base32Encode random20"

section \<open>Bits\<close>

text \<open>The lowest \<open>n\<close> bits of a word, most significant first.\<close>

definition low_bits :: "nat \<Rightarrow> 'a :: len word \<Rightarrow> bool list" where
  "low_bits n w = map (bit w) (rev [0..<n])"

lemma length_low_bits [simp]: "length (low_bits n w) = n"
  by (simp add: low_bits_def)

lemma low_bits_0 [simp]: "low_bits 0 w = []"
  by (simp add: low_bits_def)

lemma nth_low_bits: "i < n \<Longrightarrow> low_bits n w ! i = bit w (n - 1 - i)"
  by (simp add: low_bits_def rev_nth)

lemma low_bits_shift:
  fixes v :: "32 word" and x :: "'a :: len word"
  assumes "n + k \<le> 32" "\<And>i. k \<le> i \<Longrightarrow> \<not> bit x i"
  shows "low_bits (n + k) (or (push_bit k v) (ucast x)) = low_bits n v @ low_bits k x"
proof (rule nth_equalityI)
  fix i assume "i < length (low_bits (n + k) (or (push_bit k v) (ucast x)))"
  then have i: "i < n + k" by simp
  show "low_bits (n + k) (or (push_bit k v) (ucast x)) ! i = (low_bits n v @ low_bits k x) ! i"
  proof (cases "i < n")
    case True
    then have "k \<le> n + k - 1 - i" "n + k - 1 - i - k = n - 1 - i" "n + k - 1 - i < 32" using assms(1) by auto
    with True assms(2) show ?thesis by (simp add: nth_low_bits nth_append bit_simps)
  next
    case False
    then have "n + k - 1 - i < k" "k - 1 - (i - n) = n + k - 1 - i" "n + k - 1 - i < 32" "i - n < k" using i assms(1) by auto
    with False show ?thesis by (simp add: nth_low_bits nth_append bit_simps)
  qed
qed simp

lemma low_bits_take:
  fixes v :: "32 word"
  assumes "k \<le> n" "n \<le> 32"
  shows "low_bits k (and (drop_bit (n - k) v) (mask k)) = take k (low_bits n v)" "low_bits (n - k) v = drop k (low_bits n v)"
proof -
  show "low_bits k (and (drop_bit (n - k) v) (mask k)) = take k (low_bits n v)"
  proof (rule nth_equalityI)
    fix i assume "i < length (low_bits k (and (drop_bit (n - k) v) (mask k)))"
    then have "i < k" "n - k + (k - 1 - i) = n - 1 - i" "k - 1 - i < k" "n - 1 - i < 32" "k - 1 - i < 32" using assms by auto
    then show "low_bits k (and (drop_bit (n - k) v) (mask k)) ! i = take k (low_bits n v) ! i"
      using assms by (simp add: nth_low_bits bit_simps)
  qed (use assms in simp)
  show "low_bits (n - k) v = drop k (low_bits n v)"
    by (rule nth_equalityI) (use assms in \<open>auto simp: nth_low_bits\<close>)
qed

lemma low_bits_inject: "low_bits 8 x = low_bits 8 y \<Longrightarrow> x = y" for x y :: "8 word"
proof (rule bit_word_eqI)
  fix i assume eq: "low_bits 8 x = low_bits 8 y" and "i < LENGTH(8)"
  then have i: "7 - i < 8" "8 - 1 - (7 - i) = i" by simp_all
  have "low_bits 8 x ! (7 - i) = bit x i" "low_bits 8 y ! (7 - i) = bit y i"
    using nth_low_bits [OF i(1)] i(2) by simp_all
  with eq show "bit x i = bit y i" by simp
qed

lemma bytes_unique:
  assumes "concat (map (low_bits 8) xs) @ a = concat (map (low_bits 8) ys) @ b" "length a < 8" "length b < 8"
  shows "xs = (ys :: 8 word list)"
  using assms
proof (induction xs arbitrary: ys)
  case Nil
  then have "length (concat (map (low_bits 8) ys)) + length b < 8" by (metis append_Nil concat.simps(1) length_append list.simps(8))
  then show ?case by (cases ys) simp_all
next
  case (Cons x xs)
  show ?case
  proof (cases ys)
    case Nil
    from Cons.prems(1) have "length (concat (map (low_bits 8) (x # xs)) @ a) = length b" by (simp add: Nil)
    with Cons.prems(3) show ?thesis by simp
  next
    case (Cons y zs)
    from Cons.prems(1) have "low_bits 8 x = low_bits 8 y" "concat (map (low_bits 8) xs) @ a = concat (map (low_bits 8) zs) @ b"
      by (simp_all add: Cons)
    then show ?thesis using Cons.IH [of zs] Cons.prems(2,3) Cons low_bits_inject by simp
  qed
qed

section \<open>Decoding undoes encoding\<close>

definition digit :: "32 word \<Rightarrow> bool" where
  "digit d \<longleftrightarrow> take_bit 5 d = d"

lemma masks: "(31 :: 32 word) = mask 5" "(255 :: 32 word) = mask 8"
  by (simp_all add: mask_eq_exp_minus_1)

lemma digit_mask [simp]: "digit (and x 31)"
  by (simp add: digit_def masks flip: take_bit_eq_mask)

lemma digit_bits: "digit d \<Longrightarrow> 5 \<le> i \<Longrightarrow> \<not> bit d i"
  unfolding digit_def by (metis bit_take_bit_iff linorder_not_less)

lemma digit_less:
  assumes "digit d" shows "unat d < 32"
proof -
  have "unat (take_bit 5 d) < 2 ^ 5" unfolding unsigned_take_bit_eq by (rule take_bit_nat_less_exp)
  with assms show ?thesis by (simp add: digit_def)
qed

lemma byte_bits: "8 \<le> i \<Longrightarrow> \<not> bit byte i" for byte :: "8 word"
  using bit_imp_le_length [of byte i] by auto

lemma low_byte: "low_bits 8 (ucast w :: 8 word) = low_bits 8 w" for w :: "32 word"
proof (rule nth_equalityI)
  fix i assume "i < length (low_bits 8 (ucast w :: 8 word))"
  then have "i < 8" "7 - i < 8" by simp_all
  then show "low_bits 8 (ucast w :: 8 word) ! i = low_bits 8 w ! i" by (simp add: nth_low_bits bit_simps)
qed simp

lemma drain_bits:
  "drain v b = (ds, r) \<Longrightarrow> b \<le> 32 \<Longrightarrow>
     concat (map (low_bits 5) ds) @ low_bits r v = low_bits b v \<and> r < 5 \<and> (\<forall>d \<in> set ds. digit d)"
proof (induction v b arbitrary: ds rule: drain.induct)
  case (1 v b)
  show ?case
  proof (cases "b \<ge> 5")
    case True
    obtain ds' r' where rest: "drain v (b - 5) = (ds', r')" by fastforce
    with 1(2) True have ds: "ds = and (drop_bit (b - 5) v) 31 # ds'" "r = r'" by (simp_all add: drain.simps [of v b])
    have "low_bits 5 (and (drop_bit (b - 5) v) 31) @ low_bits (b - 5) v = low_bits b v"
      unfolding masks using low_bits_take [of 5 b v] True 1(3) append_take_drop_id by metis
    with 1(1) [OF True, of ds'] rest 1(3) ds show ?thesis by simp
  qed (use 1(2) in \<open>simp add: drain.simps [of v b]\<close>)
qed

lemma encode_bits:
  assumes "b < 5"
  shows "\<exists>k < 5. concat (map (low_bits 5) (encode_loop v b xs)) = low_bits b v @ concat (map (low_bits 8) xs) @ replicate k False
    \<and> (\<forall>d \<in> set (encode_loop v b xs). digit d)"
  using assms
proof (induction v b xs rule: encode_loop.induct)
  case (1 v b)
  show ?case
  proof (cases "b > 0")
    case True
    have zeros: "low_bits (5 - b) (0 :: 32 word) = replicate (5 - b) False"
      by (rule nth_equalityI) (simp_all add: nth_low_bits)
    have "low_bits 5 (and (push_bit (5 - b) v) 31) = low_bits 5 (push_bit (5 - b) v)"
      using low_bits_take(1) [of 5 5 "push_bit (5 - b) v"] by (simp add: masks)
    also have "\<dots> = low_bits b v @ replicate (5 - b) False"
      using low_bits_shift [of b "5 - b" "0 :: 32 word" v] 1 by (simp add: zeros)
    finally show ?thesis using True by (intro exI [of _ "5 - b"]) simp
  qed (use 1 in auto)
next
  case (2 v b byte rest)
  let ?v = "or (push_bit 8 v) (ucast byte) :: 32 word"
  obtain ds r where d: "drain ?v (b + 8) = (ds, r)" by fastforce
  from drain_bits [OF d] 2(2) have ds: "concat (map (low_bits 5) ds) @ low_bits r ?v = low_bits (b + 8) ?v" "r < 5" "\<forall>d \<in> set ds. digit d" by simp_all
  have "low_bits (b + 8) ?v = low_bits b v @ low_bits 8 byte"
    by (rule low_bits_shift) (use 2(2) byte_bits [of _ byte] in \<open>auto simp: bit_simps\<close>)
  moreover from 2(1) [OF refl d [symmetric] refl ds(2)] obtain k where "k < 5"
    "concat (map (low_bits 5) (encode_loop ?v r rest)) = low_bits r ?v @ concat (map (low_bits 8) rest) @ replicate k False"
    "\<forall>d \<in> set (encode_loop ?v r rest). digit d" by blast
  ultimately show ?case using ds by (intro exI [of _ k]) (auto simp: d Let_def simp flip: append_assoc)
qed

lemma alphabet_round: "i < 32 \<Longrightarrow> index_of base32_alphabet (base32_alphabet ! i) = Some i \<and>
    js_upper [base32_alphabet ! i] = [base32_alphabet ! i] \<and> base32_alphabet ! i \<in> set base32_alphabet"
proof -
  have "list_all (\<lambda>i. index_of base32_alphabet (base32_alphabet ! i) = Some i \<and>
      js_upper [base32_alphabet ! i] = [base32_alphabet ! i] \<and> List.member base32_alphabet (base32_alphabet ! i)) [0..<32]"
    by code_simp
  moreover assume "i < 32"
  ultimately show ?thesis by (simp add: list_all_iff)
qed

lemma decode_bits:
  assumes "b < 8" "\<forall>d \<in> set ds. digit d"
  shows "\<exists>p. length p < 8 \<and> low_bits b v @ concat (map (low_bits 5) ds)
    = concat (map (low_bits 8) (decode_loop v b (map base32_char ds))) @ p"
  using assms
proof (induction ds arbitrary: v b)
  case Nil
  then show ?case by (intro exI [of _ "low_bits b v"]) simp
next
  case (Cons d ds)
  let ?v = "or (push_bit 5 v) d"
  have idx: "index_of base32_alphabet (base32_char d) = Some (unat d)"
    using alphabet_round digit_less Cons.prems(2) by (simp add: base32_char_def)
  have v: "low_bits (b + 5) ?v = low_bits b v @ low_bits 5 d"
    using low_bits_shift [of b 5 d v] Cons.prems digit_bits [of d] by simp
  show ?case
  proof (cases "b + 5 \<ge> 8")
    case True
    let ?byte = "ucast (and (drop_bit (b + 5 - 8) ?v) 255) :: 8 word"
    have "low_bits 8 ?byte = low_bits 8 (and (drop_bit (b + 5 - 8) ?v) 255)"
      by (rule low_byte)
    then have top: "low_bits (b + 5) ?v = low_bits 8 ?byte @ low_bits (b + 5 - 8) ?v"
      using low_bits_take [of 8 "b + 5" ?v] True Cons.prems(1) by (simp add: masks)
    have "b + 5 - 8 < 8" using Cons.prems True by simp
    then obtain p where p: "length p < 8" "low_bits (b + 5 - 8) ?v @ concat (map (low_bits 5) ds)
        = concat (map (low_bits 8) (decode_loop ?v (b + 5 - 8) (map base32_char ds))) @ p"
      using Cons.IH [of "b + 5 - 8" ?v] Cons.prems by (metis list.set_intros(2))
    have loop: "decode_loop v b (map base32_char (d # ds)) = ?byte # decode_loop ?v (b + 5 - 8) (map base32_char ds)"
      using True by (simp add: idx Let_def)
    have "low_bits b v @ concat (map (low_bits 5) (d # ds)) = low_bits (b + 5) ?v @ concat (map (low_bits 5) ds)"
      by (simp add: v)
    also have "\<dots> = low_bits 8 ?byte @ low_bits (b + 5 - 8) ?v @ concat (map (low_bits 5) ds)"
      unfolding top by (rule append_assoc)
    also have "\<dots> = concat (map (low_bits 8) (decode_loop v b (map base32_char (d # ds)))) @ p"
      unfolding loop p(2) by simp
    finally show ?thesis using p(1) by blast
  next
    case False
    then obtain p where "length p < 8" "low_bits (b + 5) ?v @ concat (map (low_bits 5) ds)
        = concat (map (low_bits 8) (decode_loop ?v (b + 5) (map base32_char ds))) @ p"
      using Cons.IH [of "b + 5" ?v] Cons.prems by (metis list.set_intros(2) not_le)
    with False v show ?thesis by (intro exI [of _ p]) (simp add: idx Let_def)
  qed
qed

lemma charset_digit:
  assumes "digit d" shows "base32_char d \<in> set base32_alphabet" "js_upper [base32_char d] = [base32_char d]"
  using alphabet_round [OF digit_less [OF assms]] by (simp_all add: base32_char_def)

lemma encode_digits: "\<forall>d \<in> set (encode_loop 0 0 xs). digit d"
  using encode_bits [of 0 0 xs] by auto

lemma clean_encoded:
  "filter (\<lambda>c. c \<in> set ''ABCDEFGHIJKLMNOPQRSTUVWXYZ234567'') (js_upper (base32Encode xs)) = base32Encode xs"
proof -
  have "js_upper (map base32_char ds) = map base32_char ds" if "\<forall>d \<in> set ds. digit d" for ds
    using that by (induction ds) (use charset_digit(2) in \<open>auto simp: js_upper_def\<close>)
  with encode_digits [of xs] charset_digit(1) show ?thesis
    unfolding base32Encode_def base32_alphabet_def [symmetric] by (auto simp: filter_id_conv)
qed

text \<open>C25. Decoding the base32 text of any bytes gives the bytes back: the bits left over at the end, and the
  high bits that the 32-bit accumulators never mask out, do not matter.\<close>
theorem base32_roundtrip:
  "base32Decode (base32Encode xs) = xs"
proof -
  obtain k where k: "k < 5" "concat (map (low_bits 5) (encode_loop 0 0 xs)) = concat (map (low_bits 8) xs) @ replicate k False"
    using encode_bits [of 0 0 xs] by auto
  obtain p where "length p < 8" "concat (map (low_bits 5) (encode_loop 0 0 xs))
      = concat (map (low_bits 8) (decode_loop 0 0 (base32Encode xs))) @ p"
    using decode_bits [of 0 "encode_loop 0 0 xs" 0] encode_digits [of xs] by (auto simp: base32Encode_def)
  with k have "xs = decode_loop 0 0 (base32Encode xs)"
    using bytes_unique [of xs "replicate k False" "decode_loop 0 0 (base32Encode xs)" p] by simp
  then show ?thesis by (simp only: base32Decode_def clean_encoded)
qed

section \<open>The window of a code\<close>

lemma hotp_digits: "length (hotp hmac secret c) = 6" "set (hotp hmac secret c) \<subseteq> {c. 48 \<le> (of_char c :: nat) \<and> (of_char c :: nat) < 58}"
proof -
  let ?n = "nat (sint (dynamic_code (hmac secret (counter_bytes c))) mod 10 ^ code_digits)"
  have "?n < 10 ^ 6" by (simp add: code_digits_def nat_less_iff)
  then have "length (decimal ?n) \<le> 6" using decimal_length [of ?n 6] by simp
  then show "length (hotp hmac secret c) = 6" by (simp add: hotp_def pad_start_def code_digits_def)
  show "set (hotp hmac secret c) \<subseteq> {c. 48 \<le> (of_char c :: nat) \<and> (of_char c :: nat) < 58}"
    using decimal_digits [of ?n] by (auto simp: hotp_def pad_start_def)
qed

lemma no_spaces: "filter (\<lambda>c. \<not> js_space c) (hotp hmac secret c) = hotp hmac secret c"
  using hotp_digits(2) [of hmac secret c] by (auto simp: filter_id_conv js_space_def)

lemma next_counter: "time_counter (t + k * time_step_seconds * 1000) = time_counter t + k"
  by (simp add: time_counter_def time_step_seconds_def) 

lemma near_counter: "\<bar>t' - t\<bar> \<le> 1000 * time_step_seconds \<Longrightarrow> time_counter t - time_counter t' \<in> {-1, 0, 1}"
proof -
  assume "\<bar>t' - t\<bar> \<le> 1000 * time_step_seconds"
  then have "t div 30000 \<le> (t' + 1 * 30000) div 30000" "t' div 30000 \<le> (t + 1 * 30000) div 30000"
    by (simp_all only: zdiv_mono1 time_step_seconds_def)
  then show ?thesis unfolding div_mult_self1 by (auto simp: time_counter_def time_step_seconds_def)
qed

text \<open>C26. A code is six digits; a code is accepted exactly when, its spaces removed, it is the code of the
  current time step or of one of its neighbours; so a device whose clock is within one step of the server's is
  always accepted, with its code typed in with spaces anywhere.\<close>
theorem totp_window:
  "length (generateTotpCode hmac s t) = 6 \<and> set (generateTotpCode hmac s t) \<subseteq> {c. 48 \<le> (of_char c :: nat) \<and> (of_char c :: nat) < 58}
    \<and> (verifyTotpCode hmac s code t \<longleftrightarrow>
      (\<exists>k \<in> {-1, 0, 1}. filter (\<lambda>c. \<not> js_space c) code = hotp hmac (base32Decode s) (time_counter t + k)))
    \<and> (\<bar>t' - t\<bar> \<le> 1000 * time_step_seconds \<longrightarrow> filter (\<lambda>c. \<not> js_space c) code = generateTotpCode hmac s t
      \<longrightarrow> verifyTotpCode hmac s code t')"
proof (intro conjI impI)
  show "length (generateTotpCode hmac s t) = 6"
    "set (generateTotpCode hmac s t) \<subseteq> {c. 48 \<le> (of_char c :: nat) \<and> (of_char c :: nat) < 58}"
    unfolding generateTotpCode_def using hotp_digits by blast+
  show iff: "verifyTotpCode hmac s code t \<longleftrightarrow>
      (\<exists>k \<in> {-1, 0, 1}. filter (\<lambda>c. \<not> js_space c) code = hotp hmac (base32Decode s) (time_counter t + k))" for code t
    unfolding verifyTotpCode_def Let_def generateTotpCode_def next_counter by auto
  assume "\<bar>t' - t\<bar> \<le> 1000 * time_step_seconds" "filter (\<lambda>c. \<not> js_space c) code = generateTotpCode hmac s t"
  then show "verifyTotpCode hmac s code t'"
    unfolding iff generateTotpCode_def
    by (intro bexI [of _ "time_counter t - time_counter t'"] near_counter) simp
qed

lemma totp_window_witness:
  "verifyTotpCode (\<lambda>k m. k @ m @ [1, 2, 3, 4, 5, 6, 7, 8]) ''GEZDGNBVGY3TQOJQ''
     (generateTotpCode (\<lambda>k m. k @ m @ [1, 2, 3, 4, 5, 6, 7, 8]) ''GEZDGNBVGY3TQOJQ'' 59000) 61000"
  using totp_window [of "\<lambda>k m. k @ m @ [1, 2, 3, 4, 5, 6, 7, 8]" "''GEZDGNBVGY3TQOJQ''" 59000 _ 61000]
  by (simp add: time_step_seconds_def generateTotpCode_def no_spaces)

end
