(* ===== verification/Auth.thy ===== *)
theory Auth
  imports Totp Notifications
begin

text \<open>
  Accounts and sessions (\<open>src/backend/src/auth/auth.service.ts\<close>, \<open>src/backend/src/common/referral-code.ts\<close>):
  registration, login with its second factor, password reset, staff accounts, the invitation of a
  beneficiary, and the rotation and revocation of refresh tokens.

  Signing and verifying JSON web tokens is the \<open>jwt\<close> package's: \<open>jwt_sign\<close> and \<open>jwt_verify\<close> are
  parameters, keyed by the secret that the code passes; a token that is expired or forged is one that
  \<open>jwt_verify\<close> does not accept. Hashing of passwords and tokens are parameters of the environment.
  Sending the e-mail has no effect on the database. An access token carries the account and its
  role, the two restricted tokens the account and a purpose.
\<close>

section \<open>Tokens\<close>

datatype purpose = Mfa_Pending | Mfa_Enrollment_Required

datatype claims = Access nat role | Restricted nat purpose

record auth_config =
  refresh_ttl_env :: "string option"
  access_secret_env :: "string option"
  pending_secret_env :: "string option"
  production :: bool
  jwt_sign :: "string \<Rightarrow> claims \<Rightarrow> string"
  jwt_verify :: "string \<Rightarrow> string \<Rightarrow> claims option"

definition password_reset_ttl_ms :: int where
  "password_reset_ttl_ms = 30 * 60 * 1000"

definition mfa_required_roles :: "role list" where
  "mfa_required_roles = [R_ADMIN, R_SUPER_ADMIN, R_FINANCE, R_COMPLIANCE_RISK]"

definition provisionable_staff_roles :: "role list" where
  "provisionable_staff_roles = [R_RELATIONSHIP_MANAGER, R_CASE_MANAGER, R_QUALITY_CONTROL, R_FINANCE, R_COMPLIANCE_RISK,
     R_ADMIN, R_SUPER_ADMIN]"

text \<open>\<open>??\<close> replaces an absent value only, \<open>||\<close> an empty one as well.\<close>

definition accessSecret :: "auth_config \<Rightarrow> string" where
  "accessSecret cfg = (case access_secret_env cfg of None \<Rightarrow> ''change-me-access-secret'' | Some s \<Rightarrow> s)"

definition or_else :: "string option \<Rightarrow> string \<Rightarrow> string" where
  "or_else s t = (case s of None \<Rightarrow> t | Some s \<Rightarrow> if s = [] then t else s)"

definition mfaPendingSecret :: "auth_config \<Rightarrow> string" where
  "mfaPendingSecret cfg = or_else (pending_secret_env cfg)
     (or_else (access_secret_env cfg) ''change-me-access-secret'' @ '':mfa-pending'')"

definition hashToken :: "env \<Rightarrow> string \<Rightarrow> string" where
  "hashToken e token = sha256 e token"

definition is_digit :: "char \<Rightarrow> bool" where
  "is_digit c \<longleftrightarrow> 48 \<le> (of_char c :: nat) \<and> (of_char c :: nat) < 58"

fun unit_ms :: "char \<Rightarrow> int option" where
  "unit_ms c = (if c = CHR ''s'' then Some 1000 else if c = CHR ''m'' then Some 60000
     else if c = CHR ''h'' then Some 3600000 else if c = CHR ''d'' then Some 86400000 else None)"

text \<open>The pattern is one or more digits and a unit.\<close>

definition parseTtlMs :: "string \<Rightarrow> int" where
  "parseTtlMs ttl = (if ttl = [] \<or> butlast ttl = [] \<or> \<not> list_all is_digit (butlast ttl) then 7 * 24 * 60 * 60 * 1000
     else (case unit_ms (last ttl) of
         None \<Rightarrow> 7 * 24 * 60 * 60 * 1000
       | Some unitMs \<Rightarrow> int (read_decimal (butlast ttl)) * unitMs))"

record session =
  ss_user :: nat
  ss_role :: role
  ss_access :: string
  ss_refresh :: string

text \<open>The hash column is unique: a second row with the same hash is refused by the database.\<close>

definition insert_token :: "token \<Rightarrow> token table \<Rightarrow> error + token table" where
  "insert_token t ts = (if exists_row (\<lambda>_ r. to_hash r = to_hash t) ts
     then Inl (Internal STR ''Unique constraint failed on the fields: (tokenHash)'') else Inr (insert_row t ts))"

definition issueTokens :: "env \<Rightarrow> auth_config \<Rightarrow> nat \<Rightarrow> role \<Rightarrow> db \<Rightarrow> session result" where
  "issueTokens e cfg userId role d =
     (let accessToken = jwt_sign cfg (accessSecret cfg) (Access userId role);
          refreshToken = sha256 e (decimal userId @ '':'' @ decimal (nat (now e)) @ '':'' @ random_token e);
          refreshTtlMs = parseTtlMs (case refresh_ttl_env cfg of None \<Rightarrow> ''7d'' | Some t \<Rightarrow> t)
      in case insert_token \<lparr>to_owner = userId, to_hash = hashToken e refreshToken, to_expires = now e + refreshTtlMs,
            to_spent = None\<rparr> (refresh_tokens d) of
           Inl err \<Rightarrow> throw err d
         | Inr ts \<Rightarrow> return \<lparr>ss_user = userId, ss_role = role, ss_access = accessToken, ss_refresh = refreshToken\<rparr>
             (d\<lparr>refresh_tokens := ts\<rparr>))"

definition revoke_all :: "env \<Rightarrow> nat \<Rightarrow> token table \<Rightarrow> token table" where
  "revoke_all e userId = update_many (\<lambda>_ t. to_owner t = userId \<and> to_spent t = None) (\<lambda>t. t\<lparr>to_spent := Some (now e)\<rparr>)"

definition find_token :: "string \<Rightarrow> token table \<Rightarrow> (nat \<times> token) option" where
  "find_token hash ts = find_first (\<lambda>_ t. to_hash t = hash) ts"

definition token_usable :: "env \<Rightarrow> token \<Rightarrow> bool" where
  "token_usable e t \<longleftrightarrow> to_spent t = None \<and> \<not> to_expires t < now e"

section \<open>Registration\<close>

definition find_email :: "string \<Rightarrow> db \<Rightarrow> (nat \<times> user) option" where
  "find_email email d = find_first (\<lambda>_ u. u_email u = Some email) (users d)"

definition find_phone :: "string \<Rightarrow> db \<Rightarrow> (nat \<times> user) option" where
  "find_phone phone d = find_first (\<lambda>_ u. u_phone u = Some phone) (users d)"

text \<open>E-mail and phone are unique columns.\<close>

definition create_user :: "user \<Rightarrow> db \<Rightarrow> nat result" where
  "create_user u d =
     (if (case u_email u of None \<Rightarrow> False | Some x \<Rightarrow> find_email x d \<noteq> None)
       \<or> (case u_phone u of None \<Rightarrow> False | Some x \<Rightarrow> find_phone x d \<noteq> None)
      then throw (Internal STR ''Unique constraint failed on the fields: (email, phone)'') d
      else return (t_next (users d)) (d\<lparr>users := insert_row u (users d)\<rparr>))"

definition new_user :: "string \<Rightarrow> string option \<Rightarrow> string \<Rightarrow> role \<Rightarrow> user" where
  "new_user email phone passwordHash role = \<lparr>u_email = Some email, u_phone = phone, u_role = role,
     u_preferred_channel = None, u_billing_currency = None, u_country = None, u_password_hash = Some passwordHash,
     u_active = True, u_mfa_enabled = False, u_mfa_secret = None\<rparr>"

definition code_alphabet :: string where
  "code_alphabet = ''ABCDEFGHJKLMNPQRSTUVWXYZ23456789''"

definition code_of :: "8 word list \<Rightarrow> string" where
  "code_of bytes = map (\<lambda>b. code_alphabet ! (unat b mod length code_alphabet)) bytes"

fun first_free :: "(string \<Rightarrow> bool) \<Rightarrow> 8 word list list \<Rightarrow> string option" where
  "first_free taken [] = None"
| "first_free taken (bytes # attempts) =
     (if taken (code_of bytes) then first_free taken attempts else Some (code_of bytes))"

definition generateUniqueCode :: "(string \<Rightarrow> bool) \<Rightarrow> 8 word list list \<Rightarrow> string option" where
  "generateUniqueCode taken attempts = first_free taken (take 5 attempts)"

definition find_referrer :: "string \<Rightarrow> db \<Rightarrow> (nat \<times> customer) option" where
  "find_referrer code d = find_first (\<lambda>_ c. cu_referral_code c = code) (customers d)"

definition generateUniqueReferralCode :: "env \<Rightarrow> db \<Rightarrow> string result" where
  "generateUniqueReferralCode e d = (case generateUniqueCode (\<lambda>code. find_referrer code d \<noteq> None) (random_codes e) of
     None \<Rightarrow> throw (Internal STR ''Failed to generate a unique referral code'') d
   | Some code \<Rightarrow> return code d)"

record register_dto =
  rg_name :: string
  rg_email :: string
  rg_phone :: string
  rg_password :: string
  rg_country :: string
  rg_currency :: billing_currency
  rg_channel :: "String.literal option"
  rg_referral :: "string option"
  rg_partner :: "string option"

text \<open>A code that was sent and is not empty, in upper case.\<close>

definition sent_code :: "string option \<Rightarrow> string option" where
  "sent_code code = (case code of None \<Rightarrow> None | Some c \<Rightarrow> if c = [] then None else Some (js_upper c))"

definition referrer_of :: "register_dto \<Rightarrow> db \<Rightarrow> nat option" where
  "referrer_of dto d = Option.bind (sent_code (rg_referral dto)) (\<lambda>code. map_option fst (find_referrer code d))"

definition partner_of :: "register_dto \<Rightarrow> db \<Rightarrow> nat option" where
  "partner_of dto d = Option.bind (sent_code (rg_partner dto)) (\<lambda>code.
     case find_first (\<lambda>_ p. pa_code p = code) (partners d) of
       None \<Rightarrow> None
     | Some (i, p) \<Rightarrow> if pa_status p = PA_ACTIVE then Some i else None)"

record registration =
  rn_session :: session
  rn_referral_applied :: "bool option"
  rn_partner_applied :: "bool option"

definition register :: "env \<Rightarrow> auth_config \<Rightarrow> register_dto \<Rightarrow> db \<Rightarrow> registration result" where
  "register e cfg dto d =
     (if find_email (rg_email dto) d \<noteq> None then throw (Conflict STR ''An account with this email already exists'') d
      else if find_phone (rg_phone dto) d \<noteq> None
      then throw (Conflict STR ''An account with this phone number already exists'') d
      else and_then (generateUniqueReferralCode e d) (\<lambda>referralCode d.
        (let referredBy = referrer_of dto d; partner = partner_of dto d;
             u = (new_user (rg_email dto) (Some (rg_phone dto)) (argon_hash e (rg_password dto)) R_CUSTOMER)
                   \<lparr>u_country := Some (rg_country dto), u_preferred_channel := rg_channel dto,
                    u_billing_currency := Some (rg_currency dto)\<rparr>
         in and_then (create_user u d) (\<lambda>uid d.
              and_then (issueTokens e cfg uid R_CUSTOMER
                (audit_record None (Some uid) By_User STR ''user.registered''
                   [(STR ''role'', J_Role R_CUSTOMER), (STR ''referredByCustomerId'', json_option J_Id referredBy),
                    (STR ''referredByPartnerId'', json_option J_Id partner)]
                 (d\<lparr>customers := insert_row \<lparr>cu_user = uid, cu_name = rg_name dto, cu_rm = None,
                    cu_referral_code = referralCode, cu_referred_by = referredBy, cu_partner = partner, cu_account = None\<rparr> (customers d)\<rparr>)))
                (\<lambda>s d. return \<lparr>rn_session = s,
                   rn_referral_applied = map_option (\<lambda>_. referredBy \<noteq> None) (sent_code (rg_referral dto)),
                   rn_partner_applied = map_option (\<lambda>_. partner \<noteq> None) (sent_code (rg_partner dto))\<rparr> d)))))"

section \<open>Login\<close>

datatype login_result = Enrollment_Required string | Challenge string | Logged_In session

definition login :: "env \<Rightarrow> auth_config \<Rightarrow> string \<Rightarrow> string \<Rightarrow> db \<Rightarrow> login_result result" where
  "login e cfg email password d = (case find_email email d of
     None \<Rightarrow> throw (Unauthorized STR ''Invalid credentials'') d
   | Some (uid, u) \<Rightarrow> (case u_password_hash u of
       None \<Rightarrow> throw (Unauthorized STR ''Invalid credentials'') d
     | Some hash \<Rightarrow>
       if hash = [] \<or> \<not> u_active u then throw (Unauthorized STR ''Invalid credentials'') d
       else if \<not> argon_verify e hash password then throw (Unauthorized STR ''Invalid credentials'') d
       else if u_role u \<in> set mfa_required_roles \<and> \<not> u_mfa_enabled u
       then return (Enrollment_Required (jwt_sign cfg (mfaPendingSecret cfg) (Restricted uid Mfa_Enrollment_Required)))
              (audit_record None (Some uid) By_User STR ''user.login_mfa_enrollment_required'' [] d)
       else if u_mfa_enabled u
       then return (Challenge (jwt_sign cfg (mfaPendingSecret cfg) (Restricted uid Mfa_Pending)))
              (audit_record None (Some uid) By_User STR ''user.login_mfa_challenge'' [] d)
       else and_then (issueTokens e cfg uid (u_role u) (audit_record None (Some uid) By_User STR ''user.login'' [] d))
              (\<lambda>s d. return (Logged_In s) d)))"

definition verifyMfaLogin :: "env \<Rightarrow> auth_config \<Rightarrow> string \<Rightarrow> string \<Rightarrow> db \<Rightarrow> session result" where
  "verifyMfaLogin e cfg mfaToken code d = (case jwt_verify cfg (mfaPendingSecret cfg) mfaToken of
     None \<Rightarrow> throw (Unauthorized STR ''MFA challenge expired or invalid -- please log in again'') d
   | Some (Restricted uid Mfa_Pending) \<Rightarrow> (case find_unique (users d) uid of
       None \<Rightarrow> throw (Unauthorized STR ''Invalid MFA challenge'') d
     | Some u \<Rightarrow> (case u_mfa_secret u of
         None \<Rightarrow> throw (Unauthorized STR ''Invalid MFA challenge'') d
       | Some secret \<Rightarrow>
         if \<not> u_active u \<or> \<not> u_mfa_enabled u \<or> secret = [] then throw (Unauthorized STR ''Invalid MFA challenge'') d
         else if \<not> verifyTotpCode (hmac_sha1 e) secret code (now e)
         then throw (Unauthorized STR ''Incorrect code'')
                (audit_record None (Some uid) By_User STR ''user.login_mfa_failed'' [] d)
         else issueTokens e cfg uid (u_role u)
                (audit_record None (Some uid) By_User STR ''user.login_mfa_verified'' [] d)))
   | Some _ \<Rightarrow> throw (Unauthorized STR ''Invalid MFA challenge'') d)"

section \<open>Enrolment of the second factor\<close>

definition set_user :: "nat \<Rightarrow> (user \<Rightarrow> user) \<Rightarrow> db \<Rightarrow> db" where
  "set_user userId f d = d\<lparr>users := update_row userId f (users d)\<rparr>"

definition user_or_throw :: "nat \<Rightarrow> db \<Rightarrow> user result" where
  "user_or_throw userId d = (case find_unique (users d) userId of
     None \<Rightarrow> throw (Internal STR ''No User found'') d
   | Some u \<Rightarrow> return u d)"

definition requireMfaEnrollmentUser :: "auth_config \<Rightarrow> string \<Rightarrow> db \<Rightarrow> (nat \<times> user) result" where
  "requireMfaEnrollmentUser cfg enrollmentToken d = (case jwt_verify cfg (mfaPendingSecret cfg) enrollmentToken of
     None \<Rightarrow> throw (Unauthorized STR ''Enrollment session expired or invalid -- please log in again'') d
   | Some (Restricted uid Mfa_Enrollment_Required) \<Rightarrow> (case find_unique (users d) uid of
       None \<Rightarrow> throw (Unauthorized STR ''Invalid enrollment session'') d
     | Some u \<Rightarrow> if \<not> u_active u then throw (Unauthorized STR ''Invalid enrollment session'') d else return (uid, u) d)
   | Some _ \<Rightarrow> throw (Unauthorized STR ''Invalid enrollment session'') d)"

text \<open>The answer of an enrolment is the new secret; the link to it is for the QR code.\<close>

definition enrollMfa :: "8 word list \<Rightarrow> nat \<Rightarrow> db \<Rightarrow> string result" where
  "enrollMfa random20 userId d = and_then (user_or_throw userId d) (\<lambda>_ d.
     return (generateTotpSecret random20)
       (set_user userId (\<lambda>u. u\<lparr>u_mfa_secret := Some (generateTotpSecret random20), u_mfa_enabled := False\<rparr>) d))"

definition enrollMfaWithToken :: "auth_config \<Rightarrow> 8 word list \<Rightarrow> string \<Rightarrow> db \<Rightarrow> string result" where
  "enrollMfaWithToken cfg random20 enrollmentToken d =
     and_then (requireMfaEnrollmentUser cfg enrollmentToken d) (\<lambda>(uid, _) d. enrollMfa random20 uid d)"

definition confirmMfaEnrollmentRequired :: "env \<Rightarrow> auth_config \<Rightarrow> string \<Rightarrow> string \<Rightarrow> db \<Rightarrow> session result" where
  "confirmMfaEnrollmentRequired e cfg enrollmentToken code d =
     and_then (requireMfaEnrollmentUser cfg enrollmentToken d) (\<lambda>(uid, u) d.
       case u_mfa_secret u of
         None \<Rightarrow> throw (Bad_Request STR ''Call the enrollment start step first'') d
       | Some secret \<Rightarrow>
         if secret = [] then throw (Bad_Request STR ''Call the enrollment start step first'') d
         else if \<not> verifyTotpCode (hmac_sha1 e) secret code (now e)
         then throw (Unauthorized STR ''Incorrect code'')
                (audit_record None (Some uid) By_User STR ''user.mfa_enrollment_failed'' [] d)
         else issueTokens e cfg uid (u_role u)
                (audit_record None (Some uid) By_User STR ''user.login'' []
                (audit_record None (Some uid) By_User STR ''user.mfa_enabled'' []
                (set_user uid (\<lambda>u. u\<lparr>u_mfa_enabled := True\<rparr>) d))))"

definition confirmMfa :: "env \<Rightarrow> nat \<Rightarrow> string \<Rightarrow> db \<Rightarrow> unit result" where
  "confirmMfa e userId code d = and_then (user_or_throw userId d) (\<lambda>u d. case u_mfa_secret u of
     None \<Rightarrow> throw (Bad_Request STR ''Call POST /auth/mfa/enroll first'') d
   | Some secret \<Rightarrow>
     if secret = [] then throw (Bad_Request STR ''Call POST /auth/mfa/enroll first'') d
     else if \<not> verifyTotpCode (hmac_sha1 e) secret code (now e) then throw (Bad_Request STR ''Incorrect code'') d
     else return () (audit_record None (Some userId) By_User STR ''user.mfa_enabled'' []
            (set_user userId (\<lambda>u. u\<lparr>u_mfa_enabled := True\<rparr>) d)))"

definition disableMfa :: "env \<Rightarrow> nat \<Rightarrow> string \<Rightarrow> db \<Rightarrow> unit result" where
  "disableMfa e userId password d = and_then (user_or_throw userId d) (\<lambda>u d. case u_password_hash u of
     None \<Rightarrow> throw (Unauthorized STR ''Incorrect password'') d
   | Some hash \<Rightarrow>
     if hash = [] \<or> \<not> argon_verify e hash password then throw (Unauthorized STR ''Incorrect password'') d
     else return () (audit_record None (Some userId) By_User STR ''user.mfa_disabled'' []
            (set_user userId (\<lambda>u. u\<lparr>u_mfa_enabled := False, u_mfa_secret := None\<rparr>) d)))"

section \<open>Passwords\<close>

text \<open>Creating the row of a link that can be used once; its raw token is only in the link.\<close>

definition create_reset_token :: "env \<Rightarrow> nat \<Rightarrow> string \<Rightarrow> db \<Rightarrow> unit result" where
  "create_reset_token e userId token d =
     (case insert_token \<lparr>to_owner = userId, to_hash = hashToken e token, to_expires = now e + password_reset_ttl_ms,
          to_spent = None\<rparr> (reset_tokens d) of
        Inl err \<Rightarrow> throw err d
      | Inr ts \<Rightarrow> return () (d\<lparr>reset_tokens := ts\<rparr>))"

text \<open>The answer is the raw token outside production, and the same message in every case.\<close>

definition forgotPassword :: "env \<Rightarrow> auth_config \<Rightarrow> string \<Rightarrow> db \<Rightarrow> string option result" where
  "forgotPassword e cfg email d = (case find_email email d of
     None \<Rightarrow> return None d
   | Some (uid, _) \<Rightarrow> and_then (create_reset_token e uid (random_token e) d) (\<lambda>_ d.
       return (if production cfg then None else Some (random_token e))
         (notify e uid STR ''Password reset requested''
            [J_Lit STR ''Use the link we sent to reset your password. If you did not request this, you can ignore it.'']
          (audit_record None (Some uid) By_User STR ''user.password_reset_requested'' [] d))))"

definition resetPassword :: "env \<Rightarrow> string \<Rightarrow> string \<Rightarrow> db \<Rightarrow> unit result" where
  "resetPassword e token newPassword d = (case find_token (hashToken e token) (reset_tokens d) of
     None \<Rightarrow> throw (Unauthorized STR ''Invalid or expired reset link'') d
   | Some (i, t) \<Rightarrow>
     if \<not> token_usable e t then throw (Unauthorized STR ''Invalid or expired reset link'') d
     else if find_unique (users d) (to_owner t) = None then throw (Internal STR ''Record to update not found'') d
     else return () (audit_record None (Some (to_owner t)) By_User STR ''user.password_reset_completed'' []
       (set_user (to_owner t) (\<lambda>u. u\<lparr>u_password_hash := Some (argon_hash e newPassword)\<rparr>)
         (d\<lparr>reset_tokens := update_row i (\<lambda>t. t\<lparr>to_spent := Some (now e)\<rparr>) (reset_tokens d),
            refresh_tokens := revoke_all e (to_owner t) (refresh_tokens d)\<rparr>))))"

section \<open>Staff accounts\<close>

text \<open>The password of a new staff account is random and never shown; the answer is the account
  and, outside production, the token of the link that sets a password.\<close>

definition adminProvisionAccount ::
  "env \<Rightarrow> auth_config \<Rightarrow> actor \<Rightarrow> string \<Rightarrow> string \<Rightarrow> role \<Rightarrow> db \<Rightarrow> (nat \<times> string option) result" where
  "adminProvisionAccount e cfg ac unguessable email role d =
     (if find_email email d \<noteq> None then throw (Conflict STR ''An account with this email already exists'') d
      else and_then (create_user (new_user email None (argon_hash e unguessable) role) d) (\<lambda>uid d.
        and_then (create_reset_token e uid (random_token e)
            (audit_record None (Some (act_id ac)) By_User STR ''user.admin_provisioned''
               [(STR ''userId'', J_Id uid), (STR ''email'', J_Text email), (STR ''role'', J_Role role)] d))
          (\<lambda>_ d. return (uid, if production cfg then None else Some (random_token e)) d)))"

definition listStaffAccounts :: "db \<Rightarrow> (nat \<times> user) list" where
  "listStaffAccounts d = find_many (\<lambda>_ u. u_role u \<in> set provisionable_staff_roles) (users d)"

definition require_staff :: "nat \<Rightarrow> db \<Rightarrow> user result" where
  "require_staff userId d = (case find_unique (users d) userId of
     None \<Rightarrow> throw (Not_Found STR ''Account not found'') d
   | Some u \<Rightarrow>
     if u_role u \<notin> set provisionable_staff_roles
     then throw (Bad_Request STR ''This endpoint only manages staff accounts'') d else return u d)"

definition deactivateStaffAccount :: "env \<Rightarrow> actor \<Rightarrow> nat \<Rightarrow> db \<Rightarrow> unit result" where
  "deactivateStaffAccount e ac userId d = and_then (require_staff userId d) (\<lambda>u d.
     if userId = act_id ac then throw (Bad_Request STR ''Cannot deactivate your own account'') d
     else return () (audit_record None (Some (act_id ac)) By_User STR ''user.staff_deactivated''
       [(STR ''userId'', J_Id userId), (STR ''email'', json_option J_Text (u_email u)), (STR ''role'', J_Role (u_role u))]
       (set_user userId (\<lambda>u. u\<lparr>u_active := False\<rparr>)
          (d\<lparr>refresh_tokens := revoke_all e userId (refresh_tokens d)\<rparr>))))"

definition reactivateStaffAccount :: "actor \<Rightarrow> nat \<Rightarrow> db \<Rightarrow> unit result" where
  "reactivateStaffAccount ac userId d = and_then (require_staff userId d) (\<lambda>u d.
     return () (audit_record None (Some (act_id ac)) By_User STR ''user.staff_reactivated''
       [(STR ''userId'', J_Id userId), (STR ''email'', json_option J_Text (u_email u)), (STR ''role'', J_Role (u_role u))]
       (set_user userId (\<lambda>u. u\<lparr>u_active := True\<rparr>) d)))"

section \<open>The invitation of a beneficiary\<close>

definition acceptBeneficiaryInvite :: "env \<Rightarrow> auth_config \<Rightarrow> string \<Rightarrow> string \<Rightarrow> string \<Rightarrow> db \<Rightarrow> session result" where
  "acceptBeneficiaryInvite e cfg token email password d = (case find_token (hashToken e token) (invites d) of
     None \<Rightarrow> throw (Unauthorized STR ''Invalid or expired invite link'') d
   | Some (i, t) \<Rightarrow>
     if \<not> token_usable e t then throw (Unauthorized STR ''Invalid or expired invite link'') d
     else (case find_unique (beneficiaries d) (to_owner t) of
         None \<Rightarrow> throw (Unauthorized STR ''Invalid or expired invite link'') d
       | Some b \<Rightarrow>
         if bf_user b \<noteq> None then throw (Bad_Request STR ''This beneficiary already has a portal account'') d
         else if find_email email d \<noteq> None then throw (Conflict STR ''An account with this email already exists'') d
         else and_then (create_user (new_user email (bf_phone b) (argon_hash e password) R_BENEFICIARY) d) (\<lambda>uid d.
           issueTokens e cfg uid R_BENEFICIARY
             (audit_record None (Some uid) By_User STR ''beneficiary.account_created'' [(STR ''beneficiaryId'', J_Id (to_owner t))]
               (d\<lparr>beneficiaries := update_row (to_owner t) (\<lambda>b. b\<lparr>bf_user := Some uid\<rparr>) (beneficiaries d),
                  invites := update_row i (\<lambda>t. t\<lparr>to_spent := Some (now e)\<rparr>) (invites d)\<rparr>)))))"

section \<open>Sessions\<close>

text \<open>The account of a session with the id of its agent, when it has one.\<close>

definition getMe :: "nat \<Rightarrow> db \<Rightarrow> (user \<times> nat option) result" where
  "getMe userId d = and_then (user_or_throw userId d) (\<lambda>u d.
     return (u, map_option fst (find_first (\<lambda>_ g. ag_user g = userId) (agents d))) d)"

definition refresh :: "env \<Rightarrow> auth_config \<Rightarrow> string \<Rightarrow> db \<Rightarrow> session result" where
  "refresh e cfg refreshToken d = (case find_token (hashToken e refreshToken) (refresh_tokens d) of
     None \<Rightarrow> throw (Unauthorized STR ''Invalid refresh token'') d
   | Some (i, t) \<Rightarrow>
     if \<not> token_usable e t then throw (Unauthorized STR ''Invalid refresh token'') d
     else (case find_unique (users d) (to_owner t) of
         None \<Rightarrow> throw (Unauthorized STR ''Invalid refresh token'') d
       | Some u \<Rightarrow>
         if \<not> u_active u then throw (Unauthorized STR ''Invalid refresh token'') d
         else issueTokens e cfg (to_owner t) (u_role u)
           (d\<lparr>refresh_tokens := update_row i (\<lambda>t. t\<lparr>to_spent := Some (now e)\<rparr>) (refresh_tokens d)\<rparr>)))"

definition logout :: "env \<Rightarrow> string \<Rightarrow> db \<Rightarrow> unit result" where
  "logout e refreshToken d = return () (d\<lparr>refresh_tokens :=
     update_many (\<lambda>_ t. to_hash t = hashToken e refreshToken \<and> to_spent t = None) (\<lambda>t. t\<lparr>to_spent := Some (now e)\<rparr>)
       (refresh_tokens d)\<rparr>)"

definition logoutAll :: "env \<Rightarrow> nat \<Rightarrow> db \<Rightarrow> unit result" where
  "logoutAll e userId d = return () (audit_record None (Some userId) By_User STR ''user.logout_all'' []
     (d\<lparr>refresh_tokens := revoke_all e userId (refresh_tokens d)\<rparr>))"

section \<open>A spent token stays spent\<close>

definition token_table_ok :: "token table \<Rightarrow> bool" where
  "token_table_ok ts \<longleftrightarrow> wf_table ts \<and> (\<forall>i j r s. find_unique ts i = Some r \<longrightarrow> find_unique ts j = Some s \<longrightarrow>
     to_hash r = to_hash s \<longrightarrow> i = j)"

definition token_kept :: "token \<Rightarrow> token \<Rightarrow> bool" where
  "token_kept r s \<longleftrightarrow> to_hash s = to_hash r \<and> to_owner s = to_owner r \<and> to_expires s = to_expires r
     \<and> (to_spent r \<noteq> None \<longrightarrow> to_spent s \<noteq> None)"

definition tokens_move :: "token table \<Rightarrow> token table \<Rightarrow> bool" where
  "tokens_move ts ts' \<longleftrightarrow> (token_table_ok ts \<longrightarrow> token_table_ok ts' \<and>
     (\<forall>i r. find_unique ts i = Some r \<longrightarrow> (\<exists>s. find_unique ts' i = Some s \<and> token_kept r s)))"

lemma token_kept_refl [simp]: "token_kept r r"
  by (simp add: token_kept_def)

lemma token_kept_spent [simp]: "token_kept r (r\<lparr>to_spent := Some x\<rparr>)"
  by (simp add: token_kept_def)

lemma tokens_move_refl [simp, intro]: "tokens_move ts ts"
  by (auto simp: tokens_move_def)

lemma tokens_move_trans: "tokens_move ts us \<Longrightarrow> tokens_move us vs \<Longrightarrow> tokens_move ts vs"
  unfolding tokens_move_def token_kept_def by (metis (no_types, lifting))

lemma find_token_row: "token_table_ok ts \<Longrightarrow> find_unique ts i = Some r \<Longrightarrow> find_token (to_hash r) ts = Some (i, r)"
proof -
  assume ok: "token_table_ok ts" and r: "find_unique ts i = Some r"
  then have "(i, r) \<in> set (t_rows ts)" by (simp add: find_unique_def map_of_SomeD)
  then obtain j s where j: "find_token (to_hash r) ts = Some (j, s)"
    using find_first_None_iff [of "\<lambda>_ t. to_hash t = to_hash r" ts] by (cases "find_token (to_hash r) ts") (auto simp: find_token_def)
  then have "to_hash s = to_hash r" "find_unique ts j = Some s"
    using ok find_first_SomeD [of "\<lambda>_ t. to_hash t = to_hash r" ts j s]
    by (auto simp: find_token_def token_table_ok_def find_unique_def wf_table_def)
  with ok r j show ?thesis unfolding token_table_ok_def by fastforce
qed

lemma find_tokenD: "token_table_ok ts \<Longrightarrow> find_token h ts = Some (i, r) \<Longrightarrow> find_unique ts i = Some r \<and> to_hash r = h"
  using find_first_SomeD [of "\<lambda>_ t. to_hash t = h" ts i r]
  by (auto simp: find_token_def token_table_ok_def find_unique_def wf_table_def)

lemma tokens_move_spend: "tokens_move ts (update_many P (\<lambda>t. t\<lparr>to_spent := Some x\<rparr>) ts)"
proof (unfold tokens_move_def, intro impI conjI allI)
  let ?us = "update_many P (\<lambda>t. t\<lparr>to_spent := Some x\<rparr>) ts"
  assume ok: "token_table_ok ts"
  have row: "find_unique ?us i = map_option (\<lambda>r. if P i r then r\<lparr>to_spent := Some x\<rparr> else r) (find_unique ts i)" for i
    by (rule find_unique_update_many)
  show "token_table_ok ?us"
    using ok unfolding token_table_ok_def row by (auto split: if_splits)
  show "\<exists>s. find_unique ?us i = Some s \<and> token_kept r s" if "find_unique ts i = Some r" for i r
    using that unfolding row by auto
qed

lemma tokens_move_spend_row: "tokens_move ts (update_row i (\<lambda>t. t\<lparr>to_spent := Some x\<rparr>) ts)"
  unfolding update_row_def by (rule tokens_move_spend)

lemma tokens_move_revoke: "tokens_move ts (revoke_all e u ts)"
  unfolding revoke_all_def by (rule tokens_move_spend)

lemma tokens_move_insert: "insert_token t ts = Inr us \<Longrightarrow> tokens_move ts us"
proof (unfold tokens_move_def, intro impI conjI allI)
  assume ins: "insert_token t ts = Inr us" and ok: "token_table_ok ts"
  then have us: "us = insert_row t ts" and fresh: "find_first (\<lambda>_ r. to_hash r = to_hash t) ts = None"
    by (auto simp: insert_token_def simp del: not_None_eq split: if_splits)
  have new: "to_hash r \<noteq> to_hash t" if "find_unique ts i = Some r" for i r
    using fresh that by (force simp: find_first_None_iff find_unique_def dest: map_of_SomeD)
  show "token_table_ok us"
    using ok new unfolding us token_table_ok_def by (auto split: if_splits) (metis+)
  show "\<exists>s. find_unique us i = Some s \<and> token_kept r s" if "find_unique ts i = Some r" for i r
    using that ok tbl.insert_keeps [of ts i r t] unfolding us token_table_ok_def by (intro exI [of _ r]) simp
qed

text \<open>What an operation may do to the tokens of the database.\<close>

definition auth_move :: "db \<Rightarrow> db \<Rightarrow> bool" where
  "auth_move d d' \<longleftrightarrow> tokens_move (refresh_tokens d) (refresh_tokens d') \<and> tokens_move (reset_tokens d) (reset_tokens d')"

lemma auth_move_refl [simp, intro]: "auth_move d d"
  by (simp add: auth_move_def)

lemma auth_move_trans: "auth_move d d1 \<Longrightarrow> auth_move d1 d2 \<Longrightarrow> auth_move d d2"
  by (auto simp: auth_move_def intro: tokens_move_trans)

lemma auth_move_frame:
  "refresh_tokens d' = refresh_tokens d1 \<Longrightarrow> reset_tokens d' = reset_tokens d1 \<Longrightarrow> auth_move d d1 \<Longrightarrow> auth_move d d'"
  by (simp add: auth_move_def)

lemma auth_move_and_then:
  assumes "auth_move d (snd r)" "\<And>x d1. r = (Inr x, d1) \<Longrightarrow> auth_move d1 (snd (f x d1))"
  shows "auth_move d (snd (and_then r f))"
  using assms by (cases r; cases "fst r") (auto intro: auth_move_trans)

lemma auth_move_issue: "auth_move d (snd (issueTokens e cfg u ro d))"
  by (auto simp: issueTokens_def Let_def auth_move_def dest: tokens_move_insert split: sum.split)

lemma auth_move_reset_token: "auth_move d (snd (create_reset_token e u tok d))"
  by (auto simp: create_reset_token_def auth_move_def dest: tokens_move_insert split: sum.split)

lemma auth_move_create_user: "auth_move d (snd (create_user u d))"
  by (simp add: create_user_def auth_move_def)

text \<open>
  A step of the service: any operation with any arguments, in environments that share the hash of
  tokens.
\<close>

inductive auth_step :: "(string \<Rightarrow> string) \<Rightarrow> db \<Rightarrow> db \<Rightarrow> bool" for sha where
  Register: "sha256 e = sha \<Longrightarrow> auth_step sha d (snd (register e cfg dto d))"
| Login: "sha256 e = sha \<Longrightarrow> auth_step sha d (snd (login e cfg email password d))"
| Verify: "sha256 e = sha \<Longrightarrow> auth_step sha d (snd (verifyMfaLogin e cfg mfaToken code d))"
| Enroll_Token: "auth_step sha d (snd (enrollMfaWithToken cfg bytes enrollmentToken d))"
| Confirm_Token: "sha256 e = sha \<Longrightarrow> auth_step sha d (snd (confirmMfaEnrollmentRequired e cfg enrollmentToken code d))"
| Enroll: "auth_step sha d (snd (enrollMfa bytes userId d))"
| Confirm: "auth_step sha d (snd (confirmMfa e userId code d))"
| Disable: "auth_step sha d (snd (disableMfa e userId password d))"
| Forgot: "sha256 e = sha \<Longrightarrow> auth_step sha d (snd (forgotPassword e cfg email d))"
| Reset: "sha256 e = sha \<Longrightarrow> auth_step sha d (snd (resetPassword e token newPassword d))"
| Provision: "sha256 e = sha \<Longrightarrow> auth_step sha d (snd (adminProvisionAccount e cfg ac unguessable email role d))"
| Deactivate: "auth_step sha d (snd (deactivateStaffAccount e ac userId d))"
| Reactivate: "auth_step sha d (snd (reactivateStaffAccount ac userId d))"
| Accept: "sha256 e = sha \<Longrightarrow> auth_step sha d (snd (acceptBeneficiaryInvite e cfg token email password d))"
| Refresh: "sha256 e = sha \<Longrightarrow> auth_step sha d (snd (refresh e cfg refreshToken d))"
| Logout: "sha256 e = sha \<Longrightarrow> auth_step sha d (snd (logout e refreshToken d))"
| Logout_All: "auth_step sha d (snd (logoutAll e userId d))"

lemma set_user_tokens [simp]:
  "refresh_tokens (set_user u f d) = refresh_tokens d" "reset_tokens (set_user u f d) = reset_tokens d"
  by (simp_all add: set_user_def)

lemma auth_move_issue_after:
  "refresh_tokens d1 = refresh_tokens d \<Longrightarrow> reset_tokens d1 = reset_tokens d \<Longrightarrow> auth_move d (snd (issueTokens e cfg u ro d1))"
  using auth_move_issue [of d1] by (simp add: auth_move_def)

lemma auth_move_reset_after:
  "refresh_tokens d1 = refresh_tokens d \<Longrightarrow> reset_tokens d1 = reset_tokens d \<Longrightarrow> auth_move d (snd (create_reset_token e u tok d1))"
  using auth_move_reset_token [of d1] by (simp add: auth_move_def)

lemma enrollment_user_state [simp]: "snd (requireMfaEnrollmentUser cfg tok d) = d"
  by (rule same_stateD) (simp add: requireMfaEnrollmentUser_def split: option.split claims.split purpose.split)

lemma user_or_throw_state [simp]: "snd (user_or_throw u d) = d"
  by (simp add: user_or_throw_def split: option.split)

lemma require_staff_state [simp]: "snd (require_staff u d) = d"
  by (simp add: require_staff_def split: option.split)

lemma referral_code_state [simp]: "snd (generateUniqueReferralCode e d) = d"
  by (simp add: generateUniqueReferralCode_def split: option.split)

lemma auth_step_move: "auth_step sha d d' \<Longrightarrow> auth_move d d'"
proof (induction rule: auth_step.induct)
  case (Register e d cfg dto)
  show ?case
    unfolding register_def Let_def
    by (auto intro!: auth_move_and_then auth_move_create_user auth_move_issue_after)
next
  case (Refresh e d cfg tok)
  have "auth_move d (snd (issueTokens e cfg u ro (d\<lparr>refresh_tokens := update_row i (\<lambda>t. t\<lparr>to_spent := Some x\<rparr>) (refresh_tokens d)\<rparr>)))" for u ro i x
    by (rule auth_move_trans [OF _ auth_move_issue]) (simp add: auth_move_def tokens_move_spend_row)
  then show ?case by (simp add: refresh_def split: option.split)
qed (auto simp: login_def verifyMfaLogin_def enrollMfaWithToken_def enrollMfa_def confirmMfaEnrollmentRequired_def confirmMfa_def
    disableMfa_def forgotPassword_def resetPassword_def adminProvisionAccount_def deactivateStaffAccount_def
    reactivateStaffAccount_def acceptBeneficiaryInvite_def logout_def logoutAll_def
    auth_move_def [of _ "audit_record _ _ _ _ _ _"] auth_move_def [of _ "set_user _ _ _"] auth_move_def [of _ "refresh_tokens_update _ _"]
    auth_move_def [of _ "notify _ _ _ _ _"]
    tokens_move_spend tokens_move_spend_row tokens_move_revoke
    intro!: auth_move_and_then auth_move_create_user auth_move_issue_after auth_move_reset_after
    split: option.split claims.split purpose.split)

lemma auth_steps_move: "(auth_step sha)\<^sup>*\<^sup>* d d' \<Longrightarrow> auth_move d d'"
  by (induction rule: rtranclp_induct) (auto intro: auth_move_trans auth_step_move)

text \<open>The row of a spent token is found again, spent, after any steps.\<close>

lemma spent_refused:
  assumes "tokens_move ts ts'" "token_table_ok ts" "find_unique ts i = Some r" "to_spent r \<noteq> None"
  shows "\<exists>s. find_token (to_hash r) ts' = Some (i, s) \<and> to_spent s \<noteq> None"
proof -
  from assms(1-3) obtain s where s: "token_table_ok ts'" "find_unique ts' i = Some s" "token_kept r s"
    by (auto simp: tokens_move_def)
  with assms(4) find_token_row [OF s(1,2)] show ?thesis by (auto simp: token_kept_def)
qed

end
