(* ===== verification/Trust.thy ===== *)
theory Trust
  imports Geofence Audit_Log
begin

text \<open>
  The trust score of an agent (\<open>src/backend/src/agent-trust-score/agent-trust-score.service.ts\<close>): five
  components between 0 and 100, their weighted sum, a tier and a trend. The weighted sum and the
  rates are exact rationals where the code computes with doubles; the badge, a picture of the tier,
  is left out.
\<close>

section \<open>Scoring\<close>

definition trust_tiers :: "(int \<times> String.literal) list" where
  "trust_tiers = [(0, STR ''NEW''), (20, STR ''BRONZE''), (40, STR ''SILVER''), (65, STR ''GOLD''), (85, STR ''PLATINUM'')]"

definition min_for_completion :: nat where "min_for_completion = 10"

definition min_for_gps :: nat where "min_for_gps = 5"

definition min_for_evidence :: nat where "min_for_evidence = 5"

definition completed_case_statuses :: "case_status list" where
  "completed_case_statuses = [CS_COMPLETED, CS_CLOSED]"

text \<open>\<open>Math.round\<close> as the integer it is.\<close>

definition round_int :: "rat \<Rightarrow> int" where
  "round_int x = \<lfloor>x + 1 / 2\<rfloor>"

definition getTrustTier :: "int \<Rightarrow> String.literal" where
  "getTrustTier score = (case find (\<lambda>(m, _). score \<ge> m) (rev trust_tiers) of
     Some (_, tier) \<Rightarrow> tier | None \<Rightarrow> snd (hd trust_tiers))"

definition volumeBlend :: "rat \<Rightarrow> nat \<Rightarrow> nat \<Rightarrow> int" where
  "volumeBlend rawRate sampleSize minSample =
     (let volumeWeight = of_nat sampleSize / of_nat minSample
      in round_int (rawRate * volumeWeight + 50 * (1 - volumeWeight)))"

definition scoreResponseTime :: "rat option \<Rightarrow> int" where
  "scoreResponseTime avgMinutes = (case avgMinutes of None \<Rightarrow> 0 | Some m \<Rightarrow>
     if m \<le> 5 then 100 else if m \<le> 15 then 80 else if m \<le> 30 then 60 else if m \<le> 60 then 40
     else if m \<le> 120 then 20 else 0)"

definition determineTrend :: "int \<Rightarrow> int option \<Rightarrow> String.literal" where
  "determineTrend current previous = (case previous of None \<Rightarrow> STR ''STABLE'' | Some p \<Rightarrow>
     (let delta = current - p
      in if delta > 2 then STR ''IMPROVING'' else if delta < -2 then STR ''DECLINING'' else STR ''STABLE''))"

text \<open>The three rates share one shape: nothing observed, too few observations, enough of them.\<close>

definition rate_score :: "nat \<Rightarrow> nat \<Rightarrow> nat \<Rightarrow> int" where
  "rate_score good observed minSample =
     (if observed = 0 then 0
      else if observed < minSample then volumeBlend (of_nat good / of_nat observed * 100) observed minSample
      else round_int (of_nat good / of_nat observed * 100))"

section \<open>The components\<close>

definition trust_assignments :: "nat \<Rightarrow> db \<Rightarrow> assignment list" where
  "trust_assignments agentId d =
     map snd (find_many (\<lambda>_ a. as_agent a = Some agentId \<and> as_role a = AR_FIELD_AGENT) (assignments d))"

definition completed_count :: "assignment list \<Rightarrow> db \<Rightarrow> nat" where
  "completed_count as d = length (filter (\<lambda>a. case find_unique (cases d) (as_case a) of
     None \<Rightarrow> False | Some c \<Rightarrow> c_status c \<in> set completed_case_statuses) as)"

definition passed_count :: "assignment list \<Rightarrow> nat" where
  "passed_count as = length (filter (\<lambda>a. as_geofence a = Some PASS) as)"

definition outside_count :: "nat \<Rightarrow> db \<Rightarrow> nat" where
  "outside_count userId d = length (find_many (\<lambda>_ ev. ae_actor ev = Some userId
      \<and> ae_action ev = STR ''assignment.check_in_rejected''
      \<and> map_of (ae_metadata ev) (STR ''reason'') = Some (J_Lit (reason_name OUTSIDE_GEOFENCE))) (audit_log d))"

definition earliest_evidence :: "nat \<Rightarrow> nat \<Rightarrow> db \<Rightarrow> int option" where
  "earliest_evidence caseId userId d =
     (case sort_key ev_created (map snd (find_many (\<lambda>_ v. ev_case v = caseId \<and> ev_uploader v = userId) (evidences d))) of
        [] \<Rightarrow> None | v # _ \<Rightarrow> Some (ev_created v))"

definition on_time_count :: "nat \<Rightarrow> assignment list \<Rightarrow> db \<Rightarrow> nat" where
  "on_time_count userId as d = length (filter (\<lambda>a. case earliest_evidence (as_case a) userId d of
     None \<Rightarrow> False
   | Some earliest \<Rightarrow> (case Option.bind (find_unique (cases d) (as_case a)) c_sla_target of
       None \<Rightarrow> True | Some slaTarget \<Rightarrow> earliest \<le> slaTarget)) as)"

definition response_minutes :: "assignment list \<Rightarrow> rat list" where
  "response_minutes as = List.map_filter (\<lambda>a. map_option (\<lambda>t. of_int (t - as_created a) / 60000) (as_accepted_at a)) as"

definition avg_response :: "assignment list \<Rightarrow> rat option" where
  "avg_response as = (let ts = response_minutes as in if ts = [] then None else Some (sum_list ts / of_nat (length ts)))"

definition composite :: "int \<Rightarrow> int \<Rightarrow> int \<Rightarrow> int \<Rightarrow> int \<Rightarrow> int" where
  "composite completion gps evidence rating response = round_int (of_int completion * (3 / 10) + of_int gps * (2 / 10)
     + of_int evidence * (2 / 10) + of_int rating * (2 / 10) + of_int response * (1 / 10))"

definition find_score :: "nat \<Rightarrow> db \<Rightarrow> (nat \<times> trust_score) option" where
  "find_score agentId d = find_first (\<lambda>_ s. ts_agent s = agentId) (trust_scores d)"

definition score_row :: "nat \<Rightarrow> agent \<Rightarrow> db \<Rightarrow> trust_score" where
  "score_row agentId g d =
     (let existing = find_score agentId d; as = trust_assignments agentId d; observed = length as;
          completed = completed_count as d;
          completionScore = rate_score completed observed min_for_completion;
          passed = passed_count as;
          gpsScore = rate_score passed (passed + outside_count (ag_user g) d) min_for_gps;
          evidenceScore = rate_score (on_time_count (ag_user g) as d) observed min_for_evidence;
          ratingScore = (case ag_score g of None \<Rightarrow> 0 | Some s \<Rightarrow> round_int (s / 5 * 100));
          responseScore = scoreResponseTime (avg_response as);
          compositeScore = composite completionScore gpsScore evidenceScore ratingScore responseScore;
          previous = map_option (\<lambda>(_, s). ts_composite s) existing
      in \<lparr>ts_agent = agentId, ts_completion = completionScore, ts_gps = gpsScore, ts_evidence = evidenceScore,
          ts_rating = ratingScore, ts_response = responseScore, ts_composite = compositeScore,
          ts_tier = getTrustTier compositeScore, ts_total = observed, ts_completed = completed,
          ts_previous = previous, ts_trend = determineTrend compositeScore previous\<rparr>)"

definition calculateTrustScore :: "nat \<Rightarrow> db \<Rightarrow> trust_score result" where
  "calculateTrustScore agentId d = (case find_unique (agents d) agentId of
     None \<Rightarrow> throw (Not_Found STR ''Agent not found'') d
   | Some g \<Rightarrow>
     (let row = score_row agentId g d
      in return row (d\<lparr>trust_scores := (case find_score agentId d of
           None \<Rightarrow> insert_row row (trust_scores d)
         | Some (i, _) \<Rightarrow> update_row i (\<lambda>_. row) (trust_scores d))\<rparr>)))"

text \<open>A failure for one agent is logged, and the sweep goes on from the state it left.\<close>

fun trust_loop :: "nat list \<Rightarrow> db \<Rightarrow> db" where
  "trust_loop [] d = d"
| "trust_loop (i # is) d = trust_loop is (snd (calculateTrustScore i d))"

definition recomputeAllTrustScores :: "db \<Rightarrow> nat result" where
  "recomputeAllTrustScores d =
     (let due = map fst (find_many (\<lambda>_ g. ag_active g) (agents d)) in return (length due) (trust_loop due d))"

definition getTrustProfile :: "actor \<Rightarrow> nat \<Rightarrow> db \<Rightarrow> trust_score result" where
  "getTrustProfile ac agentId d = (case find_unique (agents d) agentId of
     None \<Rightarrow> throw (Not_Found STR ''Agent not found'') d
   | Some g \<Rightarrow>
     if act_role ac \<notin> {R_ADMIN, R_SUPER_ADMIN, R_CASE_MANAGER} \<and> ag_user g \<noteq> act_id ac
     then throw (Forbidden STR ''Not authorised to view this agent's trust profile'') d
     else (case find_score agentId d of
         None \<Rightarrow> calculateTrustScore agentId d
       | Some (_, s) \<Rightarrow> return s d))"

text \<open>The leaderboard is the scores from the highest down, ranked from one; scores of the same value come
  in table order.\<close>

definition getLeaderboard :: "nat \<Rightarrow> db \<Rightarrow> (nat \<times> trust_score) list" where
  "getLeaderboard limit d =
     enumerate 1 (take limit (sort_key (\<lambda>s. - ts_composite s) (map snd (t_rows (trust_scores d)))))"

section \<open>Every component is a percentage\<close>

lemma round_int_mono: "x \<le> y \<Longrightarrow> round_int x \<le> round_int y"
  by (simp add: round_int_def floor_mono)

lemma round_int_of_int [simp]: "round_int (of_int i) = i"
  by (simp add: round_int_def floor_eq_iff)

lemma round_int_range: "0 \<le> x \<Longrightarrow> x \<le> 100 \<Longrightarrow> round_int x \<in> {0..100}"
  using round_int_mono [of 0 x] round_int_mono [of x 100] round_int_of_int [of 0] round_int_of_int [of 100] by simp

lemma volumeBlend_range:
  assumes "0 \<le> r" "r \<le> 100" "n \<le> m" "0 < m"
  shows "volumeBlend r n m \<in> {0..100}"
proof -
  define w :: rat where "w = of_nat n / of_nat m"
  have w: "0 \<le> w" "w \<le> 1" using assms(3,4) by (simp_all add: w_def)
  have "r * w \<le> 100 * w" "0 \<le> r * w" using assms(1,2) w by (auto intro: mult_right_mono)
  then have "0 \<le> r * w + 50 * (1 - w) \<and> r * w + 50 * (1 - w) \<le> 100" using w by (simp only: right_diff_distrib) linarith
  then show ?thesis unfolding volumeBlend_def Let_def w_def [symmetric] by (intro round_int_range) simp_all
qed

lemma rate_score_range:
  assumes "good \<le> observed" "0 < minSample"
  shows "rate_score good observed minSample \<in> {0..100}"
proof -
  have "(of_nat good :: rat) / of_nat observed * 100 \<le> 100" if "0 < observed"
    using assms(1) that by (simp add: divide_le_eq)
  then show ?thesis
    using volumeBlend_range [of "of_nat good / of_nat observed * 100" observed minSample] round_int_range [of "of_nat good / of_nat observed * 100"] assms(2)
    by (auto simp: rate_score_def)
qed

lemma response_range: "scoreResponseTime m \<in> {0..100}"
  by (simp add: scoreResponseTime_def split: option.split)

lemma composite_range:
  assumes "a \<in> {0..100}" "b \<in> {0..100}" "c \<in> {0..100}" "e \<in> {0..100}" "f \<in> {0..100}"
  shows "composite a b c e f \<in> {0..100}"
proof -
  let ?x = "of_int a * (3 / 10) + of_int b * (2 / 10) + of_int c * (2 / 10) + of_int e * (2 / 10) + of_int f * (1 / 10) :: rat"
  have "0 \<le> (of_int x :: rat) \<and> (of_int x :: rat) \<le> 100" if "x \<in> {0..100}" for x
    using that of_int_le_iff [of x 100, where 'a = rat] by simp
  from this [OF assms(1)] this [OF assms(2)] this [OF assms(3)] this [OF assms(4)] this [OF assms(5)]
  have "0 \<le> ?x \<and> ?x \<le> 100" by linarith
  then show ?thesis unfolding composite_def by (intro round_int_range) simp_all
qed

lemma getTrustTier_cases:
  "getTrustTier s = (if s \<ge> 85 then STR ''PLATINUM'' else if s \<ge> 65 then STR ''GOLD'' else if s \<ge> 40 then STR ''SILVER''
     else if s \<ge> 20 then STR ''BRONZE'' else STR ''NEW'')"
  by (simp add: getTrustTier_def trust_tiers_def)

text \<open>The components do not look at the stored scores.\<close>

lemma components_cong [simp]:
  "trust_assignments i (d\<lparr>trust_scores := t\<rparr>) = trust_assignments i d"
  "completed_count as (d\<lparr>trust_scores := t\<rparr>) = completed_count as d"
  "outside_count u (d\<lparr>trust_scores := t\<rparr>) = outside_count u d"
  "on_time_count u as (d\<lparr>trust_scores := t\<rparr>) = on_time_count u as d"
  by (simp_all add: trust_assignments_def completed_count_def outside_count_def on_time_count_def earliest_evidence_def cong: option.case_cong)

lemma score_row_again:
  "find_score i (d\<lparr>trust_scores := t\<rparr>) = Some (k, score_row i g d) \<Longrightarrow>
     score_row i g (d\<lparr>trust_scores := t\<rparr>)
       = (score_row i g d)\<lparr>ts_previous := Some (ts_composite (score_row i g d)), ts_trend := STR ''STABLE''\<rparr>"
  by (simp add: score_row_def [of i g "d\<lparr>trust_scores := t\<rparr>"] Let_def) (simp add: score_row_def Let_def determineTrend_def)

end
