(* ===== verification/Planning.thy ===== *)
theory Planning
  imports Prelude
begin

text \<open>
  Financial planning of an agent (\<open>src/backend/src/agent-financial-planning/agent-financial-planning.service.ts\<close>):
  the projection of the monthly earnings, the savings plan and the estimate of the annual income
  tax. Amounts are exact rationals; the bucketing of wallet entries by calendar month, which depends on
  the time zone of the server, and the check of ownership in front of it are not part of this theory.
\<close>

section \<open>Projection and savings\<close>

record monthly_earnings =
  me_month :: string
  me_total :: rat
  me_count :: nat

record projection =
  pj_history :: nat
  pj_average :: rat
  pj_month :: rat
  pj_quarter :: rat
  pj_year :: rat

definition projectEarnings :: "monthly_earnings list \<Rightarrow> projection" where
  "projectEarnings history =
     (if history = [] then \<lparr>pj_history = 0, pj_average = 0, pj_month = 0, pj_quarter = 0, pj_year = 0\<rparr>
      else (let totalNaira = sum_list (map me_total history); average = js_round (totalNaira / of_nat (length history))
            in \<lparr>pj_history = length history, pj_average = average, pj_month = average, pj_quarter = average * 3,
                pj_year = average * 12\<rparr>))"

record savings_plan =
  sv_rate :: rat
  sv_monthly :: rat
  sv_six :: rat
  sv_twelve :: rat

definition default_savings_rate_percent :: rat where
  "default_savings_rate_percent = 15"

definition buildSavingsPlan :: "rat \<Rightarrow> rat \<Rightarrow> savings_plan" where
  "buildSavingsPlan average ratePercent =
     (let monthly = js_round (average * ratePercent / 100)
      in \<lparr>sv_rate = ratePercent, sv_monthly = monthly, sv_six = monthly * 6, sv_twelve = monthly * 12\<rparr>)"

section \<open>Income tax\<close>

record band =
  bd_limit :: "rat option"
  bd_rate :: rat
  bd_label :: String.literal

definition paye_bands :: "band list" where
  "paye_bands = [
     \<lparr>bd_limit = Some 300000, bd_rate = 7, bd_label = STR ''First 300,000''\<rparr>,
     \<lparr>bd_limit = Some 300000, bd_rate = 11, bd_label = STR ''Next 300,000''\<rparr>,
     \<lparr>bd_limit = Some 500000, bd_rate = 15, bd_label = STR ''Next 500,000''\<rparr>,
     \<lparr>bd_limit = Some 500000, bd_rate = 19, bd_label = STR ''Next 500,000''\<rparr>,
     \<lparr>bd_limit = Some 1600000, bd_rate = 21, bd_label = STR ''Next 1,600,000''\<rparr>,
     \<lparr>bd_limit = None, bd_rate = 24, bd_label = STR ''Above 3,200,000''\<rparr>]"

definition consolidatedReliefAllowance :: "rat \<Rightarrow> rat" where
  "consolidatedReliefAllowance gross = js_round (max 200000 (gross * (1 / 100)) + gross * (2 / 10))"

record band_tax =
  bt_label :: String.literal
  bt_taxable :: rat
  bt_rate :: rat
  bt_tax :: rat

text \<open>The loop over the bands stops when no income remains.\<close>

fun band_loop :: "band list \<Rightarrow> rat \<Rightarrow> band_tax list" where
  "band_loop [] remaining = []"
| "band_loop (b # bs) remaining =
     (if remaining \<le> 0 then []
      else (let taxableInBand = (case bd_limit b of None \<Rightarrow> remaining | Some l \<Rightarrow> min remaining l);
                taxInBand = js_round (taxableInBand * bd_rate b / 100)
            in \<lparr>bt_label = bd_label b, bt_taxable = taxableInBand, bt_rate = bd_rate b, bt_tax = taxInBand\<rparr>
               # band_loop bs (remaining - taxableInBand)))"

record tax_estimate =
  te_gross :: rat
  te_relief :: rat
  te_taxable :: rat
  te_bands :: "band_tax list"
  te_total :: rat
  te_rate :: rat

definition estimateAnnualTax :: "rat \<Rightarrow> tax_estimate" where
  "estimateAnnualTax income =
     (let gross = max 0 (js_round income); cra = consolidatedReliefAllowance gross; taxableIncome = max 0 (gross - cra);
          bands = band_loop paye_bands taxableIncome; totalTax = sum_list (map bt_tax bands)
      in \<lparr>te_gross = gross, te_relief = cra, te_taxable = taxableIncome, te_bands = bands, te_total = totalTax,
          te_rate = (if gross > 0 then js_round (totalTax / gross * 1000) / 10 else 0)\<rparr>)"

record financial_plan =
  fp_projection :: projection
  fp_savings :: savings_plan
  fp_tax :: tax_estimate

definition financialPlan :: "monthly_earnings list \<Rightarrow> financial_plan" where
  "financialPlan history =
     (let p = projectEarnings history
      in \<lparr>fp_projection = p, fp_savings = buildSavingsPlan (pj_average p) default_savings_rate_percent,
          fp_tax = estimateAnnualTax (pj_year p)\<rparr>)"

section \<open>The bands partition the income\<close>

text \<open>The marginal tax as a function of the taxable income: each band on its own.\<close>

fun tax_of :: "band list \<Rightarrow> rat \<Rightarrow> rat" where
  "tax_of [] x = 0"
| "tax_of (b # bs) x =
     (let y = (case bd_limit b of None \<Rightarrow> x | Some l \<Rightarrow> min x l) in js_round (max 0 y * bd_rate b / 100) + tax_of bs (x - y))"

definition bands_ok :: "band list \<Rightarrow> bool" where
  "bands_ok bs \<longleftrightarrow> bs \<noteq> [] \<and> bd_limit (last bs) = None
     \<and> (\<forall>b \<in> set bs. 0 \<le> bd_rate b \<and> bd_rate b \<le> 24 \<and> (\<forall>l. bd_limit b = Some l \<longrightarrow> 0 < l))"

lemma paye_bands_ok: "bands_ok paye_bands"
  by (simp add: bands_ok_def paye_bands_def)

lemma bands_ok_tl: "bands_ok (b # bs) \<Longrightarrow> bs \<noteq> [] \<Longrightarrow> bands_ok bs"
  by (simp add: bands_ok_def)

lemma tax_of_nonpos: "x \<le> 0 \<Longrightarrow> \<forall>b \<in> set bs. \<forall>l. bd_limit b = Some l \<longrightarrow> 0 < l \<Longrightarrow> tax_of bs x = 0"
proof (induction bs x rule: tax_of.induct)
  case (2 b bs x)
  let ?y = "case bd_limit b of None \<Rightarrow> x | Some l \<Rightarrow> min x l"
  have "?y = x" using "2.prems" by (force split: option.split simp: min_def)
  moreover have "tax_of bs (x - ?y) = 0" using "2.IH" [OF refl] "2.prems" \<open>?y = x\<close> by simp
  ultimately show ?case using "2.prems" js_round_of_int [of 0] by (simp add: Let_def)
qed simp

lemma band_loop_sums:
  assumes "bands_ok bs" "0 \<le> x"
  shows "sum_list (map bt_taxable (band_loop bs x)) = x"
    and "sum_list (map bt_tax (band_loop bs x)) = tax_of bs x"
proof -
  have "sum_list (map bt_taxable (band_loop bs x)) = x \<and> sum_list (map bt_tax (band_loop bs x)) = tax_of bs x" using assms
  proof (induction bs x rule: band_loop.induct)
    case (2 b bs x)
    let ?y = "case bd_limit b of None \<Rightarrow> x | Some l \<Rightarrow> min x l"
    have lim: "\<forall>b \<in> set (b # bs). \<forall>l. bd_limit b = Some l \<longrightarrow> 0 < l" using "2.prems"(1) by (auto simp: bands_ok_def)
    show ?case
    proof (cases "x \<le> 0")
      case True
      then show ?thesis using tax_of_nonpos [OF True lim] "2.prems"(2) by simp
    next
      case False
      then have y: "0 \<le> ?y" "?y \<le> x" using lim by (auto split: option.split)
      show ?thesis
      proof (cases "bs = []")
        case True
        then have "?y = x" using "2.prems"(1) by (simp add: bands_ok_def)
        with True False show ?thesis by (simp add: Let_def)
      next
        case ne: False
        have "sum_list (map bt_taxable (band_loop bs (x - ?y))) = x - ?y
            \<and> sum_list (map bt_tax (band_loop bs (x - ?y))) = tax_of bs (x - ?y)"
          using "2.IH" [OF False refl refl] bands_ok_tl [OF "2.prems"(1) ne] y by simp
        with False y show ?thesis by (simp add: Let_def max_absorb2)
      qed
    qed
  qed (simp add: bands_ok_def)
  then show "sum_list (map bt_taxable (band_loop bs x)) = x" "sum_list (map bt_tax (band_loop bs x)) = tax_of bs x" by simp_all
qed

lemma tax_of_mono:
  assumes "\<forall>b \<in> set bs. 0 \<le> bd_rate b" "x \<le> x'"
  shows "tax_of bs x \<le> tax_of bs x'"
  using assms
proof (induction bs arbitrary: x x')
  case (Cons b bs)
  let ?y = "\<lambda>x. case bd_limit b of None \<Rightarrow> x | Some l \<Rightarrow> min x l"
  have y: "?y x \<le> ?y x'" "x - ?y x \<le> x' - ?y x'" using Cons.prems(2) by (auto split: option.split simp: min_def)
  have "max 0 (?y x) * bd_rate b / 100 \<le> max 0 (?y x') * bd_rate b / 100"
    using y(1) Cons.prems(1) by (auto intro!: divide_right_mono mult_right_mono)
  then show ?case using js_round_mono Cons.IH [OF _ y(2)] Cons.prems(1) by (auto simp: Let_def intro: add_mono)
qed simp

lemma tax_of_bounds:
  assumes "\<forall>b \<in> set bs. 0 \<le> bd_rate b \<and> bd_rate b \<le> 24 \<and> (\<forall>l. bd_limit b = Some l \<longrightarrow> 0 < l)" "0 \<le> x"
  shows "0 \<le> tax_of bs x \<and> tax_of bs x \<le> x * (24 / 100) + of_nat (length bs) / 2"
  using assms
proof (induction bs arbitrary: x)
  case (Cons b bs)
  let ?y = "case bd_limit b of None \<Rightarrow> x | Some l \<Rightarrow> min x l"
  have y: "0 \<le> ?y" "?y \<le> x" using Cons.prems by (auto split: option.split)
  let ?t = "?y * bd_rate b / 100"
  have t: "0 \<le> ?t" "?t \<le> ?y * (24 / 100)"
    using y(1) Cons.prems(1) mult_left_mono [of "bd_rate b" 24 ?y] by (simp_all add: mult.commute)
  have "0 \<le> js_round ?t" "js_round ?t \<le> ?t + 1 / 2" using js_round_nonneg [OF t(1)] js_round_close [of ?t] by linarith+
  moreover have "0 \<le> tax_of bs (x - ?y) \<and> tax_of bs (x - ?y) \<le> (x - ?y) * (24 / 100) + of_nat (length bs) / 2"
    using Cons.IH [of "x - ?y"] Cons.prems(1) y(2) by simp
  moreover have "tax_of (b # bs) x = js_round ?t + tax_of bs (x - ?y)" using y(1) by (simp add: Let_def max_absorb2)
  ultimately show ?case using t(2) by (simp add: field_simps)
qed simp

lemma relief_mono:
  assumes "x \<in> \<int>" "y \<in> \<int>" "0 \<le> x" "x \<le> y"
  shows "x - consolidatedReliefAllowance x \<le> y - consolidatedReliefAllowance y"
proof -
  let ?r = "\<lambda>g. max 200000 (g * (1 / 100)) + g * (2 / 10) :: rat"
  have "?r y \<le> ?r x + (y - x)" using assms(3,4) by (auto simp: max_def)
  then have "js_round (?r y) \<le> js_round ((y - x) + ?r x)" by (intro js_round_mono) simp
  also have "\<dots> = (y - x) + js_round (?r x)" by (rule js_round_add_Ints) (use assms in simp)
  finally show ?thesis by (simp add: consolidatedReliefAllowance_def)
qed

lemma estimate_bands:
  "te_bands (estimateAnnualTax x) = band_loop paye_bands (te_taxable (estimateAnnualTax x))"
  "te_total (estimateAnnualTax x) = sum_list (map bt_tax (te_bands (estimateAnnualTax x)))"
  "te_taxable (estimateAnnualTax x) = max 0 (max 0 (js_round x) - consolidatedReliefAllowance (max 0 (js_round x)))"
  unfolding estimateAnnualTax_def Let_def tax_estimate.simps by (rule refl)+

end
