(* ===== verification/Account_Properties.thy ===== *)
theory Account_Properties
  imports Sample Auth Trust Planning
begin

text \<open>
  Properties of accounts: what a session rests on, how tokens are rotated and revoked, and the two
  figures computed for an agent, the trust score and the tax estimate.
\<close>

section \<open>Sessions\<close>

lemma issueTokens_Inr:
  assumes "issueTokens e cfg u ro d = (Inr s, d')"
  shows "ss_user s = u" "ss_role s = ro"
    "insert_token \<lparr>to_owner = u, to_hash = hashToken e (ss_refresh s),
        to_expires = now e + parseTtlMs (case refresh_ttl_env cfg of None \<Rightarrow> ''7d'' | Some t \<Rightarrow> t), to_spent = None\<rparr>
       (refresh_tokens d) = Inr (refresh_tokens d')"
  using assms by (auto simp: issueTokens_def Let_def split: sum.splits)

lemma issueTokens_empty: "t_rows (refresh_tokens d) = [] \<Longrightarrow> \<exists>s d'. issueTokens e cfg u ro d = (Inr s, d')"
  by (simp add: issueTokens_def Let_def insert_token_def find_first_def)

lemma issueTokens_session: "issueTokens e cfg u ro d = (Inr s, d') \<Longrightarrow> ss_user s = u \<and> ss_role s = ro"
  using issueTokens_Inr by blast

definition account :: user where
  "account = (new_user ''ada@mail'' None ''$secret'' R_CUSTOMER)"

definition config :: auth_config where
  "config = \<lparr>refresh_ttl_env = None, access_secret_env = None, pending_secret_env = None, production = True,
     jwt_sign = (\<lambda>s c. s), jwt_verify = (\<lambda>s tok. if tok = ''pending'' then Some (Restricted 1 Mfa_Pending)
       else if tok = ''enrol'' then Some (Restricted 1 Mfa_Enrollment_Required) else None)\<rparr>"

definition account_db :: "bool \<Rightarrow> db" where
  "account_db mfa = empty_db\<lparr>users := rows [account\<lparr>u_mfa_enabled := mfa, u_mfa_secret := Some ''GEZDGNBVGY3TQOJQ''\<rparr>]\<rparr>"

text \<open>C29. What a session rests on. A password alone opens one only for an active account without a second factor whose
  role does not require one; the challenge and the mandatory enrolment each need their own restricted
  token and a valid code of the account's secret; and a refresh token opens one only while it is neither
  spent nor expired and its account is active. The session is always for that account and its role.\<close>
theorem session_basis:
  shows "(login e cfg email password d = (Inr (Logged_In s), d') \<longrightarrow>
      (\<exists>u hash. find_email email d = Some (ss_user s, u) \<and> u_password_hash u = Some hash \<and> argon_verify e hash password
        \<and> u_active u \<and> \<not> u_mfa_enabled u \<and> u_role u \<notin> set mfa_required_roles \<and> ss_role s = u_role u))
    \<and> (verifyMfaLogin e cfg tok code d = (Inr s, d') \<longrightarrow>
      (\<exists>u secret. jwt_verify cfg (mfaPendingSecret cfg) tok = Some (Restricted (ss_user s) Mfa_Pending)
        \<and> find_unique (users d) (ss_user s) = Some u \<and> u_active u \<and> u_mfa_enabled u \<and> u_mfa_secret u = Some secret
        \<and> verifyTotpCode (hmac_sha1 e) secret code (now e) \<and> ss_role s = u_role u))
    \<and> (confirmMfaEnrollmentRequired e cfg tok code d = (Inr s, d') \<longrightarrow>
      (\<exists>u secret. jwt_verify cfg (mfaPendingSecret cfg) tok = Some (Restricted (ss_user s) Mfa_Enrollment_Required)
        \<and> find_unique (users d) (ss_user s) = Some u \<and> u_active u \<and> u_mfa_secret u = Some secret
        \<and> verifyTotpCode (hmac_sha1 e) secret code (now e) \<and> ss_role s = u_role u))
    \<and> (refresh e cfg tok d = (Inr s, d') \<longrightarrow>
      (\<exists>i t u. find_token (hashToken e tok) (refresh_tokens d) = Some (i, t) \<and> token_usable e t \<and> to_owner t = ss_user s
        \<and> find_unique (users d) (ss_user s) = Some u \<and> u_active u \<and> ss_role s = u_role u))"
proof (rule conjI [OF impI conjI [OF impI conjI [OF impI impI]]])
  show "\<exists>u hash. find_email email d = Some (ss_user s, u) \<and> u_password_hash u = Some hash \<and> argon_verify e hash password
        \<and> u_active u \<and> \<not> u_mfa_enabled u \<and> u_role u \<notin> set mfa_required_roles \<and> ss_role s = u_role u"
    if "login e cfg email password d = (Inr (Logged_In s), d')"
    using that by (auto simp: login_def and_then_Inr_iff dest: issueTokens_session split: option.splits if_splits)
  show "\<exists>u secret. jwt_verify cfg (mfaPendingSecret cfg) tok = Some (Restricted (ss_user s) Mfa_Pending)
        \<and> find_unique (users d) (ss_user s) = Some u \<and> u_active u \<and> u_mfa_enabled u \<and> u_mfa_secret u = Some secret
        \<and> verifyTotpCode (hmac_sha1 e) secret code (now e) \<and> ss_role s = u_role u"
    if "verifyMfaLogin e cfg tok code d = (Inr s, d')"
    using that by (auto simp: verifyMfaLogin_def dest: issueTokens_session split: option.splits claims.splits purpose.splits if_splits)
  show "\<exists>u secret. jwt_verify cfg (mfaPendingSecret cfg) tok = Some (Restricted (ss_user s) Mfa_Enrollment_Required)
        \<and> find_unique (users d) (ss_user s) = Some u \<and> u_active u \<and> u_mfa_secret u = Some secret
        \<and> verifyTotpCode (hmac_sha1 e) secret code (now e) \<and> ss_role s = u_role u"
    if "confirmMfaEnrollmentRequired e cfg tok code d = (Inr s, d')"
    using that by (auto simp: confirmMfaEnrollmentRequired_def requireMfaEnrollmentUser_def dest: issueTokens_session
        split: option.splits claims.splits purpose.splits if_splits)
  show "\<exists>i t u. find_token (hashToken e tok) (refresh_tokens d) = Some (i, t) \<and> token_usable e t \<and> to_owner t = ss_user s
        \<and> find_unique (users d) (ss_user s) = Some u \<and> u_active u \<and> ss_role s = u_role u"
    if "refresh e cfg tok d = (Inr s, d')"
    using that by (auto simp: refresh_def dest!: issueTokens_session split: option.splits if_splits)
qed

lemma session_basis_witness:
  "\<exists>s d' u. login sample_env config ''ada@mail'' ''secret'' (account_db False) = (Inr (Logged_In s), d')
     \<and> find_email ''ada@mail'' (account_db False) = Some (ss_user s, u) \<and> u_active u \<and> \<not> u_mfa_enabled u"
proof -
  have email: "find_email ''ada@mail'' (account_db False)
      = Some (1, account\<lparr>u_mfa_enabled := False, u_mfa_secret := Some ''GEZDGNBVGY3TQOJQ''\<rparr>)"
    by (simp add: find_email_def account_db_def account_def new_user_def sample_defs insert_rows_def insert_row_def
        empty_table_def find_first_def)
  have "t_rows (refresh_tokens (audit_record None (Some 1) By_User STR ''user.login'' [] (account_db False))) = []"
    by (simp add: account_db_def empty_db_def empty_table_def)
  from issueTokens_empty [OF this] obtain s d' where "issueTokens sample_env config 1 R_CUSTOMER
      (audit_record None (Some 1) By_User STR ''user.login'' [] (account_db False)) = (Inr s, d')" by blast
  then have "login sample_env config ''ada@mail'' ''secret'' (account_db False) = (Inr (Logged_In s), d')"
    by (simp add: login_def email account_def new_user_def mfa_required_roles_def sample_env_def)
  from this session_basis [THEN conjunct1, rule_format, OF this] show ?thesis by blast
qed

text \<open>C30. Rotation of refresh tokens: using one spends it for good, whatever operations follow, in whatever order and with whatever
  arguments; in exchange there is a new one, of the same account, unspent and valid for its whole term.\<close>
theorem refresh_rotates:
  assumes "token_table_ok (refresh_tokens d)" "refresh e cfg tok d = (Inr s, d1)"
    "(auth_step (sha256 e))\<^sup>*\<^sup>* d1 d2" "sha256 e' = sha256 e"
  shows "(refresh e' cfg' tok d2 = (Inl (Unauthorized STR ''Invalid refresh token''), d2))
    \<and> (\<exists>i t. find_token (hashToken e (ss_refresh s)) (refresh_tokens d1) = Some (i, t) \<and> to_owner t = ss_user s
      \<and> to_spent t = None \<and> to_expires t = now e + parseTtlMs (case refresh_ttl_env cfg of None \<Rightarrow> ''7d'' | Some t \<Rightarrow> t))"
proof (rule conjI [OF _ _])
  from assms(2) obtain i t and u :: user where t: "find_token (hashToken e tok) (refresh_tokens d) = Some (i, t)"
    and iss: "issueTokens e cfg (to_owner t) (u_role u)
      (d\<lparr>refresh_tokens := update_row i (\<lambda>t. t\<lparr>to_spent := Some (now e)\<rparr>) (refresh_tokens d)\<rparr>) = (Inr s, d1)"
    by (auto simp: refresh_def split: option.splits if_splits)
  let ?ts = "update_row i (\<lambda>t. t\<lparr>to_spent := Some (now e)\<rparr>) (refresh_tokens d)"
  have row: "find_unique (refresh_tokens d) i = Some t" "to_hash t = hashToken e tok"
    using find_tokenD [OF assms(1) t] by auto
  have ok: "token_table_ok ?ts"
    using tokens_move_spend_row assms(1) unfolding tokens_move_def by blast
  have ins: "insert_token \<lparr>to_owner = to_owner t, to_hash = hashToken e (ss_refresh s),
      to_expires = now e + parseTtlMs (case refresh_ttl_env cfg of None \<Rightarrow> ''7d'' | Some t \<Rightarrow> t), to_spent = None\<rparr> ?ts
      = Inr (refresh_tokens d1)" and user: "ss_user s = to_owner t"
    using issueTokens_Inr [OF iss] by simp_all
  have "tokens_move ?ts (refresh_tokens d2)"
    using tokens_move_trans [OF tokens_move_insert [OF ins]] auth_steps_move [OF assms(3)] by (simp add: auth_move_def)
  from spent_refused [OF this ok, of i] row obtain r where
    "find_token (hashToken e tok) (refresh_tokens d2) = Some (i, r)" "to_spent r \<noteq> None" by auto
  then show "refresh e' cfg' tok d2 = (Inl (Unauthorized STR ''Invalid refresh token''), d2)"
    using assms(4) by (simp add: refresh_def hashToken_def token_usable_def)
  have "token_table_ok (refresh_tokens d1)" using tokens_move_insert [OF ins] ok by (simp add: tokens_move_def)
  moreover have d1: "refresh_tokens d1 = insert_row \<lparr>to_owner = to_owner t, to_hash = hashToken e (ss_refresh s),
      to_expires = now e + parseTtlMs (case refresh_ttl_env cfg of None \<Rightarrow> ''7d'' | Some t \<Rightarrow> t), to_spent = None\<rparr> ?ts"
    using ins unfolding insert_token_def by (simp only: sum.simps split: if_splits)
  have "find_unique (refresh_tokens d1) (t_next ?ts) = Some \<lparr>to_owner = to_owner t, to_hash = hashToken e (ss_refresh s),
      to_expires = now e + parseTtlMs (case refresh_ttl_env cfg of None \<Rightarrow> ''7d'' | Some t \<Rightarrow> t), to_spent = None\<rparr>"
    unfolding d1 using ok by (simp add: token_table_ok_def del: next_update_row)
  ultimately show "\<exists>i t. find_token (hashToken e (ss_refresh s)) (refresh_tokens d1) = Some (i, t) \<and> to_owner t = ss_user s
      \<and> to_spent t = None \<and> to_expires t = now e + parseTtlMs (case refresh_ttl_env cfg of None \<Rightarrow> ''7d'' | Some t \<Rightarrow> t)"
    using find_token_row [of "refresh_tokens d1"] user by fastforce
qed

definition live_token :: "nat \<Rightarrow> string \<Rightarrow> token" where
  "live_token owner h = \<lparr>to_owner = owner, to_hash = h, to_expires = 9000, to_spent = None\<rparr>"

definition session_db :: db where
  "session_db = (account_db False)\<lparr>refresh_tokens := rows [live_token 1 ''#old''], reset_tokens := rows [live_token 1 ''#link'']\<rparr>"

lemma session_rows:
  "find_token ''#old'' (refresh_tokens session_db) = Some (1, live_token 1 ''#old'')"
  "find_token ''#link'' (reset_tokens session_db) = Some (1, live_token 1 ''#link'')"
  "find_unique (users session_db) 1 = Some (account\<lparr>u_mfa_enabled := False, u_mfa_secret := Some ''GEZDGNBVGY3TQOJQ''\<rparr>)"
  "token_table_ok (refresh_tokens session_db)" "token_table_ok (reset_tokens session_db)"
  by (simp_all add: session_db_def account_db_def sample_defs insert_rows_def insert_row_def empty_table_def find_first_def
      find_token_def live_token_def find_unique_def token_table_ok_def wf_table_def)

lemma refresh_rotates_witness:
  "\<exists>s d1. refresh sample_env config ''old'' session_db = (Inr s, d1)
     \<and> refresh sample_env config ''old'' (snd (logoutAll sample_env 1 d1))
         = (Inl (Unauthorized STR ''Invalid refresh token''), snd (logoutAll sample_env 1 d1))"
proof -
  have "hashToken sample_env ''old'' = ''#old''" by (simp add: hashToken_def sample_env_def)
  then have "refresh sample_env config ''old'' session_db = issueTokens sample_env config 1 R_CUSTOMER
      (session_db\<lparr>refresh_tokens := update_row 1 (\<lambda>t. t\<lparr>to_spent := Some (now sample_env)\<rparr>) (refresh_tokens session_db)\<rparr>)"
    using session_rows by (simp add: refresh_def token_usable_def live_token_def sample_env_def account_def new_user_def)
  moreover have "\<exists>s d1. issueTokens sample_env config 1 R_CUSTOMER
      (session_db\<lparr>refresh_tokens := update_row 1 (\<lambda>t. t\<lparr>to_spent := Some (now sample_env)\<rparr>) (refresh_tokens session_db)\<rparr>) = (Inr s, d1)"
    by (simp add: issueTokens_def Let_def insert_token_def session_db_def live_token_def sample_defs insert_rows_def insert_row_def
        empty_table_def find_first_def hashToken_def update_row_def update_many_def split: sum.split)
  ultimately obtain s d1 where r: "refresh sample_env config ''old'' session_db = (Inr s, d1)" by metis
  have "(auth_step (sha256 sample_env))\<^sup>*\<^sup>* d1 (snd (logoutAll sample_env 1 d1))" by (blast intro: auth_step.Logout_All)
  from refresh_rotates [OF session_rows(4) r this] r show ?thesis by blast
qed

text \<open>C31. Revocation: once a password has been reset through a link, or a member of staff has been deactivated, every refresh
  token the account had is refused after any further operations, a later reactivation included; and the
  link itself cannot be used again.\<close>
theorem sessions_revoked:
  assumes "token_table_ok (refresh_tokens d)" "find_token (hashToken e tok) (refresh_tokens d) = Some (j, r)"
    "(auth_step (sha256 e))\<^sup>*\<^sup>* d1 d2" "sha256 e' = sha256 e"
  shows "(deactivateStaffAccount e ac (to_owner r) d = (Inr (), d1) \<longrightarrow>
      refresh e' cfg tok d2 = (Inl (Unauthorized STR ''Invalid refresh token''), d2))
    \<and> (token_table_ok (reset_tokens d) \<longrightarrow> find_token (hashToken e link) (reset_tokens d) = Some (i, t) \<longrightarrow> to_owner t = to_owner r \<longrightarrow> resetPassword e link pw d = (Inr (), d1) \<longrightarrow>
      refresh e' cfg tok d2 = (Inl (Unauthorized STR ''Invalid refresh token''), d2)
      \<and> resetPassword e' link pw' d2 = (Inl (Unauthorized STR ''Invalid or expired reset link''), d2))"
proof (rule conjI [OF impI impI [OF impI [OF impI [OF impI]]]])
  have move: "tokens_move (refresh_tokens d1) (refresh_tokens d2)" "tokens_move (reset_tokens d1) (reset_tokens d2)"
    using auth_steps_move [OF assms(3)] by (simp_all add: auth_move_def)
  have row: "find_unique (refresh_tokens d) j = Some r" "to_hash r = hashToken e tok" using find_tokenD [OF assms(1,2)] by auto
  have refused: "refresh e' cfg tok d2 = (Inl (Unauthorized STR ''Invalid refresh token''), d2)"
    if d1: "refresh_tokens d1 = revoke_all e (to_owner r) (refresh_tokens d)"
  proof -
    have ok: "token_table_ok (refresh_tokens d1)" using tokens_move_revoke assms(1) unfolding d1 tokens_move_def by blast
    obtain r' where "find_unique (refresh_tokens d1) j = Some r'" "to_hash r' = hashToken e tok" "to_spent r' \<noteq> None"
      using row by (auto simp: d1 revoke_all_def find_unique_update_many)
    with spent_refused [OF move(1) ok] obtain s where "find_token (hashToken e tok) (refresh_tokens d2) = Some (j, s)" "to_spent s \<noteq> None"
      by metis
    then show ?thesis using assms(4) by (simp add: refresh_def hashToken_def token_usable_def)
  qed
  show "refresh e' cfg tok d2 = (Inl (Unauthorized STR ''Invalid refresh token''), d2)"
    if "deactivateStaffAccount e ac (to_owner r) d = (Inr (), d1)"
    using that by (intro refused) (auto simp: deactivateStaffAccount_def require_staff_def set_user_def split: option.splits if_splits)
  show "refresh e' cfg tok d2 = (Inl (Unauthorized STR ''Invalid refresh token''), d2)
      \<and> resetPassword e' link pw' d2 = (Inl (Unauthorized STR ''Invalid or expired reset link''), d2)"
    if link: "token_table_ok (reset_tokens d)" "find_token (hashToken e link) (reset_tokens d) = Some (i, t)"
      "to_owner t = to_owner r" "resetPassword e link pw d = (Inr (), d1)"
  proof
    have d1: "refresh_tokens d1 = revoke_all e (to_owner r) (refresh_tokens d)"
      "reset_tokens d1 = update_row i (\<lambda>t. t\<lparr>to_spent := Some (now e)\<rparr>) (reset_tokens d)"
      using link(2-4) by (auto simp: resetPassword_def set_user_def split: if_splits)
    show "refresh e' cfg tok d2 = (Inl (Unauthorized STR ''Invalid refresh token''), d2)" by (rule refused [OF d1(1)])
    have lrow: "find_unique (reset_tokens d) i = Some t" "to_hash t = hashToken e link" using find_tokenD [OF link(1,2)] by auto
    have ok: "token_table_ok (reset_tokens d1)" using tokens_move_spend_row link(1) unfolding d1(2) tokens_move_def by blast
    from spent_refused [OF move(2) ok, of i] lrow obtain s where
      "find_token (hashToken e link) (reset_tokens d2) = Some (i, s)" "to_spent s \<noteq> None" by (auto simp: d1(2))
    then show "resetPassword e' link pw' d2 = (Inl (Unauthorized STR ''Invalid or expired reset link''), d2)"
      using assms(4) by (simp add: resetPassword_def hashToken_def token_usable_def)
  qed
qed

lemma sessions_revoked_witness:
  "\<exists>d1. resetPassword sample_env ''link'' ''new'' session_db = (Inr (), d1)
     \<and> refresh sample_env config ''old'' d1 = (Inl (Unauthorized STR ''Invalid refresh token''), d1)
     \<and> resetPassword sample_env ''link'' ''again'' d1 = (Inl (Unauthorized STR ''Invalid or expired reset link''), d1)"
proof -
  have h: "hashToken sample_env ''old'' = ''#old''" "hashToken sample_env ''link'' = ''#link''" by (simp_all add: hashToken_def sample_env_def)
  obtain d1 where d1: "resetPassword sample_env ''link'' ''new'' session_db = (Inr (), d1)"
    using session_rows(2,3) h(2) by (simp add: resetPassword_def live_token_def token_usable_def sample_env_def)
  have tok: "find_token (hashToken sample_env ''old'') (refresh_tokens session_db) = Some (1, live_token 1 ''#old'')"
    "find_token (hashToken sample_env ''link'') (reset_tokens session_db) = Some (1, live_token 1 ''#link'')"
    unfolding h by (rule session_rows)+
  have "to_owner (live_token 1 ''#link'') = to_owner (live_token 1 ''#old'')" by (simp add: live_token_def)
  from sessions_revoked [OF session_rows(4) tok(1) rtranclp.rtrancl_refl refl, THEN conjunct2, rule_format,
    OF session_rows(5) tok(2) this d1, where pw' = "''again''"]
  show ?thesis using d1 by blast
qed

section \<open>Scores and estimates of an agent\<close>

text \<open>For an agent rated between one and five stars the trust score and each of its components lie between 0 and 100, the
  tier is the one the score falls into, and there is one stored score per agent: computing it again
  with nothing new gives the same score, now with a steady trend.\<close>
theorem trust_score_sound:
  assumes "find_unique (agents d) i = Some g" "\<forall>s. ag_score g = Some s \<longrightarrow> 0 \<le> s \<and> s \<le> 5" "wf_table (trust_scores d)"
    "calculateTrustScore i d = (Inr row, d1)"
  shows "(ts_completion row \<in> {0..100} \<and> ts_gps row \<in> {0..100} \<and> ts_evidence row \<in> {0..100} \<and> ts_rating row \<in> {0..100}
      \<and> ts_response row \<in> {0..100} \<and> ts_composite row \<in> {0..100} \<and> ts_completed row \<le> ts_total row
      \<and> ts_tier row = getTrustTier (ts_composite row))
    \<and> (\<exists>k. find_score i d1 = Some (k, row))
    \<and> (\<exists>d2. calculateTrustScore i d1 = (Inr (row\<lparr>ts_previous := Some (ts_composite row), ts_trend := STR ''STABLE''\<rparr>), d2))"
proof (rule conjI [OF _ conjI [OF _ _]])
  have row: "row = score_row i g d" and d1: "d1 = d\<lparr>trust_scores := (case find_score i d of
      None \<Rightarrow> insert_row row (trust_scores d) | Some (k, _) \<Rightarrow> update_row k (\<lambda>_. row) (trust_scores d))\<rparr>"
    using assms(1,4) by (auto simp: calculateTrustScore_def Let_def)
  let ?as = "trust_assignments i d"
  have counts: "completed_count ?as d \<le> length ?as" "on_time_count (ag_user g) ?as d \<le> length ?as"
    by (simp_all add: completed_count_def on_time_count_def)
  have rating: "(case ag_score g of None \<Rightarrow> 0 | Some s \<Rightarrow> round_int (s / 5 * 100)) \<in> {0..100}"
    using assms(2) round_int_range by (auto split: option.split)
  note rates = rate_score_range [OF counts(1), of min_for_completion] rate_score_range [OF counts(2), of min_for_evidence]
    rate_score_range [of "passed_count ?as" "passed_count ?as + outside_count (ag_user g) d" min_for_gps]
  show "ts_completion row \<in> {0..100} \<and> ts_gps row \<in> {0..100} \<and> ts_evidence row \<in> {0..100} \<and> ts_rating row \<in> {0..100}
      \<and> ts_response row \<in> {0..100} \<and> ts_composite row \<in> {0..100} \<and> ts_completed row \<le> ts_total row
      \<and> ts_tier row = getTrustTier (ts_composite row)"
    using rates rating response_range counts(1) composite_range
    by (simp add: row score_row_def Let_def min_for_completion_def min_for_evidence_def min_for_gps_def)
  have mine: "ts_agent row = i" by (simp add: row score_row_def Let_def)
  show found: "\<exists>k. find_score i d1 = Some (k, row)"
  proof (cases "find_score i d")
    case None
    then show ?thesis using mine by (simp add: d1 find_score_def find_first_insert_row)
  next
    case (Some x)
    obtain k old where x: "x = (k, old)" by (cases x)
    with Some have old: "ts_agent old = i" "(k, old) \<in> set (t_rows (trust_scores d))"
      using find_first_SomeD [of _ "trust_scores d" k old] by (auto simp: find_score_def)
    have "find_first (\<lambda>_ s. ts_agent s = i) (update_many (\<lambda>k' _. k' = k) (\<lambda>_. row) (trust_scores d))
        = map_option (\<lambda>(j, r). (j, if j = k then row else r)) (find_first (\<lambda>_ s. ts_agent s = i) (trust_scores d))"
      by (rule find_first_update_many) (use old mine wf_row_unique [OF assms(3) old(2)] in auto)
    then have "find_score i d1 = map_option (\<lambda>(j, r). (j, if j = k then row else r)) (find_score i d)"
      using Some x by (simp add: d1 find_score_def update_row_def)
    with Some x show ?thesis by simp
  qed
  then obtain k where k: "find_score i d1 = Some (k, score_row i g d)" using row by blast
  have "find_unique (agents d1) i = Some g" using assms(1) by (simp add: d1)
  moreover have "score_row i g d1 = row\<lparr>ts_previous := Some (ts_composite row), ts_trend := STR ''STABLE''\<rparr>"
    using k unfolding d1 row by (rule score_row_again)
  ultimately show "\<exists>d2. calculateTrustScore i d1 = (Inr (row\<lparr>ts_previous := Some (ts_composite row), ts_trend := STR ''STABLE''\<rparr>), d2)"
    by (simp add: calculateTrustScore_def Let_def)
qed

definition rated_agent :: agent where
  "rated_agent = \<lparr>ag_user = 1, ag_name = ''Bola'', ag_active = True, ag_score = Some 5, ag_tier = TI_BRONZE, ag_pass_rate = None,
    ag_city = None, ag_state = None\<rparr>"

lemma trust_score_sound_witness:
  "let d = sample_people\<lparr>agents := rows [rated_agent]\<rparr>
   in \<exists>row d1. calculateTrustScore 1 d = (Inr row, d1) \<and> ts_composite row \<in> {0..100} \<and> (\<exists>k. find_score 1 d1 = Some (k, row))"
proof -
  let ?d = "sample_people\<lparr>agents := rows [rated_agent]\<rparr>"
  have g: "find_unique (agents ?d) 1 = Some rated_agent" "wf_table (trust_scores ?d)" "\<forall>s. ag_score rated_agent = Some s \<longrightarrow> 0 \<le> s \<and> s \<le> 5"
    by (simp_all add: rated_agent_def sample_defs insert_rows_def insert_row_def empty_table_def find_unique_def wf_table_def)
  then obtain row d1 where "calculateTrustScore 1 ?d = (Inr row, d1)" by (simp add: calculateTrustScore_def Let_def)
  with trust_score_sound [OF g(1,3,2) this] show ?thesis unfolding Let_def by blast
qed

text \<open>C34. The bands of a tax estimate partition the taxable income, the tax is the sum of what each band takes, is never
  negative and, but for the rounding of six bands, at most the top rate of the taxable income; it never
  falls when the income rises, and income below the relief is not taxed.\<close>
theorem tax_estimate_sound:
  shows "(sum_list (map bt_taxable (te_bands (estimateAnnualTax x))) = te_taxable (estimateAnnualTax x))
    \<and> (te_total (estimateAnnualTax x) = tax_of paye_bands (te_taxable (estimateAnnualTax x)))
    \<and> (0 \<le> te_total (estimateAnnualTax x))
    \<and> (te_total (estimateAnnualTax x) \<le> te_taxable (estimateAnnualTax x) * (24 / 100) + 3)
    \<and> (x \<le> y \<longrightarrow>
      te_total (estimateAnnualTax x) \<le> te_total (estimateAnnualTax y))
    \<and> (x \<le> 200000 \<longrightarrow>
      te_total (estimateAnnualTax x) = 0)"
proof (rule conjI [OF _ conjI [OF _ conjI [OF _ conjI [OF _ conjI [OF impI impI]]]]])
  let ?g = "\<lambda>x. max 0 (js_round x)" and ?t = "\<lambda>x. te_taxable (estimateAnnualTax x)"
  have t: "?t x = max 0 (?g x - consolidatedReliefAllowance (?g x))" "0 \<le> ?t x" for x
    unfolding estimate_bands(3) by (rule refl, rule max.cobounded1)
  have sums: "sum_list (map bt_taxable (te_bands (estimateAnnualTax x))) = ?t x" "te_total (estimateAnnualTax x) = tax_of paye_bands (?t x)" for x
    using band_loop_sums [OF paye_bands_ok t(2) [of x]] unfolding estimate_bands(1,2) by blast+
  then show "sum_list (map bt_taxable (te_bands (estimateAnnualTax x))) = ?t x" "te_total (estimateAnnualTax x) = tax_of paye_bands (?t x)"
    by blast+
  have ok: "\<forall>b \<in> set paye_bands. 0 \<le> bd_rate b \<and> bd_rate b \<le> 24 \<and> (\<forall>l. bd_limit b = Some l \<longrightarrow> 0 < l)" "length paye_bands = 6"
    using paye_bands_ok by (auto simp: bands_ok_def paye_bands_def)
  show "0 \<le> te_total (estimateAnnualTax x)" "te_total (estimateAnnualTax x) \<le> ?t x * (24 / 100) + 3"
    using tax_of_bounds [OF ok(1) t(2) [of x]] by (simp_all add: sums(2) ok(2))
  show "te_total (estimateAnnualTax x) \<le> te_total (estimateAnnualTax y)" if "x \<le> y"
  proof -
    have "?g x \<le> ?g y" using js_round_mono [OF that] by simp
    moreover have "?g z \<in> \<int>" "0 \<le> ?g z" for z by (simp_all add: max_def)
    ultimately have "?g x - consolidatedReliefAllowance (?g x) \<le> ?g y - consolidatedReliefAllowance (?g y)"
      by (intro relief_mono)
    then have "?t x \<le> ?t y" unfolding t(1) by (intro max.mono order.refl)
    then show ?thesis unfolding sums(2) using tax_of_mono ok(1) by blast
  qed
  show "te_total (estimateAnnualTax x) = 0" if "x \<le> 200000"
  proof -
    have "?g x \<le> 200000" using js_round_mono [OF that] js_round_of_int [of 200000] by simp
    moreover have "200000 \<le> consolidatedReliefAllowance (?g x)"
      using js_round_mono [of 200000 "max 200000 (?g x * (1 / 100)) + ?g x * (2 / 10)"] js_round_of_int [of 200000]
      unfolding consolidatedReliefAllowance_def by (simp add: max.coboundedI1)
    ultimately have "?t x = 0" unfolding t(1) by simp
    then show ?thesis using sums(2) tax_of_nonpos [of 0 paye_bands] ok(1) by simp
  qed
qed

lemma tax_estimate_sound_witness:
  "te_total (estimateAnnualTax 150000) \<le> te_total (estimateAnnualTax 5000000) \<and> te_total (estimateAnnualTax 150000) = 0"
  using tax_estimate_sound [of 150000 5000000] by simp

end
