(* ===== verification/Auto_Quote.thy ===== *)
theory Auto_Quote
  imports Quotes
begin

text \<open>
  The route that confirms a scope (\<open>src/backend/src/scope/scope.controller.ts\<close>): once the owner has
  confirmed it, \<open>autoQuoteIfEligible\<close> of \<open>Quotes\<close> may quote the case by itself and move it
  from \<open>UNDER_REVIEW\<close> to \<open>QUOTED\<close> as the system. The route answers with the scope whatever became
  of the quote.
\<close>

definition confirm_route :: "env \<Rightarrow> actor \<Rightarrow> nat \<Rightarrow> db \<Rightarrow> nat result" where
  "confirm_route e ac caseId d =
     and_then (confirm_scope e ac caseId d) (\<lambda>scopeId d1. return scopeId (autoQuoteIfEligible e caseId d1))"

section \<open>What a case goes through\<close>

lemma lifecycle_confirm_scope: "lifecycle d (snd (confirm_scope e ac k d))"
  unfolding confirm_scope_def included_def by (intro lifecycle_frame) (auto simp: audit_extends_def split: option.split prod.split)

lemma lifecycle_auto_quote: "lifecycle d (autoQuoteIfEligible e k d)"
proof -
  have step: "lifecycle d (snd (and_then (quote_create q ls d) (\<lambda>qid d1. and_then (systemTransitionCase k s r d1) (f qid))))"
    if "\<And>qid d2. lifecycle d2 (snd (f qid () d2))" for q ls s r and f :: "nat \<Rightarrow> unit \<Rightarrow> db \<Rightarrow> unit result"
  proof (rule quote_create_cases [of q ls d])
    fix ql
    let ?d1 = "d\<lparr>quotes := insert_row q (quotes d), quote_lines := ql\<rparr>"
    assume made: "quote_create q ls d = (Inr (t_next (quotes d)), ?d1)"
    have "lifecycle ?d1 (snd (and_then (systemTransitionCase k s r ?d1) (f (t_next (quotes d)))))"
      by (intro lifecycle_and_then) (simp_all add: lifecycle_transition that)
    then have "lifecycle d (snd (and_then (systemTransitionCase k s r ?d1) (f (t_next (quotes d)))))"
      by (rule lifecycle_after) (simp_all add: audit_extends_def)
    then show ?thesis by (simp add: made)
  qed simp
  show ?thesis
    unfolding autoQuoteIfEligible_def attempt_auto_quote_def included_def Let_def
    by (auto intro!: step lifecycle_notify lifecycle_audit split: option.split sum.split pricing_result.split)
qed

lemma lifecycle_confirm_route: "lifecycle d (snd (confirm_route e ac k d))"
  unfolding confirm_route_def
  by (intro lifecycle_and_then) (simp_all add: lifecycle_confirm_scope lifecycle_auto_quote)

end
