(* ===== verification/Tally.thy ===== *)
theory Tally
  imports Prelude
begin

text \<open>
  Totals by key: the JavaScript idiom \<open>rec[k] = (rec[k] ?? 0) + v\<close> over the rows of a list. The
  object that comes out is an association list in the order in which its keys were first seen.
\<close>

fun add_to :: "'k \<Rightarrow> 'v::plus \<Rightarrow> ('k \<times> 'v) list \<Rightarrow> ('k \<times> 'v) list" where
  "add_to k v [] = [(k, v)]"
| "add_to k v ((j, w) # xs) = (if j = k then (j, w + v) # xs else (j, w) # add_to k v xs)"

definition tally :: "('a \<Rightarrow> 'k) \<Rightarrow> ('a \<Rightarrow> 'v::plus) \<Rightarrow> 'a list \<Rightarrow> ('k \<times> 'v) list" where
  "tally key val xs = foldl (\<lambda>acc x. add_to (key x) (val x) acc) [] xs"

lemma keys_add_to: "fst ` set (add_to k v xs) = insert k (fst ` set xs)"
  by (induction k v xs rule: add_to.induct) auto

lemma distinct_add_to: "distinct (map fst xs) \<Longrightarrow> distinct (map fst (add_to k v xs))"
proof (induction k v xs rule: add_to.induct)
  case (2 k v j w xs)
  then show ?case using keys_add_to [of k v xs] by auto
qed simp

lemma map_of_add_to:
  fixes v :: "'v::monoid_add"
  shows "map_of (add_to k v xs) j = (if j = k
     then Some ((case map_of xs k of Some w \<Rightarrow> w | None \<Rightarrow> 0) + v) else map_of xs j)"
  by (induction k v xs rule: add_to.induct) (auto split: option.split)

text \<open>The entry of a key is the sum over the rows that have it; a key without rows is absent.\<close>

lemma map_of_tally:
  fixes val :: "'a \<Rightarrow> 'v::monoid_add"
  shows "map_of (tally key val xs) k = (if k \<in> key ` set xs
     then Some (sum_list (map val (filter (\<lambda>x. key x = k) xs))) else None)"
proof (induction xs rule: rev_induct)
  case (snoc x xs)
  have "tally key val (xs @ [x]) = add_to (key x) (val x) (tally key val xs)" by (simp add: tally_def)
  moreover have "filter (\<lambda>y. key y = k) xs = []" if "k \<notin> key ` set xs"
    using that by (auto simp: filter_empty_conv)
  ultimately show ?case using snoc by (auto simp: map_of_add_to)
qed (simp add: tally_def)

lemma keys_tally: "fst ` set (tally key val xs) = key ` set xs"
  by (induction xs rule: rev_induct) (simp_all add: tally_def keys_add_to)

lemma distinct_tally: "distinct (map fst (tally key val xs))"
  by (induction xs rule: rev_induct) (simp_all add: tally_def distinct_add_to)

lemma sum_add_to:
  fixes v :: "'v::comm_monoid_add"
  shows "sum_list (map snd (add_to k v xs)) = sum_list (map snd xs) + v"
  by (induction k v xs rule: add_to.induct) (simp_all add: ac_simps)

text \<open>The entries of a tally add up to the sum over all rows: no row is lost or counted twice.\<close>

lemma sum_tally:
  fixes val :: "'a \<Rightarrow> 'v::comm_monoid_add"
  shows "sum_list (map snd (tally key val xs)) = sum_list (map val xs)"
  by (induction xs rule: rev_induct) (simp_all add: tally_def sum_add_to)

text \<open>\<open>rec[k] ?? 0\<close>.\<close>

definition get_or_0 :: "('k \<times> 'v::zero) list \<Rightarrow> 'k \<Rightarrow> 'v" where
  "get_or_0 xs k = (case map_of xs k of Some v \<Rightarrow> v | None \<Rightarrow> 0)"

text \<open>Reading a tally at distinct keys that cover its own adds up to the tally.\<close>

lemma sum_get_or_0:
  fixes xs :: "('k \<times> 'v::comm_monoid_add) list"
  assumes "distinct (map fst xs)" "distinct ks" "fst ` set xs \<subseteq> set ks"
  shows "sum_list (map (get_or_0 xs) ks) = sum_list (map snd xs)"
proof -
  have own: "map (get_or_0 xs) (map fst xs) = map snd xs"
    using assms(1) by (auto simp: get_or_0_def)
  have out: "get_or_0 xs k = 0" if "k \<in> set ks - fst ` set xs" for k
  proof -
    from that have "map_of xs k = None" by (simp add: map_of_eq_None_iff)
    then show ?thesis by (simp add: get_or_0_def)
  qed
  have "sum_list (map (get_or_0 xs) ks) = (\<Sum>k \<in> set ks. get_or_0 xs k)"
    using assms(2) by (rule sum_list_distinct_conv_sum_set)
  also have "\<dots> = (\<Sum>k \<in> set (map fst xs). get_or_0 xs k)"
    using assms(3) out by (intro sum.mono_neutral_right) auto
  also have "\<dots> = sum_list (map (get_or_0 xs) (map fst xs))"
    by (rule sum_list_distinct_conv_sum_set [symmetric, OF assms(1)])
  finally show ?thesis by (simp only: own)
qed

lemma sum_filter_concat:
  fixes f :: "'a \<Rightarrow> 'v::monoid_add"
  shows "sum_list (map f (filter P (concat xss))) = sum_list (map (\<lambda>xs. sum_list (map f (filter P xs))) xss)"
  by (induction xss) simp_all

end
