(* ===== verification/Profile.thy ===== *)
theory Profile
  imports Auth Lifecycle Recurring Tally
begin

text \<open>
  What a customer keeps about itself (\<open>src/backend/src/profile/profile.service.ts\<close>): preferences, saved
  beneficiaries, properties and assets, the invitation of a beneficiary to the portal, and the two
  reports over the customer's cases, the customer's own portfolio and the history staff see.

  Deleting a saved row clears the columns of the cases that name it (\<open>ON DELETE SET NULL\<close>) and
  removes the invitations of a beneficiary (\<open>ON DELETE CASCADE\<close>); a recurring schedule holds plain ids
  and keeps them. Sending the invitation has no effect on the database.
\<close>

section \<open>Preferences\<close>

definition requireCustomer :: "nat \<Rightarrow> db \<Rightarrow> (nat \<times> customer) result" where
  "requireCustomer userId d = (case find_customer userId d of
     None \<Rightarrow> throw (Not_Found STR ''No customer profile for this user'') d
   | Some cu \<Rightarrow> return cu d)"

record preferences =
  pf_channel :: "String.literal option"
  pf_phone :: "string option"
  pf_country :: "string option"
  pf_name :: "string option"

definition preferences_of :: "nat \<Rightarrow> user \<Rightarrow> db \<Rightarrow> preferences" where
  "preferences_of userId u d = \<lparr>pf_channel = u_preferred_channel u, pf_phone = u_phone u, pf_country = u_country u,
     pf_name = map_option (\<lambda>(_, cu). cu_name cu) (find_customer userId d)\<rparr>"

definition getPreferences :: "nat \<Rightarrow> db \<Rightarrow> (preferences \<times> billing_currency option) result" where
  "getPreferences userId d = (case find_unique (users d) userId of
     None \<Rightarrow> throw (Internal STR ''No User found'') d
   | Some u \<Rightarrow> return (preferences_of userId u d, u_billing_currency u) d)"

definition getFxRate :: "env \<Rightarrow> nat \<Rightarrow> billing_currency option \<Rightarrow> db \<Rightarrow> (billing_currency \<times> rat) result" where
  "getFxRate e userId to d = (case find_unique (users d) userId of
     None \<Rightarrow> throw (Internal STR ''No User found'') d
   | Some u \<Rightarrow>
     (let currency = (case to of Some c \<Rightarrow> c | None \<Rightarrow> (case u_billing_currency u of Some c \<Rightarrow> c | None \<Rightarrow> BC_USD))
      in if currency = BC_USD then return (currency, 1) d
         else (case fx_rates e currency of
             None \<Rightarrow> throw (Internal STR ''Exchange rate is temporarily unavailable'') d
           | Some rate \<Rightarrow> return (currency, rate) d)))"

record preferences_dto =
  pr_channel :: "String.literal option"
  pr_name :: "string option"
  pr_country :: "string option"
  pr_phone :: "string option"

text \<open>A phone number that another account has is refused by the database, and nothing is written.\<close>

definition set_preferences :: "nat \<Rightarrow> preferences_dto \<Rightarrow> db \<Rightarrow> unit result" where
  "set_preferences userId dto d =
     (if find_unique (users d) userId = None then throw (Internal STR ''Record to update not found'') d
      else if (case pr_phone dto of None \<Rightarrow> False | Some p \<Rightarrow> exists_row (\<lambda>i u. i \<noteq> userId \<and> u_phone u = Some p) (users d))
      then throw (Internal STR ''Unique constraint failed on the fields: (phone)'') d
      else (let d1 = d\<lparr>users := update_row userId (\<lambda>u. u\<lparr>u_preferred_channel := patch (pr_channel dto) (u_preferred_channel u),
                u_country := patch (pr_country dto) (u_country u), u_phone := patch (pr_phone dto) (u_phone u)\<rparr>) (users d)\<rparr>
        in case pr_name dto of
             None \<Rightarrow> return () d1
           | Some name \<Rightarrow> (case find_customer userId d1 of
               None \<Rightarrow> throw (Internal STR ''Record to update not found'') d1
             | Some (cid, _) \<Rightarrow> return () (d1\<lparr>customers := update_row cid (\<lambda>c. c\<lparr>cu_name := name\<rparr>) (customers d1)\<rparr>))))"

definition updatePreferences :: "nat \<Rightarrow> preferences_dto \<Rightarrow> db \<Rightarrow> preferences result" where
  "updatePreferences userId dto d = and_then (transactional d (set_preferences userId dto d)) (\<lambda>_ d1.
     (let d2 = audit_record None (Some userId) By_User STR ''user.preferences_updated''
           (concat [case pr_channel dto of None \<Rightarrow> [] | Some c \<Rightarrow> [(STR ''preferredChannel'', J_Lit c)],
                    case pr_name dto of None \<Rightarrow> [] | Some n \<Rightarrow> [(STR ''fullName'', J_Text n)],
                    case pr_country dto of None \<Rightarrow> [] | Some c \<Rightarrow> [(STR ''countryOfResidence'', J_Text c)],
                    case pr_phone dto of None \<Rightarrow> [] | Some p \<Rightarrow> [(STR ''phone'', J_Text p)]]) d1
      in case find_unique (users d2) userId of
           None \<Rightarrow> throw (Internal STR ''No User found'') d2
         | Some u \<Rightarrow> return (preferences_of userId u d2) d2))"

definition referred_count :: "nat \<Rightarrow> db \<Rightarrow> nat" where
  "referred_count cid d = length (find_many (\<lambda>_ c. cu_referred_by c = Some cid) (customers d))"

definition getReferralSummary :: "nat \<Rightarrow> db \<Rightarrow> (string \<times> nat) result" where
  "getReferralSummary userId d = and_then (requireCustomer userId d) (\<lambda>(cid, cu) d.
     return (cu_referral_code cu, referred_count cid d) d)"

section \<open>Beneficiaries\<close>

record beneficiary_dto =
  bd_name :: string
  bd_relationship :: "string option"
  bd_phone :: "string option"
  bd_notes :: "string option"

definition listBeneficiariesForCustomer :: "nat \<Rightarrow> db \<Rightarrow> (nat \<times> beneficiary) list" where
  "listBeneficiariesForCustomer cid d = rev (find_many (\<lambda>_ b. bf_customer b = cid) (beneficiaries d))"

definition listBeneficiaries :: "nat \<Rightarrow> db \<Rightarrow> (nat \<times> beneficiary) list result" where
  "listBeneficiaries userId d = and_then (requireCustomer userId d) (\<lambda>(cid, _) d.
     return (listBeneficiariesForCustomer cid d) d)"

definition createBeneficiary :: "nat \<Rightarrow> beneficiary_dto \<Rightarrow> db \<Rightarrow> nat result" where
  "createBeneficiary userId dto d = and_then (requireCustomer userId d) (\<lambda>(cid, _) d.
     let i = t_next (beneficiaries d) in
     return i (audit_record None (Some userId) By_User STR ''beneficiary.created'' [(STR ''beneficiaryId'', J_Id i)]
       (d\<lparr>beneficiaries := insert_row \<lparr>bf_customer = cid, bf_user = None, bf_name = bd_name dto,
          bf_relationship = bd_relationship dto, bf_phone = bd_phone dto, bf_notes = bd_notes dto\<rparr> (beneficiaries d)\<rparr>)))"

definition remove_beneficiary :: "nat \<Rightarrow> db \<Rightarrow> db" where
  "remove_beneficiary i d = d\<lparr>beneficiaries := delete_row i (beneficiaries d),
     invites := (invites d)\<lparr>t_rows := filter (\<lambda>(_, t). to_owner t \<noteq> i) (t_rows (invites d))\<rparr>,
     cases := update_many (\<lambda>_ c. c_beneficiary c = Some i) (\<lambda>c. c\<lparr>c_beneficiary := None\<rparr>) (cases d)\<rparr>"

definition deleteBeneficiary :: "nat \<Rightarrow> nat \<Rightarrow> db \<Rightarrow> unit result" where
  "deleteBeneficiary userId i d = and_then (requireCustomer userId d) (\<lambda>(cid, _) d.
     case find_unique (beneficiaries d) i of
       None \<Rightarrow> throw (Not_Found STR ''Beneficiary not found'') d
     | Some b \<Rightarrow>
       if bf_customer b \<noteq> cid then throw (Forbidden STR ''Not your beneficiary'') d
       else return () (audit_record None (Some userId) By_User STR ''beneficiary.deleted'' [(STR ''beneficiaryId'', J_Id i)]
         (remove_beneficiary i d)))"

definition beneficiary_invite_ttl_ms :: int where
  "beneficiary_invite_ttl_ms = 7 * 24 * 60 * 60 * 1000"

record invitation =
  ir_whatsapp :: bool
  ir_dev_link :: "string option"

definition frontendUrl :: "string option \<Rightarrow> string" where
  "frontendUrl frontend = or_else frontend ''http://localhost:3000''"

definition inviteBeneficiary :: "env \<Rightarrow> auth_config \<Rightarrow> string option \<Rightarrow> nat \<Rightarrow> nat \<Rightarrow> db \<Rightarrow> invitation result" where
  "inviteBeneficiary e cfg frontend userId i d = and_then (requireCustomer userId d) (\<lambda>(cid, _) d.
     case find_unique (beneficiaries d) i of
       None \<Rightarrow> throw (Not_Found STR ''Beneficiary not found'') d
     | Some b \<Rightarrow>
       if bf_customer b \<noteq> cid then throw (Forbidden STR ''Not your beneficiary'') d
       else if bf_user b \<noteq> None then throw (Bad_Request STR ''This beneficiary already has a portal account'') d
       else (let superseded = revoke_all e i (invites d); token = random_token e;
                 link = frontendUrl frontend @ ''/beneficiary/accept-invite?token='' @ token
         in case insert_token \<lparr>to_owner = i, to_hash = hashToken e token, to_expires = now e + beneficiary_invite_ttl_ms,
               to_spent = None\<rparr> superseded of
              Inl err \<Rightarrow> throw err (d\<lparr>invites := superseded\<rparr>)
            | Inr ts \<Rightarrow> return \<lparr>ir_whatsapp = (case bf_phone b of None \<Rightarrow> False | Some p \<Rightarrow> p \<noteq> []),
                  ir_dev_link = (if production cfg then None else Some link)\<rparr>
                (audit_record None (Some userId) By_User STR ''beneficiary.invited'' [(STR ''beneficiaryId'', J_Id i)]
                  (d\<lparr>invites := ts\<rparr>))))"

section \<open>Properties and assets\<close>

text \<open>The DTO is spread into the row: its fields are those the customer sent, by name.\<close>

definition listPropertiesForCustomer :: "nat \<Rightarrow> db \<Rightarrow> (nat \<times> place) list" where
  "listPropertiesForCustomer cid d = rev (find_many (\<lambda>_ p. pl_customer p = cid) (properties d))"

definition listProperties :: "nat \<Rightarrow> db \<Rightarrow> (nat \<times> place) list result" where
  "listProperties userId d = and_then (requireCustomer userId d) (\<lambda>(cid, _) d. return (listPropertiesForCustomer cid d) d)"

definition createProperty :: "nat \<Rightarrow> (String.literal \<times> string) list \<Rightarrow> db \<Rightarrow> nat result" where
  "createProperty userId dto d = and_then (requireCustomer userId d) (\<lambda>(cid, _) d.
     let i = t_next (properties d) in
     return i (audit_record None (Some userId) By_User STR ''property.created'' [(STR ''propertyId'', J_Id i)]
       (d\<lparr>properties := insert_row \<lparr>pl_customer = cid, pl_latitude = None, pl_longitude = None, pl_details = dto\<rparr>
          (properties d)\<rparr>)))"

definition remove_property :: "nat \<Rightarrow> db \<Rightarrow> db" where
  "remove_property i d = d\<lparr>properties := delete_row i (properties d),
     cases := update_many (\<lambda>_ c. c_property c = Some i) (\<lambda>c. c\<lparr>c_property := None\<rparr>) (cases d)\<rparr>"

definition deleteProperty :: "nat \<Rightarrow> nat \<Rightarrow> db \<Rightarrow> unit result" where
  "deleteProperty userId i d = and_then (requireCustomer userId d) (\<lambda>(cid, _) d.
     case find_unique (properties d) i of
       None \<Rightarrow> throw (Not_Found STR ''Property not found'') d
     | Some p \<Rightarrow>
       if pl_customer p \<noteq> cid then throw (Forbidden STR ''Not your property'') d
       else return () (audit_record None (Some userId) By_User STR ''property.deleted'' [(STR ''propertyId'', J_Id i)]
         (remove_property i d)))"

definition listAssetsForCustomer :: "nat \<Rightarrow> db \<Rightarrow> (nat \<times> place) list" where
  "listAssetsForCustomer cid d = rev (find_many (\<lambda>_ p. pl_customer p = cid) (assets d))"

definition listAssets :: "nat \<Rightarrow> db \<Rightarrow> (nat \<times> place) list result" where
  "listAssets userId d = and_then (requireCustomer userId d) (\<lambda>(cid, _) d. return (listAssetsForCustomer cid d) d)"

definition createAsset :: "nat \<Rightarrow> (String.literal \<times> string) list \<Rightarrow> db \<Rightarrow> nat result" where
  "createAsset userId dto d = and_then (requireCustomer userId d) (\<lambda>(cid, _) d.
     let i = t_next (assets d) in
     return i (audit_record None (Some userId) By_User STR ''asset.created'' [(STR ''assetId'', J_Id i)]
       (d\<lparr>assets := insert_row \<lparr>pl_customer = cid, pl_latitude = None, pl_longitude = None, pl_details = dto\<rparr>
          (assets d)\<rparr>)))"

definition remove_asset :: "nat \<Rightarrow> db \<Rightarrow> db" where
  "remove_asset i d = d\<lparr>assets := delete_row i (assets d),
     cases := update_many (\<lambda>_ c. c_asset c = Some i) (\<lambda>c. c\<lparr>c_asset := None\<rparr>) (cases d)\<rparr>"

definition deleteAsset :: "nat \<Rightarrow> nat \<Rightarrow> db \<Rightarrow> unit result" where
  "deleteAsset userId i d = and_then (requireCustomer userId d) (\<lambda>(cid, _) d.
     case find_unique (assets d) i of
       None \<Rightarrow> throw (Not_Found STR ''Asset not found'') d
     | Some p \<Rightarrow>
       if pl_customer p \<noteq> cid then throw (Forbidden STR ''Not your asset'') d
       else return () (audit_record None (Some userId) By_User STR ''asset.deleted'' [(STR ''assetId'', J_Id i)]
         (remove_asset i d)))"

section \<open>The portfolio\<close>

text \<open>The cases of a customer, the newest first, and the payments of a case through its invoices.\<close>

definition customer_cases :: "nat \<Rightarrow> db \<Rightarrow> (nat \<times> service_case) list" where
  "customer_cases cid d = rev (find_many (\<lambda>_ c. c_customer c = cid) (cases d))"

definition case_payments :: "nat \<Rightarrow> db \<Rightarrow> payment list" where
  "case_payments k d = concat (map (\<lambda>(i, _). map snd (find_many (\<lambda>_ p. p_invoice p = i) (payments d)))
     (find_many (\<lambda>_ iv. iv_case iv = k) (invoices d)))"

definition terminal_case_statuses :: "case_status list" where
  "terminal_case_statuses = [CS_COMPLETED, CS_CLOSED]"

definition upcoming_assignment_statuses :: "assignment_status list" where
  "upcoming_assignment_statuses = [AS_OFFERED, AS_ACCEPTED, AS_IN_PROGRESS]"

record visit =
  vi_case :: nat
  vi_number :: string
  vi_service :: service_type
  vi_role :: assignment_role
  vi_at :: int

record portfolio =
  po_name :: string
  po_total :: nat
  po_completed :: nat
  po_active :: "(case_status \<times> nat) list"
  po_spend :: "(String.literal \<times> rat) list"
  po_properties :: "(nat \<times> place \<times> (nat \<times> service_case) option) list"
  po_assets :: "(nat \<times> place \<times> (nat \<times> service_case) option) list"
  po_beneficiaries :: "(nat \<times> string \<times> string option \<times> bool) list"
  po_visits :: "visit list"
  po_membership :: "(membership_plan \<times> subscription_status \<times> rat) option"
  po_referral :: "string \<times> nat"

definition case_visits :: "env \<Rightarrow> db \<Rightarrow> nat \<times> service_case \<Rightarrow> visit list" where
  "case_visits e d = (\<lambda>(k, c). concat (map (\<lambda>(_, a). case as_scheduled_for a of
       None \<Rightarrow> []
     | Some t \<Rightarrow> if now e < t \<and> as_status a \<in> set upcoming_assignment_statuses
         then [\<lparr>vi_case = k, vi_number = c_number c, vi_service = c_service_type c, vi_role = as_role a, vi_at = t\<rparr>] else [])
     (find_many (\<lambda>_ a. as_case a = k) (assignments d))))"

text \<open>The subscription that started last; \<open>startedAt\<close> may tie, then the row order of the table decides.\<close>

definition latest_subscription :: "nat \<Rightarrow> db \<Rightarrow> (nat \<times> subscription) option" where
  "latest_subscription cid d = max_by (\<lambda>(_, s). s_started s) (find_many (\<lambda>_ s. s_customer s = cid) (subscriptions d))"

definition portfolio_of :: "env \<Rightarrow> nat \<Rightarrow> customer \<Rightarrow> db \<Rightarrow> portfolio" where
  "portfolio_of e cid cu d = (let cs = customer_cases cid d;
       terminal = (\<lambda>(_, c). c_status c \<in> set terminal_case_statuses);
       last_case = (\<lambda>column i. find (\<lambda>(_, c). column c = Some i) cs)
     in \<lparr>po_name = cu_name cu, po_total = length cs, po_completed = length (filter terminal cs),
       po_active = tally (\<lambda>(_, c). c_status c) (\<lambda>_. 1) (filter (\<lambda>x. \<not> terminal x) cs),
       po_spend = tally p_currency p_amount (filter (\<lambda>p. p_status p = PS_PAID)
          (concat (map (\<lambda>(k, _). case_payments k d) cs))),
       po_properties = map (\<lambda>(i, p). (i, p, last_case c_property i)) (listPropertiesForCustomer cid d),
       po_assets = map (\<lambda>(i, p). (i, p, last_case c_asset i)) (listAssetsForCustomer cid d),
       po_beneficiaries = map (\<lambda>(i, b). (i, bf_name b, bf_relationship b, bf_user b \<noteq> None))
          (listBeneficiariesForCustomer cid d),
       po_visits = sort_key vi_at (concat (map (case_visits e d) cs)),
       po_membership = map_option (\<lambda>(sid, s). (s_plan s, s_status s, getBalanceUsd sid d)) (latest_subscription cid d),
       po_referral = (cu_referral_code cu, referred_count cid d)\<rparr>)"

definition getPortfolio :: "env \<Rightarrow> nat \<Rightarrow> db \<Rightarrow> portfolio result" where
  "getPortfolio e userId d = and_then (requireCustomer userId d) (\<lambda>(cid, cu) d. return (portfolio_of e cid cu d) d)"

section \<open>The history staff see\<close>

definition paid_amount :: "nat \<Rightarrow> db \<Rightarrow> rat" where
  "paid_amount k d = sum_list (map p_amount (filter (\<lambda>p. p_status p = PS_PAID) (case_payments k d)))"

record case_summary =
  cy_case :: nat
  cy_number :: string
  cy_service :: service_type
  cy_status :: case_status
  cy_tier :: case_tier
  cy_paid :: rat
  cy_rating :: "(int \<times> string option) option"

record customer_history =
  hi_name :: string
  hi_email :: "string option"
  hi_phone :: "string option"
  hi_code :: string
  hi_total :: nat
  hi_completed :: nat
  hi_paid :: rat
  hi_rating :: "rat option"
  hi_cases :: "case_summary list"

definition summary_of :: "db \<Rightarrow> nat \<times> service_case \<Rightarrow> case_summary" where
  "summary_of d = (\<lambda>(k, c). \<lparr>cy_case = k, cy_number = c_number c, cy_service = c_service_type c,
     cy_status = c_status c, cy_tier = c_tier c, cy_paid = paid_amount k d,
     cy_rating = map_option (\<lambda>(_, r). (rt_stars r, rt_comment r)) (find_first (\<lambda>_ r. rt_case r = k) (ratings d))\<rparr>)"

definition getCustomerHistory :: "nat \<Rightarrow> role \<Rightarrow> db \<Rightarrow> customer_history result" where
  "getCustomerHistory cid actorRole d = (case find_unique (customers d) cid of
     None \<Rightarrow> throw (Not_Found STR ''Customer not found'') d
   | Some cu \<Rightarrow> included (users d) (cu_user cu) d (\<lambda>u.
     (let summaries = map (summary_of d) (customer_cases cid d);
          stars = List.map_filter (\<lambda>s. map_option fst (cy_rating s)) summaries;
          restricted = isPiiRestricted actorRole
      in return \<lparr>hi_name = (if restricted then redacted_customer_name else cu_name cu),
           hi_email = (if restricted then None else u_email u), hi_phone = (if restricted then None else u_phone u),
           hi_code = cu_referral_code cu, hi_total = length summaries,
           hi_completed = length (filter (\<lambda>s. cy_status s \<in> {CS_COMPLETED, CS_CLOSED}) summaries),
           hi_paid = sum_list (map cy_paid summaries),
           hi_rating = (if stars = [] then None else Some (of_int (sum_list stars) / of_nat (length stars))),
           hi_cases = summaries\<rparr> d)))"

section \<open>Effect on the lifecycle of the cases\<close>

lemma lifecycle_remove:
  "lifecycle d (remove_beneficiary i d)" "lifecycle d (remove_property i d)" "lifecycle d (remove_asset i d)"
proof -
  show "lifecycle d (remove_beneficiary i d)"
    by (rule lifecycle_update_cases [of "\<lambda>c. c\<lparr>c_beneficiary := None\<rparr>"]) (simp_all add: remove_beneficiary_def)
  show "lifecycle d (remove_property i d)"
    by (rule lifecycle_update_cases [of "\<lambda>c. c\<lparr>c_property := None\<rparr>"]) (simp_all add: remove_property_def)
  show "lifecycle d (remove_asset i d)"
    by (rule lifecycle_update_cases [of "\<lambda>c. c\<lparr>c_asset := None\<rparr>"]) (simp_all add: remove_asset_def)
qed

lemma lifecycle_own_customer: "lifecycle d (snd (requireCustomer u d))"
  by (simp add: requireCustomer_def split: option.split)

lemma lifecycle_deletes:
  "lifecycle d (snd (deleteBeneficiary u i d))" "lifecycle d (snd (deleteProperty u i d))"
  "lifecycle d (snd (deleteAsset u i d))"
  unfolding deleteBeneficiary_def deleteProperty_def deleteAsset_def
  by (rule lifecycle_and_then [OF lifecycle_own_customer],
      simp add: lifecycle_audit lifecycle_remove split: option.split prod.split)+

end
