(* ===== verification/Concierge.thy ===== *)
theory Concierge
  imports Auth Lifecycle Pricing
begin

text \<open>
  The AI concierge: lead scoring (\<open>src/backend/src/ai/scoring.ts\<close>), the knowledge base it answers from
  (\<open>src/backend/src/ai-knowledge/ai-knowledge.service.ts\<close>), its conversations
  (\<open>src/backend/src/ai/ai.service.ts\<close>) and the same conversations over WhatsApp
  (\<open>src/backend/src/whatsapp/whatsapp.service.ts\<close>, \<open>case-approval-buttons.ts\<close>).

  The language model is a parameter: a function of the knowledge block and the messages, the
  constant system prompt left out. What it answers is unchecked JSON, read as the code reads it.
\<close>

section \<open>Lead scoring\<close>

record scoring_input =
  sg_stated :: "rat option"
  sg_band :: rat
  sg_timeline :: "string option"
  sg_engagement :: rat

definition value_points :: "scoring_input \<Rightarrow> rat" where
  "value_points i = (case sg_stated i of
     None \<Rightarrow> 6
   | Some v \<Rightarrow> if sg_band i \<le> v then 45 else if sg_band i * 8 / 10 \<le> v then 26 else 6)"

definition timeline_points :: "string option \<Rightarrow> rat" where
  "timeline_points t = (if t = Some ''immediate'' then 40 else if t = Some ''near_term'' then 24 else 7)"

definition engagement_points :: "rat \<Rightarrow> rat" where
  "engagement_points x = max 0 (min 15 (js_round x))"

definition lead_tag_of :: "rat \<Rightarrow> lead_tag" where
  "lead_tag_of score = (if 75 \<le> score then LT_HOT else if 45 \<le> score then LT_WARM else LT_COLD)"

fun lead_tag_name :: "lead_tag \<Rightarrow> String.literal" where
  "lead_tag_name LT_HOT = STR ''HOT''"
| "lead_tag_name LT_WARM = STR ''WARM''"
| "lead_tag_name LT_COLD = STR ''COLD''"

definition scoreLead :: "scoring_input \<Rightarrow> rat \<times> lead_tag" where
  "scoreLead i = (let score = value_points i + timeline_points (sg_timeline i) + engagement_points (sg_engagement i)
     in (score, lead_tag_of score))"

section \<open>The knowledge base\<close>

fun knowledge_category_rank :: "knowledge_category \<Rightarrow> nat" where
  "knowledge_category_rank KC_PRICING = 0"
| "knowledge_category_rank KC_POLICY = 1"
| "knowledge_category_rank KC_SERVICE_INFO = 2"
| "knowledge_category_rank KC_FAQ = 3"
| "knowledge_category_rank KC_GENERAL = 4"

definition category_order :: "knowledge_category list" where
  "category_order = [KC_PRICING, KC_SERVICE_INFO, KC_POLICY, KC_FAQ, KC_GENERAL]"

fun category_name :: "knowledge_category \<Rightarrow> string" where
  "category_name KC_PRICING = ''PRICING''"
| "category_name KC_POLICY = ''POLICY''"
| "category_name KC_SERVICE_INFO = ''SERVICE_INFO''"
| "category_name KC_FAQ = ''FAQ''"
| "category_name KC_GENERAL = ''GENERAL''"

record knowledge_dto =
  kd_category :: knowledge_category
  kd_title :: string
  kd_content :: string
  kd_active :: "bool option"

record knowledge_patch =
  kp_category :: "knowledge_category option"
  kp_title :: "string option"
  kp_content :: "string option"
  kp_active :: "bool option"

definition createKnowledge :: "env \<Rightarrow> actor \<Rightarrow> knowledge_dto \<Rightarrow> db \<Rightarrow> nat result" where
  "createKnowledge e ac dto d = (let i = t_next (knowledge d) in
     return i (audit_record None (Some (act_id ac)) By_User STR ''ai_knowledge.created''
       [(STR ''entryId'', J_Id i), (STR ''category'', J_Text (category_name (kd_category dto))),
        (STR ''title'', J_Text (kd_title dto))]
       (d\<lparr>knowledge := insert_row \<lparr>ke_category = kd_category dto, ke_title = kd_title dto, ke_content = kd_content dto,
          ke_active = (case kd_active dto of Some b \<Rightarrow> b | None \<Rightarrow> True), ke_updated = now e\<rparr> (knowledge d)\<rparr>)))"

definition listKnowledge :: "db \<Rightarrow> (nat \<times> knowledge_entry) list" where
  "listKnowledge d = sort_key (\<lambda>(_, k). knowledge_category_rank (ke_category k))
     (sort_key (\<lambda>(_, k). - ke_updated k) (t_rows (knowledge d)))"

definition updateKnowledge :: "env \<Rightarrow> actor \<Rightarrow> nat \<Rightarrow> knowledge_patch \<Rightarrow> db \<Rightarrow> knowledge_entry result" where
  "updateKnowledge e ac i dto d = (case find_unique (knowledge d) i of
     None \<Rightarrow> throw (Not_Found STR ''Knowledge entry not found'') d
   | Some k \<Rightarrow>
     (let k' = \<lparr>ke_category = (case kp_category dto of Some c \<Rightarrow> c | None \<Rightarrow> ke_category k),
            ke_title = (case kp_title dto of Some t \<Rightarrow> t | None \<Rightarrow> ke_title k),
            ke_content = (case kp_content dto of Some t \<Rightarrow> t | None \<Rightarrow> ke_content k),
            ke_active = (case kp_active dto of Some b \<Rightarrow> b | None \<Rightarrow> ke_active k), ke_updated = now e\<rparr>
      in return k' (audit_record None (Some (act_id ac)) By_User STR ''ai_knowledge.updated''
        [(STR ''entryId'', J_Id i), (STR ''category'', J_Text (category_name (ke_category k'))),
         (STR ''isActive'', J_Bool (ke_active k'))]
        (d\<lparr>knowledge := update_row i (\<lambda>_. k') (knowledge d)\<rparr>))))"

definition removeKnowledge :: "actor \<Rightarrow> nat \<Rightarrow> db \<Rightarrow> unit result" where
  "removeKnowledge ac i d = (case find_unique (knowledge d) i of
     None \<Rightarrow> throw (Not_Found STR ''Knowledge entry not found'') d
   | Some k \<Rightarrow> return () (audit_record None (Some (act_id ac)) By_User STR ''ai_knowledge.deleted''
       [(STR ''entryId'', J_Id i), (STR ''category'', J_Text (category_name (ke_category k))),
        (STR ''title'', J_Text (ke_title k))]
       (d\<lparr>knowledge := delete_row i (knowledge d)\<rparr>)))"

text \<open>
  The block of knowledge given to the model: its sections in order, each the lines of its entries,
  and the pricing summary. The fixed sentences of its layout are left out.
\<close>

record context_block =
  cb_sections :: "(knowledge_category \<times> (string \<times> string) list) list"
  cb_pricing :: "(String.literal \<times> nat \<times> (service_type \<times> pricing_zone \<times> string \<times> rat \<times> rat) list) option"

definition buildContextBlock :: "env \<Rightarrow> db \<Rightarrow> context_block option" where
  "buildContextBlock e d = (let entries = map snd (find_many (\<lambda>_ k. ke_active k) (knowledge d));
       pricing = getActivePricingCatalogSummary e d;
       lines = (\<lambda>c. map (\<lambda>k. (ke_title k, ke_content k)) (filter (\<lambda>k. ke_category k = c) entries))
     in if entries = [] \<and> pricing = None then None
        else Some \<lparr>cb_sections = filter (\<lambda>(_, ls). ls \<noteq> []) (map (\<lambda>c. (c, lines c)) category_order),
               cb_pricing = pricing\<rparr>)"

section \<open>Conversations\<close>

fun service_type_name :: "service_type \<Rightarrow> string" where
  "service_type_name ST_PROPERTY_INSPECTION = ''PROPERTY_INSPECTION''"
| "service_type_name ST_CONSTRUCTION_SUPERVISION = ''CONSTRUCTION_SUPERVISION''"
| "service_type_name ST_ASSET_INSPECTION = ''ASSET_INSPECTION''"
| "service_type_name ST_FAMILY_SUPPORT = ''FAMILY_SUPPORT''"
| "service_type_name ST_PROCUREMENT = ''PROCUREMENT''"
| "service_type_name ST_BUSINESS_VERIFICATION = ''BUSINESS_VERIFICATION''"
| "service_type_name ST_INVESTMENT_SUPPORT = ''INVESTMENT_SUPPORT''"
| "service_type_name ST_AGRICULTURE_SUPPORT = ''AGRICULTURE_SUPPORT''"
| "service_type_name ST_BEREAVEMENT_SUPPORT = ''BEREAVEMENT_SUPPORT''"
| "service_type_name ST_ARRIVAL_SUPPORT = ''ARRIVAL_SUPPORT''"
| "service_type_name ST_LEGAL_DOCUMENT_SERVICES = ''LEGAL_DOCUMENT_SERVICES''"
| "service_type_name ST_HEALTHCARE_COORDINATION = ''HEALTHCARE_COORDINATION''"

definition service_types :: "service_type list" where
  "service_types = map fst service_type_to_family"

text \<open>The text is checked against the names of the enum; anything else counts as not determined.\<close>

definition read_service_type :: "string option \<Rightarrow> service_type option" where
  "read_service_type raw = (case raw of
     None \<Rightarrow> None | Some s \<Rightarrow> find (\<lambda>t. service_type_name t = s) service_types)"

definition escalation_map :: "string \<Rightarrow> ai_escalation" where
  "escalation_map s = (if s = ''human_requested'' then AE_HUMAN_REQUESTED else if s = ''vip'' then AE_VIP
     else if s = ''frustration'' then AE_FRUSTRATION else if s = ''legal_question'' then AE_LEGAL_QUESTION else AE_NONE)"

definition default_service_price_band_ngn :: rat where
  "default_service_price_band_ngn = 150000"

record concierge_turn =
  tn_reply :: string
  tn_collected :: collected
  tn_escalate :: string
  tn_complete :: bool
  tn_engagement :: rat

record message_dto =
  md_message :: string
  md_history :: "chat_turn list option"

type_synonym concierge_model = "context_block option \<Rightarrow> chat_turn list \<Rightarrow> error + concierge_turn option"

text \<open>
  The call fails, answers without a structured turn, or with one. Without an API key there is no
  model. An engagement score that is no 32-bit integer is refused by the column it is stored in.
\<close>

definition runConciergeTurn ::
  "env \<Rightarrow> concierge_model option \<Rightarrow> message_dto \<Rightarrow> db \<Rightarrow> concierge_turn result" where
  "runConciergeTurn e client dto d = (case client of
     None \<Rightarrow> throw (Internal STR ''AI Concierge is not configured'') d
   | Some model \<Rightarrow>
     (case model (buildContextBlock e d)
        ((case md_history dto of Some h \<Rightarrow> h | None \<Rightarrow> []) @ [\<lparr>ct_user = True, ct_content = md_message dto\<rparr>]) of
        Inl err \<Rightarrow> throw err d
      | Inr None \<Rightarrow> throw (Internal STR ''AI Concierge did not return a structured turn'') d
      | Inr (Some t) \<Rightarrow> return t d))"

definition int_column :: "rat \<Rightarrow> bool" where
  "int_column x \<longleftrightarrow> of_int \<lfloor>x\<rfloor> = x \<and> - (2 ^ 31) \<le> x \<and> x < 2 ^ 31"

definition new_lead :: "nat \<Rightarrow> concierge_turn \<Rightarrow> nat \<Rightarrow> service_request" where
  "new_lead cid t interactionId = (let co = tn_collected t;
       lead = scoreLead \<lparr>sg_stated = None, sg_band = default_service_price_band_ngn, sg_timeline = co_timeline co,
                sg_engagement = tn_engagement t\<rparr>
     in \<lparr>rq_customer = cid, rq_service_type = read_service_type (co_service co),
         rq_raw_description = (case co_scope co of Some s \<Rightarrow> s | None \<Rightarrow> tn_reply t), rq_location = co_location co,
         rq_channel = STR ''web'', rq_converted = None, rq_objective = co_scope co, rq_subject = None,
         rq_timing = co_timeline co, rq_requirements = None, rq_lead_tag = Some (snd lead),
         rq_lead_score = Some (fst lead), rq_interaction = Some interactionId\<rparr>)"

definition completeIntake :: "env \<Rightarrow> nat \<Rightarrow> concierge_turn \<Rightarrow> nat \<Rightarrow> db \<Rightarrow> nat result" where
  "completeIntake e userId t interactionId d = (case find_customer userId d of
     None \<Rightarrow> throw (Internal STR ''No customer profile for this user'') d
   | Some (cid, _) \<Rightarrow>
     (let rid = t_next (requests d); rq = new_lead cid t interactionId in
      and_then (evaluateAutomationAndMaybeConvert e rid
        (audit_record None (Some userId) By_Ai STR ''ai.service_request_created''
          [(STR ''serviceRequestId'', J_Id rid), (STR ''leadScore'', json_option J_Num (rq_lead_score rq)),
           (STR ''leadTag'', json_option (\<lambda>x. J_Lit (lead_tag_name x)) (rq_lead_tag rq)),
           (STR ''serviceType'', json_option J_Service (rq_service_type rq))]
         (d\<lparr>requests := insert_row rq (requests d)\<rparr>))) (\<lambda>_. return rid)))"

record concierge_answer =
  ca_reply :: string
  ca_escalate :: string
  ca_complete :: bool
  ca_request :: "nat option"

definition new_interaction :: "message_dto \<Rightarrow> concierge_turn \<Rightarrow> ai_interaction" where
  "new_interaction dto t = \<lparr>ax_channel = STR ''web'', ax_level = AL_ASSIST, ax_summary = take 500 (md_message dto),
     ax_collected = tn_collected t, ax_engagement = tn_engagement t, ax_escalation = escalation_map (tn_escalate t),
     ax_complete = tn_complete t\<rparr>"

definition converse :: "env \<Rightarrow> concierge_model option \<Rightarrow> actor \<Rightarrow> message_dto \<Rightarrow> db \<Rightarrow> concierge_answer result" where
  "converse e client usr dto d =
     (if act_role usr \<noteq> R_CUSTOMER then throw (Internal STR ''AI Concierge is customer-facing only.'') d
      else and_then (runConciergeTurn e client dto d) (\<lambda>t d.
        if \<not> int_column (tn_engagement t) then throw (Internal STR ''Invalid value for engagementSubscore'') d
        else (let i = t_next (interactions d);
           answer = (\<lambda>r. \<lparr>ca_reply = tn_reply t, ca_escalate = tn_escalate t, ca_complete = tn_complete t, ca_request = r\<rparr>);
           d1 = audit_record None (Some (act_id usr)) By_Ai STR ''ai.concierge_turn''
             [(STR ''aiInteractionId'', J_Id i), (STR ''escalate'', J_Text (tn_escalate t)),
              (STR ''conversationComplete'', J_Bool (tn_complete t))]
             (d\<lparr>interactions := insert_row (new_interaction dto t) (interactions d)\<rparr>)
         in if tn_complete t then and_then (completeIntake e (act_id usr) t i d1) (\<lambda>rid. return (answer (Some rid)))
            else return (answer None) d1)))"

text \<open>The public preview: a turn of which nothing is kept.\<close>

definition demoConverse :: "env \<Rightarrow> concierge_model option \<Rightarrow> message_dto \<Rightarrow> db \<Rightarrow> (string \<times> string \<times> bool) result" where
  "demoConverse e client dto d = and_then (runConciergeTurn e client dto d) (\<lambda>t.
     return (tn_reply t, tn_escalate t, tn_complete t))"

text \<open>The personal assistant answers from the customer's own rows; the date a case was opened is no column of the model.\<close>

record assistant_context =
  sx_name :: string
  sx_cases :: "(string \<times> service_type \<times> case_status \<times> case_tier) list"
  sx_subscription :: "(case_tier \<times> subscription_status) option"
  sx_beneficiaries :: "(string \<times> string option) list"
  sx_properties :: "(String.literal \<times> string) list list"
  sx_assets :: "(String.literal \<times> string) list list"

type_synonym assistant_model = "context_block option \<Rightarrow> assistant_context \<Rightarrow> chat_turn list \<Rightarrow> error + string option"

definition assistant_context_of :: "nat \<Rightarrow> customer \<Rightarrow> db \<Rightarrow> assistant_context" where
  "assistant_context_of cid cu d = \<lparr>sx_name = cu_name cu,
     sx_cases = map (\<lambda>(_, c). (c_number c, c_service_type c, c_status c, c_tier c))
       (rev (find_many (\<lambda>_ c. c_customer c = cid) (cases d))),
     sx_subscription = map_option (\<lambda>(_, s). (s_tier s, s_status s))
       (max_by (\<lambda>(_, s). s_started s) (find_many (\<lambda>_ s. s_customer s = cid) (subscriptions d))),
     sx_beneficiaries = map (\<lambda>(_, b). (bf_name b, bf_relationship b)) (find_many (\<lambda>_ b. bf_customer b = cid) (beneficiaries d)),
     sx_properties = map (\<lambda>(_, p). pl_details p) (find_many (\<lambda>_ p. pl_customer p = cid) (properties d)),
     sx_assets = map (\<lambda>(_, p). pl_details p) (find_many (\<lambda>_ p. pl_customer p = cid) (assets d))\<rparr>"

definition assistantReply :: "env \<Rightarrow> assistant_model option \<Rightarrow> actor \<Rightarrow> message_dto \<Rightarrow> db \<Rightarrow> string result" where
  "assistantReply e client usr dto d = (case client of
     None \<Rightarrow> throw (Internal STR ''AI Assistant is not configured'') d
   | Some model \<Rightarrow>
     if act_role usr \<noteq> R_CUSTOMER then throw (Internal STR ''AI Assistant is customer-facing only.'') d
     else (case find_customer (act_id usr) d of
       None \<Rightarrow> throw (Internal STR ''No customer profile for this user'') d
     | Some (cid, cu) \<Rightarrow>
       (case model (buildContextBlock e d) (assistant_context_of cid cu d)
          ((case md_history dto of Some h \<Rightarrow> h | None \<Rightarrow> []) @ [\<lparr>ct_user = True, ct_content = md_message dto\<rparr>]) of
          Inl err \<Rightarrow> throw err d
        | Inr text \<Rightarrow> return (case text of Some s \<Rightarrow> s
              | None \<Rightarrow> ''Sorry, I couldn't put together a reply: please try again.'')
            (audit_record None (Some (act_id usr)) By_Ai STR ''ai.assistant_turn''
              [(STR ''promptSummary'', J_Text (take 500 (md_message dto)))] d))))"

record feedback_dto =
  fd_rating :: feedback_rating
  fd_message :: string
  fd_reply :: string
  fd_had_quote :: "bool option"

definition recordConciergeFeedback :: "nat \<Rightarrow> feedback_dto \<Rightarrow> db \<Rightarrow> nat result" where
  "recordConciergeFeedback userId dto d = (case find_customer userId d of
     None \<Rightarrow> throw (Internal STR ''No customer profile for this user'') d
   | Some (cid, _) \<Rightarrow> (let i = t_next (feedbacks d) in
       return i (audit_record None (Some userId) By_User STR ''ai.concierge_feedback_recorded''
         [(STR ''feedbackId'', J_Id i), (STR ''rating'', J_Lit (if fd_rating dto = FR_UP then STR ''UP'' else STR ''DOWN''))]
         (d\<lparr>feedbacks := insert_row \<lparr>cf_customer = cid, cf_rating = fd_rating dto, cf_message = fd_message dto,
            cf_reply = fd_reply dto, cf_had_quote = (case fd_had_quote dto of Some b \<Rightarrow> b | None \<Rightarrow> False)\<rparr> (feedbacks d)\<rparr>))))"

definition recordAnalyticsEvent :: "analytics_event_name \<Rightarrow> string \<Rightarrow> json option \<Rightarrow> db \<Rightarrow> unit result" where
  "recordAnalyticsEvent name session metadata d = return ()
     (d\<lparr>analytics := insert_row \<lparr>an_name = name, an_session = session, an_metadata = metadata\<rparr> (analytics d)\<rparr>)"

section \<open>Approval buttons\<close>

fun split_on :: "char \<Rightarrow> string \<Rightarrow> string list" where
  "split_on c [] = [[]]"
| "split_on c (x # xs) = (if x = c then [] # split_on c xs
     else (case split_on c xs of [] \<Rightarrow> [[x]] | w # ws \<Rightarrow> (x # w) # ws))"

definition button_prefix :: string where
  "button_prefix = ''case-approval''"

definition action_by_code :: "string \<Rightarrow> approval_action option" where
  "action_by_code code = (if code = ''approve'' then Some AP_APPROVED
     else if code = ''additional_work'' then Some AP_REQUEST_ADDITIONAL_WORK else None)"

definition button_id :: "string \<Rightarrow> string \<Rightarrow> string" where
  "button_id code caseId = button_prefix @ '':'' @ code @ '':'' @ caseId"

definition buildCaseApprovalButtons :: "string \<Rightarrow> (string \<times> String.literal) list" where
  "buildCaseApprovalButtons caseId = [(button_id ''approve'' caseId, STR ''Approve report''),
     (button_id ''additional_work'' caseId, STR ''Request changes'')]"

definition parseCaseApprovalButtonId :: "string \<Rightarrow> (approval_action \<times> string) option" where
  "parseCaseApprovalButtonId s = (case split_on (CHR '':'') s of
     [p, code, caseId] \<Rightarrow> if p \<noteq> button_prefix then None
       else (case action_by_code code of None \<Rightarrow> None | Some a \<Rightarrow> if caseId = [] then None else Some (a, caseId))
   | _ \<Rightarrow> None)"

section \<open>WhatsApp\<close>

definition normalizePhone :: "string \<Rightarrow> string" where
  "normalizePhone raw = js_trim (if js_lower (take 9 raw) = ''whatsapp:'' then drop 9 raw else raw)"

definition whatsapp_user :: "string \<Rightarrow> user" where
  "whatsapp_user phone = \<lparr>u_email = None, u_phone = Some phone, u_role = R_CUSTOMER,
     u_preferred_channel = Some STR ''whatsapp'', u_billing_currency = None, u_country = None, u_password_hash = None,
     u_active = True, u_mfa_enabled = False, u_mfa_secret = None\<rparr>"

definition open_thread :: "string \<Rightarrow> nat \<Rightarrow> string \<Rightarrow> db \<Rightarrow> db" where
  "open_thread phone uid referralCode d =
     audit_record None (Some uid) By_System STR ''whatsapp.customer_created'' [(STR ''phone'', J_Text phone)]
       (d\<lparr>customers := insert_row \<lparr>cu_user = uid, cu_name = ''WhatsApp Customer'', cu_rm = None,
            cu_referral_code = referralCode, cu_referred_by = None, cu_partner = None, cu_account = None\<rparr> (customers d),
          threads := insert_row \<lparr>wt_phone = phone, wt_user = uid, wt_history = []\<rparr> (threads d)\<rparr>)"

definition resolveThread :: "env \<Rightarrow> string \<Rightarrow> db \<Rightarrow> (nat \<times> nat \<times> whatsapp_thread) result" where
  "resolveThread e phone d = (case find_first (\<lambda>_ t. wt_phone t = phone) (threads d) of
     Some (i, t) \<Rightarrow> return (wt_user t, i, t) d
   | None \<Rightarrow> and_then (generateUniqueReferralCode e d) (\<lambda>code d.
       and_then (create_user (whatsapp_user phone) d) (\<lambda>uid d.
         return (uid, t_next (threads d), \<lparr>wt_phone = phone, wt_user = uid, wt_history = []\<rparr>)
           (open_thread phone uid code d))))"

text \<open>The case id of a button is a text; the row it names, if any.\<close>

definition case_of_text :: "string \<Rightarrow> db \<Rightarrow> (nat \<times> service_case) option" where
  "case_of_text s d = find_first (\<lambda>k _. decimal k = s) (cases d)"

definition handleCaseApprovalReply :: "nat \<Rightarrow> approval_action \<Rightarrow> string \<Rightarrow> db \<Rightarrow> String.literal option result" where
  "handleCaseApprovalReply userId action caseId d = (case case_of_text caseId d of
     None \<Rightarrow> return None d
   | Some (k, c) \<Rightarrow> included (customers d) (c_customer c) d (\<lambda>cu.
       if cu_user cu \<noteq> userId then return None d
       else and_then (recordApproval \<lparr>act_id = userId, act_role = R_CUSTOMER\<rparr> k action None d) (\<lambda>_ d.
         return (Some (if action = AP_APPROVED then STR ''Thanks: you've approved the report''
             else STR ''Got it: we've flagged the case for additional work''))
           (audit_record (Some k) (Some userId) By_User STR ''whatsapp.case_approval_button''
             [(STR ''approvalAction'', J_Approval action)] d))))"

datatype inbound_answer = Replied string | Confirmed "String.literal option"

definition converse_over_whatsapp ::
  "env \<Rightarrow> concierge_model option \<Rightarrow> nat \<Rightarrow> nat \<Rightarrow> whatsapp_thread \<Rightarrow> string \<Rightarrow> db \<Rightarrow> inbound_answer result" where
  "converse_over_whatsapp e client uid i t body d =
     and_then (converse e client \<lparr>act_id = uid, act_role = R_CUSTOMER\<rparr>
         \<lparr>md_message = body, md_history = Some (wt_history t)\<rparr> d) (\<lambda>r d.
       return (Replied (ca_reply r))
         (audit_record None (Some uid) By_Ai STR ''whatsapp.message_handled''
           [(STR ''escalate'', J_Text (ca_escalate r)), (STR ''conversationComplete'', J_Bool (ca_complete r))]
           (d\<lparr>threads := update_row i (\<lambda>x. x\<lparr>wt_history := wt_history t
              @ [\<lparr>ct_user = True, ct_content = body\<rparr>, \<lparr>ct_user = False, ct_content = ca_reply r\<rparr>]\<rparr>) (threads d)\<rparr>)))"

definition handleInboundMessage ::
  "env \<Rightarrow> concierge_model option \<Rightarrow> string \<Rightarrow> string \<Rightarrow> string option \<Rightarrow> db \<Rightarrow> inbound_answer result" where
  "handleInboundMessage e client rawFrom body interactiveReplyId d =
     and_then (resolveThread e (normalizePhone rawFrom) d) (\<lambda>(uid, i, t) d.
       case (case interactiveReplyId of None \<Rightarrow> None | Some s \<Rightarrow> if s = [] then None else parseCaseApprovalButtonId s) of
         Some (action, caseId) \<Rightarrow> and_then (handleCaseApprovalReply uid action caseId d) (\<lambda>r. return (Confirmed r))
       | None \<Rightarrow> converse_over_whatsapp e client uid i t body d)"

section \<open>Lemmas\<close>

lemma score_range:
  "13 \<le> fst (scoreLead i) \<and> fst (scoreLead i) \<le> 100 \<and> snd (scoreLead i) = lead_tag_of (fst (scoreLead i))"
proof -
  have v: "6 \<le> value_points i" "value_points i \<le> 45" by (auto simp: value_points_def split: option.split)
  have t: "7 \<le> timeline_points tm" "timeline_points tm \<le> 40" for tm by (auto simp: timeline_points_def)
  have e: "0 \<le> engagement_points x" "engagement_points x \<le> 15" for x by (auto simp: engagement_points_def)
  show ?thesis using v t [of "sg_timeline i"] e [of "sg_engagement i"] by (simp add: scoreLead_def Let_def)
qed

lemma split_on_sep:
  assumes "CHR '':'' \<notin> set w"
  shows "split_on (CHR '':'') (w @ '':'' @ s) = w # split_on (CHR '':'') s" and "split_on (CHR '':'') w = [w]"
  using assms by (induction w) auto

lemma no_colon_decimal: "CHR '':'' \<notin> set (decimal k)"
  using decimal_digits [of k] by auto

lemma parse_button:
  assumes "action_by_code code = Some a"
  shows "parseCaseApprovalButtonId (button_id code (decimal k)) = Some (a, decimal k)"
proof -
  have code: "CHR '':'' \<notin> set code" using assms by (auto simp: action_by_code_def split: if_splits)
  have pre: "CHR '':'' \<notin> set button_prefix" by (simp add: button_prefix_def)
  have "decimal k \<noteq> []" by (subst decimal.simps) simp
  then show ?thesis
    using split_on_sep(1) [OF pre, of "code @ '':'' @ decimal k"] split_on_sep(1) [OF code, of "decimal k"]
      split_on_sep(2) [OF no_colon_decimal] assms
    by (simp add: parseCaseApprovalButtonId_def button_id_def)
qed

lemma decimal_inject: "decimal k = decimal k' \<longleftrightarrow> k = k'"
  using read_decimal_decimal by metis

lemma case_of_text_decimal:
  assumes "wf_table (cases d)"
  shows "case_of_text (decimal k) d = map_option (Pair k) (find_unique (cases d) k)"
proof (cases "find_unique (cases d) k")
  case None
  then have "case_of_text (decimal k) d = None"
    unfolding case_of_text_def find_first_None_iff by (auto simp: decimal_inject find_unique_def map_of_eq_None_iff image_iff)
  with None show ?thesis by simp
next
  case (Some c)
  then have "case_of_text (decimal k) d \<noteq> None"
    unfolding case_of_text_def find_first_None_iff by (auto simp: find_unique_def dest: map_of_SomeD)
  then obtain j c' where j: "case_of_text (decimal k) d = Some (j, c')" by auto
  then have "(j, c') \<in> set (t_rows (cases d))" "decimal j = decimal k"
    unfolding case_of_text_def by (auto dest: find_first_SomeD)
  then have "find_unique (cases d) k = Some c'" using assms by (simp add: decimal_inject find_unique_in_rows)
  with \<open>decimal j = decimal k\<close> j show ?thesis by (simp add: decimal_inject)
qed

lemma audit_record_concierge [simp]:
  "interactions (audit_record ca ac ty nm md d) = interactions d" "knowledge (audit_record ca ac ty nm md d) = knowledge d"
  "threads (audit_record ca ac ty nm md d) = threads d" "feedbacks (audit_record ca ac ty nm md d) = feedbacks d"
  by (simp_all add: audit_record_def)

lemma autoConvert_interactions [simp]: "interactions (autoConvert e rid d) = interactions d"
  by (rule autoConvert_cases [of e rid d]) (auto simp: connect_request_def dest!: create_case_eq)

lemma evaluateAutomation_cases:
  assumes "evaluateAutomationAndMaybeConvert e rid d = (Inr ad, d')"
  shows "interactions d' = interactions d"
    and "\<exists>rq. find_unique (requests d) rid = Some rq
      \<and> (ev_outcome (evaluate rq (find_capability rq d)) = AO_AUTO \<or> cases d' = cases d)"
    and "map_option (\<lambda>r. r\<lparr>rq_converted := None\<rparr>) (find_unique (requests d') k)
      = map_option (\<lambda>r. r\<lparr>rq_converted := None\<rparr>) (find_unique (requests d) k)"
proof -
  obtain d1 where ev: "evaluateAndRecord e rid d = (Inr ad, d1)"
    and d': "d' = (if ad_outcome ad = AO_AUTO then autoConvert e rid d1 else d1)"
    using assms by (auto simp: evaluateAutomationAndMaybeConvert_def and_then_Inr_iff)
  have "interactions (snd (evaluateAndRecord e rid d)) = interactions d"
    by (auto simp: evaluateAndRecord_def createForServiceRequest_def Let_def upsert_decision_def split: option.split)
  then show "interactions d' = interactions d" using ev d' by simp
  show "\<exists>rq. find_unique (requests d) rid = Some rq
      \<and> (ev_outcome (evaluate rq (find_capability rq d)) = AO_AUTO \<or> cases d' = cases d)"
    by (rule evaluateAndRecord_Inr [OF ev]) (use evaluateAndRecord_frame(3) [OF ev] in \<open>auto simp: d'\<close>)
  show "map_option (\<lambda>r. r\<lparr>rq_converted := None\<rparr>) (find_unique (requests d') k)
      = map_option (\<lambda>r. r\<lparr>rq_converted := None\<rparr>) (find_unique (requests d) k)"
    using autoConvert_requests [of e rid d1 k] evaluateAndRecord_frame(1) [OF ev] by (simp add: d')
qed

lemma and_then_return: "and_then r (\<lambda>_. return a) = (Inr b, s) \<Longrightarrow> (\<exists>x. r = (Inr x, s)) \<and> b = a"
  by (auto simp: and_then_Inr_iff)

lemma completeIntake_Inr:
  assumes "completeIntake e u t i d = (Inr rid, d')" "wf_table (requests d)"
  obtains cid cu where "find_customer u d = Some (cid, cu)" "rid = t_next (requests d)" "interactions d' = interactions d"
    "map_option (\<lambda>r. r\<lparr>rq_converted := None\<rparr>) (find_unique (requests d') rid) = Some (new_lead cid t i)"
    "ev_outcome (evaluate (new_lead cid t i) (find_capability (new_lead cid t i) d)) = AO_AUTO \<or> cases d' = cases d"
    "\<forall>k. k \<noteq> rid \<longrightarrow> map_option (\<lambda>r. r\<lparr>rq_converted := None\<rparr>) (find_unique (requests d') k)
      = map_option (\<lambda>r. r\<lparr>rq_converted := None\<rparr>) (find_unique (requests d) k)"
proof -
  obtain cid cu where cu: "find_customer u d = Some (cid, cu)"
    using assms by (cases "find_customer u d") (auto simp: completeIntake_def)
  let ?rq = "new_lead cid t i" and ?rid = "t_next (requests d)"
  define d0 where "d0 = audit_record None (Some u) By_Ai STR ''ai.service_request_created''
      [(STR ''serviceRequestId'', J_Id ?rid), (STR ''leadScore'', json_option J_Num (rq_lead_score ?rq)),
       (STR ''leadTag'', json_option (\<lambda>x. J_Lit (lead_tag_name x)) (rq_lead_tag ?rq)),
       (STR ''serviceType'', json_option J_Service (rq_service_type ?rq))] (d\<lparr>requests := insert_row ?rq (requests d)\<rparr>)"
  have "and_then (evaluateAutomationAndMaybeConvert e ?rid d0) (\<lambda>_. return ?rid) = (Inr rid, d')"
    using assms(1) by (simp only: completeIntake_def cu option.case prod.case Let_def d0_def)
  from and_then_return [OF this] obtain ad where ev: "evaluateAutomationAndMaybeConvert e ?rid d0 = (Inr ad, d')"
    and rid: "rid = ?rid" by blast
  have d0: "interactions d0 = interactions d" "requests d0 = insert_row ?rq (requests d)" "cases d0 = cases d"
    "find_capability ?rq d0 = find_capability ?rq d"
    by (simp_all add: d0_def find_capability_def cong: option.case_cong)
  have row: "find_unique (requests d0) ?rid = Some ?rq" using assms(2) by (simp add: d0)
  have keep: "?rq\<lparr>rq_converted := None\<rparr> = ?rq" by (simp add: new_lead_def Let_def)
  note eff = evaluateAutomation_cases [OF ev]
  show thesis
  proof (rule that [OF cu rid])
    show "interactions d' = interactions d" using eff(1) by (simp add: d0)
    show "map_option (\<lambda>r. r\<lparr>rq_converted := None\<rparr>) (find_unique (requests d') rid) = Some ?rq"
      unfolding rid eff(3) row using keep by simp
    show "ev_outcome (evaluate ?rq (find_capability ?rq d)) = AO_AUTO \<or> cases d' = cases d"
      using eff(2) row d0(3,4) by simp
    show "\<forall>k. k \<noteq> rid \<longrightarrow> map_option (\<lambda>r. r\<lparr>rq_converted := None\<rparr>) (find_unique (requests d') k)
        = map_option (\<lambda>r. r\<lparr>rq_converted := None\<rparr>) (find_unique (requests d) k)"
      unfolding eff(3) d0(2) rid using assms(2) by simp
  qed
qed

lemma lifecycle_completeIntake: "lifecycle d (snd (completeIntake e u t i d))"
proof -
  have "lifecycle s (snd (evaluateAutomationAndMaybeConvert e rid
      (audit_record None x ty nm md (s\<lparr>requests := tb\<rparr>))))" for s rid x ty nm md tb
    by (rule lifecycle_after [OF lifecycle_evaluateAutomation]) (simp_all add: audit_extends_def)
  then show ?thesis
    by (auto simp: completeIntake_def Let_def intro!: lifecycle_and_then split: option.split)
qed

lemma runTurn_state [simp]: "snd (runConciergeTurn e client dto d) = d"
  by (rule same_stateD) (simp add: runConciergeTurn_def split: option.split sum.split)

lemma lifecycle_converse: "lifecycle d (snd (converse e client usr dto d))"
proof -
  have start: "lifecycle s (audit_record None x ty nm md (s\<lparr>interactions := tb\<rparr>))" for s x ty nm md tb
    by (intro lifecycle_audit lifecycle_frame) simp_all
  have go: "lifecycle s (snd (and_then (completeIntake e u t i (audit_record None x ty nm md (s\<lparr>interactions := tb\<rparr>)))
      (\<lambda>rid. return (f rid))))" for s u t i x ty nm md tb and f :: "nat \<Rightarrow> concierge_answer"
    by (intro lifecycle_and_then lifecycle_trans [OF start lifecycle_completeIntake]) simp
  show ?thesis
    by (auto simp: converse_def Let_def intro!: lifecycle_and_then go start)
qed

lemma converse_Inr:
  assumes "converse e model usr dto d = (Inr r, d')"
  obtains t d1 where "act_role usr = R_CUSTOMER"
    "interactions d1 = insert_row (new_interaction dto t) (interactions d)" "requests d1 = requests d" "cases d1 = cases d"
    "\<And>u. find_customer u d1 = find_customer u d" "\<And>rq. find_capability rq d1 = find_capability rq d"
    "if tn_complete t then \<exists>rid. completeIntake e (act_id usr) t (t_next (interactions d)) d1 = (Inr rid, d') \<and> ca_request r = Some rid
     else ca_request r = None \<and> d' = d1"
proof -
  have role: "act_role usr = R_CUSTOMER"
    using assms(1) by (cases "act_role usr = R_CUSTOMER") (simp_all add: converse_def)
  have "snd (runConciergeTurn e model dto d) = d" by simp
  then obtain t where turn: "runConciergeTurn e model dto d = (Inr t, d)"
    using assms(1) role by (cases "runConciergeTurn e model dto d"; cases "fst (runConciergeTurn e model dto d)")
      (auto simp: converse_def)
  let ?i = "t_next (interactions d)"
  define d1 where "d1 = audit_record None (Some (act_id usr)) By_Ai STR ''ai.concierge_turn''
      [(STR ''aiInteractionId'', J_Id ?i), (STR ''escalate'', J_Text (tn_escalate t)),
       (STR ''conversationComplete'', J_Bool (tn_complete t))]
      (d\<lparr>interactions := insert_row (new_interaction dto t) (interactions d)\<rparr>)"
  have d1: "interactions d1 = insert_row (new_interaction dto t) (interactions d)" "requests d1 = requests d" "cases d1 = cases d"
    "find_customer u d1 = find_customer u d" "find_capability rq d1 = find_capability rq d" for u rq
    by (simp_all add: d1_def find_customer_def find_capability_def cong: option.case_cong)
  let ?rest = "if tn_complete t then and_then (completeIntake e (act_id usr) t ?i d1) (\<lambda>rid. return \<lparr>ca_reply = tn_reply t,
        ca_escalate = tn_escalate t, ca_complete = tn_complete t, ca_request = Some rid\<rparr>)
      else return \<lparr>ca_reply = tn_reply t, ca_escalate = tn_escalate t, ca_complete = tn_complete t, ca_request = None\<rparr> d1"
  have "converse e model usr dto d = (if \<not> int_column (tn_engagement t)
      then throw (Internal STR ''Invalid value for engagementSubscore'') d else ?rest)"
    by (simp only: converse_def role turn and_then_simps Let_def d1_def simp_thms if_False)
  with assms(1) have step: "?rest = (Inr r, d')" by (simp only: split: if_splits) simp_all
  show thesis
    by (rule that [OF role d1]) (use step in \<open>auto simp: and_then_Inr_iff split: if_splits\<close>)
qed

lemma resolveThread_lifecycle: "lifecycle d (snd (resolveThread e phone d))"
proof -
  have "lifecycle s (open_thread phone uid code s)" for s uid code
    unfolding open_thread_def by (intro lifecycle_audit lifecycle_frame) simp_all
  moreover have "lifecycle s (snd (create_user u s))" for s u
    by (auto simp: create_user_def audit_extends_def intro!: lifecycle_frame)
  moreover have "lifecycle s (snd (generateUniqueReferralCode e s))" for s
    by (simp add: generateUniqueReferralCode_def split: option.split)
  ultimately show ?thesis
    by (auto simp: resolveThread_def intro!: lifecycle_and_then split: option.split)
qed

lemma lifecycle_handleCaseApprovalReply: "lifecycle d (snd (handleCaseApprovalReply u a s d))"
proof -
  have "lifecycle s (audit_record x y z m n s)" for s x y z m n by (intro lifecycle_audit) simp
  then show ?thesis
    by (auto simp: handleCaseApprovalReply_def included_def intro!: lifecycle_and_then lifecycle_recordApproval
        split: option.split)
qed

lemma lifecycle_handleInboundMessage: "lifecycle d (snd (handleInboundMessage e client from body bid d))"
proof -
  have "lifecycle s (audit_record x y z m n (s\<lparr>threads := tb\<rparr>))" for s x y z m n tb
    by (intro lifecycle_audit lifecycle_frame) simp_all
  then have "lifecycle s (snd (converse_over_whatsapp e client uid i t body s))" for uid i t s
    unfolding converse_over_whatsapp_def by (intro lifecycle_and_then lifecycle_converse) simp
  then show ?thesis
    by (auto simp: handleInboundMessage_def intro!: lifecycle_and_then lifecycle_handleCaseApprovalReply resolveThread_lifecycle
        split: option.split)
qed

end
