(* ===== verification/Workflow.thy ===== *)
theory Workflow
  imports Auto_Quote Payments Assignments Evidence Sos Recurring Ratings Profile Concierge
begin

text \<open>
  The whole system as one step relation: any operation of any component that can touch a case, with
  any arguments, any actor and any environment (so any clock, any answer of the payment provider and
  any refusal), in any order. Confirming a scope is the whole route, with the quote the system may
  issue of its own accord; since the route confirms first and quotes afterwards, that quote is also a
  step of its own, which other requests may precede. Operations of the remaining components leave cases and their
  history alone and only append to the audit log; they are covered by one rule.

  The abstract specification is the machine on positions of \<open>Lifecycle\<close>: a case starts as a draft and
  moves along \<open>status_step\<close>. The lemmas show that the system refines it.
\<close>

section \<open>The steps of the system\<close>

inductive workflow_step :: "db \<Rightarrow> db \<Rightarrow> bool" where
  Create_Request: "workflow_step d (snd (createServiceRequest e u dto key d))"
| Update_Request: "workflow_step d (snd (updateServiceRequest e u rid dto' d))"
| Convert: "workflow_step d (snd (convertToCase e ac rid cdto d))"
| Recompute_Automation: "workflow_step d (snd (recomputeAutomationDecision e rid d))"
| Transition: "workflow_step d (snd (transitionCase ac k s reason d))"
| Approve: "workflow_step d (snd (recordApproval ac k action comment d))"
| Collaborator: "workflow_step d (snd (addCollaborator ac k u r d))"
| Claim: "workflow_step d (snd (claimCase ac k d))"
| Owner: "workflow_step d (snd (assignOwner ac k u d))"
| Next_Action: "workflow_step d (snd (setNextAction ac k a due d))"
| Hold: "workflow_step d (snd (holdCase ac k why d))"
| Resume: "workflow_step d (snd (resumeCase ac k reason d))"
| Add_Task: "workflow_step d (snd (addTask ac k label req d))"
| Update_Task: "workflow_step d (snd (updateTask ac k t label' req' d))"
| Remove_Task: "workflow_step d (snd (removeTask ac k t d))"
| Message: "workflow_step d (snd (sendMessage ac k body d))"
| Dispute: "workflow_step d (snd (raiseDispute e ac k ddto d))"
| Resolve_Dispute: "workflow_step d (snd (resolveDispute e ac k remark d))"
| Quote: "workflow_step d (snd (createQuote e ac k qdto d))"
| Confirm_Scope: "workflow_step d (snd (confirm_route e ac k d))"
| Auto_Quote: "workflow_step d (autoQuoteIfEligible e k d)"
| Accept_Quote: "workflow_step d (snd (acceptQuote e ac qid d))"
| Quote_Sweep: "workflow_step d (snd (runQuoteExpirySweep e d))"
| Initiate_Payment: "workflow_step d (snd (initiatePayment e ac iid key d))"
| Verified_Payment: "workflow_step d (snd (handleVerifiedCasePayment e ref amount d))"
| Failed_Payment: "workflow_step d (snd (handleFailedCasePayment e ref failure d))"
| Refund: "workflow_step d (snd (refundPayment e ac pid rdto d))"
| Approve_Refund: "workflow_step d (snd (approveRefundRequest e ac rid comment' d))"
| Reject_Refund: "workflow_step d (snd (rejectRefundRequest e ac rid comment' d))"
| Reconcile: "workflow_step d (snd (resolveReconciliation e ac pid rcdto d))"
| Payment_Sweep: "workflow_step d (snd (runPaymentExpirySweep e d))"
| Poll: "workflow_step d (snd (runPaymentVerificationSweep e d))"
| Assign: "workflow_step d (snd (createAssignment e ac k adto d))"
| Accept_Assignment: "workflow_step d (snd (acceptAssignment e ac aid d))"
| Decline_Assignment: "workflow_step d (snd (declineAssignment ac aid d))"
| Check_In: "workflow_step d (snd (checkIn e ac aid loc d))"
| Submit_Evidence: "workflow_step d (snd (submitEvidence e ac k edto d))"
| Complete_Task: "workflow_step d (snd (completeTask e ac k t d))"
| Raise_Exception: "workflow_step d (snd (raiseException ac k elabel detail d))"
| Complete_Fieldwork: "workflow_step d (snd (completeFieldwork ac k d))"
| Quality_Control: "workflow_step d (snd (performQc e ac k qcdto d))"
| Assess: "workflow_step d (snd (assessCase k d))"
| Sos: "sos_step d d' \<Longrightarrow> workflow_step d d'"
| Setup_Schedule: "workflow_step d (snd (setup_schedule e ac k n d))"
| Set_Schedule: "workflow_step d (snd (setActive e ac k active d))"
| Schedule_Sweep: "workflow_step d (snd (processDueSchedules e d))"
| Rate: "workflow_step d (snd (rateCase ac k stars comment'' d))"
| Forget_Beneficiary: "workflow_step d (snd (deleteBeneficiary u i d))"
| Forget_Property: "workflow_step d (snd (deleteProperty u i d))"
| Forget_Asset: "workflow_step d (snd (deleteAsset u i d))"
| Converse: "workflow_step d (snd (converse e model usr mdto d))"
| Inbound_Message: "workflow_step d (snd (handleInboundMessage e model sender body button d))"
| Elsewhere: "cases d' = cases d \<Longrightarrow> history d' = history d \<Longrightarrow> audit_extends d d' \<Longrightarrow> workflow_step d d'"

lemmas lifecycle_operations = lifecycle_createServiceRequest lifecycle_updateServiceRequest lifecycle_convertToCase
  lifecycle_recomputeAutomation lifecycle_transition lifecycle_recordApproval lifecycle_addCollaborator
  lifecycle_claimCase lifecycle_assignOwner lifecycle_setNextAction lifecycle_holdCase lifecycle_resumeCase
  lifecycle_addTask lifecycle_updateTask lifecycle_removeTask lifecycle_sendMessage lifecycle_raiseDispute
  lifecycle_resolveDispute lifecycle_createQuote lifecycle_confirm_route
  lifecycle_auto_quote lifecycle_acceptQuote lifecycle_runQuoteExpirySweep
  lifecycle_initiatePayment lifecycle_handleVerified lifecycle_handleFailed lifecycle_refundPayment
  lifecycle_approveRefund lifecycle_rejectRefund lifecycle_reconcile lifecycle_runPaymentExpirySweep lifecycle_poll
  lifecycle_createAssignment lifecycle_acceptAssignment lifecycle_declineAssignment lifecycle_checkIn
  lifecycle_submitEvidence lifecycle_completeTask lifecycle_raiseException lifecycle_completeFieldwork
  lifecycle_performQc lifecycle_assessCase lifecycle_sos_step lifecycle_setup_schedule lifecycle_setActive
  lifecycle_processDueSchedules lifecycle_rateCase lifecycle_deletes lifecycle_converse
  lifecycle_handleInboundMessage lifecycle_frame

lemma lifecycle_workflow_step: "workflow_step d d' \<Longrightarrow> lifecycle d d'"
  by (induction rule: workflow_step.induct) (rule lifecycle_operations; assumption?)+

lemma lifecycle_workflow: "workflow_step\<^sup>*\<^sup>* d d' \<Longrightarrow> lifecycle d d'"
  by (induction rule: rtranclp_induct) (auto intro: lifecycle_trans lifecycle_workflow_step)

section \<open>From trails to paths\<close>

lemma case_inv_empty: "case_inv empty_db"
  by (simp add: case_inv_def empty_db_def empty_table_def trail_def wf_table_def find_unique_def find_many_def)

text \<open>The abstract view of the system: which case is in which position.\<close>

definition view :: "db \<Rightarrow> nat \<Rightarrow> position option" where
  "view d k = map_option position_of (find_unique (cases d) k)"

lemma view_trail: "case_inv d \<Longrightarrow> view d k = Some p \<Longrightarrow> trail_state (trail k d) = Some p"
  using case_invD(2) by (auto simp: view_def sound_row_def)

lemma trail_prefix: "prefix (t_rows (history d)) (t_rows (history d')) \<Longrightarrow> prefix (trail k d) (trail k d')"
  by (auto simp: trail_def find_many_def prefix_def)

text \<open>One case through any operation: the new part of its history leads from the old position to the new one.\<close>

lemma lifecycle_replay:
  assumes "lifecycle d d'" "case_inv d" "view d k = Some p"
  shows "\<exists>p' tr. view d' k = Some p' \<and> trail k d' = trail k d @ tr \<and> replay p tr = Some p'"
proof -
  have "view d' k \<noteq> None" using assms by (auto simp: view_def lifecycle_def)
  then obtain p' where p': "view d' k = Some p'" by blast
  have old: "trail_state (trail k d) = Some p" and new: "trail_state (trail k d') = Some p'"
    using assms p' view_trail by (auto simp: lifecycle_def)
  obtain tr where tr: "trail k d' = trail k d @ tr"
    using trail_prefix [of d d' k] assms(1) by (auto simp: lifecycle_def prefix_def)
  have "trail k d \<noteq> []" using old by auto
  with new tr old have "replay p tr = Some p'" by (simp add: trail_state_append)
  with p' tr show ?thesis by blast
qed

text \<open>A case that is new is a draft, or has moved on from one within the operation.\<close>

lemma lifecycle_new:
  assumes "lifecycle d d'" "case_inv d" "view d k = None" "view d' k = Some p"
  shows "status_step\<^sup>*\<^sup>* (CS_DRAFT, None) p"
proof -
  have "trail_state (trail k d') = Some p" using assms view_trail by (simp add: lifecycle_def)
  then show ?thesis by (cases "trail k d'" rule: trail_state.cases) (auto split: if_splits dest: replay_path)
qed

end
