(* ===== verification/Workflow_Properties.thy ===== *)
theory Workflow_Properties
  imports Sample Workflow
begin

text \<open>
  What every reachable state of the system has, and that the system refines the machine on
  positions. The witnesses run a case from its conversion to its hold on a small database.
\<close>

definition day_one :: db where
  "day_one = sample_people\<lparr>requests := rows [\<lparr>rq_customer = 1, rq_service_type = Some ST_PROPERTY_INSPECTION,
     rq_raw_description = ''Visit'', rq_location = Some ''Lekki, Lagos'', rq_channel = STR ''web'', rq_converted = None,
     rq_objective = None, rq_subject = None, rq_timing = None, rq_requirements = None, rq_lead_tag = None,
           rq_lead_score = None, rq_interaction = None\<rparr>]\<rparr>"

definition conversion :: convert_dto where
  "conversion = \<lparr>cd_service = ST_PROPERTY_INSPECTION, cd_description = ''Visit'', cd_location = ''Lekki, Lagos'',
     cd_priority = None, cd_risk = None, cd_tier = None, cd_beneficiary = None, cd_property = None, cd_asset = None\<rparr>"

definition opened :: db where
  "opened = snd (convertToCase sample_env manager 1 conversion day_one)"

definition walk :: "case_status list \<Rightarrow> db \<Rightarrow> db" where
  "walk path d = foldl (\<lambda>d s. snd (transitionCase manager 1 s None d)) d path"

lemma walk_steps: "workflow_step\<^sup>*\<^sup>* d (walk path d)"
proof (induction path rule: rev_induct)
  case (snoc s path)
  then show ?case by (simp add: walk_def) (blast intro: rtranclp.rtrancl_into_rtrancl workflow_step.Transition)
qed (simp add: walk_def)

lemma day_one_inv: "case_inv day_one"
  by (simp add: case_inv_def day_one_def sample_defs empty_table_def trail_def wf_table_def find_unique_def find_many_def)

lemma opened_step: "workflow_step day_one opened"
  unfolding opened_def by (rule workflow_step.Convert)

definition path_to_work :: "case_status list" where
  "path_to_work = [CS_SUBMITTED, CS_UNDER_REVIEW, CS_QUOTED, CS_AWAITING_PAYMENT, CS_SCHEDULED]"

lemma at_work: "map_option position_of (find_unique (cases (walk path_to_work opened)) 1) = Some (CS_SCHEDULED, None)"
  by code_simp

lemma reach_work: "workflow_step\<^sup>*\<^sup>* day_one (walk path_to_work opened)"
  using converse_rtranclp_into_rtranclp [of workflow_step, OF opened_step walk_steps] .

text \<open>C38. Refinement: whatever operations are performed, the quote that the confirmation of a scope issues by itself included,
  in whatever order and with whatever outcome, each of them moves every case that
  exists along a path of the abstract machine and brings new cases into being as drafts; and the rows an
  operation appends to the history of a case are exactly the path it took, so replaying the history from
  the old position leads to the new one.\<close>
theorem workflow_refines_machine:
  assumes "case_inv d" "workflow_step d d'"
  shows "(case_inv d')
    \<and> (view d k = Some p \<longrightarrow>
      (\<exists>p' tr. view d' k = Some p' \<and> trail k d' = trail k d @ tr \<and> replay p tr = Some p' \<and> status_step\<^sup>*\<^sup>* p p'))
    \<and> (view d k = None \<longrightarrow> view d' k = Some p \<longrightarrow>
      status_step\<^sup>*\<^sup>* (CS_DRAFT, None) p)"
proof (rule conjI [OF _ conjI [OF impI impI [OF impI]]])
  have l: "lifecycle d d'" by (rule lifecycle_workflow_step [OF assms(2)])
  then show "case_inv d'" using assms(1) by (simp add: lifecycle_def)
  show "\<exists>p' tr. view d' k = Some p' \<and> trail k d' = trail k d @ tr \<and> replay p tr = Some p' \<and> status_step\<^sup>*\<^sup>* p p'"
    if "view d k = Some p"
    using lifecycle_replay [OF l assms(1) that] replay_path by blast
  show "status_step\<^sup>*\<^sup>* (CS_DRAFT, None) p" if "view d k = None" "view d' k = Some p"
    by (rule lifecycle_new [OF l assms(1) that])
qed

lemma workflow_refines_machine_witness:
  "case_inv (snd (holdCase manager 1 ''rain'' opened)) \<and>
   (\<exists>tr. view (snd (holdCase manager 1 ''rain'' opened)) 1 = Some (CS_ON_HOLD, Some CS_DRAFT)
     \<and> replay (CS_DRAFT, None) tr = Some (CS_ON_HOLD, Some CS_DRAFT))"
proof -
  have inv: "case_inv opened" using lifecycle_workflow_step [OF opened_step] day_one_inv by (simp add: lifecycle_def)
  have "view opened 1 = Some (CS_DRAFT, None)" "view (snd (holdCase manager 1 ''rain'' opened)) 1 = Some (CS_ON_HOLD, Some CS_DRAFT)"
    by code_simp+
  with workflow_refines_machine [OF inv workflow_step.Hold [where ac = manager and k = 1 and why = "''rain''"], of 1 "(CS_DRAFT, None)"]
  show ?thesis by (metis option.inject)
qed

text \<open>C39. The records of every reachable state are consistent: case numbers are never shared, a case remembers a status to
  resume exactly while it is on hold, its history replays to where it is, a closed case stays closed
  whatever happens, and neither cases, nor rows of their history, nor audit events are ever lost.\<close>
theorem case_records_sound:
  assumes "case_inv d" "workflow_step\<^sup>*\<^sup>* d d'"
  shows "(find_unique (cases d') j = Some a \<longrightarrow> find_unique (cases d') k = Some b \<longrightarrow> c_number a = c_number b \<longrightarrow>
      j = k)
    \<and> (find_unique (cases d') k = Some b \<longrightarrow>
      trail_state (trail k d') = Some (position_of b)
      \<and> (c_held_from b \<noteq> None \<longleftrightarrow> c_status b = CS_ON_HOLD))
    \<and> (find_unique (cases d) k = Some a \<longrightarrow>
      (\<exists>b. find_unique (cases d') k = Some b \<and> c_number b = c_number a
      \<and> (position_of a = (CS_CLOSED, None) \<longrightarrow> position_of b = (CS_CLOSED, None))))
    \<and> (prefix (t_rows (history d)) (t_rows (history d')) \<and> prefix (t_rows (audit_log d)) (t_rows (audit_log d')))"
proof (rule conjI [OF impI [OF impI [OF impI]] conjI [OF impI conjI [OF impI _]]])
  have l: "lifecycle d d'" by (rule lifecycle_workflow [OF assms(2)])
  have inv: "case_inv d'" using l assms(1) by (simp add: lifecycle_def)
  note row = case_invD(2) [OF inv, unfolded sound_row_def]
  show "j = k" if "find_unique (cases d') j = Some a" "find_unique (cases d') k = Some b" "c_number a = c_number b"
    using row [OF that(1)] row [OF that(2)] that(3) case_number_inject by simp
  show "trail_state (trail k d') = Some (position_of b) \<and> (c_held_from b \<noteq> None \<longleftrightarrow> c_status b = CS_ON_HOLD)"
    if "find_unique (cases d') k = Some b"
    using row [OF that] trail_well_held [of "trail k d'" "position_of b"]
    by (auto simp: well_held_def position_of_def split: option.splits)
  show "\<exists>b. find_unique (cases d') k = Some b \<and> c_number b = c_number a
      \<and> (position_of a = (CS_CLOSED, None) \<longrightarrow> position_of b = (CS_CLOSED, None))"
    if a: "find_unique (cases d) k = Some a"
  proof -
    from a have "view d k = Some (position_of a)" by (simp add: view_def)
    from lifecycle_replay [OF l assms(1) this] obtain p' tr where p: "view d' k = Some p'" "replay (position_of a) tr = Some p'" by blast
    then obtain b where b: "find_unique (cases d') k = Some b" "p' = position_of b" by (auto simp: view_def)
    have "c_number b = c_number a" using row [OF b(1)] case_invD(2) [OF assms(1) a] by (simp add: sound_row_def)
    moreover have "position_of a = (CS_CLOSED, None) \<Longrightarrow> position_of b = (CS_CLOSED, None)"
      using replay_path [OF p(2)] closed_forever b(2) by metis
    ultimately show ?thesis using b(1) by blast
  qed
  show "prefix (t_rows (history d)) (t_rows (history d')) \<and> prefix (t_rows (audit_log d)) (t_rows (audit_log d'))"
    using l by (simp add: lifecycle_def audit_extends_def)
qed

lemma case_records_sound_witness:
  "\<exists>b. find_unique (cases (walk path_to_work opened)) 1 = Some b
     \<and> trail_state (trail 1 (walk path_to_work opened)) = Some (position_of b) \<and> c_status b \<noteq> CS_ON_HOLD"
proof -
  obtain b where b: "find_unique (cases (walk path_to_work opened)) 1 = Some b" "position_of b = (CS_SCHEDULED, None)"
    using at_work by (cases "find_unique (cases (walk path_to_work opened)) 1") simp_all
  with case_records_sound [OF day_one_inv reach_work, THEN conjunct2, THEN conjunct1, rule_format, OF b(1)] show ?thesis by (auto simp: position_of_def)
qed

text \<open>C40. The payment gate: no case is scheduled, assigned, worked on, reviewed, approved, completed or disputed, and none is on
  hold in such a status, without having been waiting for its payment before.\<close>
theorem no_work_before_payment_stage:
  assumes "case_inv d" "workflow_step\<^sup>*\<^sup>* d d'" "find_unique (cases d') k = Some c" "effective (position_of c) \<in> after_payment"
  shows "\<exists>r \<in> set (t_rows (history d')). h_case (snd r) = k \<and> h_to (snd r) = CS_AWAITING_PAYMENT"
proof -
  have "case_inv d'" using lifecycle_workflow [OF assms(2)] assms(1) by (simp add: lifecycle_def)
  then have "trail_state (trail k d') = Some (position_of c)" using case_invD(2) assms(3) by (simp add: sound_row_def)
  from paid_before_work [OF this assms(4)] show ?thesis by (force simp: trail_def find_many_def)
qed

lemma no_work_before_payment_stage_witness:
  "\<exists>r \<in> set (t_rows (history (walk path_to_work opened))). h_case (snd r) = 1 \<and> h_to (snd r) = CS_AWAITING_PAYMENT"
proof -
  obtain b where b: "find_unique (cases (walk path_to_work opened)) 1 = Some b" "position_of b = (CS_SCHEDULED, None)"
    using at_work by (cases "find_unique (cases (walk path_to_work opened)) 1") simp_all
  then have "effective (position_of b) \<in> after_payment" by (simp add: effective_def after_payment_def)
  then show ?thesis by (rule no_work_before_payment_stage [OF day_one_inv reach_work b(1)])
qed

end
