(* ===== verification/Account_Groups.thy ===== *)
theory Account_Groups
  imports Profile
begin

text \<open>
  Customers in groups (\<open>src/backend/src/accounts/accounts.service.ts\<close>: a household or a company) and
  the partners that refer them (\<open>src/backend/src/partners/partners.service.ts\<close>). Both show the cases of
  several customers in summary: with the amounts paid to staff, without them to a member or a partner.
\<close>

section \<open>Summaries\<close>

record member_case =
  mc_case :: nat
  mc_number :: string
  mc_service :: service_type
  mc_status :: case_status
  mc_paid :: "rat option"

record member =
  me_customer :: nat
  me_name :: string
  me_email :: "string option"
  me_cases :: "member_case list"

definition member_case_of :: "bool \<Rightarrow> db \<Rightarrow> nat \<times> service_case \<Rightarrow> member_case" where
  "member_case_of includeFinancials d = (\<lambda>(k, c). \<lparr>mc_case = k, mc_number = c_number c, mc_service = c_service_type c,
     mc_status = c_status c, mc_paid = (if includeFinancials then Some (paid_amount k d) else None)\<rparr>)"

definition member_of :: "bool \<Rightarrow> db \<Rightarrow> nat \<times> customer \<Rightarrow> member" where
  "member_of includeFinancials d = (\<lambda>(i, cu). \<lparr>me_customer = i, me_name = cu_name cu,
     me_email = Option.bind (find_unique (users d) (cu_user cu)) u_email,
     me_cases = map (member_case_of includeFinancials d) (customer_cases i d)\<rparr>)"

section \<open>Accounts\<close>

definition createAccount :: "actor \<Rightarrow> string \<Rightarrow> account_type option \<Rightarrow> db \<Rightarrow> nat result" where
  "createAccount ac name ty d = (let i = t_next (account_groups d);
       ty' = (case ty of Some t \<Rightarrow> t | None \<Rightarrow> AT_FAMILY)
     in return i (audit_record None (Some (act_id ac)) By_User STR ''account.created''
          [(STR ''accountId'', J_Id i), (STR ''name'', J_Text name),
           (STR ''type'', J_Lit (if ty' = AT_FAMILY then STR ''FAMILY'' else STR ''CORPORATE''))]
        (d\<lparr>account_groups := insert_row \<lparr>gr_name = name, gr_type = ty'\<rparr> (account_groups d)\<rparr>)))"

definition listAccounts :: "db \<Rightarrow> (nat \<times> account_group \<times> nat) list" where
  "listAccounts d = map (\<lambda>(i, g). (i, g, length (find_many (\<lambda>_ cu. cu_account cu = Some i) (customers d))))
     (rev (t_rows (account_groups d)))"

definition requireAccount :: "nat \<Rightarrow> db \<Rightarrow> account_group result" where
  "requireAccount i d = (case find_unique (account_groups d) i of
     None \<Rightarrow> throw (Not_Found STR ''Account not found'') d | Some g \<Rightarrow> return g d)"

definition membersWithCaseSummaries :: "nat \<Rightarrow> bool \<Rightarrow> db \<Rightarrow> member list" where
  "membersWithCaseSummaries accountId includeFinancials d =
     map (member_of includeFinancials d) (find_many (\<lambda>_ cu. cu_account cu = Some accountId) (customers d))"

definition getAccountDetail :: "nat \<Rightarrow> db \<Rightarrow> (account_group \<times> member list) result" where
  "getAccountDetail i d = and_then (requireAccount i d) (\<lambda>g d. return (g, membersWithCaseSummaries i True d) d)"

definition addMember :: "actor \<Rightarrow> nat \<Rightarrow> nat \<Rightarrow> db \<Rightarrow> unit result" where
  "addMember ac accountId customerId d = and_then (requireAccount accountId d) (\<lambda>_ d.
     case find_unique (customers d) customerId of
       None \<Rightarrow> throw (Not_Found STR ''Customer not found'') d
     | Some _ \<Rightarrow> return () (audit_record None (Some (act_id ac)) By_User STR ''account.member_added''
         [(STR ''accountId'', J_Id accountId), (STR ''customerId'', J_Id customerId)]
         (d\<lparr>customers := update_row customerId (\<lambda>cu. cu\<lparr>cu_account := Some accountId\<rparr>) (customers d)\<rparr>)))"

definition removeMember :: "actor \<Rightarrow> nat \<Rightarrow> nat \<Rightarrow> db \<Rightarrow> unit result" where
  "removeMember ac accountId customerId d = (case find_unique (customers d) customerId of
     None \<Rightarrow> throw (Not_Found STR ''Customer is not a member of this account'') d
   | Some cu \<Rightarrow>
     if cu_account cu \<noteq> Some accountId then throw (Not_Found STR ''Customer is not a member of this account'') d
     else return () (audit_record None (Some (act_id ac)) By_User STR ''account.member_removed''
         [(STR ''accountId'', J_Id accountId), (STR ''customerId'', J_Id customerId)]
         (d\<lparr>customers := update_row customerId (\<lambda>cu. cu\<lparr>cu_account := None\<rparr>) (customers d)\<rparr>)))"

definition getMyAccount :: "nat \<Rightarrow> db \<Rightarrow> (account_group \<times> member list) option result" where
  "getMyAccount userId d = (case find_customer userId d of
     None \<Rightarrow> throw (Not_Found STR ''No customer profile for this user'') d
   | Some (_, cu) \<Rightarrow> (case cu_account cu of
       None \<Rightarrow> return None d
     | Some a \<Rightarrow> and_then (requireAccount a d) (\<lambda>g d. return (Some (g, membersWithCaseSummaries a False d)) d)))"

section \<open>Partners\<close>

definition generateUniquePartnerCode :: "env \<Rightarrow> db \<Rightarrow> string result" where
  "generateUniquePartnerCode e d =
     (case generateUniqueCode (\<lambda>code. find_first (\<lambda>_ p. pa_code p = code) (partners d) \<noteq> None) (random_codes e) of
        None \<Rightarrow> throw (Internal STR ''Failed to generate a unique partner code'') d
      | Some code \<Rightarrow> return code d)"

definition partner_type_name :: "partner_type \<Rightarrow> String.literal" where
  "partner_type_name t = (case t of PT_ASSOCIATION \<Rightarrow> STR ''ASSOCIATION'' | PT_BUSINESS \<Rightarrow> STR ''BUSINESS'' | PT_AGENT \<Rightarrow> STR ''AGENT'')"

definition createPartner :: "env \<Rightarrow> actor \<Rightarrow> string \<Rightarrow> partner_type \<Rightarrow> db \<Rightarrow> nat result" where
  "createPartner e ac name ty d = and_then (generateUniquePartnerCode e d) (\<lambda>code d.
     let i = t_next (partners d) in
     return i (audit_record None (Some (act_id ac)) By_User STR ''partner.created''
       [(STR ''partnerId'', J_Id i), (STR ''name'', J_Text name), (STR ''type'', J_Lit (partner_type_name ty)),
        (STR ''code'', J_Text code)]
       (d\<lparr>partners := insert_row \<lparr>pa_name = name, pa_type = ty, pa_code = code, pa_status = PA_ACTIVE\<rparr> (partners d)\<rparr>)))"

definition listPartners :: "db \<Rightarrow> (nat \<times> partner \<times> nat \<times> nat) list" where
  "listPartners d = map (\<lambda>(i, p). (i, p, length (find_many (\<lambda>_ cu. cu_partner cu = Some i) (customers d)),
     length (find_many (\<lambda>_ c. pn_partner c = i) (partner_contacts d)))) (rev (t_rows (partners d)))"

definition requirePartner :: "nat \<Rightarrow> db \<Rightarrow> partner result" where
  "requirePartner i d = (case find_unique (partners d) i of
     None \<Rightarrow> throw (Not_Found STR ''Partner not found'') d | Some p \<Rightarrow> return p d)"

definition referredCustomerSummaries :: "nat \<Rightarrow> bool \<Rightarrow> db \<Rightarrow> member list" where
  "referredCustomerSummaries partnerId includeFinancials d =
     map (member_of includeFinancials d) (rev (find_many (\<lambda>_ cu. cu_partner cu = Some partnerId) (customers d)))"

definition getPartnerDetail :: "nat \<Rightarrow> db \<Rightarrow> (partner \<times> member list) result" where
  "getPartnerDetail i d = and_then (requirePartner i d) (\<lambda>p d. return (p, referredCustomerSummaries i True d) d)"

definition createPartnerContact ::
  "env \<Rightarrow> auth_config \<Rightarrow> actor \<Rightarrow> string \<Rightarrow> nat \<Rightarrow> string \<Rightarrow> db \<Rightarrow> (nat \<times> nat \<times> string option) result" where
  "createPartnerContact e cfg ac unguessable partnerId email d = and_then (requirePartner partnerId d) (\<lambda>_ d.
     and_then (adminProvisionAccount e cfg ac unguessable email R_PARTNER d) (\<lambda>(uid, devToken) d.
       let i = t_next (partner_contacts d) in
       return (i, uid, devToken) (audit_record None (Some (act_id ac)) By_User STR ''partner_contact.created''
         [(STR ''partnerId'', J_Id partnerId), (STR ''contactId'', J_Id i), (STR ''userId'', J_Id uid), (STR ''email'', J_Text email)]
         (d\<lparr>partner_contacts := insert_row \<lparr>pn_partner = partnerId, pn_user = uid\<rparr> (partner_contacts d)\<rparr>))))"

definition getMyDashboard :: "nat \<Rightarrow> db \<Rightarrow> (partner \<times> member list) result" where
  "getMyDashboard userId d = (case find_first (\<lambda>_ c. pn_user c = userId) (partner_contacts d) of
     None \<Rightarrow> throw (Not_Found STR ''No partner profile for this user'') d
   | Some (_, contact) \<Rightarrow> included (partners d) (pn_partner contact) d (\<lambda>p.
       return (p, referredCustomerSummaries (pn_partner contact) False d) d))"

end
