(* ===== verification/Relay.thy ===== *)
theory Relay
  imports Evidence
begin

text \<open>
  The two-way thread between a beneficiary and the case team
  (\<open>src/backend/src/beneficiary-relay/beneficiary-relay.service.ts\<close>) and the documents on a case
  (\<open>src/backend/src/documents/documents.service.ts\<close>, \<open>document-visibility.ts\<close>). Presigning the upload and the
  view URL is the S3 package's and left out. The notifications of one message are sent side by
  side; here they are written in the order of their recipients.
\<close>

section \<open>The relay\<close>

definition listRelayMessages :: "nat \<Rightarrow> db \<Rightarrow> (nat \<times> relay_message) list" where
  "listRelayMessages caseId d = find_many (\<lambda>_ m. rm_case m = caseId) (relay_messages d)"

definition relay_type_name :: "relay_type \<Rightarrow> String.literal" where
  "relay_type_name t = (case t of RM_MESSAGE \<Rightarrow> STR ''MESSAGE'' | RM_OBJECTION \<Rightarrow> STR ''OBJECTION'')"

definition relay_body :: "service_case \<Rightarrow> string \<Rightarrow> json list" where
  "relay_body c body = [J_Lit STR ''Case '', J_Text (c_number c), J_Lit STR '': '', J_Text body]"

text \<open>Who hears of a beneficiary's message: the owner of the case, else its case managers.\<close>

definition relay_recipients :: "nat \<Rightarrow> service_case \<Rightarrow> db \<Rightarrow> nat list" where
  "relay_recipients caseId c d = (case c_owner c of
     Some u \<Rightarrow> [u]
   | None \<Rightarrow> map (\<lambda>(_, x). cl_user x) (find_many (\<lambda>_ x. cl_case x = caseId \<and> cl_role x = CR_CASE_MANAGER) (collaborators d)))"

definition relay_send :: "env \<Rightarrow> actor \<Rightarrow> nat \<Rightarrow> string \<Rightarrow> relay_type option \<Rightarrow> db \<Rightarrow> nat result" where
  "relay_send e ac caseId body ty d = (case find_unique (cases d) caseId of
     None \<Rightarrow> throw (Not_Found STR ''Case not found'') d
   | Some c \<Rightarrow>
     (let fromBeneficiary = (act_role ac = R_BENEFICIARY);
          t = (case ty of Some t \<Rightarrow> t | None \<Rightarrow> RM_MESSAGE);
          i = t_next (relay_messages d);
          d1 = audit_record (Some caseId) (Some (act_id ac)) By_User
            (if fromBeneficiary then STR ''beneficiary_relay.message_from_beneficiary'' else STR ''beneficiary_relay.message_from_staff'')
            [(STR ''messageId'', J_Id i), (STR ''type'', J_Lit (relay_type_name t))]
            (d\<lparr>relay_messages := insert_row \<lparr>rm_case = caseId, rm_sender = act_id ac, rm_from_beneficiary = fromBeneficiary,
               rm_type = t, rm_body = body, rm_acknowledged = None, rm_acknowledged_by = None\<rparr> (relay_messages d)\<rparr>)
      in return i
        (if fromBeneficiary
         then fold (\<lambda>u. notify e u (if t = RM_OBJECTION then STR ''Beneficiary raised an objection''
                else STR ''New message from a beneficiary'') (relay_body c body)) (relay_recipients caseId c d1) d1
         else (case Option.bind (c_beneficiary c) (\<lambda>b. Option.bind (find_unique (beneficiaries d) b) bf_user) of
             Some u \<Rightarrow> notify e u STR ''Reply from your case team'' (relay_body c body) d1
           | None \<Rightarrow> d1))))"

definition acknowledgeMessage :: "env \<Rightarrow> actor \<Rightarrow> nat \<Rightarrow> nat \<Rightarrow> db \<Rightarrow> unit result" where
  "acknowledgeMessage e ac caseId messageId d = (case find_unique (relay_messages d) messageId of
     None \<Rightarrow> throw (Not_Found STR ''Message not found'') d
   | Some m \<Rightarrow>
     if rm_case m \<noteq> caseId then throw (Not_Found STR ''Message not found'') d
     else if \<not> rm_from_beneficiary m then throw (Bad_Request STR ''Only a beneficiary-sent message can be acknowledged'') d
     else if rm_type m \<noteq> RM_OBJECTION then throw (Bad_Request STR ''Only an objection can be acknowledged'') d
     else if rm_acknowledged m \<noteq> None then return () d
     else return () (audit_record (Some caseId) (Some (act_id ac)) By_User STR ''beneficiary_relay.objection_acknowledged''
         [(STR ''messageId'', J_Id messageId)]
         (d\<lparr>relay_messages := update_row messageId
            (\<lambda>m. m\<lparr>rm_acknowledged := Some (now e), rm_acknowledged_by := Some (act_id ac)\<rparr>) (relay_messages d)\<rparr>)))"

section \<open>Documents\<close>

definition field_roles :: "role list" where
  "field_roles = [R_FIELD_AGENT, R_PROVIDER]"

definition filterDocumentsForFieldActor :: "(nat \<times> document) list \<Rightarrow> nat set \<Rightarrow> (nat \<times> document) list" where
  "filterDocumentsForFieldActor docs own = filter (\<lambda>(_, doc).
     if doc_visibility doc = DV_STAFF_ONLY then False
     else if doc_visibility doc = DV_ASSIGNEE then (case doc_restricted doc of None \<Rightarrow> False | Some a \<Rightarrow> a \<in> own)
     else True) docs"

definition own_assignments :: "nat \<Rightarrow> nat \<Rightarrow> db \<Rightarrow> nat set" where
  "own_assignments userId caseId d = set (map fst (find_many (\<lambda>_ a. as_case a = caseId
     \<and> ((\<exists>g \<in> set_option (Option.bind (as_agent a) (find_unique (agents d))). ag_user g = userId)
       \<or> (\<exists>p \<in> set_option (Option.bind (as_provider a) (find_unique (providers d))). pv_user p = userId)))
     (assignments d)))"

definition documents_folder :: "nat \<Rightarrow> string" where
  "documents_folder caseId = ''documents/'' @ decimal caseId"

definition createDocumentUploadUrl :: "string \<Rightarrow> nat \<Rightarrow> string \<Rightarrow> string" where
  "createDocumentUploadUrl uuid caseId fileName = createKey uuid (documents_folder caseId) (Some fileName)"

definition listDocumentsForCase :: "actor \<Rightarrow> nat \<Rightarrow> db \<Rightarrow> (nat \<times> document) list" where
  "listDocumentsForCase ac caseId d = (let docs = rev (find_many (\<lambda>_ x. doc_case x = caseId) (documents d))
     in if act_role ac \<in> set field_roles then filterDocumentsForFieldActor docs (own_assignments (act_id ac) caseId d)
        else docs)"

record document_dto =
  dd_label :: string
  dd_storage_key :: string
  dd_visibility :: "document_visibility option"
  dd_restricted :: "nat option"

definition visibility_name :: "document_visibility \<Rightarrow> String.literal" where
  "visibility_name v = (case v of DV_ALL \<Rightarrow> STR ''ALL'' | DV_STAFF_ONLY \<Rightarrow> STR ''STAFF_ONLY'' | DV_ASSIGNEE \<Rightarrow> STR ''ASSIGNEE'')"

definition document_error :: "env \<Rightarrow> nat \<Rightarrow> document_dto \<Rightarrow> db \<Rightarrow> error option" where
  "document_error e caseId dto d =
     (if dd_visibility dto = Some DV_ASSIGNEE \<and> dd_restricted dto = None
      then Some (Bad_Request STR ''restrictedToAssignmentId is required when visibility is ASSIGNEE'')
      else if dd_visibility dto = Some DV_ASSIGNEE
        \<and> Option.bind (Option.bind (dd_restricted dto) (find_unique (assignments d))) (\<lambda>a. Some (as_case a)) \<noteq> Some caseId
      then Some (Bad_Request STR ''restrictedToAssignmentId must be an assignment on this case'')
      else if \<not> prefix (documents_folder caseId @ ''/'') (dd_storage_key dto)
      then Some (Bad_Request STR ''storageKey was not issued for this case'')
      else if \<not> object_exists e (dd_storage_key dto)
      then Some (Bad_Request STR ''Uploaded file not found'')
      else None)"

definition addDocumentToCase :: "env \<Rightarrow> actor \<Rightarrow> nat \<Rightarrow> document_dto \<Rightarrow> db \<Rightarrow> nat result" where
  "addDocumentToCase e ac caseId dto d = (let visibility = (case dd_visibility dto of Some v \<Rightarrow> v | None \<Rightarrow> DV_ALL)
     in case document_error e caseId dto d of
       Some err \<Rightarrow> throw err d
     | None \<Rightarrow> (let i = t_next (documents d) in
         return i (audit_record (Some caseId) (Some (act_id ac)) By_User STR ''document.added''
           [(STR ''documentId'', J_Id i), (STR ''label'', J_Text (dd_label dto)),
            (STR ''visibility'', J_Lit (visibility_name visibility))]
           (d\<lparr>documents := insert_row \<lparr>doc_case = caseId, doc_label = dd_label dto, doc_storage_key = dd_storage_key dto,
              doc_uploader = Some (act_id ac), doc_visibility = visibility,
              doc_restricted = (if visibility = DV_ASSIGNEE then dd_restricted dto else None)\<rparr> (documents d)\<rparr>))))"

definition deleteCaseDocument :: "actor \<Rightarrow> nat \<Rightarrow> nat \<Rightarrow> db \<Rightarrow> unit result" where
  "deleteCaseDocument ac caseId documentId d = (case find_unique (documents d) documentId of
     None \<Rightarrow> throw (Not_Found STR ''Document not found on this case'') d
   | Some doc \<Rightarrow>
     if doc_case doc \<noteq> caseId then throw (Not_Found STR ''Document not found on this case'') d
     else if doc_uploader doc \<noteq> Some (act_id ac) \<and> act_role ac \<noteq> R_ADMIN \<and> act_role ac \<noteq> R_SUPER_ADMIN
     then throw (Forbidden STR ''Only the uploader or an admin can remove this document'') d
     else return () (audit_record (Some caseId) (Some (act_id ac)) By_User STR ''document.deleted''
         [(STR ''documentId'', J_Id documentId)] (d\<lparr>documents := delete_row documentId (documents d)\<rparr>)))"

end
