(* ===== verification/Reports.thy ===== *)
theory Reports
  imports Automation Scope Tally
begin

text \<open>
  The operations console's configuration of the automation
  (\<open>src/backend/src/automation/automation-admin.service.ts\<close>), the estimate of a case's direct cost from
  history (\<open>src/backend/src/predictive-costing/predictive-costing.service.ts\<close>) and the summary of the
  business (\<open>src/backend/src/analytics/analytics.service.ts\<close>).
\<close>

section \<open>Automation rules\<close>

text \<open>A field of the unchecked JSON configuration: an array, whose elements are strings or not, or anything else.\<close>

datatype config_value = Not_Array | Array "string option list"

record rule_config =
  rc_fields :: config_value
  rc_keywords :: config_value

definition string_array :: "config_value \<Rightarrow> bool" where
  "string_array v = (case v of Not_Array \<Rightarrow> False | Array xs \<Rightarrow> length xs \<noteq> 0 \<and> list_all (\<lambda>x. x \<noteq> None) xs)"

definition assertValidConfigShape :: "automation_rule_kind \<Rightarrow> rule_config \<Rightarrow> error + unit" where
  "assertValidConfigShape kind config =
     (if kind = AK_REQUIRED_FIELDS \<and> \<not> string_array (rc_fields config)
      then Inl (Bad_Request STR ''REQUIRED_FIELDS rule config needs a non-empty array of field-name strings'')
      else if kind = AK_BLOCKED_KEYWORDS \<and> \<not> string_array (rc_keywords config)
      then Inl (Bad_Request STR ''BLOCKED_KEYWORDS rule config needs a non-empty array of keyword strings'')
      else Inr ())"

definition config_strings :: "config_value \<Rightarrow> string list option" where
  "config_strings v = (case v of Not_Array \<Rightarrow> None | Array xs \<Rightarrow> Some (List.map_filter id xs))"

text \<open>In the audit log, what is no string or no array appears here as null.\<close>

definition config_json :: "config_value \<Rightarrow> json" where
  "config_json v = (case v of Not_Array \<Rightarrow> J_Null | Array xs \<Rightarrow> J_Array (map (json_option J_Text) xs))"

definition createCapability :: "actor \<Rightarrow> service_type \<Rightarrow> bool \<Rightarrow> db \<Rightarrow> nat result" where
  "createCapability ac st enabled d =
     (if find_first (\<lambda>_ c. cap_service c = st) (capabilities d) \<noteq> None
      then throw (Conflict STR ''An automation capability for this service type already exists'') d
      else (let i = t_next (capabilities d) in
        return i (audit_record None (Some (act_id ac)) By_User STR ''automation_capability.created''
          [(STR ''capabilityId'', J_Id i), (STR ''serviceType'', J_Service st), (STR ''enabled'', J_Bool enabled)]
          (d\<lparr>capabilities := insert_row \<lparr>cap_service = st, cap_enabled = enabled\<rparr> (capabilities d)\<rparr>))))"

definition listRules :: "nat \<Rightarrow> db \<Rightarrow> (nat \<times> automation_rule) list" where
  "listRules cid d = sort_key (\<lambda>(_, r). ar_sort r) (find_many (\<lambda>_ r. ar_capability r = cid) (automation_rules d))"

definition listCapabilities :: "db \<Rightarrow> (nat \<times> automation_capability \<times> (nat \<times> automation_rule) list) list" where
  "listCapabilities d = map (\<lambda>(i, c). (i, c, listRules i d))
     (sort_key (\<lambda>(_, c). service_type_rank (cap_service c)) (t_rows (capabilities d)))"

text \<open>The service type is a path segment; \<open>None\<close> stands for a text that is no service type.\<close>

definition setEnabled :: "actor \<Rightarrow> service_type option \<Rightarrow> bool \<Rightarrow> db \<Rightarrow> unit result" where
  "setEnabled ac param enabled d = (case param of
     None \<Rightarrow> throw (Bad_Request STR ''Unknown service type'') d
   | Some st \<Rightarrow> (case find_first (\<lambda>_ c. cap_service c = st) (capabilities d) of
       None \<Rightarrow> throw (Not_Found STR ''No automation capability configured for this service type'') d
     | Some (i, _) \<Rightarrow> return () (audit_record None (Some (act_id ac)) By_User
         (if enabled then STR ''automation_capability.enabled'' else STR ''automation_capability.disabled'')
         [(STR ''capabilityId'', J_Id i), (STR ''serviceType'', J_Service st)]
         (d\<lparr>capabilities := update_row i (\<lambda>c. c\<lparr>cap_enabled := enabled\<rparr>) (capabilities d)\<rparr>))))"

text \<open>
  The evaluator reads of a rule only the list its kind names; the other is stored by the code too and
  left out here.
\<close>

definition addRule ::
  "actor \<Rightarrow> nat \<Rightarrow> automation_rule_kind \<Rightarrow> rule_config \<Rightarrow> int option \<Rightarrow> db \<Rightarrow> nat result" where
  "addRule ac capabilityId kind config sortOrder d = (case find_unique (capabilities d) capabilityId of
     None \<Rightarrow> throw (Not_Found STR ''Automation capability not found'') d
   | Some _ \<Rightarrow> (case assertValidConfigShape kind config of
       Inl err \<Rightarrow> throw err d
     | Inr _ \<Rightarrow> (let i = t_next (automation_rules d) in
         return i (audit_record None (Some (act_id ac)) By_User STR ''automation_rule.created''
           [(STR ''ruleId'', J_Id i), (STR ''capabilityId'', J_Id capabilityId),
            (STR ''kind'', J_Lit (if kind = AK_REQUIRED_FIELDS then STR ''REQUIRED_FIELDS'' else STR ''BLOCKED_KEYWORDS'')),
            (STR ''config'', J_Object [(STR ''fields'', config_json (rc_fields config)), (STR ''keywords'', config_json (rc_keywords config))])]
           (d\<lparr>automation_rules := insert_row \<lparr>ar_capability = capabilityId, ar_kind = kind,
              ar_fields = (if kind = AK_REQUIRED_FIELDS then config_strings (rc_fields config) else None),
              ar_keywords = (if kind = AK_BLOCKED_KEYWORDS then config_strings (rc_keywords config) else None),
              ar_sort = (case sortOrder of Some n \<Rightarrow> n | None \<Rightarrow> 0)\<rparr> (automation_rules d)\<rparr>)))))"

definition removeRule :: "actor \<Rightarrow> nat \<Rightarrow> db \<Rightarrow> unit result" where
  "removeRule ac ruleId d = (case find_unique (automation_rules d) ruleId of
     None \<Rightarrow> throw (Not_Found STR ''Automation rule not found'') d
   | Some r \<Rightarrow> return () (audit_record None (Some (act_id ac)) By_User STR ''automation_rule.removed''
       [(STR ''ruleId'', J_Id ruleId), (STR ''capabilityId'', J_Id (ar_capability r))]
       (d\<lparr>automation_rules := delete_row ruleId (automation_rules d)\<rparr>)))"

section \<open>Direct costs\<close>

definition min_sample_for_high_confidence :: nat where
  "min_sample_for_high_confidence = 3"

definition costing_statuses :: "case_status list" where
  "costing_statuses = [CS_COMPLETED, CS_CLOSED]"

datatype cost_confidence = No_Confidence | Low_Confidence | High_Confidence

record cost_estimate =
  ce_zone :: pricing_zone
  ce_sample :: nat
  ce_amount :: "rat option"
  ce_confidence :: cost_confidence

definition direct_costs_of :: "nat \<Rightarrow> db \<Rightarrow> rat list" where
  "direct_costs_of k d = map (\<lambda>(_, x). dc_amount x) (find_many (\<lambda>_ x. dc_case x = k) (direct_costs d))"

definition same_zone_totals :: "service_type \<Rightarrow> string \<Rightarrow> db \<Rightarrow> rat list" where
  "same_zone_totals st location d = map (\<lambda>(k, _). sum_list (direct_costs_of k d))
     (filter (\<lambda>(k, c). classifyZone (c_location c) = classifyZone location \<and> 0 < length (direct_costs_of k d))
       (find_many (\<lambda>_ c. c_service_type c = st \<and> c_status c \<in> set costing_statuses) (cases d)))"

definition predictDirectCost :: "service_type \<Rightarrow> string \<Rightarrow> db \<Rightarrow> cost_estimate" where
  "predictDirectCost st location d = (let totals = same_zone_totals st location d; n = length totals
     in \<lparr>ce_zone = classifyZone location, ce_sample = n,
         ce_amount = (if 0 < n then Some (sum_list totals / of_nat n) else None),
         ce_confidence = (if n = 0 then No_Confidence else if n < min_sample_for_high_confidence then Low_Confidence
           else High_Confidence)\<rparr>)"

definition predictDirectCostForCase :: "nat \<Rightarrow> db \<Rightarrow> cost_estimate result" where
  "predictDirectCostForCase k d = (case find_unique (cases d) k of
     None \<Rightarrow> throw (Not_Found STR ''Case not found'') d
   | Some c \<Rightarrow> return (predictDirectCost (c_service_type c) (c_location c) d) d)"

section \<open>The summary of the business\<close>

record business_summary =
  bs_customers :: nat
  bs_with_cases :: nat
  bs_repeat :: nat
  bs_repeat_rate :: "rat option"
  bs_cases :: nat
  bs_by_status :: "(case_status \<times> nat) list"
  bs_completion_rate :: "rat option"
  bs_revenue :: "(String.literal \<times> rat) list"
  bs_avg_case_value :: "rat option"
  bs_accepted_quotes :: nat
  bs_direct_costs :: "(String.literal \<times> rat) list"
  bs_contribution :: "(String.literal \<times> rat) list"
  bs_margin :: "(String.literal \<times> rat option) list"
  bs_avg_rating :: "rat option"
  bs_ratings :: nat
  bs_qc_reviews :: nat
  bs_qc_outcomes :: "(qc_outcome \<times> nat) list"
  bs_rework_rate :: "rat option"
  bs_overdue :: nat
  bs_unowned :: nat
  bs_exceptions :: nat
  bs_incidents :: "(incident_severity \<times> nat) list"

definition rate_of :: "nat \<Rightarrow> nat \<Rightarrow> rat option" where
  "rate_of part whole = (if 0 < whole then Some (of_nat part / of_nat whole) else None)"

definition table_rows :: "'r table \<Rightarrow> 'r list" where
  "table_rows t = map snd (t_rows t)"

text \<open>The outcomes named by the audit events of quality controls.\<close>

definition qc_outcomes :: "db \<Rightarrow> qc_outcome list" where
  "qc_outcomes d = List.map_filter (\<lambda>ev. case map_of (ae_metadata ev) STR ''outcome'' of
       Some (J_Qc x) \<Rightarrow> Some x | _ \<Rightarrow> None)
     (filter (\<lambda>ev. ae_action ev = STR ''case.qc_performed'') (table_rows (audit_log d)))"

definition currencies :: "(String.literal \<times> rat) list \<Rightarrow> (String.literal \<times> rat) list \<Rightarrow> String.literal list" where
  "currencies revenue costs = map fst revenue @ filter (\<lambda>k. k \<notin> set (map fst revenue)) (map fst costs)"

definition getSummary :: "env \<Rightarrow> db \<Rightarrow> business_summary" where
  "getSummary e d = (let cs = table_rows (cases d);
       open_cases = filter (\<lambda>c. c_status c \<noteq> CS_COMPLETED \<and> c_status c \<noteq> CS_CLOSED) cs;
       by_customer = tally c_customer (\<lambda>_. 1) cs;
       with_cases = length by_customer;
       repeats = length (filter (\<lambda>(_, n). 1 < (n :: nat)) by_customer);
       by_status = tally c_status (\<lambda>_. 1) cs;
       completed = get_or_0 by_status CS_COMPLETED + get_or_0 by_status CS_CLOSED;
       revenue = tally p_currency p_amount (filter (\<lambda>p. p_status p = PS_PAID) (table_rows (payments d)));
       accepted = filter (\<lambda>q. q_accepted q \<noteq> None) (table_rows (quotes d));
       costs = tally dc_currency dc_amount (table_rows (direct_costs d));
       stars = map (\<lambda>r. rt_stars r) (table_rows (ratings d));
       reviews = length (filter (\<lambda>ev. ae_action ev = STR ''case.qc_performed'') (table_rows (audit_log d)));
       outcomes = tally (\<lambda>x. x) (\<lambda>_. 1) (qc_outcomes d)
     in \<lparr>bs_customers = length (table_rows (customers d)), bs_with_cases = with_cases, bs_repeat = repeats,
         bs_repeat_rate = rate_of repeats with_cases, bs_cases = length cs, bs_by_status = by_status,
         bs_completion_rate = rate_of completed (length cs), bs_revenue = revenue,
         bs_avg_case_value = (if 0 < length accepted
            then Some (sum_list (map q_amount accepted) / of_nat (length accepted)) else None),
         bs_accepted_quotes = length accepted, bs_direct_costs = costs,
         bs_contribution = map (\<lambda>k. (k, get_or_0 revenue k - get_or_0 costs k)) (currencies revenue costs),
         bs_margin = map (\<lambda>k. (k, if 0 < get_or_0 revenue k
            then Some ((get_or_0 revenue k - get_or_0 costs k) / get_or_0 revenue k) else None)) (currencies revenue costs),
         bs_avg_rating = (if stars = [] then None else Some (of_int (sum_list stars) / of_nat (length stars))),
         bs_ratings = length stars, bs_qc_reviews = reviews, bs_qc_outcomes = outcomes,
         bs_rework_rate = rate_of (get_or_0 outcomes QC_REWORK) reviews,
         bs_overdue = length (filter (\<lambda>c. case c_sla_target c of None \<Rightarrow> False | Some t \<Rightarrow> t < now e) open_cases),
         bs_unowned = length (filter (\<lambda>c. c_owner c = None) open_cases),
         bs_exceptions = length (table_rows (risk_flags d)),
         bs_incidents = tally in_severity (\<lambda>_. 1) (table_rows (incidents d))\<rparr>)"

end
