(* ===== verification/Onboarding.thy ===== *)
theory Onboarding
  imports Auth State_Machines
begin

text \<open>
  Field agents and professional providers: onboarding by staff, the provider's status, the
  credentials (\<open>src/backend/src/providers/providers.service.ts\<close>,
  \<open>src/backend/src/agents/agents.service.ts\<close>). A user and its profile are written by one
  statement, so a user refused for a duplicate leaves no profile.
\<close>

section \<open>Providers\<close>

record provider_dto =
  pd_name :: string
  pd_email :: string
  pd_phone :: "string option"
  pd_password :: string
  pd_category :: string
  pd_city :: "string option"
  pd_state :: "string option"

definition listProviders :: "db \<Rightarrow> (nat \<times> provider \<times> (nat \<times> credential) list) list" where
  "listProviders d = map (\<lambda>(i, p). (i, p, find_many (\<lambda>_ c. cr_provider c = i) (credentials d))) (rev (t_rows (providers d)))"

definition createProvider :: "env \<Rightarrow> actor \<Rightarrow> provider_dto \<Rightarrow> db \<Rightarrow> nat result" where
  "createProvider e ac dto d =
     (if find_email (pd_email dto) d \<noteq> None
      then throw (Conflict STR ''An account with this email already exists'') d
      else and_then (create_user (new_user (pd_email dto) (pd_phone dto) (argon_hash e (pd_password dto)) R_PROVIDER) d)
        (\<lambda>uid d. (let pid = t_next (providers d) in
           return pid (audit_record None (Some (act_id ac)) By_User STR ''provider.onboarded''
             [(STR ''providerId'', J_Id pid), (STR ''userId'', J_Id uid)]
             (d\<lparr>providers := insert_row \<lparr>pv_user = uid, pv_name = pd_name dto, pv_category = pd_category dto,
                pv_city = pd_city dto, pv_state = pd_state dto, pv_status = PV_PENDING, pv_score = None\<rparr> (providers d)\<rparr>)))))"

definition updateStatus :: "actor \<Rightarrow> nat \<Rightarrow> provider_status \<Rightarrow> db \<Rightarrow> unit result" where
  "updateStatus ac providerId status d = (case find_unique (providers d) providerId of
     None \<Rightarrow> throw (Not_Found STR ''Provider not found'') d
   | Some p \<Rightarrow>
     (case assertValidProviderTransition (pv_status p) status of
        Inl err \<Rightarrow> throw err d
      | Inr _ \<Rightarrow> return ()
       (audit_record None (Some (act_id ac)) By_User STR ''provider.status_changed''
          [(STR ''providerId'', J_Id providerId), (STR ''from'', J_Provider (pv_status p)), (STR ''to'', J_Provider status)]
        (d\<lparr>providers := update_row providerId (\<lambda>p. p\<lparr>pv_status := status\<rparr>) (providers d)\<rparr>))))"

definition find_provider :: "nat \<Rightarrow> db \<Rightarrow> (nat \<times> provider) option" where
  "find_provider userId d = find_first (\<lambda>_ p. pv_user p = userId) (providers d)"

definition getOwnProfile :: "nat \<Rightarrow> db \<Rightarrow> error + (nat \<times> provider \<times> (nat \<times> credential) list)" where
  "getOwnProfile userId d = (case find_provider userId d of
     None \<Rightarrow> Inl (Not_Found STR ''No provider profile for this user'')
   | Some (i, p) \<Rightarrow> Inr (i, p, find_many (\<lambda>_ c. cr_provider c = i) (credentials d)))"

record credential_dto =
  cdto_type :: string
  cdto_issuer :: "string option"
  cdto_reference :: "string option"
  cdto_document_url :: "string option"

definition addOwnCredential :: "actor \<Rightarrow> credential_dto \<Rightarrow> db \<Rightarrow> nat result" where
  "addOwnCredential ac dto d = (case find_provider (act_id ac) d of
     None \<Rightarrow> throw (Not_Found STR ''No provider profile for this user'') d
   | Some (pid, _) \<Rightarrow> (let i = t_next (credentials d) in
       return i (audit_record None (Some (act_id ac)) By_User STR ''provider_credential.added''
         [(STR ''providerId'', J_Id pid), (STR ''credentialId'', J_Id i), (STR ''type'', J_Text (cdto_type dto))]
         (d\<lparr>credentials := insert_row \<lparr>cr_provider = pid, cr_type = cdto_type dto, cr_issuer = cdto_issuer dto,
            cr_reference = cdto_reference dto, cr_verified_at = None, cr_document_url = cdto_document_url dto\<rparr>
            (credentials d)\<rparr>))))"

definition verifyCredential :: "env \<Rightarrow> actor \<Rightarrow> nat \<Rightarrow> db \<Rightarrow> unit result" where
  "verifyCredential e ac credentialId d = (case find_unique (credentials d) credentialId of
     None \<Rightarrow> throw (Not_Found STR ''Credential not found'') d
   | Some c \<Rightarrow>
     if cr_verified_at c \<noteq> None then throw (Conflict STR ''Credential already verified'') d
     else return ()
       (audit_record None (Some (act_id ac)) By_User STR ''provider_credential.verified''
          [(STR ''credentialId'', J_Id credentialId), (STR ''providerId'', J_Id (cr_provider c))]
        (d\<lparr>credentials := update_row credentialId (\<lambda>c. c\<lparr>cr_verified_at := Some (now e)\<rparr>) (credentials d)\<rparr>)))"

section \<open>Agents\<close>

record agent_dto =
  gd_name :: string
  gd_email :: string
  gd_phone :: "string option"
  gd_password :: string
  gd_city :: "string option"
  gd_state :: "string option"

definition listAgents :: "db \<Rightarrow> (nat \<times> agent) list" where
  "listAgents d = rev (t_rows (agents d))"

definition createAgent :: "env \<Rightarrow> actor \<Rightarrow> agent_dto \<Rightarrow> db \<Rightarrow> nat result" where
  "createAgent e ac dto d =
     (if find_email (gd_email dto) d \<noteq> None
      then throw (Conflict STR ''An account with this email already exists'') d
      else and_then (create_user (new_user (gd_email dto) (gd_phone dto) (argon_hash e (gd_password dto)) R_FIELD_AGENT) d)
        (\<lambda>uid d. (let aid = t_next (agents d) in
           return aid (audit_record None (Some (act_id ac)) By_User STR ''agent.onboarded''
             [(STR ''agentId'', J_Id aid), (STR ''userId'', J_Id uid)]
             (d\<lparr>agents := insert_row \<lparr>ag_user = uid, ag_name = gd_name dto, ag_active = True, ag_score = None,
                ag_tier = TI_BRONZE, ag_pass_rate = None, ag_city = gd_city dto, ag_state = gd_state dto\<rparr> (agents d)\<rparr>)))))"

text \<open>\<open>update\<close> of a row that is not there is an error of the database.\<close>

definition setAgentActive :: "actor \<Rightarrow> nat \<Rightarrow> bool \<Rightarrow> db \<Rightarrow> unit result" where
  "setAgentActive ac agentId isActive d = (case find_unique (agents d) agentId of
     None \<Rightarrow> throw (Internal STR ''Record to update not found'') d
   | Some _ \<Rightarrow> return ()
       (audit_record None (Some (act_id ac)) By_User
          (if isActive then STR ''agent.reactivated'' else STR ''agent.deactivated'') [(STR ''agentId'', J_Id agentId)]
        (d\<lparr>agents := update_row agentId (\<lambda>g. g\<lparr>ag_active := isActive\<rparr>) (agents d)\<rparr>)))"

section \<open>Steps\<close>

inductive onboarding_step :: "db \<Rightarrow> db \<Rightarrow> bool" where
  Create_Provider: "onboarding_step d (snd (createProvider e ac dto d))"
| Update_Status: "onboarding_step d (snd (updateStatus ac i s d))"
| Add_Credential: "onboarding_step d (snd (addOwnCredential ac cdto d))"
| Verify_Credential: "onboarding_step d (snd (verifyCredential e ac i d))"
| Create_Agent: "onboarding_step d (snd (createAgent e ac adto d))"
| Set_Active: "onboarding_step d (snd (setAgentActive ac i b d))"

text \<open>
  In one step a provider keeps its account and its status takes at most one edge of the status
  machine; a credential keeps what it says and, once verified, when it was.
\<close>

definition onboarding_ok :: "db \<Rightarrow> bool" where
  "onboarding_ok d \<longleftrightarrow> wf_table (providers d) \<and> wf_table (credentials d)"

definition credential_kept :: "db \<Rightarrow> db \<Rightarrow> bool" where
  "credential_kept d d' \<longleftrightarrow> (\<forall>i c. find_unique (credentials d) i = Some c \<longrightarrow>
     (\<exists>t. find_unique (credentials d') i = Some (c\<lparr>cr_verified_at := t\<rparr>)
        \<and> (cr_verified_at c \<noteq> None \<longrightarrow> t = cr_verified_at c)))"

definition provider_moves :: "db \<Rightarrow> db \<Rightarrow> bool" where
  "provider_moves d d' \<longleftrightarrow> (\<forall>i p. find_unique (providers d) i = Some p \<longrightarrow> (\<exists>p'. find_unique (providers d') i = Some p'
     \<and> pv_user p' = pv_user p \<and> (pv_status p' = pv_status p \<or> provider_edge (pv_status p) (pv_status p'))))"

lemma credential_same: "\<exists>t. c = c\<lparr>cr_verified_at := t\<rparr> \<and> ((\<exists>y. cr_verified_at c = Some y) \<longrightarrow> t = cr_verified_at c)"
  by (rule exI [of _ "cr_verified_at c"]) simp

lemma credential_kept_refl [simp]: "credentials d' = credentials d \<Longrightarrow> credential_kept d d'"
  by (simp add: credential_kept_def credential_same)

lemma credential_kept_trans:
  assumes "credential_kept d d1" "credential_kept d1 d2" shows "credential_kept d d2"
  unfolding credential_kept_def
proof (intro allI impI)
  fix i c assume "find_unique (credentials d) i = Some c"
  with assms(1) obtain t where t: "find_unique (credentials d1) i = Some (c\<lparr>cr_verified_at := t\<rparr>)"
    "cr_verified_at c \<noteq> None \<longrightarrow> t = cr_verified_at c" unfolding credential_kept_def by blast
  with assms(2) obtain s where "find_unique (credentials d2) i = Some (c\<lparr>cr_verified_at := t, cr_verified_at := s\<rparr>)"
    "t \<noteq> None \<longrightarrow> s = t" by (fastforce simp: credential_kept_def)
  with t(2) show "\<exists>t. find_unique (credentials d2) i = Some (c\<lparr>cr_verified_at := t\<rparr>)
      \<and> (cr_verified_at c \<noteq> None \<longrightarrow> t = cr_verified_at c)" by auto
qed

lemma provider_moves_refl [simp]: "providers d' = providers d \<Longrightarrow> provider_moves d d'"
  by (auto simp: provider_moves_def)

lemma create_user_frame:
  assumes "create_user u d = (r, d')"
  shows "providers d' = providers d" "credentials d' = credentials d" "agents d' = agents d"
  using assms by (auto simp: create_user_def split: if_splits)

lemma find_insert_fresh:
  assumes "wf_table t" "find_unique t i = Some r"
  shows "find_unique (insert_row x t) i = Some r"
  using assms by (auto dest: find_unique_in_rows rows_below_next)

lemma onboarding_step_moves:
  assumes "onboarding_step d d'" "onboarding_ok d"
  shows "onboarding_ok d' \<and> provider_moves d d' \<and> credential_kept d d'"
  using assms(1)
proof cases
  case (Create_Provider e ac dto)
  obtain r d1 where u: "create_user (new_user (pd_email dto) (pd_phone dto) (argon_hash e (pd_password dto)) R_PROVIDER) d = (r, d1)"
    by fastforce
  note fr = create_user_frame [OF u]
  show ?thesis
    using assms(2) fr
    by (cases r) (auto simp: Create_Provider createProvider_def u Let_def onboarding_ok_def provider_moves_def find_insert_fresh)
next
  case (Update_Status ac i s)
  then show ?thesis using assms(2)
    by (auto simp: updateStatus_def onboarding_ok_def provider_moves_def split: option.split sum.split)
next
  case (Add_Credential ac cdto)
  have "credential_kept d (d\<lparr>credentials := insert_row c (credentials d)\<rparr>)" for c
    using assms(2) by (auto simp: credential_kept_def onboarding_ok_def find_insert_fresh credential_same)
  with Add_Credential assms(2) show ?thesis
    by (auto simp: addOwnCredential_def onboarding_ok_def Let_def credential_kept_def credential_same split: option.split)
next
  case (Verify_Credential e ac i)
  then show ?thesis using assms(2)
    by (auto simp: verifyCredential_def onboarding_ok_def credential_kept_def credential_same split: option.split)
next
  case (Create_Agent e ac dto)
  obtain r d1 where u: "create_user (new_user (gd_email dto) (gd_phone dto) (argon_hash e (gd_password dto)) R_FIELD_AGENT) d = (r, d1)"
    by fastforce
  note fr = create_user_frame [OF u]
  show ?thesis
    using assms(2) fr by (cases r) (auto simp: Create_Agent createAgent_def u Let_def onboarding_ok_def)
next
  case (Set_Active ac i b)
  then show ?thesis using assms(2)
    by (auto simp: setAgentActive_def onboarding_ok_def split: option.split)
qed

text \<open>Only a verified provider becomes active, restricted or suspended.\<close>

definition vetting :: "provider_status set" where
  "vetting = {PV_PENDING, PV_UNDER_REVIEW, PV_REMOVED}"

lemma leave_vetting: "a \<in> vetting \<Longrightarrow> provider_edge a b \<Longrightarrow> b \<in> vetting \<or> b = PV_VERIFIED"
  by (cases a) (auto simp: vetting_def assertValidProviderTransition_def split: if_splits)

definition status_in :: "nat \<Rightarrow> db \<Rightarrow> provider_status option" where
  "status_in i d = map_option pv_status (find_unique (providers d) i)"

lemma onboarding_verified_first:
  assumes "onboarding_step\<^sup>*\<^sup>* d d'" "onboarding_ok d" "status_in i d = Some a" "a \<in> vetting"
  shows "onboarding_ok d' \<and> credential_kept d d' \<and> (\<exists>b. status_in i d' = Some b \<and> (b \<in> vetting \<or>
    (\<exists>d1. onboarding_step\<^sup>*\<^sup>* d d1 \<and> onboarding_step\<^sup>*\<^sup>* d1 d' \<and> status_in i d1 = Some PV_VERIFIED)))"
  using assms(1)
proof induction
  case base
  then show ?case using assms(2-4) by simp
next
  case (step x y)
  from step.IH obtain b where b: "status_in i x = Some b" "b \<in> vetting \<or>
    (\<exists>d1. onboarding_step\<^sup>*\<^sup>* d d1 \<and> onboarding_step\<^sup>*\<^sup>* d1 x \<and> status_in i d1 = Some PV_VERIFIED)" by blast
  note move = onboarding_step_moves [OF step.hyps(2)] 
  have ok: "onboarding_ok y" "credential_kept d y" using move step.IH credential_kept_trans by blast+
  from move step.IH b(1) obtain c where c: "status_in i y = Some c" "c = b \<or> provider_edge b c"
    by (fastforce simp: provider_moves_def status_in_def)
  have "c \<in> vetting \<or> (\<exists>d1. onboarding_step\<^sup>*\<^sup>* d d1 \<and> onboarding_step\<^sup>*\<^sup>* d1 y \<and> status_in i d1 = Some PV_VERIFIED)"
  proof (cases "b \<in> vetting")
    case True
    with c(2) leave_vetting have "c \<in> vetting \<or> c = PV_VERIFIED" by blast
    moreover have "onboarding_step\<^sup>*\<^sup>* d y" using step.hyps by simp
    ultimately show ?thesis using c(1) by blast
  next
    case False
    with b(2) step.hyps(2) show ?thesis by (meson rtranclp.rtrancl_into_rtrancl)
  qed
  with ok c(1) show ?case by blast
qed

end
