(* ===== verification/Customer_Properties.thy ===== *)
theory Customer_Properties
  imports Sample Account_Groups Relay Reports Onboarding
begin

text \<open>The properties of what customers and staff keep around the cases: saved rows, documents, providers, reports.\<close>

section \<open>Saved rows\<close>

text \<open>A sweep handles the due schedules in the order of the table: it gets as far as the first that cannot be run.\<close>

lemma schedule_loop_halts:
  assumes "\<not> runnable s d"
  shows "isl (fst (schedule_loop e (xs @ (i, s) # ys) d))
    \<and> (\<forall>j. j \<notin> fst ` set xs \<longrightarrow> find_unique (schedules (snd (schedule_loop e (xs @ (i, s) # ys) d))) j = find_unique (schedules d) j
         \<and> spawned j (snd (schedule_loop e (xs @ (i, s) # ys) d)) = spawned j d)"
  using assms
proof (induction xs arbitrary: d)
  case Nil
  show ?case by (rule schedule_turn [of s d e i ys]) (use Nil in simp_all)
next
  case (Cons x xs)
  obtain k r where x: "x = (k, r)" by (cases x)
  show ?case
  proof (rule schedule_turn [of r d e k "xs @ (i, s) # ys"])
    fix d2
    assume loop: "schedule_loop e ((k, r) # xs @ (i, s) # ys) d = schedule_loop e (xs @ (i, s) # ys) d2"
      and d2: "schedules d2 = update_row k (\<lambda>q. q\<lparr>rs_next_run := now e + rs_cadence r * day_ms\<rparr>) (schedules d)"
        "\<And>q. runnable q d2 = runnable q d" "\<And>n. spawned n d2 = spawned n d + (if n = k then 1 else 0)"
    have "\<not> runnable s d2" using Cons.prems d2(2) by simp
    from Cons.IH [OF this] loop show ?thesis by (simp add: x d2 tbl.lookup_modify)
  qed (simp add: x)
qed

lemma schedule_loop_keys: "map fst (t_rows (schedules (snd (schedule_loop e due d)))) = map fst (t_rows (schedules d))"
proof (induction due arbitrary: d)
  case (Cons x due)
  obtain sid s where x: "x = (sid, s)" by (cases x)
  have keys: "map fst (t_rows (update_row k f t)) = map fst (t_rows t)" for k f and t :: "schedule table"
    by (simp add: update_row_def rows_update_many comp_def case_prod_unfold)
  show ?case by (rule schedule_turn [of s d e sid due]) (use Cons in \<open>simp_all add: x keys\<close>)
qed simp

lemma sweep_snd: "isl (fst (processDueSchedules e d)) = isl (fst (schedule_loop e (due_schedules e d) d))"
    "snd (processDueSchedules e d) = snd (schedule_loop e (due_schedules e d) d)"
  by (auto simp: processDueSchedules_def Let_def and_then_def split: prod.split sum.split)

text \<open>Schedule \<open>j\<close> stands behind schedule \<open>i\<close>.\<close>

definition stands_behind :: "nat \<Rightarrow> nat \<Rightarrow> db \<Rightarrow> bool" where
  "stands_behind i j d \<longleftrightarrow> (\<exists>xs ys. map fst (t_rows (schedules d)) = xs @ i # ys \<and> j \<in> set ys)"

definition blocks :: "nat \<Rightarrow> schedule \<Rightarrow> db \<Rightarrow> bool" where
  "blocks i s d \<longleftrightarrow> wf_table (schedules d) \<and> find_unique (schedules d) i = Some s \<and> rs_active s \<and> \<not> runnable s d"

lemma sweep_blocked:
  assumes "blocks i s d" "rs_next_run s \<le> now e"
  shows "isl (fst (processDueSchedules e d)) \<and> blocks i s (snd (processDueSchedules e d))
    \<and> spawned i (snd (processDueSchedules e d)) = spawned i d
    \<and> (\<forall>j. stands_behind i j d \<longrightarrow> stands_behind i j (snd (processDueSchedules e d))
         \<and> find_unique (schedules (snd (processDueSchedules e d))) j = find_unique (schedules d) j
         \<and> spawned j (snd (processDueSchedules e d)) = spawned j d)"
proof -
  let ?d = "snd (schedule_loop e (due_schedules e d) d)"
  let ?P = "\<lambda>(k :: nat, r). rs_active r \<and> rs_next_run r \<le> now e"
  have b: "wf_table (schedules d)" "find_unique (schedules d) i = Some s" "rs_active s" "\<not> runnable s d"
    using assms(1) by (simp_all add: blocks_def)
  have "(i, s) \<in> set (t_rows (schedules d))" using b(1,2) by (simp add: find_unique_in_rows)
  then obtain A B where rows: "t_rows (schedules d) = A @ (i, s) # B" by (meson split_list)
  have due: "due_schedules e d = filter ?P A @ (i, s) # filter ?P B"
    using b(3) assms(2) by (simp add: due_schedules_def find_many_def rows)
  have apart: "distinct (map fst A @ i # map fst B)" using b(1) by (simp add: wf_table_def rows)
  have front: "j \<notin> fst ` set (filter ?P A)" if "j = i \<or> stands_behind i j d" for j
  proof -
    have "j = i \<or> j \<in> set (map fst B)"
      using that apart append_Cons_eq_iff [of i "map fst A" "map fst B"] by (auto simp: stands_behind_def rows)
    then show ?thesis using apart by auto
  qed
  note halt = schedule_loop_halts [OF b(4), of e "filter ?P A" i "filter ?P B", folded due]
  have "blocks i s ?d"
    using b halt front [of i] schedule_loop_wf [OF b(1)] by (simp add: blocks_def schedule_loop_runnable)
  moreover have "stands_behind i j ?d = stands_behind i j d" for j
    by (simp add: stands_behind_def schedule_loop_keys)
  ultimately show ?thesis unfolding sweep_snd using halt front by blast
qed

text \<open>Sweeps one after another, each with its own clock.\<close>

definition sweeps :: "env list \<Rightarrow> db \<Rightarrow> db" where
  "sweeps es d = fold (\<lambda>e d. snd (processDueSchedules e d)) es d"

lemma sweeps_blocked:
  "blocks i s d \<Longrightarrow> \<forall>e \<in> set es. rs_next_run s \<le> now e \<Longrightarrow> blocks i s (sweeps es d) \<and> spawned i (sweeps es d) = spawned i d
    \<and> (\<forall>j. stands_behind i j d \<longrightarrow> find_unique (schedules (sweeps es d)) j = find_unique (schedules d) j
         \<and> spawned j (sweeps es d) = spawned j d)"
proof (induction es arbitrary: d)
  case (Cons e es)
  have one: "rs_next_run s \<le> now e" using Cons.prems(2) by simp
  from sweep_blocked [OF Cons.prems(1) one] Cons.IH [of "snd (processDueSchedules e d)"] Cons.prems(2) show ?case
    by (simp add: sweeps_def)
qed (simp add: sweeps_def)

text \<open>C11. A saved property that is deleted stops the recurring visits. The customer may delete a property although
  an active schedule visits it. From then on, as long as only the daily sweep runs, every sweep at which the schedule
  is due ends with an error, today and on any later day: the schedule neither spawns its case nor moves on, and no
  schedule that stands behind it in the table is handled either, so their visits are not opened and their dates do not move.\<close>

theorem deleted_property_stops_sweep:
  assumes "wf_table (schedules d)" "deleteProperty userId p d = (Inr (), d1)"
    and "find_unique (schedules d) i = Some s" "rs_property s = Some p" "rs_active s" "\<forall>e \<in> set es. rs_next_run s \<le> now e"
  shows "find_unique (schedules (sweeps es d1)) i = Some s \<and> spawned i (sweeps es d1) = spawned i d1
    \<and> (\<forall>e. rs_next_run s \<le> now e \<longrightarrow> isl (fst (processDueSchedules e (sweeps es d1))))
    \<and> (\<forall>j. stands_behind i j d1 \<longrightarrow> find_unique (schedules (sweeps es d1)) j = find_unique (schedules d1) j
         \<and> spawned j (sweeps es d1) = spawned j d1)"
proof -
  have d1: "schedules d1 = schedules d" "find_unique (properties d1) p = None"
    using assms(2) by (auto simp: deleteProperty_def requireCustomer_def remove_property_def split: option.splits if_splits)
  then have "blocks i s d1" using assms(1,3,4,5) by (simp add: blocks_def runnable_def links_live_def)
  from sweeps_blocked [OF this assms(6)] sweep_blocked [of i s "sweeps es d1"] show ?thesis by (auto simp: blocks_def)
qed

section \<open>Invitations\<close>

text \<open>C12. A beneficiary has one live invitation: inviting again spends the earlier links, the newest is valid for a
  week, and no account can be opened with a link that was superseded.\<close>

theorem one_live_invite:
  assumes "token_table_ok (invites d)" "inviteBeneficiary e cfg frontend userId i d = (Inr r, d1)"
  shows "(\<exists>k t. find_many (\<lambda>_ t. to_owner t = i \<and> to_spent t = None) (invites d1) = [(k, t)]
      \<and> to_hash t = hashToken e (random_token e) \<and> to_expires t = now e + beneficiary_invite_ttl_ms)
    \<and> (\<forall>tok k t cfg' email pw e'. find_token (hashToken e' tok) (invites d) = Some (k, t) \<longrightarrow> to_owner t = i
        \<longrightarrow> acceptBeneficiaryInvite e' cfg' tok email pw d1 = (Inl (Unauthorized STR ''Invalid or expired invite link''), d1))
    \<and> token_table_ok (invites d1)"
proof -
  obtain b where b: "find_unique (beneficiaries d) i = Some b" "bf_user b = None"
    and ins: "insert_token \<lparr>to_owner = i, to_hash = hashToken e (random_token e), to_expires = now e + beneficiary_invite_ttl_ms,
      to_spent = None\<rparr> (revoke_all e i (invites d)) = Inr (invites d1)" and same: "beneficiaries d1 = beneficiaries d"
    using assms(2) by (auto simp: inviteBeneficiary_def requireCustomer_def Let_def split: option.splits if_splits sum.splits)
  let ?t = "\<lparr>to_owner = i, to_hash = hashToken e (random_token e), to_expires = now e + beneficiary_invite_ttl_ms, to_spent = None\<rparr>"
  let ?old = "revoke_all e i (invites d)"
  have d1: "invites d1 = insert_row ?t ?old" using ins by (auto simp: insert_token_def split: if_splits)
  have "find_many (\<lambda>_ t. to_owner t = i \<and> to_spent t = None) ?old = []"
    by (auto simp: find_many_def revoke_all_def update_many_def filter_empty_conv split: if_splits)
  then have live: "find_many (\<lambda>_ t. to_owner t = i \<and> to_spent t = None) (invites d1) = [(t_next ?old, ?t)]"
    by (simp add: d1)
  have ok: "token_table_ok ?old" "token_table_ok (invites d1)"
    using tokens_move_revoke [of "invites d" e i] tokens_move_insert [OF ins] assms(1) by (simp_all add: tokens_move_def)
  have refused: "acceptBeneficiaryInvite e' cfg' tok email pw d1 = (Inl (Unauthorized STR ''Invalid or expired invite link''), d1)"
    if t: "find_token (hashToken e' tok) (invites d) = Some (k, t)" "to_owner t = i" for tok k t cfg' email pw e'
  proof -
    have row: "find_unique (invites d) k = Some t" "to_hash t = hashToken e' tok" using find_tokenD [OF assms(1) t(1)] by auto
    then obtain s where s: "find_unique ?old k = Some s" "to_hash s = hashToken e' tok" "to_spent s \<noteq> None"
      using t(2) by (auto simp: revoke_all_def find_unique_update_many)
    then have "find_unique (invites d1) k = Some s"
      using ok(1) by (auto simp: d1 token_table_ok_def dest: find_unique_in_rows rows_below_next)
    then have "find_token (hashToken e' tok) (invites d1) = Some (k, s)" using find_token_row [OF ok(2)] s(2) by fastforce
    with s(3) show ?thesis by (simp add: acceptBeneficiaryInvite_def token_usable_def)
  qed
  with live ok(2) show ?thesis by auto
qed

section \<open>Documents\<close>

definition documents_ok :: "db \<Rightarrow> bool" where
  "documents_ok d \<longleftrightarrow> wf_table (documents d) \<and> (\<forall>i x. find_unique (documents d) i = Some x \<longrightarrow>
     prefix (documents_folder (doc_case x) @ ''/'') (doc_storage_key x)
     \<and> (doc_visibility x = DV_ASSIGNEE \<longleftrightarrow> doc_restricted x \<noteq> None)
     \<and> (\<forall>a. doc_restricted x = Some a \<longrightarrow> (\<exists>r. find_unique (assignments d) a = Some r \<and> as_case r = doc_case x)))"

text \<open>C32. A field agent or a provider sees of a case's documents exactly those for everyone and those restricted to an
  assignment of its own, never those for staff; everyone else sees all of them, newest first. And a document
  kept for an assignee always names an assignment of its case.\<close>

theorem documents_scoped:
  assumes "documents_ok d"
  shows "(\<forall>i x. (i, x) \<in> set (listDocumentsForCase ac k d) \<longleftrightarrow> find_unique (documents d) i = Some x \<and> doc_case x = k
      \<and> (act_role ac \<in> {R_FIELD_AGENT, R_PROVIDER} \<longrightarrow> doc_visibility x = DV_ALL
          \<or> doc_visibility x = DV_ASSIGNEE \<and> (\<exists>a. doc_restricted x = Some a \<and> a \<in> own_assignments (act_id ac) k d)))
    \<and> documents_ok (snd (addDocumentToCase e ac k dto d)) \<and> documents_ok (snd (deleteCaseDocument ac' k' j d))"
proof -
  have wf: "wf_table (documents d)" using assms by (simp add: documents_ok_def)
  have row: "find_unique (documents d) i = Some x \<longleftrightarrow> (i, x) \<in> set (t_rows (documents d))" for i x
    using wf by (rule find_unique_in_rows)
  have seen: "(i, x) \<in> set (listDocumentsForCase ac k d) \<longleftrightarrow> find_unique (documents d) i = Some x \<and> doc_case x = k
      \<and> (act_role ac \<in> {R_FIELD_AGENT, R_PROVIDER} \<longrightarrow> doc_visibility x = DV_ALL
          \<or> doc_visibility x = DV_ASSIGNEE \<and> (\<exists>a. doc_restricted x = Some a \<and> a \<in> own_assignments (act_id ac) k d))" for i x
    by (cases "doc_visibility x")
      (auto simp: listDocumentsForCase_def field_roles_def filterDocumentsForFieldActor_def find_many_def row Let_def split: option.splits)
  have "documents_ok (snd (addDocumentToCase e ac k dto d))"
  proof (cases "document_error e k dto d")
    case (Some err)
    then show ?thesis using assms by (simp add: addDocumentToCase_def Let_def)
  next
    case None
    define v where "v = (case dd_visibility dto of Some v \<Rightarrow> v | None \<Rightarrow> DV_ALL)"
    define new where "new = \<lparr>doc_case = k, doc_label = dd_label dto, doc_storage_key = dd_storage_key dto,
       doc_uploader = Some (act_id ac), doc_visibility = v, doc_restricted = (if v = DV_ASSIGNEE then dd_restricted dto else None)\<rparr>"
    have docs: "documents (snd (addDocumentToCase e ac k dto d)) = insert_row new (documents d)"
      "assignments (snd (addDocumentToCase e ac k dto d)) = assignments d"
      using None by (simp_all add: addDocumentToCase_def Let_def new_def v_def)
    have fresh: "prefix (documents_folder (doc_case new) @ ''/'') (doc_storage_key new)
       \<and> (doc_visibility new = DV_ASSIGNEE \<longleftrightarrow> doc_restricted new \<noteq> None)
       \<and> (\<forall>a. doc_restricted new = Some a \<longrightarrow> (\<exists>r. find_unique (assignments d) a = Some r \<and> as_case r = doc_case new))"
      using None by (cases "dd_visibility dto")
        (auto simp: document_error_def new_def v_def split: if_splits option.splits bind_splits)
    show ?thesis
      unfolding documents_ok_def docs
    proof (intro conjI allI impI)
      show "wf_table (insert_row new (documents d))" using wf by simp
      fix i x assume "find_unique (insert_row new (documents d)) i = Some x"
      then have "x = new \<or> find_unique (documents d) i = Some x" using wf by (auto split: if_splits)
      with fresh assms show "prefix (documents_folder (doc_case x) @ ''/'') (doc_storage_key x)"
        "doc_visibility x = DV_ASSIGNEE \<longleftrightarrow> doc_restricted x \<noteq> None"
        "\<And>a. doc_restricted x = Some a \<Longrightarrow> \<exists>r. find_unique (assignments d) a = Some r \<and> as_case r = doc_case x"
        unfolding documents_ok_def by blast+
    qed
  qed
  moreover have "documents_ok (snd (deleteCaseDocument ac' k' j d))"
    using assms by (auto simp: deleteCaseDocument_def documents_ok_def split: option.split)
  ultimately show ?thesis using seen by blast
qed

section \<open>Providers\<close>

text \<open>A provider that is new after a step is waiting for its review.\<close>

lemma new_provider_pending:
  assumes "onboarding_step d d'" "onboarding_ok d" "status_in i d = None" "status_in i d' = Some a"
  shows "a = PV_PENDING"
  using assms(1)
proof cases
  case (Create_Provider e ac dto)
  obtain r d1 where u: "create_user (new_user (pd_email dto) (pd_phone dto) (argon_hash e (pd_password dto)) R_PROVIDER) d = (r, d1)"
    by fastforce
  show ?thesis
    using assms(2-4) create_user_frame [OF u]
    by (cases r) (auto simp: Create_Provider createProvider_def u Let_def onboarding_ok_def status_in_def tbl.lookup_insert split: if_splits)
next
  case (Create_Agent e ac dto)
  obtain r d1 where u: "create_user (new_user (gd_email dto) (gd_phone dto) (argon_hash e (gd_password dto)) R_FIELD_AGENT) d = (r, d1)"
    by fastforce
  show ?thesis
    using assms(3,4) create_user_frame [OF u] by (cases r) (auto simp: Create_Agent createAgent_def u Let_def status_in_def split: if_splits)
qed (use assms(3,4) in \<open>auto simp: updateStatus_def addOwnCredential_def verifyCredential_def setAgentActive_def status_in_def Let_def
  tbl.lookup_modify split: option.splits sum.splits if_splits\<close>)

lemma onboarding_run_ok: "onboarding_step\<^sup>*\<^sup>* d d' \<Longrightarrow> onboarding_ok d \<Longrightarrow> onboarding_ok d' \<and> credential_kept d d'"
  by (induction rule: rtranclp_induct) (auto dest: onboarding_step_moves intro: credential_kept_trans)

lemma appears_pending:
  assumes "onboarding_step\<^sup>*\<^sup>* d d'" "onboarding_ok d" "status_in i d = None" "status_in i d' = Some a"
  shows "\<exists>d0. onboarding_step\<^sup>*\<^sup>* d d0 \<and> onboarding_step\<^sup>*\<^sup>* d0 d' \<and> status_in i d0 = Some PV_PENDING"
  using assms(1,4)
proof (induction arbitrary: a)
  case (step x y)
  have x: "onboarding_ok x" using onboarding_run_ok [OF step.hyps(1) assms(2)] by simp
  show ?case
  proof (cases "status_in i x")
    case None
    then have "status_in i y = Some PV_PENDING" using new_provider_pending [OF step.hyps(2) x] step.prems by blast
    moreover have "onboarding_step\<^sup>*\<^sup>* d y" using step.hyps by simp
    ultimately show ?thesis by blast
  next
    case (Some b)
    from step.IH [OF this] step.hyps(2) show ?thesis by (meson rtranclp.rtrancl_into_rtrancl)
  qed
qed (use assms(3) in simp)

text \<open>C33. No provider skips verification. However the onboarding operations are mixed, a provider that is registered on the
  way starts as PENDING, and a provider that is new or was still being vetted at the start is, at any later time, still
  being vetted or has been verified in between; no provider disappears; and what a credential says never changes, nor
  does the time it was verified.\<close>

theorem provider_verified_first:
  assumes "onboarding_ok d" "onboarding_step\<^sup>*\<^sup>* d d'"
  shows "credential_kept d d' \<and> (\<forall>i p. find_unique (providers d) i = Some p \<longrightarrow> find_unique (providers d') i \<noteq> None)
    \<and> (\<forall>i p'. find_unique (providers d') i = Some p' \<longrightarrow>
        (find_unique (providers d) i = None \<longrightarrow> (\<exists>d0 p0. onboarding_step\<^sup>*\<^sup>* d d0 \<and> onboarding_step\<^sup>*\<^sup>* d0 d'
           \<and> find_unique (providers d0) i = Some p0 \<and> pv_status p0 = PV_PENDING))
      \<and> ((\<forall>p. find_unique (providers d) i = Some p \<longrightarrow> pv_status p \<in> vetting) \<longrightarrow> pv_status p' \<in> vetting \<or>
          (\<exists>d1 p1. onboarding_step\<^sup>*\<^sup>* d d1 \<and> onboarding_step\<^sup>*\<^sup>* d1 d' \<and> find_unique (providers d1) i = Some p1
             \<and> pv_status p1 = PV_VERIFIED)))"
proof (intro conjI allI impI)
  show "credential_kept d d'" using onboarding_run_ok [OF assms(2,1)] by simp
next
  fix i p assume "find_unique (providers d) i = Some p"
  with assms(2) show "find_unique (providers d') i \<noteq> None"
  proof (induction rule: rtranclp_induct)
    case (step x y)
    have "onboarding_ok x" using onboarding_run_ok [OF step.hyps(1) assms(1)] by simp
    with onboarding_step_moves [OF step.hyps(2)] step show ?case by (fastforce simp: provider_moves_def)
  qed simp
next
  fix i p' assume p': "find_unique (providers d') i = Some p'" and new: "find_unique (providers d) i = None"
  have "status_in i d' = Some (pv_status p')" "status_in i d = None" using p' new by (simp_all add: status_in_def)
  from appears_pending [OF assms(2,1) this(2,1)] show "\<exists>d0 p0. onboarding_step\<^sup>*\<^sup>* d d0 \<and> onboarding_step\<^sup>*\<^sup>* d0 d'
      \<and> find_unique (providers d0) i = Some p0 \<and> pv_status p0 = PV_PENDING" by (auto simp: status_in_def)
next
  fix i p' assume p': "find_unique (providers d') i = Some p'" and start: "\<forall>p. find_unique (providers d) i = Some p \<longrightarrow> pv_status p \<in> vetting"
  have now: "status_in i d' = Some (pv_status p')" using p' by (simp add: status_in_def)
  obtain d0 a where d0: "onboarding_step\<^sup>*\<^sup>* d d0" "onboarding_step\<^sup>*\<^sup>* d0 d'" "status_in i d0 = Some a" "a \<in> vetting"
  proof (cases "find_unique (providers d) i")
    case None
    then have "status_in i d = None" by (simp add: status_in_def)
    from appears_pending [OF assms(2,1) this now] show thesis using that by (auto simp: vetting_def)
  next
    case (Some p)
    with start that [of d "pv_status p"] assms(2) show thesis by (simp add: status_in_def)
  qed
  have "onboarding_ok d0" using onboarding_run_ok [OF d0(1) assms(1)] by simp
  from onboarding_verified_first [OF d0(2) this d0(3,4)] now
  have "pv_status p' \<in> vetting \<or> (\<exists>d1. onboarding_step\<^sup>*\<^sup>* d0 d1 \<and> onboarding_step\<^sup>*\<^sup>* d1 d' \<and> status_in i d1 = Some PV_VERIFIED)" by auto
  then show "pv_status p' \<in> vetting \<or> (\<exists>d1 p1. onboarding_step\<^sup>*\<^sup>* d d1 \<and> onboarding_step\<^sup>*\<^sup>* d1 d' \<and> find_unique (providers d1) i = Some p1
      \<and> pv_status p1 = PV_VERIFIED)"
    using d0(1) by (auto simp: status_in_def) (meson rtranclp_trans)
qed

section \<open>Reports\<close>

text \<open>The reports count every row once. In a customer's portfolio the completed cases and the active ones by status
  add up to all the cases, and the amounts spent by currency to all that was paid; in the summary of the business
  the cases by status add up to all the cases, and the contributions by currency to the revenue less the direct costs.\<close>

theorem reports_add_up:
  "po_completed (portfolio_of e cid cu d) + sum_list (map snd (po_active (portfolio_of e cid cu d))) = po_total (portfolio_of e cid cu d)
    \<and> sum_list (map snd (po_spend (portfolio_of e cid cu d))) = sum_list (map (\<lambda>(k, _). paid_amount k d) (customer_cases cid d))
    \<and> sum_list (map snd (bs_by_status (getSummary e d))) = bs_cases (getSummary e d)
    \<and> sum_list (map snd (bs_contribution (getSummary e d))) =
        sum_list (map p_amount (filter (\<lambda>p. p_status p = PS_PAID) (table_rows (payments d))))
        - sum_list (map dc_amount (table_rows (direct_costs d)))"
proof -
  let ?cs = "customer_cases cid d" and ?terminal = "\<lambda>(k, c). c_status c \<in> set terminal_case_statuses"
  have ones: "sum_list (map (\<lambda>_. Suc 0) xs) = length xs" for xs :: "'a list" by (induction xs) simp_all
  have "po_completed (portfolio_of e cid cu d) + sum_list (map snd (po_active (portfolio_of e cid cu d)))
      = length (filter ?terminal ?cs) + length (filter (\<lambda>x. \<not> ?terminal x) ?cs)"
    by (simp add: portfolio_of_def Let_def sum_tally ones case_prod_unfold)
  also have "\<dots> = po_total (portfolio_of e cid cu d)"
    using sum_length_filter_compl [of ?terminal ?cs] by (simp add: portfolio_of_def Let_def)
  finally have cases: "po_completed (portfolio_of e cid cu d) + sum_list (map snd (po_active (portfolio_of e cid cu d)))
      = po_total (portfolio_of e cid cu d)" .
  have spend: "sum_list (map snd (po_spend (portfolio_of e cid cu d))) = sum_list (map (\<lambda>(k, _). paid_amount k d) ?cs)"
    by (simp add: portfolio_of_def Let_def sum_tally sum_filter_concat paid_amount_def comp_def case_prod_unfold)
  let ?revenue = "tally p_currency p_amount (filter (\<lambda>p. p_status p = PS_PAID) (table_rows (payments d)))"
  let ?costs = "tally dc_currency dc_amount (table_rows (direct_costs d))"
  let ?ks = "currencies ?revenue ?costs"
  have ks: "distinct ?ks" "fst ` set ?revenue \<subseteq> set ?ks" "fst ` set ?costs \<subseteq> set ?ks"
    unfolding currencies_def distinct_append
    by (intro conjI distinct_filter distinct_tally, auto)
  have "sum_list (map snd (bs_contribution (getSummary e d))) = sum_list (map (\<lambda>k. get_or_0 ?revenue k - get_or_0 ?costs k) ?ks)"
    by (simp add: getSummary_def Let_def comp_def)
  also have "\<dots> = sum_list (map (get_or_0 ?revenue) ?ks) - sum_list (map (get_or_0 ?costs) ?ks)"
    by (rule sum_list_subtractf)
  also have "\<dots> = sum_list (map snd ?revenue) - sum_list (map snd ?costs)"
    unfolding sum_get_or_0 [OF distinct_tally ks(1,2)] sum_get_or_0 [OF distinct_tally ks(1,3)] ..
  finally have contribution: "sum_list (map snd (bs_contribution (getSummary e d)))
      = sum_list (map p_amount (filter (\<lambda>p. p_status p = PS_PAID) (table_rows (payments d))))
        - sum_list (map dc_amount (table_rows (direct_costs d)))"
    unfolding sum_tally .
  have "sum_list (map snd (bs_by_status (getSummary e d))) = bs_cases (getSummary e d)"
    by (simp add: getSummary_def Let_def sum_tally ones)
  with cases spend contribution show ?thesis by blast
qed

section \<open>Witnesses\<close>

definition home :: place where
  "home = \<lparr>pl_customer = 1, pl_latitude = None, pl_longitude = None, pl_details = [(STR ''address'', ''1 Marina'')]\<rparr>"

definition visits :: schedule where
  "visits = \<lparr>rs_origin = 1, rs_customer = 1, rs_service = ST_PROPERTY_INSPECTION, rs_description = ''Visit'',
     rs_location = ''Lekki, Lagos'', rs_beneficiary = None, rs_property = Some 1, rs_asset = None, rs_cadence = 7,
     rs_next_run = 900, rs_active = True, rs_paused_at = None\<rparr>"

definition home_db :: db where
  "home_db = sample_people\<lparr>properties := rows [home], schedules := rows [visits]\<rparr>"

lemmas home_defs = home_db_def home_def visits_def sample_defs insert_rows_def insert_row_def find_unique_def empty_table_def

theorem deleted_property_stops_sweep_witness:
  "find_unique (schedules (sweeps [sample_env, sample_env] (snd (deleteProperty 1 1 home_db)))) 1 = Some visits
     \<and> isl (fst (processDueSchedules sample_env (sweeps [sample_env, sample_env] (snd (deleteProperty 1 1 home_db)))))"
proof -
  have "fst (deleteProperty 1 1 home_db) = Inr ()" by code_simp
  then have del: "deleteProperty 1 1 home_db = (Inr (), snd (deleteProperty 1 1 home_db))" by (simp add: prod_eq_iff)
  have "wf_table (schedules home_db)" "find_unique (schedules home_db) 1 = Some visits" "rs_property visits = Some 1"
    "rs_active visits" "\<forall>e \<in> set [sample_env, sample_env]. rs_next_run visits \<le> now e"
    by (simp_all add: home_defs wf_table_def)
  from deleted_property_stops_sweep [OF this(1) del this(2-5)] this(5) show ?thesis by simp
qed

definition invited_db :: db where
  "invited_db = sample_people\<lparr>
     beneficiaries := rows [\<lparr>bf_customer = 1, bf_user = None, bf_name = ''Bola'', bf_relationship = None, bf_phone = None, bf_notes = None\<rparr>],
     invites := rows [\<lparr>to_owner = 1, to_hash = ''#old'', to_expires = 9000, to_spent = None\<rparr>]\<rparr>"

definition plain_config :: auth_config where
  "plain_config = \<lparr>refresh_ttl_env = None, access_secret_env = None, pending_secret_env = None, production = False,
     jwt_sign = (\<lambda>k c. k), jwt_verify = (\<lambda>k t. None)\<rparr>"

theorem one_live_invite_witness:
  "\<exists>r d1. inviteBeneficiary sample_env plain_config None 1 1 invited_db = (Inr r, d1)
     \<and> acceptBeneficiaryInvite sample_env plain_config ''old'' ''bola@mail'' ''secret'' d1
         = (Inl (Unauthorized STR ''Invalid or expired invite link''), d1)"
proof -
  let ?r = "inviteBeneficiary sample_env plain_config None 1 1 invited_db"
  have "(case fst ?r of Inr _ \<Rightarrow> True | Inl _ \<Rightarrow> False)" by code_simp
  then obtain r where run: "?r = (Inr r, snd ?r)" by (cases "fst ?r") (auto simp: prod_eq_iff)
  have rows: "invites invited_db = rows [\<lparr>to_owner = 1, to_hash = ''#old'', to_expires = 9000, to_spent = None\<rparr>]"
    by (simp add: invited_db_def)
  have ok: "token_table_ok (invites invited_db)"
    by (simp add: rows rows_def token_table_ok_def wf_table_def insert_rows_def insert_row_def empty_table_def find_unique_def)
  have tok: "find_token (hashToken sample_env ''old'') (invites invited_db)
      = Some (1, \<lparr>to_owner = 1, to_hash = ''#old'', to_expires = 9000, to_spent = None\<rparr>)"
    by (simp add: rows rows_def find_token_def find_first_def hashToken_def sample_env_def insert_rows_def insert_row_def empty_table_def)
  from one_live_invite [OF ok run, THEN conjunct2, THEN conjunct1, rule_format, OF tok] run show ?thesis by (intro exI conjI) (assumption | simp)+
qed

definition paper :: document where
  "paper = \<lparr>doc_case = 1, doc_label = ''deed'', doc_storage_key = ''documents/1/deed'', doc_uploader = None,
     doc_visibility = DV_STAFF_ONLY, doc_restricted = None\<rparr>"

definition paper_db :: db where
  "paper_db = sample_people\<lparr>documents := rows [paper]\<rparr>"

theorem documents_scoped_witness:
  "(1, paper) \<in> set (listDocumentsForCase manager 1 paper_db) \<and> (1, paper) \<notin> set (listDocumentsForCase (manager\<lparr>act_role := R_FIELD_AGENT\<rparr>) 1 paper_db)"
proof -
  have row: "find_unique (documents paper_db) i = (if i = 1 then Some paper else None)" for i
    by (simp add: paper_db_def rows_def insert_rows_def insert_row_def empty_table_def find_unique_def)
  have "wf_table (documents paper_db)"
    by (simp add: paper_db_def rows_def insert_rows_def insert_row_def empty_table_def wf_table_def)
  moreover have "documents_folder (doc_case paper) = ''documents/1''" by code_simp
  ultimately have ok: "documents_ok paper_db"
    unfolding documents_ok_def row by (auto simp: paper_def)
  show ?thesis
    using documents_scoped [OF ok, of manager 1] documents_scoped [OF ok, of "manager\<lparr>act_role := R_FIELD_AGENT\<rparr>" 1]
    by (simp add: row paper_def manager_def)
qed

definition surveyor :: provider where
  "surveyor = \<lparr>pv_user = 2, pv_name = ''Surveys Ltd'', pv_category = ''surveyor'', pv_city = None, pv_state = None,
     pv_status = PV_UNDER_REVIEW, pv_score = None\<rparr>"

theorem provider_verified_first_witness:
  "let d = sample_people\<lparr>providers := rows [surveyor]\<rparr>; d1 = snd (updateStatus manager 1 PV_VERIFIED d);
       d2 = snd (updateStatus manager 1 PV_ACTIVE d1)
   in map_option pv_status (find_unique (providers d2) 1) = Some PV_ACTIVE
    \<and> (\<exists>d1 p1. onboarding_step\<^sup>*\<^sup>* d d1 \<and> onboarding_step\<^sup>*\<^sup>* d1 d2 \<and> find_unique (providers d1) 1 = Some p1 \<and> pv_status p1 = PV_VERIFIED)"
proof -
  let ?d = "sample_people\<lparr>providers := rows [surveyor]\<rparr>"
  let ?d1 = "snd (updateStatus manager 1 PV_VERIFIED ?d)"
  let ?d2 = "snd (updateStatus manager 1 PV_ACTIVE ?d1)"
  have p: "find_unique (providers ?d) 1 = Some surveyor" "onboarding_ok ?d" "pv_status surveyor \<in> vetting"
    by (simp_all add: onboarding_ok_def surveyor_def vetting_def sample_defs insert_rows_def insert_row_def empty_table_def
        find_unique_def wf_table_def)
  have steps: "onboarding_step\<^sup>*\<^sup>* ?d ?d2"
    by (meson onboarding_step.Update_Status r_into_rtranclp rtranclp.rtrancl_into_rtrancl)
  have active: "map_option pv_status (find_unique (providers ?d2) 1) = Some PV_ACTIVE" by code_simp
  then have "pv_status p' \<notin> vetting" if "find_unique (providers ?d2) 1 = Some p'" for p'
    using that by (auto simp: vetting_def)
  moreover have "\<forall>q. find_unique (providers ?d) 1 = Some q \<longrightarrow> pv_status q \<in> vetting" using p(1,3) by simp
  moreover obtain p' where "find_unique (providers ?d2) 1 = Some p'" using active by blast
  moreover note provider_verified_first [OF p(2) steps]
  ultimately show ?thesis using active unfolding Let_def by blast
qed

end
