(* ===== verification/Concierge_Properties.thy ===== *)
theory Concierge_Properties
  imports Sample Concierge
begin

text \<open>The properties of the AI concierge and of its WhatsApp channel.\<close>

section \<open>A turn of a conversation\<close>

text \<open>C35. What one turn of the concierge may do. Only a customer converses; a turn records one interaction. Until the
  conversation is complete it touches neither requests nor cases. The turn that completes it files exactly one
  request, for the customer itself, with a lead score between 13 and 100 and the tag of that score, and whatever
  the model says a case is opened only where the automation rules say AUTO for that request.\<close>

theorem concierge_turn_exact:
  assumes "converse e model usr dto d = (Inr r, d')" "wf_table (requests d)"
  shows "act_role usr = R_CUSTOMER \<and> (\<exists>t. interactions d' = insert_row (new_interaction dto t) (interactions d)
    \<and> (\<not> tn_complete t \<longrightarrow> ca_request r = None \<and> requests d' = requests d \<and> cases d' = cases d)
    \<and> (tn_complete t \<longrightarrow> (\<exists>cid cu rq s. find_customer (act_id usr) d = Some (cid, cu) \<and> ca_request r = Some (t_next (requests d))
        \<and> map_option (\<lambda>r. r\<lparr>rq_converted := None\<rparr>) (find_unique (requests d') (t_next (requests d))) = Some rq
        \<and> (\<forall>k. k \<noteq> t_next (requests d) \<longrightarrow> map_option (\<lambda>r. r\<lparr>rq_converted := None\<rparr>) (find_unique (requests d') k)
             = map_option (\<lambda>r. r\<lparr>rq_converted := None\<rparr>) (find_unique (requests d) k))
        \<and> rq_customer rq = cid \<and> rq_lead_score rq = Some s \<and> 13 \<le> s \<and> s \<le> 100 \<and> rq_lead_tag rq = Some (lead_tag_of s)
        \<and> (cases d' \<noteq> cases d \<longrightarrow> ev_outcome (evaluate rq (find_capability rq d)) = AO_AUTO))))"
proof (rule converse_Inr [OF assms(1)])
  fix t d1 let ?i = "t_next (interactions d)"
  assume role: "act_role usr = R_CUSTOMER"
    and d1: "interactions d1 = insert_row (new_interaction dto t) (interactions d)" "requests d1 = requests d" "cases d1 = cases d"
      "\<And>u. find_customer u d1 = find_customer u d" "\<And>rq. find_capability rq d1 = find_capability rq d"
    and step: "if tn_complete t then \<exists>rid. completeIntake e (act_id usr) t ?i d1 = (Inr rid, d') \<and> ca_request r = Some rid
      else ca_request r = None \<and> d' = d1"
  show ?thesis
  proof (cases "tn_complete t")
    case False
    with step d1 role show ?thesis by auto
  next
    case True
    with step obtain rid where intake: "completeIntake e (act_id usr) t ?i d1 = (Inr rid, d')" and r: "ca_request r = Some rid"
      by auto
    have "wf_table (requests d1)" using assms(2) d1 by simp
    with intake show ?thesis
    proof (rule completeIntake_Inr)
      fix cid cu
      assume *: "find_customer (act_id usr) d1 = Some (cid, cu)" "rid = t_next (requests d1)" "interactions d' = interactions d1"
        "map_option (\<lambda>r. r\<lparr>rq_converted := None\<rparr>) (find_unique (requests d') rid) = Some (new_lead cid t ?i)"
        "ev_outcome (evaluate (new_lead cid t ?i) (find_capability (new_lead cid t ?i) d1)) = AO_AUTO \<or> cases d' = cases d1"
        "\<forall>k. k \<noteq> rid \<longrightarrow> map_option (\<lambda>r. r\<lparr>rq_converted := None\<rparr>) (find_unique (requests d') k)
          = map_option (\<lambda>r. r\<lparr>rq_converted := None\<rparr>) (find_unique (requests d1) k)"
      obtain s where s: "rq_lead_score (new_lead cid t ?i) = Some s" "13 \<le> s" "s \<le> 100"
        "rq_lead_tag (new_lead cid t ?i) = Some (lead_tag_of s)" "rq_customer (new_lead cid t ?i) = cid"
        using score_range by (auto simp: new_lead_def Let_def)
      show ?thesis
        by (intro conjI exI [of _ t] impI exI [of _ cid] exI [of _ cu] exI [of _ "new_lead cid t ?i"] exI [of _ s])
          (use * True r role d1 s in simp_all)
    qed
  qed
qed

section \<open>Approval over WhatsApp\<close>

text \<open>C36. An approval button acts on the case it was made for, and only for its owner. The id of a button reads back as its
  action and its case. Tapped from the phone of anyone but the customer of the case it changes nothing at all; tapped
  by the customer it changes the status of that case only, and only while it waits for the customer's review: to
  completed when the report is approved, to additional work otherwise.\<close>

theorem approval_button_owner:
  assumes "find_first (\<lambda>_ t. wt_phone t = normalizePhone sender) (threads d) = Some (i, t)" "wf_table (cases d)"
    and "action_by_code code = Some a" "find_unique (cases d) k = Some c" "find_unique (customers d) (c_customer c) = Some cu"
  shows "parseCaseApprovalButtonId (button_id code (decimal k)) = Some (a, decimal k)
    \<and> (cu_user cu \<noteq> wt_user t \<longrightarrow>
         handleInboundMessage e model sender body (Some (button_id code (decimal k))) d = (Inr (Confirmed None), d))
    \<and> (cu_user cu = wt_user t \<longrightarrow> (\<forall>j. map_option c_status (find_unique (cases (snd (handleInboundMessage e model sender body
           (Some (button_id code (decimal k))) d))) j)
         = (if j \<noteq> k \<or> c_status c \<noteq> CS_CUSTOMER_REVIEW then map_option c_status (find_unique (cases d) j)
            else if a = AP_APPROVED then Some CS_COMPLETED else Some CS_ADDITIONAL_WORK)))"
proof -
  have parse: "parseCaseApprovalButtonId (button_id code (decimal k)) = Some (a, decimal k)"
    by (rule parse_button [OF assms(3)])
  have id: "button_id code (decimal k) \<noteq> []" by (simp add: button_id_def button_prefix_def)
  have row: "case_of_text (decimal k) d = Some (k, c)" using case_of_text_decimal [OF assms(2), of k] assms(4) by simp
  have run: "handleInboundMessage e model sender body (Some (button_id code (decimal k))) d
      = and_then (handleCaseApprovalReply (wt_user t) a (decimal k) d) (\<lambda>r. return (Confirmed r))"
    by (simp add: handleInboundMessage_def resolveThread_def assms(1) parse id)
  have a: "a = AP_APPROVED \<or> a = AP_REQUEST_ADDITIONAL_WORK"
    using assms(3) by (auto simp: action_by_code_def split: if_splits)
  let ?ac = "\<lparr>act_id = wt_user t, act_role = R_CUSTOMER\<rparr>"
  have moves: "map_option c_status (find_unique (cases (snd (recordApproval ?ac k a None d))) j)
      = (if j \<noteq> k \<or> c_status c \<noteq> CS_CUSTOMER_REVIEW then map_option c_status (find_unique (cases d) j)
         else if a = AP_APPROVED then Some CS_COMPLETED else Some CS_ADDITIONAL_WORK)" for j
    using a assms(4)
    by (auto simp: recordApproval_def Let_def transition_only applyTransition_edge find_unique_update_many update_row_def
        option.map_ident)
  have all: "\<exists>x. recordApproval ?ac k a None d = (Inr x, snd (recordApproval ?ac k a None d))"
    using a assms(4) by (auto simp: recordApproval_def Let_def transition_only applyTransition_edge find_unique_update_many update_row_def)
  then obtain x d2 where rec: "recordApproval ?ac k a None d = (Inr x, d2)" by blast
  have "cases (snd (handleInboundMessage e model sender body (Some (button_id code (decimal k))) d)) = cases d2"
    if "cu_user cu = wt_user t"
    using that assms(5) by (simp add: run handleCaseApprovalReply_def row rec)
  with moves parse show ?thesis
    using assms(5) by (simp add: rec run handleCaseApprovalReply_def row)
qed

section \<open>Registered customers\<close>

text \<open>C37. A customer who registered on the web cannot use WhatsApp. The channel knows phones by their threads only; a
  message from the phone of an account that was registered elsewhere makes it create a second account for the same
  phone, which the database refuses: every message from that phone, whatever it says, ends in an internal error and
  leaves everything as it was, so the next one fares no better.\<close>

theorem registered_phone_locked_out:
  assumes "register e cfg dto d = (Inr r, d1)" "rg_phone dto = normalizePhone sender"
    and "find_first (\<lambda>_ t. wt_phone t = rg_phone dto) (threads d) = None"
  shows "\<forall>e' model body button. \<exists>msg. handleInboundMessage e' model sender body button d1 = (Inl (Internal msg), d1)"
proof -
  have "find_phone (rg_phone dto) d1 \<noteq> None \<and> threads d1 = threads d"
  proof -
    have free: "find_email (rg_email dto) d = None" "find_phone (rg_phone dto) d = None"
      using assms(1) by (cases "find_email (rg_email dto) d"; cases "find_phone (rg_phone dto) d"; simp add: register_def)+
    with assms(1) show ?thesis
      by (auto simp: register_def Let_def and_then_Inr_iff generateUniqueReferralCode_def create_user_def issueTokens_def
          find_phone_def new_user_def find_first_insert_row split: option.splits if_splits sum.splits)
  qed
  then have taken: "find_phone (normalizePhone sender) d1 \<noteq> None" "find_first (\<lambda>_ t. wt_phone t = normalizePhone sender) (threads d1) = None"
    using assms(2,3) by simp_all
  have locked: "\<exists>msg. resolveThread e' (normalizePhone sender) d1 = (Inl (Internal msg), d1)" for e'
    using taken by (auto simp: resolveThread_def generateUniqueReferralCode_def create_user_def whatsapp_user_def split: option.split)
  show ?thesis
  proof (intro allI)
    fix e' model body button
    obtain msg where "resolveThread e' (normalizePhone sender) d1 = (Inl (Internal msg), d1)" using locked by blast
    then show "\<exists>msg. handleInboundMessage e' model sender body button d1 = (Inl (Internal msg), d1)"
      by (intro exI [of _ msg]) (simp only: handleInboundMessage_def and_then_simps)
  qed
qed

section \<open>Witnesses\<close>

definition quiet_config :: auth_config where
  "quiet_config = \<lparr>refresh_ttl_env = None, access_secret_env = None, pending_secret_env = None, production = True,
     jwt_sign = (\<lambda>s c. s), jwt_verify = (\<lambda>s tok. None)\<rparr>"

definition lead_turn :: concierge_turn where
  "lead_turn = \<lparr>tn_reply = ''Noted'', tn_collected = \<lparr>co_service = Some ''PROPERTY_INSPECTION'', co_location = Some ''Lekki, Lagos'',
     co_scope = Some ''Inspect the flat'', co_timeline = Some ''immediate''\<rparr>, tn_escalate = ''none'', tn_complete = True,
     tn_engagement = 12\<rparr>"

definition lead_model :: concierge_model where
  "lead_model = (\<lambda>_ _. Inr (Some lead_turn))"

definition hello :: message_dto where
  "hello = \<lparr>md_message = ''Hello'', md_history = None\<rparr>"

theorem concierge_turn_exact_witness:
  "let r = converse sample_env (Some lead_model) client hello sample_people in
     map_option rq_lead_score (find_unique (requests (snd r)) 1) = Some (Some 58) \<and> t_rows (cases (snd r)) = []
     \<and> (\<exists>x. fst r = Inr x \<and> ca_request x = Some 1)"
proof -
  let ?r = "converse sample_env (Some lead_model) client hello sample_people"
  have score: "map_option rq_lead_score (find_unique (requests (snd ?r)) 1) = Some (Some 58)" by code_simp
  have none: "t_rows (cases (snd ?r)) = []" by code_simp
  have "isl (fst ?r) = False" by code_simp
  then obtain x where x: "?r = (Inr x, snd ?r)" by (metis prod.collapse sum.exhaust_sel isl_def sum.collapse(2))
  have wf: "wf_table (requests sample_people)" by (simp add: sample_defs empty_table_def wf_table_def)
  have "ca_request x \<noteq> None"
  proof
    assume "ca_request x = None"
    with concierge_turn_exact [OF x wf]
    have "requests (snd ?r) = requests sample_people" by fastforce
    with score show False by (simp add: sample_defs empty_table_def find_unique_def)
  qed
  with concierge_turn_exact [OF x wf] have "ca_request x = Some (t_next (requests sample_people))"
    by fastforce
  moreover have "t_next (requests sample_people) = 1" by (simp add: sample_people_def empty_db_def empty_table_def)
  moreover have "fst ?r = Inr x" using x by (metis fst_conv)
  ultimately show ?thesis unfolding Let_def using score none by simp
qed

definition chat_db :: "nat \<Rightarrow> db" where
  "chat_db u = (sample_db CS_CUSTOMER_REVIEW)\<lparr>threads := rows [\<lparr>wt_phone = ''+234'', wt_user = u, wt_history = []\<rparr>]\<rparr>"

theorem approval_button_owner_witness:
  "handleInboundMessage sample_env None ''whatsapp:+234'' ''ok'' (Some (button_id ''approve'' (decimal 1))) (chat_db 2)
     = (Inr (Confirmed None), chat_db 2)
   \<and> map_option c_status (find_unique (cases (snd (handleInboundMessage sample_env None ''whatsapp:+234'' ''ok''
       (Some (button_id ''approve'' (decimal 1))) (chat_db 1)))) 1) = Some CS_COMPLETED"
proof -
  have phone: "normalizePhone ''whatsapp:+234'' = ''+234''" by code_simp
  have th: "find_first (\<lambda>_ t. wt_phone t = normalizePhone ''whatsapp:+234'') (threads (chat_db u))
      = Some (1, \<lparr>wt_phone = ''+234'', wt_user = u, wt_history = []\<rparr>)" for u
    unfolding phone by (simp add: chat_db_def rows_def insert_rows_def insert_row_def empty_table_def find_first_def)
  have d: "wf_table (cases (chat_db u))" "find_unique (cases (chat_db u)) 1 = Some (sample_case CS_CUSTOMER_REVIEW)"
    "find_unique (customers (chat_db u)) (c_customer (sample_case CS_CUSTOMER_REVIEW)) = Some sample_customer" for u
    by (simp_all add: chat_db_def sample_defs insert_rows_def insert_row_def empty_table_def find_unique_def wf_table_def)
  have code: "action_by_code ''approve'' = Some AP_APPROVED" by (simp add: action_by_code_def)
  note owner = approval_button_owner [OF th d(1) code d(2,3), where e = sample_env and model = None and body = "''ok''"]
  show ?thesis
    using owner [of 2] owner [of 1] by (simp add: sample_customer_def) (simp add: sample_case_def new_case_def)
qed

definition signup :: register_dto where
  "signup = \<lparr>rg_name = ''Bola'', rg_email = ''bola@mail'', rg_phone = ''+234801'', rg_password = ''secret'', rg_country = ''GB'',
     rg_currency = BC_GBP, rg_channel = None, rg_referral = None, rg_partner = None\<rparr>"

definition signup_env :: env where
  "signup_env = sample_env\<lparr>random_codes := [[1, 2, 3, 4, 5, 6]]\<rparr>"

theorem registered_phone_locked_out_witness:
  "\<exists>msg. handleInboundMessage sample_env (Some lead_model) ''+234801'' ''Hello'' None
     (snd (register signup_env quiet_config signup sample_people))
     = (Inl (Internal msg), snd (register signup_env quiet_config signup sample_people))"
proof -
  let ?r = "register signup_env quiet_config signup sample_people"
  have "\<not> isl (fst ?r)" by code_simp
  then obtain x where x: "?r = (Inr x, snd ?r)" by (metis prod.collapse sum.collapse(2))
  have phone: "rg_phone signup = normalizePhone ''+234801''" by code_simp
  have th: "find_first (\<lambda>_ t. wt_phone t = rg_phone signup) (threads sample_people) = None"
    by (simp add: sample_people_def empty_db_def empty_table_def find_first_def)
  from registered_phone_locked_out [OF x phone th] show ?thesis by blast
qed

end
