(* ===== verification/Case_Views.thy ===== *)
theory Case_Views
  imports Relay Access
begin

text \<open>
  What each role is shown of the cases: the list of cases, the file of one case with its narrower
  beneficiary view (\<open>listCasesForUser\<close> and \<open>getCaseDetail\<close> of \<open>src/backend/src/cases/cases.service.ts\<close>,
  \<open>beneficiary-case-view.ts\<close>), the PDF of its report
  (\<open>src/backend/src/case-report-pdf/case-report-pdf.service.ts\<close>) and the search of the audit log
  (\<open>AuditService.search\<close>).

  The views read the database only. What the model's rows do not carry is an argument: \<open>updatedAt\<close> of a
  case and \<open>createdAt\<close> of an audit event. Signing a view URL and drawing the PDF are functions.
  A creation date is shown as the position in the list.
\<close>

section \<open>The list of cases\<close>

definition on_case_as :: "nat \<Rightarrow> db \<Rightarrow> assignment \<Rightarrow> bool" where
  "on_case_as userId d a \<longleftrightarrow>
     (\<exists>g \<in> set_option (Option.bind (as_agent a) (find_unique (agents d))). ag_user g = userId)
   \<or> (\<exists>p \<in> set_option (Option.bind (as_provider a) (find_unique (providers d))). pv_user p = userId)"

definition queue_statuses :: "assignment_status list" where
  "queue_statuses = [AS_OFFERED, AS_ACCEPTED, AS_IN_PROGRESS]"

text \<open>One entry of the list, as each role gets it; the family of the service is attached to every shape.\<close>

datatype case_entry =
  Own_Entry nat service_case "service_family option"
| Named_Entry nat string service_type case_status string "service_family option"
| Job_Entry nat service_case "(nat \<times> assignment) list" "service_family option"
| Queue_Entry nat service_case "string \<times> nat" "(nat \<times> assignment \<times> string option \<times> string option) list"
    "string option option" "nat \<times> nat" "service_family option"

fun entry_case :: "case_entry \<Rightarrow> nat" where
  "entry_case (Own_Entry k _ _) = k"
| "entry_case (Named_Entry k _ _ _ _ _) = k"
| "entry_case (Job_Entry k _ _ _) = k"
| "entry_case (Queue_Entry k _ _ _ _ _ _) = k"

definition by_recency :: "(nat \<Rightarrow> int) \<Rightarrow> (nat \<times> 'r) list \<Rightarrow> (nat \<times> 'r) list" where
  "by_recency updated = sort_key (\<lambda>(k, _). - updated k)"

definition agent_name :: "assignment \<Rightarrow> db \<Rightarrow> string option" where
  "agent_name a d = map_option ag_name (Option.bind (as_agent a) (find_unique (agents d)))"

definition provider_name :: "assignment \<Rightarrow> db \<Rightarrow> string option" where
  "provider_name a d = map_option pv_name (Option.bind (as_provider a) (find_unique (providers d)))"

definition queue_entry :: "role \<Rightarrow> db \<Rightarrow> nat \<Rightarrow> service_case \<Rightarrow> customer \<Rightarrow> case_entry" where
  "queue_entry r d k c cu = (let cu' = redactCustomerName cu r in
     Queue_Entry k c (cu_name cu', cu_user cu')
       (map (\<lambda>(i, a). (i, a, agent_name a d, provider_name a d))
         (find_many (\<lambda>_ a. as_case a = k \<and> as_status a \<in> set queue_statuses) (assignments d)))
       (map_option u_email (Option.bind (c_owner c) (find_unique (users d))))
       (length (find_many (\<lambda>_ f. kf_case f = k) (risk_flags d)), length (find_many (\<lambda>_ i. in_case i = Some k) (incidents d)))
       (familyForServiceType (c_service_type c)))"

text \<open>A case without its customer makes the whole query fail.\<close>

fun queue_entries :: "role \<Rightarrow> db \<Rightarrow> (nat \<times> service_case) list \<Rightarrow> case_entry list option" where
  "queue_entries r d [] = Some []"
| "queue_entries r d ((k, c) # cs) = (case find_unique (customers d) (c_customer c) of
     None \<Rightarrow> None
   | Some cu \<Rightarrow> map_option (Cons (queue_entry r d k c cu)) (queue_entries r d cs))"

definition listCasesForUser :: "(nat \<Rightarrow> int) \<Rightarrow> actor \<Rightarrow> db \<Rightarrow> case_entry list result" where
  "listCasesForUser updated usr d =
     (if act_role usr = R_CUSTOMER
      then and_then (requireCustomerProfile (act_id usr) d) (\<lambda>(cid, _) d.
        return (map (\<lambda>(k, c). Own_Entry k c (familyForServiceType (c_service_type c)))
          (rev (find_many (\<lambda>_ c. c_customer c = cid) (cases d)))) d)
      else if act_role usr = R_BENEFICIARY
      then (case find_first (\<lambda>_ b. bf_user b = Some (act_id usr)) (beneficiaries d) of
          None \<Rightarrow> return [] d
        | Some (b, _) \<Rightarrow> return (map (\<lambda>(k, c). Named_Entry k (c_number c) (c_service_type c) (c_status c) (c_location c)
              (familyForServiceType (c_service_type c))) (rev (find_many (\<lambda>_ c. c_beneficiary c = Some b) (cases d)))) d)
      else if act_role usr = R_FIELD_AGENT \<or> act_role usr = R_PROVIDER
      then (let own = (\<lambda>k. find_many (\<lambda>_ a. as_case a = k \<and> on_case_as (act_id usr) d a) (assignments d)) in
        return (map (\<lambda>(k, c). Job_Entry k c (own k) (familyForServiceType (c_service_type c)))
          (by_recency updated (find_many (\<lambda>k _. own k \<noteq> []) (cases d)))) d)
      else if act_role usr \<in> set ops_roles
      then (case queue_entries (act_role usr) d (take 200 (by_recency updated (t_rows (cases d)))) of
          None \<Rightarrow> throw (Internal STR ''Inconsistent query result'') d
        | Some es \<Rightarrow> return es d)
      else return [] d)"

section \<open>The file of a case\<close>

record beneficiary_case =
  bv_id :: nat
  bv_number :: string
  bv_service :: service_type
  bv_status :: case_status
  bv_location :: string
  bv_description :: string
  bv_history :: "case_status list"
  bv_assignments :: "(assignment_role \<times> assignment_status \<times> int option \<times> string option) list"
  bv_evidence :: "(nat \<times> evidence_type \<times> string option \<times> string) list"
  bv_documents :: "(nat \<times> string \<times> string) list"
  bv_reports :: "(nat \<times> string \<times> string option) list"

definition toBeneficiaryCaseDetail :: "(string \<Rightarrow> string) \<Rightarrow> nat \<Rightarrow> service_case \<Rightarrow> db \<Rightarrow> beneficiary_case" where
  "toBeneficiaryCaseDetail view_url k c d = \<lparr>bv_id = k, bv_number = c_number c, bv_service = c_service_type c,
     bv_status = c_status c, bv_location = c_location c, bv_description = c_description c,
     bv_history = map (\<lambda>(_, h). h_to h) (find_many (\<lambda>_ h. h_case h = k) (history d)),
     bv_assignments = map (\<lambda>(_, a). (as_role a, as_status a, as_scheduled_for a,
         (case agent_name a d of Some s \<Rightarrow> Some s | None \<Rightarrow> provider_name a d)))
       (find_many (\<lambda>_ a. as_case a = k) (assignments d)),
     bv_evidence = map (\<lambda>(i, v). (i, ev_type v, ev_description v, view_url (ev_storage_key v)))
       (rev (find_many (\<lambda>_ v. ev_case v = k) (evidences d))),
     bv_documents = map (\<lambda>(i, x). (i, doc_label x, view_url (doc_storage_key x)))
       (rev (find_many (\<lambda>_ x. doc_case x = k \<and> doc_visibility x = DV_ALL) (documents d))),
     bv_reports = map (\<lambda>(i, r). (i, rp_summary r, rp_limitation r)) (rev (find_many (\<lambda>_ r. rp_case r = k) (reports d)))\<rparr>"

record case_detail =
  cd_case :: service_case
  cd_customer :: "string \<times> nat"
  cd_owner :: "(nat \<times> string option \<times> role) option"
  cd_tasks :: "(nat \<times> case_task) list"
  cd_history :: "(nat \<times> history_row) list"
  cd_risk_flags :: "(nat \<times> risk_flag) list"
  cd_incidents :: "(nat \<times> incident) list"
  cd_collaborators :: "(nat \<times> collaborator \<times> (string option \<times> role) option) list"
  cd_assignments :: "(nat \<times> assignment \<times> (nat \<times> string) option \<times> (nat \<times> string) option) list"
  cd_evidence :: "(nat \<times> evidence \<times> string option \<times> string) list"
  cd_documents :: "(nat \<times> document \<times> string) list"
  cd_reports :: "(nat \<times> report) list"
  cd_quotes :: "(nat \<times> quote) list"
  cd_invoices :: "(nat \<times> invoice \<times> (nat \<times> payment) list) list"
  cd_approvals :: "(nat \<times> approval) list"
  cd_rating :: "(nat \<times> rating) option"
  cd_schedule :: "(nat \<times> schedule) option"
  cd_automation :: "automation_outcome option"
  cd_scopes :: "(nat \<times> case_scope) list"
  cd_family :: "service_family option"

text \<open>The documents of a case, those a field actor may not see left out.\<close>

definition visible_documents :: "actor \<Rightarrow> nat \<Rightarrow> db \<Rightarrow> (nat \<times> document) list" where
  "visible_documents ac k d = (let docs = rev (find_many (\<lambda>_ x. doc_case x = k) (documents d))
     in if act_role ac = R_FIELD_AGENT \<or> act_role ac = R_PROVIDER
        then filterDocumentsForFieldActor docs (set (map fst (find_many (\<lambda>_ a. as_case a = k \<and> on_case_as (act_id ac) d a) (assignments d))))
        else docs)"

definition case_detail_of :: "(string \<Rightarrow> string) \<Rightarrow> actor \<Rightarrow> nat \<Rightarrow> service_case \<Rightarrow> customer \<Rightarrow> db \<Rightarrow> case_detail" where
  "case_detail_of view_url ac k c cu d = (let cu' = redactCustomerName cu (act_role ac) in
     \<lparr>cd_case = c, cd_customer = (cu_name cu', cu_user cu'),
      cd_owner = Option.bind (c_owner c) (\<lambda>u. map_option (\<lambda>x. (u, u_email x, u_role x)) (find_unique (users d) u)),
      cd_tasks = sort_key (\<lambda>(_, t). tk_sort t) (find_many (\<lambda>_ t. tk_case t = k) (tasks d)),
      cd_history = find_many (\<lambda>_ h. h_case h = k) (history d),
      cd_risk_flags = find_many (\<lambda>_ f. kf_case f = k) (risk_flags d),
      cd_incidents = find_many (\<lambda>_ i. in_case i = Some k) (incidents d),
      cd_collaborators = map (\<lambda>(i, x). (i, x, map_option (\<lambda>u. (u_email u, u_role u)) (find_unique (users d) (cl_user x))))
        (find_many (\<lambda>_ x. cl_case x = k) (collaborators d)),
      cd_assignments = map (\<lambda>(i, a). (i, a,
          map_option (\<lambda>g. (ag_user g, ag_name g)) (Option.bind (as_agent a) (find_unique (agents d))),
          map_option (\<lambda>p. (pv_user p, pv_name p)) (Option.bind (as_provider a) (find_unique (providers d)))))
        (find_many (\<lambda>_ a. as_case a = k) (assignments d)),
      cd_evidence = map (\<lambda>(i, v). (i, v, Option.bind (find_unique (users d) (ev_uploader v)) u_email, view_url (ev_storage_key v)))
        (find_many (\<lambda>_ v. ev_case v = k) (evidences d)),
      cd_documents = map (\<lambda>(i, x). (i, x, view_url (doc_storage_key x))) (visible_documents ac k d),
      cd_reports = find_many (\<lambda>_ r. rp_case r = k) (reports d),
      cd_quotes = find_many (\<lambda>_ q. q_case q = k) (quotes d),
      cd_invoices = map (\<lambda>(i, v). (i, v, find_many (\<lambda>_ p. p_invoice p = i) (payments d)))
        (find_many (\<lambda>_ v. iv_case v = k) (invoices d)),
      cd_approvals = find_many (\<lambda>_ a. ap_case a = k) (approvals d),
      cd_rating = find_first (\<lambda>_ r. rt_case r = k) (ratings d),
      cd_schedule = find_first (\<lambda>_ s. rs_origin s = k) (schedules d),
      cd_automation = Option.bind (find_first (\<lambda>_ r. rq_converted r = Some k) (requests d)) (\<lambda>(rid, _).
        map_option (\<lambda>(_, x). ad_outcome x) (find_first (\<lambda>_ x. ad_request x = rid) (decisions d))),
      cd_scopes = sort_key (\<lambda>(_, s). - int (sc_version s)) (find_many (\<lambda>_ s. sc_case s = k) (scopes d)),
      cd_family = familyForServiceType (c_service_type c)\<rparr>)"

datatype case_file = Beneficiary_File beneficiary_case "service_family option" | Case_File case_detail

definition getCaseDetail :: "(string \<Rightarrow> string) \<Rightarrow> actor \<Rightarrow> nat \<Rightarrow> db \<Rightarrow> case_file result" where
  "getCaseDetail view_url ac k d = (case find_unique (cases d) k of
     None \<Rightarrow> throw (Not_Found STR ''Case not found'') d
   | Some c \<Rightarrow>
     if act_role ac = R_BENEFICIARY
     then return (Beneficiary_File (toBeneficiaryCaseDetail view_url k c d) (familyForServiceType (c_service_type c))) d
     else included (customers d) (c_customer c) d (\<lambda>cu. return (Case_File (case_detail_of view_url ac k c cu d)) d))"

lemma on_case_as_iff: "holds_assignment u k d \<longleftrightarrow> find_many (\<lambda>_ a. as_case a = k \<and> on_case_as u d a) (assignments d) \<noteq> []"
  by (simp add: holds_assignment_def on_case_as_def find_first_None_iff find_many_def filter_empty_conv split_beta)

lemma visible_documents_listed: "visible_documents ac k d = listDocumentsForCase ac k d"
  unfolding visible_documents_def listDocumentsForCase_def own_assignments_def on_case_as_def
  by (simp add: field_roles_def Let_def)

lemma queue_entries_named:
  "queue_entries r d cs = Some es \<Longrightarrow> e \<in> set es \<Longrightarrow> isPiiRestricted r
    \<Longrightarrow> \<exists>k c u x y z f. e = Queue_Entry k c (redacted_customer_name, u) x y z f"
  by (induction cs arbitrary: es)
    (auto simp: queue_entry_def Let_def redactCustomerName_def split: option.splits)

section \<open>The report as a PDF\<close>

definition extractCheckInGps :: "location option \<Rightarrow> (rat \<times> rat) option" where
  "extractCheckInGps loc = (case loc of
     None \<Rightarrow> None
   | Some l \<Rightarrow> (case (lo_lat l, lo_lng l) of (Some lat, Some lng) \<Rightarrow> Some (lat, lng) | _ \<Rightarrow> None))"

record report_pdf =
  pf_report :: nat
  pf_number :: string
  pf_service :: service_type
  pf_description :: string
  pf_location :: string
  pf_summary :: string
  pf_outcome :: qc_outcome
  pf_limitation :: "string option"
  pf_agent :: "string option"
  pf_phone :: "string option"
  pf_tier :: "String.literal option"
  pf_evidence :: nat
  pf_photos :: nat
  pf_check_in :: "int option"
  pf_gps :: "(rat \<times> rat) option"
  pf_accuracy :: "rat option"
  pf_geofence :: "geofence_outcome option"
  pf_completed :: "int option"

definition report_pdf_of :: "nat \<Rightarrow> service_case \<Rightarrow> nat \<Rightarrow> report \<Rightarrow> db \<Rightarrow> report_pdf" where
  "report_pdf_of k c i r d = (let
       job = map_option snd (find_last (\<lambda>_ a. as_case a = k \<and> as_role a = AR_FIELD_AGENT) (assignments d));
       who = Option.bind (Option.bind job as_agent) (find_unique (agents d));
       score = Option.bind (Option.bind job as_agent) (\<lambda>g. map_option snd (find_first (\<lambda>_ t. ts_agent t = g) (trust_scores d)));
       items = find_many (\<lambda>_ v. ev_case v = k) (evidences d)
     in \<lparr>pf_report = i, pf_number = c_number c, pf_service = c_service_type c, pf_description = c_description c,
         pf_location = c_location c, pf_summary = rp_summary r, pf_outcome = rp_outcome r, pf_limitation = rp_limitation r,
         pf_agent = map_option ag_name who, pf_phone = Option.bind who (\<lambda>g. Option.bind (find_unique (users d) (ag_user g)) u_phone),
         pf_tier = map_option ts_tier score, pf_evidence = length items,
         pf_photos = length (filter (\<lambda>(_, v). ev_type v = ET_PHOTO) items),
         pf_check_in = Option.bind job as_check_in_at, pf_gps = extractCheckInGps (Option.bind job as_location),
         pf_accuracy = Option.bind job as_accuracy, pf_geofence = Option.bind job as_geofence,
         pf_completed = Option.bind job as_completed_at\<rparr>)"

text \<open>Drawing the file and storing it may each fail; the key is written to the report only after both.\<close>

definition getReportPdfUrl ::
  "(report_pdf \<Rightarrow> error + 'bytes) \<Rightarrow> (string \<Rightarrow> 'bytes \<Rightarrow> error option) \<Rightarrow> (string \<Rightarrow> string) \<Rightarrow> string \<Rightarrow> nat \<Rightarrow> db \<Rightarrow> string result" where
  "getReportPdfUrl render put view_url uuid k d = (case find_unique (cases d) k of
     None \<Rightarrow> throw (Not_Found STR ''Case not found'') d
   | Some c \<Rightarrow> (case find_last (\<lambda>_ r. rp_case r = k) (reports d) of
       None \<Rightarrow> throw (Not_Found STR ''This case has no issued report yet'') d
     | Some (i, r) \<Rightarrow> (case rp_pdf_key r of
         Some key \<Rightarrow> return (view_url key) d
       | None \<Rightarrow> (case render (report_pdf_of k c i r d) of
           Inl err \<Rightarrow> throw err d
         | Inr bytes \<Rightarrow>
           (let key = createKey uuid (''reports/'' @ decimal k) (Some (decimal i @ ''.pdf'')) in case put key bytes of
              Some err \<Rightarrow> throw err d
            | None \<Rightarrow> return (view_url key) (d\<lparr>reports := update_row i (\<lambda>x. x\<lparr>rp_pdf_key := Some key\<rparr>) (reports d)\<rparr>))))))"

section \<open>Searching the audit log\<close>

record audit_filter =
  af_actor :: "nat option"
  af_actor_type :: "actor_type option"
  af_case :: "nat option"
  af_action :: "string option"
  af_from :: "int option"
  af_to :: "int option"
  af_take :: "nat option"
  af_skip :: "nat option"

definition default_search_take :: nat where
  "default_search_take = 100"

text \<open>An empty \<open>action\<close> filters nothing; otherwise it is a substring, in any case.\<close>

definition audit_matches :: "(nat \<Rightarrow> int) \<Rightarrow> audit_filter \<Rightarrow> nat \<Rightarrow> audit_event \<Rightarrow> bool" where
  "audit_matches created f i a \<longleftrightarrow>
     (case af_actor f of Some u \<Rightarrow> ae_actor a = Some u | None \<Rightarrow> True)
   \<and> (case af_actor_type f of Some t \<Rightarrow> ae_actor_type a = t | None \<Rightarrow> True)
   \<and> (case af_case f of Some k \<Rightarrow> ae_case a = Some k | None \<Rightarrow> True)
   \<and> (case af_action f of Some s \<Rightarrow> js_includes (js_lower (String.explode (ae_action a))) (js_lower s) | None \<Rightarrow> True)
   \<and> (case af_from f of Some t \<Rightarrow> t \<le> created i | None \<Rightarrow> True)
   \<and> (case af_to f of Some t \<Rightarrow> created i \<le> t | None \<Rightarrow> True)"

definition audit_search :: "(nat \<Rightarrow> int) \<Rightarrow> audit_filter \<Rightarrow> db \<Rightarrow> (nat \<times> audit_event) list \<times> nat \<times> nat \<times> nat" where
  "audit_search created f d = (let
       n = (case af_take f of Some n \<Rightarrow> n | None \<Rightarrow> default_search_take);
       s = (case af_skip f of Some s \<Rightarrow> s | None \<Rightarrow> 0);
       found = find_many (audit_matches created f) (audit_log d)
     in (take n (drop s (rev found)), length found, n, s))"

end
