(* ===== verification/View_Properties.thy ===== *)
theory View_Properties
  imports Sample Case_Views
begin

text \<open>The properties of what each role is shown of the cases.\<close>

section \<open>The list\<close>

text \<open>C8. The list of cases and the guard of the routes agree. A customer, a beneficiary, a field agent or a provider is
  listed exactly the cases the case guard opens to it: nothing is shown that opening would refuse, nothing that can be
  opened is missing. A role that may not know customers gets only entries with the name withheld.\<close>

theorem listed_exactly_accessible:
  assumes "listCasesForUser updated ac d = (Inr es, d')" "wf_table (cases d)" "wf_table (customers d)"
    and "distinct (map (\<lambda>(_, cu). cu_user cu) (t_rows (customers d)))" "case_rows d k"
  shows "d' = d
    \<and> (act_role ac \<in> {R_CUSTOMER, R_BENEFICIARY, R_FIELD_AGENT, R_PROVIDER}
        \<longrightarrow> (k \<in> set (map entry_case es) \<longleftrightarrow> case_access (Some ac) (Some k) d = Inr True))
    \<and> (isPiiRestricted (act_role ac)
        \<longrightarrow> (\<forall>e \<in> set es. \<exists>j c u x y z f. e = Queue_Entry j c (redacted_customer_name, u) x y z f))"
proof -
  obtain c cu where c: "find_unique (cases d) k = Some c" "find_unique (customers d) (c_customer c) = Some cu"
    using assms(5) by (auto simp: case_rows_def)
  have row: "(j, x) \<in> set (t_rows (cases d)) \<longleftrightarrow> find_unique (cases d) j = Some x" for j x
    using assms(2) by (simp add: find_unique_in_rows)
  have listed: "k \<in> fst ` set (find_many P (cases d)) \<longleftrightarrow> P k c" for P
    using row c by (auto simp: find_many_def image_iff)
  have same: "cu_user x = cu_user y \<Longrightarrow> (i, x) \<in> set (t_rows (customers d)) \<Longrightarrow> (j, y) \<in> set (t_rows (customers d)) \<Longrightarrow> i = j" for i j x y
    using assms(4) by (fastforce simp: distinct_map inj_on_def)
  have cu: "(c_customer c, cu) \<in> set (t_rows (customers d))"
    using c(2) by (auto simp: find_unique_def dest: map_of_SomeD)
  consider "act_role ac = R_CUSTOMER" | "act_role ac = R_BENEFICIARY" | "act_role ac = R_FIELD_AGENT \<or> act_role ac = R_PROVIDER"
    | "act_role ac \<notin> {R_CUSTOMER, R_BENEFICIARY, R_FIELD_AGENT, R_PROVIDER}" by auto
  then show ?thesis
  proof cases
    case 1
    then obtain cid r where r: "find_customer (act_id ac) d = Some (cid, r)"
      and es: "es = map (\<lambda>(k, c). Own_Entry k c (familyForServiceType (c_service_type c)))
          (rev (find_many (\<lambda>_ c. c_customer c = cid) (cases d)))" "d' = d"
      using assms(1) by (auto simp: listCasesForUser_def requireCustomerProfile_def split: option.splits)
    have "(cid, r) \<in> set (t_rows (customers d))" "cu_user r = act_id ac"
      using r find_first_SomeD by (fastforce simp: find_customer_def)+
    then have "\<And>i x. (i, x) \<in> set (t_rows (customers d)) \<Longrightarrow> cu_user x = act_id ac \<longleftrightarrow> i = cid"
      using same assms(3) by (metis find_unique_in_rows option.inject)
    then have "related (act_role ac) (act_id ac) k d \<longleftrightarrow> c_customer c = cid"
      using 1 c cu assms(3) by (auto simp: find_unique_in_rows)
    with 1 es listed show ?thesis
      by (simp add: case_access_related [OF assms(5)] isPiiRestricted_def pii_restricted_staff_roles_def image_image split_beta)
  next
    case 2
    have none: "\<not> isPiiRestricted (act_role ac)" by (simp add: 2 isPiiRestricted_def pii_restricted_staff_roles_def)
    show ?thesis
    proof (cases "find_first (\<lambda>_ b. bf_user b = Some (act_id ac)) (beneficiaries d)")
      case None
      then have "es = []" "d' = d" using 2 assms(1) by (auto simp: listCasesForUser_def)
      with 2 none None show ?thesis by (simp add: case_access_related [OF assms(5)])
    next
      case (Some br)
      obtain b r where br: "br = (b, r)" by fastforce
      have es: "es = map (\<lambda>(k, c). Named_Entry k (c_number c) (c_service_type c) (c_status c) (c_location c)
          (familyForServiceType (c_service_type c))) (rev (find_many (\<lambda>_ c. c_beneficiary c = Some b) (cases d)))" "d' = d"
        using 2 assms(1) Some br by (auto simp: listCasesForUser_def)
      have "related (act_role ac) (act_id ac) k d \<longleftrightarrow> c_beneficiary c = Some b" using 2 Some br c by simp
      with 2 none es listed show ?thesis
        by (simp add: case_access_related [OF assms(5)] image_image split_beta)
    qed
  next
    case 3
    let ?own = "\<lambda>k. find_many (\<lambda>_ a. as_case a = k \<and> on_case_as (act_id ac) d a) (assignments d)"
    have es: "es = map (\<lambda>(k, c). Job_Entry k c (?own k) (familyForServiceType (c_service_type c)))
        (by_recency updated (find_many (\<lambda>k _. ?own k \<noteq> []) (cases d)))" "d' = d"
      using 3 assms(1) by (auto simp: listCasesForUser_def Let_def)
    have "related (act_role ac) (act_id ac) k d \<longleftrightarrow> ?own k \<noteq> []" using 3 on_case_as_iff by auto
    moreover have "\<not> isPiiRestricted (act_role ac)" using 3 by (auto simp: isPiiRestricted_def pii_restricted_staff_roles_def)
    ultimately show ?thesis
      using 3 es listed [of "\<lambda>k _. ?own k \<noteq> []"]
      by (simp add: case_access_related [OF assms(5)] by_recency_def image_image split_beta)
  next
    case 4
    with assms(1) show ?thesis
      by (auto simp: listCasesForUser_def Let_def split: if_splits option.splits dest!: queue_entries_named)
  qed
qed

section \<open>The file\<close>

text \<open>C7. What the file of a case shows. A beneficiary gets the narrow view, with exactly the documents of the case that are
  for everyone. Everyone else gets the full file, with exactly the documents the documents route lists for them, so those
  of other assignees and of the staff stay hidden from field actors; a role that may not know customers reads the
  placeholder instead of the name.\<close>

theorem case_file_least_privilege:
  assumes "getCaseDetail view_url ac k d = (Inr shown, d')" "wf_table (documents d)"
  shows "d' = d \<and> (\<exists>c. find_unique (cases d) k = Some c \<and> (case shown of
      Beneficiary_File b _ \<Rightarrow> act_role ac = R_BENEFICIARY \<and> (\<forall>i l u. (i, l, u) \<in> set (bv_documents b) \<longleftrightarrow>
        (\<exists>x. find_unique (documents d) i = Some x \<and> doc_case x = k \<and> doc_visibility x = DV_ALL
          \<and> l = doc_label x \<and> u = view_url (doc_storage_key x)))
    | Case_File f \<Rightarrow> act_role ac \<noteq> R_BENEFICIARY
        \<and> map (\<lambda>(i, x, _). (i, x)) (cd_documents f) = listDocumentsForCase ac k d
        \<and> (\<exists>cu. find_unique (customers d) (c_customer c) = Some cu
          \<and> cd_customer f = (if isPiiRestricted (act_role ac) then redacted_customer_name else cu_name cu, cu_user cu))))"
proof -
  obtain c where c: "find_unique (cases d) k = Some c"
    using assms(1) by (cases "find_unique (cases d) k") (auto simp: getCaseDetail_def)
  have row: "(j, x) \<in> set (t_rows (documents d)) \<longleftrightarrow> find_unique (documents d) j = Some x" for j x
    using assms(2) by (simp add: find_unique_in_rows)
  show ?thesis
  proof (cases "act_role ac = R_BENEFICIARY")
    case True
    then have "shown = Beneficiary_File (toBeneficiaryCaseDetail view_url k c d) (familyForServiceType (c_service_type c))" "d' = d"
      using assms(1) c by (auto simp: getCaseDetail_def)
    with True c show ?thesis
      by (auto simp: toBeneficiaryCaseDetail_def find_many_def row image_iff split_beta)
  next
    case False
    then obtain cu where cu: "find_unique (customers d) (c_customer c) = Some cu"
      and f: "shown = Case_File (case_detail_of view_url ac k c cu d)" "d' = d"
      using assms(1) c by (auto simp: getCaseDetail_def included_Inr)
    have "map (\<lambda>(i, x, _). (i, x)) (cd_documents (case_detail_of view_url ac k c cu d)) = listDocumentsForCase ac k d"
      by (simp add: case_detail_of_def Let_def comp_def split_beta visible_documents_listed)
    with False f c cu show ?thesis
      by (simp add: case_detail_of_def Let_def redactCustomerName_def)
  qed
qed

section \<open>Witnesses\<close>

text \<open>The customer's own case, with a document for everyone and one for the staff.\<close>

definition filed_db :: db where
  "filed_db = (sample_db CS_QUOTED)\<lparr>documents := rows
     [\<lparr>doc_case = 1, doc_label = ''Deed'', doc_storage_key = ''a'', doc_uploader = None, doc_visibility = DV_ALL, doc_restricted = None\<rparr>,
      \<lparr>doc_case = 1, doc_label = ''Notes'', doc_storage_key = ''b'', doc_uploader = None, doc_visibility = DV_STAFF_ONLY, doc_restricted = None\<rparr>]\<rparr>"

lemma filed_rows: "wf_table (cases filed_db)" "wf_table (customers filed_db)" "wf_table (documents filed_db)"
  "distinct (map (\<lambda>(_, cu). cu_user cu) (t_rows (customers filed_db)))" "case_rows filed_db 1"
proof -
  have "find_unique (cases filed_db) 1 = Some (sample_case CS_QUOTED)"
    "find_unique (customers filed_db) (c_customer (sample_case CS_QUOTED)) = Some sample_customer"
    by code_simp+
  then show "case_rows filed_db 1" unfolding case_rows_def by blast
qed code_simp+

theorem listed_exactly_accessible_witness:
  "1 \<in> set (map entry_case (case fst (listCasesForUser (\<lambda>_. 0) client filed_db) of Inr es \<Rightarrow> es | Inl _ \<Rightarrow> []))"
proof -
  let ?r = "listCasesForUser (\<lambda>_. 0) client filed_db"
  have "\<not> isl (fst ?r)" by code_simp
  then obtain es where es: "?r = (Inr es, snd ?r)" by (metis isl_def sum.exhaust prod.collapse)
  have "case_access (Some client) (Some 1) filed_db = Inr True" by code_simp
  then show ?thesis
    using listed_exactly_accessible [OF es filed_rows(1,2,4,5)] by (subst es) (simp add: client_def)
qed

theorem case_file_least_privilege_witness:
  "\<exists>shown. getCaseDetail id client 1 filed_db = (Inr shown, filed_db)"
proof -
  let ?r = "getCaseDetail id client 1 filed_db"
  have "\<not> isl (fst ?r)" by code_simp
  then obtain f where f: "?r = (Inr f, snd ?r)" by (metis isl_def sum.exhaust prod.collapse)
  show ?thesis using case_file_least_privilege [OF f filed_rows(3)] f by metis
qed

end
