(* ===== verification/Ff_Outbox.thy ===== *)
theory Ff_Outbox
  imports Prelude
begin

text \<open>
  The transactional outbox of the FieldForce application (\<open>src/fieldforce/src/lib/outbox.ts\<close>): events
  are published in the transaction of a mutation, and a worker claims, delivers and retries them. The
  rows are those of \<open>OutboxMessage\<close> and \<open>IdempotencyRecord\<close> in \<open>src/fieldforce/prisma/schema.prisma\<close>.

  The clock is an argument, read once by an operation. Delivering is a function of the message:
  it succeeds, reports a failure or throws. A payload is its JSON text.
\<close>

section \<open>Messages\<close>

datatype outbox_status = OB_PENDING | OB_PROCESSING | OB_DELIVERED | OB_FAILED | OB_DEAD_LETTER

record outbox_message =
  om_aggregate_type :: string
  om_aggregate :: string
  om_event :: string
  om_version :: string
  om_payload :: string
  om_source :: string
  om_target_url :: "string option"
  om_target_type :: string
  om_key :: string
  om_correlation :: "string option"
  om_status :: outbox_status
  om_attempts :: nat
  om_max_attempts :: int
  om_next_retry :: "int option"
  om_last_error :: "string option"
  om_last_attempt :: "int option"
  om_claimed :: "int option"
  om_delivered :: "int option"
  om_dead_lettered :: "int option"
  om_created :: int

type_synonym outbox = "outbox_message table"

datatype outbox_error = Unique_Violation

record publish_input =
  pu_aggregate_type :: string
  pu_aggregate :: string
  pu_event :: string
  pu_version :: "string option"
  pu_payload :: string
  pu_source :: "string option"
  pu_target_url :: "string option"
  pu_target_type :: "string option"
  pu_correlation :: "string option"

definition event_key :: "nat \<Rightarrow> publish_input \<Rightarrow> string" where
  "event_key t i = ''evt_'' @ pu_event i @ ''_'' @ pu_aggregate_type i @ ''_'' @ pu_aggregate i @ ''_'' @ decimal t"

definition new_message :: "nat \<Rightarrow> publish_input \<Rightarrow> outbox_message" where
  "new_message t i = \<lparr>om_aggregate_type = pu_aggregate_type i, om_aggregate = pu_aggregate i, om_event = pu_event i,
     om_version = (case pu_version i of Some v \<Rightarrow> v | None \<Rightarrow> ''1''), om_payload = pu_payload i,
     om_source = (case pu_source i of Some s \<Rightarrow> s | None \<Rightarrow> ''FIELDFORCE''), om_target_url = pu_target_url i,
     om_target_type = (case pu_target_type i of Some s \<Rightarrow> s | None \<Rightarrow> ''INTERNAL''), om_key = event_key t i,
     om_correlation = pu_correlation i, om_status = OB_PENDING, om_attempts = 0, om_max_attempts = 5, om_next_retry = None,
     om_last_error = None, om_last_attempt = None, om_claimed = None, om_delivered = None, om_dead_lettered = None,
     om_created = int t\<rparr>"

definition publishEvent :: "nat \<Rightarrow> publish_input \<Rightarrow> outbox \<Rightarrow> (outbox, outbox_error, nat) outcome" where
  "publishEvent t i ob = (if exists_row (\<lambda>_ m. om_key m = event_key t i) ob then throw Unique_Violation ob
     else return (t_next ob) (insert_row (new_message t i) ob))"

fun publishEvents :: "nat \<Rightarrow> publish_input list \<Rightarrow> outbox \<Rightarrow> (outbox, outbox_error, nat list) outcome" where
  "publishEvents t [] ob = return [] ob"
| "publishEvents t (i # is) ob = and_then (publishEvent t i ob) (\<lambda>k ob.
     and_then (publishEvents t is ob) (\<lambda>ks. return (k # ks)))"

section \<open>The worker\<close>

definition claimable :: "outbox_message \<Rightarrow> bool" where
  "claimable m \<longleftrightarrow> om_status m = OB_PENDING \<or> om_status m = OB_FAILED"

text \<open>\<open>nextRetryAt: { lte: now }\<close> does not hold of a message whose \<open>nextRetryAt\<close> is null.\<close>

definition due_message :: "int \<Rightarrow> outbox_message \<Rightarrow> bool" where
  "due_message t m \<longleftrightarrow> claimable m \<and> (\<exists>r \<in> set_option (om_next_retry m). r \<le> t)"

text \<open>The conditional update of one message; its count is 1 when it hit.\<close>

definition claim_one :: "int \<Rightarrow> nat \<Rightarrow> outbox \<Rightarrow> nat \<times> outbox" where
  "claim_one t k ob = (length (find_many (\<lambda>k' m. k' = k \<and> claimable m) ob),
     update_many (\<lambda>k' m. k' = k \<and> claimable m)
       (\<lambda>m. m\<lparr>om_status := OB_PROCESSING, om_claimed := Some t, om_attempts := om_attempts m + 1\<rparr>) ob)"

fun claim_loop :: "int \<Rightarrow> nat list \<Rightarrow> nat \<Rightarrow> outbox \<Rightarrow> nat \<times> outbox" where
  "claim_loop t [] n ob = (n, ob)"
| "claim_loop t (k # ks) n ob = (case claim_one t k ob of
     (hit, ob') \<Rightarrow> claim_loop t ks (if 0 < hit then n + 1 else n) ob')"

definition claimPendingMessages :: "int \<Rightarrow> nat \<Rightarrow> outbox \<Rightarrow> nat \<times> outbox" where
  "claimPendingMessages t limit ob =
     claim_loop t (map fst (take limit (find_many (\<lambda>_ m. due_message t m) ob))) 0 ob"

text \<open>\<open>Math.pow(2, currentAttempt - 1)\<close> of base two seconds, at most five minutes.\<close>

definition backoff_ms :: "nat \<Rightarrow> int" where
  "backoff_ms attempt = min (if attempt = 0 then 1000 else 2000 * 2 ^ (attempt - 1)) (5 * 60 * 1000)"

text \<open>An \<open>undefined\<close> error message leaves the column as it is.\<close>

definition error_or_kept :: "string option \<Rightarrow> outbox_message \<Rightarrow> string option" where
  "error_or_kept err m = (case err of Some e \<Rightarrow> Some e | None \<Rightarrow> om_last_error m)"

definition markMessageFailed :: "int \<Rightarrow> nat \<Rightarrow> nat \<Rightarrow> int \<Rightarrow> string option \<Rightarrow> outbox \<Rightarrow> outbox" where
  "markMessageFailed t k attempt maxAttempts err = update_row k (\<lambda>m.
     if maxAttempts \<le> int attempt
     then m\<lparr>om_status := OB_DEAD_LETTER, om_dead_lettered := Some t, om_last_error := error_or_kept err m, om_last_attempt := Some t\<rparr>
     else m\<lparr>om_status := OB_FAILED, om_next_retry := Some (t + backoff_ms attempt), om_last_error := error_or_kept err m,
            om_last_attempt := Some t\<rparr>)"

datatype delivery = Success | Failure "string option" | Thrown string

record delivery_result =
  de_delivered :: nat
  de_failed :: nat
  de_dead_lettered :: nat

fun process_loop ::
  "int \<Rightarrow> (nat \<Rightarrow> outbox_message \<Rightarrow> delivery) \<Rightarrow> (nat \<times> outbox_message) list \<Rightarrow> delivery_result \<Rightarrow> outbox \<Rightarrow> delivery_result \<times> outbox" where
  "process_loop t deliver [] r ob = (r, ob)"
| "process_loop t deliver ((k, m) # ms) r ob = (case deliver k m of
     Success \<Rightarrow> process_loop t deliver ms (r\<lparr>de_delivered := de_delivered r + 1\<rparr>)
       (update_row k (\<lambda>x. x\<lparr>om_status := OB_DELIVERED, om_delivered := Some t, om_last_attempt := Some t\<rparr>) ob)
   | Failure err \<Rightarrow> process_loop t deliver ms (r\<lparr>de_failed := de_failed r + 1\<rparr>)
       (markMessageFailed t k (om_attempts m) (om_max_attempts m) err ob)
   | Thrown err \<Rightarrow> process_loop t deliver ms (r\<lparr>de_failed := de_failed r + 1\<rparr>)
       (markMessageFailed t k (om_attempts m) (om_max_attempts m) (Some err) ob))"

definition processClaimedMessages ::
  "int \<Rightarrow> (nat \<Rightarrow> outbox_message \<Rightarrow> delivery) \<Rightarrow> outbox \<Rightarrow> delivery_result \<times> outbox" where
  "processClaimedMessages t deliver ob = process_loop t deliver
     (take 50 (find_many (\<lambda>_ m. om_status m = OB_PROCESSING) ob)) \<lparr>de_delivered = 0, de_failed = 0, de_dead_lettered = 0\<rparr> ob"

text \<open>One round of \<open>startOutboxWorker\<close>.\<close>

definition outbox_tick :: "int \<Rightarrow> nat option \<Rightarrow> (nat \<Rightarrow> outbox_message \<Rightarrow> delivery) \<Rightarrow> outbox \<Rightarrow> outbox" where
  "outbox_tick t batch deliver ob =
     (case claimPendingMessages t (case batch of Some n \<Rightarrow> n | None \<Rightarrow> 20) ob of
        (claimed, ob') \<Rightarrow> if 0 < claimed then snd (processClaimedMessages t deliver ob') else ob')"

text \<open>The new limit comes from the body of the request of an administrator, which nothing checks: \<open>??\<close> keeps 0
  and negative numbers.\<close>

definition replayDeadLetter :: "int \<Rightarrow> nat \<Rightarrow> int option \<Rightarrow> outbox \<Rightarrow> (outbox, String.literal, unit) outcome" where
  "replayDeadLetter t k newMax ob = (case find_unique ob k of
     None \<Rightarrow> throw STR ''Message not found'' ob
   | Some m \<Rightarrow> if om_status m \<noteq> OB_DEAD_LETTER then throw STR ''Message is not in DEAD_LETTER status'' ob
       else return () (update_row k (\<lambda>m. m\<lparr>om_status := OB_PENDING, om_attempts := 0,
         om_max_attempts := (case newMax of Some n \<Rightarrow> n | None \<Rightarrow> om_max_attempts m), om_next_retry := Some t,
         om_dead_lettered := None, om_last_error := None\<rparr>) ob))"

record outbox_metrics =
  mt_pending :: nat
  mt_processing :: nat
  mt_delivered :: nat
  mt_failed :: nat
  mt_dead :: nat
  mt_oldest :: "int option"
  mt_depth :: nat

definition count_status :: "outbox_status \<Rightarrow> outbox \<Rightarrow> nat" where
  "count_status s ob = length (find_many (\<lambda>_ m. om_status m = s) ob)"

definition getOutboxMetrics :: "int \<Rightarrow> outbox \<Rightarrow> outbox_metrics" where
  "getOutboxMetrics t ob = (let pending = count_status OB_PENDING ob; processing = count_status OB_PROCESSING ob;
       failed = count_status OB_FAILED ob
     in \<lparr>mt_pending = pending, mt_processing = processing, mt_delivered = count_status OB_DELIVERED ob, mt_failed = failed,
         mt_dead = count_status OB_DEAD_LETTER ob,
         mt_oldest = map_option (\<lambda>(_, m). t - om_created m) (find_first (\<lambda>_ m. om_status m = OB_PENDING) ob),
         mt_depth = pending + processing + failed\<rparr>)"

text \<open>Days are calendar days of a server on UTC.\<close>

definition days_ms :: "nat \<Rightarrow> int" where
  "days_ms n = int n * (24 * 60 * 60 * 1000)"

definition delete_where :: "(nat \<Rightarrow> 'r \<Rightarrow> bool) \<Rightarrow> 'r table \<Rightarrow> nat \<times> 'r table" where
  "delete_where P t = (length (find_many P t), t\<lparr>t_rows := filter (\<lambda>(k, r). \<not> P k r) (t_rows t)\<rparr>)"

definition cleanupOutbox :: "int \<Rightarrow> nat \<Rightarrow> outbox \<Rightarrow> nat \<times> outbox" where
  "cleanupOutbox t olderThanDays = delete_where (\<lambda>_ m. om_status m = OB_DELIVERED
     \<and> (\<exists>x \<in> set_option (om_delivered m). x < t - days_ms olderThanDays))"

section \<open>Idempotency records\<close>

record ff_idempotency =
  fi_key :: string
  fi_source :: string
  fi_entity_type :: "string option"
  fi_entity :: "string option"
  fi_request_hash :: "string option"
  fi_code :: "nat option"
  fi_payload :: "string option"
  fi_created :: int

definition checkIdempotency :: "string \<Rightarrow> ff_idempotency table \<Rightarrow> ff_idempotency option" where
  "checkIdempotency key t = map_option snd (find_first (\<lambda>_ r. fi_key r = key) t)"

text \<open>A violated unique constraint is caught and ignored.\<close>

definition recordIdempotency :: "ff_idempotency \<Rightarrow> ff_idempotency table \<Rightarrow> ff_idempotency table" where
  "recordIdempotency r t = (if exists_row (\<lambda>_ x. fi_key x = fi_key r) t then t else insert_row r t)"

definition cleanupIdempotencyRecords :: "int \<Rightarrow> nat \<Rightarrow> ff_idempotency table \<Rightarrow> nat \<times> ff_idempotency table" where
  "cleanupIdempotencyRecords t olderThanDays = delete_where (\<lambda>_ r. fi_created r < t - days_ms olderThanDays)"

section \<open>The life of a message\<close>

text \<open>Any of the operations, by any worker, at any time; each of them is one step.\<close>

inductive outbox_step :: "outbox \<Rightarrow> outbox \<Rightarrow> bool" where
  Publish: "outbox_step ob (snd (publishEvents t is ob))"
| Claim: "outbox_step ob (snd (claimPendingMessages t' limit ob))"
| Process: "outbox_step ob (snd (processClaimedMessages t' deliver ob))"
| Tick: "outbox_step ob (outbox_tick t' batch deliver ob)"
| Replay: "outbox_step ob (snd (replayDeadLetter t' k newMax ob))"
| Cleanup: "outbox_step ob (snd (cleanupOutbox t' days ob))"

text \<open>A limit below one still lets a message be tried once: the limit is looked at only when an attempt has
  failed.\<close>

definition effective_limit :: "outbox_message \<Rightarrow> int" where
  "effective_limit m = max 1 (om_max_attempts m)"

text \<open>What the status of a message says of its attempts.\<close>

definition message_ok :: "outbox_message \<Rightarrow> bool" where
  "message_ok m \<longleftrightarrow> int (om_attempts m) \<le> effective_limit m
     \<and> (claimable m \<longrightarrow> int (om_attempts m) < effective_limit m) \<and> (om_status m = OB_PROCESSING \<longrightarrow> 0 < om_attempts m)
     \<and> (om_status m = OB_DEAD_LETTER \<longrightarrow> int (om_attempts m) = effective_limit m)
     \<and> (om_status m = OB_FAILED \<longrightarrow> om_next_retry m = map_option (\<lambda>t. t + backoff_ms (om_attempts m)) (om_last_attempt m)
          \<and> om_last_attempt m \<noteq> None)"

definition outbox_ok :: "outbox \<Rightarrow> bool" where
  "outbox_ok ob \<longleftrightarrow> wf_table ob \<and> (\<forall>(k, m) \<in> set (t_rows ob). message_ok m)"

text \<open>A message as it was published and never touched since.\<close>

definition untouched :: "outbox_message \<Rightarrow> bool" where
  "untouched m \<longleftrightarrow> om_status m = OB_PENDING \<and> om_attempts m = 0 \<and> om_next_retry m = None \<and> om_delivered m = None"

end
