(* ===== verification/Ff_Outbox_Properties.thy ===== *)
theory Ff_Outbox_Properties
  imports Ff_Outbox
begin

text \<open>
  What becomes of a message of the FieldForce outbox: the bookkeeping of its attempts, and the
  claim that never finds it.
\<close>

section \<open>Rows\<close>

definition all_messages :: "(outbox_message \<Rightarrow> bool) \<Rightarrow> outbox \<Rightarrow> bool" where
  "all_messages P ob \<longleftrightarrow> (\<forall>(k, m) \<in> set (t_rows ob). P m)"

lemma all_messages_insert [simp]: "all_messages P (insert_row m ob) \<longleftrightarrow> all_messages P ob \<and> P m"
  by (auto simp: all_messages_def)

lemma all_messages_update:
  "all_messages P ob \<Longrightarrow> (\<And>k m. (k, m) \<in> set (t_rows ob) \<Longrightarrow> Q k m \<Longrightarrow> P m \<Longrightarrow> P (f m)) \<Longrightarrow> all_messages P (update_many Q f ob)"
  by (fastforce simp: all_messages_def rows_update_many)

lemma all_messages_delete: "all_messages P ob \<Longrightarrow> all_messages P (snd (delete_where Q ob))"
  by (auto simp: all_messages_def delete_where_def)

lemma wf_delete_where: "wf_table t \<Longrightarrow> wf_table (snd (delete_where Q t))"
  by (auto simp: wf_table_def delete_where_def distinct_map_filter)

lemma no_message_found: "all_messages (\<lambda>m. \<not> Q m) ob \<Longrightarrow> find_many (\<lambda>_ m. Q m) ob = []"
  by (auto simp: all_messages_def find_many_def filter_empty_conv)

lemma publishEvents_cons:
  "snd (publishEvents t (i # is) ob) = (if exists_row (\<lambda>_ m. om_key m = event_key t i) ob then ob
     else snd (publishEvents t is (insert_row (new_message t i) ob)))"
  by (simp add: publishEvent_def and_then_def split: sum.split prod.split)

lemma publishEvents_wf: "wf_table ob \<Longrightarrow> wf_table (snd (publishEvents t is ob))"
  by (induction "is" arbitrary: ob) (simp_all add: publishEvents_cons del: publishEvents.simps(2))

lemma publishEvents_preserves:
  "(\<And>i. P (new_message t i)) \<Longrightarrow> all_messages P ob \<Longrightarrow> all_messages P (snd (publishEvents t is ob))"
  by (induction "is" arbitrary: ob) (simp_all add: publishEvents_cons del: publishEvents.simps(2))

section \<open>Messages that nothing claims\<close>

lemma untouched_new [simp]: "untouched (new_message t i)"
  by (simp add: untouched_def new_message_def)

lemma untouched_not_due: "all_messages untouched ob \<Longrightarrow> find_many (\<lambda>_ m. due_message t m) ob = []"
  by (rule no_message_found) (auto simp: all_messages_def untouched_def due_message_def)

lemma untouched_not_processing: "all_messages untouched ob \<Longrightarrow> find_many (\<lambda>_ m. om_status m = OB_PROCESSING) ob = []"
  by (rule no_message_found) (auto simp: all_messages_def untouched_def)

lemma claim_finds_nothing: "all_messages untouched ob \<Longrightarrow> claimPendingMessages t limit ob = (0, ob)"
  by (simp add: claimPendingMessages_def untouched_not_due)

lemma process_finds_nothing: "all_messages untouched ob \<Longrightarrow> snd (processClaimedMessages t deliver ob) = ob"
  by (simp add: processClaimedMessages_def untouched_not_processing)

lemma tick_does_nothing: "all_messages untouched ob \<Longrightarrow> outbox_tick t batch deliver ob = ob"
  by (simp add: outbox_tick_def claim_finds_nothing)

lemma replay_finds_nothing: "all_messages untouched ob \<Longrightarrow> snd (replayDeadLetter t k newMax ob) = ob"
proof (cases "find_unique ob k")
  case (Some m)
  assume "all_messages untouched ob"
  moreover have "(k, m) \<in> set (t_rows ob)" using Some by (auto simp: find_unique_def map_of_SomeD)
  ultimately have "om_status m = OB_PENDING" by (auto simp: all_messages_def untouched_def)
  then show ?thesis by (simp add: replayDeadLetter_def Some)
qed (simp add: replayDeadLetter_def)

lemma step_untouched: "outbox_step ob ob' \<Longrightarrow> all_messages untouched ob \<Longrightarrow> all_messages untouched ob'"
proof (induction rule: outbox_step.induct)
  case (Publish ob t "is")
  then show ?case by (simp add: publishEvents_preserves)
qed (simp_all add: claim_finds_nothing process_finds_nothing tick_does_nothing replay_finds_nothing
    cleanupOutbox_def all_messages_delete)

lemma reachable_untouched: "outbox_step\<^sup>*\<^sup>* empty_table ob \<Longrightarrow> all_messages untouched ob"
  by (induction rule: rtranclp_induct) (simp_all add: step_untouched, simp add: all_messages_def empty_table_def)

section \<open>Attempts\<close>

lemma outbox_ok_iff: "outbox_ok ob \<longleftrightarrow> wf_table ob \<and> all_messages message_ok ob"
  by (simp add: outbox_ok_def all_messages_def)

lemma message_ok_new [simp]: "message_ok (new_message t i)"
  by (simp add: message_ok_def effective_limit_def new_message_def claimable_def)

lemma message_ok_claimed:
  "message_ok m \<Longrightarrow> claimable m
     \<Longrightarrow> message_ok (m\<lparr>om_status := OB_PROCESSING, om_claimed := Some t, om_attempts := om_attempts m + 1\<rparr>)"
  by (auto simp: message_ok_def claimable_def effective_limit_def)

lemma claim_loop_ok: "outbox_ok ob \<Longrightarrow> outbox_ok (snd (claim_loop t ks n ob))"
proof (induction ks arbitrary: n ob)
  case (Cons k ks)
  have "outbox_ok (snd (claim_one t k ob))"
    using Cons.prems message_ok_claimed by (auto simp: outbox_ok_iff claim_one_def intro!: all_messages_update)
  then show ?case using Cons.IH by (auto split: prod.split)
qed simp

lemma claim_ok: "outbox_ok ob \<Longrightarrow> outbox_ok (snd (claimPendingMessages t limit ob))"
  by (simp add: claimPendingMessages_def claim_loop_ok)

lemma mark_failed_ok:
  assumes "outbox_ok ob" "(k, m) \<in> set (t_rows ob)" "om_status m = OB_PROCESSING"
  shows "outbox_ok (markMessageFailed t k (om_attempts m) (om_max_attempts m) err ob)"
proof -
  have "\<And>x. (k, x) \<in> set (t_rows ob) \<Longrightarrow> x = m"
    using assms wf_row_unique by (auto simp: outbox_ok_iff)
  then show ?thesis using assms(1,3)
    by (auto simp: outbox_ok_iff markMessageFailed_def update_row_def message_ok_def claimable_def effective_limit_def
        intro!: all_messages_update)
qed

lemma mark_delivered_ok:
  assumes "outbox_ok ob"
  shows "outbox_ok (update_row k (\<lambda>x. x\<lparr>om_status := OB_DELIVERED, om_delivered := Some t, om_last_attempt := Some t\<rparr>) ob)"
  using assms by (auto simp: outbox_ok_iff update_row_def message_ok_def claimable_def effective_limit_def intro!: all_messages_update)

lemma other_rows_kept: "(k', m) \<in> set (t_rows ob) \<Longrightarrow> k' \<noteq> k \<Longrightarrow> (k', m) \<in> set (t_rows (update_row k f ob))"
  by (force simp: update_row_def rows_update_many)

lemma process_loop_ok:
  "outbox_ok ob \<Longrightarrow> distinct (map fst ms) \<Longrightarrow> set ms \<subseteq> set (t_rows ob)
     \<Longrightarrow> (\<forall>(k, m) \<in> set ms. om_status m = OB_PROCESSING) \<Longrightarrow> outbox_ok (snd (process_loop t deliver ms r ob))"
proof (induction ms arbitrary: r ob)
  case (Cons x ms)
  obtain k m where x: "x = (k, m)" by (cases x)
  have kept: "set ms \<subseteq> set (t_rows (update_row k f ob))" for f
    using Cons.prems(2,3) other_rows_kept [of _ _ ob k f] by (force simp: x)
  have marked: "outbox_ok (markMessageFailed t k (om_attempts m) (om_max_attempts m) err ob)" for err
    using Cons.prems x by (intro mark_failed_ok) auto
  note go = Cons.IH [OF _ _ kept] mark_delivered_ok [OF Cons.prems(1)]
  show ?case using Cons.prems(2,4) go marked
    by (auto simp: x markMessageFailed_def split: delivery.split)
qed simp

lemma distinct_take_find_many:
  assumes "wf_table t"
  shows "distinct (map fst (take n (find_many P t)))"
proof -
  have "distinct (map fst (find_many P t))"
    using assms by (simp add: find_many_def wf_table_def distinct_map_filter)
  then show ?thesis by (metis distinct_take take_map)
qed

lemma process_ok: "outbox_ok ob \<Longrightarrow> outbox_ok (snd (processClaimedMessages t deliver ob))"
  unfolding processClaimedMessages_def
  by (rule process_loop_ok) (auto simp: distinct_take_find_many outbox_ok_iff find_many_iff dest!: in_set_takeD)

lemma tick_ok: "outbox_ok ob \<Longrightarrow> outbox_ok (outbox_tick t batch deliver ob)"
  using claim_ok [of ob t "case batch of Some n \<Rightarrow> n | None \<Rightarrow> 20"] process_ok
  by (auto simp: outbox_tick_def split: prod.split)

lemma replay_ok:
  assumes "outbox_ok ob"
  shows "outbox_ok (snd (replayDeadLetter t k newMax ob))"
  using assms by (auto simp: replayDeadLetter_def outbox_ok_iff update_row_def message_ok_def claimable_def effective_limit_def
      intro!: all_messages_update split: option.splits)

lemma step_ok: "outbox_step ob ob' \<Longrightarrow> outbox_ok ob \<Longrightarrow> outbox_ok ob'"
proof (induction rule: outbox_step.induct)
  case (Publish ob t "is")
  then show ?case by (simp add: outbox_ok_iff publishEvents_preserves publishEvents_wf)
qed (simp_all add: claim_ok process_ok tick_ok replay_ok, simp add: cleanupOutbox_def outbox_ok_iff all_messages_delete wf_delete_where)

lemma run_ok: "outbox_step\<^sup>*\<^sup>* ob ob' \<Longrightarrow> outbox_ok ob \<Longrightarrow> outbox_ok ob'"
  by (induction rule: rtranclp_induct) (simp_all add: step_ok)

section \<open>The properties\<close>

text \<open>C21. However long the workers run, no message of the FieldForce outbox is ever delivered: in every state
  that the operations reach from an empty outbox all messages are as they were published, and a round of
  the worker changes nothing, at any time, for any batch size and any way to deliver.
  \<open>publishEvent\<close> leaves \<open>nextRetryAt\<close> null and the claim asks for \<open>nextRetryAt <= now\<close>.\<close>

theorem outbox_never_delivers:
  assumes "outbox_step\<^sup>*\<^sup>* empty_table ob"
  shows "(\<forall>(k, m) \<in> set (t_rows ob). untouched m) \<and> outbox_tick t batch deliver ob = ob"
  using reachable_untouched [OF assms] tick_does_nothing by (simp add: all_messages_def)

definition sample_event :: publish_input where
  "sample_event = \<lparr>pu_aggregate_type = ''mission'', pu_aggregate = ''7'', pu_event = ''MISSION_COMPLETED'', pu_version = None,
     pu_payload = ''{}'', pu_source = None, pu_target_url = None, pu_target_type = None, pu_correlation = None\<rparr>"

definition sample_outbox :: outbox where
  "sample_outbox = snd (publishEvents 1000 [sample_event] empty_table)"

theorem outbox_never_delivers_witness:
  "outbox_tick 5000 None (\<lambda>_ _. Success) sample_outbox = sample_outbox \<and> length (t_rows sample_outbox) = 1"
proof -
  have "outbox_step\<^sup>*\<^sup>* empty_table sample_outbox"
    unfolding sample_outbox_def by (rule r_into_rtranclp) (rule Publish)
  from outbox_never_delivers [OF this] have "outbox_tick 5000 None (\<lambda>_ _. Success) sample_outbox = sample_outbox" by blast
  moreover have "length (t_rows sample_outbox) = 1" by code_simp
  ultimately show ?thesis by blast
qed

text \<open>C22. The bookkeeping of attempts of the FieldForce outbox is an invariant of any run of publishers, workers,
  replays and clean-ups, from any consistent state. The limit is the larger of 1 and \<open>maxAttempts\<close>, since a replay may
  set \<open>maxAttempts\<close> to any number and a message is tried before the limit is looked at: attempts never exceed it, a
  message that can still be claimed has an attempt left, a dead letter has used all of them, and a failed
  message waits for the exponential backoff of its attempts from its last one.\<close>

theorem outbox_attempts_sound:
  assumes "outbox_ok ob" and "outbox_step\<^sup>*\<^sup>* ob ob'"
  shows "wf_table ob' \<and> (\<forall>(k, m) \<in> set (t_rows ob'). int (om_attempts m) \<le> max 1 (om_max_attempts m)
     \<and> (claimable m \<longrightarrow> int (om_attempts m) < max 1 (om_max_attempts m))
     \<and> (om_status m = OB_DEAD_LETTER \<longrightarrow> int (om_attempts m) = max 1 (om_max_attempts m))
     \<and> (om_status m = OB_FAILED \<longrightarrow> (\<exists>last. om_last_attempt m = Some last
          \<and> om_next_retry m = Some (last + backoff_ms (om_attempts m)))))"
proof -
  have ok: "outbox_ok ob'" by (rule run_ok [OF assms(2,1)])
  show ?thesis using ok by (auto simp: outbox_ok_def message_ok_def effective_limit_def dest!: bspec)
qed

text \<open>A message with its retry time set and a limit of zero, as a replay of a dead letter can leave it: it is tried
  once and is a dead letter again, with one attempt on record.\<close>

definition due_outbox :: outbox where
  "due_outbox = update_row 1 (\<lambda>m. m\<lparr>om_next_retry := Some 1000, om_max_attempts := 0\<rparr>) sample_outbox"

theorem outbox_attempts_sound_witness:
  "\<exists>ob'. outbox_step\<^sup>*\<^sup>* due_outbox ob' \<and> map (om_status \<circ> snd) (t_rows ob') = [OB_DEAD_LETTER]
     \<and> map (om_attempts \<circ> snd) (t_rows ob') = [1] \<and> (\<forall>(k, m) \<in> set (t_rows ob'). int (om_attempts m) \<le> max 1 (om_max_attempts m))"
proof -
  let ?ob = "outbox_tick 2000 None (\<lambda>_ _. Failure None) due_outbox"
  have ok: "outbox_ok due_outbox" by code_simp
  have run: "outbox_step\<^sup>*\<^sup>* due_outbox ?ob" by (rule r_into_rtranclp) (rule Tick)
  have "map (om_status \<circ> snd) (t_rows ?ob) = [OB_DEAD_LETTER]" "map (om_attempts \<circ> snd) (t_rows ?ob) = [1]" by code_simp+
  moreover have "\<forall>(k, m) \<in> set (t_rows ?ob). int (om_attempts m) \<le> max 1 (om_max_attempts m)"
    using conjunct2 [OF outbox_attempts_sound [OF ok run]] by fast
  ultimately show ?thesis using run by (intro exI [of _ ?ob] conjI)
qed

end
