(* ===== verification/Ff_Ledger.thy ===== *)
theory Ff_Ledger
  imports Prelude
begin

text \<open>
  The double-entry ledger of the FieldForce application (\<open>src/fieldforce/src/lib/ledger.ts\<close>): a chart of
  eight accounts, seeded before use, and journal entries that are refused unless they balance. Amounts are
  the whole numbers of the \<open>Int\<close> columns; descriptions and metadata of entries and lines are left out.
\<close>

section \<open>Chart of accounts\<close>

datatype ff_account =
  AGENT_PENDING_EARNINGS | AGENT_AVAILABLE_BALANCE | ASOJU_FEES_REVENUE | PAYOUT_ESCROW
| PAYOUT_PAYABLE | CUSTOMER_PAYMENTS | CUSTOMER_PAYABLE | ADJUSTMENT

datatype ff_account_type = FA_ASSET | FA_LIABILITY | FA_EQUITY | FA_REVENUE

record ff_account_row =
  fa_code :: ff_account
  fa_name :: String.literal
  fa_type :: ff_account_type
  fa_category :: String.literal

definition account_definitions :: "ff_account_row list" where
  "account_definitions = map (\<lambda>(c, n, t, k). \<lparr>fa_code = c, fa_name = n, fa_type = t, fa_category = k\<rparr>)
    [(AGENT_PENDING_EARNINGS, STR ''Agent Pending Earnings'', FA_LIABILITY, STR ''AGENT''),
     (AGENT_AVAILABLE_BALANCE, STR ''Agent Available Balance'', FA_LIABILITY, STR ''AGENT''),
     (ASOJU_FEES_REVENUE, STR ''Asouju Platform Fees'', FA_REVENUE, STR ''PLATFORM''),
     (PAYOUT_ESCROW, STR ''Payout Escrow'', FA_LIABILITY, STR ''PAYOUT''),
     (PAYOUT_PAYABLE, STR ''Payout Payable'', FA_LIABILITY, STR ''PAYOUT''),
     (CUSTOMER_PAYMENTS, STR ''Customer Payments'', FA_ASSET, STR ''PLATFORM''),
     (CUSTOMER_PAYABLE, STR ''Customer Payable'', FA_LIABILITY, STR ''PLATFORM''),
     (ADJUSTMENT, STR ''Adjustments'', FA_EQUITY, STR ''PLATFORM'')]"

section \<open>Journal\<close>

datatype ff_direction = FF_DEBIT | FF_CREDIT

record journal_line_input =
  ji_account :: ff_account
  ji_direction :: ff_direction
  ji_amount :: int

record ff_line =
  fl_account :: nat
  fl_direction :: ff_direction
  fl_amount :: int

datatype entry_status = FE_POSTED | FE_REVERSED

record ff_entry =
  fe_key :: string
  fe_entity_type :: String.literal
  fe_entity :: "nat option"
  fe_agent :: "nat option"
  fe_status :: entry_status
  fe_lines :: "ff_line list"

record ff_ledger =
  lg_accounts :: "ff_account_row table"
  lg_entries :: "ff_entry table"

definition find_code :: "ff_account \<Rightarrow> ff_account_row table \<Rightarrow> (nat \<times> ff_account_row) option" where
  "find_code c = find_first (\<lambda>_ a. fa_code a = c)"

definition seedChartOfAccounts :: "ff_account_row table \<Rightarrow> ff_account_row table" where
  "seedChartOfAccounts t = foldl (\<lambda>t a. if find_code (fa_code a) t = None then insert_row a t else t) t account_definitions"

definition resolveAccountId :: "ff_account \<Rightarrow> ff_account_row table \<Rightarrow> nat option" where
  "resolveAccountId c t = map_option fst (find_code c t)"

definition line_sum :: "ff_direction \<Rightarrow> journal_line_input list \<Rightarrow> int" where
  "line_sum s ls = sum_list (map ji_amount (filter (\<lambda>l. ji_direction l = s) ls))"

datatype journal_refusal = INSUFFICIENT_LINES | INVALID_AMOUNT | UNBALANCED_TYPE | UNBALANCED_ENTRY

definition journal_refusal_of :: "journal_line_input list \<Rightarrow> journal_refusal option" where
  "journal_refusal_of ls =
     (if length ls < 2 then Some INSUFFICIENT_LINES
      else if (\<exists>l \<in> set ls. ji_amount l \<le> 0) then Some INVALID_AMOUNT
      else if \<not> (\<exists>l \<in> set ls. ji_direction l = FF_DEBIT) \<or> \<not> (\<exists>l \<in> set ls. ji_direction l = FF_CREDIT) then Some UNBALANCED_TYPE
      else if line_sum FF_DEBIT ls \<noteq> line_sum FF_CREDIT ls then Some UNBALANCED_ENTRY
      else None)"

text \<open>The answer, or the exception of an account that does not exist.\<close>

datatype journal_result = Posted nat | Already_Posted nat | Refused journal_refusal | Account_Not_Found

record posting_params =
  po_key :: string
  po_entity_type :: String.literal
  po_entity :: "nat option"
  po_agent :: "nat option"
  po_lines :: "journal_line_input list"

fun resolve_lines :: "journal_line_input list \<Rightarrow> ff_account_row table \<Rightarrow> ff_line list option" where
  "resolve_lines [] t = Some []"
| "resolve_lines (l # ls) t = (case (resolveAccountId (ji_account l) t, resolve_lines ls t) of
     (Some a, Some rs) \<Rightarrow> Some (\<lparr>fl_account = a, fl_direction = ji_direction l, fl_amount = ji_amount l\<rparr> # rs)
   | _ \<Rightarrow> None)"

definition find_entry :: "string \<Rightarrow> ff_entry table \<Rightarrow> (nat \<times> ff_entry) option" where
  "find_entry key = find_first (\<lambda>_ e. fe_key e = key)"

definition new_entry :: "posting_params \<Rightarrow> ff_line list \<Rightarrow> ff_entry" where
  "new_entry p ls = \<lparr>fe_key = po_key p, fe_entity_type = po_entity_type p, fe_entity = po_entity p, fe_agent = po_agent p,
     fe_status = FE_POSTED, fe_lines = ls\<rparr>"

definition ff_postJournalEntry :: "posting_params \<Rightarrow> ff_ledger \<Rightarrow> journal_result \<times> ff_ledger" where
  "ff_postJournalEntry p l = (case journal_refusal_of (po_lines p) of
     Some r \<Rightarrow> (Refused r, l)
   | None \<Rightarrow> let l = l\<lparr>lg_accounts := seedChartOfAccounts (lg_accounts l)\<rparr> in
      (case resolve_lines (po_lines p) (lg_accounts l) of
         None \<Rightarrow> (Account_Not_Found, l)
       | Some ls \<Rightarrow> (case find_entry (po_key p) (lg_entries l) of
           Some (k, _) \<Rightarrow> (Already_Posted k, l)
         | None \<Rightarrow> (Posted (t_next (lg_entries l)), l\<lparr>lg_entries := insert_row (new_entry p ls) (lg_entries l)\<rparr>))))"

section \<open>The postings\<close>

definition debit :: "ff_account \<Rightarrow> int \<Rightarrow> journal_line_input" where
  "debit a x = \<lparr>ji_account = a, ji_direction = FF_DEBIT, ji_amount = x\<rparr>"

definition credit :: "ff_account \<Rightarrow> int \<Rightarrow> journal_line_input" where
  "credit a x = \<lparr>ji_account = a, ji_direction = FF_CREDIT, ji_amount = x\<rparr>"

definition postEarnings :: "nat \<Rightarrow> nat \<Rightarrow> int \<Rightarrow> int \<Rightarrow> int \<Rightarrow> ff_ledger \<Rightarrow> journal_result \<times> ff_ledger" where
  "postEarnings mission agent payout fee net = ff_postJournalEntry
     \<lparr>po_key = ''EARNINGS_'' @ decimal mission, po_entity_type = STR ''Mission'', po_entity = Some mission, po_agent = Some agent,
      po_lines = [debit AGENT_PENDING_EARNINGS net, debit ASOJU_FEES_REVENUE fee, credit ADJUSTMENT payout]\<rparr>"

definition postQcEarningsRelease :: "nat \<Rightarrow> nat \<Rightarrow> int \<Rightarrow> ff_ledger \<Rightarrow> journal_result \<times> ff_ledger" where
  "postQcEarningsRelease mission agent net = ff_postJournalEntry
     \<lparr>po_key = ''QC_RELEASE_'' @ decimal mission, po_entity_type = STR ''Mission'', po_entity = Some mission, po_agent = Some agent,
      po_lines = [debit AGENT_AVAILABLE_BALANCE net, credit AGENT_PENDING_EARNINGS net]\<rparr>"

definition postPayoutRequest :: "nat \<Rightarrow> nat \<Rightarrow> int \<Rightarrow> ff_ledger \<Rightarrow> journal_result \<times> ff_ledger" where
  "postPayoutRequest payout agent amount = ff_postJournalEntry
     \<lparr>po_key = ''PAYOUT_REQ_'' @ decimal payout, po_entity_type = STR ''Payout'', po_entity = Some payout, po_agent = Some agent,
      po_lines = [debit PAYOUT_ESCROW amount, credit AGENT_AVAILABLE_BALANCE amount]\<rparr>"

definition postPayoutSuccess :: "nat \<Rightarrow> nat \<Rightarrow> int \<Rightarrow> int \<Rightarrow> int \<Rightarrow> ff_ledger \<Rightarrow> journal_result \<times> ff_ledger" where
  "postPayoutSuccess payout agent amount fee net = ff_postJournalEntry
     \<lparr>po_key = ''PAYOUT_SUCCESS_'' @ decimal payout, po_entity_type = STR ''Payout'', po_entity = Some payout, po_agent = Some agent,
      po_lines = [debit PAYOUT_PAYABLE net, debit ASOJU_FEES_REVENUE fee, credit PAYOUT_ESCROW amount]\<rparr>"

definition postPayoutReversal :: "nat \<Rightarrow> nat \<Rightarrow> int \<Rightarrow> ff_ledger \<Rightarrow> journal_result \<times> ff_ledger" where
  "postPayoutReversal payout agent amount = ff_postJournalEntry
     \<lparr>po_key = ''PAYOUT_REVERSAL_'' @ decimal payout, po_entity_type = STR ''Payout'', po_entity = Some payout, po_agent = Some agent,
      po_lines = [debit AGENT_AVAILABLE_BALANCE amount, credit PAYOUT_ESCROW amount]\<rparr>"

definition postCustomerPayment :: "nat \<Rightarrow> int \<Rightarrow> ff_ledger \<Rightarrow> journal_result \<times> ff_ledger" where
  "postCustomerPayment payment amount = ff_postJournalEntry
     \<lparr>po_key = ''CUST_PAYMENT_'' @ decimal payment, po_entity_type = STR ''Payment'', po_entity = Some payment, po_agent = None,
      po_lines = [debit CUSTOMER_PAYMENTS amount, credit CUSTOMER_PAYABLE amount]\<rparr>"

section \<open>Balances\<close>

definition signed :: "ff_line \<Rightarrow> int" where
  "signed l = (if fl_direction l = FF_DEBIT then fl_amount l else - fl_amount l)"

definition all_lines :: "ff_entry table \<Rightarrow> ff_line list" where
  "all_lines t = concat (map (\<lambda>(_, e). fe_lines e) (find_many (\<lambda>_ e. fe_status e = FE_POSTED) t))"

definition side_total :: "ff_direction \<Rightarrow> nat \<Rightarrow> ff_entry table \<Rightarrow> int" where
  "side_total s a t = sum_list (map fl_amount (filter (\<lambda>l. fl_account l = a \<and> fl_direction l = s) (all_lines t)))"

definition getAccountBalance :: "ff_account \<Rightarrow> ff_ledger \<Rightarrow> int \<times> ff_ledger" where
  "getAccountBalance c l = (let l = l\<lparr>lg_accounts := seedChartOfAccounts (lg_accounts l)\<rparr> in
     (case find_code c (lg_accounts l) of
        None \<Rightarrow> 0
      | Some (k, a) \<Rightarrow> if fa_type a \<in> {FA_ASSET, FA_EQUITY}
          then side_total FF_DEBIT k (lg_entries l) - side_total FF_CREDIT k (lg_entries l)
          else side_total FF_CREDIT k (lg_entries l) - side_total FF_DEBIT k (lg_entries l), l))"

record agent_balances =
  ab_pending :: int
  ab_available :: int
  ab_escrow :: int

definition agent_lines :: "nat \<Rightarrow> ff_entry table \<Rightarrow> ff_line list" where
  "agent_lines agent t = concat (map (\<lambda>(_, e). fe_lines e) (find_many (\<lambda>_ e. fe_agent e = Some agent \<and> fe_status e = FE_POSTED) t))"

definition add_line :: "ff_account_row table \<Rightarrow> agent_balances \<Rightarrow> ff_line \<Rightarrow> agent_balances" where
  "add_line t b l = (case find_unique t (fl_account l) of
     None \<Rightarrow> b
   | Some a \<Rightarrow> (case fa_code a of
       AGENT_PENDING_EARNINGS \<Rightarrow> b\<lparr>ab_pending := ab_pending b + signed l\<rparr>
     | AGENT_AVAILABLE_BALANCE \<Rightarrow> b\<lparr>ab_available := ab_available b + signed l\<rparr>
     | PAYOUT_ESCROW \<Rightarrow> b\<lparr>ab_escrow := ab_escrow b + signed l\<rparr>
     | _ \<Rightarrow> b))"

definition getAgentLedgerBalances :: "nat \<Rightarrow> ff_ledger \<Rightarrow> agent_balances" where
  "getAgentLedgerBalances agent l =
     foldl (add_line (lg_accounts l)) \<lparr>ab_pending = 0, ab_available = 0, ab_escrow = 0\<rparr> (agent_lines agent (lg_entries l))"

section \<open>The state of the ledger\<close>

definition empty_ledger :: ff_ledger where
  "empty_ledger = \<lparr>lg_accounts = empty_table, lg_entries = empty_table\<rparr>"

text \<open>Every service posts through \<open>ff_postJournalEntry\<close>; a balance query may seed the chart.\<close>

inductive ledger_step :: "ff_ledger \<Rightarrow> ff_ledger \<Rightarrow> bool" where
  Post: "ledger_step l (snd (ff_postJournalEntry p l))"
| Query: "ledger_step l (snd (getAccountBalance c l))"

definition chart :: "ff_account_row table" where
  "chart = seedChartOfAccounts empty_table"

primrec account_no :: "ff_account \<Rightarrow> nat" where
  "account_no AGENT_PENDING_EARNINGS = 1"
| "account_no AGENT_AVAILABLE_BALANCE = 2"
| "account_no ASOJU_FEES_REVENUE = 3"
| "account_no PAYOUT_ESCROW = 4"
| "account_no PAYOUT_PAYABLE = 5"
| "account_no CUSTOMER_PAYMENTS = 6"
| "account_no CUSTOMER_PAYABLE = 7"
| "account_no ADJUSTMENT = 8"

lemma account_no_le: "1 \<le> account_no c \<and> account_no c \<le> 8"
  by (cases c) simp_all

lemma seed_chart: "seedChartOfAccounts chart = chart"
  unfolding chart_def by code_simp

lemma code_in_chart: "map_option (\<lambda>(k, a). (k, fa_code a, fa_type a \<in> {FA_ASSET, FA_EQUITY})) (find_code c chart)
    = Some (account_no c, c, c \<in> {CUSTOMER_PAYMENTS, ADJUSTMENT})"
  unfolding chart_def by (cases c; hypsubst; code_simp)

lemma find_code_chart: "\<exists>a. find_code c chart = Some (account_no c, a) \<and> fa_code a = c
    \<and> (fa_type a \<in> {FA_ASSET, FA_EQUITY} \<longleftrightarrow> c \<in> {CUSTOMER_PAYMENTS, ADJUSTMENT})"
  using code_in_chart [of c] by (cases "find_code c chart") auto

lemma find_unique_chart: "map_option fa_code (find_unique chart (account_no c)) = Some c"
  unfolding chart_def by (cases c; hypsubst; code_simp)

definition line_of :: "journal_line_input \<Rightarrow> ff_line" where
  "line_of l = \<lparr>fl_account = account_no (ji_account l), fl_direction = ji_direction l, fl_amount = ji_amount l\<rparr>"

lemma resolve_chart [simp]: "resolveAccountId c chart = Some (account_no c)"
  using find_code_chart [of c] by (auto simp: resolveAccountId_def)

lemma resolve_lines_chart [simp]: "resolve_lines ls chart = Some (map line_of ls)"
  by (induction ls) (simp_all add: line_of_def)

lemma signed_line_of: "signed (line_of l) = (if ji_direction l = FF_DEBIT then ji_amount l else - ji_amount l)"
  by (simp add: signed_def line_of_def)

lemma sum_signed: "sum_list (map (\<lambda>l. signed (line_of l)) ls) = line_sum FF_DEBIT ls - line_sum FF_CREDIT ls"
proof (induction ls)
  case (Cons l ls)
  then show ?case by (cases "ji_direction l") (simp_all add: line_sum_def signed_line_of)
qed (simp add: line_sum_def)

definition entry_sound :: "ff_entry \<Rightarrow> bool" where
  "entry_sound e \<longleftrightarrow> 2 \<le> length (fe_lines e) \<and> fe_status e = FE_POSTED \<and> sum_list (map signed (fe_lines e)) = 0
     \<and> (\<forall>x \<in> set (fe_lines e). 0 < fl_amount x \<and> 1 \<le> fl_account x \<and> fl_account x \<le> 8)"

definition ledger_sound :: "ff_ledger \<Rightarrow> bool" where
  "ledger_sound l \<longleftrightarrow> wf_table (lg_entries l) \<and> (\<forall>(k, e) \<in> set (t_rows (lg_entries l)). entry_sound e)
     \<and> distinct (map (\<lambda>(_, e). fe_key e) (t_rows (lg_entries l)))
     \<and> (lg_accounts l = chart \<or> lg_accounts l = empty_table \<and> t_rows (lg_entries l) = [])"

lemma sound_seeds: "ledger_sound l \<Longrightarrow> seedChartOfAccounts (lg_accounts l) = chart"
  by (auto simp: ledger_sound_def seed_chart) (simp add: chart_def)

lemma empty_ledger_sound: "ledger_sound empty_ledger"
  by (simp add: ledger_sound_def empty_ledger_def wf_empty_table) (simp add: empty_table_def)

lemma new_entry_sound:
  assumes "journal_refusal_of (po_lines p) = None"
  shows "entry_sound (new_entry p (map line_of (po_lines p)))"
proof -
  have "2 \<le> length (po_lines p)" "\<forall>l \<in> set (po_lines p). 0 < ji_amount l"
    "line_sum FF_DEBIT (po_lines p) = line_sum FF_CREDIT (po_lines p)"
    using assms by (auto simp: journal_refusal_of_def not_less not_le split: if_splits)
  then show ?thesis
    using account_no_le sum_signed [of "po_lines p"] by (auto simp: entry_sound_def new_entry_def o_def line_of_def)
qed

text \<open>On a sound ledger the accounts are always found, so a posting has three outcomes.\<close>

lemma post_eq:
  assumes "ledger_sound l"
  shows "ff_postJournalEntry p l = (case journal_refusal_of (po_lines p) of Some r \<Rightarrow> (Refused r, l)
     | None \<Rightarrow> (case find_entry (po_key p) (lg_entries l) of
         Some (k, _) \<Rightarrow> (Already_Posted k, l\<lparr>lg_accounts := chart\<rparr>)
       | None \<Rightarrow> (Posted (t_next (lg_entries l)), l\<lparr>lg_accounts := chart,
           lg_entries := insert_row (new_entry p (map line_of (po_lines p))) (lg_entries l)\<rparr>)))"
  using assms by (simp add: ff_postJournalEntry_def sound_seeds Let_def split: option.split)

lemma sound_chart: "ledger_sound l \<Longrightarrow> ledger_sound (l\<lparr>lg_accounts := chart\<rparr>)"
  by (auto simp: ledger_sound_def)

lemma fresh_key: "find_entry key t = None \<Longrightarrow> key \<notin> (\<lambda>(_, e). fe_key e) ` set (t_rows t)"
  by (auto simp: find_entry_def find_first_None_iff)

lemma post_sound:
  assumes l: "ledger_sound l"
  shows "ledger_sound (snd (ff_postJournalEntry p l))"
proof (cases "journal_refusal_of (po_lines p) = None \<and> find_entry (po_key p) (lg_entries l) = None")
  case True
  have "fe_key (new_entry p ls) = po_key p" for ls by (simp add: new_entry_def)
  with True l new_entry_sound [of p] fresh_key [of "po_key p" "lg_entries l"] show ?thesis
    by (auto simp: post_eq [OF l] ledger_sound_def)
next
  case False
  then show ?thesis using l sound_chart by (auto simp: post_eq [OF l] split: option.split)
qed

lemma step_sound: "ledger_step l l' \<Longrightarrow> ledger_sound l \<Longrightarrow> ledger_sound l'"
proof (induction rule: ledger_step.induct)
  case (Query l c)
  then show ?case using sound_chart sound_seeds by (simp add: getAccountBalance_def Let_def)
qed (rule post_sound)

lemma reachable_sound: "ledger_step\<^sup>*\<^sup>* empty_ledger l \<Longrightarrow> ledger_sound l"
  by (induction rule: rtranclp_induct) (simp_all add: empty_ledger_sound step_sound)

section \<open>Balances of a sound ledger\<close>

definition net :: "nat \<Rightarrow> ff_line list \<Rightarrow> int" where
  "net a ls = sum_list (map signed (filter (\<lambda>l. fl_account l = a) ls))"

lemma net_simps [simp]:
  "net a [] = 0" "net a (l # ls) = (if fl_account l = a then signed l else 0) + net a ls"
  "net a (xs @ ys) = net a xs + net a ys"
  by (simp_all add: net_def)

lemma side_totals: "side_total FF_DEBIT a t - side_total FF_CREDIT a t = net a (all_lines t)"
proof -
  have "sum_list (map fl_amount (filter (\<lambda>l. fl_account l = a \<and> fl_direction l = FF_DEBIT) ls))
      - sum_list (map fl_amount (filter (\<lambda>l. fl_account l = a \<and> fl_direction l = FF_CREDIT) ls)) = net a ls" for ls
  proof (induction ls)
    case (Cons l ls)
    then show ?case by (cases "fl_direction l") (auto simp: signed_def)
  qed simp
  then show ?thesis by (simp add: side_total_def)
qed

lemma balance_eq:
  assumes "ledger_sound l"
  shows "fst (getAccountBalance c l) = (if c \<in> {CUSTOMER_PAYMENTS, ADJUSTMENT} then 1 else - 1) * net (account_no c) (all_lines (lg_entries l))"
proof -
  obtain a where "find_code c chart = Some (account_no c, a)" "fa_type a \<in> {FA_ASSET, FA_EQUITY} \<longleftrightarrow> c \<in> {CUSTOMER_PAYMENTS, ADJUSTMENT}"
    using find_code_chart by blast
  with assms side_totals [of "account_no c" "lg_entries l"] show ?thesis
    by (auto simp: getAccountBalance_def sound_seeds Let_def)
qed

lemma all_lines_sound:
  assumes "ledger_sound l"
  shows "sum_list (map signed (all_lines (lg_entries l))) = 0"
    and "\<forall>x \<in> set (all_lines (lg_entries l)). 1 \<le> fl_account x \<and> fl_account x \<le> 8"
proof -
  have *: "\<forall>e \<in> snd ` set es. entry_sound e \<Longrightarrow> sum_list (map signed (concat (map (\<lambda>(_, e). fe_lines e) es))) = 0" for es :: "(nat \<times> ff_entry) list"
    by (induction es) (auto simp: entry_sound_def)
  have "\<forall>e \<in> snd ` set (find_many (\<lambda>_ e. fe_status e = FE_POSTED) (lg_entries l)). entry_sound e"
    using assms by (auto simp: ledger_sound_def find_many_iff)
  from * [OF this] show "sum_list (map signed (all_lines (lg_entries l))) = 0" by (simp add: all_lines_def)
  show "\<forall>x \<in> set (all_lines (lg_entries l)). 1 \<le> fl_account x \<and> fl_account x \<le> 8"
    using assms by (fastforce simp: ledger_sound_def entry_sound_def all_lines_def find_many_iff)
qed

lemma nets_add_up:
  "\<forall>x \<in> set ls. 1 \<le> fl_account x \<and> fl_account x \<le> 8 \<Longrightarrow> (\<Sum>a \<in> {1..8}. net a ls) = sum_list (map signed ls)"
proof (induction ls)
  case (Cons l ls)
  have "(\<Sum>a \<in> {1..8}. if fl_account l = a then signed l else 0) = signed l" using Cons.prems by simp
  with Cons show ?case by (simp add: sum.distrib)
qed simp

lemma eight_accounts: "(\<Sum>a \<in> {1..8 :: nat}. f a) = f 1 + f 2 + f 3 + f 4 + f 5 + f 6 + f 7 + (f 8 :: int)"
  by (simp add: numeral_eq_Suc atLeastAtMostSuc_conv)

section \<open>What an agent has\<close>

lemma agent_balances_eq:
  assumes "ledger_sound l"
  shows "ab_pending (getAgentLedgerBalances a l) = net 1 (agent_lines a (lg_entries l))"
    and "ab_available (getAgentLedgerBalances a l) = net 2 (agent_lines a (lg_entries l))"
    and "ab_escrow (getAgentLedgerBalances a l) = net 4 (agent_lines a (lg_entries l))"
proof -
  have codes: "\<exists>c. n = account_no c" if "1 \<le> n" "n \<le> 8" for n
  proof -
    have "n \<in> {1, 2, 3, 4, 5, 6, 7, 8}" using that by auto
    then show ?thesis using account_no.simps by (elim insertE emptyE) metis+
  qed
  have add: "ab_pending (foldl (add_line chart) b ls) = ab_pending b + net 1 ls
      \<and> ab_available (foldl (add_line chart) b ls) = ab_available b + net 2 ls
      \<and> ab_escrow (foldl (add_line chart) b ls) = ab_escrow b + net 4 ls"
    if "\<forall>x \<in> set ls. 1 \<le> fl_account x \<and> fl_account x \<le> 8" for ls b
    using that
  proof (induction ls arbitrary: b)
    case (Cons x ls)
    obtain c where c: "fl_account x = account_no c" using codes Cons.prems by force
    obtain r where "find_unique chart (fl_account x) = Some r" "fa_code r = c"
      using find_unique_chart [of c] by (auto simp: c)
    with Cons show ?case by (cases c) (simp_all add: c add_line_def)
  qed simp
  have no_lines: "agent_lines a (lg_entries l) = []" if "t_rows (lg_entries l) = []"
    using that by (simp add: agent_lines_def find_many_def)
  have "\<forall>x \<in> set (agent_lines a (lg_entries l)). 1 \<le> fl_account x \<and> fl_account x \<le> 8"
    using assms by (fastforce simp: ledger_sound_def entry_sound_def agent_lines_def find_many_iff)
  note add = add [OF this]
  have "lg_accounts l = chart \<or> t_rows (lg_entries l) = []" using assms by (auto simp: ledger_sound_def)
  then show "ab_pending (getAgentLedgerBalances a l) = net 1 (agent_lines a (lg_entries l))"
    "ab_available (getAgentLedgerBalances a l) = net 2 (agent_lines a (lg_entries l))"
    "ab_escrow (getAgentLedgerBalances a l) = net 4 (agent_lines a (lg_entries l))"
    using add no_lines by (auto simp: getAgentLedgerBalances_def)
qed

lemma agent_lines_insert: "agent_lines a (insert_row (new_entry p ls) t)
    = agent_lines a t @ (if po_agent p = Some a then ls else [])"
  by (simp add: agent_lines_def new_entry_def)

lemma all_lines_insert: "all_lines (insert_row (new_entry p ls) t) = all_lines t @ ls"
  by (simp add: all_lines_def new_entry_def)

end
