(* ===== verification/Ff_Payouts.thy ===== *)
theory Ff_Payouts
  imports Ff_Ledger
begin

text \<open>
  The agents' earnings and payouts of the FieldForce application: the routes \<open>app/api/earnings\<close> (an agent
  sees the wallet and requests a payout), \<open>app/api/admin/payouts\<close> (finance releases or retries it) and
  \<open>app/api/webhooks/paystack\<close> (Paystack reports the transfer), with \<open>lib/paystack.ts\<close>.

  Paystack's answer to a transfer, HMAC-SHA512, the random part of a key and \<open>JSON.parse\<close> are parameters;
  the transfers asked of Paystack are listed in the state, in order. Reasons of failures keep their constant
  text only. A route reads the clock once. An agent's
  id is authenticated before; \<open>None\<close> is a request without a valid token.
\<close>

section \<open>State\<close>

datatype payout_state = PO_REQUESTED | PO_PROCESSING | PO_SUCCESS | PO_FAILED | PO_REVERSED

record ff_payout =
  fp_agent :: nat
  fp_amount :: int
  fp_fee :: int
  fp_net :: int
  fp_status :: payout_state
  fp_paystack_ref :: "string option"
  fp_paystack_status :: "string option"
  fp_provider_ref :: "string option"
  fp_key :: "string option"
  fp_title :: "String.literal option"
  fp_journal :: "nat option"
  fp_failure_reason :: "String.literal option"
  fp_failure_code :: "String.literal option"
  fp_webhook :: "int option"
  fp_reconciled :: "int option"
  fp_requested :: int
  fp_processing :: "int option"
  fp_paid :: "int option"
  fp_failed :: "int option"
  fp_reversed :: "int option"

record ff_wallet =
  fw_agent :: nat
  fw_pending :: int
  fw_cleared :: int
  fw_available :: int
  fw_earnings :: int
  fw_paid :: int

record ff_wallet_entry =
  fx_agent :: nat
  fx_wallet :: nat
  fx_amount :: int
  fx_reference :: nat

record ff_agent =
  fg_pending :: int
  fg_cleared :: int
  fg_earnings :: int

datatype exception_type = PAYOUT_FAILURE | RECONCILIATION_REQUIRED | DUPLICATE_WEBHOOK | AMOUNT_MISMATCH | UNBALANCED_POSTING

datatype event_type = TRANSFER_SUCCESS | TRANSFER_FAILED | TRANSFER_REVERSED | UNKNOWN_EVENT

datatype money_audit = PAYOUT_REQUESTED nat nat | PAYOUT_RELEASED nat nat | PAYOUT_RETRIED nat nat | PAYSTACK_WEBHOOK event_type nat

record ff_money =
  m_agents :: "ff_agent table"
  m_wallets :: "ff_wallet table"
  m_entries :: "ff_wallet_entry table"
  m_payouts :: "ff_payout table"
  m_ledger :: ff_ledger
  m_exceptions :: "(exception_type \<times> nat option) list"
  m_audits :: "money_audit list"
  m_transfers :: "(int \<times> string) list"

datatype http_error = Http nat String.literal

type_synonym 'a route = "(ff_money, http_error, 'a) outcome"

datatype transfer_answer = Accepted "string option" | Rejected

record ff_env =
  fv_now :: nat
  fv_random :: string
  fv_secret :: string
  fv_hmac :: "string \<Rightarrow> string \<Rightarrow> string"
  fv_transfer :: "int \<Rightarrow> string \<Rightarrow> transfer_answer"

section \<open>Paystack\<close>

definition isPaystackConfigured :: "ff_env \<Rightarrow> bool" where
  "isPaystackConfigured e \<longleftrightarrow> fv_secret e \<noteq> ''''"

text \<open>\<open>timingSafeEqual\<close> throws when the lengths differ.\<close>

definition verifyPaystackSignature :: "ff_env \<Rightarrow> string \<Rightarrow> string \<Rightarrow> bool option" where
  "verifyPaystackSignature e body signature =
     (if fv_secret e = '''' then Some True
      else if signature = '''' \<or> body = '''' then Some False
      else let expected = fv_hmac e (fv_secret e) body in
        if length expected \<noteq> length signature then None else Some (expected = signature))"

definition generateProviderReference :: "ff_env \<Rightarrow> string \<Rightarrow> string" where
  "generateProviderReference e payout = ''ASOJU_PAYOUT_'' @ payout @ ''_'' @ decimal (fv_now e)"

definition generatePayoutIdempotencyKey :: "ff_env \<Rightarrow> nat \<Rightarrow> string" where
  "generatePayoutIdempotencyKey e agent = ''PAYOUT_REQ_'' @ decimal agent @ ''_'' @ decimal (fv_now e) @ ''_'' @ fv_random e"

definition initiatePaystackTransfer :: "ff_env \<Rightarrow> int \<Rightarrow> string \<Rightarrow> ff_money \<Rightarrow> transfer_answer \<times> ff_money" where
  "initiatePaystackTransfer e amount reference m =
     (if \<not> isPaystackConfigured e then (Accepted (Some reference), m)
      else (fv_transfer e amount reference, m\<lparr>m_transfers := m_transfers m @ [(amount, reference)]\<rparr>))"

record webhook_data =
  wd_reference :: "string option"
  wd_amount :: "int option"
  wd_status :: "string option"

record webhook_payload =
  wp_event :: string
  wp_data :: "webhook_data option"

record ff_webhook_event =
  ev_type :: event_type
  ev_reference :: "string option"
  ev_amount :: int
  ev_status :: string

definition truthy :: "string option \<Rightarrow> string option" where
  "truthy s = (if s = Some '''' then None else s)"

definition parseWebhookEvent :: "webhook_payload \<Rightarrow> ff_webhook_event" where
  "parseWebhookEvent p = \<lparr>
     ev_type = (if wp_event p = ''transfer.success'' then TRANSFER_SUCCESS
        else if wp_event p = ''transfer.failed'' then TRANSFER_FAILED
        else if wp_event p = ''transfer.reversed'' then TRANSFER_REVERSED else UNKNOWN_EVENT),
     ev_reference = truthy (Option.bind (wp_data p) wd_reference),
     ev_amount = (case Option.bind (wp_data p) wd_amount of Some x \<Rightarrow> x | None \<Rightarrow> 0),
     ev_status = (case truthy (Option.bind (wp_data p) wd_status) of Some s \<Rightarrow> s | None \<Rightarrow> ''unknown'')\<rparr>"

definition mapPaystackStatusToPayout :: "string \<Rightarrow> payout_state \<times> bool" where
  "mapPaystackStatusToPayout s =
     (if s \<in> {''success'', ''completed''} then (PO_SUCCESS, True)
      else if s \<in> {''pending'', ''processing''} then (PO_PROCESSING, False)
      else if s \<in> {''failed'', ''expired''} then (PO_FAILED, True)
      else if s = ''reversed'' then (PO_REVERSED, True)
      else if s = ''cancelled'' then (PO_FAILED, True)
      else (PO_PROCESSING, False))"

definition calculatePaystackFee :: "int \<Rightarrow> int" where
  "calculatePaystackFee kobo = (if kobo \<le> 1000000 then \<lceil>of_int kobo * (15 / 1000 :: rat)\<rceil> else 200000)"

section \<open>Helpers of the routes\<close>

definition wallet_of :: "nat \<Rightarrow> ff_money \<Rightarrow> (nat \<times> ff_wallet) option" where
  "wallet_of agent m = find_first (\<lambda>_ w. fw_agent w = agent) (m_wallets m)"

definition set_payout :: "nat \<Rightarrow> (ff_payout \<Rightarrow> ff_payout) \<Rightarrow> ff_money \<Rightarrow> ff_money" where
  "set_payout k f m = m\<lparr>m_payouts := update_row k f (m_payouts m)\<rparr>"

definition set_wallet :: "nat \<Rightarrow> (ff_wallet \<Rightarrow> ff_wallet) \<Rightarrow> ff_money \<Rightarrow> ff_money" where
  "set_wallet k f m = m\<lparr>m_wallets := update_row k f (m_wallets m)\<rparr>"

definition record_exception :: "exception_type \<Rightarrow> nat option \<Rightarrow> ff_money \<Rightarrow> ff_money" where
  "record_exception x payout m = m\<lparr>m_exceptions := m_exceptions m @ [(x, payout)]\<rparr>"

definition record_audit :: "money_audit \<Rightarrow> ff_money \<Rightarrow> ff_money" where
  "record_audit a m = m\<lparr>m_audits := m_audits m @ [a]\<rparr>"

definition entry_of :: "journal_result \<Rightarrow> nat option" where
  "entry_of r = (case r of Posted k \<Rightarrow> Some k | Already_Posted k \<Rightarrow> Some k | _ \<Rightarrow> None)"

text \<open>\<open>seedChartOfAccounts\<close>, then a posting; an account that is not found is an exception of the route.\<close>

definition post_or_throw :: "(ff_ledger \<Rightarrow> journal_result \<times> ff_ledger) \<Rightarrow> ff_money \<Rightarrow> journal_result route" where
  "post_or_throw post m = (case post (m_ledger m\<lparr>lg_accounts := seedChartOfAccounts (lg_accounts (m_ledger m))\<rparr>) of
     (Account_Not_Found, l) \<Rightarrow> throw (Http 500 STR ''LedgerAccount not found'') (m\<lparr>m_ledger := l\<rparr>)
   | (r, l) \<Rightarrow> return r (m\<lparr>m_ledger := l\<rparr>))"

text \<open>\<open>journalEntryId\<close> is a unique column.\<close>

definition link_journal :: "nat \<Rightarrow> journal_result \<Rightarrow> ff_money \<Rightarrow> unit route" where
  "link_journal k r m = (case entry_of r of
     None \<Rightarrow> return () m
   | Some j \<Rightarrow> if exists_row (\<lambda>k' p. k' \<noteq> k \<and> fp_journal p = Some j) (m_payouts m)
       then throw (Http 500 STR ''Unique constraint failed'') m
       else return () (set_payout k (\<lambda>p. p\<lparr>fp_journal := Some j\<rparr>) m))"

section \<open>The agent's side\<close>

definition empty_payout :: "nat \<Rightarrow> int \<Rightarrow> int \<Rightarrow> ff_payout" where
  "empty_payout agent amount t = \<lparr>fp_agent = agent, fp_amount = amount, fp_fee = 0, fp_net = amount, fp_status = PO_REQUESTED,
     fp_paystack_ref = None, fp_paystack_status = None, fp_provider_ref = None, fp_key = None, fp_title = None,
     fp_journal = None, fp_failure_reason = None, fp_failure_code = None, fp_webhook = None, fp_reconciled = None,
     fp_requested = t, fp_processing = None, fp_paid = None, fp_failed = None, fp_reversed = None\<rparr>"

definition day_ms :: int where
  "day_ms = 24 * 60 * 60 * 1000"

definition demo_payouts :: "nat \<Rightarrow> int \<Rightarrow> ff_payout list" where
  "demo_payouts agent t = map (\<lambda>(amount, fee, net, s, (ps, pr), title, ago, paid).
       (empty_payout agent amount (t - ago * day_ms))\<lparr>fp_fee := fee, fp_net := net, fp_status := s, fp_paystack_ref := ps,
         fp_provider_ref := pr, fp_title := Some title, fp_paid := map_option (\<lambda>n. t - n * day_ms) paid\<rparr>)
    [(15000, 1500, 13500, PO_SUCCESS, (Some ''PSTK_0012345678'', Some ''ASOJU_PAYOUT_DEMO_001''), STR ''Property Inspection - 3BR Flat'', 30, Some 28),
     (8000, 800, 7200, PO_SUCCESS, (Some ''PSTK_0012345679'', Some ''ASOJU_PAYOUT_DEMO_002''), STR ''Document Collection - Land Title'', 20, Some 18),
     (20000, 2000, 18000, PO_SUCCESS, (Some ''PSTK_0012345680'', Some ''ASOJU_PAYOUT_DEMO_003''), STR ''Construction Site Progress Check'', 14, Some 12),
     (5000, 500, 4500, PO_SUCCESS, (Some ''PSTK_0012345681'', Some ''ASOJU_PAYOUT_DEMO_004''), STR ''Delivery Verification - Electronics'', 7, Some 5),
     (12000, 1200, 10800, PO_PROCESSING, (Some ''PSTK_0012345682'', Some ''ASOJU_PAYOUT_DEMO_005''), STR ''Property Inspection - Office Space'', 3, None),
     (18000, 1800, 16200, PO_REQUESTED, (None, None), STR ''Business Verification - Tech Startup'', 1, None)]"

record earnings_view =
  vw_payouts :: "(nat \<times> ff_payout) list"
  vw_wallet :: "ff_wallet option"

text \<open>A wallet for an agent that does not exist breaks its foreign key.\<close>

definition ensure_wallet :: "nat \<Rightarrow> ff_money \<Rightarrow> unit route" where
  "ensure_wallet agent m = (case wallet_of agent m of
     Some _ \<Rightarrow> return () m
   | None \<Rightarrow> (case find_unique (m_agents m) agent of
       None \<Rightarrow> throw (Http 500 STR ''Failed to fetch earnings'') m
     | Some g \<Rightarrow> return () (m\<lparr>m_wallets := insert_row \<lparr>fw_agent = agent, fw_pending = fg_pending g, fw_cleared = fg_cleared g,
         fw_available = 0, fw_earnings = fg_earnings g, fw_paid = 0\<rparr> (m_wallets m)\<rparr>)))"

definition payouts_of :: "nat \<Rightarrow> ff_money \<Rightarrow> (nat \<times> ff_payout) list" where
  "payouts_of agent m = sort_key (\<lambda>(_, p). - fp_requested p) (find_many (\<lambda>_ p. fp_agent p = agent) (m_payouts m))"

definition getEarnings :: "ff_env \<Rightarrow> nat option \<Rightarrow> ff_money \<Rightarrow> earnings_view route" where
  "getEarnings e auth m = (case auth of
     None \<Rightarrow> throw (Http 401 STR ''Unauthorized'') m
   | Some agent \<Rightarrow> and_then (ensure_wallet agent m) (\<lambda>_ m.
       let m = (if payouts_of agent m = []
                then m\<lparr>m_payouts := insert_rows (demo_payouts agent (int (fv_now e))) (m_payouts m)\<rparr> else m)
       in return \<lparr>vw_payouts = payouts_of agent m, vw_wallet = map_option snd (wallet_of agent m)\<rparr> m))"

text \<open>\<open>Math.round(amount * 0.1)\<close> of a whole amount.\<close>

definition asoju_fee :: "int \<Rightarrow> int" where
  "asoju_fee amount = \<lfloor>of_int amount / 10 + (1 / 2 :: rat)\<rfloor>"

definition new_payout :: "ff_env \<Rightarrow> nat \<Rightarrow> int \<Rightarrow> ff_payout" where
  "new_payout e agent amount = (empty_payout agent amount (int (fv_now e)))
     \<lparr>fp_fee := asoju_fee amount, fp_net := amount - asoju_fee amount,
      fp_provider_ref := Some (generateProviderReference e ''pending''),
      fp_key := Some (generatePayoutIdempotencyKey e agent)\<rparr>"

definition deduct :: "nat \<Rightarrow> int \<Rightarrow> nat \<Rightarrow> ff_money \<Rightarrow> ff_money" where
  "deduct agent amount payout m = (case wallet_of agent m of
     None \<Rightarrow> m
   | Some (w, _) \<Rightarrow> (set_wallet w (\<lambda>x. x\<lparr>fw_available := fw_available x - amount\<rparr>) m)
       \<lparr>m_entries := insert_row \<lparr>fx_agent = agent, fx_wallet = w, fx_amount = - amount, fx_reference = payout\<rparr> (m_entries m)\<rparr>)"

definition requestPayout :: "ff_env \<Rightarrow> nat option \<Rightarrow> int \<Rightarrow> ff_money \<Rightarrow> nat route" where
  "requestPayout e auth amount m = (case auth of
     None \<Rightarrow> throw (Http 401 STR ''Unauthorized'') m
   | Some agent \<Rightarrow>
     if amount \<le> 0 then throw (Http 400 STR ''Invalid amount'') m
     else if find_unique (m_agents m) agent = None then throw (Http 404 STR ''Agent not found'') m
     else if (case wallet_of agent m of Some (_, w) \<Rightarrow> fw_available w | None \<Rightarrow> 0) < amount
     then throw (Http 400 STR ''Insufficient available balance'') m
     else if exists_row (\<lambda>_ p. fp_key p = Some (generatePayoutIdempotencyKey e agent)) (m_payouts m)
     then throw (Http 409 STR ''Duplicate'') m
     else let k = t_next (m_payouts m) in
       and_then (post_or_throw (postPayoutRequest k agent amount)
         (m\<lparr>m_payouts := insert_row (new_payout e agent amount) (m_payouts m)\<rparr>)) (\<lambda>r m.
       and_then (link_journal k r m) (\<lambda>_ m.
         return k (record_audit (PAYOUT_REQUESTED agent k) (deduct agent amount k m)))))"

section \<open>The administrator's side\<close>

datatype ff_admin_role = FR_SUPER_ADMIN | FR_OPERATIONS | FR_QC | FR_FINANCE | FR_SUPPORT | FR_ANALYST

record ff_admin =
  ad_id :: nat
  ad_role :: ff_admin_role

definition requireAdminAuth :: "ff_admin_role list \<Rightarrow> ff_admin option \<Rightarrow> http_error + ff_admin" where
  "requireAdminAuth allowed auth = (case auth of
     None \<Rightarrow> Inl (Http 401 STR ''Admin authentication required'')
   | Some a \<Rightarrow> if allowed \<noteq> [] \<and> ad_role a \<notin> set allowed then Inl (Http 403 STR ''Role is not authorized for this action'')
       else Inr a)"

definition fail_payout :: "ff_env \<Rightarrow> nat \<Rightarrow> ff_money \<Rightarrow> ff_money" where
  "fail_payout e k m = record_exception PAYOUT_FAILURE (Some k) (set_payout k (\<lambda>p. p\<lparr>fp_status := PO_FAILED,
     fp_failure_reason := Some STR ''Transfer initiation failed'', fp_failure_code := Some STR ''TRANSFER_INITIATION_FAILED'',
     fp_failed := Some (int (fv_now e))\<rparr>) m)"

text \<open>The transfer asked of Paystack and what becomes of its answer.\<close>

definition start_transfer :: "ff_env \<Rightarrow> ff_admin \<Rightarrow> nat \<Rightarrow> ff_payout \<Rightarrow> string \<Rightarrow> ff_money \<Rightarrow> unit route" where
  "start_transfer e a k p reference m = (case initiatePaystackTransfer e (fp_amount p * 100) reference m of
     (Rejected, m) \<Rightarrow> throw (Http 500 STR ''Transfer initiation failed'') (fail_payout e k m)
   | (Accepted r, m) \<Rightarrow> return () (record_audit (PAYOUT_RELEASED (ad_id a) k)
       (case truthy r of None \<Rightarrow> m | Some r \<Rightarrow> set_payout k (\<lambda>p. p\<lparr>fp_paystack_ref := Some r\<rparr>) m)))"

definition release :: "ff_env \<Rightarrow> ff_admin \<Rightarrow> nat \<Rightarrow> ff_payout \<Rightarrow> ff_money \<Rightarrow> unit route" where
  "release e a k p m =
     (if fp_status p \<noteq> PO_REQUESTED then throw (Http 422 STR ''Cannot release payout in status'') m
      else let reference = generateProviderReference e (decimal k); key = generatePayoutIdempotencyKey e (fp_agent p) in
        if exists_row (\<lambda>_ q. fp_key q = Some key) (m_payouts m)
        then throw (Http 409 STR ''Duplicate payout request detected'') m
        else and_then (post_or_throw (postPayoutRequest k (fp_agent p) (fp_amount p))
            (set_payout k (\<lambda>p. p\<lparr>fp_status := PO_PROCESSING, fp_provider_ref := Some reference, fp_key := Some key,
               fp_processing := Some (int (fv_now e))\<rparr>) m)) (\<lambda>r m.
          and_then (link_journal k r m) (\<lambda>_. start_transfer e a k p reference)))"

definition retry :: "ff_env \<Rightarrow> ff_admin \<Rightarrow> nat \<Rightarrow> ff_payout \<Rightarrow> ff_money \<Rightarrow> unit route" where
  "retry e a k p m =
     (if fp_status p \<noteq> PO_FAILED then throw (Http 422 STR ''Cannot retry payout in status'') m
      else return () (record_audit (PAYOUT_RETRIED (ad_id a) k) (set_payout k (\<lambda>p. p\<lparr>fp_status := PO_PROCESSING,
        fp_failure_reason := None, fp_failure_code := None, fp_processing := Some (int (fv_now e))\<rparr>) m)))"

datatype payout_action = Release | Retry | Other_Action

definition postAdminPayout :: "ff_env \<Rightarrow> ff_admin option \<Rightarrow> nat option \<Rightarrow> payout_action option \<Rightarrow> ff_money \<Rightarrow> ff_payout option route" where
  "postAdminPayout e auth payout action m = (case requireAdminAuth [FR_SUPER_ADMIN, FR_FINANCE] auth of
     Inl x \<Rightarrow> throw x m
   | Inr a \<Rightarrow> (case (payout, action) of
       (Some k, Some act) \<Rightarrow> (case find_unique (m_payouts m) k of
           None \<Rightarrow> throw (Http 404 STR ''Payout not found'') m
         | Some p \<Rightarrow> and_then (case act of
               Release \<Rightarrow> release e a k p m
             | Retry \<Rightarrow> retry e a k p m
             | Other_Action \<Rightarrow> throw (Http 400 STR ''Invalid action'') m)
             (\<lambda>_ m. return (find_unique (m_payouts m) k) m))
     | _ \<Rightarrow> throw (Http 400 STR ''payoutId and action are required'') m))"

section \<open>Paystack's side\<close>

datatype webhook_answer = Received bool | Received_Again

definition note_mismatch :: "nat \<Rightarrow> ff_payout \<Rightarrow> ff_webhook_event \<Rightarrow> ff_money \<Rightarrow> ff_money" where
  "note_mismatch k p ev m =
     (if 0 < ev_amount ev \<and> ev_amount ev \<noteq> fp_amount p then record_exception AMOUNT_MISMATCH (Some k) m else m)"

text \<open>The wallet is read again after the ledger; an agent without one is skipped.\<close>

definition change_wallet :: "nat \<Rightarrow> (ff_wallet \<Rightarrow> ff_wallet) \<Rightarrow> ff_money \<Rightarrow> ff_money" where
  "change_wallet agent f m = (case wallet_of agent m of None \<Rightarrow> m | Some (w, _) \<Rightarrow> set_wallet w f m)"

definition transfer_succeeded :: "ff_env \<Rightarrow> nat \<Rightarrow> ff_payout \<Rightarrow> ff_webhook_event \<Rightarrow> ff_money \<Rightarrow> unit route" where
  "transfer_succeeded e k p ev m =
     and_then (post_or_throw (postPayoutSuccess k (fp_agent p) (fp_amount p) (fp_fee p) (fp_net p))
       (set_payout k (\<lambda>p. p\<lparr>fp_status := fst (mapPaystackStatusToPayout (ev_status ev)), fp_paystack_ref := ev_reference ev,
          fp_paystack_status := Some (ev_status ev), fp_webhook := Some (int (fv_now e)),
          fp_paid := (case fp_paid p of Some t \<Rightarrow> Some t | None \<Rightarrow> Some (int (fv_now e))),
          fp_reconciled := Some (int (fv_now e))\<rparr>) m)) (\<lambda>r m.
     and_then (link_journal k r (case r of Refused _ \<Rightarrow> record_exception UNBALANCED_POSTING (Some k) m | _ \<Rightarrow> m)) (\<lambda>_ m.
       return () (change_wallet (fp_agent p) (\<lambda>w. w\<lparr>fw_paid := fw_paid w + fp_net p\<rparr>) m)))"

definition transfer_failed :: "ff_env \<Rightarrow> nat \<Rightarrow> ff_payout \<Rightarrow> ff_webhook_event \<Rightarrow> ff_money \<Rightarrow> unit route" where
  "transfer_failed e k p ev m =
     and_then (post_or_throw (postPayoutReversal k (fp_agent p) (fp_amount p))
       (set_payout k (\<lambda>p. p\<lparr>fp_status := PO_FAILED, fp_paystack_ref := ev_reference ev,
          fp_paystack_status := Some (ev_status ev), fp_failure_reason := Some STR ''Transfer failed'',
          fp_failure_code := Some STR ''TRANSFER_FAILED'', fp_webhook := Some (int (fv_now e)),
          fp_failed := Some (int (fv_now e))\<rparr>) m)) (\<lambda>r m.
       return () (record_exception PAYOUT_FAILURE (Some k) (case r of
           Refused _ \<Rightarrow> m
         | _ \<Rightarrow> change_wallet (fp_agent p) (\<lambda>w. w\<lparr>fw_available := fw_available w + fp_amount p\<rparr>) m)))"

definition transfer_reversed :: "ff_env \<Rightarrow> nat \<Rightarrow> ff_payout \<Rightarrow> ff_webhook_event \<Rightarrow> ff_money \<Rightarrow> unit route" where
  "transfer_reversed e k p ev m =
     and_then (post_or_throw (postPayoutReversal k (fp_agent p) (fp_amount p))
       (set_payout k (\<lambda>p. p\<lparr>fp_status := PO_REVERSED, fp_paystack_ref := ev_reference ev,
          fp_paystack_status := Some (ev_status ev), fp_webhook := Some (int (fv_now e)),
          fp_reversed := Some (int (fv_now e)), fp_failure_reason := Some STR ''Transfer reversed by provider''\<rparr>) m)) (\<lambda>_ m.
       return () (change_wallet (fp_agent p)
         (\<lambda>w. w\<lparr>fw_available := fw_available w + fp_amount p, fw_paid := fw_paid w - fp_net p\<rparr>) m))"

definition settle_event :: "ff_env \<Rightarrow> nat \<Rightarrow> ff_payout \<Rightarrow> ff_webhook_event \<Rightarrow> ff_money \<Rightarrow> unit route" where
  "settle_event e k p ev m = (case ev_type ev of
     TRANSFER_SUCCESS \<Rightarrow> transfer_succeeded e k p ev m
   | TRANSFER_FAILED \<Rightarrow> transfer_failed e k p ev m
   | TRANSFER_REVERSED \<Rightarrow> transfer_reversed e k p ev m
   | UNKNOWN_EVENT \<Rightarrow> return () m)"

definition payout_event :: "ff_env \<Rightarrow> string \<Rightarrow> ff_webhook_event \<Rightarrow> ff_money \<Rightarrow> webhook_answer route" where
  "payout_event e reference ev m = (case find_first (\<lambda>_ p. fp_provider_ref p = Some reference) (m_payouts m) of
     None \<Rightarrow> return (Received False) (record_exception RECONCILIATION_REQUIRED None m)
   | Some (k, p) \<Rightarrow> if fp_webhook p \<noteq> None then return Received_Again (record_exception DUPLICATE_WEBHOOK (Some k) m)
       else and_then (settle_event e k p ev (note_mismatch k p ev m)) (\<lambda>_ m.
         return (Received True) (record_audit (PAYSTACK_WEBHOOK (ev_type ev) k) m)))"

definition paystackWebhook ::
  "ff_env \<Rightarrow> (string \<Rightarrow> webhook_payload option) \<Rightarrow> string \<Rightarrow> string \<Rightarrow> ff_money \<Rightarrow> webhook_answer route" where
  "paystackWebhook e json_parse body signature m = (case (json_parse body, verifyPaystackSignature e body signature) of
     (Some payload, Some True) \<Rightarrow> let ev = parseWebhookEvent payload in
       if ev_type ev = UNKNOWN_EVENT then return (Received False) m
       else (case ev_reference ev of
           None \<Rightarrow> return (Received False) m
         | Some reference \<Rightarrow> payout_event e reference ev m)
   | (Some _, Some False) \<Rightarrow> throw (Http 401 STR ''Invalid signature'') m
   | _ \<Rightarrow> throw (Http 500 STR ''Webhook processing failed'') m)"

section \<open>Runs\<close>

text \<open>Requests, releases, retries and webhooks in any order, with any answers of Paystack, and views of the earnings by
  agents who have a wallet and a payout. The first view of the earnings of any other agent adds a wallet or
  demonstration payouts; it is not among the steps.\<close>

inductive money_step :: "ff_money \<Rightarrow> ff_money \<Rightarrow> bool" where
  Request: "money_step m (snd (requestPayout e auth amount m))"
| Admin: "money_step m (snd (postAdminPayout e admin payout action m))"
| Webhook: "money_step m (snd (paystackWebhook e json_parse body signature m))"
| View: "payouts_of a m \<noteq> [] \<Longrightarrow> wallet_of a m \<noteq> None \<Longrightarrow> money_step m (snd (getEarnings e (Some a) m))"

lemma view_known: "payouts_of a m \<noteq> [] \<Longrightarrow> wallet_of a m \<noteq> None \<Longrightarrow> snd (getEarnings e (Some a) m) = m"
  by (auto simp: getEarnings_def ensure_wallet_def)

end
