(* ===== verification/Ff_Money_Properties.thy ===== *)
theory Ff_Money_Properties
  imports Ff_Payouts
begin

text \<open>
  Properties of the money of the FieldForce application: the ledger balances, the agents' wallets follow it,
  and two ways a payout goes wrong.
\<close>

section \<open>Payouts that nothing moves\<close>

text \<open>An operation that leaves payout \<open>k\<close> as it is.\<close>

definition same_payout :: "nat \<Rightarrow> ff_money \<Rightarrow> ff_money \<Rightarrow> bool" where
  "same_payout k m m' \<longleftrightarrow> (wf_table (m_payouts m) \<and> find_unique (m_payouts m) k \<noteq> None
     \<longrightarrow> wf_table (m_payouts m') \<and> find_unique (m_payouts m') k = find_unique (m_payouts m) k)"

lemma same_payout_eq: "m_payouts m' = m_payouts m \<Longrightarrow> same_payout k m m'"
  by (simp add: same_payout_def)

lemma same_payout_trans: "same_payout k m m' \<Longrightarrow> same_payout k m' m'' \<Longrightarrow> same_payout k m m''"
  by (simp add: same_payout_def)

lemma set_payout_fields [simp]:
  "m_payouts (set_payout k f m) = update_row k f (m_payouts m)" "m_wallets (set_payout k f m) = m_wallets m"
  "m_ledger (set_payout k f m) = m_ledger m" "m_agents (set_payout k f m) = m_agents m"
  "m_transfers (set_payout k f m) = m_transfers m" "m_exceptions (set_payout k f m) = m_exceptions m"
  by (simp_all add: set_payout_def)

lemma record_fields [simp]:
  "m_payouts (record_exception x y m) = m_payouts m" "m_wallets (record_exception x y m) = m_wallets m"
  "m_ledger (record_exception x y m) = m_ledger m" "m_transfers (record_exception x y m) = m_transfers m"
  "m_payouts (record_audit a m) = m_payouts m" "m_wallets (record_audit a m) = m_wallets m"
  "m_ledger (record_audit a m) = m_ledger m" "m_transfers (record_audit a m) = m_transfers m"
  "m_agents (record_exception x y m) = m_agents m" "m_agents (record_audit a m) = m_agents m"
  by (simp_all add: record_exception_def record_audit_def)

lemma set_wallet_fields [simp]:
  "m_payouts (set_wallet k f m) = m_payouts m" "m_ledger (set_wallet k f m) = m_ledger m"
  "m_wallets (set_wallet k f m) = update_row k f (m_wallets m)"
  by (simp_all add: set_wallet_def)

lemma change_wallet_payouts [simp]:
  "m_payouts (change_wallet a f m) = m_payouts m" "m_ledger (change_wallet a f m) = m_ledger m"
  by (simp_all add: change_wallet_def split: option.split)

lemma deduct_payouts [simp]: "m_payouts (deduct a x k m) = m_payouts m" "m_ledger (deduct a x k m) = m_ledger m"
  by (simp_all add: deduct_def split: option.split)

lemma initiate_fields [simp]:
  "m_payouts (snd (initiatePaystackTransfer e x r m)) = m_payouts m"
  "m_wallets (snd (initiatePaystackTransfer e x r m)) = m_wallets m"
  "m_ledger (snd (initiatePaystackTransfer e x r m)) = m_ledger m"
  by (simp_all add: initiatePaystackTransfer_def)

lemma post_or_throw_payouts [simp]: "m_payouts (snd (post_or_throw post m)) = m_payouts m"
  by (simp add: post_or_throw_def split: prod.split journal_result.split)

lemma set_payout_same: "j \<noteq> k \<Longrightarrow> same_payout k m (set_payout j f m)"
  by (simp add: same_payout_def tbl.lookup_modify)

lemma link_journal_same: "j \<noteq> k \<Longrightarrow> same_payout k m (snd (link_journal j r m))"
  by (simp add: link_journal_def set_payout_same same_payout_eq split: option.split)

lemma new_payout_same: "same_payout k m (m\<lparr>m_payouts := insert_row p (m_payouts m)\<rparr>)"
  by (auto simp: same_payout_def tbl.lookup_insert tbl.lookup_fresh)

lemma and_then_same:
  assumes "same_payout k m (snd r)" "\<And>a m'. same_payout k m' (snd (f a m'))"
  shows "same_payout k m (snd (and_then r f))"
  using assms same_payout_trans by (force simp: and_then_def split: prod.split sum.split)

lemma post_or_throw_same: "same_payout k m m' \<Longrightarrow> same_payout k m (snd (post_or_throw post m'))"
  by (rule same_payout_trans [OF _ same_payout_eq]) simp_all

lemma request_same: "same_payout k m (snd (requestPayout e auth amount m))"
proof (cases "find_unique (m_payouts m) k = None \<or> \<not> wf_table (m_payouts m)")
  case False
  then have "t_next (m_payouts m) \<noteq> k" using tbl.lookup_fresh by metis
  then show ?thesis
    by (auto simp: requestPayout_def Let_def same_payout_eq split: option.split
        intro!: and_then_same post_or_throw_same new_payout_same link_journal_same)
qed (auto simp: same_payout_def)

lemma start_transfer_same: "j \<noteq> k \<Longrightarrow> same_payout k m (snd (start_transfer e a j p r m))"
proof -
  assume j: "j \<noteq> k"
  obtain t m' where t: "initiatePaystackTransfer e (fp_amount p * 100) r m = (t, m')" by fastforce
  then have "m_payouts m' = m_payouts m" using initiate_fields(1) by (metis snd_conv)
  with j t show ?thesis
    by (auto simp: start_transfer_def fail_payout_def same_payout_def tbl.lookup_modify
        split: transfer_answer.split option.split)
qed

lemma admin_same:
  assumes "\<And>p. find_unique (m_payouts m) k = Some p \<Longrightarrow> fp_status p \<notin> {PO_REQUESTED, PO_FAILED}"
  shows "same_payout k m (snd (postAdminPayout e auth payout action m))"
proof -
  have release: "same_payout k m (snd (release e a j p m))" if "find_unique (m_payouts m) j = Some p" for a j p
    using assms that
    by (auto simp: release_def Let_def same_payout_eq
        intro!: and_then_same post_or_throw_same link_journal_same set_payout_same start_transfer_same)
  have retry: "same_payout k m (snd (retry e a j p m))" if "find_unique (m_payouts m) j = Some p" for a j p
    using assms that set_payout_same [of j k m] by (auto simp: retry_def same_payout_def)
  show ?thesis
    by (auto simp: postAdminPayout_def same_payout_eq split: sum.split option.split payout_action.split
        intro!: and_then_same release retry)
qed

lemma link_noted_same: "j \<noteq> k \<Longrightarrow> same_payout k m (snd (link_journal j r (record_exception x y m)))"
  by (rule same_payout_trans [OF same_payout_eq link_journal_same]) simp_all

lemma settle_same: "j \<noteq> k \<Longrightarrow> same_payout k m (snd (settle_event e j p ev m))"
  by (auto simp: settle_event_def transfer_succeeded_def transfer_failed_def transfer_reversed_def same_payout_eq
      split: event_type.split journal_result.split
      intro!: and_then_same post_or_throw_same link_journal_same link_noted_same set_payout_same)

lemma payout_event_same:
  assumes "\<And>p. find_unique (m_payouts m) k = Some p \<Longrightarrow> fp_webhook p \<noteq> None"
  shows "same_payout k m (snd (payout_event e r ev m))"
proof (cases "find_first (\<lambda>_ p. fp_provider_ref p = Some r) (m_payouts m)")
  case None
  then show ?thesis by (simp add: payout_event_def same_payout_eq)
next
  case (Some x)
  obtain j p where x: "x = (j, p)" by (cases x)
  have noted: "same_payout k m (note_mismatch j p ev m)" by (simp add: note_mismatch_def same_payout_eq)
  show ?thesis
  proof (cases "fp_webhook p = None")
    case True
    show ?thesis
    proof (cases "wf_table (m_payouts m)")
      case wf: True
      then have "find_unique (m_payouts m) j = Some p"
        using find_first_SomeD [OF Some [unfolded x]] by (simp add: find_unique_in_rows)
      with assms True have "j \<noteq> k" by auto
      then show ?thesis using True Some x same_payout_trans [OF noted settle_same]
        by (auto simp: payout_event_def same_payout_eq intro!: and_then_same)
    qed (simp add: same_payout_def)
  qed (simp add: payout_event_def Some x same_payout_eq)
qed

lemma webhook_same:
  assumes "\<And>p. find_unique (m_payouts m) k = Some p \<Longrightarrow> fp_webhook p \<noteq> None"
  shows "same_payout k m (snd (paystackWebhook e json_parse body signature m))"
  by (auto simp: paystackWebhook_def Let_def same_payout_eq split: option.split bool.split intro!: payout_event_same dest: assms)

definition settled_processing :: "ff_payout \<Rightarrow> bool" where
  "settled_processing p \<longleftrightarrow> fp_status p = PO_PROCESSING \<and> fp_webhook p \<noteq> None"

lemma step_same:
  "money_step m m' \<Longrightarrow> find_unique (m_payouts m) k = Some p \<Longrightarrow> settled_processing p \<Longrightarrow> same_payout k m m'"
proof (induction rule: money_step.induct)
  case (Admin m e admin payout action)
  then show ?case by (intro admin_same) (simp add: settled_processing_def)
next
  case (Webhook m e json_parse body signature)
  then show ?case by (intro webhook_same) (auto simp: settled_processing_def)
next
  case (View a m e)
  then show ?case by (simp add: view_known same_payout_def)
qed (rule request_same)

lemma run_same:
  "money_step\<^sup>*\<^sup>* m m' \<Longrightarrow> wf_table (m_payouts m) \<Longrightarrow> find_unique (m_payouts m) k = Some p \<Longrightarrow> settled_processing p
     \<Longrightarrow> wf_table (m_payouts m') \<and> find_unique (m_payouts m') k = Some p"
proof (induction rule: rtranclp_induct)
  case (step m' m'')
  then have "same_payout k m' m''" by (blast intro: step_same)
  with step show ?case by (simp add: same_payout_def)
qed simp

section \<open>Postings\<close>

definition entry_keys :: "ff_ledger \<Rightarrow> string set" where
  "entry_keys l = (\<lambda>(_, e). fe_key e) ` set (t_rows (lg_entries l))"

definition available :: "nat \<Rightarrow> ff_ledger \<Rightarrow> int" where
  "available a l = net 2 (agent_lines a (lg_entries l))"

definition request_key :: "nat \<Rightarrow> string" where "request_key k = ''PAYOUT_REQ_'' @ decimal k"

definition reversal_key :: "nat \<Rightarrow> string" where "reversal_key k = ''PAYOUT_REVERSAL_'' @ decimal k"

definition success_key :: "nat \<Rightarrow> string" where "success_key k = ''PAYOUT_SUCCESS_'' @ decimal k"

lemma decimal_eq: "decimal k = decimal k' \<longleftrightarrow> k = k'"
  using read_decimal_decimal by metis

lemma keys_differ [simp]:
  "request_key k \<noteq> reversal_key k'" "request_key k \<noteq> success_key k'" "reversal_key k \<noteq> success_key k'"
  "reversal_key k' \<noteq> request_key k" "success_key k' \<noteq> request_key k" "success_key k' \<noteq> reversal_key k"
  "request_key k = request_key k' \<longleftrightarrow> k = k'" "reversal_key k = reversal_key k' \<longleftrightarrow> k = k'"
  by (simp_all add: request_key_def reversal_key_def success_key_def decimal_eq)

lemma find_entry_Some_iff: "(\<exists>j e. find_entry key (lg_entries l) = Some (j, e)) \<longleftrightarrow> key \<in> entry_keys l"
proof -
  have "find_entry key (lg_entries l) = None \<longleftrightarrow> key \<notin> entry_keys l"
    by (auto simp: find_entry_def find_first_None_iff entry_keys_def)
  then show ?thesis by (cases "find_entry key (lg_entries l)") auto
qed

text \<open>The outcome of a posting on a sound ledger.\<close>

lemma post_cases:
  assumes sound: "ledger_sound (m_ledger m)"
  obtains r l where "post_or_throw (ff_postJournalEntry p) m = return r (m\<lparr>m_ledger := l\<rparr>)" "ledger_sound l"
    "journal_refusal_of (po_lines p) \<noteq> None \<Longrightarrow> (\<exists>x. r = Refused x) \<and> lg_entries l = lg_entries (m_ledger m)"
    "journal_refusal_of (po_lines p) = None \<Longrightarrow> po_key p \<in> entry_keys (m_ledger m)
       \<Longrightarrow> (\<exists>j. r = Already_Posted j \<and> j < t_next (lg_entries (m_ledger m))) \<and> lg_entries l = lg_entries (m_ledger m)"
    "journal_refusal_of (po_lines p) = None \<Longrightarrow> po_key p \<notin> entry_keys (m_ledger m)
       \<Longrightarrow> r = Posted (t_next (lg_entries (m_ledger m)))
         \<and> lg_entries l = insert_row (new_entry p (map line_of (po_lines p))) (lg_entries (m_ledger m))"
proof -
  let ?l = "m_ledger m\<lparr>lg_accounts := chart\<rparr>"
  obtain r l where rl: "ff_postJournalEntry p ?l = (r, l)" by fastforce
  have l0: "ledger_sound ?l" using sound by (rule sound_chart)
  have l: "ledger_sound l" using post_sound [OF l0, of p] rl by simp
  note eq = post_eq [OF l0, of p, unfolded rl]
  have "r \<noteq> Account_Not_Found" using eq by (auto split: option.splits)
  then have 1: "post_or_throw (ff_postJournalEntry p) m = return r (m\<lparr>m_ledger := l\<rparr>)"
    using rl by (simp add: post_or_throw_def sound_seeds [OF sound] split: journal_result.split)
  have below: "find_entry key (lg_entries (m_ledger m)) = Some (j, e) \<Longrightarrow> j < t_next (lg_entries (m_ledger m))" for key j e
    using sound by (auto simp: find_entry_def ledger_sound_def dest!: find_first_SomeD intro: rows_below_next)
  show thesis
  proof (rule that [OF 1 l])
    assume "journal_refusal_of (po_lines p) \<noteq> None"
    with eq show "(\<exists>x. r = Refused x) \<and> lg_entries l = lg_entries (m_ledger m)" by auto
  next
    assume ok: "journal_refusal_of (po_lines p) = None" and "po_key p \<in> entry_keys (m_ledger m)"
    then obtain j e where "find_entry (po_key p) (lg_entries (m_ledger m)) = Some (j, e)"
      using find_entry_Some_iff by metis
    with eq ok below show "(\<exists>j. r = Already_Posted j \<and> j < t_next (lg_entries (m_ledger m))) \<and> lg_entries l = lg_entries (m_ledger m)"
      by auto
  next
    assume ok: "journal_refusal_of (po_lines p) = None" and "po_key p \<notin> entry_keys (m_ledger m)"
    then have "find_entry (po_key p) (lg_entries (m_ledger m)) = None" using find_entry_Some_iff by (metis option.exhaust surj_pair)
    with eq ok show "r = Posted (t_next (lg_entries (m_ledger m)))
        \<and> lg_entries l = insert_row (new_entry p (map line_of (po_lines p))) (lg_entries (m_ledger m))" by auto
  qed
qed

lemma keys_insert: "lg_entries l' = insert_row (new_entry p ls) (lg_entries l) \<Longrightarrow> entry_keys l' = insert (po_key p) (entry_keys l)"
  by (auto simp: entry_keys_def new_entry_def)

lemma keys_cong: "lg_entries l' = lg_entries l \<Longrightarrow> entry_keys l' = entry_keys l"
  by (simp add: entry_keys_def)

lemma available_insert:
  "lg_entries l' = insert_row (new_entry p ls) (lg_entries l)
     \<Longrightarrow> available a l' = available a l + (if po_agent p = Some a then net 2 ls else 0)"
  by (simp add: available_def agent_lines_insert)

lemma available_cong: "lg_entries l' = lg_entries l \<Longrightarrow> available a l' = available a l"
  by (simp add: available_def)

lemma two_lines_accepted [simp]: "journal_refusal_of [debit a x, credit b x] = None \<longleftrightarrow> 0 < x"
  by (auto simp: journal_refusal_of_def debit_def credit_def line_sum_def)

lemma line_simps [simp]:
  "fl_account (line_of (debit a x)) = account_no a" "signed (line_of (debit a x)) = x"
  "fl_account (line_of (credit a x)) = account_no a" "signed (line_of (credit a x)) = - x"
  by (simp_all add: line_of_def debit_def credit_def signed_def)

section \<open>Wallets and the ledger\<close>

text \<open>The wallets \<open>w0\<close> at the start, and by how much (\<open>d\<close>) a wallet is off its ledger in the middle of an operation.\<close>

definition tracks :: "(nat \<Rightarrow> int) \<Rightarrow> ff_money \<Rightarrow> ff_money \<Rightarrow> bool" where
  "tracks d m0 m \<longleftrightarrow> (\<forall>a k w. wallet_of a m = Some (k, w) \<longrightarrow> (\<exists>w0. wallet_of a m0 = Some (k, w0)
     \<and> fw_available w = fw_available w0 + available a (m_ledger m) + d a \<and> (0 \<le> fw_available w0 \<longrightarrow> 0 \<le> fw_available w)))"

definition payout_ok :: "nat \<Rightarrow> ff_payout \<Rightarrow> ff_money \<Rightarrow> bool" where
  "payout_ok k p m \<longleftrightarrow> 0 < fp_amount p \<and> wallet_of (fp_agent p) m \<noteq> None \<and> request_key k \<in> entry_keys (m_ledger m)
     \<and> (\<forall>j \<in> set_option (fp_journal p). j < t_next (lg_entries (m_ledger m)))
     \<and> (reversal_key k \<in> entry_keys (m_ledger m) \<longrightarrow> fp_webhook p \<noteq> None)"

definition payouts_ok :: "ff_money \<Rightarrow> bool" where
  "payouts_ok m \<longleftrightarrow> wf_table (m_payouts m) \<and> (\<forall>(k, p) \<in> set (t_rows (m_payouts m)). payout_ok k p m)
   \<and> (\<forall>k. request_key k \<in> entry_keys (m_ledger m) \<or> reversal_key k \<in> entry_keys (m_ledger m) \<longrightarrow> k < t_next (m_payouts m))"

definition money_ok :: "(nat \<Rightarrow> int) \<Rightarrow> ff_money \<Rightarrow> ff_money \<Rightarrow> bool" where
  "money_ok d m0 m \<longleftrightarrow> ledger_sound (m_ledger m) \<and> wf_table (m_wallets m) \<and> payouts_ok m \<and> tracks d m0 m"

lemma money_ok_cong:
  assumes "m_payouts m' = m_payouts m" "m_wallets m' = m_wallets m" "m_ledger m' = m_ledger m"
  shows "money_ok d m0 m' = money_ok d m0 m"
  using assms by (simp add: money_ok_def payouts_ok_def payout_ok_def tracks_def wallet_of_def)

lemma money_ok_frames [simp]:
  "money_ok d m0 (record_exception x y m) = money_ok d m0 m" "money_ok d m0 (record_audit z m) = money_ok d m0 m"
  by (rule money_ok_cong; simp)+

lemma set_payout_ok:
  assumes "money_ok d m0 m"
    and "\<And>p. fp_amount (f p) = fp_amount p \<and> fp_agent (f p) = fp_agent p \<and> (fp_webhook p \<noteq> None \<longrightarrow> fp_webhook (f p) \<noteq> None)
       \<and> (\<forall>j \<in> set_option (fp_journal (f p)). fp_journal p = Some j \<or> j < t_next (lg_entries (m_ledger m)))"
  shows "money_ok d m0 (set_payout k f m)"
proof -
  have w: "wallet_of a (set_payout k f m) = wallet_of a m" for a by (simp add: wallet_of_def)
  have ok: "payouts_ok m" using assms(1) by (simp add: money_ok_def)
  have "payout_ok j p' m" if "(j, p') \<in> set (t_rows (m_payouts (set_payout k f m)))" for j p'
  proof -
    note row = that
    obtain p where p: "(j, p) \<in> set (t_rows (m_payouts m))" "p' = p \<or> p' = f p"
      using row by (auto simp: update_row_def rows_update_many split: if_splits)
    have "payout_ok j p m" using ok p(1) by (auto simp: payouts_ok_def)
    then show ?thesis using p(2) assms(2) [of p] by (auto simp: payout_ok_def)
  qed
  then have "payouts_ok (set_payout k f m)"
    using ok by (auto simp: payouts_ok_def payout_ok_def w update_row_def)
  with assms(1) show ?thesis by (simp add: money_ok_def tracks_def w)
qed

lemma wallet_of_set:
  assumes "\<And>w. fw_agent (f w) = fw_agent w"
  shows "wallet_of a (set_wallet k f m) = map_option (\<lambda>(j, w). (j, if j = k then f w else w)) (wallet_of a m)"
  unfolding wallet_of_def set_wallet_fields update_row_def using assms by (intro find_first_update_many) simp

lemma wallet_of_agent: "wallet_of a m = Some (k, w) \<Longrightarrow> fw_agent w = a \<and> (k, w) \<in> set (t_rows (m_wallets m))"
  unfolding wallet_of_def by (rule find_first_SomeD)

lemma wallet_of_key:
  "wf_table (m_wallets m) \<Longrightarrow> wallet_of a m = Some (k, w) \<Longrightarrow> wallet_of b m = Some (k, w') \<Longrightarrow> a = b"
  using wallet_of_agent wf_row_unique by metis

text \<open>Changing the available balance of one agent's wallet by \<open>x\<close>.\<close>

lemma set_wallet_ok:
  assumes ok: "money_ok d m0 m" and w: "wallet_of a m = Some (k, w)"
    and f: "\<And>w. fw_agent (f w) = fw_agent w \<and> fw_available (f w) = fw_available w + x" and x: "0 \<le> x \<or> - x \<le> fw_available w"
  shows "money_ok (d(a := d a + x)) m0 (set_wallet k f m)"
proof -
  have wf: "wf_table (m_wallets m)" using ok by (simp add: money_ok_def)
  have set: "wallet_of b (set_wallet k f m) = map_option (\<lambda>(j, w). (j, if j = k then f w else w)) (wallet_of b m)" for b
    using f by (intro wallet_of_set) simp
  have "tracks (d(a := d a + x)) m0 (set_wallet k f m)"
    unfolding tracks_def
  proof (intro allI impI)
    fix b j v assume "wallet_of b (set_wallet k f m) = Some (j, v)"
    then obtain u where u: "wallet_of b m = Some (j, u)" "v = (if j = k then f u else u)" by (auto simp: set)
    have same: "j = k \<longleftrightarrow> b = a" using wallet_of_key [OF wf] u(1) w by (metis option.inject prod.inject)
    obtain w0 where "wallet_of b m0 = Some (j, w0)" "fw_available u = fw_available w0 + available b (m_ledger m) + d b"
      "0 \<le> fw_available w0 \<longrightarrow> 0 \<le> fw_available u"
      using ok [unfolded money_ok_def tracks_def] u(1) by blast
    moreover have "b = a \<Longrightarrow> u = w" using u(1) w by simp
    ultimately show "\<exists>w0. wallet_of b m0 = Some (j, w0)
       \<and> fw_available v = fw_available w0 + available b (m_ledger (set_wallet k f m)) + (d(a := d a + x)) b
       \<and> (0 \<le> fw_available w0 \<longrightarrow> 0 \<le> fw_available v)"
      using f x same u(2) by auto
  qed
  moreover have "payouts_ok (set_wallet k f m)"
    using ok set by (auto simp: money_ok_def payouts_ok_def payout_ok_def)
  ultimately show ?thesis using ok by (simp add: money_ok_def update_row_def)
qed

text \<open>A posting without a line on the available balance and of another kind than request and reversal.\<close>

lemma post_ok:
  assumes ok: "money_ok d m0 m"
    and p: "net 2 (map line_of (po_lines p)) = 0" "\<And>k. po_key p \<noteq> request_key k" "\<And>k. po_key p \<noteq> reversal_key k"
    and r: "post_or_throw (ff_postJournalEntry p) m = (res, m')"
  shows "(\<exists>x. res = Inr x \<and> (\<forall>j \<in> set_option (entry_of x). j < t_next (lg_entries (m_ledger m')))) \<and> money_ok d m0 m' \<and> m_payouts m' = m_payouts m \<and> m_wallets m' = m_wallets m"
proof -
  have sound: "ledger_sound (m_ledger m)" using ok by (simp add: money_ok_def)
  obtain x l where x: "post_or_throw (ff_postJournalEntry p) m = return x (m\<lparr>m_ledger := l\<rparr>)" and l: "ledger_sound l"
    and cases: "(\<exists>y. x = Refused y) \<and> lg_entries l = lg_entries (m_ledger m)
      \<or> (\<exists>j. x = Already_Posted j \<and> j < t_next (lg_entries (m_ledger m))) \<and> lg_entries l = lg_entries (m_ledger m)
      \<or> x = Posted (t_next (lg_entries (m_ledger m))) \<and> lg_entries l = insert_row (new_entry p (map line_of (po_lines p))) (lg_entries (m_ledger m))"
    by (rule post_cases [OF sound, of p]) auto
  have entries: "lg_entries l = lg_entries (m_ledger m)
      \<or> lg_entries l = insert_row (new_entry p (map line_of (po_lines p))) (lg_entries (m_ledger m))"
    using cases by blast
  have avail: "available a l = available a (m_ledger m)" for a
    using entries available_insert [of l p _ "m_ledger m" a] available_cong [of l "m_ledger m"] p(1) by auto
  have keys: "entry_keys l = entry_keys (m_ledger m) \<or> entry_keys l = insert (po_key p) (entry_keys (m_ledger m))"
    using entries keys_insert [of l p _ "m_ledger m"] keys_cong [of l "m_ledger m"] by blast
  have le: "t_next (lg_entries (m_ledger m)) \<le> t_next (lg_entries l)" using entries by auto
  have "payout_ok k q (m\<lparr>m_ledger := l\<rparr>)" if "payout_ok k q m" for k q
  proof -
    have "\<forall>j \<in> set_option (fp_journal q). j < t_next (lg_entries l)" using that le by (fastforce simp: payout_ok_def)
    then show ?thesis using that keys p(2,3) [THEN not_sym] by (auto simp: payout_ok_def wallet_of_def)
  qed
  then have "payouts_ok (m\<lparr>m_ledger := l\<rparr>)"
    using ok keys p(2,3) [THEN not_sym] by (auto simp: money_ok_def payouts_ok_def)
  moreover have "tracks d m0 (m\<lparr>m_ledger := l\<rparr>)"
    using ok avail by (simp add: money_ok_def tracks_def wallet_of_def)
  moreover have "\<forall>j \<in> set_option (entry_of x). j < t_next (lg_entries l)"
    using cases by (auto simp: entry_of_def)
  ultimately show ?thesis using r x l ok by (auto simp: money_ok_def)
qed

lemma money_ok_ledger:
  "ledger_sound l \<Longrightarrow> lg_entries l = lg_entries (m_ledger m) \<Longrightarrow> money_ok d m0 m \<Longrightarrow> money_ok d m0 (m\<lparr>m_ledger := l\<rparr>)"
  by (simp add: money_ok_def tracks_def payouts_ok_def payout_ok_def wallet_of_def keys_cong [of l "m_ledger m"]
      available_cong [of l "m_ledger m"])

text \<open>The posting of a payout's request when it has been posted before.\<close>

lemma post_request_again:
  assumes ok: "money_ok d m0 m" and row: "(k, p) \<in> set (t_rows (m_payouts m))"
    and r: "post_or_throw (postPayoutRequest k a (fp_amount p)) m = (res, m')"
  shows "(\<exists>j. res = Inr (Already_Posted j) \<and> j < t_next (lg_entries (m_ledger m'))) \<and> money_ok d m0 m' \<and> m_payouts m' = m_payouts m
    \<and> m_wallets m' = m_wallets m \<and> m_transfers m' = m_transfers m"
proof -
  have sound: "ledger_sound (m_ledger m)" using ok by (simp add: money_ok_def)
  have "payout_ok k p m" using ok row by (auto simp: money_ok_def payouts_ok_def)
  then have posted: "0 < fp_amount p" "request_key k \<in> entry_keys (m_ledger m)" by (simp_all add: payout_ok_def)
  let ?p = "\<lparr>po_key = request_key k, po_entity_type = STR ''Payout'', po_entity = Some k, po_agent = Some a,
      po_lines = [debit PAYOUT_ESCROW (fp_amount p), credit AGENT_AVAILABLE_BALANCE (fp_amount p)]\<rparr>"
  have eq: "postPayoutRequest k a (fp_amount p) = ff_postJournalEntry ?p" by (simp add: postPayoutRequest_def request_key_def)
  obtain x l where "post_or_throw (ff_postJournalEntry ?p) m = return x (m\<lparr>m_ledger := l\<rparr>)" "ledger_sound l"
    "\<exists>j. x = Already_Posted j \<and> j < t_next (lg_entries (m_ledger m))" "lg_entries l = lg_entries (m_ledger m)"
    by (rule post_cases [OF sound, of ?p]) (use posted in auto)
  then show ?thesis using r ok eq money_ok_ledger [of l m] by auto
qed

text \<open>The posting of a reversal, once the payout is marked.\<close>

lemma post_reversal_ok:
  assumes ok: "money_ok d m0 m" and row: "(k, p) \<in> set (t_rows (m_payouts m))" and marked: "fp_webhook p \<noteq> None"
    and fresh: "reversal_key k \<notin> entry_keys (m_ledger m)"
    and r: "post_or_throw (postPayoutReversal k a (fp_amount p)) m = (res, m')"
  shows "(\<exists>j. res = Inr (Posted j)) \<and> money_ok (d(a := d a - fp_amount p)) m0 m' \<and> m_payouts m' = m_payouts m
    \<and> m_wallets m' = m_wallets m"
proof -
  let ?p = "\<lparr>po_key = reversal_key k, po_entity_type = STR ''Payout'', po_entity = Some k, po_agent = Some a,
      po_lines = [debit AGENT_AVAILABLE_BALANCE (fp_amount p), credit PAYOUT_ESCROW (fp_amount p)]\<rparr>"
  have sound: "ledger_sound (m_ledger m)" using ok by (simp add: money_ok_def)
  have pos: "0 < fp_amount p" using ok row by (auto simp: money_ok_def payouts_ok_def payout_ok_def)
  have eq: "postPayoutReversal k a (fp_amount p) = ff_postJournalEntry ?p" by (simp add: postPayoutReversal_def reversal_key_def)
  obtain x l where x: "post_or_throw (ff_postJournalEntry ?p) m = return x (m\<lparr>m_ledger := l\<rparr>)" "ledger_sound l"
    "x = Posted (t_next (lg_entries (m_ledger m)))"
    and ins: "lg_entries l = insert_row (new_entry ?p (map line_of (po_lines ?p))) (lg_entries (m_ledger m))"
    by (rule post_cases [OF sound, of ?p]) (use pos fresh in auto)
  have keys: "entry_keys l = insert (reversal_key k) (entry_keys (m_ledger m))" using keys_insert [OF ins] by simp
  have avail: "available b l = available b (m_ledger m) + (if b = a then fp_amount p else 0)" for b
    using available_insert [OF ins, of b] by simp
  have unique: "q = p" if "(k, q) \<in> set (t_rows (m_payouts m))" for q
    using that row ok wf_row_unique by (metis money_ok_def payouts_ok_def)
  have "payout_ok j q (m\<lparr>m_ledger := l\<rparr>)" if "(j, q) \<in> set (t_rows (m_payouts m))" for j q
  proof -
    have "payout_ok j q m" using that ok by (auto simp: money_ok_def payouts_ok_def)
    then show ?thesis using keys ins unique that marked by (auto simp: payout_ok_def wallet_of_def less_Suc_eq)
  qed
  moreover have "k < t_next (m_payouts m)" using ok row by (auto simp: money_ok_def payouts_ok_def intro: rows_below_next)
  ultimately have "payouts_ok (m\<lparr>m_ledger := l\<rparr>)" using ok keys by (auto simp: money_ok_def payouts_ok_def)
  moreover have "tracks (d(a := d a - fp_amount p)) m0 (m\<lparr>m_ledger := l\<rparr>)"
    unfolding tracks_def
  proof (intro allI impI)
    fix b j w assume "wallet_of b (m\<lparr>m_ledger := l\<rparr>) = Some (j, w)"
    then have "wallet_of b m = Some (j, w)" by (simp add: wallet_of_def)
    then obtain w0 where "wallet_of b m0 = Some (j, w0)" "fw_available w = fw_available w0 + available b (m_ledger m) + d b"
      "0 \<le> fw_available w0 \<longrightarrow> 0 \<le> fw_available w" using ok [unfolded money_ok_def tracks_def] by blast
    then show "\<exists>w0. wallet_of b m0 = Some (j, w0) \<and> fw_available w = fw_available w0 + available b (m_ledger (m\<lparr>m_ledger := l\<rparr>))
        + (d(a := d a - fp_amount p)) b \<and> (0 \<le> fw_available w0 \<longrightarrow> 0 \<le> fw_available w)"
      by (auto simp: avail)
  qed
  ultimately show ?thesis using r x ok eq by (auto simp: money_ok_def)
qed

text \<open>A new payout and the posting of its request.\<close>

lemma post_new_request_ok:
  assumes ok: "money_ok d m0 m" and new: "0 < fp_amount p" "wallet_of a m \<noteq> None" "fp_agent p = a" "fp_journal p = None"
    and r: "post_or_throw (postPayoutRequest (t_next (m_payouts m)) a (fp_amount p)) (m\<lparr>m_payouts := insert_row p (m_payouts m)\<rparr>) = (res, m')"
  shows "res = Inr (Posted (t_next (lg_entries (m_ledger m)))) \<and> t_next (lg_entries (m_ledger m)) < t_next (lg_entries (m_ledger m'))
    \<and> money_ok (d(a := d a + fp_amount p)) m0 m' \<and> m_payouts m' = insert_row p (m_payouts m)
    \<and> m_wallets m' = m_wallets m"
proof -
  let ?k = "t_next (m_payouts m)" and ?m = "m\<lparr>m_payouts := insert_row p (m_payouts m)\<rparr>"
  let ?p = "\<lparr>po_key = request_key ?k, po_entity_type = STR ''Payout'', po_entity = Some ?k, po_agent = Some a,
      po_lines = [debit PAYOUT_ESCROW (fp_amount p), credit AGENT_AVAILABLE_BALANCE (fp_amount p)]\<rparr>"
  have sound: "ledger_sound (m_ledger ?m)" using ok by (simp add: money_ok_def)
  have below: "request_key k \<in> entry_keys (m_ledger m) \<or> reversal_key k \<in> entry_keys (m_ledger m) \<Longrightarrow> k < ?k" for k
    using ok by (auto simp: money_ok_def payouts_ok_def)
  have eq: "postPayoutRequest ?k a (fp_amount p) = ff_postJournalEntry ?p" by (simp add: postPayoutRequest_def request_key_def)
  obtain x l where x: "post_or_throw (ff_postJournalEntry ?p) ?m = return x (?m\<lparr>m_ledger := l\<rparr>)" "ledger_sound l"
    "x = Posted (t_next (lg_entries (m_ledger m)))"
    and ins: "lg_entries l = insert_row (new_entry ?p (map line_of (po_lines ?p))) (lg_entries (m_ledger m))"
    by (rule post_cases [OF sound, of ?p]) (use new below [of ?k] in auto)
  have keys: "entry_keys l = insert (request_key ?k) (entry_keys (m_ledger m))" using keys_insert [OF ins] by simp
  have avail: "available b l = available b (m_ledger m) - (if b = a then fp_amount p else 0)" for b
    using available_insert [OF ins, of b] by simp
  let ?n = "?m\<lparr>m_ledger := l\<rparr>"
  have old: "payout_ok j q ?n" if "(j, q) \<in> set (t_rows (m_payouts m))" for j q
  proof -
    have "payout_ok j q m" using that ok by (auto simp: money_ok_def payouts_ok_def)
    then show ?thesis using keys ins by (auto simp: payout_ok_def wallet_of_def less_Suc_eq)
  qed
  have "payout_ok ?k p ?n" using new below [of ?k] keys by (auto simp: payout_ok_def wallet_of_def)
  with old have "payouts_ok ?n" using ok keys below by (auto simp: money_ok_def payouts_ok_def intro: less_SucI)
  moreover have "tracks (d(a := d a + fp_amount p)) m0 ?n"
    unfolding tracks_def
  proof (intro allI impI)
    fix b j w assume "wallet_of b ?n = Some (j, w)"
    then have "wallet_of b m = Some (j, w)" by (simp add: wallet_of_def)
    then obtain w0 where "wallet_of b m0 = Some (j, w0)" "fw_available w = fw_available w0 + available b (m_ledger m) + d b"
      "0 \<le> fw_available w0 \<longrightarrow> 0 \<le> fw_available w" using ok [unfolded money_ok_def tracks_def] by blast
    then show "\<exists>w0. wallet_of b m0 = Some (j, w0) \<and> fw_available w = fw_available w0 + available b (m_ledger ?n)
        + (d(a := d a + fp_amount p)) b \<and> (0 \<le> fw_available w0 \<longrightarrow> 0 \<le> fw_available w)"
      by (auto simp: avail)
  qed
  ultimately have "money_ok (d(a := d a + fp_amount p)) m0 ?n" using ok x(2) by (simp add: money_ok_def)
  then show ?thesis using r x eq ins by auto
qed

section \<open>The operations keep wallets and ledger together\<close>

abbreviation "in_step \<equiv> money_ok (\<lambda>_. 0)"

lemma link_ok:
  assumes "money_ok d m0 m" "\<forall>j \<in> set_option (entry_of r). j < t_next (lg_entries (m_ledger m))"
  shows "money_ok d m0 (snd (link_journal k r m))"
  using assms by (auto simp: link_journal_def split: option.split intro!: set_payout_ok)

lemma deduct_ok:
  assumes ok: "money_ok (d(a := d a + x)) m0 m" and w: "wallet_of a m = Some (k, w)" "x \<le> fw_available w"
  shows "money_ok d m0 (deduct a x n m)"
proof -
  let ?d = "d(a := d a + x)" and ?f = "\<lambda>w. w\<lparr>fw_available := fw_available w - x\<rparr>"
  have "money_ok (?d(a := ?d a + (- x))) m0 (set_wallet k ?f m)"
    by (rule set_wallet_ok [OF ok w(1)]) (use w(2) in auto)
  then have "money_ok d m0 (set_wallet k ?f m)" by simp
  then show ?thesis
    by (rule money_ok_cong [THEN iffD2, rotated 3]) (simp_all add: deduct_def w(1))
qed

lemma request_ok:
  assumes ok: "in_step m0 m"
  shows "in_step m0 (snd (requestPayout e auth amount m))"
proof (cases "auth = None \<or> amount \<le> 0 \<or> find_unique (m_agents m) (the auth) = None
    \<or> (case wallet_of (the auth) m of Some (_, w) \<Rightarrow> fw_available w | None \<Rightarrow> 0) < amount
    \<or> exists_row (\<lambda>_ p. fp_key p = Some (generatePayoutIdempotencyKey e (the auth))) (m_payouts m)")
  case True
  then show ?thesis using ok by (auto simp: requestPayout_def split: option.split)
next
  case False
  then obtain a where a: "auth = Some a" "0 < amount" by auto
  with False obtain k w where w: "wallet_of a m = Some (k, w)" "amount \<le> fw_available w"
    by (cases "wallet_of a m") (auto simp: not_less)
  let ?n = "t_next (m_payouts m)" and ?p = "new_payout e a amount"
  let ?m = "m\<lparr>m_payouts := insert_row ?p (m_payouts m)\<rparr>"
  have p: "fp_amount ?p = amount" "fp_agent ?p = a" "fp_journal ?p = None" by (simp_all add: new_payout_def empty_payout_def)
  obtain res m1 where post: "post_or_throw (postPayoutRequest ?n a amount) ?m = (res, m1)" by fastforce
  have m1: "res = Inr (Posted (t_next (lg_entries (m_ledger m))))" "t_next (lg_entries (m_ledger m)) < t_next (lg_entries (m_ledger m1))"
    "money_ok ((\<lambda>_. 0)(a := 0 + amount)) m0 m1" "m_wallets m1 = m_wallets m" "m_payouts m1 = insert_row ?p (m_payouts m)"
    using post_new_request_ok [OF ok, of ?p a res m1] a w p post by auto
  let ?j = "t_next (lg_entries (m_ledger m))" and ?d = "(\<lambda>_. 0)(a := 0 + amount)"
  have "money_ok ?d m0 (snd (link_journal ?n (Posted ?j) m1))"
    by (rule link_ok [OF m1(3)]) (use m1(2) in \<open>simp add: entry_of_def\<close>)
  moreover have "link_journal ?n (Posted ?j) m1 = return () (set_payout ?n (\<lambda>p. p\<lparr>fp_journal := Some ?j\<rparr>) m1)"
  proof -
    have "find_first (\<lambda>k' p. k' \<noteq> ?n \<and> fp_journal p = Some ?j) (m_payouts m1) = None"
      using ok by (fastforce simp: find_first_None_iff m1(5) p money_ok_def payouts_ok_def payout_ok_def)
    then show ?thesis by (simp add: link_journal_def entry_of_def)
  qed
  ultimately have m2: "money_ok ?d m0 (set_payout ?n (\<lambda>p. p\<lparr>fp_journal := Some ?j\<rparr>) m1)" by simp
  have "in_step m0 (deduct a amount ?n (set_payout ?n (\<lambda>p. p\<lparr>fp_journal := Some ?j\<rparr>) m1))"
    by (rule deduct_ok [of "\<lambda>_. 0", OF m2, of k w]) (use w m1(4) in \<open>simp_all add: wallet_of_def\<close>)
  moreover have "snd (requestPayout e auth amount m)
      = record_audit (PAYOUT_REQUESTED a ?n) (deduct a amount ?n (set_payout ?n (\<lambda>p. p\<lparr>fp_journal := Some ?j\<rparr>) m1))"
    using False a w post m1(1) \<open>link_journal _ _ _ = _\<close> by (auto simp: requestPayout_def Let_def)
  ultimately show ?thesis by simp
qed

lemma start_transfer_ok:
  assumes "in_step m0 m"
  shows "in_step m0 (snd (start_transfer e a k p r m))"
proof -
  obtain t m' where t: "initiatePaystackTransfer e (fp_amount p * 100) r m = (t, m')" by fastforce
  have "in_step m0 (snd (initiatePaystackTransfer e (fp_amount p * 100) r m))"
    by (rule money_ok_cong [THEN iffD2, rotated 3, OF assms]) simp_all
  then have "in_step m0 m'" using t by simp
  then show ?thesis using t
    by (auto simp: start_transfer_def fail_payout_def split: transfer_answer.split option.split intro!: set_payout_ok)
qed

lemma row_after_update:
  "(k, p) \<in> set (t_rows t) \<Longrightarrow> (k, f p) \<in> set (t_rows (update_row k f t))"
  by (force simp: update_row_def rows_update_many)

lemma release_ok:
  assumes ok: "in_step m0 m" and p: "find_unique (m_payouts m) k = Some p"
  shows "in_step m0 (snd (release e a k p m))"
proof -
  define f :: "ff_payout \<Rightarrow> ff_payout" where "f = (\<lambda>p. p\<lparr>fp_status := PO_PROCESSING, fp_provider_ref := Some (generateProviderReference e (decimal k)),
     fp_key := Some (generatePayoutIdempotencyKey e (fp_agent (the (find_unique (m_payouts m) k)))), fp_processing := Some (int (fv_now e))\<rparr>)"
  have wf: "wf_table (m_payouts m)" using ok by (simp add: money_ok_def payouts_ok_def)
  have m1: "in_step m0 (set_payout k f m)" using ok by (intro set_payout_ok) (auto simp: f_def)
  have row: "(k, f p) \<in> set (t_rows (m_payouts (set_payout k f m)))"
    using p wf by (auto simp: find_unique_in_rows intro: row_after_update)
  obtain res m2 where post: "post_or_throw (postPayoutRequest k (fp_agent p) (fp_amount p)) (set_payout k f m) = (res, m2)" by fastforce
  have amount: "fp_amount (f p) = fp_amount p" by (simp add: f_def)
  obtain j where j: "res = Inr (Already_Posted j)" "j < t_next (lg_entries (m_ledger m2))" and m2: "in_step m0 m2"
    using post_request_again [OF m1 row, unfolded amount, OF post] by blast
  have "in_step m0 (snd (link_journal k (Already_Posted j) m2))"
    by (rule link_ok [OF m2]) (simp add: entry_of_def j(2))
  then have "in_step m0 (snd (and_then (link_journal k (Already_Posted j) m2)
      (\<lambda>_. start_transfer e a k p (generateProviderReference e (decimal k)))))"
    using start_transfer_ok by (force simp: and_then_def split: prod.split sum.split)
  then show ?thesis using ok post j(1) by (simp add: release_def Let_def f_def p)
qed

lemma snd_and_then_return: "(\<And>a m'. snd (f a m') = m') \<Longrightarrow> snd (and_then r f) = snd r"
  by (simp add: and_then_def split: prod.split sum.split)

lemma admin_ok: "in_step m0 m \<Longrightarrow> in_step m0 (snd (postAdminPayout e auth payout action m))"
proof -
  assume ok: "in_step m0 m"
  have retry: "in_step m0 (snd (retry e a k p m))" for a k p
    using ok by (auto simp: retry_def intro!: set_payout_ok)
  show ?thesis using ok release_ok [OF ok] retry
    by (auto simp: postAdminPayout_def snd_and_then_return split: sum.split option.split payout_action.split)
qed

lemma change_wallet_ok:
  assumes ok: "money_ok (d(a := d a - x)) m0 m" and "wallet_of a m \<noteq> None" "0 \<le> x"
    and f: "\<And>w. fw_agent (f w) = fw_agent w \<and> fw_available (f w) = fw_available w + x"
  shows "money_ok d m0 (change_wallet a f m)"
proof -
  let ?d = "d(a := d a - x)"
  obtain k w where w: "wallet_of a m = Some (k, w)" using assms(2) by auto
  have "money_ok (?d(a := ?d a + x)) m0 (set_wallet k f m)"
    using set_wallet_ok [OF ok w f] assms(3) by blast
  then show ?thesis by (simp add: change_wallet_def w)
qed

text \<open>Marking a payout and posting its reversal, as a failed and a reversed transfer do.\<close>

lemma reversal_ok:
  assumes ok: "in_step m0 m" and p: "find_unique (m_payouts m) k = Some p" "fp_webhook p = None"
    and f: "\<And>p. fp_amount (f p) = fp_amount p \<and> fp_agent (f p) = fp_agent p \<and> fp_webhook (f p) \<noteq> None \<and> fp_journal (f p) = fp_journal p"
    and g: "\<And>w. fw_agent (g w) = fw_agent w \<and> fw_available (g w) = fw_available w + fp_amount p"
  obtains j m1 where "post_or_throw (postPayoutReversal k (fp_agent p) (fp_amount p)) (set_payout k f m) = return (Posted j) m1"
    "in_step m0 (change_wallet (fp_agent p) g m1)"
proof -
  have row: "(k, p) \<in> set (t_rows (m_payouts m))" and pok: "payout_ok k p m"
    using ok p(1) by (auto simp: money_ok_def payouts_ok_def find_unique_in_rows)
  have m1: "in_step m0 (set_payout k f m)" using ok f by (intro set_payout_ok) auto
  have row1: "(k, f p) \<in> set (t_rows (m_payouts (set_payout k f m)))" using row by (simp add: row_after_update)
  have fresh: "reversal_key k \<notin> entry_keys (m_ledger (set_payout k f m))" using pok p(2) by (auto simp: payout_ok_def)
  obtain res m2 where post: "post_or_throw (postPayoutReversal k (fp_agent p) (fp_amount (f p))) (set_payout k f m) = (res, m2)" by fastforce
  have m2: "\<exists>j. res = Inr (Posted j)" "money_ok ((\<lambda>_. 0)(fp_agent p := 0 - fp_amount (f p))) m0 m2" "m_wallets m2 = m_wallets m"
    using post_reversal_ok [OF m1 row1 _ fresh post] f by auto
  have "wallet_of (fp_agent p) m2 \<noteq> None" "0 \<le> fp_amount p"
    using pok m2(3) by (auto simp: payout_ok_def wallet_of_def)
  then have "in_step m0 (change_wallet (fp_agent p) g m2)"
    using change_wallet_ok [of "\<lambda>_. 0" "fp_agent p" "fp_amount p" m0 m2 g] m2(2) f g by auto
  with that m2(1) post f show thesis by auto
qed

lemma success_lines:
  "net 2 (map line_of [debit PAYOUT_PAYABLE x, debit ASOJU_FEES_REVENUE y, credit PAYOUT_ESCROW z]) = 0"
  by simp

lemma succeeded_ok:
  assumes ok: "in_step m0 m"
  shows "in_step m0 (snd (transfer_succeeded e k p ev m))"
proof -
  let ?f = "\<lambda>p. p\<lparr>fp_status := fst (mapPaystackStatusToPayout (ev_status ev)), fp_paystack_ref := ev_reference ev,
          fp_paystack_status := Some (ev_status ev), fp_webhook := Some (int (fv_now e)),
          fp_paid := (case fp_paid p of Some t \<Rightarrow> Some t | None \<Rightarrow> Some (int (fv_now e))),
          fp_reconciled := Some (int (fv_now e))\<rparr>"
  let ?p = "\<lparr>po_key = success_key k, po_entity_type = STR ''Payout'', po_entity = Some k, po_agent = Some (fp_agent p),
      po_lines = [debit PAYOUT_PAYABLE (fp_net p), debit ASOJU_FEES_REVENUE (fp_fee p), credit PAYOUT_ESCROW (fp_amount p)]\<rparr>"
  have eq: "postPayoutSuccess k (fp_agent p) (fp_amount p) (fp_fee p) (fp_net p) = ff_postJournalEntry ?p"
    by (simp add: postPayoutSuccess_def success_key_def)
  have m1: "in_step m0 (set_payout k ?f m)" using ok by (intro set_payout_ok) auto
  obtain res m2 where post: "post_or_throw (ff_postJournalEntry ?p) (set_payout k ?f m) = (res, m2)" by fastforce
  obtain x where x: "res = Inr x" "\<forall>j \<in> set_option (entry_of x). j < t_next (lg_entries (m_ledger m2))" and m2: "in_step m0 m2"
    using post_ok [OF m1 _ _ _ post] by (auto simp: success_lines)
  let ?m = "case x of Refused _ \<Rightarrow> record_exception UNBALANCED_POSTING (Some k) m2 | _ \<Rightarrow> m2"
  have "in_step m0 ?m" "m_ledger ?m = m_ledger m2" using m2 by (simp_all split: journal_result.split)
  then have "in_step m0 (snd (link_journal k x ?m))" using x(2) by (intro link_ok) simp_all
  moreover have "in_step m0 (change_wallet a (\<lambda>w. w\<lparr>fw_paid := fw_paid w + n\<rparr>) m')" if "in_step m0 m'" for a n m'
  proof (cases "wallet_of a m'")
    case (Some v)
    obtain j w where v: "v = (j, w)" by (cases v)
    have "money_ok ((\<lambda>_. 0)(a := 0 + 0)) m0 (set_wallet j (\<lambda>w. w\<lparr>fw_paid := fw_paid w + n\<rparr>) m')"
      by (rule set_wallet_ok [OF that Some [unfolded v]]) simp_all
    then show ?thesis by (simp add: change_wallet_def Some v fun_upd_idem)
  qed (simp add: change_wallet_def that)
  ultimately show ?thesis using post x(1)
    by (auto simp: transfer_succeeded_def eq and_then_def split: prod.split sum.split)
qed

lemma event_ok:
  assumes ok: "in_step m0 m" and p: "find_unique (m_payouts m) k = Some p" "fp_webhook p = None"
  shows "in_step m0 (snd (settle_event e k p ev m))"
proof (cases "ev_type ev")
  case TRANSFER_FAILED
  let ?f = "\<lambda>p. p\<lparr>fp_status := PO_FAILED, fp_paystack_ref := ev_reference ev,
          fp_paystack_status := Some (ev_status ev), fp_failure_reason := Some STR ''Transfer failed'',
          fp_failure_code := Some STR ''TRANSFER_FAILED'', fp_webhook := Some (int (fv_now e)),
          fp_failed := Some (int (fv_now e))\<rparr>"
  obtain j m1 where "post_or_throw (postPayoutReversal k (fp_agent p) (fp_amount p)) (set_payout k ?f m) = return (Posted j) m1"
    "in_step m0 (change_wallet (fp_agent p) (\<lambda>w. w\<lparr>fw_available := fw_available w + fp_amount p\<rparr>) m1)"
    by (rule reversal_ok [OF ok p, of ?f "\<lambda>w. w\<lparr>fw_available := fw_available w + fp_amount p\<rparr>"]) simp_all
  then show ?thesis by (simp add: settle_event_def TRANSFER_FAILED transfer_failed_def)
next
  case TRANSFER_REVERSED
  let ?f = "\<lambda>p. p\<lparr>fp_status := PO_REVERSED, fp_paystack_ref := ev_reference ev,
          fp_paystack_status := Some (ev_status ev), fp_webhook := Some (int (fv_now e)),
          fp_reversed := Some (int (fv_now e)), fp_failure_reason := Some STR ''Transfer reversed by provider''\<rparr>"
  let ?g = "\<lambda>w. w\<lparr>fw_available := fw_available w + fp_amount p, fw_paid := fw_paid w - fp_net p\<rparr>"
  obtain j m1 where "post_or_throw (postPayoutReversal k (fp_agent p) (fp_amount p)) (set_payout k ?f m) = return (Posted j) m1"
    "in_step m0 (change_wallet (fp_agent p) ?g m1)"
    by (rule reversal_ok [OF ok p, of ?f ?g]) simp_all
  then show ?thesis by (simp add: settle_event_def TRANSFER_REVERSED transfer_reversed_def)
qed (use ok succeeded_ok in \<open>simp_all add: settle_event_def\<close>)

lemma payout_event_ok:
  assumes ok: "in_step m0 m"
  shows "in_step m0 (snd (payout_event e r ev m))"
proof (cases "find_first (\<lambda>_ p. fp_provider_ref p = Some r) (m_payouts m)")
  case (Some x)
  obtain k p where x: "x = (k, p)" by (cases x)
  have p: "find_unique (m_payouts m) k = Some p"
    using find_first_SomeD [OF Some [unfolded x]] ok by (simp add: find_unique_in_rows money_ok_def payouts_ok_def)
  have noted: "in_step m0 (note_mismatch k p ev m)" "m_payouts (note_mismatch k p ev m) = m_payouts m"
    using ok by (simp_all add: note_mismatch_def)
  have "fp_webhook p = None \<Longrightarrow> in_step m0 (snd (settle_event e k p ev (note_mismatch k p ev m)))"
    using event_ok [OF noted(1)] noted(2) p by simp
  then show ?thesis using ok Some x
    by (auto simp: payout_event_def and_then_def split: prod.split sum.split)
qed (use ok in \<open>simp add: payout_event_def\<close>)

lemma webhook_ok: "in_step m0 m \<Longrightarrow> in_step m0 (snd (paystackWebhook e json_parse body signature m))"
  by (auto simp: paystackWebhook_def Let_def payout_event_ok split: option.split bool.split)

lemma step_money_ok: "money_step m m' \<Longrightarrow> in_step m0 m \<Longrightarrow> in_step m0 m'"
  by (induction rule: money_step.induct) (simp_all add: request_ok admin_ok webhook_ok view_known)

lemma run_money_ok: "money_step\<^sup>*\<^sup>* m m' \<Longrightarrow> in_step m0 m \<Longrightarrow> in_step m0 m'"
  by (induction rule: rtranclp_induct) (simp_all add: step_money_ok)

lemma start_money_ok:
  assumes "m_payouts m = empty_table" "m_ledger m = empty_ledger" "wf_table (m_wallets m)"
  shows "in_step m m"
proof -
  have "entry_keys empty_ledger = {}" "available a empty_ledger = 0" for a
    by (simp_all add: entry_keys_def available_def empty_ledger_def empty_table_def agent_lines_def find_many_def)
  with assms show ?thesis
    by (simp add: money_ok_def payouts_ok_def tracks_def empty_ledger_sound) (simp add: empty_table_def)
qed

section \<open>The properties\<close>

text \<open>A state for the witnesses: one agent with 20000 available, Paystack not configured.\<close>

definition sample_money :: ff_money where
  "sample_money = \<lparr>m_agents = insert_row \<lparr>fg_pending = 0, fg_cleared = 0, fg_earnings = 0\<rparr> empty_table,
     m_wallets = insert_row \<lparr>fw_agent = 1, fw_pending = 0, fw_cleared = 0, fw_available = 20000, fw_earnings = 20000, fw_paid = 0\<rparr> empty_table,
     m_entries = empty_table, m_payouts = empty_table, m_ledger = empty_ledger, m_exceptions = [], m_audits = [], m_transfers = []\<rparr>"

definition demo_env :: ff_env where
  "demo_env = \<lparr>fv_now = 5, fv_random = ''ab'', fv_secret = [], fv_hmac = \<lambda>_ _. [], fv_transfer = \<lambda>_ _. Rejected\<rparr>"

definition finance :: ff_admin where "finance = \<lparr>ad_id = 1, ad_role = FR_FINANCE\<rparr>"

definition transfer_event :: "string \<Rightarrow> string \<Rightarrow> webhook_payload option" where
  "transfer_event event body = Some \<lparr>wp_event = event, wp_data = Some
     \<lparr>wd_reference = Some ''ASOJU_PAYOUT_1_5'', wd_amount = Some 1000000, wd_status = Some ''failed''\<rparr>\<rparr>"

definition money_requested :: ff_money where
  "money_requested = snd (requestPayout demo_env (Some 1) 10000 sample_money)"

definition money_released :: ff_money where
  "money_released = snd (postAdminPayout (demo_env\<lparr>fv_random := ''cd''\<rparr>) (Some finance) (Some 1) (Some Release) money_requested)"

definition money_failed :: ff_money where
  "money_failed = snd (paystackWebhook demo_env (transfer_event ''transfer.failed'') ''{}'' [] money_released)"

text \<open>The books of the FieldForce ledger balance. After any postings and queries from an empty ledger every entry has
  at least two lines of positive amount whose debits equal its credits, no idempotency key is posted twice, and
  the balances the application reports satisfy the accounting equation: assets and equity equal liabilities and
  revenue.\<close>

theorem ff_books_balance:
  assumes "ledger_step\<^sup>*\<^sup>* empty_ledger l"
  shows "(\<forall>(k, e) \<in> set (t_rows (lg_entries l)). 2 \<le> length (fe_lines e) \<and> (\<forall>x \<in> set (fe_lines e). 0 < fl_amount x)
      \<and> sum_list (map signed (fe_lines e)) = 0)
    \<and> distinct (map (\<lambda>(_, e). fe_key e) (t_rows (lg_entries l)))
    \<and> (let b = (\<lambda>c. fst (getAccountBalance c l)) in b CUSTOMER_PAYMENTS + b ADJUSTMENT
       = b AGENT_PENDING_EARNINGS + b AGENT_AVAILABLE_BALANCE + b PAYOUT_ESCROW + b PAYOUT_PAYABLE + b CUSTOMER_PAYABLE
         + b ASOJU_FEES_REVENUE)"
proof -
  have sound: "ledger_sound l" using assms by (rule reachable_sound)
  have "(\<Sum>a \<in> {1..8}. net a (all_lines (lg_entries l))) = 0"
    using nets_add_up [OF all_lines_sound(2) [OF sound]] all_lines_sound(1) [OF sound] by simp
  from this [unfolded eight_accounts] have "let b = (\<lambda>c. fst (getAccountBalance c l)) in b CUSTOMER_PAYMENTS + b ADJUSTMENT
       = b AGENT_PENDING_EARNINGS + b AGENT_AVAILABLE_BALANCE + b PAYOUT_ESCROW + b PAYOUT_PAYABLE + b CUSTOMER_PAYABLE
         + b ASOJU_FEES_REVENUE"
    by (simp add: balance_eq [OF sound] Let_def)
  then show ?thesis using sound by (auto simp: ledger_sound_def entry_sound_def)
qed

theorem ff_books_balance_witness:
  "\<exists>l. ledger_step\<^sup>*\<^sup>* empty_ledger l \<and> length (t_rows (lg_entries l)) = 1
     \<and> distinct (map (\<lambda>(_, e). fe_key e) (t_rows (lg_entries l)))"
proof -
  let ?l = "snd (postEarnings 3 1 1000 100 900 empty_ledger)"
  have run: "ledger_step\<^sup>*\<^sup>* empty_ledger ?l"
    unfolding postEarnings_def by (rule r_into_rtranclp) (rule Post)
  have one: "length (t_rows (lg_entries ?l)) = 1" by code_simp
  have "distinct (map (\<lambda>(_, e). fe_key e) (t_rows (lg_entries ?l)))" using ff_books_balance [OF run] by blast
  with run one show ?thesis by blast
qed

text \<open>C19. The agents' wallets are a projection of the ledger. From any wallets, no payouts and an empty ledger, after any
  requests, releases, retries and webhooks with any answers of Paystack, an agent's available balance has
  changed by exactly the balance that the ledger computes for the agent, and a wallet that starts without debt never
  gets into it. Agents may view their earnings in between, once they have a wallet and a payout; the first view of
  an agent without payouts is excluded, since it adds demonstration payouts that nothing was booked for.\<close>

theorem ff_wallets_follow_ledger:
  assumes "m_payouts m0 = empty_table" "m_ledger m0 = empty_ledger" "wf_table (m_wallets m0)"
    and "money_step\<^sup>*\<^sup>* m0 m" and "wallet_of a m = Some (k, w)"
  shows "\<exists>w0. wallet_of a m0 = Some (k, w0)
    \<and> fw_available w = fw_available w0 + ab_available (getAgentLedgerBalances a (m_ledger m))
    \<and> (0 \<le> fw_available w0 \<longrightarrow> 0 \<le> fw_available w)"
proof -
  have ok: "in_step m0 m" by (rule run_money_ok [OF assms(4) start_money_ok [OF assms(1-3)]])
  then have "ab_available (getAgentLedgerBalances a (m_ledger m)) = available a (m_ledger m)"
    by (simp add: agent_balances_eq(2) money_ok_def available_def)
  moreover have "tracks (\<lambda>_. 0) m0 m" using ok by (simp add: money_ok_def)
  ultimately show ?thesis using assms(5) by (fastforce simp: tracks_def)
qed

theorem ff_wallets_follow_ledger_witness:
  "ab_available (getAgentLedgerBalances 1 (m_ledger money_requested)) = - 10000"
proof -
  have run: "money_step\<^sup>*\<^sup>* sample_money money_requested"
    unfolding money_requested_def by (rule r_into_rtranclp) (rule Request)
  have "map_option (\<lambda>(k, w). (k, fw_available w)) (wallet_of 1 money_requested) = Some (1, 10000)" by code_simp
  then obtain w where w: "wallet_of 1 money_requested = Some (1, w)" "fw_available w = 10000" by auto
  have "m_payouts sample_money = empty_table" "m_ledger sample_money = empty_ledger" "wf_table (m_wallets sample_money)"
    by (simp_all add: sample_money_def)
  from ff_wallets_follow_ledger [OF this run w(1)] obtain w0 where w0: "wallet_of 1 sample_money = Some (1, w0)"
    "fw_available w = fw_available w0 + ab_available (getAgentLedgerBalances 1 (m_ledger money_requested))" by blast
  have "map_option (\<lambda>(k, w). fw_available w) (wallet_of 1 sample_money) = Some 20000" by code_simp
  with w0(1) have "fw_available w0 = 20000" by simp
  with w0(2) w(2) show ?thesis by simp
qed

text \<open>A payout that is retried after its transfer failed never ends. The retry sets it to PROCESSING, but asks Paystack
  for nothing and takes nothing from the wallet that the failure restored; and since its webhook has been received,
  whatever requests, releases, retries and webhooks follow, it is PROCESSING for ever.\<close>

theorem retried_payout_stuck:
  assumes "postAdminPayout e auth (Some k) (Some Retry) m = (Inr shown, m1)" "wf_table (m_payouts m)"
    and "find_unique (m_payouts m) k = Some p" "fp_webhook p = Some t" "money_step\<^sup>*\<^sup>* m1 m2"
  shows "m_transfers m1 = m_transfers m \<and> m_wallets m1 = m_wallets m \<and> m_ledger m1 = m_ledger m
    \<and> (\<exists>q. find_unique (m_payouts m2) k = Some q \<and> fp_status q = PO_PROCESSING \<and> fp_amount q = fp_amount p)"
proof -
  let ?f = "\<lambda>p. p\<lparr>fp_status := PO_PROCESSING, fp_failure_reason := None, fp_failure_code := None, fp_processing := Some (int (fv_now e))\<rparr>"
  obtain a where m1: "m1 = record_audit (PAYOUT_RETRIED a k) (set_payout k ?f m)"
    using assms(1,3) by (auto simp: postAdminPayout_def retry_def split: sum.splits if_splits)
  then have q: "find_unique (m_payouts m1) k = Some (?f p)" and wf: "wf_table (m_payouts m1)"
    using assms(2,3) by (simp_all add: tbl.lookup_modify update_row_def find_unique_update_many)
  have "settled_processing (?f p)" using assms(4) by (simp add: settled_processing_def)
  from run_same [OF assms(5) wf q this] show ?thesis using m1 by simp
qed

theorem retried_payout_stuck_witness:
  "\<exists>q. find_unique (m_payouts (snd (paystackWebhook demo_env (transfer_event ''transfer.success'') ''{}'' []
        (snd (postAdminPayout demo_env (Some finance) (Some 1) (Some Retry) money_failed))))) 1 = Some q
     \<and> fp_status q = PO_PROCESSING \<and> fp_amount q = 10000"
proof -
  let ?r = "postAdminPayout demo_env (Some finance) (Some 1) (Some Retry) money_failed"
  have "\<not> isl (fst ?r)" by code_simp
  then obtain shown where r: "?r = (Inr shown, snd ?r)" by (metis isl_def sum.exhaust prod.collapse)
  have "map_option (\<lambda>p. (fp_webhook p, fp_amount p)) (find_unique (m_payouts money_failed) 1) = Some (Some 5, 10000)" by code_simp
  then obtain p where p: "find_unique (m_payouts money_failed) 1 = Some p" "fp_webhook p = Some 5" "fp_amount p = 10000" by auto
  have wf: "wf_table (m_payouts money_failed)" by code_simp
  have step: "money_step\<^sup>*\<^sup>* (snd ?r) (snd (paystackWebhook demo_env (transfer_event ''transfer.success'') ''{}'' [] (snd ?r)))"
    by (rule r_into_rtranclp) (rule Webhook)
  from retried_payout_stuck [OF r wf p(1,2) step] p(3) show ?thesis by simp
qed

section \<open>Demonstration payouts\<close>

lemma demo_rows:
  assumes "wf_table t"
  shows "find_unique (insert_rows (demo_payouts a x) t) (t_next t + 5) = Some (demo_payouts a x ! 5)"
    and "(k, p) \<in> set (t_rows (insert_rows (demo_payouts a x) t)) \<Longrightarrow> (k, p) \<in> set (t_rows t) \<or> fp_key p = None \<and> fp_journal p = None"
proof -
  show "find_unique (insert_rows (demo_payouts a x) t) (t_next t + 5) = Some (demo_payouts a x ! 5)"
    using assms by (simp add: insert_rows_def demo_payouts_def tbl.lookup_insert tbl.ok_insert)
  have "snd ` set (t_rows (insert_rows rs t)) = snd ` set (t_rows t) \<union> set rs" for rs :: "ff_payout list"
    using rows_insert_rows [of rs t] by (metis set_append set_map)
  moreover have "\<forall>p \<in> set (demo_payouts a x). fp_key p = None \<and> fp_journal p = None"
    by (simp add: demo_payouts_def empty_payout_def)
  moreover have "set (t_rows (insert_rows rs t)) \<subseteq> set (t_rows t) \<union> {(k, p). p \<in> set rs}" for rs
    by (induction rs arbitrary: t) (fastforce simp: insert_rows_def)+
  ultimately show "(k, p) \<in> set (t_rows (insert_rows (demo_payouts a x) t))
      \<Longrightarrow> (k, p) \<in> set (t_rows t) \<or> fp_key p = None \<and> fp_journal p = None" by blast
qed

lemma demo_payout: "demo_payouts a x ! 5 = (empty_payout a 18000 (x - day_ms))\<lparr>fp_fee := 1800, fp_net := 16200, fp_status := PO_REQUESTED,
   fp_title := Some STR ''Business Verification - Tech Startup''\<rparr>"
  by (simp add: demo_payouts_def empty_payout_def)

lemma start_transfer_asks:
  "isPaystackConfigured e \<Longrightarrow> m_transfers (snd (start_transfer e a k p r m)) = m_transfers m @ [(fp_amount p * 100, r)]"
  by (auto simp: start_transfer_def initiatePaystackTransfer_def fail_payout_def split: transfer_answer.split option.split)

lemma payouts_of_Nil: "payouts_of a m = [] \<longleftrightarrow> find_many (\<lambda>_ p. fp_agent p = a) (m_payouts m) = []"
  by (metis payouts_of_def set_empty set_sort)

lemma earnings_of_newcomer:
  assumes "getEarnings e (Some a) m = (Inr v, m1)" "payouts_of a m = []"
  shows "m_payouts m1 = insert_rows (demo_payouts a (int (fv_now e))) (m_payouts m)" "m_ledger m1 = m_ledger m"
    "m_transfers m1 = m_transfers m" "map_option (fw_available \<circ> snd) (wallet_of a m1) = Some (case wallet_of a m of None \<Rightarrow> 0 | Some (_, w) \<Rightarrow> fw_available w)"
proof -
  have none: "payouts_of a (m\<lparr>m_wallets := ws\<rparr>) = []" for ws using assms(2) by (simp add: payouts_of_def)
  show "m_payouts m1 = insert_rows (demo_payouts a (int (fv_now e))) (m_payouts m)" "m_ledger m1 = m_ledger m"
    "m_transfers m1 = m_transfers m" "map_option (fw_available \<circ> snd) (wallet_of a m1) = Some (case wallet_of a m of None \<Rightarrow> 0 | Some (_, w) \<Rightarrow> fw_available w)"
    using assms none
    by (auto simp: getEarnings_def ensure_wallet_def Let_def wallet_of_def find_first_insert_row split: option.splits)
qed

text \<open>An agent who opens the earnings page for the first time can be paid money that nobody earned. In any state reached
  from an empty ledger without payouts, viewing the earnings of an agent without payouts creates a REQUESTED payout of
  18000 for the agent, leaves the available balance as it was, and a finance administrator who releases it makes
  the application ask Paystack to transfer 1,800,000 kobo: the whole amount, not the 16200 net of the fee.\<close>

theorem demo_payout_payable:
  assumes "m_payouts m0 = empty_table" "m_ledger m0 = empty_ledger" "wf_table (m_wallets m0)" "money_step\<^sup>*\<^sup>* m0 m"
    and view: "getEarnings e (Some a) m = (Inr v, m1)" and none: "payouts_of a m = []"
    and admin: "ad_role ad \<in> {FR_SUPER_ADMIN, FR_FINANCE}" "isPaystackConfigured e'"
    and key: "\<not> exists_row (\<lambda>_ q. fp_key q = Some (generatePayoutIdempotencyKey e' a)) (m_payouts m)"
  shows "\<exists>k p. find_unique (m_payouts m1) k = Some p \<and> fp_agent p = a \<and> fp_status p = PO_REQUESTED \<and> fp_net p = 16200
    \<and> map_option (fw_available \<circ> snd) (wallet_of a m1) = Some (case wallet_of a m of None \<Rightarrow> 0 | Some (_, w) \<Rightarrow> fw_available w)
    \<and> m_transfers (snd (postAdminPayout e' (Some ad) (Some k) (Some Release) m1))
        = m_transfers m @ [(1800000, generateProviderReference e' (decimal k))]"
proof -
  let ?k = "t_next (m_payouts m) + 5" and ?p = "demo_payouts a (int (fv_now e)) ! 5"
  have ok: "in_step m0 m" by (rule run_money_ok [OF assms(4) start_money_ok [OF assms(1-3)]])
  then have wf: "wf_table (m_payouts m)" by (simp add: money_ok_def payouts_ok_def)
  note m1 = earnings_of_newcomer [OF view none]
  have p: "find_unique (m_payouts m1) ?k = Some ?p" by (simp add: m1(1) demo_rows(1) [OF wf])
  define f :: "ff_payout \<Rightarrow> ff_payout" where "f = (\<lambda>p. p\<lparr>fp_status := PO_PROCESSING, fp_provider_ref := Some (generateProviderReference e' (decimal ?k)),
     fp_key := Some (generatePayoutIdempotencyKey e' a), fp_processing := Some (int (fv_now e'))\<rparr>)"
  let ?m = "set_payout ?k f m1"
  let ?q = "\<lparr>po_key = request_key ?k, po_entity_type = STR ''Payout'', po_entity = Some ?k, po_agent = Some a,
      po_lines = [debit PAYOUT_ESCROW 18000, credit AGENT_AVAILABLE_BALANCE 18000]\<rparr>"
  have eq: "postPayoutRequest ?k a 18000 = ff_postJournalEntry ?q" by (simp add: postPayoutRequest_def request_key_def)
  have sound: "ledger_sound (m_ledger ?m)" using ok by (simp add: money_ok_def m1(2))
  have fresh: "request_key ?k \<notin> entry_keys (m_ledger m)" using ok by (fastforce simp: money_ok_def payouts_ok_def)
  obtain x l where x: "post_or_throw (ff_postJournalEntry ?q) ?m = return x (?m\<lparr>m_ledger := l\<rparr>)" "x = Posted (t_next (lg_entries (m_ledger m)))"
    by (rule post_cases [OF sound, of ?q]) (use fresh in \<open>auto simp: m1(2)\<close>)
  have old: "fp_journal q \<noteq> Some (t_next (lg_entries (m_ledger m)))" if "(j, q) \<in> set (t_rows (m_payouts m))" for j q
    using ok that by (fastforce simp: money_ok_def payouts_ok_def payout_ok_def)
  have "find_first (\<lambda>k' q. k' \<noteq> ?k \<and> fp_journal q = Some (t_next (lg_entries (m_ledger m)))) (m_payouts ?m) = None"
    unfolding find_first_None_iff
    using old demo_rows(2) [OF wf] by (fastforce simp: m1(1) update_row_def rows_update_many f_def)
  then obtain m2 where m2: "link_journal ?k x (?m\<lparr>m_ledger := l\<rparr>) = return () m2" "m_transfers m2 = m_transfers m"
    by (simp add: link_journal_def entry_of_def x(2) m1(3))
  have keys: "find_first (\<lambda>_ q. fp_key q = Some (generatePayoutIdempotencyKey e' a)) (m_payouts m1) = None"
    unfolding find_first_None_iff
    using key [unfolded not_not find_first_None_iff] demo_rows(2) [OF wf] by (fastforce simp: m1(1))
  have "snd (release e' ad ?k ?p m1) = snd (start_transfer e' ad ?k ?p (generateProviderReference e' (decimal ?k)) m2)"
    using x(1) m2(1) keys by (simp add: release_def Let_def demo_payout empty_payout_def eq f_def)
  then have "m_transfers (snd (postAdminPayout e' (Some ad) (Some ?k) (Some Release) m1))
      = m_transfers m @ [(1800000, generateProviderReference e' (decimal ?k))]"
    using admin p m2(2) start_transfer_asks [OF admin(2), of ad ?k ?p]
    by (auto simp: postAdminPayout_def requireAdminAuth_def snd_and_then_return demo_payout empty_payout_def)
  then show ?thesis using p m1(4) by (intro exI [of _ ?k] exI [of _ ?p]) (simp add: demo_payout empty_payout_def)
qed

theorem demo_payout_payable_witness:
  "\<exists>k v m1. getEarnings demo_env (Some 1) sample_money = (Inr v, m1)
     \<and> m_transfers (snd (postAdminPayout (demo_env\<lparr>fv_secret := ''sk''\<rparr>) (Some finance) (Some k) (Some Release) m1))
       = [(1800000, generateProviderReference (demo_env\<lparr>fv_secret := ''sk''\<rparr>) (decimal k))]"
proof -
  let ?r = "getEarnings demo_env (Some 1) sample_money" and ?e = "demo_env\<lparr>fv_secret := ''sk''\<rparr>"
  have start: "m_payouts sample_money = empty_table" "m_ledger sample_money = empty_ledger" "wf_table (m_wallets sample_money)"
    by (simp_all add: sample_money_def)
  have "\<not> isl (fst ?r)" by code_simp
  then obtain v where r: "?r = (Inr v, snd ?r)" by (metis isl_def sum.exhaust prod.collapse)
  have "payouts_of 1 sample_money = []" "ad_role finance \<in> {FR_SUPER_ADMIN, FR_FINANCE}" "isPaystackConfigured ?e"
    "\<not> exists_row (\<lambda>_ q. fp_key q = Some (generatePayoutIdempotencyKey ?e 1)) (m_payouts sample_money)"
    by (simp_all add: payouts_of_Nil sample_money_def find_many_def empty_table_def finance_def isPaystackConfigured_def find_first_def)
  from demo_payout_payable [OF start rtranclp.rtrancl_refl r this] r show ?thesis by (auto simp: sample_money_def)
qed

end
