(* ===== verification/Ff_Sync.thy ===== *)
theory Ff_Sync
  imports Prelude
begin

text \<open>
  Offline synchronisation of the FieldForce application: \<open>lib/sync-protocol.ts\<close> and the route
  \<open>app/api/sync\<close>. A client queues mutations while it is offline and sends them in batches; the server keeps one
  row per idempotency key. Of a mission only its workflow state is read. The clock is read once by an operation.
\<close>

section \<open>State\<close>

datatype sync_status = SY_QUEUED | SY_UPLOADING | SY_SYNCED | SY_FAILED | SY_CONFLICT

text \<open>A payload may be absent, \<open>null\<close>, or an object: its text and its \<open>workflowState\<close>.\<close>

datatype sync_payload = Absent | Null | Object string "string option"

record queue_item =
  qi_agent :: nat
  qi_mission :: "nat option"
  qi_operation :: string
  qi_resource_type :: "string option"
  qi_resource :: "nat option"
  qi_payload :: string
  qi_key :: string
  qi_client_version :: "nat option"
  qi_status :: sync_status
  qi_retries :: nat
  qi_max_retries :: nat
  qi_next_retry :: "int option"
  qi_synced :: "int option"
  qi_error :: "String.literal option"
  qi_details :: "string option"
  qi_resolved_by :: "string option"
  qi_resolved :: "int option"

record sync_state =
  sy_queue :: "queue_item table"
  sy_missions :: "string table"

record sync_envelope =
  en_agent :: nat
  en_operation :: string
  en_resource_type :: "string option"
  en_resource :: "nat option"
  en_client_version :: "nat option"
  en_payload :: sync_payload
  en_key :: string
  en_mission :: "nat option"

datatype conflict_policy = APPEND_ONLY | SERVER_WINS | CLIENT_WINS | MANUAL_REVIEW

definition resource_policies :: "(string \<times> conflict_policy) list" where
  "resource_policies = [(''Evidence'', APPEND_ONLY), (''GpsCheck'', APPEND_ONLY), (''ChecklistEvent'', APPEND_ONLY),
     (''Mission'', SERVER_WINS), (''WalletAccount'', SERVER_WINS), (''WalletEntry'', SERVER_WINS), (''Payout'', SERVER_WINS),
     (''JournalEntry'', SERVER_WINS), (''Expense'', APPEND_ONLY)]"

definition getConflictPolicy :: "string \<Rightarrow> conflict_policy" where
  "getConflictPolicy resource = (case map_of resource_policies resource of Some p \<Rightarrow> p | None \<Rightarrow> SERVER_WINS)"

record sync_result =
  sr_success :: bool
  sr_key :: string
  sr_status :: sync_status
  sr_server_state :: "string option"
  sr_error :: "String.literal option"
  sr_policy :: "conflict_policy option"

section \<open>Processing a mutation\<close>

definition find_item :: "string \<Rightarrow> queue_item table \<Rightarrow> (nat \<times> queue_item) option" where
  "find_item key = find_first (\<lambda>_ q. qi_key q = key)"

definition set_item :: "string \<Rightarrow> (queue_item \<Rightarrow> queue_item) \<Rightarrow> sync_state \<Rightarrow> sync_state" where
  "set_item key f s = s\<lparr>sy_queue := update_many (\<lambda>_ q. qi_key q = key) f (sy_queue s)\<rparr>"

text \<open>Reading \<open>payload.workflowState\<close> of a payload that is no object throws.\<close>

definition expected_state :: "sync_payload \<Rightarrow> String.literal + string option" where
  "expected_state p = (case p of
     Object _ w \<Rightarrow> Inr w
   | _ \<Rightarrow> Inl STR ''Cannot read properties of undefined'')"

text \<open>The server's state, when it is not the one the client expected.\<close>

definition detectConflict :: "sync_envelope \<Rightarrow> sync_state \<Rightarrow> String.literal + string option" where
  "detectConflict en s = (case (en_resource_type en, en_resource en) of
     (Some t, Some r) \<Rightarrow>
       if t = ''Mission'' \<and> en_operation en = ''MISSION_TRANSITION'' then
         (case find_unique (sy_missions s) r of
            None \<Rightarrow> Inr None
          | Some current \<Rightarrow> (case expected_state (en_payload en) of
              Inl x \<Rightarrow> Inl x
            | Inr None \<Rightarrow> Inr None
            | Inr (Some w) \<Rightarrow> Inr (if w \<noteq> [] \<and> current \<noteq> w then Some current else None)))
       else Inr None
   | _ \<Rightarrow> Inr None)"

text \<open>The dispatch to a domain handler is a stub that reports success.\<close>

definition dispatchSyncOperation :: "sync_envelope \<Rightarrow> sync_state \<Rightarrow> bool \<times> sync_state" where
  "dispatchSyncOperation en s = (True, s)"

definition markQueueItemSynced :: "int \<Rightarrow> string \<Rightarrow> sync_state \<Rightarrow> sync_state" where
  "markQueueItemSynced t key = set_item key (\<lambda>q. q\<lparr>qi_status := SY_SYNCED, qi_synced := Some t\<rparr>)"

definition sync_delay :: "nat \<Rightarrow> int" where
  "sync_delay retries = min (2000 * 2 ^ (retries - 1)) (5 * 60 * 1000)"

definition markQueueItemFailed :: "int \<Rightarrow> string \<Rightarrow> String.literal \<Rightarrow> sync_state \<Rightarrow> sync_state" where
  "markQueueItemFailed t key err s = (case find_item key (sy_queue s) of
     None \<Rightarrow> s
   | Some (_, i) \<Rightarrow> let n = qi_retries i + 1 in
       if qi_max_retries i \<le> n
       then set_item key (\<lambda>q. q\<lparr>qi_status := SY_FAILED, qi_retries := n, qi_error := Some err\<rparr>) s
       else set_item key (\<lambda>q. q\<lparr>qi_status := SY_QUEUED, qi_retries := n, qi_next_retry := Some (t + sync_delay n),
         qi_error := Some err\<rparr>) s)"

definition result_of :: "string \<Rightarrow> bool \<Rightarrow> sync_status \<Rightarrow> sync_result" where
  "result_of key ok st = \<lparr>sr_success = ok, sr_key = key, sr_status = st, sr_server_state = None, sr_error = None, sr_policy = None\<rparr>"

definition dispatch_and_mark :: "int \<Rightarrow> sync_envelope \<Rightarrow> sync_state \<Rightarrow> sync_result \<times> sync_state" where
  "dispatch_and_mark t en s = (case dispatchSyncOperation en s of
     (ok, s) \<Rightarrow> (result_of (en_key en) ok SY_SYNCED, markQueueItemSynced t (en_key en) s))"

text \<open>Both the type and the id of a resource have to be given for a conflict to be looked for.\<close>

definition processSyncMutation :: "int \<Rightarrow> sync_envelope \<Rightarrow> sync_state \<Rightarrow> sync_result \<times> sync_state" where
  "processSyncMutation t en s = (let key = en_key en; item = find_item key (sy_queue s) in
     if (\<exists>(_, i) \<in> set_option item. qi_status i = SY_SYNCED) then (result_of key True SY_SYNCED, s)
     else let s = (if item = None then s else set_item key (\<lambda>q. q\<lparr>qi_status := SY_UPLOADING\<rparr>) s) in
       (case detectConflict en s of
          Inl err \<Rightarrow> ((result_of key False SY_FAILED)\<lparr>sr_error := Some err\<rparr>, markQueueItemFailed t key err s)
        | Inr None \<Rightarrow> dispatch_and_mark t en s
        | Inr (Some current) \<Rightarrow> (case getConflictPolicy (the (en_resource_type en)) of
            SERVER_WINS \<Rightarrow> ((result_of key True SY_SYNCED)\<lparr>sr_policy := Some SERVER_WINS, sr_server_state := Some current\<rparr>, s)
          | MANUAL_REVIEW \<Rightarrow> ((result_of key False SY_CONFLICT)\<lparr>sr_policy := Some MANUAL_REVIEW\<rparr>, s)
          | _ \<Rightarrow> dispatch_and_mark t en s)))"

datatype resolution = ACCEPT_CLIENT | ACCEPT_SERVER | DISCARD

text \<open>Whatever the resolution, the item is SYNCED. Of the details the notes are kept.\<close>

definition resolveConflict ::
  "int \<Rightarrow> string \<Rightarrow> resolution \<Rightarrow> string \<Rightarrow> string option \<Rightarrow> sync_state \<Rightarrow> (sync_state, String.literal, unit) outcome" where
  "resolveConflict t key action resolvedBy notes' s = (case find_item key (sy_queue s) of
     None \<Rightarrow> throw STR ''Queue item not found'' s
   | Some (_, i) \<Rightarrow> if qi_status i \<noteq> SY_CONFLICT \<and> qi_status i \<noteq> SY_FAILED
       then throw STR ''Item is not in conflict/failed state'' s
       else return () (set_item key (\<lambda>q. q\<lparr>qi_status := (if action = DISCARD then SY_SYNCED else SY_SYNCED),
         qi_resolved_by := Some resolvedBy, qi_resolved := Some t,
         qi_details := (case notes' of Some n \<Rightarrow> if n = [] then qi_details q else Some n | None \<Rightarrow> qi_details q)\<rparr>) s))"

section \<open>The route\<close>

definition new_item :: "sync_envelope \<Rightarrow> string \<Rightarrow> queue_item" where
  "new_item en payload = \<lparr>qi_agent = en_agent en, qi_mission = en_mission en, qi_operation = en_operation en,
     qi_resource_type = en_resource_type en, qi_resource = en_resource en, qi_payload = payload, qi_key = en_key en,
     qi_client_version = en_client_version en, qi_status = SY_QUEUED, qi_retries = 0, qi_max_retries = 5, qi_next_retry = None,
     qi_synced = None, qi_error = None, qi_details = None, qi_resolved_by = None, qi_resolved = None\<rparr>"

text \<open>\<open>JSON.stringify\<close>; nothing for an absent payload, which the column does not take.\<close>

definition payload_text :: "sync_payload \<Rightarrow> string option" where
  "payload_text p = (case p of Absent \<Rightarrow> None | Null \<Rightarrow> Some ''null'' | Object t _ \<Rightarrow> Some t)"

record batch_result =
  br_key :: string
  br_status :: sync_status
  br_already :: bool
  br_success :: bool
  br_error :: "String.literal option"

datatype sync_http = Sync_Http nat String.literal

definition answer_of :: "sync_result \<Rightarrow> batch_result" where
  "answer_of r = \<lparr>br_key = sr_key r, br_status = sr_status r, br_already = False, br_success = sr_success r, br_error = sr_error r\<rparr>"

definition sync_one :: "int \<Rightarrow> sync_envelope \<Rightarrow> sync_state \<Rightarrow> (sync_state, sync_http, batch_result) outcome" where
  "sync_one t en s = (case find_item (en_key en) (sy_queue s) of
     Some (_, i) \<Rightarrow> if qi_status i = SY_SYNCED
       then return \<lparr>br_key = en_key en, br_status = SY_SYNCED, br_already = True, br_success = False, br_error = None\<rparr> s
       else (case processSyncMutation t en s of (r, s) \<Rightarrow> return (answer_of r) s)
   | None \<Rightarrow> (case payload_text (en_payload en) of
       None \<Rightarrow> throw (Sync_Http 500 STR ''Sync failed'') s
     | Some p \<Rightarrow> (case processSyncMutation t en (s\<lparr>sy_queue := insert_row (new_item en p) (sy_queue s)\<rparr>) of
         (r, s) \<Rightarrow> return (answer_of r) s)))"

fun sync_loop :: "int \<Rightarrow> sync_envelope list \<Rightarrow> sync_state \<Rightarrow> (sync_state, sync_http, batch_result list) outcome" where
  "sync_loop t [] s = return [] s"
| "sync_loop t (en # ens) s = and_then (sync_one t en s) (\<lambda>r s. and_then (sync_loop t ens s) (\<lambda>rs. return (r # rs)))"

record sync_summary =
  ss_synced :: nat
  ss_failed :: nat
  ss_conflicts :: nat
  ss_results :: "batch_result list"

definition count_results :: "sync_status \<Rightarrow> batch_result list \<Rightarrow> nat" where
  "count_results st rs = length (filter (\<lambda>r. br_status r = st) rs)"

definition postSync :: "int \<Rightarrow> nat option \<Rightarrow> sync_envelope list \<Rightarrow> sync_state \<Rightarrow> (sync_state, sync_http, sync_summary) outcome" where
  "postSync t auth ens s = (case auth of
     None \<Rightarrow> throw (Sync_Http 401 STR ''Unauthorized'') s
   | Some agent \<Rightarrow>
     if ens = [] then throw (Sync_Http 400 STR ''mutations array is required'') s
     else if 50 < length ens then throw (Sync_Http 400 STR ''Maximum 50 mutations per sync batch'') s
     else and_then (sync_loop t (map (\<lambda>en. en\<lparr>en_agent := agent\<rparr>) ens) s) (\<lambda>rs. return
       \<lparr>ss_synced = count_results SY_SYNCED rs, ss_failed = count_results SY_FAILED rs,
        ss_conflicts = count_results SY_CONFLICT rs, ss_results = rs\<rparr>))"

record queue_status =
  qs_queued :: nat
  qs_uploading :: nat
  qs_synced :: nat
  qs_failed :: nat
  qs_conflicts :: nat
  qs_last_sync :: "int option"

definition items_in :: "nat \<Rightarrow> sync_status \<Rightarrow> sync_state \<Rightarrow> (nat \<times> queue_item) list" where
  "items_in agent st s = find_many (\<lambda>_ q. qi_agent q = agent \<and> qi_status q = st) (sy_queue s)"

text \<open>In SQLite's descending order nulls come last.\<close>

definition last_sync :: "(nat \<times> queue_item) list \<Rightarrow> int option" where
  "last_sync items = fold (\<lambda>(_, q) m. case (qi_synced q, m) of
     (None, _) \<Rightarrow> m | (Some t, None) \<Rightarrow> Some t | (Some t, Some x) \<Rightarrow> Some (max t x)) items None"

definition getSyncQueueStatus :: "nat \<Rightarrow> sync_state \<Rightarrow> queue_status" where
  "getSyncQueueStatus agent s = \<lparr>qs_queued = length (items_in agent SY_QUEUED s), qs_uploading = length (items_in agent SY_UPLOADING s),
     qs_synced = length (items_in agent SY_SYNCED s), qs_failed = length (items_in agent SY_FAILED s),
     qs_conflicts = length (items_in agent SY_CONFLICT s), qs_last_sync = last_sync (items_in agent SY_SYNCED s)\<rparr>"

section \<open>Runs\<close>

text \<open>Batches of any agents, conflicts resolved by an administrator, and missions changed by others.\<close>

inductive sync_step :: "sync_state \<Rightarrow> sync_state \<Rightarrow> bool" where
  Batch: "sync_step s (snd (postSync t auth ens s))"
| Resolve: "sync_step s (snd (resolveConflict t key action who notes' s))"
| Elsewhere: "sync_step s (s\<lparr>sy_missions := ms\<rparr>)"

end
