(* ===== verification/Ff_Sync_Properties.thy ===== *)
theory Ff_Sync_Properties
  imports Ff_Sync
begin

text \<open>
  What the offline synchronisation of the FieldForce application promises for a key it has answered with SYNCED,
  and what it does not do for it.
\<close>

section \<open>Rows by key\<close>

lemma find_set_item:
  assumes "\<And>q. qi_key (f q) = qi_key q"
  shows "find_item key (sy_queue (set_item key' f s))
    = map_option (\<lambda>(k, q). (k, if qi_key q = key' then f q else q)) (find_item key (sy_queue s))"
  by (simp add: find_item_def set_item_def find_first_update_many assms)

lemma find_item_key: "find_item key t = Some (k, q) \<Longrightarrow> qi_key q = key"
  unfolding find_item_def by (drule find_first_SomeD) simp

lemma set_item_missions [simp]: "sy_missions (set_item key f s) = sy_missions s"
  by (simp add: set_item_def)

lemma find_new_item:
  "find_item key (insert_row q t) = (case find_item key t of Some x \<Rightarrow> Some x
     | None \<Rightarrow> if qi_key q = key then Some (t_next t, q) else None)"
  unfolding find_item_def find_first_insert_row by (simp split: option.split)

section \<open>What stays as it is\<close>

definition keeps_item :: "string \<Rightarrow> nat \<times> queue_item \<Rightarrow> sync_state \<Rightarrow> bool" where
  "keeps_item key x s \<longleftrightarrow> find_item key (sy_queue s) = Some x \<and> qi_status (snd x) = SY_SYNCED"

lemma keeps_set_other:
  "keeps_item key x s \<Longrightarrow> key' \<noteq> key \<Longrightarrow> (\<And>q. qi_key (f q) = qi_key q) \<Longrightarrow> keeps_item key x (set_item key' f s)"
  by (cases x) (auto simp: keeps_item_def find_set_item dest: find_item_key)

lemma failed_keeps:
  assumes "keeps_item key x s" "key' \<noteq> key"
  shows "keeps_item key x (markQueueItemFailed t key' err s)"
  using assms by (auto simp: markQueueItemFailed_def Let_def split: option.split intro!: keeps_set_other)

lemma dispatch_keeps:
  assumes "keeps_item key x s" "en_key en \<noteq> key"
  shows "keeps_item key x (snd (dispatch_and_mark t en s))"
  using assms by (auto simp: dispatch_and_mark_def dispatchSyncOperation_def markQueueItemSynced_def intro!: keeps_set_other)

lemma process_keeps:
  assumes keeps: "keeps_item key x s"
  shows "keeps_item key x (snd (processSyncMutation t en s))"
proof (cases "en_key en = key")
  case True
  with keeps show ?thesis by (cases x) (simp add: processSyncMutation_def keeps_item_def Let_def)
next
  case False
  define u where "u = (if find_item (en_key en) (sy_queue s) = None then s else set_item (en_key en) (\<lambda>q. q\<lparr>qi_status := SY_UPLOADING\<rparr>) s)"
  have u: "keeps_item key x u" using keeps False by (simp add: u_def keeps_set_other)
  have "keeps_item key x (markQueueItemFailed t (en_key en) err u)" "keeps_item key x (snd (dispatch_and_mark t en u))" for err
    by (rule failed_keeps [OF u False] dispatch_keeps [OF u False])+
  with keeps u show ?thesis
    unfolding processSyncMutation_def Let_def u_def [symmetric]
    by (simp split: sum.split option.split conflict_policy.split)
qed

lemma one_keeps:
  assumes "keeps_item key x s"
  shows "keeps_item key x (snd (sync_one t en s))"
proof (cases "find_item (en_key en) (sy_queue s)")
  case None
  then have "keeps_item key x (s\<lparr>sy_queue := insert_row (new_item en p) (sy_queue s)\<rparr>)" for p
    using assms by (simp add: keeps_item_def find_new_item)
  from process_keeps [OF this] show ?thesis using assms
    by (auto simp: sync_one_def None split: option.split prod.split) (metis snd_conv)
next
  case (Some y)
  with process_keeps [OF assms, of t en] assms show ?thesis
    by (cases y) (auto simp: sync_one_def split: prod.split)
qed

lemma loop_keeps: "keeps_item key x s \<Longrightarrow> keeps_item key x (snd (sync_loop t ens s))"
proof (induction ens arbitrary: s)
  case (Cons en ens)
  have one: "keeps_item key x (snd (sync_one t en s))" by (rule one_keeps [OF Cons.prems])
  show ?case using one Cons.IH by (auto simp: and_then_def split: sum.split prod.split) (metis snd_conv)+
qed simp

lemma step_keeps: "sync_step s s' \<Longrightarrow> keeps_item key x s \<Longrightarrow> keeps_item key x s'"
proof (induction rule: sync_step.induct)
  case (Batch s t auth ens)
  have "keeps_item key x (snd (sync_loop t (map (\<lambda>en. en\<lparr>en_agent := a\<rparr>) ens) s))" for a by (rule loop_keeps [OF Batch])
  then show ?case using Batch
    by (auto simp: postSync_def and_then_def split: option.split sum.split prod.split) (metis snd_conv)+
next
  case (Resolve s t key' action who notes')
  show ?case
  proof (cases "key' = key")
    case True
    with Resolve show ?thesis by (cases x) (simp add: resolveConflict_def keeps_item_def)
  next
    case False
    with Resolve show ?thesis by (auto simp: resolveConflict_def split: option.split intro!: keeps_set_other)
  qed
qed (simp add: keeps_item_def)

lemma run_keeps: "sync_step\<^sup>*\<^sup>* s s' \<Longrightarrow> keeps_item key x s \<Longrightarrow> keeps_item key x s'"
  by (induction rule: rtranclp_induct) (simp_all add: step_keeps)

lemma resent:
  assumes "keeps_item (en_key en) x s"
  shows "postSync t (Some a) [en] s = (Inr \<lparr>ss_synced = 1, ss_failed = 0, ss_conflicts = 0, ss_results =
     [\<lparr>br_key = en_key en, br_status = SY_SYNCED, br_already = True, br_success = False, br_error = None\<rparr>]\<rparr>, s)"
  using assms by (cases x) (simp add: keeps_item_def postSync_def sync_one_def count_results_def)

section \<open>The properties\<close>

text \<open>A mutation is accepted once. When the row of an idempotency key is SYNCED, no batch of any agent, no resolution
  of a conflict and no change of the missions alters the row any more, and sending the mutation again, by whomever, is
  answered as already processed and changes nothing.\<close>

theorem synced_for_good:
  assumes "find_item (en_key en) (sy_queue s) = Some (k, i)" "qi_status i = SY_SYNCED" "sync_step\<^sup>*\<^sup>* s s'"
  shows "find_item (en_key en) (sy_queue s') = Some (k, i)
    \<and> postSync t (Some a) [en] s' = (Inr \<lparr>ss_synced = 1, ss_failed = 0, ss_conflicts = 0, ss_results =
        [\<lparr>br_key = en_key en, br_status = SY_SYNCED, br_already = True, br_success = False, br_error = None\<rparr>]\<rparr>, s')"
proof -
  have "keeps_item (en_key en) (k, i) s'" by (rule run_keeps [OF assms(3)]) (simp add: keeps_item_def assms(1,2))
  from resent [OF this] this show ?thesis by (simp add: keeps_item_def)
qed

definition sample_mutation :: sync_envelope where
  "sample_mutation = \<lparr>en_agent = 1, en_operation = ''MISSION_TRANSITION'', en_resource_type = Some ''Mission'', en_resource = Some 1,
     en_client_version = None, en_payload = Object ''{}'' (Some ''ACCEPTED''), en_key = ''k1'', en_mission = Some 1\<rparr>"

definition sample_sync :: sync_state where
  "sample_sync = \<lparr>sy_queue = empty_table, sy_missions = insert_row ''ACCEPTED'' empty_table\<rparr>"

theorem synced_for_good_witness:
  "snd (postSync 9 (Some 2) [sample_mutation] (snd (postSync 5 (Some 1) [sample_mutation] sample_sync)))
     = snd (postSync 5 (Some 1) [sample_mutation] sample_sync)"
proof -
  let ?s = "snd (postSync 5 (Some 1) [sample_mutation] sample_sync)"
  have "map_option (\<lambda>(k, i). qi_status i) (find_item (en_key sample_mutation) (sy_queue ?s)) = Some SY_SYNCED" by code_simp
  then obtain k i where "find_item (en_key sample_mutation) (sy_queue ?s) = Some (k, i)" "qi_status i = SY_SYNCED" by auto
  from synced_for_good [OF this rtranclp.rtrancl_refl] show ?thesis by simp
qed

text \<open>A mission transition made offline is answered with SYNCED and never applied. For a new key the answer is success
  with status SYNCED whatever state the mission is in, and the mission stays in it: the dispatch to a handler is
  a stub. If the client's expected state was right, the row is SYNCED and the client cannot send the transition
  again; if it was not, the server wins, and the row is left in UPLOADING.\<close>

theorem synced_not_applied:
  assumes "find_item (en_key en) (sy_queue s) = None" "en_operation en = ''MISSION_TRANSITION''"
    and "en_resource_type en = Some ''Mission''" "en_resource en = Some r" "find_unique (sy_missions s) r = Some current"
    and "en_payload en = Object txt (Some w)" "w \<noteq> []" "postSync t (Some a) [en] s = (answer, s')" "sync_step\<^sup>*\<^sup>* s' s''"
  shows "answer = Inr \<lparr>ss_synced = 1, ss_failed = 0, ss_conflicts = 0, ss_results =
        [\<lparr>br_key = en_key en, br_status = SY_SYNCED, br_already = False, br_success = True, br_error = None\<rparr>]\<rparr>
    \<and> sy_missions s' = sy_missions s
    \<and> (\<exists>k i. find_item (en_key en) (sy_queue s') = Some (k, i) \<and> qi_status i = (if current = w then SY_SYNCED else SY_UPLOADING))
    \<and> (current = w \<longrightarrow> snd (postSync t' (Some a') [en] s'') = s'')"
proof -
  let ?en = "en\<lparr>en_agent := a\<rparr>" and ?q = "(new_item (en\<lparr>en_agent := a\<rparr>) txt)"
  let ?s = "s\<lparr>sy_queue := insert_row ?q (sy_queue s)\<rparr>"
  let ?u = "set_item (en_key en) (\<lambda>q. q\<lparr>qi_status := SY_UPLOADING\<rparr>) ?s"
  have q: "qi_key ?q = en_key en" "qi_status ?q = SY_QUEUED" by (simp_all add: new_item_def)
  have new: "find_item (en_key en) (sy_queue ?s) = Some (t_next (sy_queue s), ?q)" using assms(1) q by (simp add: find_new_item)
  then have up: "find_item (en_key en) (sy_queue ?u) = Some (t_next (sy_queue s), ?q\<lparr>qi_status := SY_UPLOADING\<rparr>)"
    by (simp add: find_set_item q)
  have conflict: "detectConflict ?en ?u = Inr (if current = w then None else Some current)"
    using assms(2-7) by (simp add: detectConflict_def expected_state_def)
  have "getConflictPolicy ''Mission'' = SERVER_WINS" by (simp add: getConflictPolicy_def resource_policies_def)
  then have process: "processSyncMutation t ?en ?s = (if current = w
      then (result_of (en_key en) True SY_SYNCED, markQueueItemSynced t (en_key en) ?u)
      else ((result_of (en_key en) True SY_SYNCED)\<lparr>sr_policy := Some SERVER_WINS, sr_server_state := Some current\<rparr>, ?u))"
    using conflict new q assms(3) by (simp add: processSyncMutation_def Let_def dispatch_and_mark_def dispatchSyncOperation_def)
  have one: "sync_one t ?en s = (case processSyncMutation t ?en ?s of (r, s) \<Rightarrow> return (answer_of r) s)"
    using assms(1,6) by (simp add: sync_one_def payload_text_def)
  have eqs: "answer = Inr \<lparr>ss_synced = 1, ss_failed = 0, ss_conflicts = 0, ss_results =
        [\<lparr>br_key = en_key en, br_status = SY_SYNCED, br_already = False, br_success = True, br_error = None\<rparr>]\<rparr>"
    "s' = (if current = w then markQueueItemSynced t (en_key en) ?u else ?u)"
    using assms(8) by (cases "current = w"; simp add: postSync_def one process count_results_def answer_of_def result_of_def)+
  have row: "\<exists>k i. find_item (en_key en) (sy_queue s') = Some (k, i) \<and> qi_status i = (if current = w then SY_SYNCED else SY_UPLOADING)"
  proof (cases "current = w")
    case True
    have "find_item (en_key en) (sy_queue (markQueueItemSynced t (en_key en) ?u))
        = Some (t_next (sy_queue s), ?q\<lparr>qi_status := SY_SYNCED, qi_synced := Some t\<rparr>)"
      unfolding markQueueItemSynced_def by (subst find_set_item, simp, simp only: up, simp add: q)
    with True show ?thesis by (simp add: eqs(2))
  next
    case False
    with up show ?thesis by (simp only: eqs(2) if_False) simp
  qed
  moreover have "sy_missions s' = sy_missions s" by (simp add: eqs(2) markQueueItemSynced_def)
  moreover have "snd (postSync t' (Some a') [en] s'') = s''" if same: "current = w"
  proof -
    obtain x where "keeps_item (en_key en) x s'" using row same by (auto simp: keeps_item_def)
    from resent [OF run_keeps [OF assms(9) this]] show ?thesis by simp
  qed
  ultimately show ?thesis using eqs(1) by blast
qed

theorem synced_not_applied_witness:
  "\<exists>answer s'. postSync 5 (Some 1) [sample_mutation] sample_sync = (Inr answer, s') \<and> ss_synced answer = 1
     \<and> sy_missions s' = sy_missions sample_sync"
proof -
  have "find_item (en_key sample_mutation) (sy_queue sample_sync) = None" "en_operation sample_mutation = ''MISSION_TRANSITION''"
    "en_resource_type sample_mutation = Some ''Mission''" "en_resource sample_mutation = Some 1"
    "find_unique (sy_missions sample_sync) 1 = Some ''ACCEPTED''" "en_payload sample_mutation = Object ''{}'' (Some ''ACCEPTED'')"
    "''ACCEPTED'' \<noteq> []"
    by (simp_all add: sample_mutation_def sample_sync_def find_item_def find_first_def empty_table_def find_unique_def insert_row_def)
  note all = synced_not_applied [OF this surjective_pairing rtranclp.rtrancl_refl, of 5 1]
  show ?thesis
    by (rule exI, rule exI, rule conjI [OF prod_eqI], simp only: fst_conv, rule conjunct1 [OF all], simp only: snd_conv)
      (use all in simp)
qed

end
