(* ===== verification/Gateways.thy ===== *)
theory Gateways
  imports Circuit_Breaker Schema
begin

text \<open>
  The edges of the backend to the outside: the Paystack client
  (\<open>src/backend/src/payments/paystack.service.ts\<close>) and the exchange rates
  (\<open>src/backend/src/fx/fx-rate.service.ts\<close>), each behind its circuit breaker, the guards of the two
  webhooks (\<open>paystack-webhook.guard.ts\<close>, \<open>whatsapp-webhook.guard.ts\<close>) and the check of the production
  environment at start-up (\<open>config/validate-production-env.ts\<close>).

  What the other side answers, and after how long, is an argument of the call; HMAC-SHA512 is a
  function. A call alone is modelled; interleaved calls are those of theory Circuit_Breaker.
\<close>

section \<open>Calls behind a breaker\<close>

datatype gateway_error = Breaker_Refused circuit_error | Timed_Out | Failed String.literal

definition settle_execute ::
  "(circuit_error + (String.literal + 'a) option) \<times> breaker \<Rightarrow> (gateway_error + 'a) \<times> breaker" where
  "settle_execute r = (case r of
     (Inl err, b) \<Rightarrow> (Inl (Breaker_Refused err), b)
   | (Inr None, b) \<Rightarrow> (Inl Timed_Out, b)
   | (Inr (Some (Inl msg)), b) \<Rightarrow> (Inl (Failed msg), b)
   | (Inr (Some (Inr v)), b) \<Rightarrow> (Inr v, b))"

section \<open>Paystack\<close>

text \<open>
  A response of Paystack: whether the HTTP status was a success, and the body, which is empty when it
  is no JSON. \<open>fetch\<close> itself fails with \<open>None\<close>.
\<close>

record 'a paystack_body =
  bo_status :: bool
  bo_data :: "'a option"

type_synonym 'a paystack_answer = "(bool \<times> 'a paystack_body) option"

definition paystack_breaker :: breaker_config where
  "paystack_breaker = \<lparr>cb_failure_threshold = Some 3, cb_reset_timeout = Some 30000, cb_half_open_max = None,
     cb_timeout = Some 15000\<rparr>"

definition secret_key :: "string option \<Rightarrow> string option" where
  "secret_key configured = (case configured of Some [] \<Rightarrow> None | k \<Rightarrow> k)"

definition paystack_data :: "'a paystack_answer \<Rightarrow> String.literal + 'a" where
  "paystack_data a = (case a of
     None \<Rightarrow> Inl STR ''fetch failed''
   | Some (res_ok, body) \<Rightarrow> if \<not> res_ok \<or> \<not> bo_status body then Inl STR ''Paystack request failed''
       else (case bo_data body of None \<Rightarrow> Inl STR ''Paystack request failed'' | Some x \<Rightarrow> Inr x))"

record transaction_init =
  ck_url :: string
  ck_dry_run :: bool

text \<open>Without a key every operation is a dry run, which does not touch the breaker.\<close>

definition paystack_initialize ::
  "string option \<Rightarrow> string \<Rightarrow> int \<Rightarrow> int \<Rightarrow> string paystack_answer \<Rightarrow> breaker \<Rightarrow> (gateway_error + transaction_init) \<times> breaker" where
  "paystack_initialize key reference t delay answer b = (case secret_key key of
     None \<Rightarrow> (Inr \<lparr>ck_url = ''https://paystack.test/dry-run/'' @ reference, ck_dry_run = True\<rparr>, b)
   | Some _ \<Rightarrow> settle_execute (execute paystack_breaker t delay
       (case paystack_data answer of Inl msg \<Rightarrow> Inl msg | Inr url \<Rightarrow> Inr \<lparr>ck_url = url, ck_dry_run = False\<rparr>) b))"

text \<open>A refund needs no data in its body.\<close>

definition paystack_refund ::
  "string option \<Rightarrow> int \<Rightarrow> int \<Rightarrow> unit paystack_answer \<Rightarrow> breaker \<Rightarrow> (gateway_error + bool) \<times> breaker" where
  "paystack_refund key t delay answer b = (case secret_key key of
     None \<Rightarrow> (Inr True, b)
   | Some _ \<Rightarrow> settle_execute (execute paystack_breaker t delay
       (case answer of
          None \<Rightarrow> Inl STR ''fetch failed''
        | Some (res_ok, body) \<Rightarrow> if \<not> res_ok \<or> \<not> bo_status body then Inl STR ''Paystack refund failed'' else Inr False) b))"

definition paystack_verify ::
  "string option \<Rightarrow> int \<Rightarrow> int \<Rightarrow> (verify_status \<times> rat \<times> string option) paystack_answer \<Rightarrow> breaker
    \<Rightarrow> (gateway_error + verify_result) \<times> breaker" where
  "paystack_verify key t delay answer b = (case secret_key key of
     None \<Rightarrow> (Inr \<lparr>vr_dry_run = True, vr_status = None, vr_amount_kobo = 0, vr_gateway = None\<rparr>, b)
   | Some _ \<Rightarrow> settle_execute (execute paystack_breaker t delay
       (case paystack_data answer of
          Inl msg \<Rightarrow> Inl msg
        | Inr (s, amount, gateway) \<Rightarrow>
            Inr \<lparr>vr_dry_run = False, vr_status = Some s, vr_amount_kobo = amount, vr_gateway = gateway\<rparr>) b))"

text \<open>Texts here are ASCII, so equal bytes are equal characters; the comparison in constant time is an equality.\<close>

definition verifySignature ::
  "(string \<Rightarrow> string \<Rightarrow> string) \<Rightarrow> string option \<Rightarrow> string option \<Rightarrow> string option \<Rightarrow> bool" where
  "verifySignature hmac_sha512 key rawBody signature = (case (secret_key key, rawBody, signature) of
     (Some k, Some body, Some s) \<Rightarrow> s \<noteq> [] \<and> hmac_sha512 k body = s
   | _ \<Rightarrow> False)"

definition paystack_webhook_guard ::
  "(string \<Rightarrow> string \<Rightarrow> string) \<Rightarrow> string option \<Rightarrow> string option \<Rightarrow> string option \<Rightarrow> error + unit" where
  "paystack_webhook_guard hmac_sha512 key rawBody signature =
     (if verifySignature hmac_sha512 key rawBody signature then Inr ()
      else Inl (Unauthorized STR ''Invalid Paystack signature''))"

definition whatsapp_webhook_guard :: "string option \<Rightarrow> string option \<Rightarrow> error + unit" where
  "whatsapp_webhook_guard expected provided = (case secret_key expected of
     None \<Rightarrow> Inl (Unauthorized STR ''WhatsApp webhook is not configured'')
   | Some s \<Rightarrow> if provided \<noteq> Some s then Inl (Unauthorized STR ''Invalid webhook secret'') else Inr ())"

section \<open>Exchange rates\<close>

definition cache_ttl_ms :: int where
  "cache_ttl_ms = 60 * 60 * 1000"

definition fx_breaker :: breaker_config where
  "fx_breaker = \<lparr>cb_failure_threshold = Some 3, cb_reset_timeout = Some 30000, cb_half_open_max = None,
     cb_timeout = Some 10000\<rparr>"

record cached_rates =
  fr_gbp :: rat
  fr_eur :: rat
  fr_fetched :: int

record fx_state =
  fs_cache :: "cached_rates option"
  fs_breaker :: breaker

definition rate_in :: "billing_currency \<Rightarrow> cached_rates \<Rightarrow> rat" where
  "rate_in c r = (if c = BC_GBP then fr_gbp r else fr_eur r)"

text \<open>
  Frankfurter's response: the HTTP success and the two rates, absent when they are no numbers. The clock
  is read again when the response has come.
\<close>

definition frankfurter_rates :: "(bool \<times> rat option \<times> rat option) option \<Rightarrow> String.literal + (rat \<times> rat)" where
  "frankfurter_rates a = (case a of
     None \<Rightarrow> Inl STR ''fetch failed''
   | Some (res_ok, gbp, eur) \<Rightarrow> if \<not> res_ok then Inl STR ''Frankfurter request failed''
       else (case (gbp, eur) of (Some g, Some u) \<Rightarrow> Inr (g, u)
         | _ \<Rightarrow> Inl STR ''Frankfurter response missing GBP/EUR rates''))"

definition fetch_rates ::
  "int \<Rightarrow> int \<Rightarrow> (bool \<times> rat option \<times> rat option) option \<Rightarrow> fx_state \<Rightarrow> cached_rates option \<times> fx_state" where
  "fetch_rates t delay answer s =
     (case settle_execute (execute fx_breaker t delay (frankfurter_rates answer) (fs_breaker s)) of
        (Inr (g, u), b) \<Rightarrow> (let c = \<lparr>fr_gbp = g, fr_eur = u, fr_fetched = t + delay\<rparr> in (Some c, \<lparr>fs_cache = Some c, fs_breaker = b\<rparr>))
      | (Inl _, b) \<Rightarrow> (None, s\<lparr>fs_breaker := b\<rparr>))"

definition fresh :: "int \<Rightarrow> cached_rates \<Rightarrow> bool" where
  "fresh t c \<longleftrightarrow> t - fr_fetched c < cache_ttl_ms"

definition getRate ::
  "billing_currency \<Rightarrow> int \<Rightarrow> int \<Rightarrow> (bool \<times> rat option \<times> rat option) option \<Rightarrow> fx_state \<Rightarrow> (error + rat) \<times> fx_state" where
  "getRate to t delay answer s =
     (if \<exists>c \<in> set_option (fs_cache s). fresh t c then (Inr (rate_in to (the (fs_cache s))), s)
      else (case fetch_rates t delay answer s of
        (Some c, s') \<Rightarrow> (Inr (rate_in to c), s')
      | (None, s') \<Rightarrow> (case fs_cache s of
          Some c \<Rightarrow> (Inr (rate_in to c), s')
        | None \<Rightarrow> (Inl (Internal STR ''Exchange rate is temporarily unavailable''), s'))))"

section \<open>The production environment\<close>

definition known_dev_defaults :: "(String.literal \<times> string) list" where
  "known_dev_defaults = [(STR ''JWT_ACCESS_SECRET'', ''change-me-access-secret''),
     (STR ''JWT_REFRESH_SECRET'', ''change-me-refresh-secret''),
     (STR ''WHATSAPP_WEBHOOK_SECRET'', ''change-me-whatsapp-webhook-secret'')]"

definition min_secret_length :: nat where
  "min_secret_length = 32"

datatype env_problem = Not_Set String.literal | Dev_Default String.literal | Too_Short String.literal

definition secret_problem :: "(String.literal \<Rightarrow> string option) \<Rightarrow> String.literal \<times> string \<Rightarrow> env_problem list" where
  "secret_problem vars kd = (case secret_key (vars (fst kd)) of
     None \<Rightarrow> [Not_Set (fst kd)]
   | Some v \<Rightarrow> if v = snd kd then [Dev_Default (fst kd)]
       else if fst kd \<noteq> STR ''WHATSAPP_WEBHOOK_SECRET'' \<and> length v < min_secret_length then [Too_Short (fst kd)]
       else [])"

text \<open>Every problem is collected before the start is refused.\<close>

definition env_problems :: "(String.literal \<Rightarrow> string option) \<Rightarrow> env_problem list" where
  "env_problems vars = concat (map (secret_problem vars) known_dev_defaults)
     @ (if secret_key (vars STR ''DATABASE_URL'') = None then [Not_Set STR ''DATABASE_URL''] else [])
     @ (if secret_key (vars STR ''CORS_ORIGIN'') = None then [Not_Set STR ''CORS_ORIGIN''] else [])"

definition validateProductionEnv :: "(String.literal \<Rightarrow> string option) \<Rightarrow> env_problem list + unit" where
  "validateProductionEnv vars =
     (if vars STR ''NODE_ENV'' \<noteq> Some ''production'' then Inr ()
      else if env_problems vars \<noteq> [] then Inl (env_problems vars) else Inr ())"

section \<open>Lemmas\<close>

text \<open>A rate is only ever one the provider has reported: in this call or in the one the cache comes from.\<close>

lemma settle_execute_Inr: "settle_execute (execute c t delay answer b) = (Inr v, b') \<Longrightarrow> answer = Inr v"
  by (auto simp: settle_execute_def execute_def withTimeout_def split: prod.splits sum.splits option.splits if_splits)

lemma fetch_rates_cases:
  obtains g u b where "frankfurter_rates answer = Inr (g, u)"
    "fetch_rates t delay answer s = (Some \<lparr>fr_gbp = g, fr_eur = u, fr_fetched = t + delay\<rparr>,
      \<lparr>fs_cache = Some \<lparr>fr_gbp = g, fr_eur = u, fr_fetched = t + delay\<rparr>, fs_breaker = b\<rparr>)"
  | b where "fetch_rates t delay answer s = (None, s\<lparr>fs_breaker := b\<rparr>)"
proof (cases "settle_execute (execute fx_breaker t delay (frankfurter_rates answer) (fs_breaker s))")
  case (Pair r b)
  then show thesis
    using that settle_execute_Inr [of fx_breaker t delay "frankfurter_rates answer" "fs_breaker s"]
    by (cases r) (auto simp: fetch_rates_def Let_def)
qed

lemma getRate_sound:
  assumes "getRate to t delay answer s = (Inr r, s')"
  shows "(\<exists>c. fs_cache s = Some c \<and> r = rate_in to c \<and> fs_cache s' = Some c)
    \<or> (\<exists>g u. frankfurter_rates answer = Inr (g, u) \<and> r = (if to = BC_GBP then g else u)
        \<and> fs_cache s' = Some \<lparr>fr_gbp = g, fr_eur = u, fr_fetched = t + delay\<rparr>)"
  using assms
  by (cases rule: fetch_rates_cases [of answer t delay s])
    (auto simp: getRate_def rate_in_def split: option.splits if_splits)

lemma getRate_fails: "fst (getRate to t delay answer s) = Inl err \<Longrightarrow> fs_cache s = None"
  by (cases rule: fetch_rates_cases [of answer t delay s]) (auto simp: getRate_def split: option.splits if_splits)

lemma secret_problem_Nil: "secret_problem vars (k, dflt) = [] \<longleftrightarrow>
    (\<exists>v. secret_key (vars k) = Some v \<and> v \<noteq> dflt \<and> (k = STR ''WHATSAPP_WEBHOOK_SECRET'' \<or> min_secret_length \<le> length v))"
  by (auto simp: secret_problem_def not_less split: option.split)

lemma validateProductionEnv_Inr:
  assumes "validateProductionEnv vars = Inr ()" "vars STR ''NODE_ENV'' = Some ''production''" "(k, dflt) \<in> set known_dev_defaults"
  obtains v where "secret_key (vars k) = Some v" "v \<noteq> dflt" "k = STR ''WHATSAPP_WEBHOOK_SECRET'' \<or> min_secret_length \<le> length v"
proof -
  have "env_problems vars = []" using assms(1,2) unfolding validateProductionEnv_def by (auto split: if_splits)
  then have "secret_problem vars (k, dflt) = []" using assms(3) unfolding env_problems_def append_is_Nil_conv concat_eq_Nil_conv by auto
  then show thesis using that secret_problem_Nil by blast
qed

end
