(* ===== verification/Arrival.thy ===== *)
theory Arrival
  imports State_Machines
begin

text \<open>
  Transport and accommodation arrangements of an arrival case
  (\<open>src/backend/src/arrival/arrival.service.ts\<close>). The arrival profile is a row of plain columns that no
  other operation reads; it is not modelled.
\<close>

definition requireArrivalCase :: "nat \<Rightarrow> db \<Rightarrow> service_case result" where
  "requireArrivalCase caseId d = (case find_unique (cases d) caseId of
     None \<Rightarrow> throw (Not_Found STR ''Case not found'') d
   | Some c \<Rightarrow> if c_service_type c \<noteq> ST_ARRIVAL_SUPPORT
       then throw (Bad_Request STR ''This case is not an ASOJU Arrival case'') d
       else return c d)"

definition listArrangements :: "nat \<Rightarrow> db \<Rightarrow> (nat \<times> arrangement) list result" where
  "listArrangements caseId d = and_then (requireArrivalCase caseId d)
     (\<lambda>_ d. return (find_many (\<lambda>_ a. aa_case a = caseId) (arrangements d)) d)"

definition createArrangement :: "actor \<Rightarrow> nat \<Rightarrow> arrangement_type \<Rightarrow> string option \<Rightarrow> db \<Rightarrow> nat result" where
  "createArrangement ac caseId type detail d = and_then (requireArrivalCase caseId d) (\<lambda>_ d.
     (let aid = t_next (arrangements d)
      in return aid
        (audit_record (Some caseId) (Some (act_id ac)) By_User STR ''arrival_arrangement.created''
           [(STR ''arrangementId'', J_Id aid), (STR ''type'', J_Arrangement_Type type)]
         (d\<lparr>arrangements := insert_row \<lparr>aa_case = caseId, aa_type = type, aa_status = AA_REQUESTED, aa_detail = detail,
            aa_note = None, aa_updated_by = Some (act_id ac)\<rparr> (arrangements d)\<rparr>))))"

definition transitionArrangement ::
  "actor \<Rightarrow> nat \<Rightarrow> nat \<Rightarrow> arrangement_status \<Rightarrow> string option \<Rightarrow> string option \<Rightarrow> db \<Rightarrow> unit result" where
  "transitionArrangement ac caseId arrangementId status detail remark d =
     and_then (requireArrivalCase caseId d) (\<lambda>_ d. case find_unique (arrangements d) arrangementId of
       None \<Rightarrow> throw (Not_Found STR ''Arrival arrangement not found on this case'') d
     | Some a \<Rightarrow>
       if aa_case a \<noteq> caseId then throw (Not_Found STR ''Arrival arrangement not found on this case'') d
       else (case assertValidArrangementTransition (aa_status a) status remark of
         Inl err \<Rightarrow> throw err d
       | Inr () \<Rightarrow> return ()
         (audit_record (Some caseId) (Some (act_id ac)) By_User STR ''arrival_arrangement.transitioned''
            [(STR ''arrangementId'', J_Id arrangementId), (STR ''fromStatus'', J_Arrangement (aa_status a)),
             (STR ''toStatus'', J_Arrangement status), (STR ''note'', json_option J_Text remark)]
          (d\<lparr>arrangements := update_row arrangementId (\<lambda>r. r\<lparr>aa_status := status,
             aa_detail := (case detail of Some x \<Rightarrow> Some x | None \<Rightarrow> aa_detail r),
             aa_note := remark, aa_updated_by := Some (act_id ac)\<rparr>) (arrangements d)\<rparr>))))"

lemma requireArrivalCase_Inr [simp]:
  "requireArrivalCase k d = (Inr c, d') \<longleftrightarrow> d' = d \<and> find_unique (cases d) k = Some c \<and> c_service_type c = ST_ARRIVAL_SUPPORT"
  by (auto simp: requireArrivalCase_def split: option.split if_splits)

lemma requireArrivalCase_snd [simp]: "snd (requireArrivalCase k d) = d"
  by (simp add: requireArrivalCase_def split: option.split)

end
