(* ===== verification/Spec2Isabelle.thy ===== *)
theory Spec2Isabelle
  imports Case_Properties Commerce_Properties Payment_Properties Wallet_Properties Breaker_Properties Field_Properties
    Service_Properties Account_Properties Workflow_Properties Customer_Properties Concierge_Properties View_Properties
    Ff_Outbox_Properties Ff_Money_Properties Ff_Sync_Properties Gateways Arrival
begin

text \<open>
  Verification of the ASOJU platform: its backend (\<open>src/backend/src\<close>), and of the FieldForce application
  (\<open>src/fieldforce\<close>) the parts that move money or promise delivery.

  \<^bold>\<open>The program.\<close> ASOJU runs errands and property services in Nigeria for customers abroad. A customer
  sends a request, which staff or the automation turns into a case; the case is scoped, quoted, paid,
  scheduled, worked on in the field, reviewed and completed. Around this line the backend keeps the
  money (payments through Paystack, refunds, memberships with service credits, the agents' wallets over
  a double-entry ledger), the field work (assignments with a geofenced check-in, evidence and quality
  control, location tracking, SOS alerts), the people (accounts and sessions, customers and
  beneficiaries, agents, providers, partners) and the reports on all of it. It is a NestJS application:
  every service reads and writes one PostgreSQL database through Prisma and calls other services. FieldForce,
  the agents' application, is a Next.js program with a database of its own: a ledger and wallets, payouts through
  Paystack, an outbox of events and a queue of mutations made offline.

  \<^bold>\<open>The model.\<close> The database is one record \<open>db\<close> of tables (theory Schema, after
  \<open>backend/prisma/schema.prisma\<close>); a row's id is its number in the table, and the order of insertion is
  the order of \<open>createdAt\<close>. The clock, the environment variables and everything that is not under
  \<open>src/\<close> (Paystack, the object store, hashes, random bytes, exchange rates, the signing of tokens) are
  fields of the records \<open>env\<close> and \<open>auth_config\<close>, so every statement holds for whatever they answer. An
  operation maps the state to an error or a value and the new state (\<open>'a result\<close>); a thrown exception
  is an \<open>Inl\<close> with the writes made before it still in place, because the services do not run in a
  transaction unless the code says so (\<open>transactional\<close>). An operation is one step of the model: requests that
  overlap inside an operation are not modelled, except where a theory says so (the circuit breaker's calls, the
  quote after the confirmation of a scope). Rows that an \<open>include\<close> needs and does not find,
  broken foreign keys and violated unique constraints are \<open>Internal\<close> errors, as the HTTP layer answers
  them. Error messages keep their fixed part.

  Amounts are rationals: the code computes with IEEE doubles and stores \<open>Decimal\<close> columns, which round to
  two or four places (\<open>dec2\<close>, \<open>dec4\<close>) at the same points here; the rounding of the doubles in between is
  idealised. Times are milliseconds. Distances are the real numbers that the floating-point functions
  approximate. The 32-bit arithmetic of the one-time passwords is on words.

  \<^bold>\<open>The theories.\<close>
  \<^item> Prelude: JavaScript's and Prisma's primitives (\<open>Math.round\<close>, \<open>trim\<close>, \<open>findUnique\<close>, \<open>updateMany\<close>),
    tables and the laws of their operations. Schema: rows, enums, errors, the state and the environment.
    Tally: counting by key. Sample: the small database the witnesses run on.
  \<^item> Audit_Log, Notifications: \<open>audit/audit.service.ts\<close>, \<open>notifications/notifications.service.ts\<close>.
  \<^item> State_Machines, Catalogue: the status maps of cases, arrivals and providers; families, checklists
    and service levels (\<open>cases/case-state-machine.ts\<close> and its neighbours).
  \<^item> Idempotency, Automation, Intake: idempotency keys, the rule evaluator with its escalations, and the
    way of a request to a case (\<open>common/idempotency\<close>, \<open>automation\<close>, \<open>escalation\<close>, \<open>cases/cases.service.ts\<close>).
  \<^item> Cases, Lifecycle, Workflow: every operation of \<open>CasesService\<close> that changes a case; the abstract machine
    of statuses a case moves through; the step relation of the whole backend over it. Case_Views: the list
    of cases, the file of a case by role and the cached report (\<open>beneficiary-case-view\<close>, \<open>case-report-pdf\<close>).
  \<^item> Scope, Pricing, Quotes, Auto_Quote, Payments: \<open>scope\<close>, \<open>pricing-engine\<close> and the two halves of
    \<open>commerce/commerce.service.ts\<close>, with the route that confirms a scope and may quote the case by itself, the
    webhook, the verification poll, refunds and reconciliation.
  \<^item> Gateways: the Paystack client, the exchange rates with their cache and breaker, the guards of the
    webhooks and the start-up check of the environment, over the HTTP answers as parameters.
  \<^item> Sc_Ledger, Membership, Billing: service credits, benefits and the billing of subscriptions (\<open>concierge\<close>).
  \<^item> Wallet: the agents' wallets and the double-entry ledger (\<open>agent-wallet\<close>).
  \<^item> Circuit_Breaker: \<open>common/resilience/circuit-breaker.ts\<close>, with the calls and the clock as steps.
  \<^item> Geofence, Assignments, Evidence, Risk, Tiering, Trust, Ratings, Tracking, Sos, Recurring, Arrival, Vault,
    Planning: the field work, one theory for each service.
  \<^item> Totp, Auth, Access: one-time passwords, accounts and sessions, and the guards of the routes.
  \<^item> Profile, Account_Groups, Relay, Onboarding, Reports: what customers keep about themselves, groups and
    partners, the beneficiary's thread and the documents of a case, agents and providers, automation rules
    and the figures of the business.
  \<^item> Concierge: the AI concierge, its knowledge base and its WhatsApp channel (\<open>ai\<close>, \<open>ai-knowledge\<close>, \<open>whatsapp\<close>).
  \<^item> Ff_Ledger, Ff_Payouts, Ff_Outbox, Ff_Sync: of FieldForce the double-entry ledger (\<open>lib/ledger.ts\<close>), earnings,
    payouts and their webhook (\<open>lib/paystack.ts\<close> and three routes), the outbox (\<open>lib/outbox.ts\<close>) and the
    synchronisation of offline mutations (\<open>lib/sync-protocol.ts\<close>). Each has a state of its own; amounts are integers, as
    in its schema.
  \<^item> The theories named \<open>_Properties\<close> hold the properties, numbered C1 to C40, and their witnesses.

  \<^bold>\<open>What is shown.\<close> The properties follow the life of a case. The status machine: exact effect of a
  transition (C1), hold and resume (C2), and for the whole system refinement of the abstract machine with
  the history as its trace (C38), the invariant of the case records (C39) and the payment stage that no
  case skips (C40). Money: webhooks are idempotent and exact on every branch (C3, C4), refunds stay within the
  payment (C5) and need a second person (C6), the ledger owes every agent what the wallet has (C18), also
  in FieldForce (C19), sweeps touch what is due and nothing else (C16). What a case shows whom (C7, C8). Work in the
  field, sessions, scores and reports: one or two properties for each service. Where the code does something its
  comments do not intend, the theorem states what it does (C10, C11, C17, C21, C37 and branches of C24 and C28, and the
  unnumbered theorems of the FieldForce theories on payouts and offline mutations), and the manifest lists it as a
  finding.

  The lemmas are grouped by what they carry: \<open>lifecycle_\<close> lemmas say which operations leave the lifecycle of
  the cases alone or move one case along an edge; \<open>_frame\<close> and \<open>_cong\<close> lemmas say which tables an operation
  touches and which a quantity depends on; \<open>_Inr\<close> and \<open>_Inl\<close> lemmas take an operation apart by outcome.
  Four contracts are locales, each interpreted on the code's own definitions: a table as a row store
  (Prelude), the protocol of idempotency keys (Idempotency), an account of credits that is debited up to
  its balance (Sc_Ledger), and a status machine with its refusals (State_Machines, three times).

  \<^bold>\<open>Termination and bounds.\<close> Every loop of the modelled code runs over a list read before it (the sweeps,
  the rule evaluation, the tax bands, the batches of the outbox and of a synchronisation), so it is structural
  recursion and needs no fuel. The one loop with
  a bound of its own, the search for a free referral code, tries five random codes at most.

  \<^bold>\<open>Not modelled.\<close> Controllers, modules, DTO validation and the bootstrap are glue of the framework. The
  HTTP calls to Paystack, the WhatsApp provider, the mail provider, the speech service and the language
  model, and the presigning of object URLs, are parameters or left out where nothing of them reaches the
  database. Drawing the PDF report and the texts of prompts and e-mails carry no state.
  Bucketing the wallet entries by calendar month depends on the server's time zone. The web frontend
  (\<open>src/frontend\<close>) is a client of this backend. The rest of FieldForce (missions, quality control, geofence, care
  plans, SOS, custody of evidence, sign-in, pages) repeats the backend's domain and is left out.
\<close>

end
